(* ===== verification/GoPrelude.thy ===== *)
theory GoPrelude
  imports Complex_Main "HOL-Library.List_Lexorder" "HOL-Library.Char_ord" "HOL-Library.Multiset"
begin

text \<open>
  The prelude of the development: the Go values and the standard-library operations that
  the modelled packages share.

  \<^item> A Go \<open>string\<close> is a HOL \<open>string\<close> (a list of bytes). The order on strings is Go's
    bytewise order (\<open>List_Lexorder\<close> over \<open>Char_ord\<close>), so \<open>sort.Strings\<close> is HOL's \<open>sort\<close>.
    \<open>strings.TrimSpace\<close> and \<open>strings.ToLower\<close> are written out for ASCII; the multi-byte
    white space and letters of Unicode are left as they are.
  \<^item> \<open>time.Time\<close> is the number of nanoseconds since Go's zero time, an \<open>int\<close>; the zero
    time is 0. \<open>time.Duration\<close> is an \<open>int\<close> of nanoseconds. UTC conversion does not change
    the instant, so \<open>UTC()\<close> has no counterpart.
  \<^item> An \<open>error\<close> result is \<open>None\<close> for nil; a pair \<open>(value, error)\<close> is a sum, with the error
    on the left.
  \<^item> A Go \<open>int\<close> or \<open>int64\<close> is an \<open>int\<close>; where the code adds or multiplies values it does not
    bound, the result is wrapped to 64 bits (\<open>wrap64\<close>).
\<close>

section \<open>Types shared by the components\<close>

type_synonym go_time = int
type_synonym duration = int

definition second :: duration where
  "second = 1000000000"

definition minute :: duration where
  "minute = 60 * second"

definition hour :: duration where
  "hour = 60 * minute"

definition is_zero_time :: "go_time \<Rightarrow> bool" where
  "is_zero_time t \<longleftrightarrow> t = 0"

named_theorems go_simps \<open>unfolding rules for the small Go operations\<close>

lemmas duration_defs = second_def minute_def hour_def
declare is_zero_time_def [go_simps]

section \<open>Strings\<close>

definition is_space :: "char \<Rightarrow> bool" where
  "is_space c \<longleftrightarrow> of_char c \<in> set [9, 10, 11, 12, 13, 32 :: nat]"

definition trim_left :: "string \<Rightarrow> string" where
  "trim_left s = dropWhile is_space s"

definition trim_space :: "string \<Rightarrow> string" where
  "trim_space s = rev (trim_left (rev (trim_left s)))"

definition lower_char :: "char \<Rightarrow> char" where
  "lower_char c =
     (if 65 \<le> (of_char c :: nat) \<and> (of_char c :: nat) \<le> 90
      then char_of ((of_char c :: nat) + 32) else c)"

definition to_lower :: "string \<Rightarrow> string" where
  "to_lower s = map lower_char s"

definition has_prefix :: "string \<Rightarrow> string \<Rightarrow> bool" where
  "has_prefix s p \<longleftrightarrow> take (length p) s = p"

definition has_suffix :: "string \<Rightarrow> string \<Rightarrow> bool" where
  "has_suffix s p \<longleftrightarrow> has_prefix (rev s) (rev p)"

definition trim_prefix :: "string \<Rightarrow> string \<Rightarrow> string" where
  "trim_prefix s p = (if has_prefix s p then drop (length p) s else s)"

definition trim_suffix :: "string \<Rightarrow> string \<Rightarrow> string" where
  "trim_suffix s p = (if has_suffix s p then take (length s - length p) s else s)"

fun contains_sub :: "string \<Rightarrow> string \<Rightarrow> bool" where
  "contains_sub [] p \<longleftrightarrow> p = []"
| "contains_sub (c # cs) p \<longleftrightarrow> has_prefix (c # cs) p \<or> contains_sub cs p"

text \<open>\<open>strings.Split\<close> for a separator of one character: always at least one part.\<close>

fun split_char :: "char \<Rightarrow> string \<Rightarrow> string list" where
  "split_char sep [] = [[]]"
| "split_char sep (c # cs) =
     (if c = sep then [] # split_char sep cs
      else (case split_char sep cs of [] \<Rightarrow> [[c]] | p # ps \<Rightarrow> (c # p) # ps))"

text \<open>\<open>strings.Cut\<close> at the first occurrence of one character.\<close>

fun cut_char :: "char \<Rightarrow> string \<Rightarrow> (string \<times> string) option" where
  "cut_char sep [] = None"
| "cut_char sep (c # cs) =
     (if c = sep then Some ([], cs)
      else (case cut_char sep cs of None \<Rightarrow> None | Some (a, b) \<Rightarrow> Some (c # a, b)))"

definition replace_char :: "char \<Rightarrow> char \<Rightarrow> string \<Rightarrow> string" where
  "replace_char a b s = map (\<lambda>c. if c = a then b else c) s"

fun join_with :: "string \<Rightarrow> string list \<Rightarrow> string" where
  "join_with sep [] = []"
| "join_with sep [x] = x"
| "join_with sep (x # y # zs) = x @ sep @ join_with sep (y # zs)"

text \<open>\<open>strings.Trim\<close> with a cutset of one character.\<close>

definition trim_char :: "char \<Rightarrow> string \<Rightarrow> string" where
  "trim_char c s = rev (dropWhile (\<lambda>x. x = c) (rev (dropWhile (\<lambda>x. x = c) s)))"

text \<open>\<open>strconv.ParseInt(s, 10, 64)\<close>: an optional sign and decimal digits, within 64 bits.\<close>

definition digit_value :: "char \<Rightarrow> int option" where
  "digit_value c =
     (let n = (of_char c :: int) in if 48 \<le> n \<and> n \<le> 57 then Some (n - 48) else None)"

fun parse_digits :: "int \<Rightarrow> string \<Rightarrow> int option" where
  "parse_digits acc [] = Some acc"
| "parse_digits acc (c # cs) =
     (case digit_value c of None \<Rightarrow> None | Some d \<Rightarrow> parse_digits (10 * acc + d) cs)"

definition in_int64 :: "int \<Rightarrow> int option" where
  "in_int64 n = (if - (2 ^ 63) \<le> n \<and> n < 2 ^ 63 then Some n else None)"

definition parse_int64 :: "string \<Rightarrow> int option" where
  "parse_int64 s =
     (let negative = (take 1 s = ''-'');
          digits = (if negative \<or> take 1 s = ''+'' then drop 1 s else s)
      in if digits = [] then None
         else (case parse_digits 0 digits of
                 None \<Rightarrow> None
               | Some n \<Rightarrow> in_int64 (if negative then - n else n)))"

text \<open>The digits that \<open>hex.DecodeString\<close> accepts.\<close>

definition hex_digit :: "char \<Rightarrow> bool" where
  "hex_digit c \<longleftrightarrow> (let n = (of_char c :: int) in 48 \<le> n \<and> n \<le> 57 \<or> 97 \<le> n \<and> n \<le> 102 \<or> 65 \<le> n \<and> n \<le> 70)"

text \<open>Two's complement arithmetic on 64 bits.\<close>

definition wrap64 :: "int \<Rightarrow> int" where
  "wrap64 n = (n + 2 ^ 63) mod 2 ^ 64 - 2 ^ 63"

lemma wrap64_id [simp]: "- (2 ^ 63) \<le> n \<Longrightarrow> n < 2 ^ 63 \<Longrightarrow> wrap64 n = n"
  by (simp add: wrap64_def)

lemma wrap64_over: "2 ^ 63 \<le> n \<Longrightarrow> n < 2 ^ 64 \<Longrightarrow> wrap64 n = n - 2 ^ 64"
proof -
  assume "2 ^ 63 \<le> n" "n < 2 ^ 64"
  then have "(n - 2 ^ 63) mod 2 ^ 64 = n - 2 ^ 63" by (intro mod_pos_pos_trivial) auto
  moreover have "(n + 2 ^ 63) mod 2 ^ 64 = (n - 2 ^ 63) mod 2 ^ 64"
    using mod_add_self2 [of "n - 2 ^ 63" "2 ^ 64 :: int"] by (simp add: algebra_simps)
  ultimately show ?thesis by (simp add: wrap64_def)
qed

lemma split_char_not_Nil [simp]: "split_char sep s \<noteq> []"
  by (induction s) (auto split: list.splits)

lemma length_to_lower [simp]: "length (to_lower s) = length s"
  by (simp add: to_lower_def)

lemma to_lower_Nil [simp]: "to_lower [] = []"
  by (simp add: to_lower_def)

lemma trim_space_Nil [simp]: "trim_space [] = []"
  by (simp add: trim_space_def trim_left_def)

lemma has_prefix_Nil [simp]: "has_prefix s []"
  by (simp add: has_prefix_def)

lemma has_prefix_append [simp]: "has_prefix (p @ s) p"
  by (simp add: has_prefix_def)

lemma has_prefixE: "has_prefix s p \<Longrightarrow> \<exists>t. s = p @ t"
  unfolding has_prefix_def by (metis append_take_drop_id)

lemma cut_char_Some: "cut_char sep s = Some (a, b) \<Longrightarrow> s = a @ sep # b \<and> sep \<notin> set a"
  by (induction s arbitrary: a) (auto split: if_splits option.splits)

lemma cut_char_None: "cut_char sep s = None \<longleftrightarrow> sep \<notin> set s"
  by (induction s) (auto split: if_splits option.splits)

lemma join_split_char: "join_with [sep] (split_char sep s) = s"
proof (induction s)
  case Nil
  then show ?case by simp
next
  case (Cons c cs)
  then show ?case
    by (cases "split_char sep cs" rule: list.exhaust;
        cases "tl (split_char sep cs)") auto
qed

lemma cut_char_append: "sep \<notin> set a \<Longrightarrow> cut_char sep (a @ sep # b) = Some (a, b)"
  by (induction a) auto

lemma trim_space_id:
  "s = [] \<or> (\<not> is_space (hd s) \<and> \<not> is_space (last s)) \<Longrightarrow> trim_space s = s"
proof (induction s rule: rev_induct)
  case (snoc x xs)
  have left: "trim_left (xs @ [x]) = xs @ [x]"
    using snoc.prems by (cases xs) (auto simp: trim_left_def)
  show ?case using snoc.prems unfolding trim_space_def left by (simp add: trim_left_def)
qed simp

lemma split_char_single: "sep \<notin> set x \<Longrightarrow> split_char sep x = [x]"
  by (induction x) auto

lemma split_char_append: "sep \<notin> set x \<Longrightarrow> split_char sep (x @ sep # s) = x # split_char sep s"
  by (induction x) auto

section \<open>Slices, duplicates and deterministic sorting\<close>

text \<open>The loop that looks a value up in a slice (\<open>containsString\<close>, \<open>slices.Contains\<close>).\<close>

fun contains_elem :: "'a list \<Rightarrow> 'a \<Rightarrow> bool" where
  "contains_elem [] x \<longleftrightarrow> False"
| "contains_elem (y # ys) x \<longleftrightarrow> y = x \<or> contains_elem ys x"

lemma contains_elem_iff [simp]: "contains_elem xs x \<longleftrightarrow> x \<in> set xs"
  by (induction xs) auto

text \<open>
  A Go map that is only filled by \<open>m[key(x)] = x\<close> from a slice, the first entry kept or
  refused by the caller: looking a key up finds the first element with that key.
\<close>

definition first_by :: "('a \<Rightarrow> 'k) \<Rightarrow> 'a list \<Rightarrow> 'k \<Rightarrow> 'a option" where
  "first_by key xs k = find (\<lambda>x. key x = k) xs"

lemma first_by_Some: "first_by key xs k = Some x \<Longrightarrow> x \<in> set xs \<and> key x = k"
  by (auto simp: first_by_def find_Some_iff)

lemma first_by_None: "first_by key xs k = None \<longleftrightarrow> k \<notin> key ` set xs"
  by (auto simp: first_by_def find_None_iff)

lemma first_by_distinct:
  "distinct (map key xs) \<Longrightarrow> x \<in> set xs \<Longrightarrow> first_by key xs (key x) = Some x"
  by (induction xs) (auto simp: first_by_def)

lemma first_by_perm:
  assumes "mset xs = mset ys" "distinct (map key xs)"
  shows "first_by key xs k = first_by key ys k"
proof -
  have d: "distinct (map key ys)" and s: "set xs = set ys"
    using assms by (metis mset_map mset_eq_imp_distinct_iff, metis set_mset_mset)
  show ?thesis
  proof (cases "first_by key xs k")
    case None
    then show ?thesis using s by (metis first_by_None)
  next
    case (Some x)
    then have "x \<in> set ys" "key x = k" using first_by_Some s by fastforce+
    then show ?thesis using first_by_distinct [OF d] Some by metis
  qed
qed

text \<open>The first element that repeats an earlier key, as the \<open>seen\<close> loops find it.\<close>

fun first_duplicate :: "'k list \<Rightarrow> 'k list \<Rightarrow> 'k option" where
  "first_duplicate seen [] = None"
| "first_duplicate seen (k # ks) =
     (if contains_elem seen k then Some k else first_duplicate (k # seen) ks)"

lemma first_duplicate_None_gen:
  "first_duplicate seen ks = None \<longleftrightarrow> distinct ks \<and> set ks \<inter> set seen = {}"
  by (induction ks arbitrary: seen) auto

lemma first_duplicate_None: "first_duplicate [] ks = None \<longleftrightarrow> distinct ks"
  by (simp add: first_duplicate_None_gen)

text \<open>A slice sorted by \<open>sort.Strings\<close> depends only on which strings it holds and how often.\<close>

lemma sort_strings_perm:
  fixes xs ys :: "string list"
  shows "mset xs = mset ys \<Longrightarrow> sort xs = sort ys"
  by (metis properties_for_sort mset_sort sorted_sort)

lemma sort_key_Nil_iff [simp]: "sort_key f xs = [] \<longleftrightarrow> xs = []"
  by (metis length_0_conv length_sort)

lemma sort_key_unique:
  assumes "mset xs = mset ys" "distinct (map f xs)"
  shows "sort_key f xs = sort_key f ys"
proof (rule sort_key_inj_key_eq)
  show "mset xs = mset (sort_key f ys)" using assms(1) by simp
  show "inj_on f (set xs)" using assms(2) by (simp add: distinct_map)
  show "sorted (map f (sort_key f ys))" by simp
qed

section \<open>Results\<close>

definition is_ok :: "'e + 'a \<Rightarrow> bool" where
  "is_ok r = (case r of Inl _ \<Rightarrow> False | Inr _ \<Rightarrow> True)"

lemma is_ok_simps [simp]: "is_ok (Inr x)" "\<not> is_ok (Inl e)"
  by (simp_all add: is_ok_def)

text \<open>\<open>first_error\<close> is a sequence of checks that return at the first error.\<close>

fun first_error :: "('e option) list \<Rightarrow> 'e option" where
  "first_error [] = None"
| "first_error (None # es) = first_error es"
| "first_error (Some e # es) = Some e"

lemma first_error_None [simp]: "first_error es = None \<longleftrightarrow> (\<forall>e \<in> set es. e = None)"
  by (induction es rule: first_error.induct) auto

lemma first_error_append:
  "first_error (xs @ ys) = (case first_error xs of None \<Rightarrow> first_error ys | Some e \<Rightarrow> Some e)"
  by (induction xs rule: first_error.induct) auto

text \<open>\<open>and_then\<close> continues after a call that returned no error.\<close>

definition and_then :: "'e + 'a \<Rightarrow> ('a \<Rightarrow> 'e + 'b) \<Rightarrow> 'e + 'b" where
  "and_then r f = (case r of Inl e \<Rightarrow> Inl e | Inr a \<Rightarrow> f a)"

lemma and_then_simps [simp]: "and_then (Inl e) f = Inl e" "and_then (Inr a) f = f a"
  by (simp_all add: and_then_def)

lemma and_then_Inr: "and_then r f = Inr b \<longleftrightarrow> (\<exists>a. r = Inr a \<and> f a = Inr b)"
  by (cases r) auto

text \<open>Rows of a table: \<open>UPDATE t SET f WHERE cond\<close>.\<close>

definition update_where :: "('r \<Rightarrow> bool) \<Rightarrow> ('r \<Rightarrow> 'r) \<Rightarrow> 'r list \<Rightarrow> 'r list" where
  "update_where cond f rows = map (\<lambda>r. if cond r then f r else r) rows"

lemma map_update_where:
  "(\<And>r. key (f r) = key r) \<Longrightarrow> map key (update_where cond f rows) = map key rows"
  by (simp add: update_where_def)

lemma set_update_where: "set (update_where cond f rows) = (\<lambda>r. if cond r then f r else r) ` set rows"
  by (simp add: update_where_def)

lemma first_by_update_where:
  assumes "\<And>r. key (f r) = key r"
  shows "first_by key (update_where cond f rows) k =
         map_option (\<lambda>r. if cond r then f r else r) (first_by key rows k)"
  by (induction rows) (auto simp: first_by_def update_where_def assms)

lemma first_by_update_other:
  assumes "\<And>r. key (f r) = key r" "\<And>r. cond r \<Longrightarrow> key r \<noteq> k"
  shows "first_by key (update_where cond f rows) k = first_by key rows k"
proof (cases "first_by key rows k")
  case (Some r)
  then have "key r = k" by (simp add: first_by_def find_Some_iff) blast
  then show ?thesis using Some assms by (auto simp: first_by_update_where)
qed (simp add: first_by_update_where assms(1))

lemma first_by_append:
  "first_by key (xs @ ys) k = (case first_by key xs k of None \<Rightarrow> first_by key ys k | Some x \<Rightarrow> Some x)"
  by (induction xs) (auto simp: first_by_def)

lemma first_by_Nil [simp]: "first_by key [] k = None"
  by (simp add: first_by_def)

lemma first_by_Cons [simp]:
  "first_by key (x # xs) k = (if key x = k then Some x else first_by key xs k)"
  by (simp add: first_by_def)

end
