(* ===== verification/ReleaseState.thy ===== *)
theory ReleaseState
  imports GoPrelude
begin

text \<open>
  The persisted life cycles of the scanner supply chain (\<open>internal/scannerrelease/state.go\<close>):
  discovery runs, release candidates, build runs, releases and rollouts. Each aggregate has a
  datatype of its states, its transition table, the validation the repository runs before
  every update, and its terminal states. A state string that is none of the constants is
  kept in the last constructor, so that a corrupt row can be asked about too.
\<close>

section \<open>Errors\<close>

datatype 's transition_error = InvalidTransition string 's 's

section \<open>States\<close>

datatype discovery_state =
    DiscoveryQueued | DiscoveryResolving | DiscoveryComparing | DiscoveryProposing
  | DiscoveryCompleted | DiscoveryFailed | DiscoveryCancelled | DiscoveryOther string

datatype candidate_state =
    CandidateDraft | CandidateAwaitingDefinition | CandidateQueued | CandidateBuilding
  | CandidateTesting | CandidateSecurityReview | CandidateAwaitingApproval | CandidateApproved
  | CandidatePublishing | CandidatePublished | CandidateBlocked | CandidateRejected
  | CandidateFailed | CandidateOther string

datatype build_state =
    BuildQueued | BuildClaimed | BuildRunning | BuildCompleted | BuildFailed | BuildCancelled
  | BuildOther string

datatype release_state =
    ReleasePublished | ReleaseCandidateChannel | ReleaseCanary | ReleaseStable
  | ReleaseDeprecated | ReleaseRevoked | ReleaseOther string

datatype rollout_state =
    RolloutPending | RolloutPreparing | RolloutCanary | RolloutVerifying | RolloutRollingOut
  | RolloutCompleted | RolloutFailed | RolloutPaused | RolloutRollingBack | RolloutRolledBack
  | RolloutOther string

section \<open>Transition tables\<close>

text \<open>A Go map from a state to a slice of states: a missing key reads as the nil slice.\<close>

type_synonym 's transition_map = "'s \<Rightarrow> 's list"

fun discoveryTransitions :: "discovery_state transition_map" where
  "discoveryTransitions DiscoveryQueued = [DiscoveryResolving, DiscoveryFailed, DiscoveryCancelled]"
| "discoveryTransitions DiscoveryResolving = [DiscoveryComparing, DiscoveryFailed, DiscoveryCancelled]"
| "discoveryTransitions DiscoveryComparing = [DiscoveryProposing, DiscoveryFailed, DiscoveryCancelled]"
| "discoveryTransitions DiscoveryProposing = [DiscoveryCompleted, DiscoveryFailed, DiscoveryCancelled]"
| "discoveryTransitions _ = []"

fun candidateTransitions :: "candidate_state transition_map" where
  "candidateTransitions CandidateDraft =
     [CandidateAwaitingDefinition, CandidateQueued, CandidateRejected, CandidateFailed]"
| "candidateTransitions CandidateAwaitingDefinition =
     [CandidateQueued, CandidateRejected, CandidateFailed]"
| "candidateTransitions CandidateQueued =
     [CandidateBuilding, CandidateBlocked, CandidateRejected, CandidateFailed]"
| "candidateTransitions CandidateBuilding = [CandidateTesting, CandidateBlocked, CandidateFailed]"
| "candidateTransitions CandidateTesting =
     [CandidateSecurityReview, CandidateBlocked, CandidateFailed]"
| "candidateTransitions CandidateSecurityReview =
     [CandidateAwaitingApproval, CandidateBlocked, CandidateRejected, CandidateFailed]"
| "candidateTransitions CandidateAwaitingApproval =
     [CandidateApproved, CandidateRejected, CandidateBlocked, CandidateFailed]"
| "candidateTransitions CandidateApproved = [CandidatePublishing, CandidateFailed]"
| "candidateTransitions CandidatePublishing = [CandidatePublished, CandidateFailed]"
| "candidateTransitions CandidateBlocked =
     [CandidateQueued, CandidateSecurityReview, CandidateAwaitingApproval, CandidateRejected,
      CandidateFailed]"
| "candidateTransitions _ = []"

fun buildTransitions :: "build_state transition_map" where
  "buildTransitions BuildQueued = [BuildClaimed, BuildRunning, BuildCancelled, BuildFailed]"
| "buildTransitions BuildClaimed = [BuildRunning, BuildQueued, BuildCancelled, BuildFailed]"
| "buildTransitions BuildRunning = [BuildCompleted, BuildFailed, BuildCancelled]"
| "buildTransitions _ = []"

fun releaseTransitions :: "release_state transition_map" where
  "releaseTransitions ReleasePublished =
     [ReleaseCandidateChannel, ReleaseDeprecated, ReleaseRevoked]"
| "releaseTransitions ReleaseCandidateChannel =
     [ReleaseCanary, ReleaseStable, ReleaseDeprecated, ReleaseRevoked]"
| "releaseTransitions ReleaseCanary = [ReleaseStable, ReleaseDeprecated, ReleaseRevoked]"
| "releaseTransitions ReleaseStable = [ReleaseDeprecated, ReleaseRevoked]"
| "releaseTransitions ReleaseDeprecated = [ReleaseRevoked]"
| "releaseTransitions _ = []"

fun rolloutTransitions :: "rollout_state transition_map" where
  "rolloutTransitions RolloutPending =
     [RolloutPreparing, RolloutPaused, RolloutFailed, RolloutRollingBack]"
| "rolloutTransitions RolloutPreparing =
     [RolloutCanary, RolloutPaused, RolloutFailed, RolloutRollingBack]"
| "rolloutTransitions RolloutCanary =
     [RolloutVerifying, RolloutPaused, RolloutFailed, RolloutRollingBack]"
| "rolloutTransitions RolloutVerifying =
     [RolloutRollingOut, RolloutPaused, RolloutFailed, RolloutRollingBack]"
| "rolloutTransitions RolloutRollingOut =
     [RolloutCompleted, RolloutPaused, RolloutFailed, RolloutRollingBack]"
| "rolloutTransitions RolloutPaused =
     [RolloutPreparing, RolloutCanary, RolloutVerifying, RolloutRollingOut, RolloutFailed,
      RolloutRollingBack]"
| "rolloutTransitions RolloutFailed = [RolloutRollingBack]"
| "rolloutTransitions RolloutRollingBack = [RolloutRolledBack, RolloutFailed]"
| "rolloutTransitions _ = []"

section \<open>Validation\<close>

definition allows :: "'s transition_map \<Rightarrow> 's \<Rightarrow> 's \<Rightarrow> bool" where
  "allows m from_st to_st = contains_elem (m from_st) to_st"

definition validateTransition ::
  "string \<Rightarrow> 's transition_map \<Rightarrow> 's \<Rightarrow> 's \<Rightarrow> 's transition_error option" where
  "validateTransition aggregate m from_st to_st =
     (if from_st = to_st \<or> \<not> allows m from_st to_st
      then Some (InvalidTransition aggregate from_st to_st) else None)"

definition ValidateDiscoveryTransition ::
  "discovery_state \<Rightarrow> discovery_state \<Rightarrow> discovery_state transition_error option" where
  "ValidateDiscoveryTransition = validateTransition ''discovery'' discoveryTransitions"

definition ValidateCandidateTransition ::
  "candidate_state \<Rightarrow> candidate_state \<Rightarrow> candidate_state transition_error option" where
  "ValidateCandidateTransition = validateTransition ''candidate'' candidateTransitions"

definition ValidateBuildTransition ::
  "build_state \<Rightarrow> build_state \<Rightarrow> build_state transition_error option" where
  "ValidateBuildTransition = validateTransition ''build'' buildTransitions"

definition ValidateReleaseTransition ::
  "release_state \<Rightarrow> release_state \<Rightarrow> release_state transition_error option" where
  "ValidateReleaseTransition = validateTransition ''release'' releaseTransitions"

definition ValidateRolloutTransition ::
  "rollout_state \<Rightarrow> rollout_state \<Rightarrow> rollout_state transition_error option" where
  "ValidateRolloutTransition = validateTransition ''rollout'' rolloutTransitions"

definition IsTerminalDiscoveryState :: "discovery_state \<Rightarrow> bool" where
  "IsTerminalDiscoveryState st \<longleftrightarrow>
     st = DiscoveryCompleted \<or> st = DiscoveryFailed \<or> st = DiscoveryCancelled"

definition IsTerminalCandidateState :: "candidate_state \<Rightarrow> bool" where
  "IsTerminalCandidateState st \<longleftrightarrow>
     st = CandidatePublished \<or> st = CandidateRejected \<or> st = CandidateFailed"

definition IsTerminalBuildState :: "build_state \<Rightarrow> bool" where
  "IsTerminalBuildState st \<longleftrightarrow> st = BuildCompleted \<or> st = BuildFailed \<or> st = BuildCancelled"

definition IsTerminalRolloutState :: "rollout_state \<Rightarrow> bool" where
  "IsTerminalRolloutState st \<longleftrightarrow> st = RolloutCompleted \<or> st = RolloutRolledBack"

lemmas terminal_state_defs =
  IsTerminalDiscoveryState_def IsTerminalCandidateState_def IsTerminalBuildState_def
  IsTerminalRolloutState_def

lemma validateTransition_None:
  "validateTransition agg m s t = None \<longleftrightarrow> s \<noteq> t \<and> t \<in> set (m s)"
  by (simp add: validateTransition_def allows_def)

lemmas validate_defs =
  ValidateDiscoveryTransition_def ValidateCandidateTransition_def ValidateBuildTransition_def
  ValidateReleaseTransition_def ValidateRolloutTransition_def

section \<open>Histories of an aggregate\<close>

text \<open>A history is the list of states after the current one, each update validated.\<close>

fun history :: "('s \<Rightarrow> 's \<Rightarrow> 'e option) \<Rightarrow> 's \<Rightarrow> 's list \<Rightarrow> bool" where
  "history validate s [] \<longleftrightarrow> True"
| "history validate s (t # ts) \<longleftrightarrow> validate s t = None \<and> history validate t ts"

lemma history_append:
  "history v s (xs @ ys) \<longleftrightarrow> history v s xs \<and> history v (last (s # xs)) ys"
  by (induction xs arbitrary: s) auto

text \<open>
  The contract every aggregate promises to its repository: nothing leaves a terminal state.
  A ranked life cycle promises more, that every update moves forward, so a history is bounded.
\<close>

locale lifecycle =
  fixes validate :: "'s \<Rightarrow> 's \<Rightarrow> 'e option"
    and terminal :: "'s \<Rightarrow> bool"
  assumes terminal_final: "terminal s \<Longrightarrow> validate s t \<noteq> None"
begin

lemma history_from_terminal: "terminal s \<Longrightarrow> history validate s ts \<Longrightarrow> ts = []"
  by (cases ts) (auto simp: terminal_final)

lemma terminal_only_last:
  assumes "history validate s (xs @ t # ys)" "terminal t"
  shows "ys = []"
proof -
  have "history validate t ys" using assms(1) by (simp add: history_append)
  with assms(2) show ?thesis by (rule history_from_terminal)
qed

end

locale ranked_lifecycle = lifecycle +
  fixes rank :: "'s \<Rightarrow> nat"
  assumes rank_step: "validate s t = None \<Longrightarrow> rank s < rank t"
begin

lemma history_rank: "history validate s ts \<Longrightarrow> rank s + length ts \<le> rank (last (s # ts))"
proof (induction ts arbitrary: s)
  case Nil
  then show ?case by simp
next
  case (Cons t ts)
  from Cons.prems have "rank s < rank t" by (simp add: rank_step)
  moreover from Cons have "rank t + length ts \<le> rank (last (t # ts))" by simp
  ultimately show ?case by simp
qed

lemma history_strict: "history validate s ts \<Longrightarrow> t \<in> set ts \<Longrightarrow> rank s < rank t"
proof (induction ts arbitrary: s)
  case Nil
  then show ?case by simp
next
  case (Cons u us)
  from Cons.prems have u: "rank s < rank u" by (simp add: rank_step)
  show ?case
  proof (cases "t = u")
    case False
    with Cons have "rank u < rank t" by simp
    with u show ?thesis by simp
  qed (use u in simp)
qed

lemma history_distinct: "history validate s ts \<Longrightarrow> distinct (s # ts)"
proof (induction ts arbitrary: s)
  case Nil
  then show ?case by simp
next
  case (Cons t ts)
  have "s \<notin> set (t # ts)" using history_strict [OF Cons.prems] by blast
  with Cons.IH [of t] Cons.prems show ?case by simp
qed

end

fun discovery_rank :: "discovery_state \<Rightarrow> nat" where
  "discovery_rank DiscoveryQueued = 0"
| "discovery_rank DiscoveryResolving = 1"
| "discovery_rank DiscoveryComparing = 2"
| "discovery_rank DiscoveryProposing = 3"
| "discovery_rank _ = 4"

fun release_rank :: "release_state \<Rightarrow> nat" where
  "release_rank ReleasePublished = 0"
| "release_rank ReleaseCandidateChannel = 1"
| "release_rank ReleaseCanary = 2"
| "release_rank ReleaseStable = 3"
| "release_rank ReleaseDeprecated = 4"
| "release_rank _ = 5"

text \<open>A revoked release is the only one that nothing leaves.\<close>

definition release_final :: "release_state \<Rightarrow> bool" where
  "release_final st \<longleftrightarrow> st = ReleaseRevoked"

interpretation discovery: ranked_lifecycle
    ValidateDiscoveryTransition IsTerminalDiscoveryState discovery_rank
proof
  fix s t
  show "IsTerminalDiscoveryState s \<Longrightarrow> ValidateDiscoveryTransition s t \<noteq> None"
    by (auto simp: validate_defs validateTransition_None terminal_state_defs)
  show "ValidateDiscoveryTransition s t = None \<Longrightarrow> discovery_rank s < discovery_rank t"
    by (cases s) (auto simp: validate_defs validateTransition_None)
qed

interpretation release: ranked_lifecycle ValidateReleaseTransition release_final release_rank
proof
  fix s t
  show "release_final s \<Longrightarrow> ValidateReleaseTransition s t \<noteq> None"
    by (auto simp: validate_defs validateTransition_None release_final_def)
  show "ValidateReleaseTransition s t = None \<Longrightarrow> release_rank s < release_rank t"
    by (cases s) (auto simp: validate_defs validateTransition_None)
qed

interpretation candidate: lifecycle ValidateCandidateTransition IsTerminalCandidateState
  by unfold_locales (auto simp: validate_defs validateTransition_None terminal_state_defs)

interpretation build: lifecycle ValidateBuildTransition IsTerminalBuildState
  by unfold_locales (auto simp: validate_defs validateTransition_None terminal_state_defs)

interpretation rollout: lifecycle ValidateRolloutTransition IsTerminalRolloutState
  by unfold_locales (auto simp: validate_defs validateTransition_None terminal_state_defs)

section \<open>Properties of the persisted life cycles\<close>

lemma candidate_into:
  "ValidateCandidateTransition s CandidatePublished = None \<longleftrightarrow> s = CandidatePublishing"
  "ValidateCandidateTransition s CandidatePublishing = None \<longleftrightarrow> s = CandidateApproved"
  "ValidateCandidateTransition s CandidateApproved = None \<longleftrightarrow> s = CandidateAwaitingApproval"
  by (cases s; simp add: validate_defs validateTransition_None)+

lemma history_pred:
  assumes "history v s (ys @ [t])"
  shows "v (last (s # ys)) t = None"
  using assms by (simp add: history_append)

lemma history_butlast: "history v s (ys @ [t]) \<Longrightarrow> history v s ys"
  by (simp add: history_append)

lemma last_Cons_eq_split:
  assumes "last (s # ys) = x" "s \<noteq> x"
  obtains zs where "ys = zs @ [x]"
  using assms by (cases ys rule: rev_cases) auto

text \<open>A candidate that is ever published from a draft went through awaiting approval,
  approved and publishing, in this order and directly before, and nothing follows.\<close>

theorem candidate_published_was_approved:
  assumes "history ValidateCandidateTransition CandidateDraft ts" "CandidatePublished \<in> set ts"
  shows "\<exists>pre. ts = pre @ [CandidateAwaitingApproval, CandidateApproved, CandidatePublishing,
                          CandidatePublished]"
proof -
  from assms(2) obtain xs ys where split: "ts = xs @ CandidatePublished # ys"
    by (auto dest: split_list)
  have "ys = []"
    using candidate.terminal_only_last [of CandidateDraft xs CandidatePublished ys] assms(1)
    by (simp add: split IsTerminalCandidateState_def)
  with split assms(1) have h0: "history ValidateCandidateTransition CandidateDraft (xs @ [CandidatePublished])"
    by simp
  then have "last (CandidateDraft # xs) = CandidatePublishing"
    by (simp add: history_append candidate_into)
  then obtain as where as: "xs = as @ [CandidatePublishing]"
    by (rule last_Cons_eq_split) simp
  have h1: "history ValidateCandidateTransition CandidateDraft (as @ [CandidatePublishing])"
    using history_butlast [OF h0] as by simp
  then have "last (CandidateDraft # as) = CandidateApproved"
    by (simp add: history_append candidate_into)
  then obtain bs where bs: "as = bs @ [CandidateApproved]"
    by (rule last_Cons_eq_split) simp
  have "history ValidateCandidateTransition CandidateDraft (bs @ [CandidateApproved])"
    using history_butlast [OF h1] bs by simp
  then have "last (CandidateDraft # bs) = CandidateAwaitingApproval"
    by (simp add: history_append candidate_into)
  then obtain cs where "bs = cs @ [CandidateAwaitingApproval]"
    by (rule last_Cons_eq_split) simp
  with split \<open>ys = []\<close> as bs show ?thesis by auto
qed

theorem candidate_published_was_approved_witness:
  "\<exists>pre. [CandidateQueued, CandidateBuilding, CandidateTesting, CandidateSecurityReview,
          CandidateAwaitingApproval, CandidateApproved, CandidatePublishing, CandidatePublished]
     = pre @ [CandidateAwaitingApproval, CandidateApproved, CandidatePublishing, CandidatePublished]"
  by (rule candidate_published_was_approved)
     (simp_all add: validate_defs validateTransition_None)

lemma discovery_stuck:
  "(\<forall>t. ValidateDiscoveryTransition s t \<noteq> None) \<longleftrightarrow>
     IsTerminalDiscoveryState s \<or> (\<exists>x. s = DiscoveryOther x)"
  by (cases s; force simp: validate_defs validateTransition_None terminal_state_defs)

lemma candidate_stuck:
  "(\<forall>t. ValidateCandidateTransition s t \<noteq> None) \<longleftrightarrow>
     IsTerminalCandidateState s \<or> (\<exists>x. s = CandidateOther x)"
  by (cases s; force simp: validate_defs validateTransition_None terminal_state_defs)

lemma build_stuck:
  "(\<forall>t. ValidateBuildTransition s t \<noteq> None) \<longleftrightarrow>
     IsTerminalBuildState s \<or> (\<exists>x. s = BuildOther x)"
  by (cases s; force simp: validate_defs validateTransition_None terminal_state_defs)

lemma rollout_stuck:
  "(\<forall>t. ValidateRolloutTransition s t \<noteq> None) \<longleftrightarrow>
     IsTerminalRolloutState s \<or> (\<exists>x. s = RolloutOther x)"
  by (cases s; force simp: validate_defs validateTransition_None terminal_state_defs)

text \<open>For every aggregate with a terminal predicate, a state is terminal exactly when no
  update can leave it; only an unknown state string is stuck without being terminal.\<close>

theorem terminal_iff_no_successor:
  "((\<forall>t. ValidateDiscoveryTransition d t \<noteq> None) \<longleftrightarrow>
      IsTerminalDiscoveryState d \<or> (\<exists>x. d = DiscoveryOther x)) \<and>
   ((\<forall>t. ValidateCandidateTransition c t \<noteq> None) \<longleftrightarrow>
      IsTerminalCandidateState c \<or> (\<exists>x. c = CandidateOther x)) \<and>
   ((\<forall>t. ValidateBuildTransition b t \<noteq> None) \<longleftrightarrow>
      IsTerminalBuildState b \<or> (\<exists>x. b = BuildOther x)) \<and>
   ((\<forall>t. ValidateRolloutTransition r t \<noteq> None) \<longleftrightarrow>
      IsTerminalRolloutState r \<or> (\<exists>x. r = RolloutOther x))"
  by (intro conjI discovery_stuck candidate_stuck build_stuck rollout_stuck)

lemma discovery_rank_le: "discovery_rank s \<le> 4"
  by (cases s) auto

lemma release_rank_le: "release_rank s \<le> 5"
  by (cases s) auto

text \<open>A discovery run is updated at most four times and a release at most five times, and
  neither is ever in the same state twice.\<close>

theorem histories_bounded:
  assumes "history ValidateDiscoveryTransition d ds" "history ValidateReleaseTransition r rs"
  shows "length ds \<le> 4 \<and> distinct (d # ds) \<and> length rs \<le> 5 \<and> distinct (r # rs)"
  using discovery.history_rank [OF assms(1)] discovery.history_distinct [OF assms(1)]
    release.history_rank [OF assms(2)] release.history_distinct [OF assms(2)]
    discovery_rank_le [of "last (d # ds)"] release_rank_le [of "last (r # rs)"]
  by linarith

theorem histories_bounded_witness:
  "length [DiscoveryResolving, DiscoveryComparing, DiscoveryProposing, DiscoveryCompleted] \<le> 4 \<and>
   distinct [DiscoveryQueued, DiscoveryResolving, DiscoveryComparing, DiscoveryProposing,
             DiscoveryCompleted] \<and>
   length [ReleaseCandidateChannel, ReleaseCanary, ReleaseStable, ReleaseDeprecated, ReleaseRevoked] \<le> 5 \<and>
   distinct [ReleasePublished, ReleaseCandidateChannel, ReleaseCanary, ReleaseStable,
             ReleaseDeprecated, ReleaseRevoked]"
  by (rule histories_bounded) (simp_all add: validate_defs validateTransition_None)

end
