(* ===== verification/ReleaseStore.thy ===== *)
theory ReleaseStore
  imports ReleaseState "HOL-Library.Product_Lexorder"
begin

text \<open>
  The rollout part of the durable store (\<open>internal/db/scannerrelease_repository.go\<close>): the
  rollout, cohort, claim, release and event tables, and the repository operations on them. A
  table is the list of its rows in insertion order. Every operation is one database transaction:
  it is a function from the database to the new database and the Go result, and on an error the
  transaction is rolled back and the database unchanged. Values the operation obtains from
  outside (the clock, \<open>uuid.NewString\<close>) are its arguments. The trace correlation and the
  notification outbox that \<open>appendEventTx\<close> also writes are other tables and are not modelled.
\<close>

section \<open>Rows\<close>

record rollout_row =
  rl_ID :: string
  rl_Target :: string
  rl_FromReleaseID :: string
  rl_ToReleaseID :: string
  rl_Strategy :: string
  rl_State :: rollout_state
  rl_PolicySnapshotJSON :: string
  rl_Actor :: string
  rl_IdempotencyKey :: string
  rl_RollbackOfRolloutID :: string
  rl_ErrorClass :: string
  rl_ErrorDetail :: string
  rl_Version :: int
  rl_StartedAt :: "go_time option"
  rl_CompletedAt :: "go_time option"
  rl_CreatedAt :: go_time
  rl_UpdatedAt :: go_time

datatype cohort_state =
    CohortPending | CohortAssigning | CohortObserving | CohortHealthy | CohortCompleted
  | CohortRollbackAssigning | CohortRollbackObserving | CohortRolledBack
  | CohortReconciliationFailed | CohortOther string

record cohort_row =
  co_ID :: string
  co_RolloutID :: string
  co_Name :: string
  co_Ordinal :: int
  co_DesiredReleaseID :: string
  co_ObservedReleaseID :: string
  co_State :: cohort_state
  co_TotalWorkers :: int
  co_ReadyWorkers :: int
  co_FailedWorkers :: int
  co_HealthSummaryJSON :: string
  co_Deadline :: "go_time option"
  co_StartedAt :: "go_time option"
  co_HealthObservedAt :: "go_time option"
  co_CompletedAt :: "go_time option"
  co_Version :: int
  co_CreatedAt :: go_time
  co_UpdatedAt :: go_time

datatype claim_state = RolloutClaimActive | RolloutClaimReleased

record claim_row =
  cl_RolloutID :: string
  cl_WorkerID :: string
  cl_LeaseToken :: string
  cl_State :: claim_state
  cl_LeaseExpires :: go_time
  cl_HeartbeatAt :: go_time
  cl_AvailableAt :: go_time
  cl_Attempt :: int
  cl_Version :: int
  cl_CreatedAt :: go_time
  cl_UpdatedAt :: go_time

text \<open>The columns of a release that rollouts read.\<close>

record release_row =
  re_ID :: string
  re_State :: release_state
  re_RollbackEligible :: bool

record event_row =
  er_AggregateType :: string
  er_AggregateID :: string
  er_Sequence :: int
  er_EventType :: string
  er_PriorState :: string
  er_NewState :: string
  er_Actor :: string
  er_Reason :: string
  er_PolicyRevision :: int
  er_IdempotencyKey :: string
  er_PayloadJSON :: string
  er_CreatedAt :: go_time

record database =
  db_rollouts :: "rollout_row list"
  db_cohorts :: "cohort_row list"
  db_claims :: "claim_row list"
  db_releases :: "release_row list"
  db_events :: "event_row list"

record command =
  cmd_Actor :: string
  cmd_Reason :: string
  cmd_PolicyRevision :: int
  cmd_IdempotencyKey :: string
  cmd_PayloadJSON :: string

datatype store_error =
    NotFound | VersionConflict | InvalidTransitionErr | IdempotencyConflict
  | ConstraintViolation | InvalidRequest

text \<open>The state strings of the rollout and cohort columns.\<close>

fun rollout_state_string :: "rollout_state \<Rightarrow> string" where
  "rollout_state_string RolloutPending = ''pending''"
| "rollout_state_string RolloutPreparing = ''preparing''"
| "rollout_state_string RolloutCanary = ''canary''"
| "rollout_state_string RolloutVerifying = ''verifying''"
| "rollout_state_string RolloutRollingOut = ''rolling_out''"
| "rollout_state_string RolloutCompleted = ''completed''"
| "rollout_state_string RolloutFailed = ''failed''"
| "rollout_state_string RolloutPaused = ''paused''"
| "rollout_state_string RolloutRollingBack = ''rolling_back''"
| "rollout_state_string RolloutRolledBack = ''rolled_back''"
| "rollout_state_string (RolloutOther x) = x"

fun cohort_state_string :: "cohort_state \<Rightarrow> string" where
  "cohort_state_string CohortPending = ''pending''"
| "cohort_state_string CohortAssigning = ''assigning''"
| "cohort_state_string CohortObserving = ''observing''"
| "cohort_state_string CohortHealthy = ''healthy''"
| "cohort_state_string CohortCompleted = ''completed''"
| "cohort_state_string CohortRollbackAssigning = ''rollback_assigning''"
| "cohort_state_string CohortRollbackObserving = ''rollback_observing''"
| "cohort_state_string CohortRolledBack = ''rolled_back''"
| "cohort_state_string CohortReconciliationFailed = ''failed''"
| "cohort_state_string (CohortOther x) = x"

text \<open>\<open>scannerrelease.RolloutState(s)\<close>: the constant with this string, if there is one.\<close>

definition parse_rollout_state :: "string \<Rightarrow> rollout_state" where
  "parse_rollout_state s =
     (case find (\<lambda>st. rollout_state_string st = s)
        [RolloutPending, RolloutPreparing, RolloutCanary, RolloutVerifying, RolloutRollingOut,
         RolloutCompleted, RolloutFailed, RolloutPaused, RolloutRollingBack, RolloutRolledBack] of
        Some st \<Rightarrow> st
      | None \<Rightarrow> RolloutOther s)"

section \<open>The constraints of the schema\<close>

text \<open>
  The constraints that \<open>db/migrations/030_scanner_release_management_postgres.sql\<close> and
  \<open>035_scanner_rollout_controller.sql\<close> declare on these tables. A statement whose result
  violates one fails, and with it its transaction.
\<close>

fun active_state :: "rollout_state \<Rightarrow> bool" where
  "active_state RolloutCompleted \<longleftrightarrow> False"
| "active_state RolloutFailed \<longleftrightarrow> False"
| "active_state RolloutRolledBack \<longleftrightarrow> False"
| "active_state (RolloutOther _) \<longleftrightarrow> False"
| "active_state _ \<longleftrightarrow> True"

fun known_state :: "rollout_state \<Rightarrow> bool" where
  "known_state (RolloutOther _) \<longleftrightarrow> False"
| "known_state _ \<longleftrightarrow> True"

definition active_targets :: "rollout_row list \<Rightarrow> string list" where
  "active_targets rows = map rl_Target (filter (\<lambda>r. active_state (rl_State r)) rows)"

definition null_or_in :: "string list \<Rightarrow> string \<Rightarrow> bool" where
  "null_or_in ids x \<longleftrightarrow> x = [] \<or> contains_elem ids x"

definition rollout_constraints :: "database \<Rightarrow> bool" where
  "rollout_constraints db \<longleftrightarrow>
     (let rows = db_rollouts db; releases = map re_ID (db_releases db); ids = map rl_ID rows in
      distinct ids \<and> distinct (map rl_IdempotencyKey rows) \<and> distinct (active_targets rows) \<and>
      list_all (\<lambda>r. known_state (rl_State r) \<and> null_or_in releases (rl_FromReleaseID r) \<and>
                    contains_elem releases (rl_ToReleaseID r) \<and>
                    null_or_in ids (rl_RollbackOfRolloutID r)) rows)"

definition cohort_constraints :: "database \<Rightarrow> bool" where
  "cohort_constraints db \<longleftrightarrow>
     (let rows = db_cohorts db; releases = map re_ID (db_releases db);
          rollouts = map rl_ID (db_rollouts db) in
      distinct (map co_ID rows) \<and> distinct (map (\<lambda>c. (co_RolloutID c, co_Name c)) rows) \<and>
      distinct (map (\<lambda>c. (co_RolloutID c, co_Ordinal c)) rows) \<and>
      list_all (\<lambda>c. contains_elem rollouts (co_RolloutID c) \<and> 0 \<le> co_Ordinal c \<and>
                    contains_elem releases (co_DesiredReleaseID c) \<and>
                    null_or_in releases (co_ObservedReleaseID c) \<and> 0 \<le> co_TotalWorkers c \<and>
                    0 \<le> co_ReadyWorkers c \<and> 0 \<le> co_FailedWorkers c) rows)"

definition claim_constraints :: "database \<Rightarrow> bool" where
  "claim_constraints db \<longleftrightarrow>
     (let rows = db_claims db; rollouts = map rl_ID (db_rollouts db) in
      distinct (map cl_RolloutID rows) \<and> distinct (map cl_LeaseToken rows) \<and>
      list_all (\<lambda>c. contains_elem rollouts (cl_RolloutID c) \<and> 0 < cl_Attempt c) rows)"

definition event_constraints :: "database \<Rightarrow> bool" where
  "event_constraints db \<longleftrightarrow>
     (let rows = db_events db in
      distinct (map (\<lambda>e. (er_AggregateType e, er_AggregateID e, er_Sequence e)) rows) \<and>
      distinct (map (\<lambda>e. (er_AggregateType e, er_AggregateID e, er_IdempotencyKey e)) rows) \<and>
      list_all (\<lambda>e. 0 < er_Sequence e) rows)"

definition constraints :: "database \<Rightarrow> bool" where
  "constraints db \<longleftrightarrow> rollout_constraints db \<and> cohort_constraints db \<and> claim_constraints db \<and>
     event_constraints db"

text \<open>The result of a statement: the written database, if it satisfies the constraints.\<close>

definition checked :: "database \<Rightarrow> store_error + database" where
  "checked db = (if constraints db then Inr db else Inl ConstraintViolation)"

text \<open>A transaction returns a value and the new database; \<open>transact\<close> commits it or rolls back.\<close>

type_synonym 'a tx = "database \<Rightarrow> store_error + 'a \<times> database"

definition transact :: "'a tx \<Rightarrow> database \<Rightarrow> (store_error + 'a) \<times> database" where
  "transact op db = (case op db of Inl e \<Rightarrow> (Inl e, db) | Inr (a, db') \<Rightarrow> (Inr a, db'))"

section \<open>Commands and the event log\<close>

definition jsonDefault :: "string \<Rightarrow> string \<Rightarrow> string" where
  "jsonDefault value fallback = (if trim_space value = [] then fallback else value)"

definition normalizeCommand :: "string \<Rightarrow> command \<Rightarrow> command" where
  "normalizeCommand uuid c =
     (let c1 = (if cmd_IdempotencyKey c = [] then c\<lparr>cmd_IdempotencyKey := ''event:'' @ uuid\<rparr> else c);
          c2 = c1\<lparr>cmd_PayloadJSON := jsonDefault (cmd_PayloadJSON c1) ''{}''\<rparr>
      in if cmd_Actor c2 = [] then c2\<lparr>cmd_Actor := ''system''\<rparr> else c2)"

definition stream_of :: "string \<Rightarrow> string \<Rightarrow> event_row list \<Rightarrow> event_row list" where
  "stream_of aggregateType aggregateID events =
     filter (\<lambda>e. er_AggregateType e = aggregateType \<and> er_AggregateID e = aggregateID) events"

definition max_sequence :: "event_row list \<Rightarrow> int" where
  "max_sequence es = fold max (map er_Sequence es) 0"

text \<open>\<open>appendEventTx\<close> numbers the event after the last one of its aggregate.\<close>

definition new_event ::
  "string \<Rightarrow> string \<Rightarrow> string \<Rightarrow> string \<Rightarrow> string \<Rightarrow> string \<Rightarrow> command \<Rightarrow> go_time
     \<Rightarrow> event_row list \<Rightarrow> event_row" where
  "new_event uuid aggregateType aggregateID eventType priorState newState cmd now events =
     (let c = normalizeCommand uuid cmd in
      \<lparr>er_AggregateType = aggregateType, er_AggregateID = aggregateID,
       er_Sequence = max_sequence (stream_of aggregateType aggregateID events) + 1,
       er_EventType = eventType, er_PriorState = priorState, er_NewState = newState,
       er_Actor = cmd_Actor c, er_Reason = cmd_Reason c, er_PolicyRevision = cmd_PolicyRevision c,
       er_IdempotencyKey = cmd_IdempotencyKey c, er_PayloadJSON = cmd_PayloadJSON c,
       er_CreatedAt = now\<rparr>)"

definition appendEventTx ::
  "string \<Rightarrow> string \<Rightarrow> string \<Rightarrow> string \<Rightarrow> string \<Rightarrow> string \<Rightarrow> command \<Rightarrow> go_time
     \<Rightarrow> database \<Rightarrow> store_error + database" where
  "appendEventTx uuid aggregateType aggregateID eventType priorState newState cmd now db =
     checked (db\<lparr>db_events := db_events db @
       [new_event uuid aggregateType aggregateID eventType priorState newState cmd now
          (db_events db)]\<rparr>)"

definition existingCommandTx ::
  "string \<Rightarrow> string \<Rightarrow> string \<Rightarrow> string \<Rightarrow> database \<Rightarrow> store_error + bool" where
  "existingCommandTx aggregateType aggregateID idempotencyKey intendedState db =
     (if idempotencyKey = [] then Inr False
      else (case first_by er_IdempotencyKey (stream_of aggregateType aggregateID (db_events db))
                   idempotencyKey of
              None \<Rightarrow> Inr False
            | Some e \<Rightarrow> if er_NewState e \<noteq> intendedState then Inl IdempotencyConflict else Inr True))"

definition pageLimit :: "int \<Rightarrow> int" where
  "pageLimit limit = (if limit \<le> 0 then 50 else if limit > 200 then 200 else limit)"

definition ListEvents :: "string \<Rightarrow> string \<Rightarrow> int \<Rightarrow> int \<Rightarrow> database \<Rightarrow> event_row list" where
  "ListEvents aggregateType aggregateID afterSequence limit db =
     take (nat (pageLimit limit))
       (sort_key er_Sequence
         (filter (\<lambda>e. er_Sequence e > afterSequence)
           (stream_of aggregateType aggregateID (db_events db))))"

section \<open>Rollouts\<close>

definition GetRollout :: "string \<Rightarrow> database \<Rightarrow> store_error + rollout_row" where
  "GetRollout rid db =
     (case first_by rl_ID (db_rollouts db) rid of None \<Rightarrow> Inl NotFound | Some r \<Rightarrow> Inr r)"

definition initializeIDAndTimes :: "string \<Rightarrow> go_time \<Rightarrow> string \<times> go_time \<times> go_time \<Rightarrow> string \<times> go_time \<times> go_time" where
  "initializeIDAndTimes uuid now x =
     (case x of (i, created, updated) \<Rightarrow>
        let created' = (if is_zero_time created then now else created)
        in (if i = [] then uuid else i, created', if is_zero_time updated then created' else updated))"

definition prepare_rollout :: "string \<Rightarrow> go_time \<Rightarrow> command \<Rightarrow> rollout_row \<Rightarrow> rollout_row" where
  "prepare_rollout uuid now cmd r =
     (case initializeIDAndTimes uuid now (rl_ID r, rl_CreatedAt r, rl_UpdatedAt r) of
        (i, created, updated) \<Rightarrow>
          r\<lparr>rl_ID := i, rl_CreatedAt := created, rl_UpdatedAt := updated,
            rl_State := (if rl_State r = RolloutOther [] then RolloutPending else rl_State r),
            rl_Version := (if rl_Version r \<le> 0 then 1 else rl_Version r),
            rl_IdempotencyKey := (if rl_IdempotencyKey r = [] then cmd_IdempotencyKey cmd
                                  else rl_IdempotencyKey r),
            rl_PolicySnapshotJSON := jsonDefault (rl_PolicySnapshotJSON r) ''{}''\<rparr>)"

definition prepare_cohort :: "string \<Rightarrow> go_time \<Rightarrow> rollout_row \<Rightarrow> cohort_row \<Rightarrow> cohort_row" where
  "prepare_cohort uuid now r c =
     (case initializeIDAndTimes uuid now (co_ID c, co_CreatedAt c, co_UpdatedAt c) of
        (i, created, updated) \<Rightarrow>
          c\<lparr>co_ID := i, co_CreatedAt := created, co_UpdatedAt := updated, co_RolloutID := rl_ID r,
            co_DesiredReleaseID := (if co_DesiredReleaseID c = [] then rl_ToReleaseID r
                                    else co_DesiredReleaseID c),
            co_State := (if co_State c = CohortOther [] then CohortPending else co_State c),
            co_Version := (if co_Version c \<le> 0 then 1 else co_Version c),
            co_HealthSummaryJSON := jsonDefault (co_HealthSummaryJSON c) ''{}''\<rparr>)"

fun insert_cohorts ::
  "(nat \<Rightarrow> string) \<Rightarrow> go_time \<Rightarrow> rollout_row \<Rightarrow> nat \<Rightarrow> cohort_row list \<Rightarrow> database \<Rightarrow> store_error + database" where
  "insert_cohorts uuids now r i [] db = Inr db"
| "insert_cohorts uuids now r i (c # cs) db =
     and_then (checked (db\<lparr>db_cohorts := db_cohorts db @ [prepare_cohort (uuids i) now r c]\<rparr>))
       (insert_cohorts uuids now r (Suc i) cs)"

text \<open>The returned rollout is the new one, or the one that already has the idempotency key.\<close>

definition CreateRollout ::
  "(nat \<Rightarrow> string) \<Rightarrow> go_time \<Rightarrow> rollout_row \<Rightarrow> cohort_row list \<Rightarrow> command \<Rightarrow> rollout_row tx" where
  "CreateRollout uuids now rollout cohorts cmd db =
     (let r = prepare_rollout (uuids 0) now cmd rollout in
      case first_by rl_IdempotencyKey (db_rollouts db) (rl_IdempotencyKey r) of
        Some existing \<Rightarrow>
          if rl_Target existing \<noteq> rl_Target r \<or> rl_ToReleaseID existing \<noteq> rl_ToReleaseID r \<or>
             rl_Strategy existing \<noteq> rl_Strategy r
          then Inl IdempotencyConflict else Inr (existing, db)
      | None \<Rightarrow>
          and_then (checked (db\<lparr>db_rollouts := db_rollouts db @ [r]\<rparr>)) (\<lambda>db1.
          and_then (insert_cohorts uuids now r 1 cohorts db1) (\<lambda>db2.
          and_then (appendEventTx (uuids (Suc (length cohorts))) ''rollout'' (rl_ID r)
                     ''rollout.created'' [] (rollout_state_string (rl_State r)) cmd
                     (rl_CreatedAt r) db2) (\<lambda>db3.
          Inr (r, db3)))))"

definition rollout_columns :: "rollout_state \<Rightarrow> go_time \<Rightarrow> rollout_row \<Rightarrow> rollout_row" where
  "rollout_columns to now r =
     r\<lparr>rl_State := to, rl_Version := rl_Version r + 1, rl_UpdatedAt := now,
       rl_StartedAt := (if to = RolloutPreparing
                        then (case rl_StartedAt r of None \<Rightarrow> Some now | Some t \<Rightarrow> Some t)
                        else rl_StartedAt r),
       rl_CompletedAt := (if to = RolloutCompleted \<or> to = RolloutRolledBack then Some now
                          else rl_CompletedAt r)\<rparr>"

text \<open>\<open>transitionState\<close> on the rollout table; False when the command was already applied.\<close>

definition transitionState ::
  "string \<Rightarrow> go_time \<Rightarrow> string \<Rightarrow> int \<Rightarrow> rollout_state \<Rightarrow> command \<Rightarrow> bool tx" where
  "transitionState uuid now rid expectedVersion to cmd db =
     and_then (existingCommandTx ''rollout'' rid (cmd_IdempotencyKey cmd) (rollout_state_string to) db)
       (\<lambda>exists. if exists then Inr (False, db) else
        case first_by rl_ID (db_rollouts db) rid of
          None \<Rightarrow> Inl NotFound
        | Some current \<Rightarrow>
          if rl_Version current \<noteq> expectedVersion then Inl VersionConflict
          else if ValidateRolloutTransition (rl_State current) to \<noteq> None then Inl InvalidTransitionErr
          else
            and_then (checked (db\<lparr>db_rollouts := update_where
                 (\<lambda>r. rl_ID r = rid \<and> rl_Version r = expectedVersion)
                 (rollout_columns to now) (db_rollouts db)\<rparr>)) (\<lambda>db1.
            and_then (appendEventTx uuid ''rollout'' rid (''rollout.'' @ rollout_state_string to)
                 (rollout_state_string (rl_State current)) (rollout_state_string to) cmd now db1)
            (\<lambda>db2. Inr (True, db2))))"

text \<open>\<open>TransitionRollout\<close> reads the rollout back after the commit.\<close>

definition TransitionRollout ::
  "string \<Rightarrow> go_time \<Rightarrow> string \<Rightarrow> int \<Rightarrow> rollout_state \<Rightarrow> command \<Rightarrow> database
     \<Rightarrow> (store_error + rollout_row) \<times> database" where
  "TransitionRollout uuid now rid expectedVersion to cmd db =
     (case transact (transitionState uuid now rid expectedVersion to cmd) db of
        (Inl e, db') \<Rightarrow> (Inl e, db')
      | (Inr _, db') \<Rightarrow> (GetRollout rid db', db'))"

section \<open>Cohorts\<close>

definition ListRolloutCohorts :: "string \<Rightarrow> database \<Rightarrow> cohort_row list" where
  "ListRolloutCohorts rolloutID db =
     sort_key co_Ordinal (filter (\<lambda>c. co_RolloutID c = rolloutID) (db_cohorts db))"

definition cohort_columns :: "cohort_row \<Rightarrow> cohort_row \<Rightarrow> cohort_row" where
  "cohort_columns c row =
     row\<lparr>co_DesiredReleaseID := co_DesiredReleaseID c, co_ObservedReleaseID := co_ObservedReleaseID c,
         co_State := co_State c, co_TotalWorkers := co_TotalWorkers c,
         co_ReadyWorkers := co_ReadyWorkers c, co_FailedWorkers := co_FailedWorkers c,
         co_HealthSummaryJSON := co_HealthSummaryJSON c, co_Deadline := co_Deadline c,
         co_StartedAt := co_StartedAt c, co_HealthObservedAt := co_HealthObservedAt c,
         co_CompletedAt := co_CompletedAt c, co_Version := co_Version row + 1,
         co_UpdatedAt := co_UpdatedAt c\<rparr>"

text \<open>On success the caller's cohort has the new version and time, as the Go pointer has.\<close>

definition UpdateRolloutCohort ::
  "string \<Rightarrow> go_time \<Rightarrow> cohort_row \<Rightarrow> int \<Rightarrow> command \<Rightarrow> cohort_row tx" where
  "UpdateRolloutCohort uuid now cohort expectedVersion cmd db =
     (let c = cohort\<lparr>co_UpdatedAt := now,
                     co_HealthSummaryJSON := jsonDefault (co_HealthSummaryJSON cohort) ''{}''\<rparr>
      in case first_by co_ID (db_cohorts db) (co_ID c) of
           None \<Rightarrow> Inl NotFound
         | Some current \<Rightarrow>
           if co_Version current \<noteq> expectedVersion then Inl VersionConflict
           else
             and_then (checked (db\<lparr>db_cohorts := update_where
                  (\<lambda>r. co_ID r = co_ID c \<and> co_Version r = expectedVersion)
                  (cohort_columns c) (db_cohorts db)\<rparr>)) (\<lambda>db1.
             and_then (appendEventTx uuid ''rollout_cohort'' (co_ID c) ''rollout_cohort.updated''
                  (cohort_state_string (co_State current)) (cohort_state_string (co_State c))
                  cmd now db1) (\<lambda>db2.
             Inr (c\<lparr>co_Version := expectedVersion + 1\<rparr>, db2))))"

section \<open>Claims\<close>

definition claimable_states :: "rollout_state list" where
  "claimable_states =
     [RolloutPending, RolloutPreparing, RolloutCanary, RolloutVerifying, RolloutRollingOut,
      RolloutRollingBack, RolloutPaused]"

definition claim_open :: "go_time \<Rightarrow> claim_row \<Rightarrow> bool" where
  "claim_open now c \<longleftrightarrow>
     cl_State c = RolloutClaimReleased \<and> cl_AvailableAt c \<le> now \<or>
     cl_State c = RolloutClaimActive \<and> cl_LeaseExpires c \<le> now"

definition claim_candidates :: "go_time \<Rightarrow> database \<Rightarrow> string list" where
  "claim_candidates now db =
     map rl_ID
       (sort_key (\<lambda>r. (rl_CreatedAt r, rl_ID r))
         (filter (\<lambda>r. contains_elem claimable_states (rl_State r) \<and>
                      (case first_by cl_RolloutID (db_claims db) (rl_ID r) of
                         None \<Rightarrow> True
                       | Some c \<Rightarrow> claim_open now c))
            (db_rollouts db)))"

text \<open>\<open>INSERT ... ON CONFLICT DO UPDATE ... WHERE\<close>: \<open>None\<close> when no row is affected.\<close>

definition upsert_claim ::
  "string \<Rightarrow> string \<Rightarrow> string \<Rightarrow> go_time \<Rightarrow> go_time \<Rightarrow> claim_row list \<Rightarrow> claim_row list option" where
  "upsert_claim rolloutID workerID token now leaseUntil claims =
     (case first_by cl_RolloutID claims rolloutID of
        None \<Rightarrow> Some (claims @
          [\<lparr>cl_RolloutID = rolloutID, cl_WorkerID = workerID, cl_LeaseToken = token,
            cl_State = RolloutClaimActive, cl_LeaseExpires = leaseUntil, cl_HeartbeatAt = now,
            cl_AvailableAt = now, cl_Attempt = 1, cl_Version = 1, cl_CreatedAt = now,
            cl_UpdatedAt = now\<rparr>])
      | Some c \<Rightarrow>
        if claim_open now c
        then Some (update_where (\<lambda>r. cl_RolloutID r = rolloutID)
          (\<lambda>r. r\<lparr>cl_WorkerID := workerID, cl_LeaseToken := token, cl_State := RolloutClaimActive,
                 cl_LeaseExpires := leaseUntil, cl_HeartbeatAt := now, cl_AvailableAt := now,
                 cl_Attempt := cl_Attempt r + 1, cl_Version := cl_Version r + 1,
                 cl_UpdatedAt := now\<rparr>) claims)
        else None)"

text \<open>The payload is the JSON of the attempt and the takeover flag; its text is the argument
  \<open>claim_payload\<close>, since nothing reads it back.\<close>

definition claim_command ::
  "(int \<Rightarrow> bool \<Rightarrow> string) \<Rightarrow> string \<Rightarrow> string \<Rightarrow> int \<Rightarrow> bool \<Rightarrow> command" where
  "claim_command claim_payload token workerID attempt takeover =
     \<lparr>cmd_Actor = workerID,
      cmd_Reason = (if takeover then ''stale rollout controller lease was reclaimed''
                    else ''rollout controller claimed reconciliation''),
      cmd_PolicyRevision = 0, cmd_IdempotencyKey = ''rollout-claim:'' @ token,
      cmd_PayloadJSON = claim_payload attempt takeover\<rparr>"

text \<open>The prior claim, if there is one, was active and its lease had run out.\<close>

definition stale_claim :: "go_time \<Rightarrow> string \<Rightarrow> claim_row list \<Rightarrow> bool" where
  "stale_claim now rolloutID claims =
     (case first_by cl_RolloutID claims rolloutID of
        None \<Rightarrow> False
      | Some p \<Rightarrow> cl_State p = RolloutClaimActive \<and> \<not> now < cl_LeaseExpires p)"

text \<open>One pass of the loop over the candidates: \<open>None\<close> is \<open>continue\<close>.\<close>

definition claim_one ::
  "(int \<Rightarrow> bool \<Rightarrow> string) \<Rightarrow> string \<Rightarrow> string \<Rightarrow> string \<Rightarrow> go_time \<Rightarrow> go_time \<Rightarrow> string \<Rightarrow> database
     \<Rightarrow> (store_error + (claim_row \<times> bool) \<times> database) option" where
  "claim_one claim_payload uuid token workerID now leaseUntil rolloutID db =
     (case upsert_claim rolloutID workerID token now leaseUntil (db_claims db) of
        None \<Rightarrow> None
      | Some claims \<Rightarrow> Some (
          and_then (checked (db\<lparr>db_claims := claims\<rparr>)) (\<lambda>db1.
          case (first_by cl_RolloutID (db_claims db1) rolloutID,
                first_by rl_ID (db_rollouts db1) rolloutID) of
            (Some claim, Some r) \<Rightarrow>
              let takeover = stale_claim now rolloutID (db_claims db);
                  current = rollout_state_string (rl_State r)
              in and_then (appendEventTx uuid ''rollout'' rolloutID
                   (if takeover then ''rollout.reclaimed'' else ''rollout.claimed'')
                   current current (claim_command claim_payload token workerID (cl_Attempt claim) takeover)
                   now db1) (\<lambda>db2. Inr ((claim, takeover), db2))
          | _ \<Rightarrow> Inl NotFound)))"

fun claim_loop ::
  "(int \<Rightarrow> bool \<Rightarrow> string) \<Rightarrow> string \<Rightarrow> string \<Rightarrow> string \<Rightarrow> go_time \<Rightarrow> go_time \<Rightarrow> string list
     \<Rightarrow> (claim_row \<times> bool) option tx" where
  "claim_loop pl uuid token workerID now leaseUntil [] db = Inr (None, db)"
| "claim_loop pl uuid token workerID now leaseUntil (rid # rids) db =
     (case claim_one pl uuid token workerID now leaseUntil rid db of
        None \<Rightarrow> claim_loop pl uuid token workerID now leaseUntil rids db
      | Some res \<Rightarrow> and_then res (\<lambda>(c, db'). Inr (Some c, db')))"

definition ClaimNextRollout ::
  "(int \<Rightarrow> bool \<Rightarrow> string) \<Rightarrow> string \<Rightarrow> string \<Rightarrow> string \<Rightarrow> go_time \<Rightarrow> go_time
     \<Rightarrow> (claim_row \<times> bool) option tx" where
  "ClaimNextRollout pl uuid token workerID now leaseUntil db =
     (if workerID = [] \<or> is_zero_time now \<or> \<not> now < leaseUntil then Inl InvalidRequest
      else claim_loop pl uuid token workerID now leaseUntil (claim_candidates now db) db)"

record lease_status =
  ls_Current :: bool
  ls_RolloutVersion :: int
  ls_State :: rollout_state

definition owns_lease :: "string \<Rightarrow> string \<Rightarrow> string \<Rightarrow> go_time \<Rightarrow> claim_row \<Rightarrow> bool" where
  "owns_lease rolloutID workerID token now c \<longleftrightarrow>
     cl_RolloutID c = rolloutID \<and> cl_WorkerID c = workerID \<and> cl_LeaseToken c = token \<and>
     cl_State c = RolloutClaimActive \<and> now < cl_LeaseExpires c"

definition lost_lease :: lease_status where
  "lost_lease = \<lparr>ls_Current = False, ls_RolloutVersion = 0, ls_State = RolloutOther []\<rparr>"

definition HeartbeatRollout ::
  "string \<Rightarrow> string \<Rightarrow> string \<Rightarrow> go_time \<Rightarrow> go_time \<Rightarrow> lease_status tx" where
  "HeartbeatRollout rolloutID workerID leaseToken now leaseUntil db =
     (if rolloutID = [] \<or> workerID = [] \<or> leaseToken = [] \<or> is_zero_time now \<or> \<not> now < leaseUntil
      then Inl InvalidRequest
      else
        and_then (checked (db\<lparr>db_claims := update_where (owns_lease rolloutID workerID leaseToken now)
             (\<lambda>c. c\<lparr>cl_HeartbeatAt := now, cl_LeaseExpires := leaseUntil,
                    cl_Version := cl_Version c + 1, cl_UpdatedAt := now\<rparr>) (db_claims db)\<rparr>)) (\<lambda>db1.
        if length (filter (owns_lease rolloutID workerID leaseToken now) (db_claims db)) \<noteq> 1
        then Inr (lost_lease, db1)
        else case first_by rl_ID (db_rollouts db1) rolloutID of
               None \<Rightarrow> Inl NotFound
             | Some r \<Rightarrow> Inr (\<lparr>ls_Current = True, ls_RolloutVersion = rl_Version r,
                                ls_State = rl_State r\<rparr>, db1)))"

definition ReleaseRolloutClaim ::
  "(go_time \<Rightarrow> string) \<Rightarrow> string \<Rightarrow> string \<Rightarrow> string \<Rightarrow> string \<Rightarrow> go_time \<Rightarrow> go_time \<Rightarrow> command
     \<Rightarrow> bool tx" where
  "ReleaseRolloutClaim release_payload uuid rolloutID workerID leaseToken now availableAt cmd db =
     (if rolloutID = [] \<or> workerID = [] \<or> leaseToken = [] \<or> is_zero_time now \<or> availableAt < now
      then Inl InvalidRequest
      else
        and_then (checked (db\<lparr>db_claims := update_where (owns_lease rolloutID workerID leaseToken now)
             (\<lambda>c. c\<lparr>cl_State := RolloutClaimReleased, cl_AvailableAt := availableAt,
                    cl_LeaseExpires := now, cl_HeartbeatAt := now,
                    cl_Version := cl_Version c + 1, cl_UpdatedAt := now\<rparr>) (db_claims db)\<rparr>)) (\<lambda>db1.
        if length (filter (owns_lease rolloutID workerID leaseToken now) (db_claims db)) \<noteq> 1
        then Inr (False, db1)
        else case first_by rl_ID (db_rollouts db1) rolloutID of
               None \<Rightarrow> Inl NotFound
             | Some r \<Rightarrow>
               let current = rollout_state_string (rl_State r);
                   c = cmd\<lparr>cmd_Actor := workerID,
                          cmd_Reason := (if cmd_Reason cmd = []
                            then ''rollout reconciliation claim released'' else cmd_Reason cmd),
                          cmd_IdempotencyKey := (if cmd_IdempotencyKey cmd = []
                            then ''rollout-release:'' @ leaseToken else cmd_IdempotencyKey cmd),
                          cmd_PayloadJSON := release_payload availableAt\<rparr>
               in and_then (appendEventTx uuid ''rollout'' rolloutID ''rollout.claim_released''
                    current current c now db1) (\<lambda>db2. Inr (True, db2))))"

end
