(* ===== verification/StoreLog.thy ===== *)
theory StoreLog
  imports ReleaseStore
begin

text \<open>
  What the rollout store promises. \<open>store_step\<close> is one committed transaction of the repository
  on the rollout tables, so a run of it is any interleaving of API calls, controllers and
  workers. The abstract specification of the event log is \<open>replay\<close>: the events of a rollout,
  read in order, rebuild its state and record only validated updates. The invariant
  \<open>log_inv\<close> says the log refines the rollout table, and every transaction keeps it.
  Two interfaces are stated as locales: rows with optimistic versions and fenced leases.
\<close>

section \<open>Transactions\<close>

inductive store_step :: "database \<Rightarrow> database \<Rightarrow> bool" where
  step_create: "CreateRollout uuids now r cs cmd db = Inr (x, db') \<Longrightarrow> store_step db db'"
| step_transition: "transitionState uuid now rid v to cmd db = Inr (b, db') \<Longrightarrow> store_step db db'"
| step_cohort: "UpdateRolloutCohort uuid now c v cmd db = Inr (c', db') \<Longrightarrow> store_step db db'"
| step_claim: "ClaimNextRollout pl uuid token w now until db = Inr (res, db') \<Longrightarrow> store_step db db'"
| step_heartbeat: "HeartbeatRollout rid w token now until db = Inr (st, db') \<Longrightarrow> store_step db db'"
| step_release: "ReleaseRolloutClaim pl uuid rid w token now avail cmd db = Inr (b, db')
     \<Longrightarrow> store_step db db'"

abbreviation store_run :: "database \<Rightarrow> database \<Rightarrow> bool" where
  "store_run \<equiv> store_step\<^sup>*\<^sup>*"

text \<open>A new store: releases may exist, the rollout tables and the event log are empty.\<close>

definition empty_store :: "release_row list \<Rightarrow> database" where
  "empty_store releases =
     \<lparr>db_rollouts = [], db_cohorts = [], db_claims = [], db_releases = releases, db_events = []\<rparr>"

section \<open>The abstract log\<close>

abbreviation rollout_log :: "string \<Rightarrow> database \<Rightarrow> event_row list" where
  "rollout_log rid db \<equiv> stream_of ''rollout'' rid (db_events db)"

definition valid_update :: "string \<Rightarrow> string \<Rightarrow> bool" where
  "valid_update s t \<longleftrightarrow>
     s = [] \<or> s = t \<or> ValidateRolloutTransition (parse_rollout_state s) (parse_rollout_state t) = None"

fun replay :: "string \<Rightarrow> event_row list \<Rightarrow> string option" where
  "replay s [] = Some s"
| "replay s (e # es) =
     (if er_PriorState e = s \<and> valid_update s (er_NewState e) then replay (er_NewState e) es else None)"

definition gapless :: "event_row list \<Rightarrow> bool" where
  "gapless es \<longleftrightarrow> map er_Sequence es = map int [1..<Suc (length es)]"

definition logged :: "event_row list \<Rightarrow> rollout_row \<Rightarrow> bool" where
  "logged es r \<longleftrightarrow> es \<noteq> [] \<and> replay [] es = Some (rollout_state_string (rl_State r)) \<and> gapless es"

definition log_inv :: "database \<Rightarrow> bool" where
  "log_inv db \<longleftrightarrow> constraints db \<and>
     (\<forall>r \<in> set (db_rollouts db). logged (rollout_log (rl_ID r) db) r) \<and>
     (\<forall>rid. rid \<notin> rl_ID ` set (db_rollouts db) \<longrightarrow> rollout_log rid db = [])"

lemma replay_append:
  "replay s (xs @ ys) = (case replay s xs of None \<Rightarrow> None | Some t \<Rightarrow> replay t ys)"
  by (induction xs arbitrary: s) auto

lemma stream_of_append [simp]:
  "stream_of t i (xs @ ys) = stream_of t i xs @ stream_of t i ys"
  by (simp add: stream_of_def)

lemma stream_of_single [simp]:
  "stream_of t i [e] = (if er_AggregateType e = t \<and> er_AggregateID e = i then [e] else [])"
  by (simp add: stream_of_def)

lemma new_event_fields [simp]:
  "er_AggregateType (new_event u t i ty p n c now es) = t"
  "er_AggregateID (new_event u t i ty p n c now es) = i"
  "er_PriorState (new_event u t i ty p n c now es) = p"
  "er_NewState (new_event u t i ty p n c now es) = n"
  "er_Sequence (new_event u t i ty p n c now es) = max_sequence (stream_of t i es) + 1"
  "er_EventType (new_event u t i ty p n c now es) = ty"
  by (simp_all add: new_event_def Let_def)

lemma new_event_key:
  "cmd_IdempotencyKey c \<noteq> [] \<Longrightarrow>
   er_IdempotencyKey (new_event u t i ty p n c now es) = cmd_IdempotencyKey c"
  by (simp add: new_event_def normalizeCommand_def Let_def)

lemma fold_max_append: "fold max (xs @ [x]) (m :: int) = max x (fold max xs m)"
  by simp

lemma max_sequence_gapless: "gapless es \<Longrightarrow> max_sequence es = int (length es)"
proof -
  have upto: "fold max (map int [1..<Suc n]) 0 = int n" for n
    by (induction n) auto
  assume "gapless es"
  then show ?thesis unfolding gapless_def max_sequence_def using upto by metis
qed

lemma gapless_append:
  "gapless es \<Longrightarrow> er_Sequence e = max_sequence es + 1 \<Longrightarrow> gapless (es @ [e])"
  using max_sequence_gapless [of es] by (simp add: gapless_def)

lemma parse_rollout_state_string [simp]:
  "known_state st \<Longrightarrow> parse_rollout_state (rollout_state_string st) = st"
  by (cases st) (simp_all add: parse_rollout_state_def)

lemma checked_Inr [simp]: "checked db = Inr db' \<longleftrightarrow> db' = db \<and> constraints db"
  by (auto simp: checked_def)

lemma appendEventTx_Inr:
  "appendEventTx u t i ty p n c now db = Inr db' \<longleftrightarrow>
     db' = db\<lparr>db_events := db_events db @ [new_event u t i ty p n c now (db_events db)]\<rparr> \<and>
     constraints db'"
  by (auto simp: appendEventTx_def)

section \<open>Every transaction keeps the log\<close>

text \<open>A transaction that writes neither the rollout rows nor a rollout's events.\<close>

lemma log_inv_frame:
  assumes "log_inv db" "constraints db'" "db_rollouts db' = db_rollouts db"
    "\<And>rid. rollout_log rid db' = rollout_log rid db"
  shows "log_inv db'"
  using assms by (simp add: log_inv_def)

text \<open>A transaction that writes the row of one rollout and appends one event to its log.\<close>

lemma log_inv_event:
  assumes inv: "log_inv db" and con: "constraints db'"
    and row: "first_by rl_ID (db_rollouts db) rid = Some r" and id: "rl_ID r' = rid"
    and rows: "rl_ID ` set (db_rollouts db') = rl_ID ` set (db_rollouts db)"
      "set (db_rollouts db') \<subseteq> insert r' {x \<in> set (db_rollouts db). rl_ID x \<noteq> rid}"
    and events: "db_events db' = db_events db @ [new_event u ''rollout'' rid ty
        (rollout_state_string (rl_State r)) (rollout_state_string (rl_State r')) c now (db_events db)]"
    and valid: "rl_State r' = rl_State r \<or> ValidateRolloutTransition (rl_State r) (rl_State r') = None"
  shows "log_inv db'"
proof -
  have r: "r \<in> set (db_rollouts db)" "rl_ID r = rid" using first_by_Some [OF row] by auto
  have "list_all (\<lambda>r. known_state (rl_State r)) (db_rollouts db)"
    "list_all (\<lambda>r. known_state (rl_State r)) (db_rollouts db')"
    using inv con unfolding log_inv_def constraints_def rollout_constraints_def Let_def
    by (auto simp: list_all_iff)
  moreover have "r' \<in> set (db_rollouts db')"
  proof -
    have "rid \<in> rl_ID ` set (db_rollouts db')" using rows(1) r by blast
    then obtain x where "x \<in> set (db_rollouts db')" "rl_ID x = rid" by blast
    then show ?thesis using rows(2) by auto
  qed
  ultimately have k: "known_state (rl_State r)" "known_state (rl_State r')"
    using r by (auto simp: list_all_iff)
  have old: "logged (rollout_log rid db) r" using inv r by (auto simp: log_inv_def)
  have log: "rollout_log x db' = rollout_log x db @
      (if x = rid then [new_event u ''rollout'' rid ty (rollout_state_string (rl_State r))
        (rollout_state_string (rl_State r')) c now (db_events db)] else [])" for x
    by (simp add: events)
  have upd: "valid_update (rollout_state_string (rl_State r)) (rollout_state_string (rl_State r'))"
    using valid k by (auto simp: valid_update_def)
  have new: "logged (rollout_log rid db') r'"
    using old upd unfolding log logged_def
    by (auto simp: replay_append intro!: gapless_append)
  have "logged (rollout_log (rl_ID x) db') x" if "x \<in> set (db_rollouts db')" for x
  proof (cases "rl_ID x = rid")
    case True
    then have "x = r'" using that rows(2) by auto
    then show ?thesis using new id by simp
  next
    case False
    then show ?thesis using that rows(2) inv id by (auto simp: log log_inv_def)
  qed
  moreover have "rollout_log x db' = []" if "x \<notin> rl_ID ` set (db_rollouts db')" for x
  proof -
    have "x \<noteq> rid" using that r rows(1) by force
    then show ?thesis using that inv unfolding log log_inv_def rows(1) by auto
  qed
  ultimately show ?thesis using con by (simp add: log_inv_def)
qed

lemma insert_cohorts_frame:
  "insert_cohorts uuids now r i cs db = Inr db' \<Longrightarrow>
     db_rollouts db' = db_rollouts db \<and> db_events db' = db_events db \<and> db_claims db' = db_claims db \<and>
     db_releases db' = db_releases db \<and> (constraints db \<longrightarrow> constraints db')"
  by (induction cs arbitrary: i db) (force simp: and_then_Inr)+

lemma create_log_inv:
  assumes "log_inv db" "CreateRollout uuids now rollout cs cmd db = Inr (x, db')"
  shows "log_inv db'"
proof (cases "first_by rl_IdempotencyKey (db_rollouts db)
    (rl_IdempotencyKey (prepare_rollout (uuids 0) now cmd rollout))")
  case (Some e)
  then show ?thesis using assms by (auto simp: CreateRollout_def Let_def split: if_splits)
next
  case None
  define r where "r = prepare_rollout (uuids 0) now cmd rollout"
  obtain db2 u where c1: "constraints (db\<lparr>db_rollouts := db_rollouts db @ [r]\<rparr>)"
    and c2: "insert_cohorts uuids now r 1 cs (db\<lparr>db_rollouts := db_rollouts db @ [r]\<rparr>) = Inr db2"
    and c3: "appendEventTx u ''rollout'' (rl_ID r) ''rollout.created'' []
       (rollout_state_string (rl_State r)) cmd (rl_CreatedAt r) db2 = Inr db'"
    using assms(2) None by (fastforce simp: CreateRollout_def Let_def r_def and_then_Inr)
  have f: "db_rollouts db2 = db_rollouts db @ [r]" "db_events db2 = db_events db"
    using insert_cohorts_frame [OF c2] by auto
  have rows: "db_rollouts db' = db_rollouts db @ [r]" and con: "constraints db'"
    and events: "db_events db' = db_events db @ [new_event u ''rollout'' (rl_ID r)
       ''rollout.created'' [] (rollout_state_string (rl_State r)) cmd (rl_CreatedAt r) (db_events db)]"
    using c3 f by (auto simp: appendEventTx_Inr)
  have fresh: "rl_ID r \<notin> rl_ID ` set (db_rollouts db)"
    using c1 by (auto simp: constraints_def rollout_constraints_def Let_def)
  have nil: "rollout_log (rl_ID r) db = []" using assms(1) fresh by (simp add: log_inv_def)
  have "max_sequence (rollout_log (rl_ID r) db) = 0" by (simp add: nil max_sequence_def)
  then have "logged (rollout_log (rl_ID r) db') r"
    by (simp add: events nil logged_def gapless_def valid_update_def max_sequence_def)
  then show ?thesis
    using assms(1) con fresh unfolding log_inv_def
    by (auto simp: rows events)
qed

lemma rollout_columns_fields [simp]:
  "rl_ID (rollout_columns to now r) = rl_ID r"
  "rl_State (rollout_columns to now r) = to"
  "rl_Version (rollout_columns to now r) = rl_Version r + 1"
  "rl_Target (rollout_columns to now r) = rl_Target r"
  by (simp_all add: rollout_columns_def)

lemma transition_row:
  assumes "first_by rl_ID rows rid = Some r" "distinct (map rl_ID rows)"
  shows "rl_ID ` set (update_where (\<lambda>r. rl_ID r = rid \<and> P r) (rollout_columns to now) rows) =
         rl_ID ` set rows"
    and "P r \<Longrightarrow> set (update_where (\<lambda>r. rl_ID r = rid \<and> P r) (rollout_columns to now) rows) \<subseteq>
         insert (rollout_columns to now r) {x \<in> set rows. rl_ID x \<noteq> rid}"
proof -
  have r: "r \<in> set rows" "rl_ID r = rid" using first_by_Some [OF assms(1)] by auto
  show "rl_ID ` set (update_where (\<lambda>r. rl_ID r = rid \<and> P r) (rollout_columns to now) rows) =
         rl_ID ` set rows"
    unfolding set_map [symmetric] by (simp add: map_update_where)
  assume "P r"
  then show "set (update_where (\<lambda>r. rl_ID r = rid \<and> P r) (rollout_columns to now) rows) \<subseteq>
         insert (rollout_columns to now r) {x \<in> set rows. rl_ID x \<noteq> rid}"
    using r assms(2) by (auto simp: set_update_where distinct_map inj_on_def)
qed

lemma transition_cases:
  assumes "transitionState uuid now rid v to cmd db = Inr (b, db')"
  obtains (replayed) "b = False" "db' = db" "cmd_IdempotencyKey cmd \<noteq> []"
      "\<exists>e. first_by er_IdempotencyKey (rollout_log rid db) (cmd_IdempotencyKey cmd) = Some e \<and>
         er_NewState e = rollout_state_string to"
  | (applied) r where "b = True" "first_by rl_ID (db_rollouts db) rid = Some r" "rl_Version r = v"
      "ValidateRolloutTransition (rl_State r) to = None" "constraints db'"
      "cmd_IdempotencyKey cmd = [] \<or>
       first_by er_IdempotencyKey (rollout_log rid db) (cmd_IdempotencyKey cmd) = None"
      "db_rollouts db' = update_where (\<lambda>r. rl_ID r = rid \<and> rl_Version r = v) (rollout_columns to now)
         (db_rollouts db)"
      "db_cohorts db' = db_cohorts db" "db_claims db' = db_claims db" "db_releases db' = db_releases db"
      "db_events db' = db_events db @ [new_event uuid ''rollout'' rid
         (''rollout.'' @ rollout_state_string to) (rollout_state_string (rl_State r))
         (rollout_state_string to) cmd now (db_events db)]"
proof (cases "existingCommandTx ''rollout'' rid (cmd_IdempotencyKey cmd) (rollout_state_string to) db")
  case (Inl e)
  then show ?thesis using assms by (simp add: transitionState_def)
next
  case (Inr already)
  show ?thesis
  proof (cases already)
    case True
    then show ?thesis using Inr assms replayed
      by (auto simp: transitionState_def existingCommandTx_def split: if_splits option.splits)
  next
    case False
    then obtain r where row: "first_by rl_ID (db_rollouts db) rid = Some r" "rl_Version r = v"
      "ValidateRolloutTransition (rl_State r) to = None"
      using Inr assms by (auto simp: transitionState_def split: option.splits if_splits)
    have key: "cmd_IdempotencyKey cmd = [] \<or>
       first_by er_IdempotencyKey (rollout_log rid db) (cmd_IdempotencyKey cmd) = None"
      using Inr False by (auto simp: existingCommandTx_def split: if_splits option.splits)
    show ?thesis
      by (rule applied [OF _ row _ key])
        (use Inr assms False row in \<open>auto simp: transitionState_def and_then_Inr appendEventTx_Inr\<close>)
  qed
qed

lemma transition_log_inv:
  assumes "log_inv db" "transitionState uuid now rid v to cmd db = Inr (b, db')"
  shows "log_inv db'"
  using assms(2)
proof (cases rule: transition_cases)
  case replayed
  then show ?thesis using assms(1) by simp
next
  case (applied r)
  have d: "distinct (map rl_ID (db_rollouts db))"
    using assms(1) by (simp add: log_inv_def constraints_def rollout_constraints_def Let_def)
  show ?thesis
  proof (rule log_inv_event [OF assms(1) applied(5,2)])
    show "rl_ID (rollout_columns to now r) = rid"
      using first_by_Some [OF applied(2)] by (simp add: rollout_columns_def)
  qed (use transition_row [OF applied(2) d, of "\<lambda>r. rl_Version r = v"] applied in
      \<open>simp_all add: rollout_columns_def\<close>)
qed

lemma log_inv_note:
  assumes "log_inv db" "constraints db'" "first_by rl_ID (db_rollouts db) rid = Some r"
    "db_rollouts db' = db_rollouts db"
    "db_events db' = db_events db @ [new_event u ''rollout'' rid ty
        (rollout_state_string (rl_State r)) (rollout_state_string (rl_State r)) c now (db_events db)]"
  shows "log_inv db'"
proof (rule log_inv_event [OF assms(1-3)])
  have d: "distinct (map rl_ID (db_rollouts db))"
    using assms(1) by (simp add: log_inv_def constraints_def rollout_constraints_def Let_def)
  show "set (db_rollouts db') \<subseteq> insert r {x \<in> set (db_rollouts db). rl_ID x \<noteq> rid}"
    using first_by_Some [OF assms(3)] d assms(4) by (auto simp: distinct_map inj_on_def)
  show "rl_ID r = rid" using first_by_Some [OF assms(3)] by simp
qed (use assms(4,5) in auto)

lemma cohort_update_shape:
  assumes "UpdateRolloutCohort uuid now c v cmd db = Inr (c', db')"
  obtains r e where "first_by co_ID (db_cohorts db) (co_ID c) = Some r" "co_Version r = v"
    "db_cohorts db' = update_where (\<lambda>r. co_ID r = co_ID c \<and> co_Version r = v)
       (cohort_columns (c\<lparr>co_UpdatedAt := now,
          co_HealthSummaryJSON := jsonDefault (co_HealthSummaryJSON c) ''{}''\<rparr>)) (db_cohorts db)"
    "db_rollouts db' = db_rollouts db" "db_claims db' = db_claims db" "db_releases db' = db_releases db"
    "db_events db' = db_events db @ [e]" "er_AggregateType e = ''rollout_cohort''" "constraints db'"
  using assms
  by (fastforce simp: UpdateRolloutCohort_def Let_def and_then_Inr appendEventTx_Inr
      split: option.splits if_splits)

lemma cohort_log_inv:
  assumes "log_inv db" "UpdateRolloutCohort uuid now c v cmd db = Inr (c', db')"
  shows "log_inv db'"
  by (rule cohort_update_shape [OF assms(2)]; rule log_inv_frame [OF assms(1)]) auto

lemma claim_loop_cases:
  assumes "claim_loop pl uuid token w now until rids db = Inr (res, db')"
  obtains (none) "res = None" "db' = db"
      "\<forall>rid \<in> set rids. upsert_claim rid w token now until (db_claims db) = None"
  | (some) pre rid suf c where "res = Some c" "rids = pre @ rid # suf"
      "\<forall>rid \<in> set pre. upsert_claim rid w token now until (db_claims db) = None"
      "claim_one pl uuid token w now until rid db = Some (Inr (c, db'))"
  using assms
proof (induction rids arbitrary: thesis)
  case Nil
  then show ?case by simp
next
  case (Cons rid rids)
  show ?case
  proof (cases "claim_one pl uuid token w now until rid db")
    case None
    have up: "upsert_claim rid w token now until (db_claims db) = None"
      using None by (simp add: claim_one_def split: option.splits)
    from None Cons.prems(3) have "claim_loop pl uuid token w now until rids db = Inr (res, db')"
      by simp
    then show ?thesis
    proof (rule Cons.IH [rotated 2])
      assume "res = None" "db' = db"
        "\<forall>rid \<in> set rids. upsert_claim rid w token now until (db_claims db) = None"
      then show ?thesis using Cons.prems(1) up by simp
    next
      fix pre x suf c
      assume a: "res = Some c" "rids = pre @ x # suf"
        "\<forall>rid \<in> set pre. upsert_claim rid w token now until (db_claims db) = None"
        "claim_one pl uuid token w now until x db = Some (Inr (c, db'))"
      show ?thesis by (rule Cons.prems(2) [of c "rid # pre" x suf]) (use a up in auto)
    qed
  next
    case (Some r)
    then obtain c where "r = Inr (c, db')" "res = Some c"
      using Cons.prems(3) by (auto simp: and_then_Inr)
    then show ?thesis using Cons.prems(2) [of c "[]" rid rids] Some by simp
  qed
qed

lemma claim_one_shape:
  assumes "claim_one pl uuid token w now until rid db = Some (Inr ((claim, takeover), db'))"
  obtains claims r where "upsert_claim rid w token now until (db_claims db) = Some claims"
    "first_by cl_RolloutID claims rid = Some claim" "first_by rl_ID (db_rollouts db) rid = Some r"
    "db_claims db' = claims" "db_rollouts db' = db_rollouts db" "db_cohorts db' = db_cohorts db"
    "db_releases db' = db_releases db" "constraints db'"
    "db_events db' = db_events db @ [new_event uuid ''rollout'' rid
       (if takeover then ''rollout.reclaimed'' else ''rollout.claimed'')
       (rollout_state_string (rl_State r)) (rollout_state_string (rl_State r))
       (claim_command pl token w (cl_Attempt claim) takeover) now (db_events db)]"
  using assms
  by (auto simp: claim_one_def Let_def and_then_Inr appendEventTx_Inr split: option.splits)

lemma ClaimNextRollout_loop:
  "ClaimNextRollout pl uuid token w now until db = Inr x \<Longrightarrow>
     w \<noteq> [] \<and> now < until \<and> claim_loop pl uuid token w now until (claim_candidates now db) db = Inr x"
  by (simp add: ClaimNextRollout_def split: if_splits)

lemma claim_log_inv:
  assumes "log_inv db" "ClaimNextRollout pl uuid token w now until db = Inr (res, db')"
  shows "log_inv db'"
proof -
  have "claim_loop pl uuid token w now until (claim_candidates now db) db = Inr (res, db')"
    using ClaimNextRollout_loop [OF assms(2)] by simp
  then show ?thesis
  proof (cases rule: claim_loop_cases)
    case none
    then show ?thesis using assms(1) by simp
  next
    case (some pre rid suf c)
    obtain claim takeover where c: "c = (claim, takeover)" by force
    from some(4) [unfolded c] show ?thesis
      by (rule claim_one_shape) (rule log_inv_note [OF assms(1)], simp_all)
  qed
qed

lemma heartbeat_shape:
  assumes "HeartbeatRollout rid w token now until db = Inr (st, db')"
  shows "db_claims db' = update_where (owns_lease rid w token now)
       (\<lambda>c. c\<lparr>cl_HeartbeatAt := now, cl_LeaseExpires := until,
              cl_Version := cl_Version c + 1, cl_UpdatedAt := now\<rparr>) (db_claims db) \<and>
     db_rollouts db' = db_rollouts db \<and> db_cohorts db' = db_cohorts db \<and>
     db_releases db' = db_releases db \<and> db_events db' = db_events db \<and> constraints db' \<and> now < until \<and>
     (ls_Current st \<longleftrightarrow> length (filter (owns_lease rid w token now) (db_claims db)) = 1)"
  using assms
  by (auto simp: HeartbeatRollout_def Let_def lost_lease_def and_then_Inr split: option.splits if_splits)

lemma heartbeat_log_inv:
  assumes "log_inv db" "HeartbeatRollout rid w token now until db = Inr (st, db')"
  shows "log_inv db'"
  using heartbeat_shape [OF assms(2)] by (intro log_inv_frame [OF assms(1)]) auto

lemma release_shape:
  assumes "ReleaseRolloutClaim pl uuid rid w token now avail cmd db = Inr (b, db')"
  shows "db_claims db' = update_where (owns_lease rid w token now)
       (\<lambda>c. c\<lparr>cl_State := RolloutClaimReleased, cl_AvailableAt := avail, cl_LeaseExpires := now,
              cl_HeartbeatAt := now, cl_Version := cl_Version c + 1, cl_UpdatedAt := now\<rparr>)
       (db_claims db) \<and>
     db_rollouts db' = db_rollouts db \<and> db_cohorts db' = db_cohorts db \<and>
     db_releases db' = db_releases db \<and> constraints db' \<and>
     (b \<longleftrightarrow> length (filter (owns_lease rid w token now) (db_claims db)) = 1) \<and>
     (\<exists>c r. (b \<longrightarrow> first_by rl_ID (db_rollouts db) rid = Some r) \<and>
        db_events db' = db_events db @ (if b then [new_event uuid ''rollout'' rid
          ''rollout.claim_released'' (rollout_state_string (rl_State r))
          (rollout_state_string (rl_State r)) c now (db_events db)] else []))"
  using assms
  by (auto simp: ReleaseRolloutClaim_def Let_def and_then_Inr appendEventTx_Inr
      split: option.splits if_splits)

lemma release_log_inv:
  assumes "log_inv db" "ReleaseRolloutClaim pl uuid rid w token now avail cmd db = Inr (b, db')"
  shows "log_inv db'"
proof (cases b)
  case True
  then show ?thesis using release_shape [OF assms(2)]
    by (elim conjE exE) (rule log_inv_note [OF assms(1)], auto)
next
  case False
  then show ?thesis using release_shape [OF assms(2)]
    by (intro log_inv_frame [OF assms(1)]) auto
qed

lemma step_log_inv: "store_step db db' \<Longrightarrow> log_inv db \<Longrightarrow> log_inv db'"
  by (induction rule: store_step.induct)
    (auto intro: create_log_inv transition_log_inv cohort_log_inv claim_log_inv heartbeat_log_inv
      release_log_inv)

lemma run_log_inv: "store_run db db' \<Longrightarrow> log_inv db \<Longrightarrow> log_inv db'"
  by (induction rule: rtranclp_induct) (auto intro: step_log_inv)

lemma empty_log_inv: "log_inv (empty_store releases)"
  by (simp add: log_inv_def empty_store_def constraints_def rollout_constraints_def
      cohort_constraints_def claim_constraints_def event_constraints_def active_targets_def Let_def
      stream_of_def)

section \<open>Rows with optimistic versions\<close>

text \<open>
  The interface the controller and the API rely on: rows whose version never decreases under
  any transaction, and an update that succeeds only at the version it expects and increases it.
\<close>

locale versioned_rows =
  fixes step :: "'s \<Rightarrow> 's \<Rightarrow> bool"
    and version :: "'s \<Rightarrow> 'k \<Rightarrow> int option"
    and update :: "'k \<Rightarrow> int \<Rightarrow> 's \<Rightarrow> 's \<Rightarrow> bool"
  assumes version_grows: "step s s' \<Longrightarrow> version s k = Some v \<Longrightarrow> \<exists>v' \<ge> v. version s' k = Some v'"
    and update_expects: "update k v s s' \<Longrightarrow> version s k = Some v"
    and update_bumps: "update k v s s' \<Longrightarrow> version s' k = Some (v + 1)"
begin

lemma run_version_grows:
  "step\<^sup>*\<^sup>* s s' \<Longrightarrow> version s k = Some v \<Longrightarrow> \<exists>v' \<ge> v. version s' k = Some v'"
  by (induction rule: rtranclp_induct) (auto dest: version_grows intro: order_trans)

lemma one_update_per_version:
  assumes "update k v s s1" "step\<^sup>*\<^sup>* s1 s2"
  shows "\<not> update k v s2 s3"
proof
  assume "update k v s2 s3"
  then have "version s2 k = Some v" by (rule update_expects)
  with run_version_grows [OF assms(2) update_bumps [OF assms(1)]] show False by auto
qed

end

lemma first_by_update_row:
  assumes "\<And>r. key (f r) = key r" "first_by key rows k = Some r"
  shows "first_by key (update_where cond f rows) k = Some (if cond r then f r else r)"
  by (subst first_by_update_where) (simp_all add: assms)

lemma cohort_columns_fields [simp]:
  "co_ID (cohort_columns c r) = co_ID r" "co_Version (cohort_columns c r) = co_Version r + 1"
  "co_RolloutID (cohort_columns c r) = co_RolloutID r" "co_Ordinal (cohort_columns c r) = co_Ordinal r"
  by (simp_all add: cohort_columns_def)

lemma insert_cohorts_appends:
  "insert_cohorts uuids now r i cs db = Inr db' \<Longrightarrow> \<exists>ys. db_cohorts db' = db_cohorts db @ ys"
proof (induction cs arbitrary: i db)
  case (Cons c cs)
  from Cons.prems have "insert_cohorts uuids now r (Suc i) cs
      (db\<lparr>db_cohorts := db_cohorts db @ [prepare_cohort (uuids i) now r c]\<rparr>) = Inr db'"
    by (auto simp: and_then_Inr)
  from Cons.IH [OF this] show ?case by auto
qed simp

lemma create_shape:
  assumes "CreateRollout uuids now rollout cs cmd db = Inr (x, db')"
  shows "\<exists>rs ys es. db_rollouts db' = db_rollouts db @ rs \<and> db_cohorts db' = db_cohorts db @ ys \<and>
    db_events db' = db_events db @ es \<and> db_claims db' = db_claims db \<and>
    db_releases db' = db_releases db \<and> (db' \<noteq> db \<longrightarrow> constraints db')"
proof (cases "first_by rl_IdempotencyKey (db_rollouts db)
    (rl_IdempotencyKey (prepare_rollout (uuids 0) now cmd rollout))")
  case (Some e)
  then have "db' = db" using assms by (auto simp: CreateRollout_def Let_def split: if_splits)
  then show ?thesis by simp
next
  case None
  then obtain r db2 u where
    c2: "insert_cohorts uuids now r 1 cs (db\<lparr>db_rollouts := db_rollouts db @ [r]\<rparr>) = Inr db2"
    and c3: "appendEventTx u ''rollout'' (rl_ID r) ''rollout.created'' []
       (rollout_state_string (rl_State r)) cmd (rl_CreatedAt r) db2 = Inr db'"
    using assms by (fastforce simp: CreateRollout_def Let_def and_then_Inr)
  show ?thesis
    using insert_cohorts_frame [OF c2] insert_cohorts_appends [OF c2] c3
    by (auto simp: appendEventTx_Inr)
qed

definition rollout_version :: "database \<Rightarrow> string \<Rightarrow> int option" where
  "rollout_version db rid = map_option rl_Version (first_by rl_ID (db_rollouts db) rid)"

definition cohort_version :: "database \<Rightarrow> string \<Rightarrow> int option" where
  "cohort_version db i = map_option co_Version (first_by co_ID (db_cohorts db) i)"

definition rollout_updated :: "string \<Rightarrow> int \<Rightarrow> database \<Rightarrow> database \<Rightarrow> bool" where
  "rollout_updated rid v db db' \<longleftrightarrow>
     (\<exists>uuid now to cmd. transitionState uuid now rid v to cmd db = Inr (True, db'))"

definition cohort_updated :: "string \<Rightarrow> int \<Rightarrow> database \<Rightarrow> database \<Rightarrow> bool" where
  "cohort_updated i v db db' \<longleftrightarrow>
     (\<exists>uuid now c cmd c'. co_ID c = i \<and> UpdateRolloutCohort uuid now c v cmd db = Inr (c', db'))"

text \<open>How one transaction may change the rollout and cohort tables and the claims.\<close>

lemma claim_shape:
  assumes "ClaimNextRollout pl uuid token w now until db = Inr (res, db')"
  shows "db_rollouts db' = db_rollouts db \<and> db_cohorts db' = db_cohorts db \<and>
    db_releases db' = db_releases db \<and> (\<exists>es. db_events db' = db_events db @ es) \<and>
    (db' \<noteq> db \<longrightarrow> constraints db')"
proof -
  have "claim_loop pl uuid token w now until (claim_candidates now db) db = Inr (res, db')"
    using ClaimNextRollout_loop [OF assms] by simp
  then show ?thesis
  proof (cases rule: claim_loop_cases)
    case (some pre rid suf c)
    obtain claim takeover where c: "c = (claim, takeover)" by force
    from some(4) [unfolded c] show ?thesis by (rule claim_one_shape) auto
  qed simp
qed

lemma step_rollout_rows:
  assumes "store_step db db'" "first_by rl_ID (db_rollouts db) rid = Some r"
  shows "\<exists>r'. first_by rl_ID (db_rollouts db') rid = Some r' \<and>
    (r' = r \<or> (\<exists>to now. ValidateRolloutTransition (rl_State r) to = None \<and> r' = rollout_columns to now r))"
  using assms
proof (induction rule: store_step.induct)
  case (step_create uuids now r cs cmd db x db')
  then show ?case using create_shape [OF step_create(1)] by (auto simp: first_by_append)
next
  case (step_transition uuid now rid' v to cmd db b db')
  from step_transition(1) show ?case
  proof (cases rule: transition_cases)
    case replayed
    then show ?thesis using step_transition(2) by simp
  next
    case (applied r')
    then show ?thesis
      using step_transition(2) first_by_Some [OF step_transition(2)]
      by (auto simp: first_by_update_row)
  qed
next
  case (step_cohort uuid now c v cmd db c' db')
  then show ?case by (auto elim!: cohort_update_shape)
qed (auto dest!: claim_shape heartbeat_shape release_shape)

lemma step_cohort_rows:
  assumes "store_step db db'" "first_by co_ID (db_cohorts db) i = Some c"
  shows "\<exists>c'. first_by co_ID (db_cohorts db') i = Some c' \<and>
    (c' = c \<or> (\<exists>d. c' = cohort_columns d c))"
  using assms
proof (induction rule: store_step.induct)
  case (step_create uuids now r cs cmd db x db')
  then show ?case using create_shape [OF step_create(1)] by (auto simp: first_by_append)
next
  case (step_transition uuid now rid' v to cmd db b db')
  then show ?case by (auto elim!: transition_cases)
next
  case (step_cohort uuid now d v cmd db c' db')
  from step_cohort(1) show ?case
    by (rule cohort_update_shape) (use step_cohort(2) in \<open>auto simp: first_by_update_row\<close>)
qed (auto dest!: claim_shape heartbeat_shape release_shape)

lemma step_events_append: "store_step db db' \<Longrightarrow> \<exists>es. db_events db' = db_events db @ es"
proof (induction rule: store_step.induct)
  case (step_create uuids now r cs cmd db x db')
  then show ?case using create_shape [OF step_create(1)] by auto
next
  case (step_claim pl uuid token w now until db res db')
  then show ?case using claim_shape by blast
qed (auto elim!: transition_cases cohort_update_shape dest!: heartbeat_shape release_shape)

lemma run_events_append: "store_run db db' \<Longrightarrow> \<exists>es. db_events db' = db_events db @ es"
  by (induction rule: rtranclp_induct) (auto dest!: step_events_append)

lemma step_constraints: "store_step db db' \<Longrightarrow> constraints db \<Longrightarrow> constraints db'"
proof (induction rule: store_step.induct)
  case (step_create uuids now r cs cmd db x db')
  then show ?case using create_shape [OF step_create(1)] by auto
next
  case (step_claim pl uuid token w now until db res db')
  then show ?case using claim_shape by blast
qed (auto elim!: transition_cases cohort_update_shape dest!: heartbeat_shape release_shape)

lemma run_constraints: "store_run db db' \<Longrightarrow> constraints db \<Longrightarrow> constraints db'"
  by (induction rule: rtranclp_induct) (auto intro: step_constraints)

interpretation rollout_rows: versioned_rows store_step rollout_version rollout_updated
proof
  show "\<exists>v' \<ge> v. rollout_version s' k = Some v'"
    if "store_step s s'" "rollout_version s k = Some v" for s s' k v
    using that step_rollout_rows [OF that(1)] by (fastforce simp: rollout_version_def)
  show "rollout_version s k = Some v" "rollout_version s' k = Some (v + 1)"
    if "rollout_updated k v s s'" for s s' k v
    using that
    by (auto simp: rollout_updated_def rollout_version_def first_by_update_row
        dest: first_by_Some elim!: transition_cases)
qed

interpretation cohort_rows: versioned_rows store_step cohort_version cohort_updated
proof
  show "\<exists>v' \<ge> v. cohort_version s' k = Some v'"
    if "store_step s s'" "cohort_version s k = Some v" for s s' k v
    using that step_cohort_rows [OF that(1)] by (fastforce simp: cohort_version_def)
  show "cohort_version s k = Some v" "cohort_version s' k = Some (v + 1)"
    if "cohort_updated k v s s'" for s s' k v
    using that
    by (auto simp: cohort_updated_def cohort_version_def first_by_update_row
        dest: first_by_Some elim!: cohort_update_shape)
qed

section \<open>A concrete store\<close>

definition sample_releases :: "release_row list" where
  "sample_releases =
     [\<lparr>re_ID = ''rel-1'', re_State = ReleaseStable, re_RollbackEligible = True\<rparr>,
      \<lparr>re_ID = ''rel-2'', re_State = ReleaseCandidateChannel, re_RollbackEligible = True\<rparr>]"

definition sample_rollout_row :: "string \<Rightarrow> rollout_row" where
  "sample_rollout_row rid =
     \<lparr>rl_ID = rid, rl_Target = ''prod'', rl_FromReleaseID = ''rel-1'', rl_ToReleaseID = ''rel-2'',
      rl_Strategy = ''canary'', rl_State = RolloutOther [], rl_PolicySnapshotJSON = [],
      rl_Actor = ''ops'', rl_IdempotencyKey = [], rl_RollbackOfRolloutID = [], rl_ErrorClass = [],
      rl_ErrorDetail = [], rl_Version = 0, rl_StartedAt = None, rl_CompletedAt = None,
      rl_CreatedAt = 0, rl_UpdatedAt = 0\<rparr>"

definition sample_cohort_row :: "string \<Rightarrow> string \<Rightarrow> int \<Rightarrow> cohort_row" where
  "sample_cohort_row i name ordinal =
     \<lparr>co_ID = i, co_RolloutID = [], co_Name = name, co_Ordinal = ordinal, co_DesiredReleaseID = [],
      co_ObservedReleaseID = [], co_State = CohortOther [], co_TotalWorkers = 2,
      co_ReadyWorkers = 0, co_FailedWorkers = 0, co_HealthSummaryJSON = [], co_Deadline = None,
      co_StartedAt = None, co_HealthObservedAt = None, co_CompletedAt = None, co_Version = 0,
      co_CreatedAt = 0, co_UpdatedAt = 0\<rparr>"

definition sample_command :: "string \<Rightarrow> command" where
  "sample_command key =
     \<lparr>cmd_Actor = ''ops'', cmd_Reason = ''go'', cmd_PolicyRevision = 1, cmd_IdempotencyKey = key,
      cmd_PayloadJSON = []\<rparr>"

definition store_created :: database where
  "store_created = snd (transact (CreateRollout (\<lambda>n. ''u'') 10 (sample_rollout_row ''r1'')
     [sample_cohort_row ''c1'' ''canary'' 0] (sample_command ''k1'')) (empty_store sample_releases))"

definition store_prepared :: database where
  "store_prepared = snd (transact
     (transitionState ''u'' 11 ''r1'' 1 RolloutPreparing (sample_command ''k2'')) store_created)"

lemma transact_Inr:
  "is_ok (fst (transact op db)) \<Longrightarrow> \<exists>x. op db = Inr (x, snd (transact op db))"
  by (auto simp: transact_def is_ok_def split: sum.splits)

lemma store_created_step: "store_step (empty_store sample_releases) store_created"
proof -
  have "is_ok (fst (transact (CreateRollout (\<lambda>n. ''u'') 10 (sample_rollout_row ''r1'')
     [sample_cohort_row ''c1'' ''canary'' 0] (sample_command ''k1'')) (empty_store sample_releases)))"
    by code_simp
  from transact_Inr [OF this] show ?thesis
    unfolding store_created_def by (auto intro: step_create)
qed

lemma store_prepared_transition:
  "transitionState ''u'' 11 ''r1'' 1 RolloutPreparing (sample_command ''k2'') store_created =
     Inr (True, store_prepared)"
  by code_simp

lemma store_created_run: "store_run (empty_store sample_releases) store_created"
  using store_created_step by blast

lemma store_prepared_run: "store_run (empty_store sample_releases) store_prepared"
  using store_created_run step_transition [OF store_prepared_transition] by (rule rtranclp.rtrancl_into_rtrancl)

section \<open>Properties of the rollout store\<close>

text \<open>C1: Whatever sequence of transactions is committed on a new store, the event log of every
  rollout is numbered 1, 2, 3, ..., replays from the empty state to the state in its row, and
  records no update the transition table forbids.\<close>

theorem rollout_log_refines_state:
  assumes "store_run (empty_store releases) db" "r \<in> set (db_rollouts db)"
  shows "replay [] (rollout_log (rl_ID r) db) = Some (rollout_state_string (rl_State r)) \<and>
         rollout_log (rl_ID r) db \<noteq> [] \<and>
         map er_Sequence (rollout_log (rl_ID r) db) =
           map int [1..<Suc (length (rollout_log (rl_ID r) db))]"
  using run_log_inv [OF assms(1) empty_log_inv] assms(2)
  by (simp add: log_inv_def logged_def gapless_def)

theorem rollout_log_refines_state_witness:
  "replay [] (rollout_log ''r1'' store_prepared) = Some ''preparing'' \<and>
   map er_Sequence (rollout_log ''r1'' store_prepared) = [1, 2]"
proof -
  have "map (\<lambda>r. (rl_ID r, rl_State r)) (db_rollouts store_prepared) = [(''r1'', RolloutPreparing)]"
    by code_simp
  then obtain r where r: "r \<in> set (db_rollouts store_prepared)" "rl_ID r = ''r1''"
    "rl_State r = RolloutPreparing" by auto
  have "length (rollout_log ''r1'' store_prepared) = 2" by code_simp
  then show ?thesis
    using rollout_log_refines_state [OF store_prepared_run r(1)] r by (simp add: upt_rec)
qed

text \<open>In every reachable store two unfinished rollouts of the same target are one rollout,
  every cohort and claim belongs to a rollout of the store, and the releases a rollout goes from
  and to exist.\<close>

theorem one_active_rollout_per_target:
  assumes "store_run (empty_store releases) db"
  shows "(\<forall>r \<in> set (db_rollouts db). \<forall>q \<in> set (db_rollouts db).
            active_state (rl_State r) \<and> active_state (rl_State q) \<and> rl_Target r = rl_Target q \<longrightarrow> r = q) \<and>
         (\<forall>c \<in> set (db_cohorts db). \<exists>r \<in> set (db_rollouts db). rl_ID r = co_RolloutID c) \<and>
         (\<forall>c \<in> set (db_claims db). \<exists>r \<in> set (db_rollouts db). rl_ID r = cl_RolloutID c) \<and>
         (\<forall>r \<in> set (db_rollouts db). \<exists>x \<in> set (db_releases db). re_ID x = rl_ToReleaseID r)"
proof -
  have con: "constraints db"
    using run_log_inv [OF assms empty_log_inv] by (simp add: log_inv_def)
  have "distinct (map rl_Target (filter (\<lambda>r. active_state (rl_State r)) (db_rollouts db)))"
    using con by (simp add: constraints_def rollout_constraints_def Let_def active_targets_def)
  then have "\<forall>r \<in> set (db_rollouts db). \<forall>q \<in> set (db_rollouts db).
      active_state (rl_State r) \<and> active_state (rl_State q) \<and> rl_Target r = rl_Target q \<longrightarrow> r = q"
    by (auto simp: distinct_map inj_on_def)
  moreover have "\<forall>r \<in> set (db_rollouts db). \<exists>x \<in> set (db_releases db). re_ID x = rl_ToReleaseID r"
    using con by (force simp: constraints_def rollout_constraints_def Let_def list_all_iff)
  moreover have "\<forall>c \<in> set (db_cohorts db). \<exists>r \<in> set (db_rollouts db). rl_ID r = co_RolloutID c"
    using con by (force simp: constraints_def cohort_constraints_def Let_def list_all_iff)
  moreover have "\<forall>c \<in> set (db_claims db). \<exists>r \<in> set (db_rollouts db). rl_ID r = cl_RolloutID c"
    using con by (force simp: constraints_def claim_constraints_def Let_def list_all_iff)
  ultimately show ?thesis by simp
qed

theorem one_active_rollout_per_target_witness:
  "\<exists>r \<in> set (db_rollouts store_prepared). rl_ID r = ''r1'' \<and>
     (\<exists>x \<in> set (db_releases store_prepared). re_ID x = rl_ToReleaseID r)"
proof -
  have "map rl_ID (db_rollouts store_prepared) = [''r1'']" by code_simp
  then show ?thesis using one_active_rollout_per_target [OF store_prepared_run] by auto
qed

text \<open>C10: A transition of a rollout that was applied at a version is the only one ever applied
  at it: whatever was committed in between, a second command for the same version can only be
  the replay of a command already in the log, and then changes nothing.\<close>

theorem lost_update_impossible:
  assumes "transitionState u1 t1 rid v to1 c1 db = Inr (True, db1)" "store_run db1 db2"
    and "transitionState u2 t2 rid v to2 c2 db2 = Inr (b, db3)"
  shows "b = False \<and> db3 = db2 \<and> (\<exists>e \<in> set (rollout_log rid db2).
           er_IdempotencyKey e = cmd_IdempotencyKey c2 \<and> er_NewState e = rollout_state_string to2)"
proof -
  have "rollout_updated rid v db db1" using assms(1) by (auto simp: rollout_updated_def)
  then have "\<not> rollout_updated rid v db2 db3"
    using assms(2) by (rule rollout_rows.one_update_per_version)
  then have "b = False" using assms(3) by (cases b) (auto simp: rollout_updated_def)
  from assms(3) show ?thesis
    by (rule transition_cases) (use \<open>b = False\<close> in \<open>auto dest: first_by_Some\<close>)
qed

theorem lost_update_impossible_witness:
  "transitionState ''u'' 12 ''r1'' 1 RolloutFailed (sample_command ''k3'') store_prepared =
     Inl VersionConflict \<and>
   transitionState ''u'' 12 ''r1'' 1 RolloutPreparing (sample_command ''k2'') store_prepared =
     Inr (False, store_prepared)"
proof -
  have c: "transitionState ''u'' 12 ''r1'' 1 RolloutFailed (sample_command ''k3'') store_prepared =
     Inl VersionConflict" by code_simp
  have ok: "is_ok (transitionState ''u'' 12 ''r1'' 1 RolloutPreparing (sample_command ''k2'') store_prepared)"
    by code_simp
  then obtain b db3 where r: "transitionState ''u'' 12 ''r1'' 1 RolloutPreparing (sample_command ''k2'')
      store_prepared = Inr (b, db3)"
    by (auto simp: is_ok_def split: sum.splits)
  from lost_update_impossible [OF store_prepared_transition rtranclp.rtrancl_refl r] c r
  show ?thesis by simp
qed

lemma log_keys_distinct:
  assumes "constraints db" "e \<in> set (rollout_log rid db)"
  shows "first_by er_IdempotencyKey (rollout_log rid db) (er_IdempotencyKey e) = Some e"
proof (rule first_by_distinct [OF _ assms(2)])
  have "distinct (map (\<lambda>e. (er_AggregateType e, er_AggregateID e, er_IdempotencyKey e)) (db_events db))"
    using assms(1) by (simp add: constraints_def event_constraints_def Let_def)
  then show "distinct (map er_IdempotencyKey (rollout_log rid db))"
    by (fastforce simp: stream_of_def distinct_map inj_on_def)
qed

lemma transition_logged:
  assumes "transitionState u t rid v to c db = Inr (b, db1)" "cmd_IdempotencyKey c \<noteq> []"
  shows "\<exists>e \<in> set (rollout_log rid db1). er_IdempotencyKey e = cmd_IdempotencyKey c \<and>
           er_NewState e = rollout_state_string to"
  using assms(1)
proof (cases rule: transition_cases)
  case replayed
  then show ?thesis by (auto dest: first_by_Some)
next
  case (applied r)
  then show ?thesis using assms(2) by (auto simp: new_event_key)
qed

text \<open>A command with an idempotency key takes effect at most once: after it succeeded, the
  same key with the same target state succeeds without changing anything, and with another
  target state is refused, at any version and whatever was committed in between.\<close>

theorem transition_retry_idempotent:
  assumes "constraints db" "transitionState u t rid v to c db = Inr (b, db1)"
    "cmd_IdempotencyKey c \<noteq> []" "store_run db1 db2"
    "cmd_IdempotencyKey c' = cmd_IdempotencyKey c"
  shows "transitionState u' t' rid v' to' c' db2 =
           (if rollout_state_string to' = rollout_state_string to then Inr (False, db2)
            else Inl IdempotencyConflict)"
proof -
  have "store_step db db1" using assms(2) by (rule step_transition)
  then have con: "constraints db2"
    using assms(1,4) by (blast intro: step_constraints run_constraints)
  obtain e where e: "e \<in> set (rollout_log rid db1)" "er_IdempotencyKey e = cmd_IdempotencyKey c"
    "er_NewState e = rollout_state_string to"
    using transition_logged [OF assms(2,3)] by blast
  have "e \<in> set (rollout_log rid db2)" using e(1) run_events_append [OF assms(4)] by auto
  then have "first_by er_IdempotencyKey (rollout_log rid db2) (cmd_IdempotencyKey c') = Some e"
    using log_keys_distinct [OF con] e(2) assms(5) by metis
  then show ?thesis
    using assms(3,5) e(3) by (auto simp: transitionState_def existingCommandTx_def)
qed

theorem transition_retry_idempotent_witness:
  "transitionState ''u'' 99 ''r1'' 7 RolloutPreparing (sample_command ''k2'') store_prepared =
     Inr (False, store_prepared) \<and>
   transitionState ''u'' 99 ''r1'' 7 RolloutFailed (sample_command ''k2'') store_prepared =
     Inl IdempotencyConflict"
proof -
  have con: "constraints store_created"
    using run_log_inv [OF store_created_run empty_log_inv] by (simp add: log_inv_def)
  have key: "cmd_IdempotencyKey (sample_command ''k2'') \<noteq> []" by (simp add: sample_command_def)
  show ?thesis
    using transition_retry_idempotent [OF con store_prepared_transition key rtranclp.rtrancl_refl refl]
    by simp
qed

text \<open>A cohort is updated at most once per version: after an update at a version, every later
  update that expects that version is a version conflict and leaves the store as it is.\<close>

theorem cohort_lost_update_impossible:
  assumes "UpdateRolloutCohort u1 t1 c1 v cmd1 db = Inr (c1', db1)" "store_run db1 db2"
    and "co_ID c2 = co_ID c1"
  shows "transact (UpdateRolloutCohort u2 t2 c2 v cmd2) db2 = (Inl VersionConflict, db2)"
proof -
  have upd: "cohort_updated (co_ID c1) v db db1" unfolding cohort_updated_def using assms(1) by blast
  obtain v' where v': "cohort_version db2 (co_ID c1) = Some v'" "v' \<noteq> v"
    using cohort_rows.run_version_grows [OF assms(2) cohort_rows.update_bumps [OF upd]] by auto
  then obtain r where "first_by co_ID (db_cohorts db2) (co_ID c2) = Some r" "co_Version r \<noteq> v"
    using assms(3) by (auto simp: cohort_version_def)
  then show ?thesis by (simp add: transact_def UpdateRolloutCohort_def Let_def)
qed

definition sample_cohort_update :: cohort_row where
  "sample_cohort_update = (sample_cohort_row ''c1'' ''canary'' 0)\<lparr>co_RolloutID := ''r1'',
     co_DesiredReleaseID := ''rel-2'', co_State := CohortAssigning, co_Version := 1\<rparr>"

theorem cohort_lost_update_impossible_witness:
  "\<exists>c' db1. UpdateRolloutCohort ''u'' 12 sample_cohort_update 1 (sample_command ''k4'') store_prepared
       = Inr (c', db1) \<and>
     transact (UpdateRolloutCohort ''u'' 13 sample_cohort_update 1 (sample_command ''k5'')) db1
       = (Inl VersionConflict, db1)"
proof -
  have "is_ok (UpdateRolloutCohort ''u'' 12 sample_cohort_update 1 (sample_command ''k4'') store_prepared)"
    by code_simp
  then obtain c' db1 where u: "UpdateRolloutCohort ''u'' 12 sample_cohort_update 1
      (sample_command ''k4'') store_prepared = Inr (c', db1)"
    by (auto simp: is_ok_def split: sum.splits)
  show ?thesis
    using cohort_lost_update_impossible [OF u rtranclp.rtrancl_refl refl] u by blast
qed

lemma step_terminal:
  assumes "store_step db db'" "first_by rl_ID (db_rollouts db) rid = Some r"
    "IsTerminalRolloutState (rl_State r)"
  shows "first_by rl_ID (db_rollouts db') rid = Some r"
  using step_rollout_rows [OF assms(1,2)] assms(3) rollout.terminal_final by auto

text \<open>A rollout that is completed or rolled back is final: no transaction of the store changes
  any column of its row again.\<close>

theorem terminal_rollout_frozen:
  assumes "first_by rl_ID (db_rollouts db) rid = Some r" "IsTerminalRolloutState (rl_State r)"
    "store_run db db'"
  shows "first_by rl_ID (db_rollouts db') rid = Some r"
  using assms(3,1) by (induction rule: rtranclp_induct) (auto intro: step_terminal assms(2))

definition store_rolled_back :: database where
  "store_rolled_back = snd (transact
     (transitionState ''u'' 13 ''r1'' 3 RolloutRolledBack (sample_command ''k7''))
     (snd (transact (transitionState ''u'' 12 ''r1'' 2 RolloutRollingBack (sample_command ''k6''))
        store_prepared)))"

theorem terminal_rollout_frozen_witness:
  "\<exists>r c' db. UpdateRolloutCohort ''u'' 14 sample_cohort_update 1 (sample_command ''k8'') store_rolled_back
       = Inr (c', db) \<and>
     rl_State r = RolloutRolledBack \<and> rl_CompletedAt r = Some 13 \<and>
     first_by rl_ID (db_rollouts db) ''r1'' = Some r"
proof -
  have "map (\<lambda>r. (rl_ID r, rl_State r, rl_CompletedAt r)) (db_rollouts store_rolled_back) =
      [(''r1'', RolloutRolledBack, Some 13)]"
    by code_simp
  then obtain r where r: "first_by rl_ID (db_rollouts store_rolled_back) ''r1'' = Some r"
    "rl_State r = RolloutRolledBack" "rl_CompletedAt r = Some 13"
    by auto
  have "is_ok (UpdateRolloutCohort ''u'' 14 sample_cohort_update 1 (sample_command ''k8'') store_rolled_back)"
    by code_simp
  then obtain c' db where u: "UpdateRolloutCohort ''u'' 14 sample_cohort_update 1
      (sample_command ''k8'') store_rolled_back = Inr (c', db)"
    by (auto simp: is_ok_def split: sum.splits)
  have run: "store_run store_rolled_back db" using step_cohort [OF u] by blast
  have "IsTerminalRolloutState (rl_State r)" using r by (simp add: IsTerminalRolloutState_def)
  from terminal_rollout_frozen [OF r(1) this run] r u show ?thesis by blast
qed

end
