(* ===== verification/Leases.thy ===== *)
theory Leases
  imports GoPrelude
begin

text \<open>
  Leases by token, the contract of every queue of the database. A worker that claims an item gets a
  new token and writes only with it; whoever claims the item next gets another token. The promise is
  fencing: a token that once lost an item never holds it again, so a worker that stalls cannot act on
  what another has taken over.
\<close>

locale fenced_leases =
  fixes step :: "'s \<Rightarrow> 's \<Rightarrow> bool"
    and issued :: "'s \<Rightarrow> 'r \<Rightarrow> 'tok set"
    and holder :: "'s \<Rightarrow> 'r \<Rightarrow> 'tok option"
  assumes issued_grows: "step s s' \<Longrightarrow> issued s r \<subseteq> issued s' r"
    and new_holder_fresh: "step s s' \<Longrightarrow> holder s' r = Some t \<Longrightarrow> holder s r \<noteq> Some t \<Longrightarrow>
      t \<notin> issued s r \<and> t \<in> issued s' r"
begin

lemma superseded_step:
  "step s s' \<Longrightarrow> t \<in> issued s r \<and> holder s r \<noteq> Some t \<Longrightarrow> t \<in> issued s' r \<and> holder s' r \<noteq> Some t"
  using issued_grows [of s s' r] new_holder_fresh [of s s' r t] by blast

lemma superseded_forever:
  "step\<^sup>*\<^sup>* s s' \<Longrightarrow> t \<in> issued s r \<Longrightarrow> holder s r \<noteq> Some t \<Longrightarrow> holder s' r \<noteq> Some t"
  by (induction rule: converse_rtranclp_induct) (use superseded_step in blast)+

lemma still_holder:
  "step\<^sup>*\<^sup>* s s1 \<Longrightarrow> step\<^sup>*\<^sup>* s1 s2 \<Longrightarrow> t \<in> issued s r \<Longrightarrow> holder s2 r = Some t \<Longrightarrow> holder s1 r = Some t"
proof (rule ccontr)
  assume a: "step\<^sup>*\<^sup>* s s1" "step\<^sup>*\<^sup>* s1 s2" "t \<in> issued s r" "holder s2 r = Some t" "holder s1 r \<noteq> Some t"
  have "t \<in> issued s1 r" using a(1,3)
    by (induction rule: rtranclp_induct) (use issued_grows in blast)+
  with a show False using superseded_forever by blast
qed

end

end
