(* ===== verification/StoreLeases.thy ===== *)
theory StoreLeases
  imports StoreLog Leases
begin

text \<open>
  Ownership of a reconciliation pass: the leases of \<open>ClaimNextRollout\<close>, \<open>HeartbeatRollout\<close>
  and \<open>ReleaseRolloutClaim\<close>. The contract is fencing: a token that once lost a rollout never
  owns it again, so a controller that stalls cannot act on what another has taken over.
\<close>

section \<open>Tokens of claims\<close>

definition claim_key :: "string \<Rightarrow> string" where
  "claim_key token = ''rollout-claim:'' @ token"

definition tokens_issued :: "database \<Rightarrow> string \<Rightarrow> string set" where
  "tokens_issued db rid = {t. claim_key t \<in> er_IdempotencyKey ` set (rollout_log rid db)}"

definition token_held :: "database \<Rightarrow> string \<Rightarrow> string option" where
  "token_held db rid = map_option cl_LeaseToken (first_by cl_RolloutID (db_claims db) rid)"

lemma upsert_claim_rows:
  assumes "upsert_claim rid w token now until claims = Some claims'"
  shows "rid' \<noteq> rid \<Longrightarrow> first_by cl_RolloutID claims' rid' = first_by cl_RolloutID claims rid'"
    and "\<exists>c. first_by cl_RolloutID claims' rid = Some c \<and> cl_RolloutID c = rid \<and> cl_WorkerID c = w \<and>
      cl_LeaseToken c = token \<and> cl_State c = RolloutClaimActive \<and> cl_LeaseExpires c = until \<and>
      cl_Attempt c = (case first_by cl_RolloutID claims rid of None \<Rightarrow> 1 | Some p \<Rightarrow> cl_Attempt p + 1) \<and>
      (case first_by cl_RolloutID claims rid of None \<Rightarrow> True | Some p \<Rightarrow> claim_open now p)"
  using assms
  by (auto simp: upsert_claim_def first_by_append first_by_update_other first_by_update_where
      dest: first_by_Some split: option.splits if_splits)

lemma claim_granted:
  assumes "ClaimNextRollout pl uuid token w now until db = Inr (Some (claim, takeover), db')"
  obtains rid r where "claim_one pl uuid token w now until rid db = Some (Inr ((claim, takeover), db'))"
    "cl_RolloutID claim = rid" "rid \<in> set (claim_candidates now db)"
proof -
  have l: "claim_loop pl uuid token w now until (claim_candidates now db) db =
      Inr (Some (claim, takeover), db')"
    using ClaimNextRollout_loop [OF assms] by simp
  then show thesis
  proof (cases rule: claim_loop_cases)
    case (some pre rid suf c)
    then have o: "claim_one pl uuid token w now until rid db = Some (Inr ((claim, takeover), db'))"
      by simp
    then have "cl_RolloutID claim = rid"
      by (rule claim_one_shape) (auto dest: first_by_Some)
    then show ?thesis using that [OF o] some(2) by simp
  qed simp
qed

lemma log_single_key:
  assumes "constraints db'" "db_events db' = db_events db @ [e]" "er_AggregateType e = ''rollout''"
    "er_AggregateID e = rid"
  shows "er_IdempotencyKey e \<notin> er_IdempotencyKey ` set (rollout_log rid db)"
proof -
  have "distinct (map (\<lambda>e. (er_AggregateType e, er_AggregateID e, er_IdempotencyKey e))
      (db_events db @ [e]))"
    using assms(1,2) by (simp add: constraints_def event_constraints_def Let_def)
  then have "(''rollout'', rid, er_IdempotencyKey e) \<notin>
      (\<lambda>e. (er_AggregateType e, er_AggregateID e, er_IdempotencyKey e)) ` set (db_events db)"
    using assms(3,4) by simp
  then show ?thesis by (auto simp: stream_of_def image_iff)
qed

lemma claim_tokens:
  assumes "ClaimNextRollout pl uuid token w now until db = Inr (Some (claim, takeover), db')"
  shows "token_held db' (cl_RolloutID claim) = Some token \<and> token \<notin> tokens_issued db (cl_RolloutID claim) \<and>
    token \<in> tokens_issued db' (cl_RolloutID claim) \<and>
    (\<forall>rid. rid \<noteq> cl_RolloutID claim \<longrightarrow> token_held db' rid = token_held db rid)"
proof -
  obtain rid where one: "claim_one pl uuid token w now until rid db = Some (Inr ((claim, takeover), db'))"
    and rid: "cl_RolloutID claim = rid"
    using claim_granted [OF assms] by metis
  from one show ?thesis
  proof (rule claim_one_shape)
    fix claims r
    let ?e = "new_event uuid ''rollout'' rid
       (if takeover then ''rollout.reclaimed'' else ''rollout.claimed'')
       (rollout_state_string (rl_State r)) (rollout_state_string (rl_State r))
       (claim_command pl token w (cl_Attempt claim) takeover) now (db_events db)"
    assume up: "upsert_claim rid w token now until (db_claims db) = Some claims"
      and claim: "db_claims db' = claims" and con: "constraints db'"
      and ev: "db_events db' = db_events db @ [?e]"
    have key: "er_IdempotencyKey ?e = claim_key token"
      by (subst new_event_key) (simp_all add: claim_command_def claim_key_def)
    have "token \<notin> tokens_issued db rid"
      using log_single_key [OF con ev] key by (simp add: tokens_issued_def)
    moreover have "token \<in> tokens_issued db' rid"
      by (simp add: tokens_issued_def ev key)
    ultimately show ?thesis
      using upsert_claim_rows [OF up] unfolding rid token_held_def claim by auto
  qed
qed

lemma token_held_update:
  "(\<And>c. cl_RolloutID (f c) = cl_RolloutID c) \<Longrightarrow> (\<And>c. cl_LeaseToken (f c) = cl_LeaseToken c) \<Longrightarrow>
   db_claims db' = update_where P f (db_claims db) \<Longrightarrow> token_held db' rid = token_held db rid"
  by (cases "first_by cl_RolloutID (db_claims db) rid")
    (simp_all add: token_held_def first_by_update_where)

lemma step_token:
  assumes "store_step db db'" "token_held db' rid \<noteq> token_held db rid"
  shows "\<exists>t. token_held db' rid = Some t \<and> t \<notin> tokens_issued db rid \<and> t \<in> tokens_issued db' rid"
  using assms
proof (induction rule: store_step.induct)
  case (step_create uuids now r cs cmd db x db')
  then show ?case using create_shape [OF step_create(1)] by (auto simp: token_held_def)
next
  case (step_transition uuid now rid' v to cmd db b db')
  then show ?case by (auto elim!: transition_cases simp: token_held_def)
next
  case (step_cohort uuid now d v cmd db c' db')
  then show ?case by (auto elim!: cohort_update_shape simp: token_held_def)
next
  case (step_claim pl uuid token w now until db res db')
  show ?case
  proof (cases res)
    case None
    then have "claim_loop pl uuid token w now until (claim_candidates now db) db = Inr (None, db')"
      using ClaimNextRollout_loop step_claim(1) by blast
    then have "db' = db" by (cases rule: claim_loop_cases) simp_all
    then show ?thesis using step_claim(2) by simp
  next
    case (Some c)
    obtain claim takeover where c: "c = (claim, takeover)" by force
    from claim_tokens [OF step_claim(1) [unfolded Some c]] step_claim(2)
    show ?thesis by (cases "rid = cl_RolloutID claim") auto
  qed
next
  case (step_heartbeat rid' w token now until db st db')
  have "token_held db' rid = token_held db rid"
    by (rule token_held_update [OF _ _ conjunct1 [OF heartbeat_shape [OF step_heartbeat(1)]]]) simp_all
  then show ?case using step_heartbeat(2) by simp
next
  case (step_release pl uuid rid' w token now avail cmd db b db')
  have "token_held db' rid = token_held db rid"
    by (rule token_held_update [OF _ _ conjunct1 [OF release_shape [OF step_release(1)]]]) simp_all
  then show ?case using step_release(2) by simp
qed

interpretation rollout_leases: fenced_leases store_step tokens_issued token_held
proof
  show "tokens_issued s r \<subseteq> tokens_issued s' r" if "store_step s s'" for s s' r
    using step_events_append [OF that] by (auto simp: tokens_issued_def)
  show "t \<notin> tokens_issued s r \<and> t \<in> tokens_issued s' r"
    if "store_step s s'" "token_held s' r = Some t" "token_held s r \<noteq> Some t" for s s' r t
    using step_token [OF that(1), of r] that(2,3) by auto
qed

section \<open>Properties of the leases\<close>

lemma candidate_upsert:
  assumes "rid \<in> set (claim_candidates now db)"
  shows "upsert_claim rid w token now until (db_claims db) \<noteq> None"
  using assms by (auto simp: claim_candidates_def upsert_claim_def split: option.splits)

text \<open>A claim goes to the oldest rollout that is unfinished and free, never to one whose lease
  is live: its row was absent, released and available again, or expired. The claim is the
  caller's with its token and expiry, is a takeover exactly when an expired lease was replaced,
  and no other rollout's claim changes.\<close>

theorem claim_takes_oldest_free:
  assumes "ClaimNextRollout pl uuid token w now until db = Inr (Some (claim, takeover), db')"
  shows "(\<exists>rest. claim_candidates now db = cl_RolloutID claim # rest) \<and>
         (case first_by cl_RolloutID (db_claims db) (cl_RolloutID claim) of
            None \<Rightarrow> takeover = False
          | Some p \<Rightarrow> (if takeover then cl_State p = RolloutClaimActive \<and> cl_LeaseExpires p \<le> now
                       else cl_State p = RolloutClaimReleased \<and> cl_AvailableAt p \<le> now)) \<and>
         first_by cl_RolloutID (db_claims db') (cl_RolloutID claim) = Some claim \<and>
         owns_lease (cl_RolloutID claim) w token now claim \<and> cl_LeaseExpires claim = until \<and>
         (\<forall>rid. rid \<noteq> cl_RolloutID claim \<longrightarrow>
            first_by cl_RolloutID (db_claims db') rid = first_by cl_RolloutID (db_claims db) rid)"
proof -
  have l: "claim_loop pl uuid token w now until (claim_candidates now db) db =
      Inr (Some (claim, takeover), db')" and time: "now < until"
    using ClaimNextRollout_loop [OF assms] by auto
  from l show ?thesis
  proof (cases rule: claim_loop_cases)
    case (some pre rid suf c)
    have pre: "pre = []"
      using some(2,3) candidate_upsert [of _ now db w token until] by (cases pre) auto
    from some have one: "claim_one pl uuid token w now until rid db = Some (Inr ((claim, takeover), db'))"
      by simp
    have stale: "takeover = stale_claim now rid (db_claims db)"
      using one by (auto simp: claim_one_def Let_def and_then_Inr split: option.splits)
    from one show ?thesis
    proof (rule claim_one_shape)
      fix claims r
      assume up: "upsert_claim rid w token now until (db_claims db) = Some claims"
        and c: "first_by cl_RolloutID claims rid = Some claim" and db': "db_claims db' = claims"
      have "cl_RolloutID claim = rid" using first_by_Some [OF c] by simp
      then show ?thesis
        using upsert_claim_rows [OF up] c some(2) pre stale time unfolding db'
        by (auto simp: stale_claim_def claim_open_def owns_lease_def split: option.splits)
    qed
  qed simp
qed

definition no_payload :: "int \<Rightarrow> bool \<Rightarrow> string" where
  "no_payload attempt takeover = ''{}''"

definition claim_by :: "string \<Rightarrow> string \<Rightarrow> go_time \<Rightarrow> database \<Rightarrow> (claim_row \<times> bool) option \<times> database" where
  "claim_by w token now db =
     (case ClaimNextRollout no_payload ''u'' token w now (now + 5) db of Inr x \<Rightarrow> x | Inl _ \<Rightarrow> (None, db))"

lemma claim_by_granted:
  assumes "fst (claim_by w token now db) = Some (c, t)"
  shows "ClaimNextRollout no_payload ''u'' token w now (now + 5) db =
     Inr (Some (c, t), snd (claim_by w token now db))"
  using assms by (auto simp: claim_by_def split: sum.splits)

definition store_claimed :: database where
  "store_claimed = snd (claim_by ''w1'' ''t1'' 20 store_prepared)"

definition store_reclaimed :: database where
  "store_reclaimed = snd (claim_by ''w2'' ''t2'' 30 store_claimed)"

lemma store_claimed_by:
  "\<exists>c. ClaimNextRollout no_payload ''u'' ''t1'' ''w1'' 20 25 store_prepared = Inr (Some (c, False), store_claimed)
       \<and> cl_RolloutID c = ''r1''"
proof -
  have "map_option (\<lambda>(c, t). (cl_RolloutID c, t)) (fst (claim_by ''w1'' ''t1'' 20 store_prepared)) =
      Some (''r1'', False)"
    by code_simp
  then obtain c t where "fst (claim_by ''w1'' ''t1'' 20 store_prepared) = Some (c, t)"
    "cl_RolloutID c = ''r1''" "t = False" by auto
  with claim_by_granted [OF this(1)] show ?thesis by (auto simp: store_claimed_def)
qed

lemma store_reclaimed_by:
  "\<exists>c. ClaimNextRollout no_payload ''u'' ''t2'' ''w2'' 30 35 store_claimed = Inr (Some (c, True), store_reclaimed)
       \<and> cl_RolloutID c = ''r1''"
proof -
  have "map_option (\<lambda>(c, t). (cl_RolloutID c, t)) (fst (claim_by ''w2'' ''t2'' 30 store_claimed)) =
      Some (''r1'', True)"
    by code_simp
  then obtain c t where "fst (claim_by ''w2'' ''t2'' 30 store_claimed) = Some (c, t)"
    "cl_RolloutID c = ''r1''" "t = True" by auto
  with claim_by_granted [OF this(1)] show ?thesis by (auto simp: store_reclaimed_def)
qed

theorem claim_takes_oldest_free_witness:
  "\<exists>c. ClaimNextRollout no_payload ''u'' ''t2'' ''w2'' 30 35 store_claimed = Inr (Some (c, True), store_reclaimed) \<and>
     owns_lease ''r1'' ''w2'' ''t2'' 30 c \<and> (\<exists>rest. claim_candidates 30 store_claimed = ''r1'' # rest)"
proof -
  obtain c where c: "ClaimNextRollout no_payload ''u'' ''t2'' ''w2'' 30 35 store_claimed =
      Inr (Some (c, True), store_reclaimed)" "cl_RolloutID c = ''r1''"
    using store_reclaimed_by by blast
  from claim_takes_oldest_free [OF c(1)] c show ?thesis by auto
qed

lemma not_owner_claims:
  assumes "constraints db" "token_held db rid \<noteq> Some token"
  shows "filter (owns_lease rid w token now) (db_claims db) = []"
    and "update_where (owns_lease rid w token now) f (db_claims db) = db_claims db"
proof -
  have d: "distinct (map cl_RolloutID (db_claims db))"
    using assms(1) by (simp add: constraints_def claim_constraints_def Let_def)
  have no: "\<not> owns_lease rid w token now c" if "c \<in> set (db_claims db)" for c
    using first_by_distinct [OF d that] assms(2) by (auto simp: owns_lease_def token_held_def)
  then show "filter (owns_lease rid w token now) (db_claims db) = []" by simp
  show "update_where (owns_lease rid w token now) f (db_claims db) = db_claims db"
    using no by (auto simp: update_where_def intro: map_idI)
qed

text \<open>Leases are fenced: once another claim of a rollout has superseded a token, then whatever
  is committed afterwards, a heartbeat with the old token answers that the lease is lost, a
  release with it answers false, and neither changes the store.\<close>

theorem lease_fencing:
  assumes "ClaimNextRollout pl1 u1 token1 w1 now1 until1 db0 = Inr (Some (claim1, t1), db1)"
    and "store_run db1 db2"
    and "ClaimNextRollout pl2 u2 token2 w2 now2 until2 db2 = Inr (Some (claim2, t2), db3)"
    and "cl_RolloutID claim2 = cl_RolloutID claim1" "store_run db3 db4" "constraints db0"
  shows "HeartbeatRollout (cl_RolloutID claim1) w token1 now until db4 \<in>
           {Inl InvalidRequest, Inr (lost_lease, db4)} \<and>
         ReleaseRolloutClaim pl u (cl_RolloutID claim1) w token1 now avail cmd db4 \<in>
           {Inl InvalidRequest, Inr (False, db4)}"
proof -
  define rid where "rid = cl_RolloutID claim1"
  have s1: "store_step db0 db1" and s2: "store_step db2 db3"
    using assms(1,3) by (auto intro: step_claim)
  have run: "store_run db0 db4"
    using s1 s2 assms(2,5) by (meson converse_rtranclp_into_rtranclp rtranclp_trans)
  then have con: "constraints db4" using assms(6) by (rule run_constraints)
  have i1: "token1 \<in> tokens_issued db1 rid" and h3: "token_held db3 rid = Some token2"
    and n2: "token2 \<notin> tokens_issued db2 rid"
    using claim_tokens [OF assms(1)] claim_tokens [OF assms(3)] assms(4) by (auto simp: rid_def)
  have i2: "token1 \<in> tokens_issued db2 rid"
    using i1 run_events_append [OF assms(2)] by (auto simp: tokens_issued_def)
  then have "token1 \<noteq> token2" using n2 by auto
  then have held: "token_held db4 rid \<noteq> Some token1"
    using rollout_leases.superseded_forever [OF assms(5)] h3 i2
      rollout_leases.issued_grows [OF s2] by (metis option.inject subsetD)
  show ?thesis
    using con unfolding rid_def [symmetric]
    by (auto simp: HeartbeatRollout_def ReleaseRolloutClaim_def not_owner_claims [OF con held]
        checked_def)
qed

lemma store_reclaimed_constraints: "constraints store_prepared"
  using run_log_inv [OF store_prepared_run empty_log_inv] by (simp add: log_inv_def)

theorem lease_fencing_witness:
  "HeartbeatRollout ''r1'' ''w1'' ''t1'' 31 40 store_reclaimed \<in>
     {Inl InvalidRequest, Inr (lost_lease, store_reclaimed)}"
proof -
  obtain c1 c2 where c: "ClaimNextRollout no_payload ''u'' ''t1'' ''w1'' 20 25 store_prepared =
      Inr (Some (c1, False), store_claimed)" "cl_RolloutID c1 = ''r1''"
    "ClaimNextRollout no_payload ''u'' ''t2'' ''w2'' 30 35 store_claimed =
      Inr (Some (c2, True), store_reclaimed)" "cl_RolloutID c2 = ''r1''"
    using store_claimed_by store_reclaimed_by by blast
  show ?thesis
    using lease_fencing [OF c(1) rtranclp.rtrancl_refl c(3) _ rtranclp.rtrancl_refl
        store_reclaimed_constraints, of "''w1''" 31 40] c(2,4)
    by simp
qed

text \<open>A heartbeat that answers current proves that its token owned the rollout at every moment
  since the claim that issued it, and reports the state and version of the stored rollout.\<close>

theorem heartbeat_proves_ownership:
  assumes "ClaimNextRollout pl u token w now0 until0 db0 = Inr (Some (claim, t), db1)"
    and "store_run db1 db2" "store_run db2 db3"
    and "HeartbeatRollout (cl_RolloutID claim) w' token now until db3 = Inr (st, db4)" "ls_Current st"
  shows "token_held db2 (cl_RolloutID claim) = Some token \<and>
         (\<exists>r. first_by rl_ID (db_rollouts db3) (cl_RolloutID claim) = Some r \<and>
            ls_State st = rl_State r \<and> ls_RolloutVersion st = rl_Version r)"
proof -
  let ?rid = "cl_RolloutID claim"
  have con: "constraints db4" and c4: "db_claims db4 = update_where (owns_lease ?rid w' token now)
       (\<lambda>c. c\<lparr>cl_HeartbeatAt := now, cl_LeaseExpires := until,
              cl_Version := cl_Version c + 1, cl_UpdatedAt := now\<rparr>) (db_claims db3)"
    and one: "length (filter (owns_lease ?rid w' token now) (db_claims db3)) = 1"
    using heartbeat_shape [OF assms(4)] assms(5) by auto
  have "distinct (map cl_RolloutID (db_claims db4))"
    using con by (simp add: constraints_def claim_constraints_def Let_def)
  then have d: "distinct (map cl_RolloutID (db_claims db3))"
    by (simp add: c4 map_update_where)
  obtain c where c: "c \<in> set (db_claims db3)" "owns_lease ?rid w' token now c"
    using one by (metis One_nat_def length_0_conv n_not_Suc_n filter_False)
  have "token_held db3 ?rid = Some token"
    using first_by_distinct [OF d c(1)] c(2) by (auto simp: token_held_def owns_lease_def)
  then have "token_held db2 ?rid = Some token"
    using rollout_leases.still_holder [OF assms(2,3)] claim_tokens [OF assms(1)] by blast
  then show ?thesis
    using assms(4,5) by (auto simp: HeartbeatRollout_def lost_lease_def and_then_Inr
        split: option.splits if_splits)
qed

theorem heartbeat_proves_ownership_witness:
  "\<exists>st db. HeartbeatRollout ''r1'' ''w2'' ''t2'' 31 40 store_reclaimed = Inr (st, db) \<and>
     token_held store_reclaimed ''r1'' = Some ''t2'' \<and> ls_Current st"
proof -
  obtain c where c: "ClaimNextRollout no_payload ''u'' ''t2'' ''w2'' 30 35 store_claimed =
      Inr (Some (c, True), store_reclaimed)" "cl_RolloutID c = ''r1''"
    using store_reclaimed_by by blast
  have "(case HeartbeatRollout ''r1'' ''w2'' ''t2'' 31 40 store_reclaimed of
      Inr (st, db) \<Rightarrow> ls_Current st | Inl _ \<Rightarrow> False)"
    by code_simp
  then obtain st db where h: "HeartbeatRollout ''r1'' ''w2'' ''t2'' 31 40 store_reclaimed = Inr (st, db)"
    "ls_Current st"
    by (auto split: sum.splits)
  from heartbeat_proves_ownership [OF c(1) rtranclp.rtrancl_refl rtranclp.rtrancl_refl] h c(2)
  show ?thesis by auto
qed

end
