(* ===== verification/RolloutAPI.thy ===== *)
theory RolloutAPI
  imports StoreLeases
begin

text \<open>
  The rollout actions of the HTTP API (\<open>internal/api/routes/scanner_supply_chain.go\<close>): pause,
  resume and rollback. The handler checks its headers and body, reads the rollout, picks the
  target state and commits one transition. A resume finds its target by searching the event log
  for the last pause. A handler is a function of the request and the database; the response is
  an accepted state or an HTTP status with an error code. The body is what
  \<open>scannerDecode\<close> makes of it: its reason, or \<open>None\<close> when it is not the expected JSON.
\<close>

section \<open>Requests and responses\<close>

record user_claims =
  uc_Email :: string
  uc_UserID :: string

record action_request =
  rq_IdempotencyKey :: string
  rq_IfMatch :: string
  rq_Reason :: "string option"
  rq_Claims :: "user_claims option"

datatype action_response = Accepted string rollout_state | Refused int string

datatype rollout_action = Pause | Resume | Rollback

fun scannerActor :: "user_claims option \<Rightarrow> string" where
  "scannerActor None = ''api''"
| "scannerActor (Some c) =
     (if uc_Email c \<noteq> [] then uc_Email c else if uc_UserID c \<noteq> [] then uc_UserID c else ''api'')"

definition scannerIdempotencyKey :: "string \<Rightarrow> action_response + string" where
  "scannerIdempotencyKey header =
     (let value = trim_space header in
      if value = [] then Inl (Refused 428 ''idempotency_key_required'')
      else if 200 < length value \<or> contains_elem value CHR 0x0D \<or> contains_elem value CHR 0x0A
      then Inl (Refused 400 ''invalid_idempotency_key'')
      else Inr value)"

definition scannerExpectedVersion :: "string \<Rightarrow> action_response + int" where
  "scannerExpectedVersion header =
     (let value = trim_space header in
      if value = [] then Inl (Refused 428 ''if_match_required'')
      else case parse_int64 (trim_char CHR 0x22 (trim_prefix value ''W/'')) of
             None \<Rightarrow> Inl (Refused 400 ''invalid_if_match'')
           | Some v \<Rightarrow> if v < 1 then Inl (Refused 400 ''invalid_if_match'') else Inr v)"

fun scannerWriteError :: "store_error \<Rightarrow> action_response" where
  "scannerWriteError NotFound = Refused 404 ''scanner_resource_not_found''"
| "scannerWriteError VersionConflict = Refused 409 ''stale_revision''"
| "scannerWriteError IdempotencyConflict = Refused 409 ''idempotency_conflict''"
| "scannerWriteError InvalidTransitionErr = Refused 409 ''invalid_scanner_state''"
| "scannerWriteError ConstraintViolation = Refused 500 ''scanner_supply_chain_error''"
| "scannerWriteError InvalidRequest = Refused 500 ''scanner_supply_chain_error''"

section \<open>Resuming\<close>

text \<open>The loop of \<open>scannerResumeState\<close>, over the events from the last to the first.\<close>

fun last_pause :: "event_row list \<Rightarrow> store_error + rollout_state" where
  "last_pause [] = Inl InvalidTransitionErr"
| "last_pause (e # es) =
     (if er_NewState e \<noteq> rollout_state_string RolloutPaused then last_pause es
      else (case parse_rollout_state (er_PriorState e) of
              RolloutPending \<Rightarrow> Inr RolloutPreparing
            | RolloutPreparing \<Rightarrow> Inr RolloutPreparing
            | RolloutCanary \<Rightarrow> Inr RolloutCanary
            | RolloutVerifying \<Rightarrow> Inr RolloutVerifying
            | RolloutRollingOut \<Rightarrow> Inr RolloutRollingOut
            | _ \<Rightarrow> Inl InvalidTransitionErr))"

definition scannerResumeState :: "string \<Rightarrow> database \<Rightarrow> store_error + rollout_state" where
  "scannerResumeState rid db = last_pause (rev (ListEvents ''rollout'' rid 0 200 db))"

section \<open>The handler\<close>

definition action_target :: "rollout_action \<Rightarrow> string \<Rightarrow> database \<Rightarrow> store_error + rollout_state" where
  "action_target action rid db =
     (case action of
        Pause \<Rightarrow> Inr RolloutPaused
      | Resume \<Rightarrow> scannerResumeState rid db
      | Rollback \<Rightarrow> Inr RolloutRollingBack)"

definition scannerTransitionRollout ::
  "string \<Rightarrow> go_time \<Rightarrow> rollout_action \<Rightarrow> string \<Rightarrow> action_request \<Rightarrow> database
     \<Rightarrow> action_response \<times> database" where
  "scannerTransitionRollout uuid now action rid rq db =
     (case scannerIdempotencyKey (rq_IdempotencyKey rq) of Inl e \<Rightarrow> (e, db) | Inr key \<Rightarrow>
      case scannerExpectedVersion (rq_IfMatch rq) of Inl e \<Rightarrow> (e, db) | Inr expected \<Rightarrow>
      case rq_Reason rq of
        None \<Rightarrow> (Refused 400 ''invalid_request'', db)
      | Some reason \<Rightarrow>
        if reason = [] then (Refused 422 ''reason_required'', db)
        else case GetRollout rid db of Inl e \<Rightarrow> (scannerWriteError e, db) | Inr current \<Rightarrow>
        if rl_Version current \<noteq> expected then (scannerWriteError VersionConflict, db)
        else case action_target action (rl_ID current) db of Inl e \<Rightarrow> (scannerWriteError e, db) | Inr to \<Rightarrow>
        case TransitionRollout uuid now rid expected to
               \<lparr>cmd_Actor = scannerActor (rq_Claims rq), cmd_Reason = reason, cmd_PolicyRevision = 0,
                cmd_IdempotencyKey = key, cmd_PayloadJSON = ''{}''\<rparr> db of
          (Inl e, db') \<Rightarrow> (scannerWriteError e, db')
        | (Inr rollout, db') \<Rightarrow> (Accepted rid (rl_State rollout), db'))"

section \<open>The log as the API reads it\<close>

lemma gapless_sorted: "gapless es \<Longrightarrow> sort_key er_Sequence es = es"
proof -
  assume "gapless es"
  moreover have "sorted (map int [1..<Suc (length es)])"
    by (simp del: upt_Suc add: sorted_map)
  ultimately have "sorted (map er_Sequence es)" unfolding gapless_def by simp
  then show ?thesis by (rule sort_key_id_if_sorted)
qed

lemma ListEvents_log:
  assumes "log_inv db" "r \<in> set (db_rollouts db)"
  shows "ListEvents ''rollout'' (rl_ID r) 0 200 db = take 200 (rollout_log (rl_ID r) db)"
proof -
  have g: "gapless (rollout_log (rl_ID r) db)" using assms by (auto simp: log_inv_def logged_def)
  have "0 < er_Sequence e" if "e \<in> set (rollout_log (rl_ID r) db)" for e
  proof -
    have "er_Sequence e \<in> set (map int [1..<Suc (length (rollout_log (rl_ID r) db))])"
      using that g unfolding gapless_def by (metis image_eqI list.set_map)
    then show ?thesis by auto
  qed
  then have "filter (\<lambda>e. 0 < er_Sequence e) (rollout_log (rl_ID r) db) = rollout_log (rl_ID r) db"
    by simp
  then show ?thesis by (simp add: ListEvents_def pageLimit_def gapless_sorted [OF g])
qed

lemma resume_state_short:
  assumes "log_inv db" "r \<in> set (db_rollouts db)" "rl_ID r = rid" "length (rollout_log rid db) \<le> 200"
  shows "scannerResumeState rid db = last_pause (rev (rollout_log rid db))"
  using ListEvents_log [OF assms(1,2)] assms(3,4) by (simp add: scannerResumeState_def)

lemma valid_into_paused:
  "ValidateRolloutTransition s RolloutPaused = None \<longleftrightarrow>
     s \<in> {RolloutPending, RolloutPreparing, RolloutCanary, RolloutVerifying, RolloutRollingOut}"
  by (cases s) (simp_all add: validate_defs validateTransition_None)

lemma valid_from_paused:
  "ValidateRolloutTransition RolloutPaused t = None \<longleftrightarrow>
     t \<in> {RolloutPreparing, RolloutCanary, RolloutVerifying, RolloutRollingOut, RolloutFailed,
          RolloutRollingBack}"
  by (cases t) (simp_all add: validate_defs validateTransition_None)

lemma last_pause_event:
  assumes "er_NewState e = ''paused''" "er_PriorState e = rollout_state_string st"
    "ValidateRolloutTransition st RolloutPaused = None"
  shows "last_pause (e # es) = Inr (if st = RolloutPending then RolloutPreparing else st)"
proof -
  have st: "st \<in> {RolloutPending, RolloutPreparing, RolloutCanary, RolloutVerifying, RolloutRollingOut}"
    using assms(3) by (simp only: valid_into_paused)
  then have "known_state st" by auto
  then have "parse_rollout_state (er_PriorState e) = st" using assms(2) by simp
  with st assms(1) show ?thesis by (elim insertE emptyE) simp_all
qed

section \<open>Properties of the rollout actions\<close>

text \<open>A rollout that was paused and that no event has touched since resumes exactly where it was
  paused (a pending one at preparing), and that target is a valid transition out of paused.\<close>

theorem resume_returns_to_pause_point:
  assumes "log_inv db" "transitionState uuid now rid v RolloutPaused cmd db = Inr (True, db1)"
    and "first_by rl_ID (db_rollouts db) rid = Some r"
    and "store_run db1 db2" "rollout_log rid db2 = rollout_log rid db1"
    and "length (rollout_log rid db1) \<le> 200"
  shows "scannerResumeState rid db2 =
           Inr (if rl_State r = RolloutPending then RolloutPreparing else rl_State r) \<and>
         ValidateRolloutTransition RolloutPaused
           (if rl_State r = RolloutPending then RolloutPreparing else rl_State r) = None"
  using assms(2)
proof (cases rule: transition_cases)
  case (applied q)
  have q: "q = r" using applied(2) assms(3) by simp
  have s: "rl_State r \<in> {RolloutPending, RolloutPreparing, RolloutCanary, RolloutVerifying, RolloutRollingOut}"
    using applied(4) unfolding q valid_into_paused .
  have log: "\<exists>e. rollout_log rid db1 = rollout_log rid db @ [e] \<and> er_NewState e = ''paused'' \<and>
      er_PriorState e = rollout_state_string (rl_State r)"
    unfolding applied(11) q by simp
  have inv1: "log_inv db1" using transition_log_inv [OF assms(1,2)] .
  have inv2: "log_inv db2" using run_log_inv [OF assms(4) inv1] .
  have "rollout_log rid db1 \<noteq> []" using log by auto
  then have "rid \<in> rl_ID ` set (db_rollouts db2)"
    using inv2 assms(5) unfolding log_inv_def by metis
  then obtain x where x: "x \<in> set (db_rollouts db2)" "rl_ID x = rid" by auto
  have "scannerResumeState rid db2 = last_pause (rev (rollout_log rid db1))"
    using resume_state_short [OF inv2 x] assms(5,6) by simp
  moreover have "last_pause (rev (rollout_log rid db1)) =
      Inr (if rl_State r = RolloutPending then RolloutPreparing else rl_State r)"
  proof -
    obtain e where e: "rollout_log rid db1 = rollout_log rid db @ [e]" "er_NewState e = ''paused''"
      "er_PriorState e = rollout_state_string (rl_State r)" using log by blast
    show ?thesis
      using last_pause_event [OF e(2,3)] applied(4) unfolding q e(1) rev.simps rev_append by simp
  qed
  ultimately show ?thesis using s by (auto simp: valid_from_paused)
qed simp

definition store_paused :: database where
  "store_paused = snd (transact
     (transitionState ''u'' 12 ''r1'' 2 RolloutPaused (sample_command ''p1'')) store_prepared)"

lemma store_paused_transition:
  "transitionState ''u'' 12 ''r1'' 2 RolloutPaused (sample_command ''p1'') store_prepared =
     Inr (True, store_paused)"
  by code_simp

lemma store_prepared_inv: "log_inv store_prepared"
  by (rule run_log_inv [OF store_prepared_run empty_log_inv])

lemma store_paused_run: "store_run (empty_store sample_releases) store_paused"
  using store_prepared_run step_transition [OF store_paused_transition]
  by (rule rtranclp.rtrancl_into_rtrancl)

lemma store_prepared_row:
  "\<exists>r. first_by rl_ID (db_rollouts store_prepared) ''r1'' = Some r \<and> rl_State r = RolloutPreparing"
proof -
  have "map (\<lambda>r. (rl_ID r, rl_State r)) (db_rollouts store_prepared) = [(''r1'', RolloutPreparing)]"
    by code_simp
  then show ?thesis by auto
qed

theorem resume_returns_to_pause_point_witness:
  "scannerResumeState ''r1'' store_paused = Inr RolloutPreparing \<and>
   ValidateRolloutTransition RolloutPaused RolloutPreparing = None"
proof -
  obtain r where r: "first_by rl_ID (db_rollouts store_prepared) ''r1'' = Some r"
    "rl_State r = RolloutPreparing" using store_prepared_row by blast
  have "length (rollout_log ''r1'' store_paused) \<le> 200" by code_simp
  from resume_returns_to_pause_point [OF store_prepared_inv store_paused_transition r(1)
      rtranclp.rtrancl_refl refl this] r(2)
  show ?thesis by simp
qed

text \<open>C38: Once a controller has claimed a paused rollout (paused rollouts are claimed like any
  unfinished one), the last event that entered paused is the claim's own, whose prior state is
  paused too: while the log of the rollout, the claim included, holds at most 200 events, which is all
  that the search for the pause reads, every resume with a valid key, the current version and a reason
  is refused as an invalid state and changes nothing. (Beyond 200 events the search no longer sees the
  claim.)\<close>

theorem claim_of_paused_rollout_blocks_resume:
  assumes "log_inv db" "ClaimNextRollout pl u token w now until db = Inr (Some (claim, t), db1)"
    and "first_by rl_ID (db_rollouts db) (cl_RolloutID claim) = Some r" "rl_State r = RolloutPaused"
    and "length (rollout_log (cl_RolloutID claim) db1) \<le> 200"
    and "scannerIdempotencyKey (rq_IdempotencyKey rq) = Inr key"
    and "scannerExpectedVersion (rq_IfMatch rq) = Inr (rl_Version r)"
    and "rq_Reason rq = Some reason" "reason \<noteq> []"
  shows "scannerTransitionRollout uuid now' Resume (cl_RolloutID claim) rq db1 =
           (Refused 409 ''invalid_scanner_state'', db1)"
proof -
  let ?rid = "cl_RolloutID claim"
  obtain rid where one: "claim_one pl u token w now until rid db = Some (Inr ((claim, t), db1))"
    and rid: "?rid = rid"
    using claim_granted [OF assms(2)] by metis
  have inv1: "log_inv db1" by (rule claim_log_inv [OF assms(1,2)])
  from one have "db_rollouts db1 = db_rollouts db \<and> last_pause (rev (rollout_log ?rid db1)) =
      Inl InvalidTransitionErr"
    by (rule claim_one_shape) (use assms(3,4) rid in \<open>simp add: parse_rollout_state_def\<close>)
  then have rows: "first_by rl_ID (db_rollouts db1) ?rid = Some r"
    and last: "last_pause (rev (rollout_log ?rid db1)) = Inl InvalidTransitionErr"
    using assms(3) by auto
  have r: "r \<in> set (db_rollouts db1)" "rl_ID r = ?rid" using first_by_Some [OF rows] by auto
  have "scannerResumeState ?rid db1 = Inl InvalidTransitionErr"
    using resume_state_short [OF inv1 r assms(5)] last by simp
  then show ?thesis
    using assms(6-9) rows r(2)
    by (simp add: scannerTransitionRollout_def GetRollout_def action_target_def)
qed

definition sample_action :: action_request where
  "sample_action = \<lparr>rq_IdempotencyKey = ''req-1'', rq_IfMatch = CHR 0x22 # ''3'' @ [CHR 0x22],
     rq_Reason = Some ''go on'', rq_Claims = None\<rparr>"

definition store_paused_claimed :: database where
  "store_paused_claimed = snd (claim_by ''w1'' ''t1'' 20 store_paused)"

theorem claim_of_paused_rollout_blocks_resume_witness:
  "scannerTransitionRollout ''u'' 30 Resume ''r1'' sample_action store_paused =
     (Accepted ''r1'' RolloutPreparing, snd (scannerTransitionRollout ''u'' 30 Resume ''r1'' sample_action store_paused)) \<and>
   scannerTransitionRollout ''u'' 30 Resume ''r1'' sample_action store_paused_claimed =
     (Refused 409 ''invalid_scanner_state'', store_paused_claimed)"
proof -
  have free: "fst (scannerTransitionRollout ''u'' 30 Resume ''r1'' sample_action store_paused) =
      Accepted ''r1'' RolloutPreparing"
    by code_simp
  have "map_option (\<lambda>(c, t). (cl_RolloutID c, t)) (fst (claim_by ''w1'' ''t1'' 20 store_paused)) =
      Some (''r1'', False)"
    by code_simp
  then obtain c where "fst (claim_by ''w1'' ''t1'' 20 store_paused) = Some (c, False)"
    and c: "cl_RolloutID c = ''r1''" by auto
  note claim = claim_by_granted [OF this(1), folded store_paused_claimed_def]
  have "map (\<lambda>r. (rl_ID r, rl_State r, rl_Version r)) (db_rollouts store_paused) =
      [(''r1'', RolloutPaused, 3)]"
    by code_simp
  then obtain r where r: "first_by rl_ID (db_rollouts store_paused) ''r1'' = Some r"
    "rl_State r = RolloutPaused" "rl_Version r = 3" by auto
  have len: "length (rollout_log ''r1'' store_paused_claimed) \<le> 200" by code_simp
  have head: "scannerIdempotencyKey (rq_IdempotencyKey sample_action) = Inr ''req-1''"
    "scannerExpectedVersion (rq_IfMatch sample_action) = Inr 3" by code_simp+
  have body: "rq_Reason sample_action = Some ''go on''" by (simp add: sample_action_def)
  have inv: "log_inv store_paused" by (rule run_log_inv [OF store_paused_run empty_log_inv])
  have "scannerTransitionRollout ''u'' 30 Resume (cl_RolloutID c) sample_action store_paused_claimed =
     (Refused 409 ''invalid_scanner_state'', store_paused_claimed)"
    by (rule claim_of_paused_rollout_blocks_resume [OF inv claim _ r(2) _ head(1) _ body])
      (use c r len head in simp_all)
  then show ?thesis using free c by (metis prod.collapse)
qed

end
