(* ===== verification/GoFloat.thy ===== *)
theory GoFloat
  imports GoPrelude "HOL-Library.Log_Nat"
begin

text \<open>
  Go's \<open>float64\<close>, as far as the modelled packages use it: the finite values are the rationals
  a double can hold, and every arithmetic operation rounds its exact result to the nearest
  double, ties to even. \<open>round_f64\<close> writes that rounding out; the lemmas show that it keeps
  order, signs and the values that need no rounding, which is what threshold comparisons
  rest on.
\<close>

section \<open>Powers of two and the binary exponent\<close>

definition pow2 :: "int \<Rightarrow> rat" where
  "pow2 e = (if 0 \<le> e then 2 ^ nat e else 1 / 2 ^ nat (- e))"

lemma pow2_pos [simp]: "0 < pow2 e"
  by (simp add: pow2_def)

lemma pow2_nonneg [simp]: "0 \<le> pow2 e"
  using pow2_pos [of e] by linarith

lemma pow2_neq_0 [simp]: "pow2 e \<noteq> 0"
  using pow2_pos [of e] by linarith

lemma pow2_powi: "pow2 e = 2 powi e"
  by (auto simp: pow2_def power_int_def field_simps)

lemma pow2_add: "pow2 (a + b) = pow2 a * pow2 b"
  by (simp add: pow2_powi power_int_add)

lemma pow2_Suc: "pow2 (e + 1) = 2 * pow2 e"
  by (simp add: pow2_powi power_int_add)

lemma pow2_mono: "a \<le> b \<Longrightarrow> pow2 a \<le> pow2 b"
  by (simp add: pow2_powi power_int_increasing)

lemma pow2_less_imp_less: "pow2 a < pow2 b \<Longrightarrow> a < b"
  using pow2_mono [of b a] by linarith

lemma pow2_of_nat: "pow2 (int n) = of_nat (2 ^ n)"
  by (simp add: pow2_def)

text \<open>The binary exponent of a positive rational: \<open>pow2 e \<le> q < pow2 (e + 1)\<close>.\<close>

definition ilog2 :: "rat \<Rightarrow> int" where
  "ilog2 q =
     (let (a, b) = quotient_of q;
          e = int (floorlog 2 (nat a)) - int (floorlog 2 (nat b))
      in if pow2 e \<le> q then e else e - 1)"

text \<open>Code equations on binary integers, so that the doubles can be evaluated.\<close>

function int_bits :: "int \<Rightarrow> nat" where
  "int_bits n = (if n \<le> 0 then 0 else Suc (int_bits (n div 2)))"
  by auto
termination by (relation "measure nat") auto

declare int_bits.simps [simp del]

lemma floorlog_int_bits: "floorlog 2 (nat n) = int_bits n"
proof (induction n rule: int_bits.induct)
  case (1 n)
  then show ?case
    by (subst compute_floorlog, subst int_bits.simps) (simp add: nat_div_distrib)
qed

lemma ilog2_code [code]:
  "ilog2 q =
     (let (a, b) = quotient_of q; e = int (int_bits a) - int (int_bits b)
      in if pow2 e \<le> q then e else e - 1)"
  by (simp add: ilog2_def floorlog_int_bits)

lemma pow2_code [code]:
  "pow2 e = (if 0 \<le> e then of_int (2 ^ nat e) else 1 / of_int (2 ^ nat (- e)))"
  by (simp add: pow2_def)

lemma floorlog_pow2_bounds:
  assumes "0 < x"
  shows "pow2 (int (floorlog 2 (nat x)) - 1) \<le> of_int x"
    and "of_int x < pow2 (int (floorlog 2 (nat x)))"
proof -
  let ?k = "floorlog 2 (nat x)"
  have x: "0 < nat x" using assms by simp
  have k: "2 ^ (?k - 1) \<le> nat x" "nat x < 2 ^ ?k"
    using floorlog_bounds [of "nat x" 2] x by auto
  have k0: "0 < ?k" using x by (simp add: floorlog_def)
  have eq: "of_int x = (of_nat (nat x) :: rat)" using assms by simp
  have "int ?k - 1 = int (?k - 1)" using k0 by simp
  then have "pow2 (int ?k - 1) = of_nat (2 ^ (?k - 1))" by (simp only: pow2_of_nat)
  also have "\<dots> \<le> of_nat (nat x)" using k(1) of_nat_le_iff by blast
  finally show "pow2 (int ?k - 1) \<le> of_int x" unfolding eq .
  have "(of_nat (nat x) :: rat) < of_nat (2 ^ ?k)" using k(2) of_nat_less_iff by blast
  then show "of_int x < pow2 (int ?k)" unfolding pow2_of_nat eq .
qed

lemma ilog2_bounds:
  assumes "0 < q"
  shows "pow2 (ilog2 q) \<le> q" and "q < pow2 (ilog2 q + 1)"
proof -
  obtain a b where ab: "quotient_of q = (a, b)" by (cases "quotient_of q")
  have b: "0 < b" using quotient_of_denom_pos [OF ab] .
  have q: "q = of_int a / of_int b" using quotient_of_div [OF ab] .
  have a: "0 < a" using assms q b by (simp add: zero_less_divide_iff)
  let ?A = "int (floorlog 2 (nat a))" and ?B = "int (floorlog 2 (nat b))"
  note A = floorlog_pow2_bounds [OF a] and B = floorlog_pow2_bounds [OF b]
  have bpos: "(0 :: rat) < of_int b" using b by simp
  have "q < pow2 ?A / of_int b"
    using A(2) bpos by (simp add: q divide_strict_right_mono)
  also have "\<dots> \<le> pow2 ?A / pow2 (?B - 1)"
    using B(1) bpos by (intro divide_left_mono) auto
  also have "\<dots> = pow2 (?A - ?B + 1)"
    using pow2_add [of "?A - ?B + 1" "?B - 1"] by (simp add: field_simps)
  finally have up: "q < pow2 (?A - ?B + 1)" .
  have "pow2 (?A - ?B - 1) = pow2 (?A - 1) / pow2 ?B"
    using pow2_add [of "?A - ?B - 1" ?B] by (simp add: field_simps)
  also have "\<dots> \<le> pow2 (?A - 1) / of_int b"
    using B(2) bpos by (intro divide_left_mono) auto
  also have "\<dots> \<le> q"
    using A(1) bpos by (simp add: q divide_right_mono)
  finally have lo: "pow2 (?A - ?B - 1) \<le> q" .
  show "pow2 (ilog2 q) \<le> q"
    using lo by (simp add: ilog2_def ab Let_def)
  show "q < pow2 (ilog2 q + 1)"
    using up by (simp add: ilog2_def ab Let_def)
qed

lemma ilog2_mono:
  assumes "0 < p" "p \<le> q"
  shows "ilog2 p \<le> ilog2 q"
proof -
  have "pow2 (ilog2 p) \<le> p" using ilog2_bounds(1) assms(1) by blast
  also have "\<dots> \<le> q" by (rule assms)
  also have "q < pow2 (ilog2 q + 1)" using ilog2_bounds(2) assms by force
  finally show ?thesis using pow2_less_imp_less by fastforce
qed

section \<open>Rounding\<close>

definition round_half_even :: "rat \<Rightarrow> int" where
  "round_half_even x =
     (let f = \<lfloor>x\<rfloor>; d = x - of_int f
      in if d < 1 / 2 then f else if 1 / 2 < d then f + 1 else if even f then f else f + 1)"

lemma round_half_even_of_int [simp]: "round_half_even (of_int k) = k"
  by (simp add: round_half_even_def)

lemma round_half_even_range: "\<lfloor>x\<rfloor> \<le> round_half_even x" "round_half_even x \<le> \<lfloor>x\<rfloor> + 1"
  by (auto simp: round_half_even_def Let_def)

lemma round_half_even_mono:
  assumes "x \<le> y"
  shows "round_half_even x \<le> round_half_even y"
proof (cases "\<lfloor>x\<rfloor> = \<lfloor>y\<rfloor>")
  case True
  then show ?thesis using assms by (auto simp: round_half_even_def Let_def)
next
  case False
  with assms have "\<lfloor>x\<rfloor> + 1 \<le> \<lfloor>y\<rfloor>" using floor_mono [OF assms] by linarith
  then show ?thesis
    using round_half_even_range(2) [of x] round_half_even_range(1) [of y] by linarith
qed

text \<open>The unit in the last place of a positive value: 53 significant bits, down to the
  subnormal step.\<close>

definition ulp_exp :: "rat \<Rightarrow> int" where
  "ulp_exp q = max (ilog2 q - 52) (- 1074)"

definition round_pos :: "rat \<Rightarrow> rat" where
  "round_pos q = of_int (round_half_even (q / pow2 (ulp_exp q))) * pow2 (ulp_exp q)"

definition round_f64 :: "rat \<Rightarrow> rat" where
  "round_f64 q = (if q = 0 then 0 else if 0 < q then round_pos q else - round_pos (- q))"

lemma round_half_even_bounds:
  "of_int m \<le> x \<Longrightarrow> m \<le> round_half_even x" "x \<le> of_int m \<Longrightarrow> round_half_even x \<le> m"
  using round_half_even_mono [of "of_int m" x] round_half_even_mono [of x "of_int m"] by simp_all

lemma round_pos_nonneg: "0 < q \<Longrightarrow> 0 \<le> round_pos q"
  using round_half_even_bounds(1) [of 0 "q / pow2 (ulp_exp q)"]
  by (simp add: round_pos_def)

text \<open>A power of two that is a multiple of the last place bounds the rounded value too.\<close>

lemma round_pos_le_pow2:
  assumes "0 < q" "q \<le> pow2 e" "ulp_exp q \<le> e"
  shows "round_pos q \<le> pow2 e"
proof -
  let ?u = "ulp_exp q"
  have split: "pow2 e = of_int (2 ^ nat (e - ?u)) * pow2 ?u"
    using assms(3) pow2_add [of "e - ?u" ?u] by (simp add: pow2_def)
  have "q / pow2 ?u \<le> of_int (2 ^ nat (e - ?u))"
    using assms(2) by (simp add: split pos_divide_le_eq del: of_int_power)
  then have "round_half_even (q / pow2 ?u) \<le> 2 ^ nat (e - ?u)"
    by (rule round_half_even_bounds)
  then have "(of_int (round_half_even (q / pow2 ?u)) :: rat) \<le> of_int (2 ^ nat (e - ?u))"
    by (simp only: of_int_le_iff)
  then show ?thesis
    unfolding round_pos_def split by (intro mult_right_mono) auto
qed

lemma round_pos_ge_pow2:
  assumes "0 < q" "pow2 e \<le> q" "ulp_exp q \<le> e"
  shows "pow2 e \<le> round_pos q"
proof -
  let ?u = "ulp_exp q"
  have split: "pow2 e = of_int (2 ^ nat (e - ?u)) * pow2 ?u"
    using assms(3) pow2_add [of "e - ?u" ?u] by (simp add: pow2_def)
  have "of_int (2 ^ nat (e - ?u)) \<le> q / pow2 ?u"
    using assms(2) by (simp add: split pos_le_divide_eq del: of_int_power)
  then have "2 ^ nat (e - ?u) \<le> round_half_even (q / pow2 ?u)"
    by (rule round_half_even_bounds)
  then have "(of_int (2 ^ nat (e - ?u)) :: rat) \<le> of_int (round_half_even (q / pow2 ?u))"
    by (simp only: of_int_le_iff)
  then show ?thesis
    unfolding round_pos_def split by (intro mult_right_mono) auto
qed

lemma round_pos_mono:
  assumes "0 < p" "p \<le> q"
  shows "round_pos p \<le> round_pos q"
proof (cases "ulp_exp p = ulp_exp q")
  case True
  have "p / pow2 (ulp_exp q) \<le> q / pow2 (ulp_exp q)"
    using assms(2) by (simp add: divide_right_mono)
  then have "round_half_even (p / pow2 (ulp_exp q)) \<le> round_half_even (q / pow2 (ulp_exp q))"
    by (rule round_half_even_mono)
  then show ?thesis
    unfolding round_pos_def True by (intro mult_right_mono) auto
next
  case False
  let ?e = "ilog2 q"
  have q: "0 < q" using assms by simp
  have le: "ilog2 p \<le> ?e" using ilog2_mono assms by blast
  have lt: "ilog2 p < ?e" and ulp: "ulp_exp q = ?e - 52" "ulp_exp p \<le> ?e"
    using False le by (auto simp: ulp_exp_def max_def split: if_splits)
  have "p \<le> pow2 (ilog2 p + 1)" using ilog2_bounds(2) [OF assms(1)] by simp
  also have "\<dots> \<le> pow2 ?e" using lt by (intro pow2_mono) simp
  finally have "round_pos p \<le> pow2 ?e"
    using round_pos_le_pow2 assms(1) ulp(2) by blast
  also have "\<dots> \<le> round_pos q"
    using round_pos_ge_pow2 [OF q ilog2_bounds(1) [OF q]] ulp(1) by simp
  finally show ?thesis .
qed

lemma round_f64_mono:
  assumes "p \<le> q"
  shows "round_f64 p \<le> round_f64 q"
proof -
  consider "0 < p" | "p \<le> 0" "0 \<le> q" | "q < 0" using assms by linarith
  then show ?thesis
  proof cases
    case 1
    then show ?thesis using assms round_pos_mono by (simp add: round_f64_def)
  next
    case 2
    then show ?thesis
      using round_pos_nonneg [of q] round_pos_nonneg [of "- p"] by (auto simp: round_f64_def)
  next
    case 3
    then show ?thesis using assms round_pos_mono [of "- q" "- p"] by (simp add: round_f64_def)
  qed
qed

lemma round_f64_0 [simp]: "round_f64 0 = 0"
  by (simp add: round_f64_def)

lemma round_f64_nonneg: "0 \<le> q \<Longrightarrow> 0 \<le> round_f64 q"
  using round_f64_mono [of 0 q] by simp

lemma round_f64_1 [simp]: "round_f64 1 = 1"
proof -
  have "ilog2 1 = 0" by (simp add: ilog2_def pow2_def)
  then show ?thesis
    using round_pos_le_pow2 [of 1 0] round_pos_ge_pow2 [of 1 0]
    by (simp add: round_f64_def ulp_exp_def pow2_def)
qed

section \<open>The type\<close>

datatype float64 = Fin rat | PosInf | NegInf | NaN

definition to_f64 :: "rat \<Rightarrow> float64" where
  "to_f64 q =
     (let r = round_f64 q
      in if pow2 1024 \<le> r then PosInf else if r \<le> - pow2 1024 then NegInf else Fin r)"

definition f64_of_int :: "int \<Rightarrow> float64" where
  "f64_of_int n = to_f64 (of_int n)"

fun f64_less :: "float64 \<Rightarrow> float64 \<Rightarrow> bool" where
  "f64_less NaN _ \<longleftrightarrow> False"
| "f64_less _ NaN \<longleftrightarrow> False"
| "f64_less (Fin a) (Fin b) \<longleftrightarrow> a < b"
| "f64_less PosInf _ \<longleftrightarrow> False"
| "f64_less NegInf y \<longleftrightarrow> y \<noteq> NegInf"
| "f64_less (Fin _) y \<longleftrightarrow> y = PosInf"

fun f64_le :: "float64 \<Rightarrow> float64 \<Rightarrow> bool" where
  "f64_le NaN _ \<longleftrightarrow> False"
| "f64_le _ NaN \<longleftrightarrow> False"
| "f64_le (Fin a) (Fin b) \<longleftrightarrow> a \<le> b"
| "f64_le NegInf _ \<longleftrightarrow> True"
| "f64_le PosInf y \<longleftrightarrow> y = PosInf"
| "f64_le (Fin _) y \<longleftrightarrow> y = PosInf"

fun f64_neg :: "float64 \<Rightarrow> float64" where
  "f64_neg (Fin a) = Fin (- a)"
| "f64_neg PosInf = NegInf"
| "f64_neg NegInf = PosInf"
| "f64_neg NaN = NaN"

fun f64_add :: "float64 \<Rightarrow> float64 \<Rightarrow> float64" where
  "f64_add (Fin a) (Fin b) = to_f64 (a + b)"
| "f64_add NaN _ = NaN"
| "f64_add _ NaN = NaN"
| "f64_add PosInf NegInf = NaN"
| "f64_add NegInf PosInf = NaN"
| "f64_add PosInf _ = PosInf"
| "f64_add _ PosInf = PosInf"
| "f64_add NegInf _ = NegInf"
| "f64_add _ NegInf = NegInf"

definition f64_sub :: "float64 \<Rightarrow> float64 \<Rightarrow> float64" where
  "f64_sub x y = f64_add x (f64_neg y)"

text \<open>Go's sign rules for infinite operands; the sign of a zero is not represented.\<close>

definition f64_signed_inf :: "bool \<Rightarrow> float64" where
  "f64_signed_inf positive = (if positive then PosInf else NegInf)"

fun f64_mul :: "float64 \<Rightarrow> float64 \<Rightarrow> float64" where
  "f64_mul (Fin a) (Fin b) = to_f64 (a * b)"
| "f64_mul NaN _ = NaN"
| "f64_mul _ NaN = NaN"
| "f64_mul (Fin a) y = (if a = 0 then NaN else f64_signed_inf (0 < a \<longleftrightarrow> y = PosInf))"
| "f64_mul x (Fin b) = (if b = 0 then NaN else f64_signed_inf (0 < b \<longleftrightarrow> x = PosInf))"
| "f64_mul x y = f64_signed_inf (x = y)"

fun f64_div :: "float64 \<Rightarrow> float64 \<Rightarrow> float64" where
  "f64_div (Fin a) (Fin b) =
     (if b = 0 then (if a = 0 then NaN else f64_signed_inf (0 < a)) else to_f64 (a / b))"
| "f64_div NaN _ = NaN"
| "f64_div _ NaN = NaN"
| "f64_div (Fin a) _ = Fin 0"
| "f64_div x (Fin b) = f64_signed_inf (0 \<le> b \<longleftrightarrow> x = PosInf)"
| "f64_div _ _ = NaN"

definition f64_finite :: "float64 \<Rightarrow> bool" where
  "f64_finite x = (case x of Fin _ \<Rightarrow> True | _ \<Rightarrow> False)"

lemma f64_finite_iff [simp]:
  "f64_finite (Fin a)" "\<not> f64_finite PosInf" "\<not> f64_finite NegInf" "\<not> f64_finite NaN"
  by (simp_all add: f64_finite_def)

lemma f64_less_Fin_trans:
  "f64_less x y \<Longrightarrow> f64_le y z \<Longrightarrow> f64_less x z"
  by (cases x; cases y; cases z) auto

lemma f64_less_le_trans_left:
  "f64_le x y \<Longrightarrow> f64_less y z \<Longrightarrow> f64_less x z"
  by (cases x; cases y; cases z) auto

lemma to_f64_mono: "p \<le> q \<Longrightarrow> f64_le (to_f64 p) (to_f64 q)"
  using round_f64_mono [of p q] pow2_pos [of 1024]
  by (auto simp: to_f64_def Let_def)

lemma to_f64_0 [simp]: "to_f64 0 = Fin 0"
  by (simp add: to_f64_def pow2_def)

lemma f64_less_Fin_zero: "f64_less (Fin 0) (to_f64 q) \<Longrightarrow> 0 < q"
proof (rule ccontr)
  assume "f64_less (Fin 0) (to_f64 q)" "\<not> 0 < q"
  moreover from this have "f64_le (to_f64 q) (to_f64 0)" by (intro to_f64_mono) simp
  ultimately show False by (cases "to_f64 q") auto
qed

section \<open>Order facts for the comparisons the code makes\<close>

lemma round_f64_le_pow2:
  assumes "0 < q" "q \<le> pow2 e" "-1074 \<le> e"
  shows "round_f64 q \<le> pow2 e"
proof -
  have "pow2 (ilog2 q) \<le> pow2 e" using ilog2_bounds(1) [OF assms(1)] assms(2) by linarith
  then have "ilog2 q < e + 1" using pow2_Suc [of e] pow2_pos [of e]
    by (intro pow2_less_imp_less) linarith
  then show ?thesis
    using round_pos_le_pow2 [OF assms(1,2)] assms by (simp add: round_f64_def ulp_exp_def)
qed

lemma round_f64_minus: "round_f64 (- q) = - round_f64 q"
  by (simp add: round_f64_def)

lemma to_f64_Fin:
  assumes "\<bar>q\<bar> \<le> pow2 64"
  shows "to_f64 q = Fin (round_f64 q)"
proof -
  have up: "round_f64 x \<le> pow2 64" if "x \<le> pow2 64" for x
  proof (cases "0 < x")
    case True
    then show ?thesis using that round_f64_le_pow2 by simp
  next
    case False
    then have "round_f64 x \<le> 0" using round_f64_mono [of x 0] by simp
    then show ?thesis using pow2_nonneg [of 64] by linarith
  qed
  have lt: "pow2 64 < pow2 1024"
  proof -
    have "pow2 65 \<le> pow2 1024" by (rule pow2_mono) simp
    moreover have "pow2 65 = 2 * pow2 64" using pow2_Suc [of 64] by simp
    moreover have "0 < pow2 64" by (rule pow2_pos)
    ultimately show ?thesis by linarith
  qed
  have "round_f64 q < pow2 1024" using up [of q] assms lt by linarith
  moreover have "- pow2 1024 < round_f64 q"
  proof -
    have "- round_f64 q \<le> pow2 64" using up [of "- q"] assms by (simp add: round_f64_minus)
    then show ?thesis using lt by linarith
  qed
  ultimately show ?thesis by (simp add: to_f64_def Let_def)
qed

text \<open>An \<open>int64\<close> count as a double: finite, and positive when the count is.\<close>

definition int64_range :: "int \<Rightarrow> bool" where
  "int64_range n \<longleftrightarrow> - (2 ^ 63) \<le> n \<and> n < 2 ^ 63"

lemma f64_of_int64:
  assumes "int64_range n"
  shows "f64_of_int n = Fin (round_f64 (of_int n))"
proof -
  have "\<bar>n\<bar> \<le> 2 ^ 63" using assms by (auto simp: int64_range_def)
  then have "(of_int \<bar>n\<bar> :: rat) \<le> of_int (2 ^ 63)" by (simp only: of_int_le_iff)
  then have "\<bar>of_int n :: rat\<bar> \<le> pow2 64" by (simp add: pow2_def)
  then show ?thesis by (simp add: f64_of_int_def to_f64_Fin)
qed

lemma round_f64_int_pos: "0 < n \<Longrightarrow> 1 \<le> round_f64 (of_int n)"
  using round_f64_mono [of 1 "of_int n"] by simp

lemma f64_div_int_mono:
  assumes "int64_range a" "int64_range b" "a \<le> b" "int64_range d" "0 < d"
  shows "f64_le (f64_div (f64_of_int a) (f64_of_int d)) (f64_div (f64_of_int b) (f64_of_int d))"
proof -
  have d: "1 \<le> round_f64 (of_int d)" using round_f64_int_pos assms(5) by blast
  then have dpos: "0 < round_f64 (of_int d)" by linarith
  have "round_f64 (of_int a) \<le> round_f64 (of_int b)" using assms(3) by (intro round_f64_mono) simp
  then have "round_f64 (of_int a) / round_f64 (of_int d) \<le> round_f64 (of_int b) / round_f64 (of_int d)"
    using dpos by (intro divide_right_mono) auto
  then show ?thesis using assms dpos by (simp add: f64_of_int64 to_f64_mono)
qed

lemma to_f64_not_NaN [simp]: "to_f64 q \<noteq> NaN"
  by (simp add: to_f64_def Let_def)

lemma f64_sub_mono_left:
  assumes "f64_le x y" "f64_finite z"
  shows "f64_le (f64_sub x z) (f64_sub y z)"
proof -
  obtain c where z: "z = Fin c" using assms(2) by (cases z) auto
  have inf: "f64_le w PosInf" "f64_le NegInf w" if "w \<noteq> NaN" for w
    using that by (cases w; simp)+
  show ?thesis
    using assms(1) to_f64_mono inf
    by (cases x; cases y) (auto simp: z f64_sub_def)
qed

lemma f64_less_gt_mono: "f64_less t x \<Longrightarrow> f64_le x y \<Longrightarrow> f64_less t y"
  by (rule f64_less_Fin_trans)

lemma f64_div_int64_finite:
  assumes "int64_range a" "int64_range d" "0 < d"
  shows "f64_finite (f64_div (f64_of_int a) (f64_of_int d))"
proof -
  have d: "1 \<le> round_f64 (of_int d)" using round_f64_int_pos assms(3) by blast
  have rb: "\<bar>round_f64 x\<bar> \<le> pow2 64" if "\<bar>x\<bar> \<le> pow2 63" for x
  proof -
    have le: "pow2 63 \<le> pow2 64" by (rule pow2_mono) simp
    have up: "round_f64 y \<le> pow2 64" if "y \<le> pow2 63" for y
    proof (cases "0 < y")
      case True
      then show ?thesis using that le round_f64_le_pow2 [of y 64] by simp
    next
      case False
      then have "round_f64 y \<le> 0" using round_f64_mono [of y 0] by simp
      then show ?thesis using pow2_nonneg [of 64] by linarith
    qed
    show ?thesis using up [of x] up [of "- x"] that by (simp add: round_f64_minus abs_le_iff)
  qed
  have "\<bar>a\<bar> \<le> 2 ^ 63" using assms(1) by (auto simp: int64_range_def)
  then have "(of_int \<bar>a\<bar> :: rat) \<le> of_int (2 ^ 63)" by (simp only: of_int_le_iff)
  then have "\<bar>of_int a :: rat\<bar> \<le> pow2 63" by (simp add: pow2_def)
  then have "\<bar>round_f64 (of_int a)\<bar> \<le> pow2 64" by (rule rb)
  moreover have "\<bar>round_f64 (of_int a) / round_f64 (of_int d)\<bar> \<le> \<bar>round_f64 (of_int a)\<bar>"
    using d by (simp add: abs_divide divide_le_eq mult_le_cancel_left1)
  ultimately have "\<bar>round_f64 (of_int a) / round_f64 (of_int d)\<bar> \<le> pow2 64" by linarith
  then show ?thesis
    using assms d by (simp add: f64_of_int64 to_f64_Fin)
qed

end
