(* ===== verification/Rollout.thy ===== *)
theory Rollout
  imports GoFloat ReleaseState
begin

text \<open>
  The deterministic rollout state machine and the canary-health decision
  (\<open>internal/scannerrollout/rollout.go\<close>): the transition table, \<open>Rollout.Validate\<close>,
  \<open>Rollout.Transition\<close> with its pause and resume rule, and \<open>EvaluateCanary\<close> with the
  double-precision rates it compares. The lemmas give the step invariant, show that a pause is
  invisible to the progress of a rollout, relate the table to the one the repository enforces
  (\<open>ReleaseState\<close>), and characterise the canary decision.
\<close>

section \<open>States and the transition table\<close>

text \<open>\<open>StateUnset\<close> is the empty string, the zero value of \<open>State\<close>.\<close>

datatype state =
    StatePending | StatePreparing | StateCanary | StateVerifying | StateRollingOut
  | StateCompleted | StatePaused | StateFailed | StateRollingBack | StateRolledBack
  | StateUnset | StateOther string

text \<open>The Go table is a map of sets; a state without an entry maps to \<open>None\<close>.\<close>

fun transitions :: "state \<Rightarrow> (state list) option" where
  "transitions StatePending = Some [StatePreparing, StatePaused, StateFailed]"
| "transitions StatePreparing = Some [StateCanary, StatePaused, StateFailed, StateRollingBack]"
| "transitions StateCanary = Some [StateVerifying, StatePaused, StateFailed, StateRollingBack]"
| "transitions StateVerifying = Some [StateRollingOut, StatePaused, StateFailed, StateRollingBack]"
| "transitions StateRollingOut = Some [StateCompleted, StatePaused, StateFailed, StateRollingBack]"
| "transitions StatePaused =
     Some [StatePreparing, StateCanary, StateVerifying, StateRollingOut, StateFailed,
           StateRollingBack]"
| "transitions StateFailed = Some [StateRollingBack]"
| "transitions StateRollingBack = Some [StateRolledBack, StateFailed]"
| "transitions _ = None"

definition may_move :: "state \<Rightarrow> state \<Rightarrow> bool" where
  "may_move s t = (case transitions s of None \<Rightarrow> False | Some ts \<Rightarrow> contains_elem ts t)"

section \<open>The rollout and its transition\<close>

record rollout_m =
  ro_ID :: string
  ro_TargetID :: string
  ro_FromReleaseID :: string
  ro_ToReleaseID :: string
  ro_State :: state
  ro_ResumeState :: state
  ro_Version :: int
  ro_AutomaticRollback :: bool
  ro_StartedAt :: go_time
  ro_UpdatedAt :: go_time
  ro_FailureReason :: string
  ro_RollbackTrigger :: string

record event_m =
  ev_PreviousState :: state
  ev_State :: state
  ev_Version :: int
  ev_ActorID :: string
  ev_Reason :: string
  ev_CreatedAt :: go_time

datatype rollout_error =
    FieldsRequired | SameRelease | InvalidState state | NegativeVersion
  | StaleVersion int int | ActorReasonRequired | CannotTransition state state
  | MustResumeTo state state

definition Rollout_Validate :: "rollout_m \<Rightarrow> rollout_error option" where
  "Rollout_Validate r =
     (if ro_ID r = [] \<or> ro_TargetID r = [] \<or> ro_ToReleaseID r = [] then Some FieldsRequired
      else if ro_FromReleaseID r = ro_ToReleaseID r then Some SameRelease
      else if transitions (ro_State r) = None \<and> ro_State r \<noteq> StateCompleted \<and>
              ro_State r \<noteq> StateRolledBack
        then Some (InvalidState (ro_State r))
      else if ro_Version r < 0 then Some NegativeVersion
      else None)"

definition Rollout_Transition ::
  "rollout_m \<Rightarrow> int \<Rightarrow> state \<Rightarrow> string \<Rightarrow> string \<Rightarrow> go_time
     \<Rightarrow> rollout_error + (rollout_m \<times> event_m)" where
  "Rollout_Transition r expectedVersion next_st actor reason at_time =
     (case Rollout_Validate r of
        Some e \<Rightarrow> Inl e
      | None \<Rightarrow>
        if ro_Version r \<noteq> expectedVersion then Inl (StaleVersion (ro_Version r) expectedVersion)
        else if actor = [] \<or> reason = [] then Inl ActorReasonRequired
        else if \<not> may_move (ro_State r) next_st then Inl (CannotTransition (ro_State r) next_st)
        else
          let previous = ro_State r in
          if next_st \<noteq> StatePaused \<and> previous = StatePaused \<and> next_st \<noteq> ro_ResumeState r \<and>
             next_st \<noteq> StateFailed \<and> next_st \<noteq> StateRollingBack
          then Inl (MustResumeTo (ro_ResumeState r) next_st)
          else
            let resume = (if next_st = StatePaused then previous
                          else if previous = StatePaused then StateUnset
                          else ro_ResumeState r);
                r' = r\<lparr>ro_ResumeState := resume, ro_State := next_st,
                       ro_Version := ro_Version r + 1, ro_UpdatedAt := at_time\<rparr>
            in Inr (r', \<lparr>ev_PreviousState = previous, ev_State = next_st,
                         ev_Version = ro_Version r', ev_ActorID = actor, ev_Reason = reason,
                         ev_CreatedAt = at_time\<rparr>))"

section \<open>The canary decision\<close>

record canary_policy =
  cp_MinimumSamples :: int
  cp_MinimumObservation :: duration
  cp_MaxInfrastructureFailureRate :: float64
  cp_MaxInfrastructureRateDelta :: float64
  cp_MaxDurationRegression :: float64
  cp_MaxParserFailures :: int
  cp_MaxPullFailures :: int
  cp_MaxCrashLoops :: int

definition DefaultCanaryPolicy :: canary_policy where
  "DefaultCanaryPolicy =
     \<lparr>cp_MinimumSamples = 10, cp_MinimumObservation = 15 * minute,
      cp_MaxInfrastructureFailureRate = to_f64 (2 / 100),
      cp_MaxInfrastructureRateDelta = to_f64 (1 / 100),
      cp_MaxDurationRegression = to_f64 (20 / 100),
      cp_MaxParserFailures = 0, cp_MaxPullFailures = 0, cp_MaxCrashLoops = 0\<rparr>"

text \<open>
  The three rate checks range over a Go map, so which of several bad rates the message names
  is not determined; \<open>BadRate\<close> stands for any of these messages.
\<close>

datatype canary_error =
  BadMinimums | BadRate | NegativeThresholds | BadObservationInterval

definition bad_rate :: "float64 \<Rightarrow> bool" where
  "bad_rate x \<longleftrightarrow> x = NaN \<or> x = PosInf \<or> x = NegInf \<or> f64_less x (Fin 0)"

definition CanaryPolicy_Validate :: "canary_policy \<Rightarrow> canary_error option" where
  "CanaryPolicy_Validate p =
     (if cp_MinimumSamples p \<le> 0 \<or> cp_MinimumObservation p \<le> 0 then Some BadMinimums
      else if bad_rate (cp_MaxInfrastructureFailureRate p) \<or>
              bad_rate (cp_MaxInfrastructureRateDelta p) \<or>
              bad_rate (cp_MaxDurationRegression p) then Some BadRate
      else if cp_MaxParserFailures p < 0 \<or> cp_MaxPullFailures p < 0 \<or> cp_MaxCrashLoops p < 0
        then Some NegativeThresholds
      else None)"

record canary_health =
  ch_Samples :: int
  ch_InfrastructureFailures :: int
  ch_StableSamples :: int
  ch_StableInfrastructureFailures :: int
  ch_ParserFailures :: int
  ch_PullFailures :: int
  ch_SignatureFailures :: int
  ch_ManifestFailures :: int
  ch_ExpectedFindingLosses :: int
  ch_CrashLoops :: int
  ch_CandidateP95Duration :: duration
  ch_StableP95Duration :: duration

datatype canary_outcome = CanaryPending | CanaryPassed | CanaryRollback

record canary_decision =
  cd_Outcome :: canary_outcome
  cd_Reasons :: "string list"

definition ratio :: "int \<Rightarrow> int \<Rightarrow> float64" where
  "ratio numerator denominator =
     (if denominator \<le> 0 then Fin 0
      else f64_div (f64_of_int numerator) (f64_of_int denominator))"

definition when_msg :: "bool \<Rightarrow> string \<Rightarrow> string list" where
  "when_msg b m = (if b then [m] else [])"

definition infrastructure_regressed :: "canary_policy \<Rightarrow> canary_health \<Rightarrow> bool" where
  "infrastructure_regressed p h \<longleftrightarrow>
     ch_StableSamples h > 0 \<and>
     f64_less (cp_MaxInfrastructureRateDelta p)
       (f64_sub (ratio (ch_InfrastructureFailures h) (ch_Samples h))
                (ratio (ch_StableInfrastructureFailures h) (ch_StableSamples h)))"

definition duration_regressed :: "canary_policy \<Rightarrow> canary_health \<Rightarrow> bool" where
  "duration_regressed p h \<longleftrightarrow>
     ch_StableP95Duration h > 0 \<and>
     f64_less (cp_MaxDurationRegression p)
       (f64_div (f64_of_int (ch_CandidateP95Duration h - ch_StableP95Duration h))
                (f64_of_int (ch_StableP95Duration h)))"

definition rollback_reasons :: "canary_policy \<Rightarrow> canary_health \<Rightarrow> string list" where
  "rollback_reasons p h =
     when_msg (ch_SignatureFailures h > 0) ''scanner signature verification failed'' @
     when_msg (ch_ManifestFailures h > 0) ''scanner release manifest verification failed'' @
     when_msg (ch_ExpectedFindingLosses h > 0) ''expected scanner findings disappeared'' @
     when_msg (ch_ParserFailures h > cp_MaxParserFailures p) ''parser failure threshold exceeded'' @
     when_msg (ch_PullFailures h > cp_MaxPullFailures p) ''image pull failure threshold exceeded'' @
     when_msg (ch_CrashLoops h > cp_MaxCrashLoops p) ''worker crash-loop threshold exceeded'' @
     when_msg (f64_less (cp_MaxInfrastructureFailureRate p)
                 (ratio (ch_InfrastructureFailures h) (ch_Samples h)))
       ''infrastructure failure rate threshold exceeded'' @
     when_msg (infrastructure_regressed p h)
       ''infrastructure failure rate regressed against stable'' @
     when_msg (duration_regressed p h) ''scan duration regression threshold exceeded''"

definition pending_reasons :: "canary_policy \<Rightarrow> canary_health \<Rightarrow> go_time \<Rightarrow> go_time \<Rightarrow> string list" where
  "pending_reasons p h startedAt now =
     when_msg (ch_Samples h < cp_MinimumSamples p) ''minimum canary sample count not reached'' @
     when_msg (now - startedAt < cp_MinimumObservation p)
       ''minimum canary observation time not reached''"

definition EvaluateCanary ::
  "canary_policy \<Rightarrow> canary_health \<Rightarrow> go_time \<Rightarrow> go_time \<Rightarrow> canary_error + canary_decision" where
  "EvaluateCanary p h startedAt now =
     (case CanaryPolicy_Validate p of
        Some e \<Rightarrow> Inl e
      | None \<Rightarrow>
        if is_zero_time startedAt \<or> now < startedAt then Inl BadObservationInterval
        else
          let rollback = rollback_reasons p h;
              pending = pending_reasons p h startedAt now in
          if rollback \<noteq> [] then Inr \<lparr>cd_Outcome = CanaryRollback, cd_Reasons = sort rollback\<rparr>
          else if pending \<noteq> [] then Inr \<lparr>cd_Outcome = CanaryPending, cd_Reasons = sort pending\<rparr>
          else Inr \<lparr>cd_Outcome = CanaryPassed, cd_Reasons = []\<rparr>)"

section \<open>Facts about single transitions\<close>

lemma Transition_InrE:
  assumes "Rollout_Transition r v nxt actor reason t = Inr (r', e)"
  obtains "Rollout_Validate r = None" "v = ro_Version r" "actor \<noteq> []" "reason \<noteq> []"
    "may_move (ro_State r) nxt"
    "ro_State r = StatePaused \<Longrightarrow> nxt \<in> {ro_ResumeState r, StateFailed, StateRollingBack} \<or>
       nxt = StatePaused"
    "r' = r\<lparr>ro_ResumeState := (if nxt = StatePaused then ro_State r
                               else if ro_State r = StatePaused then StateUnset
                               else ro_ResumeState r),
            ro_State := nxt, ro_Version := ro_Version r + 1, ro_UpdatedAt := t\<rparr>"
    "e = \<lparr>ev_PreviousState = ro_State r, ev_State = nxt, ev_Version = ro_Version r + 1,
          ev_ActorID = actor, ev_Reason = reason, ev_CreatedAt = t\<rparr>"
proof -
  show thesis
    using assms that
    by (auto simp: Rollout_Transition_def Let_def split: option.splits if_splits)
qed

lemma may_move_cases:
  "may_move s t \<longleftrightarrow>
     (case s of
        StatePending \<Rightarrow> t \<in> {StatePreparing, StatePaused, StateFailed}
      | StatePreparing \<Rightarrow> t \<in> {StateCanary, StatePaused, StateFailed, StateRollingBack}
      | StateCanary \<Rightarrow> t \<in> {StateVerifying, StatePaused, StateFailed, StateRollingBack}
      | StateVerifying \<Rightarrow> t \<in> {StateRollingOut, StatePaused, StateFailed, StateRollingBack}
      | StateRollingOut \<Rightarrow> t \<in> {StateCompleted, StatePaused, StateFailed, StateRollingBack}
      | StatePaused \<Rightarrow> t \<in> {StatePreparing, StateCanary, StateVerifying, StateRollingOut,
                              StateFailed, StateRollingBack}
      | StateFailed \<Rightarrow> t = StateRollingBack
      | StateRollingBack \<Rightarrow> t \<in> {StateRolledBack, StateFailed}
      | _ \<Rightarrow> False)"
  by (cases s) (auto simp: may_move_def)

lemma may_move_known:
  "may_move s t \<Longrightarrow> transitions t \<noteq> None \<or> t = StateCompleted \<or> t = StateRolledBack"
  by (cases s) (auto simp: may_move_def)

lemma may_move_irrefl: "\<not> may_move s s"
  by (cases s) (auto simp: may_move_def)

text \<open>A successful transition keeps the rollout valid and everything but its state, resume
  state, version and time.\<close>

lemma Transition_valid:
  assumes "Rollout_Transition r v nxt actor reason t = Inr (r', e)"
  shows "Rollout_Validate r' = None"
  using assms
proof (rule Transition_InrE)
  assume "Rollout_Validate r = None" "may_move (ro_State r) nxt"
    "r' = r\<lparr>ro_ResumeState := (if nxt = StatePaused then ro_State r
                               else if ro_State r = StatePaused then StateUnset
                               else ro_ResumeState r),
            ro_State := nxt, ro_Version := ro_Version r + 1, ro_UpdatedAt := t\<rparr>"
  then show ?thesis
    using may_move_known [of "ro_State r" nxt]
    by (auto simp: Rollout_Validate_def split: if_splits)
qed

section \<open>Runs of a rollout\<close>

text \<open>
  A run collects the states entered. The progress of a rollout is its state, or the state it
  was paused in: pausing and resuming do not change it.
\<close>

inductive rollout_run :: "rollout_m \<Rightarrow> state list \<Rightarrow> rollout_m \<Rightarrow> bool" where
  run_start: "rollout_run r [] r"
| run_step: "rollout_run r vs r1 \<Longrightarrow> Rollout_Transition r1 v nxt actor reason t = Inr (r2, e)
     \<Longrightarrow> rollout_run r (vs @ [nxt]) r2"

definition progress :: "rollout_m \<Rightarrow> state" where
  "progress r = (if ro_State r = StatePaused then ro_ResumeState r else ro_State r)"

definition fresh_rollout :: "rollout_m \<Rightarrow> bool" where
  "fresh_rollout r \<longleftrightarrow> Rollout_Validate r = None \<and> ro_State r = StatePending \<and>
     ro_ResumeState r = StateUnset"

definition running_states :: "state list" where
  "running_states = [StatePending, StatePreparing, StateCanary, StateVerifying, StateRollingOut]"

definition pause_inv :: "rollout_m \<Rightarrow> bool" where
  "pause_inv r \<longleftrightarrow> (ro_State r = StatePaused \<longrightarrow> ro_ResumeState r \<in> set running_states) \<and>
     (ro_State r \<noteq> StatePaused \<longrightarrow> ro_ResumeState r = StateUnset)"

lemma Transition_pause_inv:
  assumes "Rollout_Transition r v nxt actor reason t = Inr (r', e)" "pause_inv r"
  shows "pause_inv r'"
  using assms(1)
proof (rule Transition_InrE)
  assume "may_move (ro_State r) nxt"
    "r' = r\<lparr>ro_ResumeState := (if nxt = StatePaused then ro_State r
                               else if ro_State r = StatePaused then StateUnset
                               else ro_ResumeState r),
            ro_State := nxt, ro_Version := ro_Version r + 1, ro_UpdatedAt := t\<rparr>"
  then show ?thesis
    using assms(2) by (auto simp: pause_inv_def running_states_def may_move_cases split: state.splits)
qed

text \<open>A transition is a stutter of the progress, or a move of the pause-free table.\<close>

lemma Transition_progress:
  assumes "Rollout_Transition r v nxt actor reason t = Inr (r', e)" "pause_inv r"
  shows "progress r' = progress r \<or>
         progress r' = nxt \<and> nxt \<noteq> StatePaused \<and>
           (may_move (progress r) nxt \<or> nxt = StateRollingBack \<and> progress r = StatePending)"
  using assms(1)
proof (rule Transition_InrE)
  assume a: "may_move (ro_State r) nxt"
    "ro_State r = StatePaused \<Longrightarrow> nxt \<in> {ro_ResumeState r, StateFailed, StateRollingBack} \<or>
       nxt = StatePaused"
    "r' = r\<lparr>ro_ResumeState := (if nxt = StatePaused then ro_State r
                               else if ro_State r = StatePaused then StateUnset
                               else ro_ResumeState r),
            ro_State := nxt, ro_Version := ro_Version r + 1, ro_UpdatedAt := t\<rparr>"
  show ?thesis
  proof (cases "nxt = StatePaused")
    case True
    then have "ro_State r \<noteq> StatePaused" using a(1) may_move_irrefl by metis
    then show ?thesis using True a(3) by (simp add: progress_def)
  next
    case False
    then show ?thesis
      using a assms(2)
      by (auto simp: progress_def pause_inv_def running_states_def may_move_cases)
  qed
qed

lemma run_pause_inv: "rollout_run r vs r' \<Longrightarrow> pause_inv r \<Longrightarrow> pause_inv r'"
  by (induction rule: rollout_run.induct) (auto intro: Transition_pause_inv)

lemma fresh_pause_inv: "fresh_rollout r \<Longrightarrow> pause_inv r \<and> progress r = StatePending"
  by (simp add: fresh_rollout_def pause_inv_def progress_def)

text \<open>The states a given progress presupposes.\<close>

fun passed_before :: "state \<Rightarrow> state list" where
  "passed_before StateCanary = [StatePreparing, StateCanary]"
| "passed_before StateVerifying = [StatePreparing, StateCanary, StateVerifying]"
| "passed_before StateRollingOut = [StatePreparing, StateCanary, StateVerifying, StateRollingOut]"
| "passed_before StateCompleted = [StatePreparing, StateCanary, StateVerifying, StateRollingOut]"
| "passed_before StatePreparing = [StatePreparing]"
| "passed_before _ = []"

lemma passed_before_step:
  assumes "may_move s t \<or> t = StateRollingBack" "t \<noteq> StatePaused" "s \<noteq> StatePaused"
  shows "set (passed_before t) \<subseteq> insert t (set (passed_before s))"
  using assms by (cases s) (auto simp: may_move_cases)

lemma progress_not_paused: "pause_inv r \<Longrightarrow> progress r \<noteq> StatePaused"
  by (auto simp: pause_inv_def progress_def running_states_def)

lemma run_passed:
  assumes "rollout_run r vs r'" "fresh_rollout r"
  shows "set (passed_before (progress r')) \<subseteq> set vs"
  using assms
proof (induction rule: rollout_run.induct)
  case (run_start r)
  then show ?case using fresh_pause_inv by fastforce
next
  case (run_step r vs r1 v nxt actor reason t r2 e)
  have inv: "pause_inv r1"
    using run_pause_inv [OF run_step.hyps(1)] fresh_pause_inv [OF run_step.prems] by blast
  from run_step have IH: "set (passed_before (progress r1)) \<subseteq> set vs" by blast
  from Transition_progress [OF run_step.hyps(2) inv] show ?case
  proof
    assume "progress r2 = progress r1"
    then show ?thesis using IH by auto
  next
    assume a: "progress r2 = nxt \<and> nxt \<noteq> StatePaused \<and>
      (may_move (progress r1) nxt \<or> nxt = StateRollingBack \<and> progress r1 = StatePending)"
    have "set (passed_before nxt) \<subseteq> insert nxt (set (passed_before (progress r1)))"
      by (rule passed_before_step) (use a progress_not_paused [OF inv] in auto)
    then show ?thesis using IH a by auto
  qed
qed

section \<open>Facts about the canary decision\<close>

lemma when_msg_Nil [simp]: "when_msg b m = [] \<longleftrightarrow> \<not> b"
  by (simp add: when_msg_def)

lemma rollback_reasons_Nil:
  "rollback_reasons p h = [] \<longleftrightarrow>
     ch_SignatureFailures h \<le> 0 \<and> ch_ManifestFailures h \<le> 0 \<and> ch_ExpectedFindingLosses h \<le> 0 \<and>
     ch_ParserFailures h \<le> cp_MaxParserFailures p \<and> ch_PullFailures h \<le> cp_MaxPullFailures p \<and>
     ch_CrashLoops h \<le> cp_MaxCrashLoops p \<and>
     \<not> f64_less (cp_MaxInfrastructureFailureRate p)
         (ratio (ch_InfrastructureFailures h) (ch_Samples h)) \<and>
     \<not> infrastructure_regressed p h \<and> \<not> duration_regressed p h"
  by (auto simp: rollback_reasons_def)

lemma pending_reasons_Nil:
  "pending_reasons p h s n = [] \<longleftrightarrow> cp_MinimumSamples p \<le> ch_Samples h \<and> cp_MinimumObservation p \<le> n - s"
  by (auto simp: pending_reasons_def)

text \<open>The evidence of the second health report is at least as bad as that of the first, over the
  same samples and the same stable baseline.\<close>

definition no_better :: "canary_health \<Rightarrow> canary_health \<Rightarrow> bool" where
  "no_better h h' \<longleftrightarrow>
     ch_Samples h' = ch_Samples h \<and> ch_StableSamples h' = ch_StableSamples h \<and>
     ch_StableInfrastructureFailures h' = ch_StableInfrastructureFailures h \<and>
     ch_StableP95Duration h' = ch_StableP95Duration h \<and>
     ch_InfrastructureFailures h \<le> ch_InfrastructureFailures h' \<and>
     ch_ParserFailures h \<le> ch_ParserFailures h' \<and> ch_PullFailures h \<le> ch_PullFailures h' \<and>
     ch_SignatureFailures h \<le> ch_SignatureFailures h' \<and>
     ch_ManifestFailures h \<le> ch_ManifestFailures h' \<and>
     ch_ExpectedFindingLosses h \<le> ch_ExpectedFindingLosses h' \<and>
     ch_CrashLoops h \<le> ch_CrashLoops h' \<and> ch_CandidateP95Duration h \<le> ch_CandidateP95Duration h'"

text \<open>The counts are Go integers, and the difference of the two durations is one too.\<close>

definition int64_health :: "canary_health \<Rightarrow> bool" where
  "int64_health h \<longleftrightarrow>
     int64_range (ch_Samples h) \<and> int64_range (ch_StableSamples h) \<and>
     int64_range (ch_InfrastructureFailures h) \<and> int64_range (ch_StableInfrastructureFailures h) \<and>
     int64_range (ch_StableP95Duration h) \<and>
     int64_range (ch_CandidateP95Duration h - ch_StableP95Duration h)"

lemma ratio_mono:
  assumes "int64_range a" "int64_range b" "int64_range d" "a \<le> b"
  shows "f64_le (ratio a d) (ratio b d)"
  using f64_div_int_mono [OF assms(1,2,4,3)] by (simp add: ratio_def)

lemma ratio_finite:
  assumes "int64_range a" "int64_range d"
  shows "f64_finite (ratio a d)"
  using f64_div_int64_finite [OF assms] by (simp add: ratio_def)

lemma rollback_reasons_mono:
  assumes worse: "no_better h h'" and range: "int64_health h" "int64_health h'"
    and clear: "rollback_reasons p h' = []"
  shows "rollback_reasons p h = []"
proof -
  have r: "f64_le (ratio (ch_InfrastructureFailures h) (ch_Samples h))
                  (ratio (ch_InfrastructureFailures h') (ch_Samples h))"
    using worse range by (intro ratio_mono) (auto simp: no_better_def int64_health_def)
  have fin: "f64_finite (ratio (ch_StableInfrastructureFailures h) (ch_StableSamples h))"
    using range by (intro ratio_finite) (auto simp: int64_health_def)
  have infra: "infrastructure_regressed p h \<Longrightarrow> infrastructure_regressed p h'"
    using f64_less_gt_mono [OF _ f64_sub_mono_left [OF r fin]] worse
    by (auto simp: infrastructure_regressed_def no_better_def)
  have d: "f64_le (f64_div (f64_of_int (ch_CandidateP95Duration h - ch_StableP95Duration h))
                           (f64_of_int (ch_StableP95Duration h)))
                  (f64_div (f64_of_int (ch_CandidateP95Duration h' - ch_StableP95Duration h))
                           (f64_of_int (ch_StableP95Duration h)))"
    if "0 < ch_StableP95Duration h"
    using worse range that
    by (intro f64_div_int_mono) (auto simp: no_better_def int64_health_def)
  have dur: "duration_regressed p h \<Longrightarrow> duration_regressed p h'"
    using f64_less_gt_mono [OF _ d] worse by (auto simp: duration_regressed_def no_better_def)
  show ?thesis
    using clear worse infra dur f64_less_gt_mono [OF _ r]
    by (auto simp: rollback_reasons_Nil no_better_def)
qed

lemma EvaluateCanary_total:
  assumes "CanaryPolicy_Validate p = None" "startedAt \<noteq> 0" "startedAt \<le> now"
  shows "\<exists>d. EvaluateCanary p h startedAt now = Inr d"
  using assms
  by (cases "rollback_reasons p h = []"; cases "pending_reasons p h startedAt now = []")
     (simp_all add: EvaluateCanary_def is_zero_time_def)

section \<open>Properties of the rollout state machine\<close>

lemma run_frame:
  "rollout_run r vs r' \<Longrightarrow> ro_ID r' = ro_ID r \<and> ro_FromReleaseID r' = ro_FromReleaseID r \<and>
     ro_ToReleaseID r' = ro_ToReleaseID r \<and> ro_Version r' = ro_Version r + int (length vs)"
  by (induction rule: rollout_run.induct) (auto elim: Transition_InrE)

text \<open>A rollout that runs from its fresh pending state to completed was prepared, was a
  canary, was verified and was rolling out on the way, however often it was paused; it keeps its
  identity and its two releases, and its version counts its transitions.\<close>

theorem rollout_completed_was_verified:
  assumes "fresh_rollout r" "rollout_run r vs r'" "ro_State r' = StateCompleted"
  shows "{StatePreparing, StateCanary, StateVerifying, StateRollingOut} \<subseteq> set vs \<and>
         ro_ID r' = ro_ID r \<and> ro_FromReleaseID r' = ro_FromReleaseID r \<and>
         ro_ToReleaseID r' = ro_ToReleaseID r \<and> ro_Version r' = ro_Version r + int (length vs)"
  using run_passed [OF assms(2,1)] run_frame [OF assms(2)] assms(3) by (simp add: progress_def)

definition sample_rollout :: rollout_m where
  "sample_rollout = \<lparr>ro_ID = ''r'', ro_TargetID = ''prod'', ro_FromReleaseID = ''one'',
     ro_ToReleaseID = ''two'', ro_State = StatePending, ro_ResumeState = StateUnset,
     ro_Version = 0, ro_AutomaticRollback = True, ro_StartedAt = 1, ro_UpdatedAt = 1,
     ro_FailureReason = [], ro_RollbackTrigger = []\<rparr>"

definition at_state :: "state \<Rightarrow> int \<Rightarrow> rollout_m" where
  "at_state s v = sample_rollout\<lparr>ro_State := s, ro_Version := v, ro_UpdatedAt := 2\<rparr>"

lemma sample_step:
  assumes "rollout_run sample_rollout vs (at_state s v)" "s \<noteq> StatePaused" "t \<noteq> StatePaused"
    "may_move s t" "0 \<le> v"
  shows "rollout_run sample_rollout (vs @ [t]) (at_state t (v + 1))"
proof (rule run_step [OF assms(1)])
  show "Rollout_Transition (at_state s v) v t ''ctl'' ''ok'' 2 =
    Inr (at_state t (v + 1), \<lparr>ev_PreviousState = s, ev_State = t, ev_Version = v + 1,
          ev_ActorID = ''ctl'', ev_Reason = ''ok'', ev_CreatedAt = 2\<rparr>)"
    using assms(2-5) by (cases s)
      (auto simp: Rollout_Transition_def Rollout_Validate_def at_state_def sample_rollout_def
        may_move_def Let_def)
qed

theorem rollout_completed_was_verified_witness:
  "{StatePreparing, StateCanary, StateVerifying, StateRollingOut} \<subseteq>
     set [StatePreparing, StateCanary, StateVerifying, StateRollingOut, StateCompleted] \<and>
   ro_ID (at_state StateCompleted 5) = ro_ID sample_rollout \<and>
   ro_FromReleaseID (at_state StateCompleted 5) = ro_FromReleaseID sample_rollout \<and>
   ro_ToReleaseID (at_state StateCompleted 5) = ro_ToReleaseID sample_rollout \<and>
   ro_Version (at_state StateCompleted 5) = ro_Version sample_rollout +
     int (length [StatePreparing, StateCanary, StateVerifying, StateRollingOut, StateCompleted])"
proof (rule rollout_completed_was_verified)
  have t0: "Rollout_Transition sample_rollout 0 StatePreparing ''ctl'' ''ok'' 2 =
    Inr (at_state StatePreparing 1, \<lparr>ev_PreviousState = StatePending, ev_State = StatePreparing,
          ev_Version = 1, ev_ActorID = ''ctl'', ev_Reason = ''ok'', ev_CreatedAt = 2\<rparr>)"
    by (simp add: Rollout_Transition_def Rollout_Validate_def at_state_def sample_rollout_def
        may_move_def)
  note s1 = run_step [OF run_start t0]
  note s2 = sample_step [OF s1, of StateCanary]
  note s3 = sample_step [OF s2, of StateVerifying]
  note s4 = sample_step [OF s3, of StateRollingOut]
  note s5 = sample_step [OF s4, of StateCompleted]
  show "rollout_run sample_rollout
     [StatePreparing, StateCanary, StateVerifying, StateRollingOut, StateCompleted]
     (at_state StateCompleted 5)"
    using s5 by (simp add: may_move_def)
  show "fresh_rollout sample_rollout"
    by (simp add: fresh_rollout_def Rollout_Validate_def sample_rollout_def)
  show "ro_State (at_state StateCompleted 5) = StateCompleted" by (simp add: at_state_def)
qed

text \<open>After a pause the only states a rollout can enter are the one it was paused in, failed
  and rolling back; paused while pending it cannot be resumed at all.\<close>

theorem pause_then_resume:
  assumes "Rollout_Transition r v StatePaused actor reason t = Inr (p, e)"
    and "Rollout_Transition p v' nxt actor' reason' t' = Inr (q, e')"
  shows "nxt \<in> (if ro_State r = StatePending then {StateFailed, StateRollingBack}
                 else {ro_State r, StateFailed, StateRollingBack})"
  using assms(1)
proof (rule Transition_InrE)
  assume "may_move (ro_State r) StatePaused"
    and p: "p = r\<lparr>ro_ResumeState := (if StatePaused = StatePaused then ro_State r
                               else if ro_State r = StatePaused then StateUnset
                               else ro_ResumeState r),
            ro_State := StatePaused, ro_Version := ro_Version r + 1, ro_UpdatedAt := t\<rparr>"
  from assms(2) show ?thesis
    by (rule Transition_InrE) (auto simp: p may_move_def)
qed

theorem pause_then_resume_witness:
  "StateCanary \<in> (if ro_State (at_state StateCanary 2) = StatePending
                   then {StateFailed, StateRollingBack}
                   else {ro_State (at_state StateCanary 2), StateFailed, StateRollingBack})"
proof -
  have p: "Rollout_Transition (at_state StateCanary 2) 2 StatePaused ''op'' ''hold'' 3 =
    Inr ((at_state StateCanary 2)\<lparr>ro_ResumeState := StateCanary, ro_State := StatePaused,
           ro_Version := 3, ro_UpdatedAt := 3\<rparr>,
         \<lparr>ev_PreviousState = StateCanary, ev_State = StatePaused, ev_Version = 3,
          ev_ActorID = ''op'', ev_Reason = ''hold'', ev_CreatedAt = 3\<rparr>)"
    by (simp add: Rollout_Transition_def Rollout_Validate_def at_state_def sample_rollout_def
        may_move_def)
  obtain q e where "Rollout_Transition ((at_state StateCanary 2)\<lparr>ro_ResumeState := StateCanary,
      ro_State := StatePaused, ro_Version := 3, ro_UpdatedAt := 3\<rparr>) 3 StateCanary ''op'' ''go'' 4 = Inr (q, e)"
    by (simp add: Rollout_Transition_def Rollout_Validate_def at_state_def sample_rollout_def
        may_move_def)
  from pause_then_resume [OF p this] show ?thesis .
qed

fun persisted_state :: "state \<Rightarrow> rollout_state" where
  "persisted_state StatePending = RolloutPending"
| "persisted_state StatePreparing = RolloutPreparing"
| "persisted_state StateCanary = RolloutCanary"
| "persisted_state StateVerifying = RolloutVerifying"
| "persisted_state StateRollingOut = RolloutRollingOut"
| "persisted_state StateCompleted = RolloutCompleted"
| "persisted_state StatePaused = RolloutPaused"
| "persisted_state StateFailed = RolloutFailed"
| "persisted_state StateRollingBack = RolloutRollingBack"
| "persisted_state StateRolledBack = RolloutRolledBack"
| "persisted_state StateUnset = RolloutOther []"
| "persisted_state (StateOther x) = RolloutOther x"

text \<open>The two rollout tables of the program agree except on one pair: the repository also
  lets a pending rollout go straight to rolling back.\<close>

theorem rollout_tables_agree:
  "ValidateRolloutTransition (persisted_state s) (persisted_state t) = None \<longleftrightarrow>
     may_move s t \<or> (s = StatePending \<and> t = StateRollingBack)"
  by (cases s; cases t) (simp_all add: validate_defs validateTransition_None may_move_def)

text \<open>With a valid policy and interval, the canary rolls back exactly when one of the nine
  health conditions is violated, passes exactly when none is and both minimums are reached, and
  is pending otherwise.\<close>

theorem canary_decision_complete:
  assumes "CanaryPolicy_Validate p = None" "startedAt \<noteq> 0" "startedAt \<le> now"
  shows "\<exists>d. EvaluateCanary p h startedAt now = Inr d \<and>
    (cd_Outcome d = CanaryRollback \<longleftrightarrow>
       ch_SignatureFailures h > 0 \<or> ch_ManifestFailures h > 0 \<or> ch_ExpectedFindingLosses h > 0 \<or>
       ch_ParserFailures h > cp_MaxParserFailures p \<or> ch_PullFailures h > cp_MaxPullFailures p \<or>
       ch_CrashLoops h > cp_MaxCrashLoops p \<or>
       f64_less (cp_MaxInfrastructureFailureRate p)
         (ratio (ch_InfrastructureFailures h) (ch_Samples h)) \<or>
       infrastructure_regressed p h \<or> duration_regressed p h) \<and>
    (cd_Outcome d = CanaryPassed \<longleftrightarrow>
       rollback_reasons p h = [] \<and> cp_MinimumSamples p \<le> ch_Samples h \<and>
       cp_MinimumObservation p \<le> now - startedAt) \<and>
    (cd_Outcome d = CanaryPassed \<longleftrightarrow> cd_Reasons d = []) \<and> sorted (cd_Reasons d)"
proof -
  have sort_Nil: "sort xs = [] \<longleftrightarrow> xs = []" for xs :: "string list"
    by (metis length_0_conv length_sort)
  show ?thesis
    using assms rollback_reasons_Nil [of p h] pending_reasons_Nil [of p h startedAt now]
    by (auto simp: EvaluateCanary_def is_zero_time_def Let_def sort_Nil)
qed

definition sample_health :: canary_health where
  "sample_health = \<lparr>ch_Samples = 50, ch_InfrastructureFailures = 1, ch_StableSamples = 50,
     ch_StableInfrastructureFailures = 1, ch_ParserFailures = 0, ch_PullFailures = 0,
     ch_SignatureFailures = 0, ch_ManifestFailures = 0, ch_ExpectedFindingLosses = 0,
     ch_CrashLoops = 0, ch_CandidateP95Duration = 100, ch_StableP95Duration = 100\<rparr>"

lemma bad_rate_to_f64: "0 \<le> q \<Longrightarrow> q \<le> 1 \<Longrightarrow> \<not> bad_rate (to_f64 q)"
proof -
  assume q: "0 \<le> q" "q \<le> 1"
  have "1 \<le> pow2 64" by (simp add: pow2_def)
  with q have "to_f64 q = Fin (round_f64 q)" by (intro to_f64_Fin) simp
  then show ?thesis using round_f64_nonneg [OF q(1)] by (simp add: bad_rate_def)
qed

lemma DefaultCanaryPolicy_valid: "CanaryPolicy_Validate DefaultCanaryPolicy = None"
  using bad_rate_to_f64 [of "2 / 100"] bad_rate_to_f64 [of "1 / 100"] bad_rate_to_f64 [of "20 / 100"]
  by (simp add: CanaryPolicy_Validate_def DefaultCanaryPolicy_def duration_defs)

theorem canary_decision_complete_witness:
  "\<exists>d. EvaluateCanary DefaultCanaryPolicy sample_health 1 (1 + hour) = Inr d"
  using canary_decision_complete [OF DefaultCanaryPolicy_valid, of 1 "1 + hour" sample_health]
  by (auto simp: duration_defs)

text \<open>The canary decision is monotone in the evidence: over the same samples and the same
  stable baseline, more failures or a slower candidate never turn a rollback into anything else,
  and never turn a verdict that was not a pass into a pass, double rounding included.\<close>

theorem canary_rollback_monotone:
  assumes "no_better h h'" "int64_health h" "int64_health h'"
    and "EvaluateCanary p h startedAt now = Inr d" "EvaluateCanary p h' startedAt now = Inr d'"
  shows "(cd_Outcome d = CanaryRollback \<longrightarrow> cd_Outcome d' = CanaryRollback) \<and>
         (cd_Outcome d' = CanaryPassed \<longrightarrow> cd_Outcome d = CanaryPassed)"
proof -
  have same: "pending_reasons p h' startedAt now = pending_reasons p h startedAt now"
    using assms(1) by (simp add: pending_reasons_def no_better_def)
  have clear: "rollback_reasons p h' = [] \<Longrightarrow> rollback_reasons p h = []"
    by (rule rollback_reasons_mono [OF assms(1-3)])
  show ?thesis
    using assms(4,5) clear same
    by (auto simp: EvaluateCanary_def Let_def split: option.splits if_splits)
qed

theorem canary_rollback_monotone_witness:
  "\<exists>d. EvaluateCanary DefaultCanaryPolicy (sample_health\<lparr>ch_ParserFailures := 2, ch_CrashLoops := 1\<rparr>)
         1 (1 + hour) = Inr d \<and> cd_Outcome d = CanaryRollback"
proof -
  let ?h = "sample_health\<lparr>ch_ParserFailures := 1\<rparr>"
  let ?h' = "sample_health\<lparr>ch_ParserFailures := 2, ch_CrashLoops := 1\<rparr>"
  have r: "no_better ?h ?h'" "int64_health ?h" "int64_health ?h'"
    by (simp_all add: no_better_def int64_health_def int64_range_def sample_health_def)
  obtain d where d: "EvaluateCanary DefaultCanaryPolicy ?h 1 (1 + hour) = Inr d"
    and out: "cd_Outcome d = CanaryRollback"
  proof -
    have "rollback_reasons DefaultCanaryPolicy ?h \<noteq> []"
      by (simp add: rollback_reasons_Nil DefaultCanaryPolicy_def sample_health_def)
    then show thesis
      using that DefaultCanaryPolicy_valid
      by (simp add: EvaluateCanary_def is_zero_time_def duration_defs)
  qed
  obtain d' where d': "EvaluateCanary DefaultCanaryPolicy ?h' 1 (1 + hour) = Inr d'"
    using EvaluateCanary_total [OF DefaultCanaryPolicy_valid, of 1 "1 + hour" ?h']
    by (auto simp: duration_defs)
  from canary_rollback_monotone [OF r d d'] out d' show ?thesis by blast
qed

end
