(* ===== verification/GoText.thy ===== *)
theory GoText
  imports GoFloat
begin

text \<open>
  Text of numbers and durations, as the Go standard library reads and prints it:
  \<open>time.ParseDuration\<close> with its unsigned 64-bit and double arithmetic, \<open>%d\<close> of an integer and
  \<open>%.4f\<close> of a double.
\<close>

section \<open>Printing\<close>

definition digit_char :: "int \<Rightarrow> char" where
  "digit_char d = char_of (48 + d)"

fun show_digits :: "nat \<Rightarrow> int \<Rightarrow> string \<Rightarrow> string" where
  "show_digits 0 n acc = acc"
| "show_digits (Suc fuel) n acc =
     (if n < 10 then digit_char n # acc
      else show_digits fuel (n div 10) (digit_char (n mod 10) # acc))"

text \<open>A number has no more decimal digits than it has binary ones, so the fuel never runs out.\<close>

definition show_int :: "int \<Rightarrow> string" where
  "show_int n = (if n < 0 then ''-'' else []) @ show_digits (Suc (int_bits \<bar>n\<bar>)) \<bar>n\<bar> []"

definition pad4 :: "int \<Rightarrow> string" where
  "pad4 n = [digit_char (n div 1000 mod 10), digit_char (n div 100 mod 10),
             digit_char (n div 10 mod 10), digit_char (n mod 10)]"

fun show_fixed4 :: "float64 \<Rightarrow> string" where
  "show_fixed4 (Fin q) =
     (let n = round_half_even (\<bar>q\<bar> * 10000)
      in (if q < 0 then ''-'' else []) @ show_int (n div 10000) @ ''.'' @ pad4 (n mod 10000))"
| "show_fixed4 PosInf = ''+Inf''"
| "show_fixed4 NegInf = ''-Inf''"
| "show_fixed4 NaN = ''NaN''"

definition pad2 :: "int \<Rightarrow> string" where
  "pad2 n = [digit_char (n div 10 mod 10), digit_char (n mod 10)]"

fun show_fixed2 :: "float64 \<Rightarrow> string" where
  "show_fixed2 (Fin q) =
     (let n = round_half_even (\<bar>q\<bar> * 100)
      in (if q < 0 then ''-'' else []) @ show_int (n div 100) @ ''.'' @ pad2 (n mod 100))"
| "show_fixed2 PosInf = ''+Inf''"
| "show_fixed2 NegInf = ''-Inf''"
| "show_fixed2 NaN = ''NaN''"

section \<open>\<open>time.ParseDuration\<close>\<close>

text \<open>\<open>leadingInt\<close>: the value and the rest, \<open>None\<close> on overflow past \<open>2^63\<close>.\<close>

fun leadingInt :: "int \<Rightarrow> string \<Rightarrow> (int \<times> string) option" where
  "leadingInt x [] = Some (x, [])"
| "leadingInt x (c # cs) =
     (case digit_value c of
        None \<Rightarrow> Some (x, c # cs)
      | Some d \<Rightarrow>
          if 2 ^ 63 div 10 < x then None
          else if 2 ^ 63 < x * 10 + d then None
          else leadingInt (x * 10 + d) cs)"

text \<open>\<open>leadingFraction\<close>: digits past the precision of 63 bits are dropped.\<close>

fun leadingFraction :: "int \<Rightarrow> int \<Rightarrow> bool \<Rightarrow> string \<Rightarrow> int \<times> int \<times> string" where
  "leadingFraction x scale overflow [] = (x, scale, [])"
| "leadingFraction x scale overflow (c # cs) =
     (case digit_value c of
        None \<Rightarrow> (x, scale, c # cs)
      | Some d \<Rightarrow>
          if overflow \<or> (2 ^ 63 - 1) div 10 < x \<or> 2 ^ 63 < x * 10 + d
          then leadingFraction x scale True cs
          else leadingFraction (x * 10 + d) (scale * 10) False cs)"

definition duration_unit :: "string \<Rightarrow> int option" where
  "duration_unit u =
     (if u = ''ns'' then Some 1
      else if u = ''us'' \<or> u = [CHR 0xC2, CHR 0xB5, CHR ''s''] \<or> u = [CHR 0xCE, CHR 0xBC, CHR ''s'']
      then Some 1000
      else if u = ''ms'' then Some 1000000
      else if u = ''s'' then Some second
      else if u = ''m'' then Some minute
      else if u = ''h'' then Some hour
      else None)"

fun f64_floor :: "float64 \<Rightarrow> int" where
  "f64_floor (Fin q) = \<lfloor>q\<rfloor>"
| "f64_floor _ = 0"

definition unit_char :: "char \<Rightarrow> bool" where
  "unit_char c \<longleftrightarrow> c \<noteq> CHR ''.'' \<and> digit_value c = None"

text \<open>One number with its unit: the nanoseconds and the rest of the text.\<close>

definition parse_component :: "string \<Rightarrow> (int \<times> string) option" where
  "parse_component s =
     (case leadingInt 0 s of
        None \<Rightarrow> None
      | Some (v, s1) \<Rightarrow>
        let pre = (length s1 \<noteq> length s);
            (f, scale, s2, post) =
              (if take 1 s1 = ''.'' then
                 (let (f, scale, s2) = leadingFraction 0 1 False (drop 1 s1)
                  in (f, scale, s2, length s2 \<noteq> length (drop 1 s1)))
               else (0, 1, s1, False));
            u = takeWhile unit_char s2;
            rest = dropWhile unit_char s2
        in if \<not> pre \<and> \<not> post then None
           else case duration_unit u of
                  None \<Rightarrow> None
                | Some unit \<Rightarrow>
                  if 2 ^ 63 div unit < v then None
                  else
                    let w = v * unit + (if 0 < f then
                          f64_floor (f64_mul (f64_of_int f) (f64_div (f64_of_int unit) (f64_of_int scale)))
                        else 0)
                    in if 0 < f \<and> 2 ^ 63 < w then None else Some (w, rest))"

text \<open>Every component consumes at least a digit and a unit, so the length of the text is enough fuel.\<close>

fun parse_components :: "nat \<Rightarrow> int \<Rightarrow> string \<Rightarrow> int option" where
  "parse_components 0 d s = None"
| "parse_components (Suc fuel) d s =
     (if s = [] then Some d
      else case parse_component s of
             None \<Rightarrow> None
           | Some (v, rest) \<Rightarrow>
             let d' = (d + v) mod 2 ^ 64
             in if 2 ^ 63 < d' then None else parse_components fuel d' rest)"

definition ParseDuration :: "string \<Rightarrow> duration option" where
  "ParseDuration orig =
     (let neg = (take 1 orig = ''-'');
          s = (if neg \<or> take 1 orig = ''+'' then drop 1 orig else orig)
      in if s = ''0'' then Some 0
         else if s = [] then None
         else case parse_components (Suc (length s)) 0 s of
                None \<Rightarrow> None
              | Some d \<Rightarrow>
                if neg then Some (if d = 2 ^ 63 then - (2 ^ 63) else - d)
                else if 2 ^ 63 - 1 < d then None else Some d)"

section \<open>The parser always ends\<close>

lemma leadingInt_length: "leadingInt x s = Some (v, r) \<Longrightarrow> length r \<le> length s"
  by (induction x s rule: leadingInt.induct) (auto split: option.splits if_splits)

lemma leadingFraction_length: "leadingFraction x sc ov s = (f, sc', r) \<Longrightarrow> length r \<le> length s"
  by (induction x sc ov s rule: leadingFraction.induct) (force split: option.splits if_splits)+

lemma parse_component_shorter:
  assumes "parse_component s = Some (v, rest)"
  shows "length rest < length s"
proof -
  have unit: "takeWhile unit_char t \<noteq> [] \<Longrightarrow> length (dropWhile unit_char t) < length t" for t
    by (cases t) (auto simp: less_Suc_eq_le length_dropWhile_le split: if_splits)
  have no_unit: "duration_unit [] = None" by (simp add: duration_unit_def)
  obtain v1 s1 where li: "leadingInt 0 s = Some (v1, s1)"
    using assms by (auto simp: parse_component_def split: option.splits)
  obtain f scale s2 where lf: "leadingFraction 0 1 False (drop 1 s1) = (f, scale, s2)"
    by (cases "leadingFraction 0 1 False (drop 1 s1)") auto
  have le: "length s1 \<le> length s" "length s2 \<le> length s"
    using leadingInt_length [OF li] leadingFraction_length [OF lf] by auto
  have "\<exists>t. length t \<le> length s \<and> takeWhile unit_char t \<noteq> [] \<and> rest = dropWhile unit_char t"
  proof (cases "take 1 s1 = ''.''")
    case True
    then show ?thesis using assms li lf le no_unit
      by (intro exI [of _ s2]) (auto simp: parse_component_def Let_def split: option.splits if_splits)
  next
    case False
    then show ?thesis using assms li le no_unit
      by (intro exI [of _ s1]) (auto simp: parse_component_def Let_def split: option.splits if_splits)
  qed
  then show ?thesis using unit by (meson less_le_trans)
qed

section \<open>Printed integers read back\<close>

lemma digit_value_char: "0 \<le> d \<Longrightarrow> d < 10 \<Longrightarrow> digit_value (digit_char d) = Some d"
  by (simp add: digit_value_def digit_char_def of_char_of take_bit_eq_mod Let_def)

lemma int_bits_bound: "0 \<le> n \<Longrightarrow> n < 2 ^ int_bits n"
proof (induction n rule: int_bits.induct)
  case (1 n)
  then show ?case
    by (cases "n = 0") (auto simp: int_bits.simps [of n])
qed

lemma parse_show_digits:
  "0 \<le> n \<Longrightarrow> n < 2 ^ fuel \<Longrightarrow> parse_digits 0 (show_digits (Suc fuel) n acc) = parse_digits n acc"
proof (induction fuel arbitrary: n acc)
  case 0
  then show ?case by (simp add: digit_value_char)
next
  case (Suc fuel)
  show ?case
  proof (cases "n < 10")
    case True
    then show ?thesis using Suc.prems by (simp add: digit_value_char)
  next
    case False
    have "n div 10 < 2 ^ fuel" using Suc.prems by simp
    then have "parse_digits 0 (show_digits (Suc fuel) (n div 10) (digit_char (n mod 10) # acc)) =
        parse_digits (n div 10) (digit_char (n mod 10) # acc)"
      using Suc by simp
    then show ?thesis using False by (simp add: digit_value_char)
  qed
qed

lemma show_digits_digits:
  "0 \<le> n \<Longrightarrow> list_all (\<lambda>c. digit_value c \<noteq> None) acc \<Longrightarrow>
   list_all (\<lambda>c. digit_value c \<noteq> None) (show_digits fuel n acc)"
  by (induction fuel arbitrary: n acc) (auto simp: digit_value_char)

lemma show_digits_not_Nil: "0 < fuel \<Longrightarrow> show_digits fuel n acc \<noteq> []"
proof (induction fuel arbitrary: n acc)
  case (Suc fuel)
  then show ?case by (cases fuel) auto
qed simp

definition all_digits :: "string \<Rightarrow> bool" where
  "all_digits s \<longleftrightarrow> s \<noteq> [] \<and> list_all (\<lambda>c. digit_value c \<noteq> None) s"

lemma show_int_digits: "0 \<le> n \<Longrightarrow> all_digits (show_int n)"
  unfolding show_int_def all_digits_def
  using show_digits_digits [of n "[]" "Suc (int_bits \<bar>n\<bar>)"]
    show_digits_not_Nil [of "Suc (int_bits \<bar>n\<bar>)" n "[]"]
  by (simp del: show_digits.simps)

lemma parse_digits_show_int: "0 \<le> n \<Longrightarrow> parse_digits 0 (show_int n) = Some n"
  using parse_show_digits [OF _ int_bits_bound, of n "[]"] by (simp add: show_int_def)

lemma of_char_int_nat: "(of_char c :: int) = int (of_char c)"
  by (cases c) (simp add: of_char_Char)

lemma space_not_digit: "is_space c \<Longrightarrow> digit_value c = None"
  unfolding is_space_def by (auto simp: digit_value_def Let_def of_char_int_nat)

lemma digit_not_sign:
  assumes "digit_value c \<noteq> None"
  shows "c \<noteq> CHR ''-''" "c \<noteq> CHR ''+''" "c \<noteq> CHR '':''" "\<not> is_space c"
proof -
  have "digit_value CHR ''-'' = None" "digit_value CHR ''+'' = None" "digit_value CHR '':'' = None"
    by (simp_all add: digit_value_def Let_def)
  then show "c \<noteq> CHR ''-''" "c \<noteq> CHR ''+''" "c \<noteq> CHR '':''" "\<not> is_space c"
    using assms space_not_digit by auto
qed

lemma parse_int64_show_int:
  assumes "0 \<le> n" "n < 2 ^ 63"
  shows "parse_int64 (show_int n) = Some n"
proof -
  obtain c cs where s: "show_int n = c # cs" "digit_value c \<noteq> None"
    using show_int_digits [OF assms(1)] by (cases "show_int n") (auto simp: all_digits_def)
  then have "c \<noteq> CHR ''-''" "c \<noteq> CHR ''+''" using digit_not_sign by auto
  then show ?thesis
    using parse_digits_show_int [OF assms(1)] assms s(1) by (simp add: parse_int64_def in_int64_def Let_def)
qed

end
