(* ===== verification/ScannerPolicy.thy ===== *)
theory ScannerPolicy
  imports GoText "HOL-Library.Product_Lexorder"
begin

text \<open>
  The promotion policy of scanner release candidates (\<open>internal/scannerpolicy/policy.go\<close>): the
  policy document and its normalization, the candidate with its evidence, gates, exceptions and
  approvals, the evaluation, and the digest that binds an approval to what was approved. The
  digest of the canonical JSON (\<open>encoding/json\<close> and SHA-256) is a parameter: it is \<open>None\<close> where
  \<open>json.Marshal\<close> fails. An error message that names the first offending key of a Go map, whose
  iteration order is random, is one constructor without the key.
\<close>

section \<open>Enumerations\<close>

datatype risk = RiskLow | RiskMedium | RiskHigh | RiskCritical | RiskOther string

datatype approval_mode = ApprovalManual | ApprovalPolicyGated | ApprovalOther string

datatype gate_status = GatePending | GatePassed | GateFailed | GateExcepted | GateOther string

datatype change_kind =
    ChangeRebuildOnly | ChangePatch | ChangeMinor | ChangeMajor | ChangeParser | ChangeLicense
  | ChangePlatform | ChangeSource | ChangeOther string

fun change_kind_string :: "change_kind \<Rightarrow> string" where
  "change_kind_string ChangeRebuildOnly = ''rebuild_only''"
| "change_kind_string ChangePatch = ''patch''"
| "change_kind_string ChangeMinor = ''minor''"
| "change_kind_string ChangeMajor = ''major''"
| "change_kind_string ChangeParser = ''parser''"
| "change_kind_string ChangeLicense = ''license''"
| "change_kind_string ChangePlatform = ''platform''"
| "change_kind_string ChangeSource = ''source''"
| "change_kind_string (ChangeOther x) = x"

fun validRisk :: "risk \<Rightarrow> bool" where
  "validRisk (RiskOther _) \<longleftrightarrow> False"
| "validRisk _ \<longleftrightarrow> True"

fun validChange :: "change_kind \<Rightarrow> bool" where
  "validChange (ChangeOther _) \<longleftrightarrow> False"
| "validChange _ \<longleftrightarrow> True"

section \<open>The policy document\<close>

record vulnerability_policy =
  vu_MaxCritical :: int
  vu_MaxHigh :: int
  vu_RequireDatabaseIdentity :: bool

record license_policy =
  li_Forbidden :: "string list"
  li_Allowed :: "string list"

record evidence_thresholds =
  th_MaxParserFailures :: int
  th_MaxExpectedFindingLoss :: int
  th_MaxDurationRegression :: float64
  th_MaxResourceRegression :: float64

record canary_rule =
  ca_Size :: int
  ca_MinimumSamples :: int
  ca_Observation :: duration
  ca_ObservationText :: string

record rollback_rule =
  rb_Automatic :: bool
  rb_MaxInfrastructureFailureRate :: float64
  rb_MaxDurationRegression :: float64
  rb_MaxParserFailures :: int

record retention_rule =
  rt_Artifacts :: duration
  rt_Logs :: duration
  rt_ArtifactsText :: string
  rt_LogsText :: string

record alert_duration =
  ad_Enabled :: bool
  ad_After :: duration
  ad_AfterText :: string

record alert_queue =
  aq_Enabled :: bool
  aq_MaxDepth :: int
  aq_MaxAge :: duration
  aq_MaxAgeText :: string

record alert_count =
  ac_Enabled :: bool
  ac_Count :: int
  ac_Window :: duration
  ac_WindowText :: string

record alerting_policy =
  al_MissedDiscovery :: alert_duration
  al_StaleStableRelease :: alert_duration
  al_QueueBacklog :: alert_queue
  al_LeaseChurn :: alert_count
  al_RepeatedGateFailure :: alert_count
  al_MirrorDrift :: bool
  al_RolloutFailure :: bool
  al_SignatureHealth :: bool

record policy =
  po_SchemaVersion :: string
  po_Revision :: int
  po_ApprovalMode :: approval_mode
  po_RequiredApprovals :: int
  po_SeparateCreator :: bool
  po_AutoPromoteRisks :: "risk list"
  po_AutoPromoteChanges :: "change_kind list"
  po_RequiredGates :: "string list"
  po_AllowExceptions :: "(string \<times> bool) list"
  po_ExceptionMaxAge :: duration
  po_ExceptionMaxAgeText :: string
  po_Vulnerability :: vulnerability_policy
  po_License :: license_policy
  po_Thresholds :: evidence_thresholds
  po_Canary :: canary_rule
  po_Rollback :: rollback_rule
  po_Retention :: retention_rule
  po_Destinations :: "string list"
  po_Alerts :: alerting_policy

text \<open>A \<open>map[string]bool\<close>: a missing key reads as false.\<close>

definition allows_exception :: "policy \<Rightarrow> string \<Rightarrow> bool" where
  "allows_exception p gate = (map_of (po_AllowExceptions p) gate = Some True)"

definition PolicySchema :: string where
  "PolicySchema = ''wolf.scanner-policy/v1''"

definition nonBypassableGates :: "string list" where
  "nonBypassableGates =
     [''lock'', ''artifacts'', ''platforms'', ''signature'', ''provenance'', ''parser'', ''source'',
      ''secret_scan'']"

definition ExceptionEligible :: "string \<Rightarrow> bool" where
  "ExceptionEligible gate \<longleftrightarrow> \<not> contains_elem nonBypassableGates gate"

definition day :: duration where
  "day = 24 * hour"

definition Default :: policy where
  "Default =
     \<lparr>po_SchemaVersion = PolicySchema, po_Revision = 1, po_ApprovalMode = ApprovalManual,
      po_RequiredApprovals = 1, po_SeparateCreator = True, po_AutoPromoteRisks = [RiskLow],
      po_AutoPromoteChanges = [ChangeRebuildOnly, ChangePatch],
      po_RequiredGates =
        [''lock'', ''artifacts'', ''platforms'', ''smoke'', ''parser'', ''vulnerability'',
         ''license'', ''sbom'', ''signature'', ''provenance'', ''source'', ''secret_scan'',
         ''compose'', ''kubernetes''],
      po_AllowExceptions = [(''vulnerability'', True), (''license'', True)],
      po_ExceptionMaxAge = 30 * day, po_ExceptionMaxAgeText = ''720h0m0s'',
      po_Vulnerability = \<lparr>vu_MaxCritical = 0, vu_MaxHigh = 0, vu_RequireDatabaseIdentity = True\<rparr>,
      po_License = \<lparr>li_Forbidden = [], li_Allowed = []\<rparr>,
      po_Thresholds = \<lparr>th_MaxParserFailures = 0, th_MaxExpectedFindingLoss = 0,
        th_MaxDurationRegression = to_f64 (20 / 100), th_MaxResourceRegression = to_f64 (20 / 100)\<rparr>,
      po_Canary = \<lparr>ca_Size = 1, ca_MinimumSamples = 10, ca_Observation = 15 * minute,
        ca_ObservationText = ''15m0s''\<rparr>,
      po_Rollback = \<lparr>rb_Automatic = True, rb_MaxInfrastructureFailureRate = to_f64 (2 / 100),
        rb_MaxDurationRegression = to_f64 (20 / 100), rb_MaxParserFailures = 0\<rparr>,
      po_Retention = \<lparr>rt_Artifacts = 90 * day, rt_Logs = 30 * day,
        rt_ArtifactsText = ''2160h0m0s'', rt_LogsText = ''720h0m0s''\<rparr>,
      po_Destinations = [],
      po_Alerts =
        \<lparr>al_MissedDiscovery = \<lparr>ad_Enabled = False, ad_After = 0, ad_AfterText = ''72h0m0s''\<rparr>,
         al_StaleStableRelease = \<lparr>ad_Enabled = False, ad_After = 0, ad_AfterText = ''168h0m0s''\<rparr>,
         al_QueueBacklog = \<lparr>aq_Enabled = False, aq_MaxDepth = 100, aq_MaxAge = 0,
           aq_MaxAgeText = ''1h0m0s''\<rparr>,
         al_LeaseChurn = \<lparr>ac_Enabled = False, ac_Count = 5, ac_Window = 0, ac_WindowText = ''15m0s''\<rparr>,
         al_RepeatedGateFailure = \<lparr>ac_Enabled = False, ac_Count = 3, ac_Window = 0,
           ac_WindowText = ''1h0m0s''\<rparr>,
         al_MirrorDrift = False, al_RolloutFailure = False, al_SignatureHealth = False\<rparr>\<rparr>"

section \<open>Normalization\<close>

datatype policy_error =
    UnsupportedSchema | BadRevision | BadApprovalMode | NegativeApprovals | NegativeVulnerability
  | BadThresholds | BadObservation | BadRollback | BadArtifactRetention | BadLogRetention
  | EmptyValue string | DuplicateValue string string | BadDestination | BadAlertBound string
  | IncompleteAlert string | BadExceptionAge | NoRequiredGates | EmptyGateName
  | DuplicateGate string | HardGateRule | BadAutoRisk | BadAutoChange
  | MissingCandidateIdentity | RevisionMismatch | BadRisk | BadChangeKind | MarshalFailed
  | UnnamedGate | DuplicateGateResult | UnnamedExceptionGate | MultipleExceptions | NegativeEvidence

definition validRatio :: "float64 \<Rightarrow> bool" where
  "validRatio v \<longleftrightarrow> f64_le (Fin 0) v \<and> f64_le v (Fin 1)"

text \<open>A text field that is filled when blank and must be a positive Go duration.\<close>

definition default_text :: "string \<Rightarrow> string \<Rightarrow> string" where
  "default_text text fallback = (if trim_space text = [] then fallback else text)"

definition positive_duration :: "policy_error \<Rightarrow> string \<Rightarrow> policy_error + duration" where
  "positive_duration e text =
     (case ParseDuration text of None \<Rightarrow> Inl e | Some d \<Rightarrow> if d \<le> 0 then Inl e else Inr d)"

definition require :: "bool \<Rightarrow> policy_error \<Rightarrow> policy_error option" where
  "require ok e = (if ok then None else Some e)"

definition guard :: "policy_error option \<Rightarrow> policy_error + unit" where
  "guard e = (case e of None \<Rightarrow> Inr () | Some x \<Rightarrow> Inl x)"

fun validate_unique :: "string \<Rightarrow> string list \<Rightarrow> string list \<Rightarrow> policy_error option" where
  "validate_unique field seen [] = None"
| "validate_unique field seen (v # vs) =
     (let value = trim_space v in
      if value = [] then Some (EmptyValue field)
      else if contains_elem seen value then Some (DuplicateValue field value)
      else validate_unique field (value # seen) vs)"

definition validateUniqueStrings :: "string \<Rightarrow> string list \<Rightarrow> policy_error option" where
  "validateUniqueStrings field values = validate_unique field [] values"

definition reference_char :: "char \<Rightarrow> bool" where
  "reference_char c \<longleftrightarrow>
     (let n = (of_char c :: int) in
      97 \<le> n \<and> n \<le> 122 \<or> 65 \<le> n \<and> n \<le> 90 \<or> 48 \<le> n \<and> n \<le> 57 \<or> contains_elem ''._/-'' c)"

definition ParseNotificationDestination :: "string \<Rightarrow> (string \<times> string) option" where
  "ParseNotificationDestination value =
     (if 160 < length value then None
      else case cut_char CHR '':'' (trim_space value) of
             None \<Rightarrow> None
           | Some (kind, reference) \<Rightarrow>
             if reference = [] then None
             else if kind \<noteq> ''webhook'' \<and> kind \<noteq> ''email'' \<and> kind \<noteq> ''siem'' then None
             else if 128 < length reference then None
             else if list_all reference_char reference then Some (kind, reference) else None)"

definition boundedAlertDuration :: "string \<Rightarrow> string \<Rightarrow> policy_error + duration" where
  "boundedAlertDuration name value =
     (case ParseDuration (trim_space value) of
        None \<Rightarrow> Inl (BadAlertBound name)
      | Some d \<Rightarrow> if d < minute \<or> 365 * day < d then Inl (BadAlertBound name) else Inr d)"

text \<open>The duration of an alert rule: its text when it is not blank, else what it was.\<close>

definition alert_text :: "string \<Rightarrow> string \<Rightarrow> duration \<Rightarrow> policy_error + duration" where
  "alert_text name text old = (if trim_space text = [] then Inr old else boundedAlertDuration name text)"

definition normalizeAlertDuration :: "string \<Rightarrow> alert_duration \<Rightarrow> policy_error + alert_duration" where
  "normalizeAlertDuration name rule =
     and_then (alert_text (name @ ''.after'') (ad_AfterText rule) (ad_After rule)) (\<lambda>d.
     if ad_Enabled rule \<and> d = 0 then Inl (IncompleteAlert name) else Inr (rule\<lparr>ad_After := d\<rparr>))"

definition normalizeAlertCount :: "string \<Rightarrow> alert_count \<Rightarrow> policy_error + alert_count" where
  "normalizeAlertCount name rule =
     (if ac_Count rule < 0 \<or> 1000000 < ac_Count rule then Inl (BadAlertBound (name @ ''.count''))
      else and_then (alert_text (name @ ''.window'') (ac_WindowText rule) (ac_Window rule)) (\<lambda>d.
      if ac_Enabled rule \<and> (ac_Count rule = 0 \<or> d = 0) then Inl (IncompleteAlert name)
      else Inr (rule\<lparr>ac_Window := d\<rparr>)))"

definition normalizeQueue :: "alert_queue \<Rightarrow> policy_error + alert_queue" where
  "normalizeQueue q =
     (if aq_MaxDepth q < 0 \<or> 1000000 < aq_MaxDepth q
      then Inl (BadAlertBound ''alerts.queue_backlog.max_depth'')
      else and_then (alert_text ''alerts.queue_backlog.max_age'' (aq_MaxAgeText q) (aq_MaxAge q)) (\<lambda>d.
      if aq_Enabled q \<and> aq_MaxDepth q = 0 \<and> d = 0 then Inl (IncompleteAlert ''alerts.queue_backlog'')
      else Inr (q\<lparr>aq_MaxAge := d\<rparr>)))"

definition normalizeAlerts :: "alerting_policy \<Rightarrow> policy_error + alerting_policy" where
  "normalizeAlerts a =
     and_then (normalizeAlertDuration ''alerts.missed_discovery'' (al_MissedDiscovery a)) (\<lambda>missed.
     and_then (normalizeAlertDuration ''alerts.stale_stable_release'' (al_StaleStableRelease a)) (\<lambda>stale.
     and_then (normalizeQueue (al_QueueBacklog a)) (\<lambda>queue.
     and_then (normalizeAlertCount ''alerts.lease_churn'' (al_LeaseChurn a)) (\<lambda>churn.
     and_then (normalizeAlertCount ''alerts.repeated_gate_failure'' (al_RepeatedGateFailure a)) (\<lambda>failures.
     Inr (a\<lparr>al_MissedDiscovery := missed, al_StaleStableRelease := stale, al_QueueBacklog := queue,
            al_LeaseChurn := churn, al_RepeatedGateFailure := failures\<rparr>))))))"

fun validate_gate_names :: "string list \<Rightarrow> string list \<Rightarrow> policy_error option" where
  "validate_gate_names seen [] = None"
| "validate_gate_names seen (g # gs) =
     (let gate = trim_space g in
      if gate = [] then Some EmptyGateName
      else if contains_elem seen gate then Some (DuplicateGate gate)
      else validate_gate_names (gate # seen) gs)"

fun auto_risk_ok :: "risk \<Rightarrow> bool" where
  "auto_risk_ok RiskHigh \<longleftrightarrow> False"
| "auto_risk_ok RiskCritical \<longleftrightarrow> False"
| "auto_risk_ok r \<longleftrightarrow> validRisk r"

fun auto_change_ok :: "change_kind \<Rightarrow> bool" where
  "auto_change_ok ChangeMajor \<longleftrightarrow> False"
| "auto_change_ok ChangeParser \<longleftrightarrow> False"
| "auto_change_ok ChangeLicense \<longleftrightarrow> False"
| "auto_change_ok ChangePlatform \<longleftrightarrow> False"
| "auto_change_ok ChangeSource \<longleftrightarrow> False"
| "auto_change_ok c \<longleftrightarrow> validChange c"

text \<open>The hard gates must be required (by their trimmed names) and must not allow exceptions.\<close>

definition hard_gates_ok :: "policy \<Rightarrow> bool" where
  "hard_gates_ok p \<longleftrightarrow>
     list_all (\<lambda>g. contains_elem (map trim_space (po_RequiredGates p)) g \<and> \<not> allows_exception p g)
       nonBypassableGates"

definition normalize_canary :: "canary_rule \<Rightarrow> policy_error + canary_rule" where
  "normalize_canary c =
     (let text = default_text (ca_ObservationText c) ''15m0s'' in
      and_then (positive_duration BadObservation text) (\<lambda>d.
      Inr (c\<lparr>ca_Size := (if ca_Size c \<le> 0 then 1 else ca_Size c),
             ca_MinimumSamples := (if ca_MinimumSamples c \<le> 0 then 10 else ca_MinimumSamples c),
             ca_ObservationText := text, ca_Observation := d\<rparr>)))"

definition normalize_retention :: "retention_rule \<Rightarrow> policy_error + retention_rule" where
  "normalize_retention r =
     (let artifacts = default_text (rt_ArtifactsText r) ''2160h0m0s'';
          logs = default_text (rt_LogsText r) ''720h0m0s'' in
      and_then (positive_duration BadArtifactRetention artifacts) (\<lambda>a.
      and_then (positive_duration BadLogRetention logs) (\<lambda>l.
      Inr (r\<lparr>rt_ArtifactsText := artifacts, rt_LogsText := logs, rt_Artifacts := a, rt_Logs := l\<rparr>))))"

definition header_checks :: "policy \<Rightarrow> policy_error option" where
  "header_checks p = first_error
     [require (po_SchemaVersion p = PolicySchema) UnsupportedSchema,
      require (0 < po_Revision p) BadRevision,
      require (po_ApprovalMode p = ApprovalManual \<or> po_ApprovalMode p = ApprovalPolicyGated) BadApprovalMode,
      require (0 \<le> po_RequiredApprovals p) NegativeApprovals,
      require (0 \<le> vu_MaxCritical (po_Vulnerability p) \<and> 0 \<le> vu_MaxHigh (po_Vulnerability p))
        NegativeVulnerability,
      require (0 \<le> th_MaxParserFailures (po_Thresholds p) \<and>
               0 \<le> th_MaxExpectedFindingLoss (po_Thresholds p) \<and>
               validRatio (th_MaxDurationRegression (po_Thresholds p)) \<and>
               validRatio (th_MaxResourceRegression (po_Thresholds p))) BadThresholds]"

definition rollback_checks :: "policy \<Rightarrow> policy_error option" where
  "rollback_checks p =
     require (0 \<le> rb_MaxParserFailures (po_Rollback p) \<and>
              validRatio (rb_MaxInfrastructureFailureRate (po_Rollback p)) \<and>
              validRatio (rb_MaxDurationRegression (po_Rollback p))) BadRollback"

definition list_checks :: "policy \<Rightarrow> policy_error option" where
  "list_checks p = first_error
     [validateUniqueStrings ''license.forbidden'' (li_Forbidden (po_License p)),
      validateUniqueStrings ''license.allowed'' (li_Allowed (po_License p)),
      validateUniqueStrings ''notifications.destinations'' (po_Destinations p),
      require (list_all (\<lambda>d. ParseNotificationDestination d \<noteq> None) (po_Destinations p)) BadDestination]"

definition gate_checks :: "policy \<Rightarrow> policy_error option" where
  "gate_checks p = first_error
     [require (po_RequiredGates p \<noteq> []) NoRequiredGates,
      validate_gate_names [] (po_RequiredGates p),
      require (hard_gates_ok p) HardGateRule,
      require (list_all auto_risk_ok (po_AutoPromoteRisks p)) BadAutoRisk,
      require (list_all auto_change_ok (po_AutoPromoteChanges p)) BadAutoChange]"

definition Normalize :: "policy \<Rightarrow> policy_error + policy" where
  "Normalize p =
     and_then (guard (header_checks p)) (\<lambda>_.
     and_then (normalize_canary (po_Canary p)) (\<lambda>canary.
     and_then (guard (rollback_checks p)) (\<lambda>_.
     and_then (normalize_retention (po_Retention p)) (\<lambda>retention.
     and_then (guard (list_checks p)) (\<lambda>_.
     and_then (normalizeAlerts (po_Alerts p)) (\<lambda>alerts.
     let age_text = default_text (po_ExceptionMaxAgeText p) ''720h0m0s'' in
     and_then (positive_duration BadExceptionAge age_text) (\<lambda>age.
     and_then (guard (gate_checks p)) (\<lambda>_.
     Inr (p\<lparr>po_Canary := canary, po_Retention := retention, po_Alerts := alerts,
            po_ExceptionMaxAgeText := age_text, po_ExceptionMaxAge := age\<rparr>)))))))))"

section \<open>Candidates\<close>

record gate =
  gt_Name :: string
  gt_Status :: gate_status
  gt_EvidenceDigest :: string
  gt_Summary :: string

record change =
  cg_Component :: string
  cg_Kind :: change_kind
  cg_From :: string
  cg_To :: string

record gate_exception =
  ex_ID :: string
  ex_Gate :: string
  ex_OwnerID :: string
  ex_Reason :: string
  ex_CompensatingControl :: string
  ex_ApprovedBy :: string
  ex_ExpiresAt :: go_time

record approval =
  ap_ActorID :: string
  ap_LockDigest :: string
  ap_PolicyDecisionDigest :: string
  ap_CreatedAt :: go_time

record evidence =
  ev_Critical :: int
  ev_High :: int
  ev_DatabaseIdentity :: string
  ev_Detected :: "string list"
  ev_Unknown :: int
  ev_ParserFailures :: int
  ev_ExpectedLosses :: int
  ev_DurationDelta :: float64
  ev_ResourceDelta :: float64

record candidate =
  cn_ID :: string
  cn_DefinitionCommit :: string
  cn_LockDigest :: string
  cn_PolicyID :: string
  cn_PolicyRevision :: int
  cn_CreatorID :: string
  cn_Risk :: risk
  cn_Changes :: "change list"
  cn_Gates :: "gate list"
  cn_Exceptions :: "gate_exception list"
  cn_Approvals :: "approval list"
  cn_MaintenanceWindowOpen :: bool
  cn_Evidence :: "evidence option"

datatype outcome = OutcomeNone | OutcomeBlocked | OutcomeAwaitingApproval | OutcomeApproved | OutcomeAutoApproved

record decision =
  de_CandidateID :: string
  de_LockDigest :: string
  de_PolicyRevision :: int
  de_PolicyDecisionDigest :: string
  de_Outcome :: outcome
  de_AutoPromotion :: bool
  de_RequiredApprovals :: int
  de_ValidApprovals :: int
  de_BlockingReasons :: "string list"
  de_Advisories :: "string list"

section \<open>What an approval is bound to\<close>

record binding =
  bi_CandidateID :: string
  bi_DefinitionCommit :: string
  bi_LockDigest :: string
  bi_PolicyID :: string
  bi_PolicyRevision :: int
  bi_ApprovalMode :: approval_mode
  bi_RequiredApprovals :: int
  bi_SeparateCreator :: bool
  bi_Risk :: risk
  bi_Changes :: "change list"
  bi_Gates :: "gate list"
  bi_Exceptions :: "gate_exception list"
  bi_MaintenanceWindowOpen :: bool
  bi_Evidence :: "evidence option"

text \<open>\<open>sort.Slice\<close> by the keys the code compares. It is not stable in Go; with equal keys the model
  keeps the order of the input, and the properties about order ask for distinct keys.\<close>

definition approval_binding :: "candidate \<Rightarrow> policy \<Rightarrow> binding" where
  "approval_binding c p =
     \<lparr>bi_CandidateID = cn_ID c, bi_DefinitionCommit = cn_DefinitionCommit c,
      bi_LockDigest = cn_LockDigest c, bi_PolicyID = cn_PolicyID c,
      bi_PolicyRevision = po_Revision p, bi_ApprovalMode = po_ApprovalMode p,
      bi_RequiredApprovals = po_RequiredApprovals p, bi_SeparateCreator = po_SeparateCreator p,
      bi_Risk = cn_Risk c,
      bi_Changes = sort_key (\<lambda>x. (cg_Component x, change_kind_string (cg_Kind x))) (cn_Changes c),
      bi_Gates = sort_key gt_Name (cn_Gates c),
      bi_Exceptions = sort_key (\<lambda>x. (ex_Gate x, ex_ID x)) (cn_Exceptions c),
      bi_MaintenanceWindowOpen = cn_MaintenanceWindowOpen c, bi_Evidence = cn_Evidence c\<rparr>"

type_synonym digest_fn = "binding \<Rightarrow> string option"

definition ApprovalBindingDigest :: "digest_fn \<Rightarrow> candidate \<Rightarrow> policy \<Rightarrow> policy_error + string" where
  "ApprovalBindingDigest digest c policy =
     and_then (Normalize policy) (\<lambda>p.
     case digest (approval_binding c p) of None \<Rightarrow> Inl MarshalFailed | Some d \<Rightarrow> Inr d)"

section \<open>Evidence and exceptions\<close>

definition validateEvidence :: "evidence \<Rightarrow> policy_error option" where
  "validateEvidence e =
     (if ev_Critical e < 0 \<or> ev_High e < 0 \<or> ev_Unknown e < 0 \<or> ev_ParserFailures e < 0 \<or>
         ev_ExpectedLosses e < 0 \<or> f64_less (ev_DurationDelta e) (Fin 0) \<or>
         f64_less (ev_ResourceDelta e) (Fin 0)
      then Some NegativeEvidence
      else validateUniqueStrings ''evidence.licenses.detected'' (ev_Detected e))"

definition gate_named :: "gate list \<Rightarrow> string \<Rightarrow> gate option" where
  "gate_named gates name = first_by gt_Name gates name"

text \<open>\<open>gates[name].Status == GateExcepted\<close>: a missing gate has the empty status.\<close>

definition is_excepted :: "gate list \<Rightarrow> string \<Rightarrow> bool" where
  "is_excepted gates name =
     (case gate_named gates name of None \<Rightarrow> False | Some g \<Rightarrow> gt_Status g = GateExcepted)"

definition when_reason :: "bool \<Rightarrow> string \<Rightarrow> string list" where
  "when_reason c r = (if c then [r] else [])"

definition license_key :: "string \<Rightarrow> string" where
  "license_key value = to_lower (trim_space value)"

definition evidenceBlockingReasons :: "evidence \<Rightarrow> policy \<Rightarrow> gate list \<Rightarrow> string list" where
  "evidenceBlockingReasons e p gates =
     (let vu = po_Vulnerability p; th = po_Thresholds p;
          forbidden = map license_key (li_Forbidden (po_License p))
      in sort (
        when_reason (\<not> is_excepted gates ''vulnerability'' \<and> vu_MaxCritical vu < ev_Critical e)
          (''critical vulnerability count '' @ show_int (ev_Critical e) @ '' exceeds policy maximum '' @
           show_int (vu_MaxCritical vu)) @
        when_reason (\<not> is_excepted gates ''vulnerability'' \<and> vu_MaxHigh vu < ev_High e)
          (''high vulnerability count '' @ show_int (ev_High e) @ '' exceeds policy maximum '' @
           show_int (vu_MaxHigh vu)) @
        when_reason (vu_RequireDatabaseIdentity vu \<and> trim_space (ev_DatabaseIdentity e) = [])
          ''vulnerability database identity is missing'' @
        when_reason (th_MaxParserFailures th < ev_ParserFailures e)
          (''parser failures '' @ show_int (ev_ParserFailures e) @ '' exceed policy maximum '' @
           show_int (th_MaxParserFailures th)) @
        when_reason (th_MaxExpectedFindingLoss th < ev_ExpectedLosses e)
          (''expected finding losses '' @ show_int (ev_ExpectedLosses e) @ '' exceed policy maximum '' @
           show_int (th_MaxExpectedFindingLoss th)) @
        when_reason (f64_less (th_MaxDurationRegression th) (ev_DurationDelta e))
          (''duration regression '' @ show_fixed4 (ev_DurationDelta e) @ '' exceeds policy maximum '' @
           show_fixed4 (th_MaxDurationRegression th)) @
        when_reason (f64_less (th_MaxResourceRegression th) (ev_ResourceDelta e))
          (''resource regression '' @ show_fixed4 (ev_ResourceDelta e) @ '' exceeds policy maximum '' @
           show_fixed4 (th_MaxResourceRegression th)) @
        map (\<lambda>v. ''forbidden license detected: '' @ v)
          (filter (\<lambda>v. contains_elem forbidden (license_key v)) (ev_Detected e)) @
        when_reason (li_Allowed (po_License p) \<noteq> [] \<and> 0 < ev_Unknown e \<and> \<not> is_excepted gates ''license'')
          (''unknown license count '' @ show_int (ev_Unknown e) @ '' requires an exception'')))"

text \<open>The reason an exception does not hold, or \<open>None\<close> for the empty reason.\<close>

definition validateException :: "gate_exception \<Rightarrow> go_time \<Rightarrow> duration \<Rightarrow> string option" where
  "validateException x now maxAge =
     (if ex_ID x = [] \<or> ex_OwnerID x = [] \<or> ex_ApprovedBy x = [] \<or> trim_space (ex_Reason x) = [] \<or>
         trim_space (ex_CompensatingControl x) = []
      then Some (''exception for gate '' @ ex_Gate x @ '' is incomplete'')
      else if is_zero_time (ex_ExpiresAt x) \<or> \<not> now < ex_ExpiresAt x
      then Some (''exception for gate '' @ ex_Gate x @ '' is expired'')
      else if now + maxAge < ex_ExpiresAt x
      then Some (''exception for gate '' @ ex_Gate x @ '' exceeds maximum lifetime'')
      else None)"

section \<open>Evaluation\<close>

text \<open>One pass of the loop over the required gates: the reason that gate blocks, if it does.\<close>

definition gate_reason :: "policy \<Rightarrow> go_time \<Rightarrow> gate list \<Rightarrow> gate_exception list \<Rightarrow> string \<Rightarrow> string option" where
  "gate_reason p now gates exceptions required =
     (case gate_named gates required of
        None \<Rightarrow> Some (''required gate '' @ required @ '' is missing'')
      | Some g \<Rightarrow>
        (case gt_Status g of
           GatePassed \<Rightarrow>
             if gt_EvidenceDigest g = [] then Some (''required gate '' @ required @ '' has no evidence digest'')
             else None
         | GateExcepted \<Rightarrow>
             if contains_elem nonBypassableGates required
             then Some (''non-bypassable gate '' @ required @ '' cannot be excepted'')
             else if \<not> allows_exception p required
             then Some (''gate '' @ required @ '' does not allow exceptions'')
             else (case first_by ex_Gate exceptions required of
                     None \<Rightarrow> Some (''gate '' @ required @ '' is excepted without an exception record'')
                   | Some x \<Rightarrow> validateException x now (po_ExceptionMaxAge p))
         | GatePending \<Rightarrow> Some (''required gate '' @ required @ '' is pending'')
         | GateFailed \<Rightarrow> Some (''required gate '' @ required @ '' failed'')
         | GateOther _ \<Rightarrow> Some (''required gate '' @ required @ '' has invalid status'')))"

fun catMaybes :: "'a option list \<Rightarrow> 'a list" where
  "catMaybes [] = []"
| "catMaybes (None # xs) = catMaybes xs"
| "catMaybes (Some x # xs) = x # catMaybes xs"

text \<open>The loop that fills a map by name and refuses an empty or a repeated name.\<close>

fun keyed_error :: "policy_error \<Rightarrow> policy_error \<Rightarrow> string list \<Rightarrow> string list \<Rightarrow> policy_error option" where
  "keyed_error unnamed dup seen [] = None"
| "keyed_error unnamed dup seen (k # ks) =
     (if k = [] then Some unnamed
      else if contains_elem seen k then Some dup
      else keyed_error unnamed dup (k # seen) ks)"

definition gates_error :: "gate list \<Rightarrow> policy_error option" where
  "gates_error gates = keyed_error UnnamedGate DuplicateGateResult [] (map gt_Name gates)"

definition exceptions_error :: "gate_exception list \<Rightarrow> policy_error option" where
  "exceptions_error xs = keyed_error UnnamedExceptionGate MultipleExceptions [] (map ex_Gate xs)"

definition candidate_checks :: "candidate \<Rightarrow> policy \<Rightarrow> policy_error option" where
  "candidate_checks c p = first_error
     [require (cn_ID c \<noteq> [] \<and> cn_LockDigest c \<noteq> []) MissingCandidateIdentity,
      require (cn_PolicyRevision c = po_Revision p) RevisionMismatch,
      require (validRisk (cn_Risk c)) BadRisk,
      require (list_all (\<lambda>x. validChange (cg_Kind x)) (cn_Changes c)) BadChangeKind]"

definition counted_actors :: "candidate \<Rightarrow> policy \<Rightarrow> string \<Rightarrow> string list" where
  "counted_actors c p digest =
     remdups (map ap_ActorID (filter (\<lambda>a.
       ap_ActorID a \<noteq> [] \<and> ap_LockDigest a = cn_LockDigest c \<and> ap_PolicyDecisionDigest a = digest \<and>
       \<not> (po_SeparateCreator p \<and> ap_ActorID a = cn_CreatorID c)) (cn_Approvals c)))"

definition blocking_reasons :: "candidate \<Rightarrow> policy \<Rightarrow> go_time \<Rightarrow> string list" where
  "blocking_reasons c p now =
     (case cn_Evidence c of None \<Rightarrow> [] | Some e \<Rightarrow> evidenceBlockingReasons e p (cn_Gates c)) @
     catMaybes (map (gate_reason p now (cn_Gates c) (cn_Exceptions c)) (po_RequiredGates p))"

definition has_exception :: "candidate \<Rightarrow> policy \<Rightarrow> bool" where
  "has_exception c p \<longleftrightarrow> list_ex (is_excepted (cn_Gates c)) (po_RequiredGates p)"

definition auto_eligible :: "candidate \<Rightarrow> policy \<Rightarrow> bool" where
  "auto_eligible c p \<longleftrightarrow>
     po_ApprovalMode p = ApprovalPolicyGated \<and> cn_MaintenanceWindowOpen c \<and> \<not> has_exception c p \<and>
     contains_elem (po_AutoPromoteRisks p) (cn_Risk c) \<and>
     list_all (\<lambda>x. contains_elem (po_AutoPromoteChanges p) (cg_Kind x)) (cn_Changes c)"

definition Evaluate :: "digest_fn \<Rightarrow> candidate \<Rightarrow> policy \<Rightarrow> go_time \<Rightarrow> policy_error + decision" where
  "Evaluate digest c policy now =
     and_then (Normalize policy) (\<lambda>p.
     and_then (guard (candidate_checks c p)) (\<lambda>_.
     and_then (ApprovalBindingDigest digest c p) (\<lambda>bound.
     and_then (guard (gates_error (cn_Gates c))) (\<lambda>_.
     and_then (guard (exceptions_error (cn_Exceptions c))) (\<lambda>_.
     and_then (guard (case cn_Evidence c of None \<Rightarrow> None | Some e \<Rightarrow> validateEvidence e)) (\<lambda>_.
     let reasons = blocking_reasons c p now;
         base = \<lparr>de_CandidateID = cn_ID c, de_LockDigest = cn_LockDigest c,
                 de_PolicyRevision = po_Revision p, de_PolicyDecisionDigest = bound,
                 de_Outcome = OutcomeNone, de_AutoPromotion = False,
                 de_RequiredApprovals = po_RequiredApprovals p, de_ValidApprovals = 0,
                 de_BlockingReasons = [], de_Advisories = []\<rparr>;
         advised = base\<lparr>de_Advisories :=
                     when_reason (\<not> cn_MaintenanceWindowOpen c) ''maintenance window is closed''\<rparr>;
         valid = int (length (counted_actors c p bound))
     in if reasons \<noteq> [] then Inr (base\<lparr>de_BlockingReasons := sort reasons, de_Outcome := OutcomeBlocked\<rparr>)
        else if auto_eligible c p
        then Inr (advised\<lparr>de_Outcome := OutcomeAutoApproved, de_AutoPromotion := True,
                         de_RequiredApprovals := 0\<rparr>)
        else Inr (advised\<lparr>de_ValidApprovals := valid,
                         de_Outcome := (if po_RequiredApprovals p \<le> valid then OutcomeApproved
                                        else OutcomeAwaitingApproval)\<rparr>)))))))"

text \<open>\<open>Decision.Digest\<close> hashes the decision with its reasons and advisories sorted.\<close>

definition canonical_decision :: "decision \<Rightarrow> decision" where
  "canonical_decision d =
     d\<lparr>de_BlockingReasons := sort (de_BlockingReasons d), de_Advisories := sort (de_Advisories d)\<rparr>"

definition Decision_Digest :: "(decision \<Rightarrow> string option) \<Rightarrow> decision \<Rightarrow> policy_error + string" where
  "Decision_Digest digest d =
     (case digest (canonical_decision d) of None \<Rightarrow> Inl MarshalFailed | Some x \<Rightarrow> Inr x)"

section \<open>Normalization is a fixed point\<close>

lemma require_None [simp]: "require ok e = None \<longleftrightarrow> ok"
  by (simp add: require_def)

lemma guard_Inr [simp]: "guard e = Inr u \<longleftrightarrow> e = None"
  by (cases e) (auto simp: guard_def)

lemma guard_None [simp]: "guard None = Inr ()"
  by (simp add: guard_def)

lemma default_text_idem: "trim_space fb \<noteq> [] \<Longrightarrow> default_text (default_text x fb) fb = default_text x fb"
  by (simp add: default_text_def)

lemma default_texts:
  "trim_space ''15m0s'' \<noteq> []" "trim_space ''2160h0m0s'' \<noteq> []" "trim_space ''720h0m0s'' \<noteq> []"
  by code_simp+

lemma normalize_canary_idem: "normalize_canary c = Inr c' \<Longrightarrow> normalize_canary c' = Inr c'"
  by (auto simp: normalize_canary_def Let_def and_then_Inr default_text_idem default_texts)

lemma normalize_retention_idem: "normalize_retention r = Inr r' \<Longrightarrow> normalize_retention r' = Inr r'"
  by (auto simp: normalize_retention_def Let_def and_then_Inr default_text_idem default_texts)

lemma alert_text_idem: "alert_text n s d = Inr d' \<Longrightarrow> alert_text n s d' = Inr d'"
  by (simp add: alert_text_def split: if_splits)

lemma if_Inl_Inr: "(if c then Inl e else x) = Inr y \<longleftrightarrow> \<not> c \<and> x = Inr y"
  by simp

lemma normalizeAlertDuration_idem:
  assumes "normalizeAlertDuration n r = Inr r'"
  shows "normalizeAlertDuration n r' = Inr r'"
proof -
  obtain d where "alert_text (n @ ''.after'') (ad_AfterText r) (ad_After r) = Inr d"
    "\<not> (ad_Enabled r \<and> d = 0)" "r' = r\<lparr>ad_After := d\<rparr>"
    using assms unfolding normalizeAlertDuration_def and_then_Inr if_Inl_Inr sum.inject by blast
  then show ?thesis
    using alert_text_idem unfolding normalizeAlertDuration_def and_then_Inr if_Inl_Inr by force
qed

lemma normalizeAlertCount_idem:
  assumes "normalizeAlertCount n r = Inr r'"
  shows "normalizeAlertCount n r' = Inr r'"
proof -
  obtain d where "\<not> (ac_Count r < 0 \<or> 1000000 < ac_Count r)"
    "alert_text (n @ ''.window'') (ac_WindowText r) (ac_Window r) = Inr d"
    "\<not> (ac_Enabled r \<and> (ac_Count r = 0 \<or> d = 0))" "r' = r\<lparr>ac_Window := d\<rparr>"
    using assms unfolding normalizeAlertCount_def and_then_Inr if_Inl_Inr sum.inject by blast
  then show ?thesis
    using alert_text_idem unfolding normalizeAlertCount_def and_then_Inr if_Inl_Inr by force
qed

lemma normalizeQueue_idem:
  assumes "normalizeQueue q = Inr q'"
  shows "normalizeQueue q' = Inr q'"
proof -
  obtain d where "\<not> (aq_MaxDepth q < 0 \<or> 1000000 < aq_MaxDepth q)"
    "alert_text ''alerts.queue_backlog.max_age'' (aq_MaxAgeText q) (aq_MaxAge q) = Inr d"
    "\<not> (aq_Enabled q \<and> aq_MaxDepth q = 0 \<and> d = 0)" "q' = q\<lparr>aq_MaxAge := d\<rparr>"
    using assms unfolding normalizeQueue_def and_then_Inr if_Inl_Inr sum.inject by blast
  then show ?thesis
    using alert_text_idem unfolding normalizeQueue_def and_then_Inr if_Inl_Inr by force
qed

lemma normalizeAlerts_idem:
  assumes "normalizeAlerts a = Inr a'"
  shows "normalizeAlerts a' = Inr a'"
proof -
  obtain m s q l f where parts:
    "normalizeAlertDuration ''alerts.missed_discovery'' (al_MissedDiscovery a) = Inr m"
    "normalizeAlertDuration ''alerts.stale_stable_release'' (al_StaleStableRelease a) = Inr s"
    "normalizeQueue (al_QueueBacklog a) = Inr q"
    "normalizeAlertCount ''alerts.lease_churn'' (al_LeaseChurn a) = Inr l"
    "normalizeAlertCount ''alerts.repeated_gate_failure'' (al_RepeatedGateFailure a) = Inr f"
    and a': "a' = a\<lparr>al_MissedDiscovery := m, al_StaleStableRelease := s, al_QueueBacklog := q,
            al_LeaseChurn := l, al_RepeatedGateFailure := f\<rparr>"
    using assms unfolding normalizeAlerts_def and_then_Inr by blast
  show ?thesis
    unfolding a' normalizeAlerts_def
    using parts(1,2) [THEN normalizeAlertDuration_idem] parts(3) [THEN normalizeQueue_idem]
      parts(4,5) [THEN normalizeAlertCount_idem]
    by simp
qed

lemma NormalizeE:
  assumes "Normalize p = Inr q"
  obtains canary retention alerts age_text age where
    "q = p\<lparr>po_Canary := canary, po_Retention := retention, po_Alerts := alerts,
           po_ExceptionMaxAgeText := age_text, po_ExceptionMaxAge := age\<rparr>"
    "header_checks p = None" "rollback_checks p = None" "list_checks p = None" "gate_checks p = None"
    "normalize_canary (po_Canary p) = Inr canary" "normalize_retention (po_Retention p) = Inr retention"
    "normalizeAlerts (po_Alerts p) = Inr alerts"
    "age_text = default_text (po_ExceptionMaxAgeText p) ''720h0m0s''"
    "positive_duration BadExceptionAge age_text = Inr age"
  using assms by (auto simp: Normalize_def and_then_Inr Let_def)

lemma check_frames:
  "header_checks (p\<lparr>po_Canary := a, po_Retention := b, po_Alerts := c, po_ExceptionMaxAgeText := d,
     po_ExceptionMaxAge := e\<rparr>) = header_checks p"
  "rollback_checks (p\<lparr>po_Canary := a, po_Retention := b, po_Alerts := c, po_ExceptionMaxAgeText := d,
     po_ExceptionMaxAge := e\<rparr>) = rollback_checks p"
  "list_checks (p\<lparr>po_Canary := a, po_Retention := b, po_Alerts := c, po_ExceptionMaxAgeText := d,
     po_ExceptionMaxAge := e\<rparr>) = list_checks p"
  "gate_checks (p\<lparr>po_Canary := a, po_Retention := b, po_Alerts := c, po_ExceptionMaxAgeText := d,
     po_ExceptionMaxAge := e\<rparr>) = gate_checks p"
  by (simp_all add: header_checks_def rollback_checks_def list_checks_def gate_checks_def
      hard_gates_ok_def allows_exception_def)

lemma Normalize_idem:
  assumes "Normalize p = Inr q"
  shows "Normalize q = Inr q"
  using assms
proof (rule NormalizeE)
  fix canary retention alerts age_text age
  assume q: "q = p\<lparr>po_Canary := canary, po_Retention := retention, po_Alerts := alerts,
           po_ExceptionMaxAgeText := age_text, po_ExceptionMaxAge := age\<rparr>"
    and checks: "header_checks p = None" "rollback_checks p = None" "list_checks p = None" "gate_checks p = None"
    and parts: "normalize_canary (po_Canary p) = Inr canary"
      "normalize_retention (po_Retention p) = Inr retention" "normalizeAlerts (po_Alerts p) = Inr alerts"
    and age: "age_text = default_text (po_ExceptionMaxAgeText p) ''720h0m0s''"
      "positive_duration BadExceptionAge age_text = Inr age"
  have "default_text age_text ''720h0m0s'' = age_text"
    unfolding age(1) by (rule default_text_idem) (rule default_texts)
  then show ?thesis
    unfolding q Normalize_def check_frames
    using checks normalize_canary_idem [OF parts(1)] normalize_retention_idem [OF parts(2)]
      normalizeAlerts_idem [OF parts(3)] age(2)
    by simp
qed

section \<open>What the loops check\<close>

lemma keyed_error_None:
  "keyed_error e d seen ks = None \<longleftrightarrow> [] \<notin> set ks \<and> distinct ks \<and> set ks \<inter> set seen = {}"
  by (induction ks arbitrary: seen) auto

lemma validate_gate_names_None:
  "validate_gate_names seen gs = None \<longleftrightarrow>
     [] \<notin> trim_space ` set gs \<and> distinct (map trim_space gs) \<and> trim_space ` set gs \<inter> set seen = {}"
  by (induction gs arbitrary: seen) (auto simp: Let_def)

lemma catMaybes_Nil: "catMaybes xs = [] \<longleftrightarrow> set xs \<subseteq> {None}"
  by (induction xs rule: catMaybes.induct) auto

lemma Evaluate_stages:
  assumes "Evaluate digest c policy now = Inr d"
  obtains p bound where "Normalize policy = Inr p" "Normalize p = Inr p"
    "candidate_checks c p = None" "digest (approval_binding c p) = Some bound"
    "gates_error (cn_Gates c) = None" "exceptions_error (cn_Exceptions c) = None"
    "de_PolicyDecisionDigest d = bound"
    "de_Outcome d = (if blocking_reasons c p now \<noteq> [] then OutcomeBlocked
        else if auto_eligible c p then OutcomeAutoApproved
        else if po_RequiredApprovals p \<le> int (length (counted_actors c p bound)) then OutcomeApproved
        else OutcomeAwaitingApproval)"
    "de_AutoPromotion d \<longleftrightarrow> blocking_reasons c p now = [] \<and> auto_eligible c p"
    "de_Outcome d \<in> {OutcomeApproved, OutcomeAwaitingApproval} \<Longrightarrow>
       de_ValidApprovals d = int (length (counted_actors c p bound)) \<and>
       de_RequiredApprovals d = po_RequiredApprovals p"
proof -
  from assms obtain p where p: "Normalize policy = Inr p" by (auto simp: Evaluate_def and_then_Inr)
  note pp = Normalize_idem [OF p]
  show thesis
    by (rule that [OF p pp])
      (use assms p pp in \<open>auto simp: Evaluate_def and_then_Inr Let_def ApprovalBindingDigest_def
         split: option.splits if_splits\<close>)
qed

section \<open>Properties of the policy\<close>

lemma unblocked_reasons:
  assumes "blocking_reasons c p now = []" "g \<in> set (po_RequiredGates p)"
  shows "gate_reason p now (cn_Gates c) (cn_Exceptions c) g = None"
  using assms by (auto simp: blocking_reasons_def catMaybes_Nil)

lemma gate_reason_None:
  "gate_reason p now gates xs g = None \<longleftrightarrow>
     (\<exists>gt. gate_named gates g = Some gt \<and>
        (gt_Status gt = GatePassed \<and> gt_EvidenceDigest gt \<noteq> [] \<or>
         gt_Status gt = GateExcepted \<and> ExceptionEligible g \<and> allows_exception p g \<and>
         (\<exists>x. first_by ex_Gate xs g = Some x \<and> validateException x now (po_ExceptionMaxAge p) = None)))"
  by (auto simp: gate_reason_def ExceptionEligible_def split: option.splits gate_status.splits if_splits)

lemma validateException_None:
  "validateException x now maxAge = None \<longleftrightarrow>
     ex_ID x \<noteq> [] \<and> ex_OwnerID x \<noteq> [] \<and> ex_ApprovedBy x \<noteq> [] \<and> trim_space (ex_Reason x) \<noteq> [] \<and>
     trim_space (ex_CompensatingControl x) \<noteq> [] \<and> ex_ExpiresAt x \<noteq> 0 \<and> now < ex_ExpiresAt x \<and>
     ex_ExpiresAt x \<le> now + maxAge"
  by (auto simp: validateException_def is_zero_time_def)

lemma Normalize_frame:
  "Normalize policy = Inr p \<Longrightarrow>
     po_RequiredGates p = po_RequiredGates policy \<and> po_AllowExceptions p = po_AllowExceptions policy \<and>
     po_Revision p = po_Revision policy \<and> po_ApprovalMode p = po_ApprovalMode policy \<and>
     po_RequiredApprovals p = po_RequiredApprovals policy \<and> po_SeparateCreator p = po_SeparateCreator policy \<and>
     po_AutoPromoteRisks p = po_AutoPromoteRisks policy \<and>
     po_AutoPromoteChanges p = po_AutoPromoteChanges policy \<and> gate_checks policy = None \<and>
     0 \<le> po_RequiredApprovals policy"
  by (erule NormalizeE) (simp add: header_checks_def)

text \<open>A candidate that the policy does not block passed every required gate with an evidence
  digest, or has for that gate an approved, complete and unexpired exception within the
  policy's maximum lifetime, on a gate that is not hard and that the policy lets be excepted.\<close>

theorem unblocked_gates_justified:
  assumes "Evaluate digest c policy now = Inr d" "de_Outcome d \<noteq> OutcomeBlocked"
    "g \<in> set (po_RequiredGates policy)" "Normalize policy = Inr p"
  shows "\<exists>gt. gate_named (cn_Gates c) g = Some gt \<and>
     (gt_Status gt = GatePassed \<and> gt_EvidenceDigest gt \<noteq> [] \<or>
      gt_Status gt = GateExcepted \<and> ExceptionEligible g \<and> allows_exception policy g \<and>
      (\<exists>x \<in> set (cn_Exceptions c). ex_Gate x = g \<and> ex_OwnerID x \<noteq> [] \<and> ex_ApprovedBy x \<noteq> [] \<and>
         now < ex_ExpiresAt x \<and> ex_ExpiresAt x \<le> now + po_ExceptionMaxAge p))"
  using assms(1)
proof (rule Evaluate_stages)
  fix q bound
  assume q: "Normalize policy = Inr q"
    and out: "de_Outcome d = (if blocking_reasons c q now \<noteq> [] then OutcomeBlocked
        else if auto_eligible c q then OutcomeAutoApproved
        else if po_RequiredApprovals q \<le> int (length (counted_actors c q bound)) then OutcomeApproved
        else OutcomeAwaitingApproval)"
  have [simp]: "q = p" using q assms(4) by simp
  have "blocking_reasons c p now = []" using out assms(2) by (auto split: if_splits)
  moreover have "g \<in> set (po_RequiredGates p)" using assms(3) Normalize_frame [OF assms(4)] by simp
  ultimately have "gate_reason p now (cn_Gates c) (cn_Exceptions c) g = None"
    by (rule unblocked_reasons)
  then show ?thesis
    using Normalize_frame [OF assms(4)] unfolding gate_reason_None validateException_None
    by (auto simp: allows_exception_def dest!: first_by_Some)
qed

definition sample_thresholds :: evidence_thresholds where
  "sample_thresholds = \<lparr>th_MaxParserFailures = 0, th_MaxExpectedFindingLoss = 0,
     th_MaxDurationRegression = Fin 0, th_MaxResourceRegression = Fin 0\<rparr>"

definition sample_policy :: policy where
  "sample_policy = Default\<lparr>po_Thresholds := sample_thresholds,
     po_Rollback := \<lparr>rb_Automatic = True, rb_MaxInfrastructureFailureRate = Fin 0,
        rb_MaxDurationRegression = Fin 0, rb_MaxParserFailures = 0\<rparr>,
     po_RequiredGates := nonBypassableGates @ [''vulnerability'']\<rparr>"

definition passed_gate :: "string \<Rightarrow> gate" where
  "passed_gate name = \<lparr>gt_Name = name, gt_Status = GatePassed, gt_EvidenceDigest = ''sha256:1'', gt_Summary = []\<rparr>"

definition excepted_gate :: "string \<Rightarrow> gate" where
  "excepted_gate name = \<lparr>gt_Name = name, gt_Status = GateExcepted, gt_EvidenceDigest = [], gt_Summary = []\<rparr>"

definition sample_exception :: "string \<Rightarrow> gate_exception" where
  "sample_exception g = \<lparr>ex_ID = ''e1'', ex_Gate = g, ex_OwnerID = ''sec'', ex_Reason = ''upstream'',
     ex_CompensatingControl = ''waf'', ex_ApprovedBy = ''ciso'', ex_ExpiresAt = 2000\<rparr>"

definition sample_candidate :: candidate where
  "sample_candidate = \<lparr>cn_ID = ''c1'', cn_DefinitionCommit = ''abc'', cn_LockDigest = ''lock1'',
     cn_PolicyID = ''p'', cn_PolicyRevision = 1, cn_CreatorID = ''bob'', cn_Risk = RiskLow,
     cn_Changes = [\<lparr>cg_Component = ''trivy'', cg_Kind = ChangePatch, cg_From = ''1'', cg_To = ''2''\<rparr>],
     cn_Gates = map passed_gate nonBypassableGates @ [excepted_gate ''vulnerability''],
     cn_Exceptions = [sample_exception ''vulnerability''],
     cn_Approvals = [\<lparr>ap_ActorID = ''amy'', ap_LockDigest = ''lock1'', ap_PolicyDecisionDigest = ''c1abc'',
       ap_CreatedAt = 5\<rparr>],
     cn_MaintenanceWindowOpen = True, cn_Evidence = None\<rparr>"

definition sample_digest :: digest_fn where
  "sample_digest b = Some (bi_CandidateID b @ bi_DefinitionCommit b)"

definition normal_form :: "policy \<Rightarrow> policy" where
  "normal_form p = (case Normalize p of Inr q \<Rightarrow> q | Inl _ \<Rightarrow> p)"

lemma normal_form: "is_ok (Normalize p) \<Longrightarrow> Normalize p = Inr (normal_form p)"
  by (auto simp: normal_form_def is_ok_def split: sum.splits)

definition verdict :: "digest_fn \<Rightarrow> candidate \<Rightarrow> policy \<Rightarrow> go_time \<Rightarrow> outcome" where
  "verdict digest c p now = (case Evaluate digest c p now of Inr d \<Rightarrow> de_Outcome d | Inl _ \<Rightarrow> OutcomeNone)"

lemma verdictE:
  "verdict digest c p now = oc \<Longrightarrow> oc \<noteq> OutcomeNone \<Longrightarrow>
     \<exists>d. Evaluate digest c p now = Inr d \<and> de_Outcome d = oc"
  by (auto simp: verdict_def split: sum.splits)

lemma sample_policy_ok: "Normalize sample_policy = Inr (normal_form sample_policy)"
  by (rule normal_form) code_simp

lemma sample_verdict: "verdict sample_digest sample_candidate sample_policy 1000 = OutcomeApproved"
  by code_simp

theorem unblocked_gates_justified_witness:
  "\<exists>gt. gate_named (cn_Gates sample_candidate) ''vulnerability'' = Some gt \<and> gt_Status gt = GateExcepted \<and>
     (\<exists>x \<in> set (cn_Exceptions sample_candidate). ex_ApprovedBy x \<noteq> [] \<and> 1000 < ex_ExpiresAt x)"
proof -
  obtain d where d: "Evaluate sample_digest sample_candidate sample_policy 1000 = Inr d"
    "de_Outcome d = OutcomeApproved"
    using verdictE [OF sample_verdict] by auto
  have g: "''vulnerability'' \<in> set (po_RequiredGates sample_policy)" by (simp add: sample_policy_def)
  have "\<exists>gt. gate_named (cn_Gates sample_candidate) ''vulnerability'' = Some gt \<and> gt_Status gt = GateExcepted"
    by (simp add: gate_named_def sample_candidate_def nonBypassableGates_def passed_gate_def excepted_gate_def)
  then show ?thesis
    using unblocked_gates_justified [OF d(1) _ g sample_policy_ok] d(2) by auto
qed

lemma hard_gates_required:
  assumes "Normalize policy = Inr p" "h \<in> set nonBypassableGates"
  shows "h \<in> trim_space ` set (po_RequiredGates policy)"
  using Normalize_frame [OF assms(1)] assms(2)
  by (auto simp: gate_checks_def hard_gates_ok_def list_all_iff)

text \<open>C4: Where the policy spells its required gates without surrounding white space, a candidate
  is never let through unless every hard gate passed with an evidence digest.\<close>

theorem hard_gates_never_bypassed:
  assumes "Evaluate digest c policy now = Inr d" "de_Outcome d \<noteq> OutcomeBlocked"
    "\<forall>g \<in> set (po_RequiredGates policy). trim_space g = g" "h \<in> set nonBypassableGates"
  shows "\<exists>gt \<in> set (cn_Gates c). gt_Name gt = h \<and> gt_Status gt = GatePassed \<and> gt_EvidenceDigest gt \<noteq> []"
  using assms(1)
proof (rule Evaluate_stages)
  fix p bound
  assume p: "Normalize policy = Inr p"
    and out: "de_Outcome d = (if blocking_reasons c p now \<noteq> [] then OutcomeBlocked
        else if auto_eligible c p then OutcomeAutoApproved
        else if po_RequiredApprovals p \<le> int (length (counted_actors c p bound)) then OutcomeApproved
        else OutcomeAwaitingApproval)"
  have none: "blocking_reasons c p now = []" using out assms(2) by (auto split: if_splits)
  have "h \<in> set (po_RequiredGates p)"
    using hard_gates_required [OF p assms(4)] assms(3) Normalize_frame [OF p] by auto
  with none have "gate_reason p now (cn_Gates c) (cn_Exceptions c) h = None" by (rule unblocked_reasons)
  then show ?thesis
    using assms(4) unfolding gate_reason_None
    by (auto simp: ExceptionEligible_def gate_named_def dest!: first_by_Some)
qed

theorem hard_gates_never_bypassed_witness:
  "\<exists>gt \<in> set (cn_Gates sample_candidate). gt_Name gt = ''signature'' \<and> gt_Status gt = GatePassed \<and>
     gt_EvidenceDigest gt \<noteq> []"
proof -
  obtain d where d: "Evaluate sample_digest sample_candidate sample_policy 1000 = Inr d"
    "de_Outcome d = OutcomeApproved"
    using verdictE [OF sample_verdict] by auto
  have trimmed: "\<forall>g \<in> set (po_RequiredGates sample_policy). trim_space g = g" by code_simp
  show ?thesis
    using hard_gates_never_bypassed [OF d(1) _ trimmed, of "''signature''"] d(2)
    by (simp add: nonBypassableGates_def)
qed

definition padded_policy :: policy where
  "padded_policy = sample_policy\<lparr>
     po_RequiredGates := '' lock'' # tl nonBypassableGates,
     po_AllowExceptions := [('' lock'', True)]\<rparr>"

definition padded_candidate :: candidate where
  "padded_candidate = sample_candidate\<lparr>
     cn_Gates := excepted_gate '' lock'' # map passed_gate (tl nonBypassableGates),
     cn_Exceptions := [sample_exception '' lock'']\<rparr>"

text \<open>Normalization compares the required gates by their trimmed names and evaluation by the
  names as they are written, so a policy that writes a hard gate with a leading space is valid,
  and under it a candidate is approved whose only result for that gate is an exception.\<close>

theorem padded_hard_gate_bypassed:
  "is_ok (Normalize padded_policy) \<and>
   verdict sample_digest padded_candidate padded_policy 1000 = OutcomeApproved \<and>
   gate_named (cn_Gates padded_candidate) ''lock'' = None \<and>
   ''lock'' \<in> set nonBypassableGates \<and> \<not> ExceptionEligible ''lock''"
proof (intro conjI)
  show "is_ok (Normalize padded_policy)" by code_simp
  show "verdict sample_digest padded_candidate padded_policy 1000 = OutcomeApproved" by code_simp
  show "gate_named (cn_Gates padded_candidate) ''lock'' = None" by code_simp
qed (simp_all add: nonBypassableGates_def ExceptionEligible_def)

text \<open>Automatic promotion needs a policy-gated mode, an open maintenance window, a risk of at most
  medium, only rebuild, patch or minor changes, and no required gate passed by an exception;
  the approvals required are then none.\<close>

theorem auto_promotion_is_bounded:
  assumes "Evaluate digest c policy now = Inr d" "de_Outcome d = OutcomeAutoApproved"
  shows "po_ApprovalMode policy = ApprovalPolicyGated \<and> cn_MaintenanceWindowOpen c \<and>
         cn_Risk c \<in> {RiskLow, RiskMedium} \<and>
         (\<forall>x \<in> set (cn_Changes c). cg_Kind x \<in> {ChangeRebuildOnly, ChangePatch, ChangeMinor}) \<and>
         (\<forall>g \<in> set (po_RequiredGates policy). \<not> is_excepted (cn_Gates c) g) \<and> de_AutoPromotion d"
  using assms(1)
proof (rule Evaluate_stages)
  fix p bound
  assume p: "Normalize policy = Inr p"
    and out: "de_Outcome d = (if blocking_reasons c p now \<noteq> [] then OutcomeBlocked
        else if auto_eligible c p then OutcomeAutoApproved
        else if po_RequiredApprovals p \<le> int (length (counted_actors c p bound)) then OutcomeApproved
        else OutcomeAwaitingApproval)"
    and auto: "de_AutoPromotion d \<longleftrightarrow> blocking_reasons c p now = [] \<and> auto_eligible c p"
  have elig: "blocking_reasons c p now = []" "auto_eligible c p"
    using out assms(2) by (auto split: if_splits)
  have lists: "list_all auto_risk_ok (po_AutoPromoteRisks p)" "list_all auto_change_ok (po_AutoPromoteChanges p)"
    using Normalize_frame [OF p] by (auto simp: gate_checks_def)
  have "auto_risk_ok (cn_Risk c)" "\<forall>x \<in> set (cn_Changes c). auto_change_ok (cg_Kind x)"
    using lists elig(2) by (auto simp: auto_eligible_def list_all_iff)
  moreover have "auto_risk_ok r \<Longrightarrow> r \<in> {RiskLow, RiskMedium}" for r by (cases r) auto
  moreover have "auto_change_ok k \<Longrightarrow> k \<in> {ChangeRebuildOnly, ChangePatch, ChangeMinor}" for k
    by (cases k) auto
  ultimately show ?thesis
    using elig auto Normalize_frame [OF p] by (auto simp: auto_eligible_def has_exception_def list_ex_iff)
qed

definition gated_policy :: policy where
  "gated_policy = sample_policy\<lparr>po_ApprovalMode := ApprovalPolicyGated, po_RequiredGates := nonBypassableGates\<rparr>"

theorem auto_promotion_is_bounded_witness:
  "\<exists>d. Evaluate sample_digest sample_candidate gated_policy 1000 = Inr d \<and> de_AutoPromotion d \<and>
     cn_Risk sample_candidate \<in> {RiskLow, RiskMedium}"
proof -
  have "verdict sample_digest sample_candidate gated_policy 1000 = OutcomeAutoApproved" by code_simp
  then obtain d where d: "Evaluate sample_digest sample_candidate gated_policy 1000 = Inr d"
    "de_Outcome d = OutcomeAutoApproved"
    using verdictE by blast
  from auto_promotion_is_bounded [OF d] d show ?thesis by blast
qed

definition reported_critical :: candidate where
  "reported_critical = sample_candidate\<lparr>cn_Exceptions := [], cn_Approvals := [],
     cn_Evidence := Some \<lparr>ev_Critical = 7, ev_High = 40, ev_DatabaseIdentity = ''db'', ev_Detected = [],
       ev_Unknown = 0, ev_ParserFailures = 0, ev_ExpectedLosses = 0, ev_DurationDelta = Fin 0,
       ev_ResourceDelta = Fin 0\<rparr>\<rparr>"

text \<open>The vulnerability limits are skipped when the candidate reports its vulnerability gate as
  excepted, whether or not that gate is required or any exception record exists: with the gate
  not in the required list a candidate with seven critical vulnerabilities, a limit of zero, no
  exception and no approval is promoted automatically.\<close>

theorem unrecorded_exception_skips_vulnerability_limits:
  "verdict sample_digest reported_critical gated_policy 1000 = OutcomeAutoApproved \<and>
   vu_MaxCritical (po_Vulnerability gated_policy) = 0 \<and>
   map_option ev_Critical (cn_Evidence reported_critical) = Some 7 \<and>
   cn_Exceptions reported_critical = [] \<and> cn_Approvals reported_critical = []"
proof (intro conjI)
  show "verdict sample_digest reported_critical gated_policy 1000 = OutcomeAutoApproved" by code_simp
qed (simp_all add: gated_policy_def sample_policy_def Default_def reported_critical_def)

lemma approved_reaches_required:
  assumes "Evaluate digest c policy now = Inr d" "de_Outcome d = OutcomeApproved"
  shows "po_RequiredApprovals policy \<le> de_ValidApprovals d"
  using assms(1)
  by (rule Evaluate_stages) (use assms(2) in \<open>auto dest: Normalize_frame split: if_splits\<close>)

text \<open>C17: A candidate is approved only with as many distinct approvers as the policy requires, each
  with an approval of this lock digest and of this exact decision digest, and none of them the
  creator where the policy separates them.\<close>

theorem approval_counts_distinct_bound_actors:
  assumes "Evaluate digest c policy now = Inr d" "de_Outcome d = OutcomeApproved"
  shows "\<exists>actors. int (card actors) = de_ValidApprovals d \<and>
     po_RequiredApprovals policy \<le> de_ValidApprovals d \<and> [] \<notin> actors \<and>
     (\<forall>x \<in> actors. \<exists>a \<in> set (cn_Approvals c). ap_ActorID a = x \<and> ap_LockDigest a = cn_LockDigest c \<and>
        ap_PolicyDecisionDigest a = de_PolicyDecisionDigest d) \<and>
     (po_SeparateCreator policy \<longrightarrow> cn_CreatorID c \<notin> actors)"
  using assms(1)
proof (rule Evaluate_stages)
  fix p bound
  assume p: "Normalize policy = Inr p" and b: "de_PolicyDecisionDigest d = bound"
    and out: "de_Outcome d = (if blocking_reasons c p now \<noteq> [] then OutcomeBlocked
        else if auto_eligible c p then OutcomeAutoApproved
        else if po_RequiredApprovals p \<le> int (length (counted_actors c p bound)) then OutcomeApproved
        else OutcomeAwaitingApproval)"
    and counts: "de_Outcome d \<in> {OutcomeApproved, OutcomeAwaitingApproval} \<Longrightarrow>
       de_ValidApprovals d = int (length (counted_actors c p bound)) \<and>
       de_RequiredApprovals d = po_RequiredApprovals p"
  let ?as = "set (counted_actors c p bound)"
  have n: "int (card ?as) = de_ValidApprovals d"
    using counts assms(2) by (simp add: counted_actors_def length_remdups_card_conv)
  have req: "po_RequiredApprovals policy \<le> de_ValidApprovals d"
    using counts out assms(2) Normalize_frame [OF p] by (auto split: if_splits)
  have "[] \<notin> ?as" "\<forall>x \<in> ?as. \<exists>a \<in> set (cn_Approvals c). ap_ActorID a = x \<and>
      ap_LockDigest a = cn_LockDigest c \<and> ap_PolicyDecisionDigest a = bound"
    "po_SeparateCreator policy \<Longrightarrow> cn_CreatorID c \<notin> ?as"
    using Normalize_frame [OF p] by (auto simp: counted_actors_def)
  then show ?thesis using n req b by blast
qed

theorem approval_counts_distinct_bound_actors_witness:
  "\<exists>d actors. Evaluate sample_digest sample_candidate sample_policy 1000 = Inr d \<and>
     int (card actors) = de_ValidApprovals d \<and> cn_CreatorID sample_candidate \<notin> actors"
proof -
  obtain d where d: "Evaluate sample_digest sample_candidate sample_policy 1000 = Inr d"
    "de_Outcome d = OutcomeApproved"
    using verdictE [OF sample_verdict] by auto
  have "po_SeparateCreator sample_policy" by (simp add: sample_policy_def Default_def)
  with approval_counts_distinct_bound_actors [OF d] d show ?thesis by blast
qed

lemma binding_content:
  assumes "approval_binding c p = approval_binding c' p'"
  shows "cn_ID c = cn_ID c' \<and> cn_DefinitionCommit c = cn_DefinitionCommit c' \<and>
     cn_LockDigest c = cn_LockDigest c' \<and> cn_Risk c = cn_Risk c' \<and> cn_Evidence c = cn_Evidence c' \<and>
     mset (cn_Gates c) = mset (cn_Gates c') \<and> mset (cn_Exceptions c) = mset (cn_Exceptions c') \<and>
     mset (cn_Changes c) = mset (cn_Changes c') \<and> po_Revision p = po_Revision p'"
proof -
  have "mset (bi_Gates (approval_binding c p)) = mset (cn_Gates c)"
    "mset (bi_Exceptions (approval_binding c p)) = mset (cn_Exceptions c)"
    "mset (bi_Changes (approval_binding c p)) = mset (cn_Changes c)" for c p
    by (simp_all add: approval_binding_def)
  then have "mset (cn_Gates c) = mset (cn_Gates c')" "mset (cn_Exceptions c) = mset (cn_Exceptions c')"
    "mset (cn_Changes c) = mset (cn_Changes c')"
    using assms by metis+
  then show ?thesis using assms unfolding approval_binding_def by simp
qed

text \<open>An approval does not outlive what it approved: if an approval recorded with the digest of one
  evaluation counts in another, then, unless the digest collides on the two, both had the same
  commit, lock, risk, evidence, gates, exceptions, changes and policy revision.\<close>

theorem approvals_bound_to_evidence:
  assumes "Evaluate digest c policy now = Inr d" "Evaluate digest c' policy' now' = Inr d'"
    and "\<forall>a \<in> set (cn_Approvals c'). ap_PolicyDecisionDigest a = de_PolicyDecisionDigest d"
    and "0 < de_ValidApprovals d'" "de_Outcome d' \<in> {OutcomeApproved, OutcomeAwaitingApproval}"
    and "\<forall>p p'. Normalize policy = Inr p \<and> Normalize policy' = Inr p' \<and>
           digest (approval_binding c p) = digest (approval_binding c' p') \<longrightarrow>
           approval_binding c p = approval_binding c' p'"
  shows "cn_DefinitionCommit c' = cn_DefinitionCommit c \<and> cn_LockDigest c' = cn_LockDigest c \<and>
         cn_Risk c' = cn_Risk c \<and> cn_Evidence c' = cn_Evidence c \<and>
         mset (cn_Gates c') = mset (cn_Gates c) \<and> mset (cn_Exceptions c') = mset (cn_Exceptions c) \<and>
         mset (cn_Changes c') = mset (cn_Changes c) \<and> po_Revision policy' = po_Revision policy"
  using assms(1)
proof (rule Evaluate_stages)
  fix p bound
  assume p: "Normalize policy = Inr p" and b: "digest (approval_binding c p) = Some bound"
    "de_PolicyDecisionDigest d = bound"
  from assms(2) show ?thesis
  proof (rule Evaluate_stages)
    fix p' bound'
    assume p': "Normalize policy' = Inr p'" and b': "digest (approval_binding c' p') = Some bound'"
      and counts: "de_Outcome d' \<in> {OutcomeApproved, OutcomeAwaitingApproval} \<Longrightarrow>
         de_ValidApprovals d' = int (length (counted_actors c' p' bound')) \<and>
         de_RequiredApprovals d' = po_RequiredApprovals p'"
    have "counted_actors c' p' bound' \<noteq> []" using counts assms(4,5) by auto
    then obtain a where "a \<in> set (cn_Approvals c')" "ap_PolicyDecisionDigest a = bound'"
      by (auto simp: counted_actors_def filter_empty_conv)
    then have "digest (approval_binding c p) = digest (approval_binding c' p')"
      using assms(3) b b' by simp
    then have "approval_binding c p = approval_binding c' p'" using assms(6) p p' by blast
    from binding_content [OF this] show ?thesis
      using Normalize_frame [OF p] Normalize_frame [OF p'] by simp
  qed
qed

theorem approvals_bound_to_evidence_witness:
  "\<exists>d. Evaluate sample_digest sample_candidate sample_policy 1000 = Inr d \<and> 0 < de_ValidApprovals d \<and>
     cn_LockDigest (sample_candidate\<lparr>cn_CreatorID := ''eve''\<rparr>) = cn_LockDigest sample_candidate"
proof -
  let ?c = "sample_candidate\<lparr>cn_CreatorID := ''eve''\<rparr>"
  obtain d where d: "Evaluate sample_digest sample_candidate sample_policy 1000 = Inr d"
    "de_Outcome d = OutcomeApproved"
    using verdictE [OF sample_verdict] by auto
  have "verdict sample_digest ?c sample_policy 1000 = OutcomeApproved" by code_simp
  then obtain d' where d': "Evaluate sample_digest ?c sample_policy 1000 = Inr d'"
    "de_Outcome d' = OutcomeApproved"
    using verdictE by blast
  have pos: "0 < de_ValidApprovals e" if "Evaluate sample_digest x sample_policy 1000 = Inr e"
    "de_Outcome e = OutcomeApproved" for x e
    using approved_reaches_required [OF that] by (simp add: sample_policy_def Default_def)
  have dig: "de_PolicyDecisionDigest d = ''c1abc''"
    using d(1) by (rule Evaluate_stages)
      (simp add: sample_digest_def approval_binding_def sample_candidate_def)
  have "cn_LockDigest ?c = cn_LockDigest sample_candidate"
    by (rule conjunct1 [OF conjunct2 [OF approvals_bound_to_evidence [OF d(1) d'(1) _ pos [OF d']]]])
      (use d'(2) dig in \<open>auto simp: sample_candidate_def approval_binding_def\<close>)
  then show ?thesis using d(1) pos [OF d] by blast
qed

section \<open>The order of the inputs\<close>

lemma keyed_error_distinct:
  assumes "mset ks = mset ks'" "distinct ks"
  shows "keyed_error e d [] ks = keyed_error e d [] ks'"
proof (cases "[] \<in> set ks")
  case True
  have unnamed: "[] \<in> set xs \<Longrightarrow> distinct xs \<Longrightarrow> set xs \<inter> set seen = {} \<Longrightarrow>
      keyed_error e d seen xs = Some e" for xs seen
    by (induction xs arbitrary: seen) auto
  have "set ks = set ks'" "distinct ks'"
    using assms by (metis set_mset_mset, metis mset_eq_imp_distinct_iff)
  then show ?thesis using True assms(2) by (simp add: unnamed)
next
  case False
  have "set ks = set ks'" "distinct ks'"
    using assms by (metis set_mset_mset, metis mset_eq_imp_distinct_iff)
  then show ?thesis using False assms(2) by (metis keyed_error_None inf_bot_right list.set(1))
qed

definition reordered :: "change list \<Rightarrow> gate list \<Rightarrow> gate_exception list \<Rightarrow> approval list \<Rightarrow> candidate \<Rightarrow> candidate" where
  "reordered cs gs xs as c =
     c\<lparr>cn_Changes := cs, cn_Gates := gs, cn_Exceptions := xs, cn_Approvals := as\<rparr>"

lemma reordered_fields [simp]:
  "cn_ID (reordered cs gs xs as c) = cn_ID c"
  "cn_DefinitionCommit (reordered cs gs xs as c) = cn_DefinitionCommit c"
  "cn_LockDigest (reordered cs gs xs as c) = cn_LockDigest c"
  "cn_PolicyID (reordered cs gs xs as c) = cn_PolicyID c"
  "cn_PolicyRevision (reordered cs gs xs as c) = cn_PolicyRevision c"
  "cn_CreatorID (reordered cs gs xs as c) = cn_CreatorID c"
  "cn_Risk (reordered cs gs xs as c) = cn_Risk c"
  "cn_MaintenanceWindowOpen (reordered cs gs xs as c) = cn_MaintenanceWindowOpen c"
  "cn_Evidence (reordered cs gs xs as c) = cn_Evidence c"
  "cn_Changes (reordered cs gs xs as c) = cs" "cn_Gates (reordered cs gs xs as c) = gs"
  "cn_Exceptions (reordered cs gs xs as c) = xs" "cn_Approvals (reordered cs gs xs as c) = as"
  by (simp_all add: reordered_def)

lemma gate_named_perm:
  "mset gs = mset gs' \<Longrightarrow> distinct (map gt_Name gs) \<Longrightarrow> gate_named gs = gate_named gs'"
  by (simp add: gate_named_def first_by_perm fun_eq_iff)

lemma evidenceBlockingReasons_perm:
  "gate_named gs = gate_named gs' \<Longrightarrow> evidenceBlockingReasons e p gs = evidenceBlockingReasons e p gs'"
  by (simp add: evidenceBlockingReasons_def is_excepted_def)

lemma gate_reason_perm:
  "gate_named gs = gate_named gs' \<Longrightarrow> first_by ex_Gate xs = first_by ex_Gate xs' \<Longrightarrow>
     gate_reason p now gs xs = gate_reason p now gs' xs'"
  by (rule ext) (simp only: gate_reason_def)

lemma counted_actors_perm:
  assumes "set as = set (cn_Approvals c)"
  shows "length (counted_actors (reordered cs gs xs as c) p b) = length (counted_actors c p b)"
  unfolding counted_actors_def length_remdups_card_conv using assms by simp

lemma approval_binding_perm:
  assumes "mset cs = mset (cn_Changes c)" "mset gs = mset (cn_Gates c)" "mset xs = mset (cn_Exceptions c)"
    and "distinct (map (\<lambda>x. (cg_Component x, change_kind_string (cg_Kind x))) cs)"
      "distinct (map gt_Name gs)" "distinct (map ex_Gate xs)"
  shows "approval_binding (reordered cs gs xs as c) p = approval_binding c p"
proof -
  have "distinct (map (\<lambda>x. (ex_Gate x, ex_ID x)) xs)" using assms(6) by (auto simp: distinct_map inj_on_def)
  with assms show ?thesis
    by (simp add: approval_binding_def sort_key_unique [OF assms(1,4)] sort_key_unique [OF assms(2,5)]
        sort_key_unique [OF assms(3)])
qed

text \<open>The decision does not depend on the order in which changes, gates, exceptions and approvals
  are listed, as long as no two entries have the same key: outcome, reasons, digest and errors
  are the same.\<close>

theorem evaluation_ignores_input_order:
  assumes "mset cs = mset (cn_Changes c)" "mset gs = mset (cn_Gates c)" "mset xs = mset (cn_Exceptions c)"
    "mset as = mset (cn_Approvals c)"
    and "distinct (map (\<lambda>x. (cg_Component x, change_kind_string (cg_Kind x))) cs)"
      "distinct (map gt_Name gs)" "distinct (map ex_Gate xs)"
  shows "Evaluate digest (reordered cs gs xs as c) policy now = Evaluate digest c policy now"
proof -
  let ?c = "reordered cs gs xs as c"
  have sets: "set cs = set (cn_Changes c)" "set as = set (cn_Approvals c)"
    using assms(1,4) by (metis set_mset_mset)+
  have gn: "gate_named gs = gate_named (cn_Gates c)" using gate_named_perm assms(2,6) by blast
  have fx: "first_by ex_Gate xs = first_by ex_Gate (cn_Exceptions c)"
    using first_by_perm [OF assms(3,7)] by blast
  have checks: "candidate_checks ?c p = candidate_checks c p" for p
    by (simp add: candidate_checks_def list_all_iff sets(1))
  have bound: "ApprovalBindingDigest digest ?c p = ApprovalBindingDigest digest c p" for p
    by (simp add: ApprovalBindingDigest_def approval_binding_perm [OF assms(1-3,5-7)])
  have ge: "gates_error gs = gates_error (cn_Gates c)"
    unfolding gates_error_def
    by (rule keyed_error_distinct [OF _ assms(6)]) (metis assms(2) mset_map)
  have ee: "exceptions_error xs = exceptions_error (cn_Exceptions c)"
    unfolding exceptions_error_def
    by (rule keyed_error_distinct [OF _ assms(7)]) (metis assms(3) mset_map)
  have reasons: "blocking_reasons ?c p now = blocking_reasons c p now" for p
    by (simp add: blocking_reasons_def evidenceBlockingReasons_perm [OF gn] gate_reason_perm [OF gn fx]
        cong: option.case_cong)
  have auto: "auto_eligible ?c p = auto_eligible c p" for p
    by (simp add: auto_eligible_def has_exception_def is_excepted_def gn list_all_iff sets(1)
        list_ex_iff)
  show ?thesis
    unfolding Evaluate_def reordered_fields checks bound ge ee reasons auto
      counted_actors_perm [OF sets(2)] by (rule refl)
qed

theorem evaluation_ignores_input_order_witness:
  "Evaluate sample_digest (reordered (cn_Changes sample_candidate) (rev (cn_Gates sample_candidate))
     (cn_Exceptions sample_candidate) (cn_Approvals sample_candidate) sample_candidate) sample_policy 1000 =
   Evaluate sample_digest sample_candidate sample_policy 1000"
proof (rule evaluation_ignores_input_order)
  show "distinct (map gt_Name (rev (cn_Gates sample_candidate)))" by code_simp
  show "distinct (map ex_Gate (cn_Exceptions sample_candidate))" by code_simp
  show "distinct (map (\<lambda>x. (cg_Component x, change_kind_string (cg_Kind x))) (cn_Changes sample_candidate))"
    by code_simp
qed simp_all

text \<open>Normalization is idempotent, keeps the required gates as they are written, and fills in
  positive durations and samples; a normalized policy requires all hard gates (by trimmed name) and allows an
  exception for none.\<close>

theorem normalize_fixed_point:
  assumes "Normalize p = Inr q"
  shows "Normalize q = Inr q \<and> po_RequiredGates q = po_RequiredGates p \<and>
         set nonBypassableGates \<subseteq> trim_space ` set (po_RequiredGates q) \<and>
         (\<forall>g \<in> set nonBypassableGates. \<not> allows_exception q g) \<and>
         0 < ca_Observation (po_Canary q) \<and> 0 < po_ExceptionMaxAge q \<and> 0 < ca_MinimumSamples (po_Canary q)"
proof -
  have hard: "set nonBypassableGates \<subseteq> trim_space ` set (po_RequiredGates q)"
    "\<forall>g \<in> set nonBypassableGates. \<not> allows_exception q g"
    using Normalize_frame [OF assms]
    by (auto simp: gate_checks_def hard_gates_ok_def list_all_iff allows_exception_def)
  have pos: "positive_duration e s = Inr d \<Longrightarrow> 0 < d" for e s d
    by (auto simp: positive_duration_def split: option.splits if_splits)
  have "0 < ca_Observation (po_Canary q) \<and> 0 < ca_MinimumSamples (po_Canary q) \<and> 0 < po_ExceptionMaxAge q"
    using assms
    by (rule NormalizeE) (auto simp: normalize_canary_def Let_def and_then_Inr dest: pos)
  then show ?thesis using Normalize_idem [OF assms] Normalize_frame [OF assms] hard by simp
qed

theorem normalize_fixed_point_witness:
  "Normalize (normal_form sample_policy) = Inr (normal_form sample_policy)"
  using normalize_fixed_point [OF sample_policy_ok] by simp

end
