(* ===== verification/RolloutController.thy ===== *)
theory RolloutController
  imports Rollout StoreLeases ScannerPolicy
begin

text \<open>
  The rollout controller (\<open>internal/scannerrollout/controller.go\<close>, \<open>controller_types.go\<close> and
  \<open>gate.go\<close>): one pass claims a rollout, reconciles it one step towards its target and releases
  the claim. The controller runs in a world that holds the database, counts the calls it makes
  to the outside and records them. Everything the code does not decide itself is in the
  environment: the clock, the runtime and the gate behind their Go interfaces, the transactions
  that other processes commit before each call, and the faults (a call that never arrives, or a
  commit whose acknowledgement is lost). A cancelled context is a run of dropped calls. The
  observer, the trace log and the texts of the Go error messages have no effect on the state.
\<close>

section \<open>Requests, snapshots and the gate\<close>

record assignment_request =
  as_OperationID :: string
  as_RolloutID :: string
  as_Target :: string
  as_CohortID :: string
  as_CohortName :: string
  as_DesiredReleaseID :: string
  as_PreviousReleaseID :: string
  as_Rollback :: bool

record health_request =
  hr_OperationID :: string
  hr_RolloutID :: string
  hr_Target :: string
  hr_CohortID :: string
  hr_CohortName :: string
  hr_StableCohortName :: string
  hr_DesiredReleaseID :: string
  hr_SyntheticVerification :: bool

record synthetic_evidence =
  sy_CorpusID :: string
  sy_CorpusDigest :: string
  sy_Current :: bool
  sy_State :: string
  sy_FixtureTotal :: int
  sy_FixturePassed :: int
  sy_FixtureFailed :: int
  sy_FailureClass :: string
  sy_ObservedAt :: go_time

record real_scan_evidence =
  rs_State :: string
  rs_CandidateSamples :: int
  rs_StableSamples :: int
  rs_CandidateInfrastructureFails :: int
  rs_StableInfrastructureFails :: int
  rs_ParserFailures :: int
  rs_ExpectedFindingLosses :: int
  rs_CandidateP95DurationMS :: int
  rs_StableP95DurationMS :: int
  rs_WorkersTotal :: int
  rs_WorkersReady :: int
  rs_WorkersFailed :: int
  rs_ObservedAt :: go_time

record health_snapshot =
  hs_ObservedReleaseID :: string
  hs_TotalWorkers :: int
  hs_ReadyWorkers :: int
  hs_FailedWorkers :: int
  hs_Canary :: canary_health
  hs_Synthetic :: "synthetic_evidence option"
  hs_RealScans :: "real_scan_evidence option"
  hs_ObservedAt :: go_time

definition validSyntheticDigest :: "string \<Rightarrow> bool" where
  "validSyntheticDigest value \<longleftrightarrow>
     has_prefix value ''sha256:'' \<and> length value = length ''sha256:'' + 64 \<and>
     list_all hex_digit (trim_prefix value ''sha256:'')"

definition SyntheticEvidence_Validate :: "synthetic_evidence \<Rightarrow> bool" where
  "SyntheticEvidence_Validate e \<longleftrightarrow>
     sy_CorpusID e \<noteq> [] \<and> validSyntheticDigest (sy_CorpusDigest e) \<and>
     (sy_State e = ''pending'' \<or> sy_State e = ''passed'' \<or> sy_State e = ''failed'') \<and>
     0 \<le> sy_FixtureTotal e \<and> 0 \<le> sy_FixturePassed e \<and> 0 \<le> sy_FixtureFailed e \<and>
     wrap64 (sy_FixturePassed e + sy_FixtureFailed e) \<le> sy_FixtureTotal e \<and> \<not> is_zero_time (sy_ObservedAt e)"

definition RealScanEvidence_Validate :: "real_scan_evidence \<Rightarrow> bool" where
  "RealScanEvidence_Validate e \<longleftrightarrow>
     (rs_State e = [] \<or> rs_State e = ''pending'' \<or> rs_State e = ''healthy'' \<or> rs_State e = ''degraded'') \<and>
     list_all (\<lambda>v. 0 \<le> v)
       [rs_CandidateSamples e, rs_StableSamples e, rs_CandidateInfrastructureFails e,
        rs_StableInfrastructureFails e, rs_ParserFailures e, rs_ExpectedFindingLosses e,
        rs_WorkersTotal e, rs_WorkersReady e, rs_WorkersFailed e] \<and>
     rs_WorkersReady e \<le> rs_WorkersTotal e \<and> rs_WorkersFailed e \<le> rs_WorkersTotal e \<and>
     0 \<le> rs_CandidateP95DurationMS e \<and> 0 \<le> rs_StableP95DurationMS e \<and>
     \<not> (rs_State e \<noteq> [] \<and> is_zero_time (rs_ObservedAt e))"

definition HealthSnapshot_Validate :: "health_snapshot \<Rightarrow> bool" where
  "HealthSnapshot_Validate s \<longleftrightarrow>
     (let h = hs_Canary s in
      0 \<le> hs_TotalWorkers s \<and> 0 \<le> hs_ReadyWorkers s \<and> 0 \<le> hs_FailedWorkers s \<and>
      hs_ReadyWorkers s \<le> hs_TotalWorkers s \<and> hs_FailedWorkers s \<le> hs_TotalWorkers s \<and>
      list_all (\<lambda>v. 0 \<le> v)
        [ch_Samples h, ch_InfrastructureFailures h, ch_StableSamples h, ch_StableInfrastructureFailures h,
         ch_ParserFailures h, ch_PullFailures h, ch_SignatureFailures h, ch_ManifestFailures h,
         ch_ExpectedFindingLosses h, ch_CrashLoops h] \<and>
      0 \<le> ch_CandidateP95Duration h \<and> 0 \<le> ch_StableP95Duration h \<and>
      (case hs_RealScans s of None \<Rightarrow> True | Some e \<Rightarrow> RealScanEvidence_Validate e) \<and>
      (case hs_Synthetic s of None \<Rightarrow> True | Some e \<Rightarrow> SyntheticEvidence_Validate e))"

record gate_decision =
  gd_Allowed :: bool
  gd_Reason :: string

record maintenance_control =
  mc_Required :: bool
  mc_WindowOpen :: "bool option"
  mc_EmergencyOverrideUntil :: "go_time option"

text \<open>\<open>SnapshotProgressGate\<close>, on the decoded maintenance extension of the policy snapshot.\<close>

definition SnapshotProgressGate_Evaluate :: "maintenance_control \<Rightarrow> go_time \<Rightarrow> gate_decision" where
  "SnapshotProgressGate_Evaluate m now =
     (if (case mc_EmergencyOverrideUntil m of None \<Rightarrow> False | Some t \<Rightarrow> now < t)
      then \<lparr>gd_Allowed = True, gd_Reason = ''authorized emergency maintenance override is active''\<rparr>
      else case mc_WindowOpen m of
             Some True \<Rightarrow> \<lparr>gd_Allowed = True, gd_Reason = ''maintenance window is open''\<rparr>
           | Some False \<Rightarrow> \<lparr>gd_Allowed = False, gd_Reason = ''maintenance window is closed''\<rparr>
           | None \<Rightarrow>
               if mc_Required m
               then \<lparr>gd_Allowed = False, gd_Reason = ''maintenance window evidence is required''\<rparr>
               else \<lparr>gd_Allowed = True, gd_Reason = ''no maintenance restriction in policy snapshot''\<rparr>)"

section \<open>The world and the calls\<close>

datatype ctl_error =
    LeaseLost | RolloutChanged | StoreFailed store_error | Unreachable | AssignFailed
  | HealthFailed | InvalidSnapshot | CanaryFailed canary_error | GateError | LifecycleFailed
  | TraceFailed | ContextCanceled

datatype cohort_error =
    NoCohorts | BadCohortIdentity | DuplicateCohortName string | DuplicateCohortOrdinal int

datatype release_error = ReleaseUnreadable | NotRollbackEligible | DestinationWithdrawn

datatype lifecycle_action = LifecyclePause | LifecycleResume | LifecycleCancel

datatype call =
    CallHeartbeat bool
  | CallTransition string int rollout_state command
  | CallCohort cohort_row int command
  | CallAssign assignment_request
  | CallHealth health_request
  | CallLifecycle lifecycle_action assignment_request
  | CallList "cohort_row list"
  | CallGate
  | CallClaim
  | CallRelease

datatype fault = Healthy | Dropped | Unacknowledged

record world =
  wo_db :: database
  wo_step :: nat
  wo_calls :: "call list"

record env =
  en_WorkerID :: string
  en_ReconcileInterval :: duration
  en_LeaseDuration :: duration
  en_CohortTimeout :: duration
  en_Now :: "nat \<Rightarrow> go_time"
  en_Uuid :: "nat \<Rightarrow> string"
  en_Others :: "nat \<Rightarrow> database \<Rightarrow> database"
  en_Fault :: "nat \<Rightarrow> fault"
  en_Assign :: "nat \<Rightarrow> assignment_request \<Rightarrow> bool"
  en_Health :: "nat \<Rightarrow> health_request \<Rightarrow> health_snapshot option"
  en_Lifecycle :: "(nat \<Rightarrow> lifecycle_action \<Rightarrow> assignment_request \<Rightarrow> bool) option"
  en_Gate :: "nat \<Rightarrow> rollout_row \<Rightarrow> policy \<Rightarrow> go_time \<Rightarrow> gate_decision option"
  en_Cause :: "nat \<Rightarrow> ctl_error option"
  en_TraceOk :: "nat \<Rightarrow> bool"
  en_DecodePolicy :: "string \<Rightarrow> policy option"
  en_Summary :: "health_snapshot \<Rightarrow> string"
  en_CohortText :: "cohort_error \<Rightarrow> string"
  en_ReleaseText :: "release_error \<Rightarrow> string"
  en_PolicyText :: string
  en_ClaimPayload :: "int \<Rightarrow> bool \<Rightarrow> string"
  en_ReleasePayload :: "go_time \<Rightarrow> string"

type_synonym 'a ctl = "world \<Rightarrow> (ctl_error + 'a) \<times> world"

definition ctl_return :: "'a \<Rightarrow> 'a ctl" where
  "ctl_return a w = (Inr a, w)"

definition ctl_fail :: "ctl_error \<Rightarrow> 'a ctl" where
  "ctl_fail e w = (Inl e, w)"

definition ctl_bind :: "'a ctl \<Rightarrow> ('a \<Rightarrow> 'b ctl) \<Rightarrow> 'b ctl" where
  "ctl_bind m f w = (case m w of (Inl e, w') \<Rightarrow> (Inl e, w') | (Inr a, w') \<Rightarrow> f a w')"

definition ctl_record :: "call \<Rightarrow> unit ctl" where
  "ctl_record c w = (Inr (), w\<lparr>wo_calls := wo_calls w @ [c]\<rparr>)"

definition ctl_now :: "env \<Rightarrow> go_time ctl" where
  "ctl_now env w = (Inr (en_Now env (wo_step w)), w\<lparr>wo_step := Suc (wo_step w)\<rparr>)"

text \<open>A call of the store: other transactions may commit before it, and it may fail on the way.\<close>

definition ctl_store :: "env \<Rightarrow> (string \<Rightarrow> database \<Rightarrow> (store_error + 'a) \<times> database) \<Rightarrow> 'a ctl" where
  "ctl_store env op w =
     (let n = wo_step w; db = en_Others env n (wo_db w); w1 = w\<lparr>wo_step := Suc n, wo_db := db\<rparr> in
      case en_Fault env n of
        Dropped \<Rightarrow> (Inl Unreachable, w1)
      | Unacknowledged \<Rightarrow> (Inl Unreachable, w1\<lparr>wo_db := snd (op (en_Uuid env n) db)\<rparr>)
      | Healthy \<Rightarrow>
          (case op (en_Uuid env n) db of
             (Inl e, db') \<Rightarrow> (Inl (StoreFailed e), w1\<lparr>wo_db := db'\<rparr>)
           | (Inr a, db') \<Rightarrow> (Inr a, w1\<lparr>wo_db := db'\<rparr>)))"

text \<open>A call of an injected interface.\<close>

definition ctl_extern :: "env \<Rightarrow> ctl_error \<Rightarrow> (nat \<Rightarrow> 'a option) \<Rightarrow> 'a ctl" where
  "ctl_extern env e f w =
     (let n = wo_step w; w1 = w\<lparr>wo_step := Suc n\<rparr> in
      case (if en_Fault env n = Dropped then None else f n) of
        None \<Rightarrow> (Inl e, w1)
      | Some a \<Rightarrow> (Inr a, w1))"

definition ctl_read :: "env \<Rightarrow> (database \<Rightarrow> store_error + 'a) \<Rightarrow> 'a ctl" where
  "ctl_read env f = ctl_store env (\<lambda>uuid db. (f db, db))"

definition ok_option :: "bool \<Rightarrow> unit option" where
  "ok_option b = (if b then Some () else None)"

section \<open>Leases and writes\<close>

definition checkLease :: "env \<Rightarrow> claim_row \<Rightarrow> rollout_row \<Rightarrow> unit ctl" where
  "checkLease env claim guarded w =
     (case ctl_bind (ctl_now env) (\<lambda>now. ctl_store env (\<lambda>uuid. transact
             (HeartbeatRollout (cl_RolloutID claim) (en_WorkerID env) (cl_LeaseToken claim)
                now (now + en_LeaseDuration env)))) w of
        (Inl e, w') \<Rightarrow> (Inl LeaseLost, w'\<lparr>wo_calls := wo_calls w' @ [CallHeartbeat False]\<rparr>)
      | (Inr status, w') \<Rightarrow>
          let w2 = w'\<lparr>wo_calls := wo_calls w' @ [CallHeartbeat (ls_Current status)]\<rparr> in
          if \<not> ls_Current status then (Inl LeaseLost, w2)
          else if ls_RolloutVersion status \<noteq> rl_Version guarded \<or> ls_State status \<noteq> rl_State guarded
          then (Inl RolloutChanged, w2)
          else (Inr (), w2))"

definition transition_key :: "rollout_row \<Rightarrow> rollout_state \<Rightarrow> string \<Rightarrow> string" where
  "transition_key r to code =
     ''rollout/'' @ rl_ID r @ ''/v'' @ show_int (rl_Version r) @ ''/'' @ rollout_state_string to @
     ''/'' @ code"

definition transition ::
  "env \<Rightarrow> claim_row \<Rightarrow> rollout_row \<Rightarrow> rollout_state \<Rightarrow> int \<Rightarrow> string \<Rightarrow> string \<Rightarrow> rollout_row ctl" where
  "transition env claim r to revision code reason =
     ctl_bind (checkLease env claim r) (\<lambda>_.
     let cmd = \<lparr>cmd_Actor = en_WorkerID env, cmd_Reason = reason, cmd_PolicyRevision = revision,
                cmd_IdempotencyKey = transition_key r to code,
                cmd_PayloadJSON = ''{\"code\":\"'' @ code @ ''\",\"source\":\"rollout_controller\"}''\<rparr> in
     ctl_bind (ctl_record (CallTransition (rl_ID r) (rl_Version r) to cmd)) (\<lambda>_.
     ctl_bind (ctl_now env) (\<lambda>now.
     ctl_store env (\<lambda>uuid. TransitionRollout uuid now (rl_ID r) (rl_Version r) to cmd))))"

definition failRollout ::
  "env \<Rightarrow> claim_row \<Rightarrow> rollout_row \<Rightarrow> int \<Rightarrow> string \<Rightarrow> string \<Rightarrow> unit ctl" where
  "failRollout env claim r revision code reason =
     ctl_bind (transition env claim r RolloutFailed revision code reason) (\<lambda>_. ctl_return ())"

definition cohort_key :: "rollout_row \<Rightarrow> cohort_row \<Rightarrow> string \<Rightarrow> string" where
  "cohort_key r c action =
     ''rollout/'' @ rl_ID r @ ''/cohort/'' @ co_ID c @ ''/v'' @ show_int (co_Version c) @ ''/'' @ action"

definition updateCohort ::
  "env \<Rightarrow> claim_row \<Rightarrow> rollout_row \<Rightarrow> cohort_row \<Rightarrow> int \<Rightarrow> string \<Rightarrow> cohort_row ctl" where
  "updateCohort env claim r c revision action =
     ctl_bind (checkLease env claim r) (\<lambda>_.
     let cmd = \<lparr>cmd_Actor = en_WorkerID env, cmd_Reason = action, cmd_PolicyRevision = revision,
                cmd_IdempotencyKey = cohort_key r c action,
                cmd_PayloadJSON = ''{\"source\":\"rollout_controller\"}''\<rparr> in
     ctl_bind (ctl_record (CallCohort c (co_Version c) cmd)) (\<lambda>_.
     ctl_bind (ctl_now env) (\<lambda>now.
     ctl_store env (\<lambda>uuid. transact (UpdateRolloutCohort uuid now c (co_Version c) cmd)))))"

definition setCohortState ::
  "env \<Rightarrow> claim_row \<Rightarrow> rollout_row \<Rightarrow> cohort_row \<Rightarrow> cohort_state \<Rightarrow> int \<Rightarrow> string \<Rightarrow> go_time option
     \<Rightarrow> cohort_row ctl" where
  "setCohortState env claim r c st revision action completedAt =
     updateCohort env claim r (c\<lparr>co_State := st, co_CompletedAt := completedAt\<rparr>) revision action"

section \<open>Cohorts\<close>

definition assignmentOperationID :: "string \<Rightarrow> string \<Rightarrow> string \<Rightarrow> string" where
  "assignmentOperationID rolloutID cohortID desiredReleaseID =
     ''rollout/'' @ rolloutID @ ''/cohort/'' @ cohortID @ ''/release/'' @ desiredReleaseID"

definition assignment_for :: "rollout_row \<Rightarrow> cohort_row \<Rightarrow> string \<Rightarrow> bool \<Rightarrow> assignment_request" where
  "assignment_for r c desired rollback =
     \<lparr>as_OperationID = assignmentOperationID (rl_ID r) (co_ID c) desired, as_RolloutID = rl_ID r,
      as_Target = rl_Target r, as_CohortID = co_ID c, as_CohortName = co_Name c,
      as_DesiredReleaseID = desired, as_PreviousReleaseID = rl_FromReleaseID r,
      as_Rollback = rollback\<rparr>"

definition already_assigned :: "bool \<Rightarrow> cohort_state \<Rightarrow> bool" where
  "already_assigned rollback st \<longleftrightarrow>
     (\<not> rollback \<and> (st = CohortObserving \<or> st = CohortHealthy \<or> st = CohortCompleted)) \<or>
     (rollback \<and> (st = CohortRollbackObserving \<or> st = CohortRolledBack))"

text \<open>The two halves of \<open>ensureAssigned\<close>: the cohort is marked as assigning, then the runtime is
  asked and the cohort marked as observing.\<close>

definition start_assignment ::
  "env \<Rightarrow> claim_row \<Rightarrow> rollout_row \<Rightarrow> cohort_row \<Rightarrow> string \<Rightarrow> cohort_state \<Rightarrow> int \<Rightarrow> string
     \<Rightarrow> cohort_row ctl" where
  "start_assignment env claim r c desired assigningState revision action =
     (if co_State c \<noteq> assigningState \<or> co_DesiredReleaseID c \<noteq> desired
      then ctl_bind (ctl_now env) (\<lambda>now.
        updateCohort env claim r
          (c\<lparr>co_DesiredReleaseID := desired, co_ObservedReleaseID := [], co_State := assigningState,
             co_StartedAt := Some now, co_HealthObservedAt := None, co_CompletedAt := None,
             co_Deadline := Some (now + en_CohortTimeout env)\<rparr>) revision action)
      else ctl_return c)"

definition accept_assignment ::
  "env \<Rightarrow> claim_row \<Rightarrow> rollout_row \<Rightarrow> cohort_row \<Rightarrow> string \<Rightarrow> bool \<Rightarrow> cohort_state \<Rightarrow> int \<Rightarrow> string
     \<Rightarrow> cohort_row ctl" where
  "accept_assignment env claim r c desired rollback observingState revision action =
     ctl_bind (checkLease env claim r) (\<lambda>_.
     ctl_bind (ctl_record (CallAssign (assignment_for r c desired rollback))) (\<lambda>_.
     ctl_bind (ctl_extern env AssignFailed
         (\<lambda>n. ok_option (en_Assign env n (assignment_for r c desired rollback)))) (\<lambda>_.
     ctl_bind (checkLease env claim r) (\<lambda>_.
     updateCohort env claim r (c\<lparr>co_State := observingState\<rparr>) revision (action @ ''_accepted'')))))"

definition ensureAssigned ::
  "env \<Rightarrow> claim_row \<Rightarrow> rollout_row \<Rightarrow> cohort_row \<Rightarrow> int \<Rightarrow> bool \<Rightarrow> cohort_row ctl" where
  "ensureAssigned env claim r c revision rollback =
     (let desired = (if rollback then rl_FromReleaseID r else rl_ToReleaseID r);
          assigningState = (if rollback then CohortRollbackAssigning else CohortAssigning);
          observingState = (if rollback then CohortRollbackObserving else CohortObserving);
          action = (if rollback then ''cohort_rollback_started'' else ''cohort_assignment_started'')
      in if already_assigned rollback (co_State c) then ctl_return c
         else ctl_bind (start_assignment env claim r c desired assigningState revision action) (\<lambda>c1.
              accept_assignment env claim r c1 desired rollback observingState revision action))"

fun cohortHasDeployment :: "cohort_state \<Rightarrow> bool" where
  "cohortHasDeployment CohortPending \<longleftrightarrow> False"
| "cohortHasDeployment CohortReconciliationFailed \<longleftrightarrow> False"
| "cohortHasDeployment (CohortOther _) \<longleftrightarrow> False"
| "cohortHasDeployment _ \<longleftrightarrow> True"

definition lifecycle_skips :: "lifecycle_action \<Rightarrow> rollout_row \<Rightarrow> cohort_row \<Rightarrow> bool" where
  "lifecycle_skips action r c \<longleftrightarrow>
     \<not> cohortHasDeployment (co_State c) \<or> trim_space (co_DesiredReleaseID c) = [] \<or>
     (action = LifecycleResume \<and> (co_State c = CohortAssigning \<or> co_State c = CohortRollbackAssigning)) \<or>
     (action = LifecycleCancel \<and>
        (co_DesiredReleaseID c \<noteq> rl_ToReleaseID r \<or> co_State c = CohortRollbackAssigning \<or>
         co_State c = CohortRollbackObserving \<or> co_State c = CohortRolledBack))"

definition lifecycle_request :: "rollout_row \<Rightarrow> cohort_row \<Rightarrow> assignment_request" where
  "lifecycle_request r c =
     assignment_for r c (co_DesiredReleaseID c)
       (co_DesiredReleaseID c = rl_FromReleaseID r \<and> rl_FromReleaseID r \<noteq> [])"

fun lifecycle_loop ::
  "env \<Rightarrow> (nat \<Rightarrow> lifecycle_action \<Rightarrow> assignment_request \<Rightarrow> bool) \<Rightarrow> rollout_row \<Rightarrow> lifecycle_action
     \<Rightarrow> cohort_row list \<Rightarrow> unit ctl" where
  "lifecycle_loop env lc r action [] = ctl_return ()"
| "lifecycle_loop env lc r action (c # cs) =
     (if lifecycle_skips action r c then lifecycle_loop env lc r action cs
      else ctl_bind (ctl_record (CallLifecycle action (lifecycle_request r c))) (\<lambda>_.
           ctl_bind (ctl_extern env LifecycleFailed
               (\<lambda>n. ok_option (lc n action (lifecycle_request r c)))) (\<lambda>_.
           lifecycle_loop env lc r action cs)))"

definition applyLifecycle ::
  "env \<Rightarrow> rollout_row \<Rightarrow> cohort_row list \<Rightarrow> lifecycle_action \<Rightarrow> unit ctl" where
  "applyLifecycle env r cohorts action =
     (case en_Lifecycle env of
        None \<Rightarrow> ctl_return ()
      | Some lc \<Rightarrow> lifecycle_loop env lc r action cohorts)"

definition health_request_for :: "rollout_row \<Rightarrow> cohort_row \<Rightarrow> string \<Rightarrow> bool \<Rightarrow> health_request" where
  "health_request_for r c stableCohort synthetic =
     \<lparr>hr_OperationID = assignmentOperationID (rl_ID r) (co_ID c) (co_DesiredReleaseID c),
      hr_RolloutID = rl_ID r, hr_Target = rl_Target r, hr_CohortID = co_ID c, hr_CohortName = co_Name c,
      hr_StableCohortName = stableCohort, hr_DesiredReleaseID = co_DesiredReleaseID c,
      hr_SyntheticVerification = synthetic\<rparr>"

definition observeAndPersist ::
  "env \<Rightarrow> claim_row \<Rightarrow> rollout_row \<Rightarrow> cohort_row \<Rightarrow> string \<Rightarrow> int \<Rightarrow> bool
     \<Rightarrow> (health_snapshot \<times> cohort_row) ctl" where
  "observeAndPersist env claim r c stableCohort revision synthetic =
     ctl_bind (checkLease env claim r) (\<lambda>_.
     ctl_bind (ctl_record (CallHealth (health_request_for r c stableCohort synthetic))) (\<lambda>_.
     ctl_bind (ctl_extern env HealthFailed
         (\<lambda>n. en_Health env n (health_request_for r c stableCohort synthetic))) (\<lambda>observed.
     ctl_bind (if is_zero_time (hs_ObservedAt observed)
               then ctl_bind (ctl_now env) (\<lambda>now. ctl_return (observed\<lparr>hs_ObservedAt := now\<rparr>))
               else ctl_return observed) (\<lambda>snapshot.
     if \<not> HealthSnapshot_Validate snapshot then ctl_fail InvalidSnapshot
     else ctl_bind (checkLease env claim r) (\<lambda>_.
          ctl_bind (updateCohort env claim r
              (c\<lparr>co_ObservedReleaseID := hs_ObservedReleaseID snapshot,
                 co_TotalWorkers := hs_TotalWorkers snapshot, co_ReadyWorkers := hs_ReadyWorkers snapshot,
                 co_FailedWorkers := hs_FailedWorkers snapshot,
                 co_HealthSummaryJSON := en_Summary env snapshot,
                 co_HealthObservedAt := Some (hs_ObservedAt snapshot)\<rparr>)
              revision ''health_snapshot_observed'') (\<lambda>c1.
          ctl_return (snapshot, c1)))))))"

definition stableCohortName :: "cohort_row list \<Rightarrow> string" where
  "stableCohortName cohorts = (if length cohorts < 2 then [] else co_Name (last cohorts))"

section \<open>Decisions\<close>

definition stuck_pending :: "cohort_row \<Rightarrow> go_time \<Rightarrow> bool" where
  "stuck_pending c now \<longleftrightarrow> (case co_Deadline c of None \<Rightarrow> False | Some t \<Rightarrow> \<not> now < t)"

definition evaluateSnapshot ::
  "canary_policy \<Rightarrow> health_snapshot \<Rightarrow> cohort_row \<Rightarrow> go_time \<Rightarrow> canary_error + canary_decision" where
  "evaluateSnapshot p s c now =
     (let started = (case co_StartedAt c of None \<Rightarrow> co_UpdatedAt c | Some t \<Rightarrow> t) in
      and_then (EvaluateCanary p (hs_Canary s) started now) (\<lambda>d.
      if cd_Outcome d = CanaryRollback then Inr d
      else
        let d1 = (if hs_TotalWorkers s \<le> 0
                  then d\<lparr>cd_Outcome := CanaryPending,
                         cd_Reasons := cd_Reasons d @ [''cohort has no active workers'']\<rparr> else d);
            d2 = (if hs_ReadyWorkers s \<noteq> hs_TotalWorkers s \<or>
                     hs_ObservedReleaseID s \<noteq> co_DesiredReleaseID c
                  then d1\<lparr>cd_Outcome := CanaryPending,
                          cd_Reasons := cd_Reasons d1 @
                            [''cohort has not converged on the desired release'']\<rparr> else d1);
            d3 = (if 0 < hs_FailedWorkers s
                  then d2\<lparr>cd_Outcome := CanaryRollback,
                          cd_Reasons := cd_Reasons d2 @ [''cohort worker verification failed'']\<rparr> else d2);
            d4 = (if cd_Outcome d3 = CanaryPending \<and> stuck_pending c now
                  then d3\<lparr>cd_Outcome := CanaryRollback,
                          cd_Reasons := cd_Reasons d3 @
                            [''cohort reconciliation deadline exceeded'']\<rparr> else d3)
        in Inr (d4\<lparr>cd_Reasons := sort (cd_Reasons d4)\<rparr>)))"

definition handleUnhealthy ::
  "env \<Rightarrow> claim_row \<Rightarrow> rollout_row \<Rightarrow> policy \<Rightarrow> string list \<Rightarrow> unit ctl" where
  "handleUnhealthy env claim r p reasons =
     (let reason = ''rollout health gate failed'' @
            (case reasons of [] \<Rightarrow> [] | x # _ \<Rightarrow> '': '' @ x);
          automatic = (rb_Automatic (po_Rollback p) \<and> rl_FromReleaseID r \<noteq> []);
          to = (if automatic then RolloutRollingBack else RolloutPaused);
          code = (if automatic then ''automatic_rollback'' else ''health_gate_paused'')
      in ctl_bind (transition env claim r to (po_Revision p) code reason) (\<lambda>_. ctl_return ()))"

text \<open>\<open>evaluateSnapshot\<close> at the time it is called; its error ends the pass.\<close>

definition ctl_evaluate :: "env \<Rightarrow> canary_policy \<Rightarrow> health_snapshot \<Rightarrow> cohort_row \<Rightarrow> canary_decision ctl" where
  "ctl_evaluate env p s c =
     ctl_bind (ctl_now env) (\<lambda>now.
     case evaluateSnapshot p s c now of Inl e \<Rightarrow> ctl_fail (CanaryFailed e) | Inr d \<Rightarrow> ctl_return d)"

definition ignore :: "'a ctl \<Rightarrow> unit ctl" where
  "ignore m = ctl_bind m (\<lambda>_. ctl_return ())"

section \<open>Reconciling one step\<close>

definition reconcileCanary ::
  "env \<Rightarrow> claim_row \<Rightarrow> rollout_row \<Rightarrow> cohort_row \<Rightarrow> cohort_row list \<Rightarrow> policy \<Rightarrow> canary_policy \<Rightarrow> bool
     \<Rightarrow> unit ctl" where
  "reconcileCanary env claim r c cohorts p canary verification =
     ctl_bind (ensureAssigned env claim r c (po_Revision p) False) (\<lambda>c1.
     ctl_bind (observeAndPersist env claim r c1 (stableCohortName cohorts) (po_Revision p) verification)
       (\<lambda>(snapshot, c2).
     ctl_bind (ctl_evaluate env canary snapshot c2) (\<lambda>d.
     case cd_Outcome d of
       CanaryRollback \<Rightarrow> handleUnhealthy env claim r p (cd_Reasons d)
     | CanaryPending \<Rightarrow> ctl_return ()
     | CanaryPassed \<Rightarrow>
         if \<not> verification then
           ctl_bind (setCohortState env claim r c2 CohortHealthy (po_Revision p)
               ''canary_health_passed'' None) (\<lambda>_.
           ignore (transition env claim r RolloutVerifying (po_Revision p) ''canary_observation_passed''
             ''canary health thresholds and minimum observation passed''))
         else
           ctl_bind (ctl_now env) (\<lambda>completedAt.
           ctl_bind (setCohortState env claim r c2 CohortCompleted (po_Revision p)
               ''canary_verification_passed'' (Some completedAt)) (\<lambda>_.
           ignore (transition env claim r RolloutRollingOut (po_Revision p) ''canary_verified''
             ''canary convergence and verification passed''))))))"

definition reconcileStable ::
  "env \<Rightarrow> claim_row \<Rightarrow> rollout_row \<Rightarrow> cohort_row list \<Rightarrow> policy \<Rightarrow> canary_policy \<Rightarrow> unit ctl" where
  "reconcileStable env claim r cohorts p canary =
     (case find (\<lambda>c. co_State c \<noteq> CohortCompleted) cohorts of
        None \<Rightarrow> ignore (transition env claim r RolloutCompleted (po_Revision p) ''all_cohorts_completed''
                  ''all rollout cohorts converged and passed health gates'')
      | Some c \<Rightarrow>
        ctl_bind (ensureAssigned env claim r c (po_Revision p) False) (\<lambda>c1.
        ctl_bind (observeAndPersist env claim r c1 (stableCohortName cohorts) (po_Revision p) False)
          (\<lambda>(snapshot, c2).
        ctl_bind (ctl_evaluate env canary snapshot c2) (\<lambda>d.
        case cd_Outcome d of
          CanaryRollback \<Rightarrow> handleUnhealthy env claim r p (cd_Reasons d)
        | CanaryPending \<Rightarrow> ctl_return ()
        | CanaryPassed \<Rightarrow>
            ctl_bind (ctl_now env) (\<lambda>completedAt.
            ignore (setCohortState env claim r c2 CohortCompleted (po_Revision p)
              ''cohort_health_passed'' (Some completedAt)))))))"

definition converged_back :: "rollout_row \<Rightarrow> health_snapshot \<Rightarrow> bool" where
  "converged_back r s \<longleftrightarrow>
     0 < hs_TotalWorkers s \<and> hs_ReadyWorkers s = hs_TotalWorkers s \<and> hs_FailedWorkers s = 0 \<and>
     hs_ObservedReleaseID s = rl_FromReleaseID r"

text \<open>The Go loop over the cohorts from the last to the first returns in its first pass that does
  not skip a rolled back cohort; the error of the first write after the deadline is ignored.\<close>

definition reconcileRollback ::
  "env \<Rightarrow> claim_row \<Rightarrow> rollout_row \<Rightarrow> cohort_row list \<Rightarrow> int \<Rightarrow> unit ctl" where
  "reconcileRollback env claim r cohorts revision =
     (if rl_FromReleaseID r = []
      then failRollout env claim r revision ''rollback_release_unavailable''
             ''rollout has no prior release to restore''
      else case find (\<lambda>c. co_State c \<noteq> CohortRolledBack) (rev cohorts) of
        None \<Rightarrow> ignore (transition env claim r RolloutRolledBack revision ''rollback_completed''
                  ''all cohorts restored the prior release'')
      | Some c \<Rightarrow>
        ctl_bind (ensureAssigned env claim r c revision True) (\<lambda>c1.
        ctl_bind (observeAndPersist env claim r c1 [] revision False) (\<lambda>(snapshot, c2).
        if converged_back r snapshot
        then ctl_bind (ctl_now env) (\<lambda>completedAt.
             ignore (setCohortState env claim r c2 CohortRolledBack revision
               ''rollback_cohort_converged'' (Some completedAt)))
        else case co_Deadline c2 of
          None \<Rightarrow> ctl_return ()
        | Some deadline \<Rightarrow>
          ctl_bind (ctl_now env) (\<lambda>now.
          if now < deadline then ctl_return ()
          else (\<lambda>w. failRollout env claim r revision ''rollback_deadline_exceeded''
                 ''rollback cohort did not converge before its deadline''
                 (snd (setCohortState env claim r c2 CohortReconciliationFailed revision
                    ''rollback_deadline_exceeded'' None w)))))))"

section \<open>Preflight\<close>

definition rolloutPolicy :: "env \<Rightarrow> string \<Rightarrow> (policy \<times> canary_policy) option" where
  "rolloutPolicy env value =
     (case en_DecodePolicy env value of
        None \<Rightarrow> None
      | Some decoded \<Rightarrow>
        (case Normalize decoded of
           Inl _ \<Rightarrow> None
         | Inr p \<Rightarrow> Some (p, DefaultCanaryPolicy\<lparr>
             cp_MinimumSamples := ca_MinimumSamples (po_Canary p),
             cp_MinimumObservation := ca_Observation (po_Canary p),
             cp_MaxInfrastructureFailureRate := rb_MaxInfrastructureFailureRate (po_Rollback p),
             cp_MaxDurationRegression := rb_MaxDurationRegression (po_Rollback p),
             cp_MaxParserFailures := rb_MaxParserFailures (po_Rollback p)\<rparr>)))"

fun cohort_loop :: "string \<Rightarrow> string list \<Rightarrow> int list \<Rightarrow> cohort_row list \<Rightarrow> cohort_error option" where
  "cohort_loop rid names ordinals [] = None"
| "cohort_loop rid names ordinals (c # cs) =
     (if co_ID c = [] \<or> co_Name c = [] \<or> co_RolloutID c \<noteq> rid then Some BadCohortIdentity
      else if contains_elem names (co_Name c) then Some (DuplicateCohortName (co_Name c))
      else if contains_elem ordinals (co_Ordinal c) then Some (DuplicateCohortOrdinal (co_Ordinal c))
      else cohort_loop rid (co_Name c # names) (co_Ordinal c # ordinals) cs)"

text \<open>\<open>validateCohorts\<close> also sorts the caller's slice: its result is the sorted cohorts.\<close>

definition validateCohorts :: "rollout_row \<Rightarrow> cohort_row list \<Rightarrow> cohort_error + cohort_row list" where
  "validateCohorts r cohorts =
     (if cohorts = [] then Inl NoCohorts
      else let sorted_cohorts = sort_key co_Ordinal cohorts in
        case cohort_loop (rl_ID r) [] [] sorted_cohorts of
          Some e \<Rightarrow> Inl e
        | None \<Rightarrow> Inr sorted_cohorts)"

definition GetRelease :: "string \<Rightarrow> database \<Rightarrow> store_error + release_row" where
  "GetRelease i db = (case first_by re_ID (db_releases db) i of None \<Rightarrow> Inl NotFound | Some x \<Rightarrow> Inr x)"

text \<open>A read whose error is a value of the caller.\<close>

definition ctl_try :: "'a ctl \<Rightarrow> 'a option ctl" where
  "ctl_try m w = (case m w of (Inl e, w') \<Rightarrow> (Inr None, w') | (Inr a, w') \<Rightarrow> (Inr (Some a), w'))"

definition check_destination :: "env \<Rightarrow> rollout_row \<Rightarrow> bool \<Rightarrow> (bool \<times> release_error option) ctl" where
  "check_destination env r available =
     (if rl_State r = RolloutRollingBack then ctl_return (available, None)
      else ctl_bind (ctl_try (ctl_read env (GetRelease (rl_ToReleaseID r)))) (\<lambda>dest. ctl_return (
        case dest of
          None \<Rightarrow> (available, Some ReleaseUnreadable)
        | Some x \<Rightarrow> if re_State x = ReleaseRevoked \<or> re_State x = ReleaseDeprecated
                    then (available, Some DestinationWithdrawn) else (available, None))))"

definition validateReleases :: "env \<Rightarrow> rollout_row \<Rightarrow> (bool \<times> release_error option) ctl" where
  "validateReleases env r =
     (if rl_FromReleaseID r = [] then check_destination env r False
      else ctl_bind (ctl_try (ctl_read env (GetRelease (rl_FromReleaseID r)))) (\<lambda>previous.
        case previous of
          None \<Rightarrow> ctl_return (False, Some ReleaseUnreadable)
        | Some x \<Rightarrow>
          if \<not> re_RollbackEligible x \<or> re_State x = ReleaseRevoked
          then ctl_return (False, Some NotRollbackEligible)
          else check_destination env r True))"

definition release_text :: "env \<Rightarrow> release_error option \<Rightarrow> string" where
  "release_text env e =
     (case e of None \<Rightarrow> ''rollback release is unavailable'' | Some x \<Rightarrow> en_ReleaseText env x)"

section \<open>One pass\<close>

text \<open>The switch over the state of the rollout, once preflight and gate let it progress.\<close>

definition reconcile_state ::
  "env \<Rightarrow> claim_row \<Rightarrow> rollout_row \<Rightarrow> cohort_row list \<Rightarrow> policy \<Rightarrow> canary_policy \<Rightarrow> unit ctl" where
  "reconcile_state env claim r cohorts p canary =
     (case rl_State r of
        RolloutPending \<Rightarrow>
          ignore (transition env claim r RolloutPreparing (po_Revision p) ''preflight_passed''
            ''release, policy, and maintenance preflight passed'')
      | RolloutPreparing \<Rightarrow>
          ctl_bind (ensureAssigned env claim r (hd cohorts) (po_Revision p) False) (\<lambda>_.
          ignore (transition env claim r RolloutCanary (po_Revision p) ''canary_assigned''
            ''canary cohort assignment accepted''))
      | RolloutCanary \<Rightarrow> reconcileCanary env claim r (hd cohorts) cohorts p canary False
      | RolloutVerifying \<Rightarrow> reconcileCanary env claim r (hd cohorts) cohorts p canary True
      | RolloutRollingOut \<Rightarrow> reconcileStable env claim r cohorts p canary
      | RolloutRollingBack \<Rightarrow>
          ctl_bind (applyLifecycle env r cohorts LifecycleCancel) (\<lambda>_.
          reconcileRollback env claim r cohorts (po_Revision p))
      | _ \<Rightarrow> ctl_return ())"

definition gated ::
  "env \<Rightarrow> claim_row \<Rightarrow> rollout_row \<Rightarrow> cohort_row list \<Rightarrow> policy \<Rightarrow> unit ctl \<Rightarrow> unit ctl" where
  "gated env claim r cohorts p progress_on =
     (if rl_State r = RolloutRollingBack then progress_on
      else
        ctl_bind (ctl_now env) (\<lambda>now.
        ctl_bind (ctl_record CallGate) (\<lambda>_.
        ctl_bind (ctl_extern env GateError (\<lambda>n. en_Gate env n r p now)) (\<lambda>gate.
        if \<not> gd_Allowed gate
        then ctl_bind (applyLifecycle env r cohorts LifecyclePause) (\<lambda>_.
             ignore (transition env claim r RolloutPaused (po_Revision p) ''maintenance_gate_closed''
               (gd_Reason gate)))
        else if rl_State r \<noteq> RolloutPending
        then ctl_bind (applyLifecycle env r cohorts LifecycleResume) (\<lambda>_. progress_on)
        else progress_on))))"

definition without_policy ::
  "env \<Rightarrow> claim_row \<Rightarrow> rollout_row \<Rightarrow> cohort_row list \<Rightarrow> unit ctl" where
  "without_policy env claim r cohorts =
     (if rl_State r = RolloutRollingBack
      then ctl_bind (validateReleases env r) (\<lambda>(available, err).
           if err \<noteq> None \<or> \<not> available
           then failRollout env claim r 0 ''rollback_release_unavailable'' (release_text env err)
           else ctl_bind (applyLifecycle env r cohorts LifecycleCancel) (\<lambda>_.
                reconcileRollback env claim r cohorts 0))
      else failRollout env claim r 0 ''invalid_policy_snapshot'' (en_PolicyText env))"

definition with_policy ::
  "env \<Rightarrow> claim_row \<Rightarrow> rollout_row \<Rightarrow> cohort_row list \<Rightarrow> policy \<Rightarrow> canary_policy \<Rightarrow> unit ctl" where
  "with_policy env claim r cohorts p canary =
     ctl_bind (validateReleases env r) (\<lambda>(available, err).
     if err \<noteq> None
     then (if available \<and> rb_Automatic (po_Rollback p)
           then ignore (transition env claim r RolloutRollingBack (po_Revision p)
                  ''release_preflight_failed'' (release_text env err))
           else failRollout env claim r (po_Revision p) ''release_preflight_failed'' (release_text env err))
     else gated env claim r cohorts p (reconcile_state env claim r cohorts p canary))"

definition reconcile :: "env \<Rightarrow> claim_row \<Rightarrow> rollout_row \<Rightarrow> unit ctl" where
  "reconcile env claim r =
     ctl_bind (checkLease env claim r) (\<lambda>_.
     let policies = rolloutPolicy env (rl_PolicySnapshotJSON r) in
     ctl_bind (ctl_read env (\<lambda>db. Inr (ListRolloutCohorts (rl_ID r) db))) (\<lambda>listed.
     ctl_bind (ctl_record (CallList listed)) (\<lambda>_.
     case validateCohorts r listed of
       Inl e \<Rightarrow> failRollout env claim r (case policies of None \<Rightarrow> 0 | Some (p, _) \<Rightarrow> po_Revision p)
                  ''invalid_rollout_cohorts'' (en_CohortText env e)
     | Inr cohorts \<Rightarrow>
       if rl_State r = RolloutPaused then applyLifecycle env r cohorts LifecyclePause
       else case policies of
              None \<Rightarrow> without_policy env claim r cohorts
            | Some (p, canary) \<Rightarrow> with_policy env claim r cohorts p canary)))"

text \<open>How the cause of a cancelled context replaces the error of the pass.\<close>

definition pass_error :: "ctl_error option \<Rightarrow> ctl_error option \<Rightarrow> ctl_error option" where
  "pass_error cause err =
     (case cause of
        None \<Rightarrow> err
      | Some c \<Rightarrow> if c = LeaseLost \<or> c = RolloutChanged \<or> c = ContextCanceled then Some c
                  else if err = None then Some c else err)"

definition error_of :: "ctl_error + 'a \<Rightarrow> ctl_error option" where
  "error_of x = (case x of Inl e \<Rightarrow> Some e | Inr _ \<Rightarrow> None)"

definition option_list :: "'a option \<Rightarrow> 'a list" where
  "option_list x = (case x of None \<Rightarrow> [] | Some a \<Rightarrow> [a])"

text \<open>The release of the claim that ends a pass.\<close>

definition release_claim :: "env \<Rightarrow> claim_row \<Rightarrow> bool ctl" where
  "release_claim env claim =
     ctl_bind (ctl_record CallRelease) (\<lambda>_.
     ctl_bind (ctl_now env) (\<lambda>now.
     ctl_store env (\<lambda>uuid. transact
       (ReleaseRolloutClaim (en_ReleasePayload env) uuid (cl_RolloutID claim)
         (en_WorkerID env) (cl_LeaseToken claim) now (now + en_ReconcileInterval env)
         \<lparr>cmd_Actor = en_WorkerID env,
          cmd_Reason = ''rollout reconciliation pass finished'',
          cmd_PolicyRevision = 0,
          cmd_IdempotencyKey = ''rollout-release:'' @ cl_LeaseToken claim,
          cmd_PayloadJSON = []\<rparr>))))"

text \<open>\<open>processClaim\<close>: the errors joined into its result, none of them when it succeeds.\<close>

definition processClaim :: "env \<Rightarrow> claim_row \<Rightarrow> world \<Rightarrow> ctl_error list \<times> world" where
  "processClaim env claim w =
     (case ctl_read env (GetRollout (cl_RolloutID claim)) w of
        (Inl e, w1) \<Rightarrow> ([e], w1)
      | (Inr r, w1) \<Rightarrow>
        let (res, w2) = reconcile env claim r w1;
            err = pass_error (en_Cause env (wo_step w2)) (error_of res)
        in if err = Some LeaseLost then ([LeaseLost], w2)
           else
             let (released, w3) = release_claim env claim w2;
                 release_err = (case released of
                     Inl e \<Rightarrow> Some e
                   | Inr ok \<Rightarrow> if \<not> ok \<and> err = None then Some LeaseLost else None);
                 kept = (if err = Some RolloutChanged then None else err)
             in (option_list kept @ option_list release_err, w3))"

text \<open>\<open>RunOnce\<close>: whether a claim was processed, and the errors of the pass.\<close>

definition RunOnce :: "env \<Rightarrow> string \<Rightarrow> world \<Rightarrow> (bool \<times> ctl_error list) \<times> world" where
  "RunOnce env token w =
     (case ctl_bind (ctl_record CallClaim) (\<lambda>_.
           ctl_bind (ctl_now env) (\<lambda>now.
           ctl_store env (\<lambda>uuid. transact
             (ClaimNextRollout (en_ClaimPayload env) uuid token (en_WorkerID env) now
               (now + en_LeaseDuration env))))) w of
        (Inl e, w1) \<Rightarrow> ((False, [e]), w1)
      | (Inr None, w1) \<Rightarrow> ((False, []), w1)
      | (Inr (Some (claim, _)), w1) \<Rightarrow>
        if \<not> en_TraceOk env (wo_step w1) then ((True, [TraceFailed]), w1)
        else let (errs, w2) = processClaim env claim w1 in ((True, errs), w2))"

section \<open>Cancelling\<close>

datatype cancel_error = CancelIncomplete | CancelStore store_error | CancelTerminal

definition Cancel ::
  "string \<Rightarrow> go_time \<Rightarrow> string \<Rightarrow> int \<Rightarrow> string \<Rightarrow> string \<Rightarrow> string \<Rightarrow> database
     \<Rightarrow> (cancel_error + rollout_row) \<times> database" where
  "Cancel uuid now rolloutID expectedVersion actor reason key db =
     (if rolloutID = [] \<or> actor = [] \<or> reason = [] \<or> key = [] then (Inl CancelIncomplete, db)
      else case GetRollout rolloutID db of
        Inl e \<Rightarrow> (Inl (CancelStore e), db)
      | Inr r \<Rightarrow>
        if rl_Version r \<noteq> expectedVersion then (Inl (CancelStore VersionConflict), db)
        else if rl_State r = RolloutRollingBack then (Inr r, db)
        else if IsTerminalRolloutState (rl_State r) then (Inl CancelTerminal, db)
        else
          let to = (if rl_FromReleaseID r = [] then RolloutFailed else RolloutRollingBack) in
          case TransitionRollout uuid now (rl_ID r) (rl_Version r) to
                 \<lparr>cmd_Actor = actor, cmd_Reason = reason, cmd_PolicyRevision = 0,
                  cmd_IdempotencyKey = key,
                  cmd_PayloadJSON = ''{\"requested_action\":\"cancel\"}''\<rparr> db of
            (Inl e, db') \<Rightarrow> (Inl (CancelStore e), db')
          | (Inr x, db') \<Rightarrow> (Inr x, db'))"

section \<open>Configuration\<close>

record config =
  cf_Store :: bool
  cf_Runtime :: bool
  cf_WorkerID :: string
  cf_PollInterval :: duration
  cf_ReconcileInterval :: duration
  cf_HeartbeatInterval :: duration
  cf_LeaseDuration :: duration
  cf_CohortTimeout :: duration

definition or_default :: "duration \<Rightarrow> duration \<Rightarrow> duration" where
  "or_default d fallback = (if d = 0 then fallback else d)"

text \<open>\<open>NewController\<close>: \<open>None\<close> for an error, else the configuration with its defaults. Whether the
  store and the runtime are non-nil is a flag.\<close>

definition NewController :: "config \<Rightarrow> config option" where
  "NewController c =
     (let c1 = c\<lparr>cf_PollInterval := or_default (cf_PollInterval c) (2 * second),
                cf_ReconcileInterval := or_default (cf_ReconcileInterval c) (15 * second),
                cf_HeartbeatInterval := or_default (cf_HeartbeatInterval c) (10 * second),
                cf_LeaseDuration := or_default (cf_LeaseDuration c) (45 * second),
                cf_CohortTimeout := or_default (cf_CohortTimeout c) hour\<rparr>
      in if \<not> cf_Store c \<or> \<not> cf_Runtime c \<or> cf_WorkerID c = [] then None
         else if cf_PollInterval c1 \<le> 0 \<or> cf_ReconcileInterval c1 \<le> 0 \<or> cf_HeartbeatInterval c1 \<le> 0 \<or>
                 cf_LeaseDuration c1 \<le> wrap64 (cf_HeartbeatInterval c1 * 2) \<or> cf_CohortTimeout c1 \<le> 0
         then None
         else Some c1)"

end
