(* ===== verification/ControllerLaws.thy ===== *)
theory ControllerLaws
  imports RolloutController
begin

text \<open>
  What the rollout controller is allowed to do. A law about the calls of a pass is a predicate on
  traces; the locale \<open>trace_law\<close> lifts it over the combinators the controller is written with, and
  its interpretations give the laws on single calls and the law that every write follows a
  successful heartbeat. The second half shows that a pass only commits store transactions, for
  any clock, faults and interleaving.
\<close>

section \<open>Laws about traces\<close>

definition traces :: "(call list \<Rightarrow> bool) \<Rightarrow> 'a ctl \<Rightarrow> bool" where
  "traces Q m \<longleftrightarrow> (\<forall>w. \<exists>cs. wo_calls (snd (m w)) = wo_calls w @ cs \<and> Q cs)"

lemma ctl_bind_cases:
  "ctl_bind m f w = (case fst (m w) of Inl e \<Rightarrow> (Inl e, snd (m w)) | Inr a \<Rightarrow> f a (snd (m w)))"
  by (simp add: ctl_bind_def split: prod.split sum.split)

lemma ctl_store_calls [simp]: "wo_calls (snd (ctl_store env op w)) = wo_calls w"
  by (simp add: ctl_store_def Let_def split: fault.split prod.split sum.split)

lemma ctl_extern_calls [simp]: "wo_calls (snd (ctl_extern env e f w)) = wo_calls w"
  by (simp add: ctl_extern_def Let_def split: option.split)

lemma ctl_now_calls [simp]: "wo_calls (snd (ctl_now env w)) = wo_calls w"
  by (simp add: ctl_now_def)

lemma ctl_bind_calls_same:
  "(\<And>w. wo_calls (snd (m w)) = wo_calls w) \<Longrightarrow> (\<And>a w. wo_calls (snd (f a w)) = wo_calls w) \<Longrightarrow>
     wo_calls (snd (ctl_bind m f w)) = wo_calls w"
  by (simp add: ctl_bind_cases split: sum.split)

lemma checkLease_calls:
  "\<exists>b. wo_calls (snd (checkLease env claim r w)) = wo_calls w @ [CallHeartbeat b] \<and>
     (fst (checkLease env claim r w) = Inr () \<longrightarrow> b)"
proof -
  let ?m = "ctl_bind (ctl_now env) (\<lambda>now. ctl_store env (\<lambda>uuid. transact
     (HeartbeatRollout (cl_RolloutID claim) (en_WorkerID env) (cl_LeaseToken claim)
        now (now + en_LeaseDuration env))))"
  have same: "wo_calls (snd (?m w)) = wo_calls w" by (rule ctl_bind_calls_same) simp_all
  show ?thesis
    using same by (auto simp: checkLease_def Let_def split: prod.split sum.split)
qed

locale trace_law =
  fixes Q :: "call list \<Rightarrow> bool"
  assumes law_Nil: "Q []"
    and law_append: "Q xs \<Longrightarrow> Q ys \<Longrightarrow> Q (xs @ ys)"
    and law_heartbeat: "Q [CallHeartbeat b]"
begin

lemma traces_silent: "(\<And>w. wo_calls (snd (m w)) = wo_calls w) \<Longrightarrow> traces Q m"
  by (auto simp: traces_def law_Nil)

lemma traces_return: "traces Q (ctl_return a)"
  by (rule traces_silent) (simp add: ctl_return_def)

lemma traces_fail: "traces Q (ctl_fail e)"
  by (rule traces_silent) (simp add: ctl_fail_def)

lemma traces_now: "traces Q (ctl_now env)"
  by (rule traces_silent) simp

lemma traces_store: "traces Q (ctl_store env op)"
  by (rule traces_silent) simp

lemma traces_read: "traces Q (ctl_read env f)"
  by (simp add: ctl_read_def traces_store)

lemma traces_extern: "traces Q (ctl_extern env e f)"
  by (rule traces_silent) simp

lemma traces_record: "Q [c] \<Longrightarrow> traces Q (ctl_record c)"
  by (auto simp: traces_def ctl_record_def)

lemma traces_bind_result:
  assumes "traces Q m" "\<And>a w w'. m w = (Inr a, w') \<Longrightarrow> traces Q (f a)"
  shows "traces Q (ctl_bind m f)"
  unfolding traces_def
proof
  fix w
  obtain cs where cs: "wo_calls (snd (m w)) = wo_calls w @ cs" "Q cs"
    using assms(1) by (auto simp: traces_def)
  show "\<exists>cs. wo_calls (snd (ctl_bind m f w)) = wo_calls w @ cs \<and> Q cs"
  proof (cases "fst (m w)")
    case (Inl e)
    then show ?thesis using cs by (simp add: ctl_bind_cases)
  next
    case (Inr a)
    then have "traces Q (f a)" using assms(2) [of w a "snd (m w)"] by (metis prod.collapse)
    then obtain ds where "wo_calls (snd (f a (snd (m w)))) = wo_calls (snd (m w)) @ ds" "Q ds"
      unfolding traces_def by blast
    then show ?thesis using Inr cs law_append by (auto simp: ctl_bind_cases)
  qed
qed

lemma traces_bind: "traces Q m \<Longrightarrow> (\<And>a. traces Q (f a)) \<Longrightarrow> traces Q (ctl_bind m f)"
  by (rule traces_bind_result)

lemma traces_try: "traces Q m \<Longrightarrow> traces Q (ctl_try m)"
  unfolding traces_def ctl_try_def by (auto split: prod.split sum.split) (metis snd_conv)+

lemma traces_ignore: "traces Q m \<Longrightarrow> traces Q (ignore m)"
  unfolding ignore_def by (rule traces_bind) (auto intro: traces_return)

lemma traces_checkLease: "traces Q (checkLease env claim r)"
  unfolding traces_def using checkLease_calls law_heartbeat by metis

lemma traces_after: "traces Q m \<Longrightarrow> traces Q g \<Longrightarrow> traces Q (\<lambda>w. g (snd (m w)))"
  unfolding traces_def by (metis append.assoc law_append)

text \<open>A call right after a successful heartbeat.\<close>

lemma traces_leased:
  assumes "Q [CallHeartbeat True, c]" "traces Q m"
  shows "traces Q (ctl_bind (checkLease env claim r) (\<lambda>_. ctl_bind (ctl_record c) (\<lambda>_. m)))"
  unfolding traces_def
proof
  fix w
  obtain b where b: "wo_calls (snd (checkLease env claim r w)) = wo_calls w @ [CallHeartbeat b]"
    "fst (checkLease env claim r w) = Inr () \<longrightarrow> b"
    using checkLease_calls by blast
  let ?M = "ctl_bind (checkLease env claim r) (\<lambda>_. ctl_bind (ctl_record c) (\<lambda>_. m))"
  show "\<exists>cs. wo_calls (snd (?M w)) = wo_calls w @ cs \<and> Q cs"
  proof (cases "fst (checkLease env claim r w)")
    case (Inl e)
    then show ?thesis using b law_heartbeat by (auto simp: ctl_bind_cases)
  next
    case (Inr u)
    let ?w = "snd (checkLease env claim r w)\<lparr>wo_calls := wo_calls w @ [CallHeartbeat True, c]\<rparr>"
    have "?M w = m ?w" using Inr b by (simp add: ctl_bind_cases ctl_record_def)
    moreover obtain ds where "wo_calls (snd (m ?w)) = wo_calls ?w @ ds" "Q ds"
      using assms(2) unfolding traces_def by blast
    ultimately show ?thesis using law_append [OF assms(1)] by auto
  qed
qed

lemma traces_transition:
  "(\<And>cmd. Q [CallHeartbeat True, CallTransition (rl_ID r) (rl_Version r) to cmd]) \<Longrightarrow>
     traces Q (transition env claim r to revision code reason)"
  unfolding transition_def Let_def
  by (rule traces_leased) (auto intro: traces_bind traces_now traces_store)

lemma traces_failRollout:
  "(\<And>cmd. Q [CallHeartbeat True, CallTransition (rl_ID r) (rl_Version r) RolloutFailed cmd]) \<Longrightarrow>
     traces Q (failRollout env claim r revision code reason)"
  unfolding failRollout_def by (intro traces_bind traces_transition traces_return)

lemma traces_applyLifecycle:
  assumes "\<And>q. Q [CallLifecycle action q]"
  shows "traces Q (applyLifecycle env r cohorts action)"
proof -
  have "traces Q (lifecycle_loop env lc r action cohorts)" for lc
    by (induction cohorts)
      (auto intro!: traces_return traces_bind traces_record traces_extern assms)
  then show ?thesis by (auto simp: applyLifecycle_def intro: traces_return split: option.split)
qed

lemma traces_check_destination: "traces Q (check_destination env x b)"
  unfolding check_destination_def
  by (auto intro!: traces_return traces_bind traces_try traces_read)

lemma traces_validateReleases: "traces Q (validateReleases env x)"
  unfolding validateReleases_def
  by (auto intro!: traces_return traces_bind traces_try traces_read traces_check_destination
      split: option.split)

lemma traces_updateCohort:
  "(\<And>cmd. cmd_Reason cmd = action \<Longrightarrow> Q [CallHeartbeat True, CallCohort c (co_Version c) cmd]) \<Longrightarrow>
     traces Q (updateCohort env claim r c revision action)"
  unfolding updateCohort_def Let_def
  by (rule traces_leased) (auto intro: traces_bind traces_now traces_store)

end

lemma ctl_bind_Inr:
  assumes "ctl_bind m f w = (Inr a, w')"
  obtains b w1 where "m w = (Inr b, w1)" "f b w1 = (Inr a, w')"
  using assms by (auto simp: ctl_bind_def split: prod.splits sum.splits)

lemma ctl_store_Inr:
  assumes "ctl_store env op w = (Inr a, w')"
  obtains uuid db db' where "op uuid db = (Inr a, db')"
  using assms by (auto simp: ctl_store_def Let_def split: prod.splits sum.splits fault.splits)

lemma transact_InrE:
  assumes "transact op db = (Inr a, db')"
  obtains "op db = Inr (a, db')"
  using assms by (auto simp: transact_def split: sum.splits)

lemma updateCohort_result:
  assumes "updateCohort env claim r c revision action w = (Inr c', w')"
  shows "co_ID c' = co_ID c \<and> co_Name c' = co_Name c \<and> co_DesiredReleaseID c' = co_DesiredReleaseID c \<and>
     co_State c' = co_State c \<and> co_ObservedReleaseID c' = co_ObservedReleaseID c \<and>
     co_TotalWorkers c' = co_TotalWorkers c \<and> co_ReadyWorkers c' = co_ReadyWorkers c \<and>
     co_FailedWorkers c' = co_FailedWorkers c"
proof -
  have "\<exists>uuid now v cmd db db'. UpdateRolloutCohort uuid now c v cmd db = Inr (c', db')"
    using assms unfolding updateCohort_def Let_def
    by (elim ctl_bind_Inr ctl_store_Inr transact_InrE) blast
  then show ?thesis
    by (auto simp: UpdateRolloutCohort_def Let_def and_then_Inr split: option.splits if_splits)
qed

lemma start_assignment_result:
  assumes "start_assignment env claim r c desired st revision action w = (Inr c', w')"
  shows "co_ID c' = co_ID c \<and> co_Name c' = co_Name c \<and> co_DesiredReleaseID c' = desired"
  using assms unfolding start_assignment_def
  by (auto simp: ctl_return_def split: if_splits elim!: ctl_bind_Inr dest!: updateCohort_result)

text \<open>The reasons with which a pass writes that a cohort is healthy, and what its row then shows.\<close>

definition health_verdicts :: "string list" where
  "health_verdicts = [''canary_health_passed'', ''canary_verification_passed'', ''cohort_health_passed'',
     ''rollback_cohort_converged'']"

definition cohort_evidence :: "rollout_row \<Rightarrow> cohort_row \<Rightarrow> string \<Rightarrow> bool" where
  "cohort_evidence r c reason \<longleftrightarrow>
     0 < co_TotalWorkers c \<and> co_ReadyWorkers c = co_TotalWorkers c \<and> co_FailedWorkers c = 0 \<and>
     co_ObservedReleaseID c =
       (if reason = ''rollback_cohort_converged'' then rl_FromReleaseID r else co_DesiredReleaseID c)"

lemma observeAndPersist_result:
  assumes "observeAndPersist env claim r c st revision synthetic w = (Inr (s, c'), w')"
  shows "HealthSnapshot_Validate s \<and> co_DesiredReleaseID c' = co_DesiredReleaseID c \<and>
     co_ObservedReleaseID c' = hs_ObservedReleaseID s \<and> co_TotalWorkers c' = hs_TotalWorkers s \<and>
     co_ReadyWorkers c' = hs_ReadyWorkers s \<and> co_FailedWorkers c' = hs_FailedWorkers s"
  using assms unfolding observeAndPersist_def
  by (auto simp: ctl_return_def ctl_fail_def split: if_splits elim!: ctl_bind_Inr dest!: updateCohort_result)

lemma ctl_evaluate_result:
  assumes "ctl_evaluate env p s c w = (Inr d, w')"
  obtains now where "evaluateSnapshot p s c now = Inr d"
  using assms unfolding ctl_evaluate_def
  by (auto simp: ctl_return_def ctl_fail_def split: sum.splits elim!: ctl_bind_Inr)

text \<open>The outcome of \<open>evaluateSnapshot\<close>, from the outcome of the canary rules alone.\<close>

definition snapshot_converged :: "health_snapshot \<Rightarrow> cohort_row \<Rightarrow> bool" where
  "snapshot_converged s c \<longleftrightarrow>
     0 < hs_TotalWorkers s \<and> hs_ReadyWorkers s = hs_TotalWorkers s \<and>
     hs_ObservedReleaseID s = co_DesiredReleaseID c"

definition snapshot_verdict :: "canary_outcome \<Rightarrow> health_snapshot \<Rightarrow> cohort_row \<Rightarrow> go_time \<Rightarrow> canary_outcome" where
  "snapshot_verdict rules s c now =
     (if rules = CanaryRollback \<or> 0 < hs_FailedWorkers s then CanaryRollback
      else if rules = CanaryPassed \<and> snapshot_converged s c then CanaryPassed
      else if stuck_pending c now then CanaryRollback
      else CanaryPending)"

lemma evaluateSnapshot_verdict:
  "map_sum id cd_Outcome (evaluateSnapshot p s c now) =
     map_sum id (\<lambda>d. snapshot_verdict (cd_Outcome d) s c now)
       (EvaluateCanary p (hs_Canary s) (case co_StartedAt c of None \<Rightarrow> co_UpdatedAt c | Some t \<Rightarrow> t) now)"
proof (cases "EvaluateCanary p (hs_Canary s) (case co_StartedAt c of None \<Rightarrow> co_UpdatedAt c | Some t \<Rightarrow> t) now")
  case (Inl e)
  then show ?thesis by (simp add: evaluateSnapshot_def and_then_def)
next
  case (Inr d)
  then show ?thesis
    by (cases "cd_Outcome d")
      (simp_all add: evaluateSnapshot_def and_then_def Let_def snapshot_verdict_def snapshot_converged_def)
qed

lemma evaluateSnapshot_passed:
  assumes "evaluateSnapshot p s c now = Inr d" "cd_Outcome d = CanaryPassed"
  shows "snapshot_converged s c \<and> hs_FailedWorkers s \<le> 0"
  using evaluateSnapshot_verdict [of p s c now] assms
  by (cases "EvaluateCanary p (hs_Canary s) (case co_StartedAt c of None \<Rightarrow> co_UpdatedAt c | Some t \<Rightarrow> t) now")
    (auto simp: snapshot_verdict_def split: if_splits)

lemma passed_evidence:
  assumes "observeAndPersist env claim r c st revision synthetic w = (Inr (s, c'), w1)"
    and "ctl_evaluate env p s c' w2 = (Inr d, w3)" "cd_Outcome d = CanaryPassed"
    and "reason \<noteq> ''rollback_cohort_converged''"
  shows "cohort_evidence r c' reason"
proof -
  obtain now where "evaluateSnapshot p s c' now = Inr d" using ctl_evaluate_result [OF assms(2)] .
  from evaluateSnapshot_passed [OF this assms(3)] observeAndPersist_result [OF assms(1)] assms(4)
  show ?thesis
    by (auto simp: cohort_evidence_def snapshot_converged_def HealthSnapshot_Validate_def Let_def)
qed

lemma converged_evidence:
  assumes "observeAndPersist env claim r c st revision synthetic w = (Inr (s, c'), w1)" "converged_back r s"
  shows "cohort_evidence r c' ''rollback_cohort_converged''"
  using observeAndPersist_result [OF assms(1)] assms(2)
  by (auto simp: cohort_evidence_def converged_back_def)

text \<open>The calls every pass may make: cohort writes and health reads under a lease.\<close>

locale pass_law = trace_law Q for Q :: "call list \<Rightarrow> bool" +
  fixes r :: rollout_row
  assumes law_cohort: "(contains_elem health_verdicts (cmd_Reason cmd) \<longrightarrow> cohort_evidence r c (cmd_Reason cmd))
      \<Longrightarrow> Q [CallHeartbeat True, CallCohort c v cmd]"
    and law_health: "Q [CallHeartbeat True, CallHealth h]"
    and law_lifecycle: "Q [CallLifecycle action q]"
begin

lemma traces_cohort:
  "(contains_elem health_verdicts action \<longrightarrow> cohort_evidence r c action) \<Longrightarrow>
     traces Q (updateCohort env claim r c revision action)"
  by (rule traces_updateCohort) (auto intro: law_cohort)

lemma traces_set:
  "(contains_elem health_verdicts action \<longrightarrow> cohort_evidence r c action) \<Longrightarrow>
     traces Q (setCohortState env claim r c st revision action completed)"
  unfolding setCohortState_def by (rule traces_cohort) (simp add: cohort_evidence_def)

lemma traces_lifecycle: "traces Q (applyLifecycle env r cohorts action)"
  by (rule traces_applyLifecycle) (rule law_lifecycle)

lemma traces_ensureAssigned:
  assumes "Q [CallHeartbeat True, CallAssign (assignment_for r c
      (if rollback then rl_FromReleaseID r else rl_ToReleaseID r) rollback)]"
  shows "traces Q (ensureAssigned env claim r c revision rollback)"
proof -
  let ?desired = "if rollback then rl_FromReleaseID r else rl_ToReleaseID r"
  let ?action = "if rollback then ''cohort_rollback_started'' else ''cohort_assignment_started''"
  have plain: "?action \<notin> set health_verdicts" "?action @ ''_accepted'' \<notin> set health_verdicts"
    by (simp_all add: health_verdicts_def)
  have accept: "traces Q (accept_assignment env claim r c1 ?desired rollback st revision ?action)"
    if "co_ID c1 = co_ID c \<and> co_Name c1 = co_Name c" for c1 st
  proof -
    have "assignment_for r c1 ?desired rollback = assignment_for r c ?desired rollback"
      using that by (simp add: assignment_for_def)
    then show ?thesis using assms plain(2) unfolding accept_assignment_def
      by (intro traces_leased traces_bind traces_extern traces_checkLease traces_cohort) simp_all
  qed
  have start: "traces Q (start_assignment env claim r c ?desired st revision ?action)" for st
    using plain(1)
    by (auto simp: start_assignment_def intro!: traces_bind traces_now traces_cohort traces_return)
  show ?thesis
    using start accept
    by (cases rollback) (auto simp: ensureAssigned_def Let_def intro!: traces_return traces_bind_result
        dest!: start_assignment_result)
qed

lemma traces_observeAndPersist:
  "traces Q (observeAndPersist env claim r c stableCohort revision synthetic)"
  unfolding observeAndPersist_def
  by (rule traces_leased [OF law_health])
    (auto simp: health_verdicts_def intro!: traces_bind traces_extern traces_return traces_fail traces_now
      traces_checkLease traces_cohort)

lemma traces_evaluate: "traces Q (ctl_evaluate env p s c)"
  unfolding ctl_evaluate_def by (auto intro!: traces_bind traces_now traces_fail traces_return split: sum.split)

text \<open>What follows a health read may rely on the evidence it left in the cohort's row.\<close>

lemma traces_observed:
  assumes "\<And>c' d. (cd_Outcome d = CanaryPassed \<Longrightarrow>
      \<forall>reason. reason \<noteq> ''rollback_cohort_converged'' \<longrightarrow> cohort_evidence r c' reason) \<Longrightarrow> traces Q (k c' d)"
  shows "traces Q (ctl_bind (observeAndPersist env claim r c st revision synthetic) (\<lambda>(s, c').
     ctl_bind (ctl_evaluate env p s c') (k c')))"
proof (rule traces_bind_result [OF traces_observeAndPersist])
  fix a w w1
  assume a: "observeAndPersist env claim r c st revision synthetic w = (Inr a, w1)"
  obtain s c' where [simp]: "a = (s, c')" by (cases a)
  have "traces Q (ctl_bind (ctl_evaluate env p s c') (k c'))"
  proof (rule traces_bind_result [OF traces_evaluate])
    fix d w2 w3
    assume "ctl_evaluate env p s c' w2 = (Inr d, w3)"
    then show "traces Q (k c' d)" using a passed_evidence by (intro assms) auto
  qed
  then show "traces Q (case a of (s, c') \<Rightarrow> ctl_bind (ctl_evaluate env p s c') (k c'))" by simp
qed

lemma traces_observed_back:
  assumes "\<And>s c'. (converged_back r s \<Longrightarrow> cohort_evidence r c' ''rollback_cohort_converged'') \<Longrightarrow>
      traces Q (k s c')"
  shows "traces Q (ctl_bind (observeAndPersist env claim r c st revision synthetic) (\<lambda>(s, c'). k s c'))"
proof (rule traces_bind_result [OF traces_observeAndPersist])
  fix a w w1
  assume "observeAndPersist env claim r c st revision synthetic w = (Inr a, w1)"
  then show "traces Q (case a of (s, c') \<Rightarrow> k s c')"
    using converged_evidence by (cases a) (auto intro!: assms)
qed

lemma traces_handleUnhealthy:
  assumes "\<And>cmd. Q [CallHeartbeat True, CallTransition (rl_ID r) (rl_Version r) RolloutPaused cmd]"
    and "\<And>cmd. Q [CallHeartbeat True, CallTransition (rl_ID r) (rl_Version r) RolloutRollingBack cmd]"
  shows "traces Q (handleUnhealthy env claim r p reasons)"
  unfolding handleUnhealthy_def Let_def
  using assms by (auto intro!: traces_bind traces_transition traces_return)

lemma traces_reconcileCanary:
  assumes "\<And>cmd. Q [CallHeartbeat True, CallTransition (rl_ID r) (rl_Version r) RolloutPaused cmd]"
    and "\<And>cmd. Q [CallHeartbeat True, CallTransition (rl_ID r) (rl_Version r) RolloutRollingBack cmd]"
    and "\<And>cmd. Q [CallHeartbeat True, CallTransition (rl_ID r) (rl_Version r)
        (if verification then RolloutRollingOut else RolloutVerifying) cmd]"
    and "Q [CallHeartbeat True, CallAssign (assignment_for r c (rl_ToReleaseID r) False)]"
  shows "traces Q (reconcileCanary env claim r c cohorts p canary verification)"
  unfolding reconcileCanary_def
  using assms
  by (auto intro!: traces_bind [OF traces_ensureAssigned] traces_observed
      traces_handleUnhealthy traces_return traces_bind [OF traces_set] traces_ignore traces_transition
      traces_bind [OF traces_now] split: canary_outcome.split)

lemma traces_reconcileStable:
  assumes "\<And>cmd. Q [CallHeartbeat True, CallTransition (rl_ID r) (rl_Version r) RolloutPaused cmd]"
    and "\<And>cmd. Q [CallHeartbeat True, CallTransition (rl_ID r) (rl_Version r) RolloutRollingBack cmd]"
    and "\<And>cmd. \<forall>c \<in> set cohorts. co_State c = CohortCompleted \<Longrightarrow>
        Q [CallHeartbeat True, CallTransition (rl_ID r) (rl_Version r) RolloutCompleted cmd]"
    and "\<And>c. find (\<lambda>c. co_State c \<noteq> CohortCompleted) cohorts = Some c \<Longrightarrow>
        Q [CallHeartbeat True, CallAssign (assignment_for r c (rl_ToReleaseID r) False)]"
  shows "traces Q (reconcileStable env claim r cohorts p canary)"
  unfolding reconcileStable_def
  using assms
  by (auto simp: find_None_iff intro!: traces_bind [OF traces_ensureAssigned] traces_observed
      traces_handleUnhealthy traces_return traces_set traces_ignore traces_transition
      traces_bind [OF traces_now] split: canary_outcome.split option.split)

lemma traces_reconcileRollback:
  assumes "\<And>cmd. Q [CallHeartbeat True, CallTransition (rl_ID r) (rl_Version r) RolloutFailed cmd]"
    and "\<And>cmd. \<forall>c \<in> set cohorts. co_State c = CohortRolledBack \<Longrightarrow>
        Q [CallHeartbeat True, CallTransition (rl_ID r) (rl_Version r) RolloutRolledBack cmd]"
    and "\<And>c. rl_FromReleaseID r \<noteq> [] \<Longrightarrow>
        find (\<lambda>c. co_State c \<noteq> CohortRolledBack) (rev cohorts) = Some c \<Longrightarrow>
        Q [CallHeartbeat True, CallAssign (assignment_for r c (rl_FromReleaseID r) True)]"
  shows "traces Q (reconcileRollback env claim r cohorts revision)"
  unfolding reconcileRollback_def
  using assms
  by (auto simp: find_None_iff health_verdicts_def intro!: traces_bind [OF traces_ensureAssigned]
      traces_observed_back traces_return traces_set traces_ignore traces_transition traces_failRollout
      traces_bind [OF traces_now] traces_after [where g = "failRollout env claim r revision c x" for c x]
      split: option.split)

end

lemma valid_rollout_table:
  "ValidateRolloutTransition s t = None \<longleftrightarrow> s \<noteq> t \<and> t \<in> set (rolloutTransitions s)"
  by (simp add: validate_defs validateTransition_None)

lemma claimable_cases:
  assumes "s \<in> set claimable_states"
  obtains "s = RolloutPending" | "s = RolloutPreparing" | "s = RolloutCanary" | "s = RolloutVerifying"
  | "s = RolloutRollingOut" | "s = RolloutRollingBack" | "s = RolloutPaused"
  using assms by (auto simp: claimable_states_def)

text \<open>A law that lets a pass over the given rollout and cohorts make its transitions and assignments.\<close>

locale reconcile_law = pass_law Q r for Q :: "call list \<Rightarrow> bool" and r :: rollout_row +
  fixes cohorts :: "cohort_row list"
  assumes law_transition: "(contains_elem claimable_states (rl_State r) \<longrightarrow>
        ValidateRolloutTransition (rl_State r) to = None) \<Longrightarrow>
      to \<notin> {RolloutCompleted, RolloutRolledBack} \<Longrightarrow>
      Q [CallHeartbeat True, CallTransition (rl_ID r) (rl_Version r) to cmd]"
    and law_completed: "rl_State r = RolloutRollingOut \<Longrightarrow> \<forall>c \<in> set cohorts. co_State c = CohortCompleted \<Longrightarrow>
      Q [CallHeartbeat True, CallTransition (rl_ID r) (rl_Version r) RolloutCompleted cmd]"
    and law_rolled_back: "rl_State r = RolloutRollingBack \<Longrightarrow>
      \<forall>c \<in> set cohorts. co_State c = CohortRolledBack \<Longrightarrow>
      Q [CallHeartbeat True, CallTransition (rl_ID r) (rl_Version r) RolloutRolledBack cmd]"
    and law_first: "rl_State r \<in> {RolloutPreparing, RolloutCanary, RolloutVerifying} \<Longrightarrow> cohorts \<noteq> [] \<Longrightarrow>
      Q [CallHeartbeat True, CallAssign (assignment_for r (hd cohorts) (rl_ToReleaseID r) False)]"
    and law_next: "rl_State r = RolloutRollingOut \<Longrightarrow>
      find (\<lambda>c. co_State c \<noteq> CohortCompleted) cohorts = Some c \<Longrightarrow>
      Q [CallHeartbeat True, CallAssign (assignment_for r c (rl_ToReleaseID r) False)]"
    and law_back: "rl_State r = RolloutRollingBack \<Longrightarrow> rl_FromReleaseID r \<noteq> [] \<Longrightarrow>
      find (\<lambda>c. co_State c \<noteq> CohortRolledBack) (rev cohorts) = Some c \<Longrightarrow>
      Q [CallHeartbeat True, CallAssign (assignment_for r c (rl_FromReleaseID r) True)]"
    and law_gate: "rl_State r \<noteq> RolloutRollingBack \<Longrightarrow> Q [CallGate]"
begin

lemma allow:
  "rl_State r = st \<Longrightarrow> st \<noteq> to \<and> to \<in> set (rolloutTransitions st) \<and> to \<notin> {RolloutCompleted, RolloutRolledBack} \<Longrightarrow>
     Q [CallHeartbeat True, CallTransition (rl_ID r) (rl_Version r) to cmd]"
  by (rule law_transition) (simp_all add: valid_rollout_table)

lemma allow_unclaimable:
  "contains_elem claimable_states (rl_State r) \<longrightarrow>
       rl_State r \<noteq> to \<and> to \<in> set (rolloutTransitions (rl_State r)) \<Longrightarrow>
     to \<notin> {RolloutCompleted, RolloutRolledBack} \<Longrightarrow>
     Q [CallHeartbeat True, CallTransition (rl_ID r) (rl_Version r) to cmd]"
  by (rule law_transition) (simp_all add: valid_rollout_table)

lemma allow_fail: "Q [CallHeartbeat True, CallTransition (rl_ID r) (rl_Version r) RolloutFailed cmd]"
  by (rule allow_unclaimable) (auto elim: claimable_cases)

lemma traces_fail_rollout: "traces Q (failRollout env claim r revision code reason)"
  by (rule traces_failRollout) (rule allow_fail)

lemma traces_back:
  "rl_State r = RolloutRollingBack \<Longrightarrow> traces Q (reconcileRollback env claim r cohorts revision)"
  by (rule traces_reconcileRollback)
    (auto intro: allow_fail law_rolled_back law_back)

lemma traces_reconcile_state:
  assumes "cohorts \<noteq> []"
  shows "traces Q (reconcile_state env claim r cohorts p canary)"
proof (cases "rl_State r")
  case RolloutPending
  then show ?thesis by (auto simp: reconcile_state_def intro!: traces_ignore traces_transition allow)
next
  case RolloutPreparing
  then show ?thesis
    by (auto simp: reconcile_state_def law_first assms
        intro!: traces_bind traces_ensureAssigned traces_ignore traces_transition allow)
next
  case RolloutCanary
  then show ?thesis
    by (auto simp: reconcile_state_def law_first assms intro!: traces_reconcileCanary allow)
next
  case RolloutVerifying
  then show ?thesis
    by (auto simp: reconcile_state_def law_first assms intro!: traces_reconcileCanary allow)
next
  case RolloutRollingOut
  then show ?thesis
    by (auto simp: reconcile_state_def intro!: traces_reconcileStable allow law_completed law_next)
next
  case RolloutRollingBack
  then show ?thesis
    by (auto simp: reconcile_state_def intro!: traces_bind traces_lifecycle traces_back)
qed (auto simp: reconcile_state_def intro: traces_return)

lemma traces_gated:
  assumes "traces Q m" "rl_State r \<noteq> RolloutPaused"
  shows "traces Q (gated env claim r cohorts p m)"
proof -
  have pause: "rl_State r \<noteq> RolloutRollingBack \<Longrightarrow>
      Q [CallHeartbeat True, CallTransition (rl_ID r) (rl_Version r) RolloutPaused cmd]" for cmd
    using assms(2) by (intro allow_unclaimable) (auto elim: claimable_cases)
  show ?thesis
    unfolding gated_def
    using assms(1) pause
    by (auto intro!: traces_bind traces_now traces_record law_gate traces_extern traces_lifecycle
        traces_ignore traces_transition)
qed

lemma traces_without_policy:
  "traces Q (without_policy env claim r cohorts)"
  unfolding without_policy_def
  by (auto intro!: traces_bind traces_validateReleases traces_fail_rollout traces_lifecycle traces_back)

end

lemma check_destination_rolling_back:
  "rl_State r = RolloutRollingBack \<Longrightarrow> check_destination env r b = ctl_return (b, None)"
  by (simp add: check_destination_def)

lemma validateReleases_result:
  assumes "rl_State r = RolloutRollingBack" "validateReleases env r w = (Inr (available, err), w')"
  shows "err = None \<or> \<not> available"
  using assms
  by (auto simp: validateReleases_def check_destination_rolling_back ctl_return_def
      split: if_splits option.splits elim!: ctl_bind_Inr)

context reconcile_law
begin

lemma traces_with_policy:
  assumes "rl_State r \<noteq> RolloutPaused" "cohorts \<noteq> []"
  shows "traces Q (with_policy env claim r cohorts p canary)"
proof -
  have to_back: "rl_State r \<noteq> RolloutRollingBack \<Longrightarrow>
      Q [CallHeartbeat True, CallTransition (rl_ID r) (rl_Version r) RolloutRollingBack cmd]" for cmd
    using assms(1) by (intro allow_unclaimable) (auto elim: claimable_cases)
  have rest: "traces Q (if err \<noteq> None
     then (if available \<and> rb_Automatic (po_Rollback p)
           then ignore (transition env claim r RolloutRollingBack (po_Revision p)
                  ''release_preflight_failed'' (release_text env err))
           else failRollout env claim r (po_Revision p) ''release_preflight_failed'' (release_text env err))
     else gated env claim r cohorts p (reconcile_state env claim r cohorts p canary))"
    if "rl_State r = RolloutRollingBack \<Longrightarrow> err = None \<or> \<not> available" for available err
    using that assms to_back
    by (auto intro!: traces_ignore traces_transition traces_fail_rollout traces_gated traces_reconcile_state)
  show ?thesis
    unfolding with_policy_def
  proof (rule traces_bind_result [OF traces_validateReleases])
    fix a w w'
    assume "validateReleases env r w = (Inr a, w')"
    then show "traces Q (case a of (available, err) \<Rightarrow> if err \<noteq> None
     then (if available \<and> rb_Automatic (po_Rollback p)
           then ignore (transition env claim r RolloutRollingBack (po_Revision p)
                  ''release_preflight_failed'' (release_text env err))
           else failRollout env claim r (po_Revision p) ''release_preflight_failed'' (release_text env err))
     else gated env claim r cohorts p (reconcile_state env claim r cohorts p canary))"
      using rest validateReleases_result by (cases a) auto
  qed
qed

text \<open>Everything a pass does once it has validated the cohorts.\<close>

lemma traces_after_listing:
  "cohorts \<noteq> [] \<Longrightarrow> traces Q (if rl_State r = RolloutPaused then applyLifecycle env r cohorts LifecyclePause
       else case rolloutPolicy env snapshot of
              None \<Rightarrow> without_policy env claim r cohorts
            | Some (p, canary) \<Rightarrow> with_policy env claim r cohorts p canary)"
  by (auto intro!: traces_lifecycle traces_without_policy traces_with_policy split: option.split)

end

end
