(* ===== verification/ControllerSafety.thy ===== *)
theory ControllerSafety
  imports ControllerLaws
begin

text \<open>
  The laws of \<open>ControllerLaws\<close> on the controller itself, with a store, a clock, a runtime, faults
  and other processes that are arbitrary: what a pass may request (\<open>permitted\<close>), that each of its
  writes directly follows a successful heartbeat (\<open>guarded\<close>), what it may still do behind a closed
  gate (\<open>held\<close>), and that all it does to the database is to commit transactions of the store. The
  last part runs a pass on a concrete store.
\<close>

section \<open>The parts of a pass\<close>

text \<open>The cohorts a pass works on: the listed ones in the order of their ordinals.\<close>

fun seen_cohorts :: "call list \<Rightarrow> cohort_row list" where
  "seen_cohorts [] = []"
| "seen_cohorts (CallList cs # calls) = sort_key co_Ordinal cs"
| "seen_cohorts (c # calls) = seen_cohorts calls"

lemma validateCohorts_result:
  assumes "validateCohorts r listed = Inr cohorts"
  shows "cohorts = sort_key co_Ordinal listed" "cohorts \<noteq> []"
proof -
  show "cohorts = sort_key co_Ordinal listed"
    using assms by (auto simp: validateCohorts_def Let_def split: if_splits option.splits)
  moreover have "listed \<noteq> []" using assms by (auto simp: validateCohorts_def)
  ultimately show "cohorts \<noteq> []" by simp
qed

definition listed_pass :: "env \<Rightarrow> claim_row \<Rightarrow> rollout_row \<Rightarrow> cohort_row list \<Rightarrow> unit ctl" where
  "listed_pass env claim r listed =
     (case validateCohorts r listed of
       Inl e \<Rightarrow> failRollout env claim r
         (case rolloutPolicy env (rl_PolicySnapshotJSON r) of None \<Rightarrow> 0 | Some (p, _) \<Rightarrow> po_Revision p)
         ''invalid_rollout_cohorts'' (en_CohortText env e)
     | Inr cohorts \<Rightarrow>
       if rl_State r = RolloutPaused then applyLifecycle env r cohorts LifecyclePause
       else case rolloutPolicy env (rl_PolicySnapshotJSON r) of
              None \<Rightarrow> without_policy env claim r cohorts
            | Some (p, canary) \<Rightarrow> with_policy env claim r cohorts p canary)"

lemma reconcile_listed:
  "reconcile env claim r =
     ctl_bind (checkLease env claim r) (\<lambda>_.
     ctl_bind (ctl_read env (\<lambda>db. Inr (ListRolloutCohorts (rl_ID r) db))) (\<lambda>listed.
     ctl_bind (ctl_record (CallList listed)) (\<lambda>_. listed_pass env claim r listed)))"
  by (simp add: reconcile_def listed_pass_def Let_def)

text \<open>A pass ends at its first heartbeat or its list, or goes on with the listed cohorts.\<close>

lemma reconcile_calls:
  obtains (ended) b where "wo_calls (snd (reconcile env claim r w)) = wo_calls w @ [CallHeartbeat b]"
  | (listed) b cs w1 where
      "wo_calls (snd (reconcile env claim r w)) = wo_calls (snd (listed_pass env claim r cs w1))"
      "wo_calls w1 = wo_calls w @ [CallHeartbeat b, CallList cs]"
proof -
  obtain b where b: "wo_calls (snd (checkLease env claim r w)) = wo_calls w @ [CallHeartbeat b]"
    using checkLease_calls by blast
  let ?read = "ctl_read env (\<lambda>db. Inr (ListRolloutCohorts (rl_ID r) db)) (snd (checkLease env claim r w))"
  have read: "wo_calls (snd ?read) = wo_calls w @ [CallHeartbeat b]" by (simp add: ctl_read_def b)
  show thesis
  proof (cases "fst (checkLease env claim r w)")
    case (Inl e)
    then show thesis using b by (intro ended [of b]) (simp add: reconcile_listed ctl_bind_cases)
  next
    case ok: (Inr u)
    show thesis
    proof (cases "fst ?read")
      case (Inl e)
      then show thesis using ok read by (intro ended [of b]) (simp add: reconcile_listed ctl_bind_cases)
    next
      case (Inr cs)
      then show thesis
        using ok read
        by (intro listed [of cs "(snd ?read)\<lparr>wo_calls := wo_calls (snd ?read) @ [CallList cs]\<rparr>" b])
          (simp_all add: reconcile_listed ctl_bind_cases ctl_record_def)
    qed
  qed
qed

context reconcile_law
begin

lemma traces_listed: "cohorts = sort_key co_Ordinal listed \<Longrightarrow> traces Q (listed_pass env claim r listed)"
proof (cases "validateCohorts r listed")
  case (Inl e)
  then show ?thesis by (simp add: listed_pass_def traces_fail_rollout)
next
  case (Inr cs)
  assume "cohorts = sort_key co_Ordinal listed"
  then have "cs = cohorts" "cohorts \<noteq> []" using validateCohorts_result [OF Inr] by simp_all
  then show ?thesis using Inr by (simp add: listed_pass_def traces_after_listing)
qed

end

lemma ctl_read_calls [simp]: "wo_calls (snd (ctl_read env f w)) = wo_calls w"
  by (simp add: ctl_read_def)

lemma processClaim_cases:
  obtains (unread) "snd (processClaim env claim w) = snd (ctl_read env (GetRollout (cl_RolloutID claim)) w)"
  | (lost) r where "snd (processClaim env claim w) =
      snd (reconcile env claim r (snd (ctl_read env (GetRollout (cl_RolloutID claim)) w)))"
  | (released) r where "snd (processClaim env claim w) = snd (release_claim env claim
      (snd (reconcile env claim r (snd (ctl_read env (GetRollout (cl_RolloutID claim)) w)))))"
proof -
  obtain loaded w1 where read: "ctl_read env (GetRollout (cl_RolloutID claim)) w = (loaded, w1)"
    by (cases "ctl_read env (GetRollout (cl_RolloutID claim)) w")
  show thesis
  proof (cases loaded)
    case (Inl e)
    then show thesis using read by (intro unread) (simp add: processClaim_def)
  next
    case (Inr r)
    obtain res w2 where pass: "reconcile env claim r w1 = (res, w2)" by (cases "reconcile env claim r w1")
    obtain ok w3 where rel: "release_claim env claim w2 = (ok, w3)" by (cases "release_claim env claim w2")
    show thesis
      using lost [of r] released [of r] Inr
      by (cases "pass_error (en_Cause env (wo_step w2)) (error_of res) = Some LeaseLost")
        (simp_all add: processClaim_def read pass rel Let_def)
  qed
qed

context trace_law
begin

lemma traces_reconcile:
  assumes "\<And>cs. Q [CallList cs]" "\<And>cs. traces Q (listed_pass env claim r cs)"
  shows "traces Q (reconcile env claim r)"
  unfolding reconcile_listed
  by (intro traces_bind traces_checkLease traces_read traces_record assms)

lemma processClaim_calls:
  assumes "\<And>r. traces Q (reconcile env claim r)" "Q [CallRelease]"
  shows "\<exists>cs. wo_calls (snd (processClaim env claim w)) = wo_calls w @ cs \<and> Q cs"
proof -
  have release: "traces Q (release_claim env claim)"
    unfolding release_claim_def by (intro traces_bind traces_record traces_now traces_store assms(2))
  let ?w1 = "snd (ctl_read env (GetRollout (cl_RolloutID claim)) w)"
  have same: "wo_calls ?w1 = wo_calls w" by simp
  show ?thesis
  proof (cases rule: processClaim_cases [of env claim w])
    case unread
    then show ?thesis using same by (simp add: law_Nil)
  next
    case (lost r)
    then show ?thesis using assms(1) [of r] same unfolding traces_def by metis
  next
    case (released r)
    then show ?thesis using traces_after [OF assms(1) [of r] release] same unfolding traces_def by metis
  qed
qed

lemma RunOnce_calls:
  assumes "\<And>claim r. traces Q (reconcile env claim r)" "Q [CallClaim]" "Q [CallRelease]"
  shows "\<exists>cs. wo_calls (snd (RunOnce env token w)) = wo_calls w @ cs \<and> Q cs"
proof -
  let ?claim = "ctl_bind (ctl_record CallClaim) (\<lambda>_. ctl_bind (ctl_now env) (\<lambda>now.
     ctl_store env (\<lambda>uuid. transact (ClaimNextRollout (en_ClaimPayload env) uuid token
       (en_WorkerID env) now (now + en_LeaseDuration env)))))"
  have "traces Q ?claim" by (intro traces_bind traces_record traces_now traces_store assms(2))
  then obtain cs where cs: "wo_calls (snd (?claim w)) = wo_calls w @ cs" "Q cs"
    by (auto simp: traces_def)
  obtain res w1 where claimed: "?claim w = (res, w1)" by (cases "?claim w")
  have "\<exists>ds. wo_calls (snd (RunOnce env token w)) = wo_calls w1 @ ds \<and> Q ds"
    using processClaim_calls [OF assms(1,3)]
    by (auto simp: RunOnce_def claimed law_Nil split: sum.split option.split prod.split) (metis snd_conv)
  then show ?thesis using cs claimed law_append by (auto simp: claimed)
qed

end

section \<open>The laws\<close>

text \<open>A cohort is assigned forward once every cohort before it is completed, and back once every
  cohort after it is rolled back.\<close>

definition next_forward :: "rollout_row \<Rightarrow> cohort_row list \<Rightarrow> assignment_request \<Rightarrow> bool" where
  "next_forward r cs a \<longleftrightarrow> list_ex (\<lambda>i. a = assignment_for r (cs ! i) (rl_ToReleaseID r) False \<and>
     list_all (\<lambda>c. co_State c = CohortCompleted) (take i cs)) [0..<length cs]"

definition next_back :: "rollout_row \<Rightarrow> cohort_row list \<Rightarrow> assignment_request \<Rightarrow> bool" where
  "next_back r cs a \<longleftrightarrow> list_ex (\<lambda>i. a = assignment_for r (cs ! i) (rl_FromReleaseID r) True \<and>
     list_all (\<lambda>c. co_State c = CohortRolledBack) (drop (Suc i) cs)) [0..<length cs]"

fun permitted :: "rollout_row \<Rightarrow> cohort_row list \<Rightarrow> call \<Rightarrow> bool" where
  "permitted r cs (CallTransition i v to cmd) \<longleftrightarrow>
     i = rl_ID r \<and> v = rl_Version r \<and>
     (contains_elem claimable_states (rl_State r) \<longrightarrow> ValidateRolloutTransition (rl_State r) to = None) \<and>
     (to = RolloutCompleted \<longrightarrow> list_all (\<lambda>c. co_State c = CohortCompleted) cs) \<and>
     (to = RolloutRolledBack \<longrightarrow> list_all (\<lambda>c. co_State c = CohortRolledBack) cs)"
| "permitted r cs (CallCohort c v cmd) \<longleftrightarrow>
     (contains_elem health_verdicts (cmd_Reason cmd) \<longrightarrow> cohort_evidence r c (cmd_Reason cmd))"
| "permitted r cs (CallAssign a) \<longleftrightarrow>
     (if rl_State r = RolloutRollingBack then next_back r cs a else next_forward r cs a)"
| "permitted r cs CallGate \<longleftrightarrow> rl_State r \<noteq> RolloutRollingBack"
| "permitted r cs _ \<longleftrightarrow> True"

text \<open>\<open>guarded b\<close>: every write and assignment comes right after a heartbeat that was current.\<close>

fun guarded :: "bool \<Rightarrow> call list \<Rightarrow> bool" where
  "guarded b [] \<longleftrightarrow> True"
| "guarded b (CallHeartbeat ok # cs) \<longleftrightarrow> guarded ok cs"
| "guarded b (CallTransition i v to cmd # cs) \<longleftrightarrow> b \<and> guarded False cs"
| "guarded b (CallCohort c v cmd # cs) \<longleftrightarrow> b \<and> guarded False cs"
| "guarded b (CallAssign a # cs) \<longleftrightarrow> b \<and> guarded False cs"
| "guarded b (CallHealth h # cs) \<longleftrightarrow> b \<and> guarded False cs"
| "guarded b (c # cs) \<longleftrightarrow> guarded False cs"

text \<open>What a pass may still do behind a closed gate.\<close>

fun held :: "call \<Rightarrow> bool" where
  "held (CallTransition i v to cmd) \<longleftrightarrow> to = RolloutPaused \<or> to = RolloutFailed \<or> to = RolloutRollingBack"
| "held (CallCohort c v cmd) \<longleftrightarrow> False"
| "held (CallAssign a) \<longleftrightarrow> False"
| "held (CallHealth h) \<longleftrightarrow> False"
| "held (CallLifecycle action q) \<longleftrightarrow> action = LifecyclePause"
| "held _ \<longleftrightarrow> True"

lemma find_first:
  assumes "find P xs = Some x"
  obtains i where "i < length xs" "xs ! i = x" "list_all (\<lambda>y. \<not> P y) (take i xs)"
  using assms by (auto simp: find_Some_iff list_all_length)

lemma find_last:
  assumes "find P (rev xs) = Some x"
  obtains i where "i < length xs" "xs ! i = x" "list_all (\<lambda>y. \<not> P y) (drop (Suc i) xs)"
proof -
  obtain j where j: "j < length (rev xs)" "rev xs ! j = x" "list_all (\<lambda>y. \<not> P y) (take j (rev xs))"
    using find_first [OF assms] by blast
  let ?i = "length xs - Suc j"
  have "Suc ?i = length xs - j" using j(1) by simp
  then have "list_all (\<lambda>y. \<not> P y) (drop (Suc ?i) xs)" using j(3) by (simp add: take_rev list_all_iff)
  then show thesis using that [of ?i] j(1,2) by (simp add: rev_nth)
qed

lemma next_forward_find:
  "find (\<lambda>c. co_State c \<noteq> CohortCompleted) cs = Some c \<Longrightarrow>
     next_forward r cs (assignment_for r c (rl_ToReleaseID r) False)"
  by (erule find_first) (auto simp: next_forward_def list_ex_iff)

lemma next_forward_hd: "cs \<noteq> [] \<Longrightarrow> next_forward r cs (assignment_for r (hd cs) (rl_ToReleaseID r) False)"
  by (auto simp: next_forward_def list_ex_iff hd_conv_nth intro!: bexI [of _ 0])

lemma next_back_find:
  "find (\<lambda>c. co_State c \<noteq> CohortRolledBack) (rev cs) = Some c \<Longrightarrow>
     next_back r cs (assignment_for r c (rl_FromReleaseID r) True)"
  by (erule find_last) (auto simp: next_back_def list_ex_iff)

lemma guarded_weaken: "guarded False cs \<Longrightarrow> guarded b cs"
  by (cases "(False, cs)" rule: guarded.cases) auto

lemma guarded_append: "guarded b xs \<Longrightarrow> guarded False ys \<Longrightarrow> guarded b (xs @ ys)"
  by (induction b xs rule: guarded.induct) (auto intro: guarded_weaken)

interpretation permitted_law: reconcile_law "list_all (permitted r cs)" r cs for r cs
  by unfold_locales
    (auto simp: valid_rollout_table list_all_iff next_forward_find next_forward_hd next_back_find)

interpretation guarded_law: reconcile_law "guarded False" r cs for r cs
  by unfold_locales (auto intro: guarded_append)

interpretation held_law: trace_law "list_all held"
  by unfold_locales auto

text \<open>Behind a closed gate.\<close>

definition gate_closed :: "env \<Rightarrow> rollout_row \<Rightarrow> bool" where
  "gate_closed env r \<longleftrightarrow> (\<forall>n p now d. en_Gate env n r p now = Some d \<longrightarrow> \<not> gd_Allowed d)"

lemma ctl_extern_Inr:
  assumes "ctl_extern env e f w = (Inr a, w')"
  obtains n where "f n = Some a"
  using assms by (auto simp: ctl_extern_def Let_def split: if_splits option.splits)

lemma held_transition:
  "to \<in> {RolloutPaused, RolloutFailed, RolloutRollingBack} \<Longrightarrow>
     traces (list_all held) (transition env claim r to revision code reason)"
  by (rule held_law.traces_transition) auto

lemma held_fail: "traces (list_all held) (failRollout env claim r revision code reason)"
  by (rule held_law.traces_failRollout) simp

lemma held_pause: "traces (list_all held) (applyLifecycle env r cohorts LifecyclePause)"
  by (rule held_law.traces_applyLifecycle) simp

lemma held_gated:
  assumes "rl_State r \<noteq> RolloutRollingBack" "gate_closed env r"
  shows "traces (list_all held) (gated env claim r cohorts p m)"
proof -
  have closed: "traces (list_all held) (if \<not> gd_Allowed d
        then ctl_bind (applyLifecycle env r cohorts LifecyclePause) (\<lambda>_.
             ignore (transition env claim r RolloutPaused (po_Revision p) ''maintenance_gate_closed''
               (gd_Reason d)))
        else q)"
    if "ctl_extern env GateError (\<lambda>n. en_Gate env n r p now) w = (Inr d, w')" for now w d w' q
  proof -
    have "\<not> gd_Allowed d" using that assms(2) by (auto simp: gate_closed_def elim: ctl_extern_Inr)
    then show ?thesis
      by (auto intro!: held_law.traces_bind held_pause held_law.traces_ignore held_transition)
  qed
  show ?thesis
    unfolding gated_def if_not_P [OF assms(1)]
    by (rule held_law.traces_bind [OF held_law.traces_now],
        rule held_law.traces_bind [OF held_law.traces_record], simp,
        rule held_law.traces_bind_result [OF held_law.traces_extern], rule closed)
qed

lemma held_listed:
  assumes "rl_State r \<noteq> RolloutRollingBack" "gate_closed env r"
  shows "traces (list_all held) (listed_pass env claim r listed)"
  using assms
  by (auto simp: listed_pass_def without_policy_def with_policy_def
      intro!: held_fail held_pause held_gated held_transition held_law.traces_ignore held_law.traces_bind
        held_law.traces_validateReleases split: sum.split option.split)

section \<open>Properties of a pass\<close>

text \<open>C13: Whatever the store, the runtime, the clock, the faults and the other processes do, a pass
  requests only transitions of its own rollout at the version it loaded. When the state it loaded is
  one that rollouts are claimed in, the transition table allows every transition it requests. (A
  rollout that ended between the claim and the load is the exception: the pass may still ask for a
  change of it, for example to pause it behind a closed gate, and only the check of the store refuses
  that.) In every state it completes
  the rollout only when every cohort it listed is completed and reports it rolled back only when every
  one is rolled back; it assigns a cohort forward only after all cohorts before it are completed and
  back only after all cohorts after it are rolled back; it writes a cohort as healthy, completed or
  rolled back only with the evidence for it in the same row; and it never asks the gate during a
  rollback.\<close>

theorem pass_requests_permitted:
  "\<exists>calls. wo_calls (snd (reconcile env claim r w)) = wo_calls w @ calls \<and>
     list_all (permitted r (seen_cohorts calls)) calls"
proof (cases rule: reconcile_calls [of env claim r w])
  case (ended b)
  then show ?thesis by (intro exI [of _ "[CallHeartbeat b]"]) simp
next
  case (listed b cs w1)
  have "traces (list_all (permitted r (sort_key co_Ordinal cs))) (listed_pass env claim r cs)"
    by (rule permitted_law.traces_listed) simp
  then obtain ds where "wo_calls (snd (listed_pass env claim r cs w1)) = wo_calls w1 @ ds"
    "list_all (permitted r (sort_key co_Ordinal cs)) ds"
    by (auto simp: traces_def)
  then show ?thesis
    using listed by (intro exI [of _ "[CallHeartbeat b, CallList cs] @ ds"]) simp
qed

text \<open>C2: Every transition, cohort write, assignment and health read of a pass comes directly after a
  heartbeat of its claim that the store confirmed: no other call of the pass is in between.\<close>

theorem writes_follow_heartbeat:
  "\<exists>calls. wo_calls (snd (RunOnce env token w)) = wo_calls w @ calls \<and> guarded False calls"
proof (rule guarded_law.RunOnce_calls)
  fix claim r
  show "traces (guarded False) (reconcile env claim r)"
    by (rule guarded_law.traces_reconcile) (auto intro: guarded_law.traces_listed)
qed simp_all

text \<open>C14: While the gate does not let a rollout progress, a pass over a rollout that it loaded in any
  state but rolling back assigns nothing, reads no health, writes no cohort and resumes or cancels no
  workload; the only transitions it can request are to paused, failed or rolling back. A rollout that
  is rolling back is excluded: a rollback ignores the gate and goes on.\<close>

theorem closed_gate_holds_rollout:
  assumes "rl_State r \<noteq> RolloutRollingBack" "gate_closed env r"
  shows "\<exists>calls. wo_calls (snd (reconcile env claim r w)) = wo_calls w @ calls \<and> list_all held calls"
proof -
  have "traces (list_all held) (reconcile env claim r)"
    by (rule held_law.traces_reconcile) (simp_all add: held_listed assms)
  then show ?thesis by (simp add: traces_def)
qed

end
