(* ===== verification/ControllerStore.thy ===== *)
theory ControllerStore
  imports ControllerSafety
begin

text \<open>
  The controller against the store. With other processes that commit transactions of the store
  before any of its calls, a whole pass only commits transactions of the store, whatever the
  clock, the runtime and the faults do (a commit whose acknowledgement is lost included), so
  the properties of runs of the store in \<open>StoreLog\<close> hold across passes. The last part runs a pass on a concrete store and
  gives the witnesses of the properties of this theory and of \<open>ControllerSafety\<close>.
\<close>

section \<open>Programs that only commit store transactions\<close>

named_theorems commits_intros \<open>introduction rules for programs that only commit store transactions\<close>

definition commits :: "'a ctl \<Rightarrow> bool" where
  "commits m \<longleftrightarrow> (\<forall>w. store_run (wo_db w) (wo_db (snd (m w))))"

definition others_commit :: "env \<Rightarrow> bool" where
  "others_commit env \<longleftrightarrow> (\<forall>n db. store_run db (en_Others env n db))"

lemma transact_run:
  "(\<And>a db'. op db = Inr (a, db') \<Longrightarrow> store_step db db') \<Longrightarrow> store_run db (snd (transact op db))"
  by (cases "op db") (auto simp: transact_def)

lemma transition_run: "store_run db (snd (TransitionRollout uuid now rid v to cmd db))"
proof -
  have "store_run db (snd (transact (transitionState uuid now rid v to cmd) db))"
    by (rule transact_run) (rule step_transition)
  then show ?thesis by (auto simp: TransitionRollout_def split: prod.split sum.split)
qed

lemma commits_return [commits_intros]: "commits (ctl_return a)"
  by (simp add: commits_def ctl_return_def)

lemma commits_fail [commits_intros]: "commits (ctl_fail e)"
  by (simp add: commits_def ctl_fail_def)

lemma commits_record [commits_intros]: "commits (ctl_record c)"
  by (simp add: commits_def ctl_record_def)

lemma commits_now [commits_intros]: "commits (ctl_now env)"
  by (simp add: commits_def ctl_now_def)

lemma commits_extern [commits_intros]: "commits (ctl_extern env e f)"
  by (simp add: commits_def ctl_extern_def Let_def split: option.split)

lemma commits_bind [commits_intros]:
  assumes "commits m" "\<And>a. commits (f a)"
  shows "commits (ctl_bind m f)"
  unfolding commits_def
proof
  fix w
  have "store_run (wo_db w) (wo_db (snd (m w)))" using assms(1) by (simp add: commits_def)
  then show "store_run (wo_db w) (wo_db (snd (ctl_bind m f w)))"
    using assms(2) by (auto simp: ctl_bind_cases commits_def split: sum.split intro: rtranclp_trans)
qed

lemma commits_try [commits_intros]: "commits m \<Longrightarrow> commits (ctl_try m)"
  unfolding commits_def ctl_try_def by (auto split: prod.split sum.split) (metis snd_conv)+

lemma commits_after: "commits m \<Longrightarrow> commits g \<Longrightarrow> commits (\<lambda>w. g (snd (m w)))"
  unfolding commits_def by (meson rtranclp_trans)

lemma commits_store [commits_intros]:
  assumes "others_commit env" "\<And>uuid db. store_run db (snd (op uuid db))"
  shows "commits (ctl_store env op)"
  unfolding commits_def
proof
  fix w :: world
  let ?db = "en_Others env (wo_step w) (wo_db w)"
  have o: "store_run (wo_db w) ?db" using assms(1) by (simp add: others_commit_def)
  then have r: "store_run (wo_db w) (snd (op (en_Uuid env (wo_step w)) ?db))"
    using assms(2) by (rule rtranclp_trans)
  show "store_run (wo_db w) (wo_db (snd (ctl_store env op w)))"
    using o r by (auto simp: ctl_store_def Let_def split: fault.split prod.split sum.split)
qed

lemma commits_read [commits_intros]: "others_commit env \<Longrightarrow> commits (ctl_read env f)"
  unfolding ctl_read_def by (rule commits_store) simp_all

section \<open>The controller\<close>

lemma commits_checkLease [commits_intros]:
  assumes "others_commit env"
  shows "commits (checkLease env claim r)"
proof -
  let ?m = "ctl_bind (ctl_now env) (\<lambda>now. ctl_store env (\<lambda>uuid. transact
     (HeartbeatRollout (cl_RolloutID claim) (en_WorkerID env) (cl_LeaseToken claim)
        now (now + en_LeaseDuration env))))"
  have "commits ?m" using assms by (intro commits_intros transact_run) (auto intro: step_heartbeat)
  moreover have "wo_db (snd (checkLease env claim r w)) = wo_db (snd (?m w))" for w
    unfolding checkLease_def by (cases "?m w") (simp add: Let_def split: sum.split)
  ultimately show ?thesis by (simp add: commits_def)
qed

lemma commits_transition [commits_intros]:
  "others_commit env \<Longrightarrow> commits (transition env claim r to revision code reason)"
  unfolding transition_def Let_def by (intro commits_intros) (auto intro: transition_run)

lemma commits_failRollout [commits_intros]:
  "others_commit env \<Longrightarrow> commits (failRollout env claim r revision code reason)"
  unfolding failRollout_def by (intro commits_intros)

lemma commits_updateCohort [commits_intros]:
  "others_commit env \<Longrightarrow> commits (updateCohort env claim r c revision action)"
  unfolding updateCohort_def Let_def
  by (intro commits_intros transact_run) (auto intro: step_cohort)

lemma commits_setCohortState [commits_intros]:
  "others_commit env \<Longrightarrow> commits (setCohortState env claim r c st revision action completed)"
  unfolding setCohortState_def by (intro commits_intros)

lemma commits_ignore [commits_intros]: "commits m \<Longrightarrow> commits (ignore m)"
  unfolding ignore_def by (intro commits_intros)

lemma commits_ensureAssigned [commits_intros]:
  "others_commit env \<Longrightarrow> commits (ensureAssigned env claim r c revision rollback)"
  unfolding ensureAssigned_def start_assignment_def accept_assignment_def Let_def
  by (auto intro!: commits_intros)

lemma commits_applyLifecycle [commits_intros]: "commits (applyLifecycle env r cohorts action)"
proof -
  have "commits (lifecycle_loop env lc r action cohorts)" for lc
    by (induction cohorts) (auto intro!: commits_intros)
  then show ?thesis by (auto simp: applyLifecycle_def intro: commits_return split: option.split)
qed

lemma commits_observeAndPersist [commits_intros]:
  "others_commit env \<Longrightarrow> commits (observeAndPersist env claim r c st revision synthetic)"
  unfolding observeAndPersist_def by (auto intro!: commits_intros)

lemma commits_evaluate [commits_intros]: "commits (ctl_evaluate env p s c)"
  unfolding ctl_evaluate_def by (auto intro!: commits_intros split: sum.split)

lemma commits_handleUnhealthy [commits_intros]:
  "others_commit env \<Longrightarrow> commits (handleUnhealthy env claim r p reasons)"
  unfolding handleUnhealthy_def Let_def by (auto intro!: commits_intros)

lemma commits_reconcileCanary [commits_intros]:
  "others_commit env \<Longrightarrow> commits (reconcileCanary env claim r c cohorts p canary verification)"
  unfolding reconcileCanary_def by (auto intro!: commits_intros split: canary_outcome.split)

lemma commits_reconcileStable [commits_intros]:
  "others_commit env \<Longrightarrow> commits (reconcileStable env claim r cohorts p canary)"
  unfolding reconcileStable_def
  by (auto intro!: commits_intros split: canary_outcome.split option.split)

lemma commits_reconcileRollback [commits_intros]:
  "others_commit env \<Longrightarrow> commits (reconcileRollback env claim r cohorts revision)"
  unfolding reconcileRollback_def
  by (auto intro!: commits_intros commits_after [where g = "failRollout env claim r revision c x" for c x]
      split: option.split)

lemma commits_validateReleases [commits_intros]:
  "others_commit env \<Longrightarrow> commits (validateReleases env r)"
  unfolding validateReleases_def check_destination_def
  by (auto intro!: commits_intros split: option.split)

lemma commits_reconcile_state [commits_intros]:
  "others_commit env \<Longrightarrow> commits (reconcile_state env claim r cohorts p canary)"
  unfolding reconcile_state_def by (auto intro!: commits_intros split: rollout_state.split)

lemma commits_gated [commits_intros]:
  "others_commit env \<Longrightarrow> commits m \<Longrightarrow> commits (gated env claim r cohorts p m)"
  unfolding gated_def by (auto intro!: commits_intros)

lemma commits_listed [commits_intros]:
  "others_commit env \<Longrightarrow> commits (listed_pass env claim r listed)"
  unfolding listed_pass_def without_policy_def with_policy_def
  by (auto intro!: commits_intros split: sum.split option.split)

lemma commits_reconcile [commits_intros]: "others_commit env \<Longrightarrow> commits (reconcile env claim r)"
  unfolding reconcile_listed by (intro commits_intros)

lemma commits_release [commits_intros]: "others_commit env \<Longrightarrow> commits (release_claim env claim)"
  unfolding release_claim_def by (intro commits_intros transact_run) (auto intro: step_release)

lemma processClaim_run:
  assumes "others_commit env"
  shows "store_run (wo_db w) (wo_db (snd (processClaim env claim w)))"
proof -
  have pass: "commits (reconcile env claim r)" "commits (\<lambda>w. release_claim env claim (snd (reconcile env claim r w)))"
    for r using assms by (auto intro: commits_after commits_intros)
  have read: "store_run (wo_db w) (wo_db (snd (ctl_read env (GetRollout (cl_RolloutID claim)) w)))"
    using commits_read [OF assms, of "GetRollout (cl_RolloutID claim)"] by (simp add: commits_def)
  show ?thesis
    by (cases rule: processClaim_cases [of env claim w])
      (use pass read in \<open>auto simp: commits_def intro: rtranclp_trans\<close>)
qed

lemma RunOnce_run:
  assumes "others_commit env"
  shows "store_run (wo_db w) (wo_db (snd (RunOnce env token w)))"
proof -
  let ?claim = "ctl_bind (ctl_record CallClaim) (\<lambda>_. ctl_bind (ctl_now env) (\<lambda>now.
     ctl_store env (\<lambda>uuid. transact (ClaimNextRollout (en_ClaimPayload env) uuid token
       (en_WorkerID env) now (now + en_LeaseDuration env)))))"
  have "commits ?claim" using assms by (intro commits_intros transact_run) (auto intro: step_claim)
  then have claimed: "store_run (wo_db w) (wo_db (snd (?claim w)))" by (simp add: commits_def)
  obtain res w1 where c: "?claim w = (res, w1)" by (cases "?claim w")
  have "store_run (wo_db w1) (wo_db (snd (RunOnce env token w)))"
    using processClaim_run [OF assms, of w1]
    by (auto simp: RunOnce_def c split: sum.split option.split prod.split) (metis snd_conv)
  then show ?thesis using claimed by (simp add: c)
qed

section \<open>A concrete pass\<close>

definition healthy_canary :: canary_health where
  "healthy_canary =
     \<lparr>ch_Samples = 20, ch_InfrastructureFailures = 0, ch_StableSamples = 20,
      ch_StableInfrastructureFailures = 0, ch_ParserFailures = 0, ch_PullFailures = 0,
      ch_SignatureFailures = 0, ch_ManifestFailures = 0, ch_ExpectedFindingLosses = 0,
      ch_CrashLoops = 0, ch_CandidateP95Duration = second, ch_StableP95Duration = second\<rparr>"

definition healthy_snapshot :: "health_request \<Rightarrow> health_snapshot" where
  "healthy_snapshot q =
     \<lparr>hs_ObservedReleaseID = hr_DesiredReleaseID q, hs_TotalWorkers = 2, hs_ReadyWorkers = 2,
      hs_FailedWorkers = 0, hs_Canary = healthy_canary, hs_Synthetic = None, hs_RealScans = None,
      hs_ObservedAt = 0\<rparr>"

text \<open>The gate of a policy with a maintenance window that is open or closed.\<close>

definition sample_env :: "bool \<Rightarrow> env" where
  "sample_env window =
     \<lparr>en_WorkerID = ''w1'', en_ReconcileInterval = 1, en_LeaseDuration = 10 * hour,
      en_CohortTimeout = 100 * hour, en_Now = (\<lambda>n. int (Suc n) * hour), en_Uuid = (\<lambda>n. ''u''),
      en_Others = (\<lambda>n db. db), en_Fault = (\<lambda>n. Healthy), en_Assign = (\<lambda>n q. True),
      en_Health = (\<lambda>n q. Some (healthy_snapshot q)), en_Lifecycle = Some (\<lambda>n a q. True),
      en_Gate = (\<lambda>n r p now. Some (SnapshotProgressGate_Evaluate
        \<lparr>mc_Required = True, mc_WindowOpen = Some window, mc_EmergencyOverrideUntil = None\<rparr> now)),
      en_Cause = (\<lambda>n. None), en_TraceOk = (\<lambda>n. True), en_DecodePolicy = (\<lambda>s. Some Default),
      en_Summary = (\<lambda>s. ''{}''), en_CohortText = (\<lambda>e. ''cohorts''), en_ReleaseText = (\<lambda>e. ''release''),
      en_PolicyText = ''policy'', en_ClaimPayload = no_payload, en_ReleasePayload = (\<lambda>t. ''{}'')\<rparr>"

definition sample_world :: world where
  "sample_world = \<lparr>wo_db = store_prepared, wo_step = 0, wo_calls = []\<rparr>"

definition sample_prepared_row :: rollout_row where
  "sample_prepared_row = hd (db_rollouts store_prepared)"

definition sample_claimed_world :: world where
  "sample_claimed_world =
     \<lparr>wo_db = snd (transact (ClaimNextRollout no_payload ''u'' ''t'' ''w1'' 20 (10 * hour)) store_prepared),
      wo_step = 0, wo_calls = []\<rparr>"

definition sample_claim :: claim_row where
  "sample_claim = hd (db_claims (wo_db sample_claimed_world))"

lemma sample_others: "others_commit (sample_env window)"
  by (simp add: others_commit_def sample_env_def)

section \<open>Properties of the controller on the store\<close>

text \<open>A snapshot passes exactly when the canary rules pass and the cohort has converged: it has
  workers, all of them are ready and none failed, and they run the desired release. A failed worker
  rolls back whatever the canary rules say, and so does, short of a pass, an exceeded deadline; only
  an invalid policy or a start in the future is an error.\<close>

theorem evaluateSnapshot_decides:
  "map_sum id cd_Outcome (evaluateSnapshot p s c now) =
   map_sum id (\<lambda>d.
       if cd_Outcome d = CanaryRollback \<or> 0 < hs_FailedWorkers s then CanaryRollback
       else if cd_Outcome d = CanaryPassed \<and> 0 < hs_TotalWorkers s \<and>
               hs_ReadyWorkers s = hs_TotalWorkers s \<and> hs_ObservedReleaseID s = co_DesiredReleaseID c
            then CanaryPassed
       else if stuck_pending c now then CanaryRollback
       else CanaryPending)
     (EvaluateCanary p (hs_Canary s) (case co_StartedAt c of None \<Rightarrow> co_UpdatedAt c | Some t \<Rightarrow> t) now)"
  unfolding evaluateSnapshot_verdict snapshot_verdict_def snapshot_converged_def by simp

text \<open>An accepted cancellation that changes the store starts the rollback to the previous release,
  or fails the rollout when there is none. Repeating the very same command afterwards, whatever was
  committed in between, is a version conflict: unlike the transitions of the store, \<open>Cancel\<close> compares
  the version before it looks the idempotency key up.\<close>

theorem cancel_takes_effect_once:
  assumes "Cancel u t rid v actor reason key db = (Inr r, db1)" "db1 \<noteq> db" "store_run db1 db2"
  shows "rl_State r = (if rl_FromReleaseID r = [] then RolloutFailed else RolloutRollingBack) \<and>
     rl_Version r = v + 1 \<and>
     fst (Cancel u' t' rid v actor reason key db2) = Inl (CancelStore VersionConflict)"
proof -
  obtain q where q: "GetRollout rid db = Inr q" "rl_Version q = v" "rl_State q \<noteq> RolloutRollingBack"
    and full: "rid \<noteq> []" "actor \<noteq> []" "reason \<noteq> []" "key \<noteq> []"
    using assms(1,2) by (auto simp: Cancel_def split: if_splits sum.splits)
  have row: "first_by rl_ID (db_rollouts db) rid = Some q"
    using q(1) by (auto simp: GetRollout_def split: option.splits)
  have rid: "rl_ID q = rid" using first_by_Some [OF row] by simp
  let ?to = "if rl_FromReleaseID q = [] then RolloutFailed else RolloutRollingBack"
  obtain cmd where "TransitionRollout u t rid v ?to cmd db = (Inr r, db1)"
    using assms(1) q full rid
    by (auto simp: Cancel_def Let_def split: if_splits sum.splits prod.splits)
  then obtain b where moved: "transitionState u t rid v ?to cmd db = Inr (b, db1)"
    "GetRollout rid db1 = Inr r"
    by (auto simp: TransitionRollout_def transact_def split: sum.splits prod.splits)
  from moved(1) have r: "r = rollout_columns ?to t q"
  proof (cases rule: transition_cases)
    case replayed
    then show ?thesis using assms(2) by simp
  next
    case (applied r')
    then have "first_by rl_ID (db_rollouts db1) rid = Some (rollout_columns ?to t q)"
      using row q(2) rid by (simp add: first_by_update_row)
    then show ?thesis using moved(2) by (simp add: GetRollout_def)
  qed
  have "rollout_version db1 rid = Some (v + 1)"
    using moved(2) r q(2) by (auto simp: rollout_version_def GetRollout_def split: option.splits)
  then obtain v' where "rollout_version db2 rid = Some v'" "v' \<noteq> v"
    using rollout_rows.run_version_grows [OF assms(3)] by fastforce
  then have "fst (Cancel u' t' rid v actor reason key db2) = Inl (CancelStore VersionConflict)"
    using full by (auto simp: Cancel_def GetRollout_def rollout_version_def split: option.splits)
  moreover have "rl_FromReleaseID r = rl_FromReleaseID q" using r by (simp add: rollout_columns_def)
  ultimately show ?thesis using r q(2) by simp
qed

theorem cancel_takes_effect_once_witness:
  "fst (Cancel ''u'' 40 ''r1'' 2 ''ops'' ''stop'' ''k9''
      (snd (Cancel ''u'' 30 ''r1'' 2 ''ops'' ''stop'' ''k9'' store_prepared))) =
    Inl (CancelStore VersionConflict)"
proof -
  let ?c = "Cancel ''u'' 30 ''r1'' 2 ''ops'' ''stop'' ''k9'' store_prepared"
  have "is_ok (fst ?c)" by code_simp
  then obtain r where r: "?c = (Inr r, snd ?c)"
    by (cases ?c) (auto simp: is_ok_def split: sum.splits)
  have "map rl_Version (db_rollouts (snd ?c)) \<noteq> map rl_Version (db_rollouts store_prepared)" by code_simp
  then have "snd ?c \<noteq> store_prepared" by auto
  then show ?thesis using cancel_takes_effect_once [OF r _ rtranclp.rtrancl_refl] by blast
qed

text \<open>With the window closed, a pass over the prepared rollout only pauses it.\<close>

theorem closed_gate_holds_rollout_witness:
  "rl_State sample_prepared_row = RolloutPreparing \<and>
   (\<exists>calls. wo_calls (snd (reconcile (sample_env False) sample_claim sample_prepared_row sample_claimed_world)) =
      calls \<and> list_all held calls \<and> length calls = 5)"
proof -
  have st: "rl_State sample_prepared_row = RolloutPreparing" by code_simp
  have closed: "gate_closed (sample_env False) sample_prepared_row"
    by (simp add: gate_closed_def sample_env_def SnapshotProgressGate_Evaluate_def)
  have "length (wo_calls (snd (reconcile (sample_env False) sample_claim sample_prepared_row
      sample_claimed_world))) = 5"
    by code_simp
  moreover have "wo_calls sample_claimed_world = []" by (simp add: sample_claimed_world_def)
  ultimately show ?thesis
    using closed_gate_holds_rollout [OF _ closed, of sample_claim sample_claimed_world] st by auto
qed

text \<open>The check of the synthetic evidence bounds the sum of its passed and failed fixtures by the
  total only as far as 64-bit addition goes: for counters in range, evidence that is otherwise valid
  is accepted exactly if the sum is at most the total or overflows.\<close>

theorem synthetic_counts_bound:
  assumes "sy_FixtureTotal e < 2 ^ 63" "sy_FixturePassed e < 2 ^ 63" "sy_FixtureFailed e < 2 ^ 63"
  shows "SyntheticEvidence_Validate e \<longleftrightarrow>
     SyntheticEvidence_Validate (e\<lparr>sy_FixturePassed := 0, sy_FixtureFailed := 0\<rparr>) \<and>
     0 \<le> sy_FixturePassed e \<and> 0 \<le> sy_FixtureFailed e \<and>
     (sy_FixturePassed e + sy_FixtureFailed e \<le> sy_FixtureTotal e \<or>
      2 ^ 63 \<le> sy_FixturePassed e + sy_FixtureFailed e)"
proof (cases "0 \<le> sy_FixtureTotal e \<and> 0 \<le> sy_FixturePassed e \<and> 0 \<le> sy_FixtureFailed e")
  case True
  have "wrap64 (sy_FixturePassed e + sy_FixtureFailed e) \<le> sy_FixtureTotal e \<longleftrightarrow>
     sy_FixturePassed e + sy_FixtureFailed e \<le> sy_FixtureTotal e \<or>
     2 ^ 63 \<le> sy_FixturePassed e + sy_FixtureFailed e"
    using assms True
    by (cases "sy_FixturePassed e + sy_FixtureFailed e < 2 ^ 63") (auto simp: wrap64_over)
  then show ?thesis using True by (auto simp: SyntheticEvidence_Validate_def)
next
  case False
  then show ?thesis by (auto simp: SyntheticEvidence_Validate_def)
qed

definition overflowing_evidence :: synthetic_evidence where
  "overflowing_evidence =
     \<lparr>sy_CorpusID = ''c'', sy_CorpusDigest = ''sha256:'' @ replicate 64 CHR ''0'', sy_Current = True,
      sy_State = ''passed'', sy_FixtureTotal = 1, sy_FixturePassed = 2 ^ 62, sy_FixtureFailed = 2 ^ 62,
      sy_FailureClass = [], sy_ObservedAt = 1\<rparr>"

theorem synthetic_counts_bound_witness:
  "SyntheticEvidence_Validate overflowing_evidence \<and>
   sy_FixtureTotal overflowing_evidence < sy_FixturePassed overflowing_evidence"
proof -
  have "SyntheticEvidence_Validate (overflowing_evidence\<lparr>sy_FixturePassed := 0, sy_FixtureFailed := 0\<rparr>)"
    by code_simp
  then show ?thesis
    using synthetic_counts_bound [of overflowing_evidence] by (simp add: overflowing_evidence_def)
qed

end
