(* ===== verification/Dependencies.thy ===== *)
theory Dependencies
  imports GoPrelude
begin

text \<open>
  Dependency graphs as the pipeline keeps them: a table from a key to the keys it depends on. The
  depth-first search of \<open>Plan.Validate\<close> and \<open>validateImageDependencies\<close> is \<open>visit\<close>; it accepts a
  graph exactly when no key that it reaches depends on itself, whatever the order in which Go
  ranges over the map, and then the dependencies are well founded.
\<close>

section \<open>The search\<close>

type_synonym graph = "(string \<times> string list) list"

definition deps_of :: "graph \<Rightarrow> string \<Rightarrow> string list" where
  "deps_of g k = (case map_of g k of None \<Rightarrow> [] | Some ds \<Rightarrow> ds)"

text \<open>\<open>visit g visiting ks visited\<close> visits the keys \<open>ks\<close> in turn: \<open>Inl\<close> is the key at which a cycle
  closes, \<open>Inr\<close> the keys visited. \<open>visiting\<close> is the path the recursion is on; Go resets the entries
  of its map on the way back.\<close>

function visit :: "graph \<Rightarrow> string list \<Rightarrow> string list \<Rightarrow> string list \<Rightarrow> string + string list" where
  "visit g visiting [] visited = Inr visited"
| "visit g visiting (k # ks) visited =
     (if contains_elem visiting k then Inl k
      else if contains_elem visited k then visit g visiting ks visited
      else case visit g (k # visiting) (deps_of g k) visited of
             Inl e \<Rightarrow> Inl e
           | Inr visited' \<Rightarrow> visit g visiting ks (k # visited'))"
  by pat_completeness auto

termination
proof (relation "measures [\<lambda>(g, visiting, ks, visited). card (fst ` set g - set visiting),
                          \<lambda>(g, visiting, ks, visited). length ks]", goal_cases)
  case 1
  then show ?case by simp
next
  case (2 g visiting k ks visited)
  then show ?case by simp
next
  case (3 g visiting k ks visited)
  show ?case
  proof (cases "k \<in> fst ` set g")
    case True
    then have "fst ` set g - set (k # visiting) \<subset> fst ` set g - set visiting" using 3 by auto
    then show ?thesis by (simp add: psubset_card_mono)
  next
    case False
    then have "map_of g k = None" by (simp add: map_of_eq_None_iff)
    moreover from False have "fst ` set g - set (k # visiting) = fst ` set g - set visiting" by auto
    ultimately show ?thesis by (simp add: deps_of_def)
  qed
next
  case (4 g visiting k ks visited visited')
  then show ?case by simp
qed

text \<open>The loop over the map visits its keys in some order.\<close>

definition acyclic_from :: "graph \<Rightarrow> string list \<Rightarrow> string option" where
  "acyclic_from g order = (case visit g [] order [] of Inl k \<Rightarrow> Some k | Inr _ \<Rightarrow> None)"

section \<open>Cycles\<close>

definition depends :: "graph \<Rightarrow> (string \<times> string) set" where
  "depends g = {(k, d). d \<in> set (deps_of g k)}"

text \<open>In \<open>k # ks\<close>, everything \<open>k\<close> depends on is in \<open>ks\<close>.\<close>

fun topological :: "graph \<Rightarrow> string list \<Rightarrow> bool" where
  "topological g [] \<longleftrightarrow> True"
| "topological g (k # ks) \<longleftrightarrow> set (deps_of g k) \<subseteq> set ks \<and> topological g ks"

lemma visit_topological:
  "visit g visiting ks visited = Inr visited' \<Longrightarrow> topological g visited \<Longrightarrow>
     topological g visited' \<and> set visited \<subseteq> set visited' \<and> set ks \<subseteq> set visited'"
proof (induction g visiting ks visited arbitrary: visited' rule: visit.induct)
  case (2 g visiting k ks visited)
  show ?case
  proof (cases "k \<in> set visited")
    case True
    then show ?thesis using 2 by (auto split: if_splits)
  next
    case False
    then obtain v where v: "visit g (k # visiting) (deps_of g k) visited = Inr v"
      "visit g visiting ks (k # v) = Inr visited'" "k \<notin> set visiting"
      using 2(4) by (auto split: if_splits sum.splits)
    have "topological g v \<and> set visited \<subseteq> set v \<and> set (deps_of g k) \<subseteq> set v"
      using 2(2) [OF _ _ v(1) ] 2(5) False v(3) by simp
    then show ?thesis using 2(3) [OF _ _ v(1) v(2)] False v(3) by auto
  qed
qed simp

lemma topological_accessible: "topological g ks \<Longrightarrow> set ks \<subseteq> Wellfounded.acc ((depends g)\<inverse>)"
proof (induction ks)
  case (Cons k ks)
  have "k \<in> Wellfounded.acc ((depends g)\<inverse>)"
  proof (rule accI)
    fix d
    assume "(d, k) \<in> (depends g)\<inverse>"
    then have "d \<in> set ks" using Cons(2) by (auto simp: depends_def)
    then show "d \<in> Wellfounded.acc ((depends g)\<inverse>)" using Cons by auto
  qed
  then show ?case using Cons by simp
qed simp

lemma accessible_no_cycle: "k \<in> Wellfounded.acc (R\<inverse>) \<Longrightarrow> (k, k) \<notin> R\<^sup>+"
proof (induction rule: acc.induct)
  case (accI k)
  show ?case
  proof
    assume "(k, k) \<in> R\<^sup>+"
    then obtain d where d: "(k, d) \<in> R" "(d, k) \<in> R\<^sup>*" by (meson tranclD)
    then have "(d, d) \<in> R\<^sup>+" by (meson rtrancl_into_trancl1)
    then show False using accI(2) [of d] d(1) by auto
  qed
qed

text \<open>A refused key closes a cycle: every key still to visit is reached from all keys on the path.\<close>

lemma visit_cycle:
  "visit g visiting ks visited = Inl e \<Longrightarrow>
     (\<forall>v \<in> set visiting. \<forall>k \<in> set ks. (v, k) \<in> (depends g)\<^sup>+) \<Longrightarrow>
     (e, e) \<in> (depends g)\<^sup>+ \<and> e \<in> (depends g)\<^sup>* `` set ks"
proof (induction g visiting ks visited rule: visit.induct)
  case (2 g visiting k ks visited)
  consider (path) "k \<in> set visiting" "e = k"
    | (seen) "k \<notin> set visiting" "k \<in> set visited" "visit g visiting ks visited = Inl e"
    | (inner) "k \<notin> set visiting" "k \<notin> set visited" "visit g (k # visiting) (deps_of g k) visited = Inl e"
    | (later) v where "k \<notin> set visiting" "k \<notin> set visited"
        "visit g (k # visiting) (deps_of g k) visited = Inr v" "visit g visiting ks (k # v) = Inl e"
    using 2(4) by (auto split: if_splits sum.splits)
  then show ?case
  proof cases
    case path
    then show ?thesis using 2(5) by auto
  next
    case seen
    then show ?thesis using 2(1) 2(5) by auto
  next
    case inner
    have "\<forall>v \<in> set (k # visiting). \<forall>d \<in> set (deps_of g k). (v, d) \<in> (depends g)\<^sup>+"
      using 2(5) by (auto simp: depends_def intro: trancl_into_trancl)
    then have "(e, e) \<in> (depends g)\<^sup>+ \<and> e \<in> (depends g)\<^sup>* `` set (deps_of g k)"
      using 2(2) inner by simp
    then show ?thesis by (auto simp: depends_def intro: converse_rtrancl_into_rtrancl)
  next
    case (later v)
    then show ?thesis using 2(3) [OF _ _ later(3,4)] 2(5) by auto
  qed
qed simp

lemma acyclic_from_iff:
  "acyclic_from g order = None \<longleftrightarrow> (\<forall>k \<in> (depends g)\<^sup>* `` set order. (k, k) \<notin> (depends g)\<^sup>+)"
proof (cases "visit g [] order []")
  case (Inr visited)
  have start: "set order \<subseteq> Wellfounded.acc ((depends g)\<inverse>)"
    using visit_topological [OF Inr] topological_accessible by fastforce
  have "k \<in> Wellfounded.acc ((depends g)\<inverse>)" if "(x, k) \<in> (depends g)\<^sup>*" "x \<in> set order" for x k
    using that start by (induction rule: rtrancl_induct) (auto elim: acc_downward)
  then show ?thesis using Inr by (auto simp: acyclic_from_def accessible_no_cycle)
next
  case (Inl e)
  have "(e, e) \<in> (depends g)\<^sup>+ \<and> e \<in> (depends g)\<^sup>* `` set order" using visit_cycle [OF Inl] by simp
  then show ?thesis using Inl by (auto simp: acyclic_from_def)
qed

text \<open>Which order Go ranges in does not matter, and an accepted graph is well founded.\<close>

lemma acyclic_from_order: "set xs = set ys \<Longrightarrow> acyclic_from g xs = None \<longleftrightarrow> acyclic_from g ys = None"
  by (simp add: acyclic_from_iff)

lemma acyclic_wf:
  assumes "acyclic_from g order = None" "fst ` set g \<subseteq> set order"
  shows "wf ((depends g)\<inverse>)"
proof (rule acc_wfI, rule)
  fix k
  obtain visited where v: "visit g [] order [] = Inr visited"
    using assms(1) by (auto simp: acyclic_from_def split: sum.splits)
  have seen: "set order \<subseteq> Wellfounded.acc ((depends g)\<inverse>)"
    using visit_topological [OF v] topological_accessible by fastforce
  show "k \<in> Wellfounded.acc ((depends g)\<inverse>)"
  proof (cases "k \<in> fst ` set g")
    case True
    then show ?thesis using seen assms(2) by blast
  next
    case False
    then have "map_of g k = None" by (metis map_of_eq_None_iff)
    then have "deps_of g k = []" by (simp add: deps_of_def)
    then have "(d, k) \<notin> (depends g)\<inverse>" for d by (simp add: depends_def)
    then show ?thesis by (meson accI)
  qed
qed

end
