(* ===== verification/Pipeline.thy ===== *)
theory Pipeline
  imports Dependencies
begin

text \<open>
  The release evidence pipeline (\<open>internal/scannerpipeline/plan.go\<close>): the plan of steps that
  \<open>Default\<close> builds for the images of a release, its validation, and the steps that are ready to be
  claimed. The texts of the Go errors are the constructors of \<open>plan_error\<close>; \<open>Default\<close> also writes
  the trimmed keys and the default kind back into the slice of its caller, which nothing reads.
\<close>

section \<open>Plans\<close>

datatype step_kind =
    StepCheckout | StepValidation | StepBuild | StepTest | StepSecurity | StepEvidence | StepPublish
  | StepIntegration | StepPolicy

record image_spec =
  im_Key :: string
  im_Kind :: string
  im_Platforms :: "string list"
  im_DependsOn :: "string list"

record inputs =
  in_Images :: "image_spec list"
  in_RequireCompose :: bool
  in_RequireKubernetes :: bool
  in_RequireMirror :: bool

record step =
  st_Key :: string
  st_Kind :: step_kind
  st_DependsOn :: "string list"
  st_Timeout :: duration
  st_Retryable :: bool
  st_Required :: bool
  st_ConcurrencyKey :: string

type_synonym plan = "step list"

datatype plan_error =
    NoSteps | StepKeyRequired | DuplicateStep string | NoTimeout string | StepSelfDependency string
  | UnknownDependency string string | StepCycle string
  | NoImages | ImageKeyRequired | InvalidKind string string | DuplicateImage string
  | ImageSelfDependency string | UnknownImageDependency string string
  | DuplicateImageDependency string string | ImageCycle string
  | NoPlatforms string | InvalidPlatform string string | DuplicatePlatform string string

definition ImageKindScanner :: string where
  "ImageKindScanner = ''scanner''"

definition required :: "string \<Rightarrow> step_kind \<Rightarrow> duration \<Rightarrow> step" where
  "required key kind timeout =
     \<lparr>st_Key = key, st_Kind = kind, st_DependsOn = [], st_Timeout = timeout, st_Retryable = False,
      st_Required = True, st_ConcurrencyKey = []\<rparr>"

definition requiredAfter :: "string \<Rightarrow> step_kind \<Rightarrow> duration \<Rightarrow> string list \<Rightarrow> step" where
  "requiredAfter key kind timeout dependencies = (required key kind timeout)\<lparr>st_DependsOn := dependencies\<rparr>"

section \<open>Validation and the ready steps\<close>

fun check_steps :: "string list \<Rightarrow> step list \<Rightarrow> plan_error option" where
  "check_steps seen [] = None"
| "check_steps seen (s # ss) =
     (if trim_space (st_Key s) = [] then Some StepKeyRequired
      else if contains_elem seen (st_Key s) then Some (DuplicateStep (st_Key s))
      else if st_Timeout s \<le> 0 then Some (NoTimeout (st_Key s))
      else check_steps (st_Key s # seen) ss)"

definition check_dependency :: "string list \<Rightarrow> string \<Rightarrow> string \<Rightarrow> plan_error option" where
  "check_dependency keys key dependency =
     (if dependency = key then Some (StepSelfDependency key)
      else if \<not> contains_elem keys dependency then Some (UnknownDependency key dependency)
      else None)"

definition check_dependencies :: "plan \<Rightarrow> plan_error option" where
  "check_dependencies p = first_error (concat (map (\<lambda>s.
     map (check_dependency (map st_Key p) (st_Key s)) (st_DependsOn s)) p))"

definition plan_graph :: "plan \<Rightarrow> graph" where
  "plan_graph p = map (\<lambda>s. (st_Key s, st_DependsOn s)) p"

text \<open>\<open>Plan.Validate\<close>; \<open>order\<close> is the order in which the range over the map of steps visits its keys.\<close>

definition Validate_in :: "string list \<Rightarrow> plan \<Rightarrow> plan_error option" where
  "Validate_in order p =
     (if p = [] then Some NoSteps
      else first_error [check_steps [] p, check_dependencies p,
             map_option StepCycle (acyclic_from (plan_graph p) order)])"

definition Validate :: "plan \<Rightarrow> plan_error option" where
  "Validate p = Validate_in (map st_Key p) p"

definition is_ready :: "(string \<Rightarrow> bool) \<Rightarrow> (string \<Rightarrow> bool) \<Rightarrow> step \<Rightarrow> bool" where
  "is_ready completed running s \<longleftrightarrow>
     \<not> (completed (st_Key s) \<or> running (st_Key s)) \<and> list_all completed (st_DependsOn s)"

definition Ready :: "plan \<Rightarrow> (string \<Rightarrow> bool) \<Rightarrow> (string \<Rightarrow> bool) \<Rightarrow> plan_error + step list" where
  "Ready p completed running =
     (case Validate p of
        Some e \<Rightarrow> Inl e
      | None \<Rightarrow> Inr (sort_key st_Key (filter (is_ready completed running) p)))"

section \<open>The plan of a release\<close>

definition ManagedReleaseImages :: "image_spec list" where
  "ManagedReleaseImages = map (\<lambda>k. \<lparr>im_Key = k, im_Kind = ImageKindScanner,
     im_Platforms = [''linux/amd64''], im_DependsOn = []\<rparr>) [''default'', ''jvm'', ''rust'', ''codeql'']"

definition validPlatform :: "string \<Rightarrow> bool" where
  "validPlatform platform =
     (case split_char CHR ''/'' platform of
        [a, b] \<Rightarrow> a \<noteq> [] \<and> b \<noteq> []
      | [a, b, c] \<Rightarrow> a \<noteq> [] \<and> b \<noteq> []
      | _ \<Rightarrow> False)"

definition image_graph :: "image_spec list \<Rightarrow> graph" where
  "image_graph images = map (\<lambda>i. (im_Key i, im_DependsOn i)) images"

definition validateImageDependencies :: "image_spec list \<Rightarrow> plan_error option" where
  "validateImageDependencies images =
     map_option ImageCycle (acyclic_from (image_graph images) (map im_Key images))"

fun normalize_images :: "string list \<Rightarrow> image_spec list \<Rightarrow> plan_error + image_spec list" where
  "normalize_images seen [] = Inr []"
| "normalize_images seen (i # is) =
     (let key = trim_space (im_Key i);
          kind = (if im_Kind i = [] then ImageKindScanner else im_Kind i)
      in if key = [] then Inl ImageKeyRequired
         else if kind \<noteq> ImageKindScanner then Inl (InvalidKind key kind)
         else if contains_elem seen key then Inl (DuplicateImage key)
         else and_then (normalize_images (key # seen) is)
                (\<lambda>rest. Inr (i\<lparr>im_Key := key, im_Kind := kind\<rparr> # rest)))"

fun check_image_dependencies :: "string list \<Rightarrow> string \<Rightarrow> string list \<Rightarrow> string list \<Rightarrow> plan_error option" where
  "check_image_dependencies keys key seen [] = None"
| "check_image_dependencies keys key seen (d # ds) =
     (if d = key then Some (ImageSelfDependency key)
      else if \<not> contains_elem keys d then Some (UnknownImageDependency key d)
      else if contains_elem seen d then Some (DuplicateImageDependency key d)
      else check_image_dependencies keys key (d # seen) ds)"

definition build_key :: "string \<Rightarrow> string \<Rightarrow> string" where
  "build_key key platform = ''build/'' @ key @ ''/'' @ replace_char CHR ''/'' CHR ''-'' platform"

text \<open>The loop over the platforms of an image: its build steps.\<close>

fun build_steps :: "image_spec \<Rightarrow> string list \<Rightarrow> string list \<Rightarrow> plan_error + step list" where
  "build_steps i seen [] = Inr []"
| "build_steps i seen (p # ps) =
     (if \<not> validPlatform p then Inl (InvalidPlatform (im_Key i) p)
      else if contains_elem seen p then Inl (DuplicatePlatform (im_Key i) p)
      else and_then (build_steps i (p # seen) ps) (\<lambda>rest.
             Inr ((requiredAfter (build_key (im_Key i) p) StepBuild (90 * minute)
                     ([''lock-reproducibility'', ''license-metadata''] @
                      map (\<lambda>d. ''image-manifest/'' @ d) (im_DependsOn i)))
                    \<lparr>st_Retryable := True, st_ConcurrencyKey := ''build/'' @ p\<rparr> # rest)))"

text \<open>The steps of an image after its builds, ending with \<open>published-verify\<close>.\<close>

definition evidence_steps :: "string \<Rightarrow> string list \<Rightarrow> step list" where
  "evidence_steps k platformBuilds =
     [requiredAfter (''image-manifest/'' @ k) StepEvidence (10 * minute) platformBuilds,
      requiredAfter (''strict-version-smoke/'' @ k) StepTest (10 * minute) [''image-manifest/'' @ k],
      requiredAfter (''invocation-smoke/'' @ k) StepTest (20 * minute) [''image-manifest/'' @ k],
      requiredAfter (''parser-fixtures/'' @ k) StepTest (20 * minute) [''invocation-smoke/'' @ k],
      requiredAfter (''normalized-golden/'' @ k) StepTest (20 * minute) [''parser-fixtures/'' @ k],
      requiredAfter (''candidate-stable-comparison/'' @ k) StepTest (30 * minute) [''normalized-golden/'' @ k],
      requiredAfter (''recorded-resource-gate/'' @ k) StepTest (10 * minute)
        [''candidate-stable-comparison/'' @ k],
      requiredAfter (''vulnerability-scan/'' @ k) StepSecurity (30 * minute) [''image-manifest/'' @ k],
      requiredAfter (''vulnerability-db-identity/'' @ k) StepEvidence (5 * minute)
        [''vulnerability-scan/'' @ k],
      requiredAfter (''secret-scan/'' @ k) StepSecurity (15 * minute) [''image-manifest/'' @ k],
      requiredAfter (''license-scan/'' @ k) StepSecurity (15 * minute) [''image-manifest/'' @ k],
      requiredAfter (''sbom/'' @ k) StepEvidence (15 * minute) [''image-manifest/'' @ k],
      requiredAfter (''oci-annotations/'' @ k) StepEvidence (5 * minute)
        [''image-manifest/'' @ k, ''sbom/'' @ k],
      requiredAfter (''provenance/'' @ k) StepEvidence (10 * minute) [''image-manifest/'' @ k],
      (requiredAfter (''candidate-publish/'' @ k) StepPublish (30 * minute)
        [''strict-version-smoke/'' @ k, ''recorded-resource-gate/'' @ k, ''vulnerability-scan/'' @ k,
         ''vulnerability-db-identity/'' @ k, ''secret-scan/'' @ k, ''license-scan/'' @ k, ''sbom/'' @ k,
         ''oci-annotations/'' @ k, ''provenance/'' @ k])
        \<lparr>st_Retryable := True, st_ConcurrencyKey := ''registry-publish''\<rparr>,
      requiredAfter (''signature/'' @ k) StepEvidence (10 * minute) [''candidate-publish/'' @ k],
      requiredAfter (''published-verify/'' @ k) StepEvidence (10 * minute) [''signature/'' @ k]]"

definition image_steps :: "image_spec \<Rightarrow> plan_error + step list" where
  "image_steps i =
     (if im_Platforms i = [] then Inl (NoPlatforms (im_Key i))
      else and_then (build_steps i [] (im_Platforms i)) (\<lambda>builds.
             Inr (builds @ evidence_steps (im_Key i) (map st_Key builds))))"

fun all_image_steps :: "image_spec list \<Rightarrow> plan_error + step list" where
  "all_image_steps [] = Inr []"
| "all_image_steps (i # is) =
     and_then (image_steps i) (\<lambda>steps. and_then (all_image_steps is) (\<lambda>rest. Inr (steps @ rest)))"

definition source_steps :: "step list" where
  "source_steps =
     [required ''checkout'' StepCheckout (5 * minute),
      requiredAfter ''manifest-validate'' StepValidation (2 * minute) [''checkout''],
      requiredAfter ''generated-parity'' StepValidation (2 * minute) [''manifest-validate''],
      requiredAfter ''update-source-recheck'' StepValidation (10 * minute) [''manifest-validate''],
      requiredAfter ''lock-reproducibility'' StepValidation (2 * minute)
        [''generated-parity'', ''update-source-recheck''],
      requiredAfter ''license-metadata'' StepValidation (2 * minute) [''manifest-validate'']]"

definition integration_keys :: "string list" where
  "integration_keys = [''compose-integration'', ''compose-scanner-integration'',
     ''kubernetes-integration'', ''kind-scanner-integration'']"

text \<open>The steps of the whole release, after the final step of every image.\<close>

definition release_steps :: "bool \<Rightarrow> string list \<Rightarrow> step list" where
  "release_steps mirror finals =
     [requiredAfter ''finding-regression'' StepTest (45 * minute) finals,
      requiredAfter ''aggregate-sbom'' StepEvidence (10 * minute) finals] @
     (if mirror
      then [(requiredAfter ''mirror-copy-verify'' StepPublish (45 * minute) finals)
              \<lparr>st_Retryable := True, st_ConcurrencyKey := ''registry-mirror''\<rparr>]
      else []) @
     [requiredAfter ''compose-integration'' StepIntegration (45 * minute) finals,
      requiredAfter ''compose-scanner-integration'' StepIntegration (45 * minute) finals,
      requiredAfter ''kubernetes-integration'' StepIntegration (60 * minute) finals,
      requiredAfter ''kind-scanner-integration'' StepIntegration (60 * minute) finals,
      requiredAfter ''release-manifest'' StepEvidence (10 * minute)
        ([''finding-regression'', ''aggregate-sbom''] @
         (if mirror then [''mirror-copy-verify''] else []) @ integration_keys),
      requiredAfter ''release-manifest-signature'' StepEvidence (10 * minute) [''release-manifest'']] @
     (if mirror
      then [(requiredAfter ''mirror-release-closure-verify'' StepPublish (30 * minute)
               [''mirror-copy-verify'', ''release-manifest-signature''])
              \<lparr>st_Retryable := True, st_ConcurrencyKey := ''registry-mirror''\<rparr>]
      else []) @
     [requiredAfter ''policy-evaluation'' StepPolicy (5 * minute)
        [if mirror then ''mirror-release-closure-verify'' else ''release-manifest-signature''],
      requiredAfter ''policy-decision-artifact'' StepEvidence (5 * minute) [''policy-evaluation''],
      requiredAfter ''candidate-evidence-summary'' StepEvidence (5 * minute) [''policy-decision-artifact'']]"

definition pipeline_default :: "inputs \<Rightarrow> plan_error + plan" where
  "pipeline_default i =
     (if in_Images i = [] then Inl NoImages
      else and_then (normalize_images [] (in_Images i)) (\<lambda>images.
        case first_error (map (\<lambda>im. check_image_dependencies (map im_Key images) (im_Key im) []
               (im_DependsOn im)) images) of
          Some e \<Rightarrow> Inl e
        | None \<Rightarrow>
          (case validateImageDependencies images of
             Some e \<Rightarrow> Inl e
           | None \<Rightarrow>
             and_then (all_image_steps images) (\<lambda>steps.
               let p = source_steps @ steps @
                     release_steps (in_RequireMirror i) (map (\<lambda>im. ''published-verify/'' @ im_Key im) images)
               in case Validate p of Some e \<Rightarrow> Inl e | None \<Rightarrow> Inr p))))"

section \<open>Validated plans\<close>

lemma check_steps_None:
  "check_steps seen ss = None \<longleftrightarrow>
     distinct (map st_Key ss) \<and> set (map st_Key ss) \<inter> set seen = {} \<and>
     (\<forall>s \<in> set ss. trim_space (st_Key s) \<noteq> [] \<and> 0 < st_Timeout s)"
  by (induction ss arbitrary: seen) auto

lemma plan_graph_keys: "fst ` set (plan_graph p) = st_Key ` set p"
  by (force simp: plan_graph_def)

lemma deps_of_plan:
  assumes "distinct (map st_Key p)" "s \<in> set p"
  shows "deps_of (plan_graph p) (st_Key s) = st_DependsOn s"
proof -
  have "distinct (map fst (plan_graph p))" using assms(1) by (simp add: plan_graph_def comp_def)
  moreover have "(st_Key s, st_DependsOn s) \<in> set (plan_graph p)" using assms(2) by (auto simp: plan_graph_def)
  ultimately show ?thesis by (simp add: deps_of_def map_of_is_SomeI)
qed

lemma Validate_in_None:
  "Validate_in order p = None \<longleftrightarrow>
     p \<noteq> [] \<and> distinct (map st_Key p) \<and>
     (\<forall>s \<in> set p. trim_space (st_Key s) \<noteq> [] \<and> 0 < st_Timeout s \<and>
        st_Key s \<notin> set (st_DependsOn s) \<and> set (st_DependsOn s) \<subseteq> st_Key ` set p) \<and>
     acyclic_from (plan_graph p) order = None"
proof -
  have "check_dependencies p = None \<longleftrightarrow> (\<forall>s \<in> set p. st_Key s \<notin> set (st_DependsOn s) \<and>
      set (st_DependsOn s) \<subseteq> st_Key ` set p)"
    by (auto simp: check_dependencies_def check_dependency_def)
  then show ?thesis by (auto simp: Validate_in_def check_steps_None)
qed

lemmas Validate_None = Validate_in_None [of "map st_Key p" p for p, folded Validate_def]

lemma Validate_wf: "Validate p = None \<Longrightarrow> wf ((depends (plan_graph p))\<inverse>)"
  by (rule acyclic_wf [where order = "map st_Key p"]) (simp_all add: Validate_None plan_graph_keys)

lemma Ready_valid: "Validate p = None \<Longrightarrow>
    Ready p completed running = Inr (sort_key st_Key (filter (is_ready completed running) p))"
  by (simp add: Ready_def)

text \<open>Among the steps that are not completed there is one that depends on completed steps only.\<close>

lemma some_step_unblocked:
  assumes "Validate p = None" "s \<in> set p" "\<not> completed (st_Key s)"
  shows "\<exists>s \<in> set p. \<not> completed (st_Key s) \<and> list_all completed (st_DependsOn s)"
proof -
  let ?open = "{st_Key s | s. s \<in> set p \<and> \<not> completed (st_Key s)}"
  have "st_Key s \<in> ?open" using assms(2,3) by blast
  then have "\<exists>k \<in> ?open. \<forall>d. (d, k) \<in> (depends (plan_graph p))\<inverse> \<longrightarrow> d \<notin> ?open"
    using Validate_wf [OF assms(1)] unfolding wf_eq_minimal by (elim allE impE) blast
  then obtain k where k: "k \<in> ?open" "\<And>d. (d, k) \<in> (depends (plan_graph p))\<inverse> \<Longrightarrow> d \<notin> ?open"
    by (elim bexE) simp
  then obtain s' where s': "s' \<in> set p" "st_Key s' = k" "\<not> completed k" by auto
  have deps: "deps_of (plan_graph p) k = st_DependsOn s'" "set (st_DependsOn s') \<subseteq> st_Key ` set p"
    using assms(1) s' deps_of_plan by (auto simp: Validate_None)
  have "completed d" if "d \<in> set (st_DependsOn s')" for d
    using k(2) [of d] that deps by (auto simp: depends_def)
  then show ?thesis using s' by (auto simp: list_all_iff)
qed

section \<open>Executions\<close>

text \<open>One round completes every step that is ready.\<close>

definition advance :: "plan \<Rightarrow> (string \<Rightarrow> bool) \<Rightarrow> string \<Rightarrow> bool" where
  "advance p completed =
     (case Ready p completed (\<lambda>k. False) of
        Inl e \<Rightarrow> completed
      | Inr ready \<Rightarrow> (\<lambda>k. completed k \<or> k \<in> st_Key ` set ready))"

fun rounds :: "plan \<Rightarrow> nat \<Rightarrow> (string \<Rightarrow> bool) \<Rightarrow> string \<Rightarrow> bool" where
  "rounds p 0 completed = completed"
| "rounds p (Suc n) completed = rounds p n (advance p completed)"

definition open_steps :: "plan \<Rightarrow> (string \<Rightarrow> bool) \<Rightarrow> step set" where
  "open_steps p completed = {s \<in> set p. \<not> completed (st_Key s)}"

lemma advance_mono: "completed k \<Longrightarrow> advance p completed k"
  by (simp add: advance_def split: sum.split)

lemma advance_shrinks:
  assumes "Validate p = None" "open_steps p completed \<noteq> {}"
  shows "open_steps p (advance p completed) \<subset> open_steps p completed"
proof -
  obtain s where s: "s \<in> set p" "\<not> completed (st_Key s)" "list_all completed (st_DependsOn s)"
    using some_step_unblocked [OF assms(1)] assms(2) unfolding open_steps_def by blast
  then have "advance p completed (st_Key s)"
    using assms(1) by (auto simp: advance_def Ready_valid is_ready_def)
  then have "s \<notin> open_steps p (advance p completed)" "s \<in> open_steps p completed"
    using s by (auto simp: open_steps_def)
  moreover have "open_steps p (advance p completed) \<subseteq> open_steps p completed"
    by (auto simp: open_steps_def advance_mono)
  ultimately show ?thesis by blast
qed

lemma rounds_complete:
  "Validate p = None \<Longrightarrow> card (open_steps p completed) \<le> n \<Longrightarrow> open_steps p (rounds p n completed) = {}"
proof (induction n arbitrary: completed)
  case 0
  moreover have "finite (open_steps p completed)" by (simp add: open_steps_def)
  ultimately show ?case by simp
next
  case (Suc n)
  have fin: "finite (open_steps p completed)" by (simp add: open_steps_def)
  have "card (open_steps p (advance p completed)) \<le> n"
  proof (cases "open_steps p completed = {}")
    case True
    then have "open_steps p (advance p completed) = {}" by (auto simp: open_steps_def advance_mono)
    then show ?thesis by simp
  next
    case False
    then show ?thesis
      using psubset_card_mono [OF fin advance_shrinks [OF Suc(2) False]] Suc(3) by simp
  qed
  then show ?case using Suc(1) [OF Suc(2)] by simp
qed

text \<open>Workers complete ready steps one at a time, with any other steps running meanwhile.\<close>

inductive executed :: "plan \<Rightarrow> string set \<Rightarrow> bool" for p where
  none: "executed p {}"
| one: "executed p c \<Longrightarrow> Ready p (\<lambda>k. k \<in> c) running = Inr ready \<Longrightarrow> s \<in> set ready \<Longrightarrow>
    executed p (insert (st_Key s) c)"

definition closed :: "plan \<Rightarrow> (string \<Rightarrow> bool) \<Rightarrow> bool" where
  "closed p c \<longleftrightarrow> (\<forall>s \<in> set p. c (st_Key s) \<longrightarrow> (\<forall>d \<in> set (st_DependsOn s). c d))"

lemma executed_closed: "executed p c \<Longrightarrow> closed p (\<lambda>k. k \<in> c)"
proof (induction rule: executed.induct)
  case none
  then show ?case by (simp add: closed_def)
next
  case (one c running ready s)
  then have ok: "Validate p = None" by (auto simp: Ready_def split: option.splits)
  then have s: "s \<in> set p" "list_all (\<lambda>k. k \<in> c) (st_DependsOn s)"
    using one(2,3) by (auto simp: Ready_valid is_ready_def)
  have "s' = s" if "s' \<in> set p" "st_Key s' = st_Key s" for s'
    using ok s(1) that by (auto simp: Validate_None distinct_map inj_on_def)
  then show ?case using one(4) s(2) by (fastforce simp: closed_def list_all_iff)
qed

section \<open>The plan of a release\<close>

lemma requiredAfter_fields [simp]:
  "st_Key (requiredAfter k kind t ds) = k" "st_DependsOn (requiredAfter k kind t ds) = ds"
  "st_Key (required k kind t) = k" "st_DependsOn (required k kind t) = []"
  by (simp_all add: requiredAfter_def required_def)

lemma step_update_fields [simp]:
  "st_Key (s\<lparr>st_Retryable := b, st_ConcurrencyKey := k\<rparr>) = st_Key s"
  "st_DependsOn (s\<lparr>st_Retryable := b, st_ConcurrencyKey := k\<rparr>) = st_DependsOn s"
  by simp_all

text \<open>Rules that evaluate a law over a list of steps and leave the keys as they are written.\<close>

lemma closed_Nil: "closed [] c \<longleftrightarrow> True"
  by (simp add: closed_def)

lemma closed_Cons: "closed (s # ss) c \<longleftrightarrow> (c (st_Key s) \<longrightarrow> list_all c (st_DependsOn s)) \<and> closed ss c"
  by (auto simp: closed_def list_all_iff)

lemma closed_append: "closed (p @ q) c \<longleftrightarrow> closed p c \<and> closed q c"
  by (auto simp: closed_def)

lemma closed_subset: "closed p c \<Longrightarrow> set q \<subseteq> set p \<Longrightarrow> closed q c"
  by (auto simp: closed_def)

lemmas plan_rules = closed_Nil closed_Cons closed_append requiredAfter_fields step_update_fields
  list.pred_inject list_all_append simp_thms if_True if_False

text \<open>The evidence that a candidate's publication waits for.\<close>

definition publish_evidence :: "string list" where
  "publish_evidence = [''image-manifest/'', ''strict-version-smoke/'', ''invocation-smoke/'', ''parser-fixtures/'',
     ''normalized-golden/'', ''candidate-stable-comparison/'', ''recorded-resource-gate/'',
     ''vulnerability-scan/'', ''vulnerability-db-identity/'', ''secret-scan/'', ''license-scan/'', ''sbom/'',
     ''oci-annotations/'', ''provenance/'']"

lemma closed_evidence:
  assumes "closed (evidence_steps k builds) c"
  shows "c (''candidate-publish/'' @ k) \<Longrightarrow> list_all (\<lambda>e. c (e @ k)) publish_evidence"
    and "c (''image-manifest/'' @ k) \<Longrightarrow> list_all c builds"
    and "c (''published-verify/'' @ k) \<Longrightarrow> list_all (\<lambda>s. c (st_Key s)) (evidence_steps k builds)"
proof -
  show "c (''candidate-publish/'' @ k) \<Longrightarrow> list_all (\<lambda>e. c (e @ k)) publish_evidence"
    using assms unfolding evidence_steps_def publish_evidence_def by (simp only: plan_rules)
  show "c (''image-manifest/'' @ k) \<Longrightarrow> list_all c builds"
    using assms unfolding evidence_steps_def by (simp only: plan_rules)
  show "c (''published-verify/'' @ k) \<Longrightarrow> list_all (\<lambda>s. c (st_Key s)) (evidence_steps k builds)"
    using assms unfolding evidence_steps_def by (simp only: plan_rules)
qed

lemma closed_release:
  assumes "closed (release_steps mirror finals) c" "c ''policy-evaluation''"
  shows "list_all (\<lambda>s. c (st_Key s) \<or> st_Key s = ''policy-decision-artifact'' \<or>
      st_Key s = ''candidate-evidence-summary'') (release_steps mirror finals)"
    and "list_all c finals"
  using assms unfolding release_steps_def integration_keys_def
  by (cases mirror; simp only: plan_rules; iprover)+

lemma closed_source:
  assumes "closed source_steps c" "c ''lock-reproducibility''" "c ''license-metadata''"
  shows "list_all (\<lambda>s. c (st_Key s)) source_steps"
  using assms unfolding source_steps_def by (simp only: plan_rules)

lemma build_steps_result:
  "build_steps i seen ps = Inr builds \<Longrightarrow>
     map st_Key builds = map (build_key (im_Key i)) ps \<and>
     (\<forall>s \<in> set builds. {''lock-reproducibility'', ''license-metadata''} \<subseteq> set (st_DependsOn s))"
proof (induction ps arbitrary: seen builds)
  case (Cons p ps)
  let ?s = "(requiredAfter (build_key (im_Key i) p) StepBuild (90 * minute)
                 ([''lock-reproducibility'', ''license-metadata''] @
                  map (\<lambda>d. ''image-manifest/'' @ d) (im_DependsOn i)))
                \<lparr>st_Retryable := True, st_ConcurrencyKey := ''build/'' @ p\<rparr>"
  have "\<exists>rest. build_steps i (p # seen) ps = Inr rest \<and> builds = ?s # rest"
    using Cons.prems unfolding build_steps.simps
    by (simp only: and_then_Inr split: if_splits) (simp_all only: sum.inject sum.distinct, blast)
  then obtain rest where rest: "build_steps i (p # seen) ps = Inr rest" "builds = ?s # rest" by blast
  have "st_Key ?s = build_key (im_Key i) p" by (simp only: step_update_fields requiredAfter_fields)
  moreover have "{''lock-reproducibility'', ''license-metadata''} \<subseteq> set (st_DependsOn ?s)" by simp
  ultimately show ?case using Cons.IH [OF rest(1)] unfolding rest(2) by (simp only: list.map list.set) blast
qed simp

lemma all_image_steps_result:
  "all_image_steps images = Inr steps \<Longrightarrow>
     (\<forall>i \<in> set images. im_Platforms i \<noteq> [] \<and> (\<exists>builds. build_steps i [] (im_Platforms i) = Inr builds \<and>
        set (builds @ evidence_steps (im_Key i) (map st_Key builds)) \<subseteq> set steps)) \<and>
     (\<forall>s \<in> set steps. \<exists>i \<in> set images. \<exists>builds. build_steps i [] (im_Platforms i) = Inr builds \<and>
        s \<in> set (builds @ evidence_steps (im_Key i) (map st_Key builds)))"
proof (induction images arbitrary: steps)
  case (Cons i ims)
  then obtain builds rest where r: "im_Platforms i \<noteq> []" "build_steps i [] (im_Platforms i) = Inr builds"
    "all_image_steps ims = Inr rest" "steps = builds @ evidence_steps (im_Key i) (map st_Key builds) @ rest"
    by (auto simp: and_then_Inr image_steps_def split: if_splits)
  show ?case
    using Cons.IH [OF r(3)] r(1,2,4) by (auto simp del: requiredAfter_fields) blast+
qed simp

lemma normalize_images_result:
  "normalize_images seen ims = Inr js \<Longrightarrow>
     length js = length ims \<and>
     (\<forall>im \<in> set ims. \<exists>j \<in> set js. im_Key j = trim_space (im_Key im) \<and> im_Platforms j = im_Platforms im)"
proof (induction seen ims arbitrary: js rule: normalize_images.induct)
  case (2 seen i ims)
  then show ?case by (auto simp: Let_def and_then_Inr split: if_splits)
qed simp

lemma pipeline_default_result:
  assumes "pipeline_default i = Inr p"
  obtains images steps where "images \<noteq> []" "normalize_images [] (in_Images i) = Inr images"
    "all_image_steps images = Inr steps" "Validate p = None"
    "p = source_steps @ steps @
       release_steps (in_RequireMirror i) (map (\<lambda>im. ''published-verify/'' @ im_Key im) images)"
proof -
  from assms obtain images steps where r: "in_Images i \<noteq> []" "normalize_images [] (in_Images i) = Inr images"
    "all_image_steps images = Inr steps" "Validate p = None"
    "p = source_steps @ steps @
       release_steps (in_RequireMirror i) (map (\<lambda>im. ''published-verify/'' @ im_Key im) images)"
    unfolding pipeline_default_def by (auto simp: and_then_Inr Let_def split: if_splits option.splits)
  moreover have "images \<noteq> []" using r(1) normalize_images_result [OF r(2)] by auto
  ultimately show thesis using that by blast
qed

lemma executed_all:
  assumes "Validate p = None" "executed p c" "c \<subseteq> st_Key ` set p"
  shows "executed p (st_Key ` set p)"
  using assms(2,3)
proof (induction "card (st_Key ` set p - c)" arbitrary: c)
  case 0
  then have "c = st_Key ` set p" by auto
  then show ?case using 0(2) by simp
next
  case (Suc n)
  then obtain s where "s \<in> set p" "st_Key s \<notin> c" by (metis card.empty Diff_eq_empty_iff image_subsetI nat.distinct(1))
  from some_step_unblocked [OF assms(1) this(1), of "\<lambda>k. k \<in> c"] this(2)
  obtain s where s: "s \<in> set p" "st_Key s \<notin> c" "list_all (\<lambda>k. k \<in> c) (st_DependsOn s)" by blast
  then have "executed p (insert (st_Key s) c)"
    by (intro one [OF Suc(3) Ready_valid [OF assms(1), of _ "\<lambda>k. False"]]) (simp add: is_ready_def)
  moreover have "st_Key ` set p - c = insert (st_Key s) (st_Key ` set p - insert (st_Key s) c)"
    using s by blast
  then have "card (st_Key ` set p - insert (st_Key s) c) = n" using Suc(2)
    by (metis Diff_iff List.finite_set Suc_inject card_insert_disjoint finite_Diff finite_imageI insertI1)
  ultimately show ?case using Suc(1,4) s(1) by auto
qed

section \<open>Properties of the pipeline\<close>

definition sample_inputs :: inputs where
  "sample_inputs =
     \<lparr>in_Images = [\<lparr>im_Key = '' default'', im_Kind = [], im_Platforms = [''linux/amd64''], im_DependsOn = []\<rparr>],
      in_RequireCompose = False, in_RequireKubernetes = False, in_RequireMirror = True\<rparr>"

definition plan_of :: "inputs \<Rightarrow> plan" where
  "plan_of i = (case pipeline_default i of Inl e \<Rightarrow> [] | Inr p \<Rightarrow> p)"

lemma sample_plan: "pipeline_default sample_inputs = Inr (plan_of sample_inputs)"
proof -
  have "is_ok (pipeline_default sample_inputs)" by code_simp
  then show ?thesis by (auto simp: plan_of_def is_ok_def split: sum.splits)
qed

text \<open>C20: Validation accepts a plan exactly if its keys are distinct and not blank, its timeouts
  positive, its dependencies steps of the plan, and no step depends on itself, directly or through
  others; the order in which the search ranges over the map of steps makes no difference.\<close>

theorem validate_accepts_acyclic:
  assumes "set order = st_Key ` set p"
  shows "Validate_in order p = None \<longleftrightarrow>
     p \<noteq> [] \<and> distinct (map st_Key p) \<and>
     (\<forall>s \<in> set p. trim_space (st_Key s) \<noteq> [] \<and> 0 < st_Timeout s \<and>
        set (st_DependsOn s) \<subseteq> st_Key ` set p) \<and>
     (\<forall>s \<in> set p. (st_Key s, st_Key s) \<notin> {(st_Key t, d) | t d. t \<in> set p \<and> d \<in> set (st_DependsOn t)}\<^sup>+)"
proof (cases "distinct (map st_Key p)")
  case True
  let ?R = "{(st_Key t, d) | t d. t \<in> set p \<and> d \<in> set (st_DependsOn t)}"
  have "deps_of (plan_graph p) k = []" if "k \<notin> st_Key ` set p" for k
  proof -
    have "map_of (plan_graph p) k = None" using that by (metis map_of_eq_None_iff plan_graph_keys)
    then show ?thesis by (simp add: deps_of_def)
  qed
  then have graph: "depends (plan_graph p) = ?R"
    using deps_of_plan [OF True] by (fastforce simp: depends_def)
  have "k \<in> st_Key ` set p" if "(k, k) \<in> ?R\<^sup>+" for k
    using tranclD [OF that] by blast
  then have "acyclic_from (plan_graph p) order = None \<longleftrightarrow> (\<forall>k \<in> st_Key ` set p. (k, k) \<notin> ?R\<^sup>+)"
    unfolding acyclic_from_iff graph assms by blast
  moreover have "st_Key s \<notin> set (st_DependsOn s)" if "s \<in> set p" "(st_Key s, st_Key s) \<notin> ?R\<^sup>+" for s
    using that by blast
  ultimately show ?thesis unfolding Validate_in_None by blast
next
  case False
  then show ?thesis by (simp add: Validate_in_None)
qed

theorem validate_accepts_acyclic_witness:
  "Validate_in [''b'', ''a''] [required ''a'' StepTest 1, requiredAfter ''b'' StepTest 1 [''a'']] = None \<and>
   (''b'', ''b'') \<notin> {(''b'', ''a'')}\<^sup>+"
proof -
  let ?p = "[required ''a'' StepTest 1, requiredAfter ''b'' StepTest 1 [''a'']]"
  have ok: "Validate_in [''b'', ''a''] ?p = None" by code_simp
  have "{(st_Key t, d) | t d. t \<in> set ?p \<and> d \<in> set (st_DependsOn t)} = {(''b'', ''a'')}"
    by (auto intro!: exI [of _ "requiredAfter ''b'' StepTest 1 [''a'']"])
  then show ?thesis using validate_accepts_acyclic [of "[''b'', ''a'']" ?p] ok by auto
qed

text \<open>C34: A validated plan always comes to its end: while a step is not completed and none is running,
  some step is ready, so completing all ready steps over and over completes the plan from any state
  in at most as many rounds as it has steps.\<close>

theorem validated_plan_completes:
  assumes "Validate p = None"
  shows "((\<exists>s \<in> set p. \<not> completed (st_Key s)) \<longrightarrow>
       (\<exists>ready. Ready p completed (\<lambda>k. False) = Inr ready \<and> ready \<noteq> [])) \<and>
     (\<forall>s \<in> set p. rounds p (length p) completed (st_Key s))"
proof
  show "(\<exists>s \<in> set p. \<not> completed (st_Key s)) \<longrightarrow>
       (\<exists>ready. Ready p completed (\<lambda>k. False) = Inr ready \<and> ready \<noteq> [])"
    using some_step_unblocked [OF assms, of _ completed]
    by (auto simp: Ready_valid [OF assms] is_ready_def filter_empty_conv)
  have "open_steps p completed \<subseteq> set p" by (auto simp: open_steps_def)
  then have "card (open_steps p completed) \<le> length p"
    by (meson List.finite_set card_length card_mono order_trans)
  from rounds_complete [OF assms this]
  show "\<forall>s \<in> set p. rounds p (length p) completed (st_Key s)" by (auto simp: open_steps_def)
qed

theorem validated_plan_completes_witness:
  "\<exists>ready. Ready (plan_of sample_inputs) (\<lambda>k. False) (\<lambda>k. False) = Inr ready \<and> map st_Key ready = [''checkout'']"
proof -
  have ok: "Validate (plan_of sample_inputs) = None"
    using pipeline_default_result [OF sample_plan] by blast
  have "\<exists>s \<in> set (plan_of sample_inputs). True" using ok by (cases "plan_of sample_inputs") (auto simp: Validate_None)
  then obtain ready where "Ready (plan_of sample_inputs) (\<lambda>k. False) (\<lambda>k. False) = Inr ready" "ready \<noteq> []"
    using validated_plan_completes [OF ok, of "\<lambda>k. False"] by blast
  moreover have "map_sum id (map st_Key) (Ready (plan_of sample_inputs) (\<lambda>k. False) (\<lambda>k. False)) = Inr [''checkout'']"
    by code_simp
  ultimately show ?thesis by simp
qed

text \<open>C11: In the plan of a release, the policy is evaluated only after every other step is completed
  but the two that record its decision; and a candidate image is published only after its builds for
  all platforms and every test, scan and piece of evidence of the image.\<close>

theorem policy_waits_for_evidence:
  assumes "pipeline_default i = Inr p" "executed p c"
  shows "(''policy-evaluation'' \<in> c \<longrightarrow> (\<forall>s \<in> set p. st_Key s \<in> c \<or>
       st_Key s = ''policy-decision-artifact'' \<or> st_Key s = ''candidate-evidence-summary'')) \<and>
     (\<forall>im \<in> set (in_Images i). ''candidate-publish/'' @ trim_space (im_Key im) \<in> c \<longrightarrow>
       (\<forall>e \<in> set publish_evidence. e @ trim_space (im_Key im) \<in> c) \<and>
       (\<forall>pl \<in> set (im_Platforms im). build_key (trim_space (im_Key im)) pl \<in> c))"
proof -
  let ?c = "\<lambda>k. k \<in> c"
  obtain images steps where r: "images \<noteq> []" "normalize_images [] (in_Images i) = Inr images"
    "all_image_steps images = Inr steps"
    and p: "p = source_steps @ steps @
       release_steps (in_RequireMirror i) (map (\<lambda>im. ''published-verify/'' @ im_Key im) images)"
    by (rule pipeline_default_result [OF assms(1)])
  have parts: "closed source_steps ?c" "closed steps ?c"
    "closed (release_steps (in_RequireMirror i) (map (\<lambda>im. ''published-verify/'' @ im_Key im) images)) ?c"
    using executed_closed [OF assms(2)] by (simp_all add: p closed_append)
  have image: "\<exists>builds. build_steps im [] (im_Platforms im) = Inr builds \<and> builds \<noteq> [] \<and>
      set builds \<subseteq> set steps \<and> closed (evidence_steps (im_Key im) (map st_Key builds)) ?c"
    if im: "im \<in> set images" for im
  proof -
    obtain builds where b: "im_Platforms im \<noteq> []" "build_steps im [] (im_Platforms im) = Inr builds"
      "set (builds @ evidence_steps (im_Key im) (map st_Key builds)) \<subseteq> set steps"
      using all_image_steps_result [OF r(3)] im by blast
    then have "builds \<noteq> []" using build_steps_result [OF b(2)] by auto
    moreover have "closed (evidence_steps (im_Key im) (map st_Key builds)) ?c"
      using closed_subset [OF parts(2)] b(3) by simp
    ultimately show ?thesis using b by auto
  qed
  have publish: "list_all (\<lambda>e. e @ im_Key im \<in> c) publish_evidence \<and>
      (\<forall>pl \<in> set (im_Platforms im). build_key (im_Key im) pl \<in> c)"
    if im: "im \<in> set images" "''candidate-publish/'' @ im_Key im \<in> c" for im
  proof -
    obtain builds where b: "build_steps im [] (im_Platforms im) = Inr builds"
      "closed (evidence_steps (im_Key im) (map st_Key builds)) ?c"
      using image [OF im(1)] by blast
    have ev: "list_all (\<lambda>e. e @ im_Key im \<in> c) publish_evidence"
      using closed_evidence(1) [OF b(2)] im(2) by blast
    then have "''image-manifest/'' @ im_Key im \<in> c" by (simp add: publish_evidence_def)
    then have "list_all ?c (map st_Key builds)" by (rule closed_evidence(2) [OF b(2)])
    then show ?thesis using ev build_steps_result [OF b(1)] by (auto simp: list_all_iff)
  qed
  have all: "\<forall>s \<in> set p. st_Key s \<in> c \<or> st_Key s = ''policy-decision-artifact'' \<or>
      st_Key s = ''candidate-evidence-summary''" if "''policy-evaluation'' \<in> c"
  proof -
    have verified: "''published-verify/'' @ im_Key im \<in> c" if "im \<in> set images" for im
      using closed_release(2) [OF parts(3) \<open>''policy-evaluation'' \<in> c\<close>] that by (simp add: list_all_iff)
    have evidence: "st_Key s \<in> c"
      if im: "im \<in> set images" and b: "build_steps im [] (im_Platforms im) = Inr builds"
        and s: "s \<in> set (builds @ evidence_steps (im_Key im) (map st_Key builds))" for im builds s
    proof -
      have cl: "closed (evidence_steps (im_Key im) (map st_Key builds)) ?c" using image [OF im] b by simp
      have ev: "list_all (\<lambda>s. st_Key s \<in> c) (evidence_steps (im_Key im) (map st_Key builds))"
        using closed_evidence(3) [OF cl] verified [OF im] by blast
      then have "''image-manifest/'' @ im_Key im \<in> c" unfolding evidence_steps_def by (simp only: plan_rules)
      then have "list_all ?c (map st_Key builds)" by (rule closed_evidence(2) [OF cl])
      then show ?thesis using ev s by (auto simp: list_all_iff)
    qed
    have steps: "\<forall>s \<in> set steps. st_Key s \<in> c" using all_image_steps_result [OF r(3)] evidence by blast
    obtain im where im: "im \<in> set images" using r(1) by (cases images) auto
    obtain builds where b: "build_steps im [] (im_Platforms im) = Inr builds" "builds \<noteq> []" "set builds \<subseteq> set steps"
      using image [OF im] by blast
    then have "hd builds \<in> set steps" "{''lock-reproducibility'', ''license-metadata''} \<subseteq> set (st_DependsOn (hd builds))"
      using build_steps_result [OF b(1)] by auto
    then have "''lock-reproducibility'' \<in> c" "''license-metadata'' \<in> c"
      using parts(2) steps by (auto simp: closed_def)
    then have "list_all (\<lambda>s. st_Key s \<in> c) source_steps" by (rule closed_source [OF parts(1)])
    then show ?thesis using steps closed_release(1) [OF parts(3) that] by (auto simp: p list_all_iff)
  qed
  have published: "(\<forall>e \<in> set publish_evidence. e @ trim_space (im_Key im) \<in> c) \<and>
      (\<forall>pl \<in> set (im_Platforms im). build_key (trim_space (im_Key im)) pl \<in> c)"
    if im: "im \<in> set (in_Images i)" "''candidate-publish/'' @ trim_space (im_Key im) \<in> c" for im
  proof -
    obtain im' where im': "im' \<in> set images" "im_Key im' = trim_space (im_Key im)"
      "im_Platforms im' = im_Platforms im"
      using normalize_images_result [OF r(2)] im(1) by blast
    show ?thesis using publish [OF im'(1)] im(2) unfolding im'(2,3) list_all_iff by blast
  qed
  show ?thesis by (rule conjI, rule impI, erule all, intro ballI impI, erule (1) published)
qed

theorem policy_waits_for_evidence_witness:
  "''sbom/default'' \<in> st_Key ` set (plan_of sample_inputs) \<and>
   ''build/default/linux-amd64'' \<in> st_Key ` set (plan_of sample_inputs)"
proof -
  let ?p = "plan_of sample_inputs"
  have ok: "Validate ?p = None" using pipeline_default_result [OF sample_plan] by blast
  have run: "executed ?p (st_Key ` set ?p)" by (rule executed_all [OF ok none]) simp
  have "contains_elem (map st_Key ?p) ''candidate-publish/default''" by code_simp
  then have pub: "''candidate-publish/default'' \<in> st_Key ` set ?p" by simp
  let ?im = "hd (in_Images sample_inputs)"
  have key: "''candidate-publish/default'' = ''candidate-publish/'' @ trim_space (im_Key ?im)"
    "''sbom/default'' = ''sbom/'' @ trim_space (im_Key ?im)"
    "''build/default/linux-amd64'' = build_key (trim_space (im_Key ?im)) ''linux/amd64''"
    by code_simp+
  have "?im \<in> set (in_Images sample_inputs)" "''linux/amd64'' \<in> set (im_Platforms ?im)"
    by (simp_all add: sample_inputs_def)
  moreover have "''sbom/'' \<in> set publish_evidence" by (simp add: publish_evidence_def)
  ultimately show ?thesis
    using policy_waits_for_evidence [OF sample_plan run] pub unfolding key by blast
qed

end
