(* ===== verification/Findings.thy ===== *)
theory Findings
  imports GoText
begin

text \<open>
  Findings and their identity (\<open>internal/models/finding.go\<close>, \<open>internal/finding/identity\<close>): the
  fields of a finding that the modelled code reads or writes, the normalization of its path, and the
  versioned fingerprints by which scans are compared. SHA-256 is a parameter \<open>sha\<close> from bytes to the
  lower-case hexadecimal digest; no property assumes more of it than its hypotheses say.
\<close>

section \<open>Findings\<close>

datatype severity = SeverityCritical | SeverityHigh | SeverityMedium | SeverityLow | SeverityInfo
  | SeverityOther string

datatype category =
    CategorySAST | CategorySCA | CategorySecrets | CategoryQuality | CategoryContainer | CategoryDocs
  | CategoryLicense | CategorySBOM | CategoryInfra | CategoryDAST | CategoryOther string

datatype status = StatusOpen | StatusFixed | StatusWontFix | StatusFalsePositive | StatusOther string

fun category_string :: "category \<Rightarrow> string" where
  "category_string CategorySAST = ''sast''"
| "category_string CategorySCA = ''sca''"
| "category_string CategorySecrets = ''secrets''"
| "category_string CategoryQuality = ''quality''"
| "category_string CategoryContainer = ''container''"
| "category_string CategoryDocs = ''docs''"
| "category_string CategoryLicense = ''license''"
| "category_string CategorySBOM = ''sbom''"
| "category_string CategoryInfra = ''infra''"
| "category_string CategoryDAST = ''dast''"
| "category_string (CategoryOther s) = s"

record finding =
  fi_ID :: string
  fi_ScanID :: string
  fi_RepoID :: string
  fi_Fingerprint :: string
  fi_StableFingerprint :: string
  fi_LocationFingerprint :: string
  fi_SemanticFingerprint :: string
  fi_EvidenceFingerprint :: string
  fi_IdentityVersion :: int
  fi_ToolName :: string
  fi_Category :: category
  fi_Severity :: severity
  fi_Title :: string
  fi_Description :: string
  fi_FilePath :: string
  fi_LineStart :: int
  fi_LineEnd :: int
  fi_CodeSnippet :: string
  fi_CWEID :: string
  fi_RuleID :: string
  fi_PackageName :: string
  fi_PackageVersion :: string
  fi_PackageEcosystem :: string
  fi_PackageURL :: string
  fi_AdvisoryID :: string
  fi_ModuleName :: string
  fi_FunctionName :: string
  fi_SymbolKind :: string
  fi_Status :: status
  fi_FineCategory :: string
  fi_Confidence :: string
  fi_Suppressed :: bool
  fi_SuppressionID :: string
  fi_SuppressedReason :: string
  fi_BaselineState :: string

text \<open>The fields of a scan (\<open>internal/models/scan.go\<close>) that decide its findings' treatment.\<close>

datatype scan_status =
    ScanStatusPending | ScanStatusRunning | ScanStatusCompleted | ScanStatusFailed | ScanStatusCancelled
  | ScanStatusOther string

record scan =
  sc_ID :: string
  sc_RepoID :: string
  sc_Branch :: string
  sc_SourceType :: string
  sc_SourcePath :: string
  sc_PreparedWorkspace :: string
  sc_CommitSHA :: string
  sc_TreeDigest :: string
  sc_SourceFingerprint :: string
  sc_RemoteNodeID :: "string option"
  sc_IgnorePolicyJSON :: string
  sc_Status :: scan_status
  sc_ToolsSelected :: string
  sc_ToolsCompleted :: string
  sc_ToolsFailed :: string

section \<open>Paths\<close>

text \<open>\<open>filepath.Clean\<close> on slash-separated paths; the stack holds the segments from the last one.\<close>

fun clean_segments :: "bool \<Rightarrow> string list \<Rightarrow> string list \<Rightarrow> string list" where
  "clean_segments rooted stack [] = rev stack"
| "clean_segments rooted stack (s # ss) =
     (if s = [] \<or> s = ''.'' then clean_segments rooted stack ss
      else if s = ''..'' then
        (case stack of
           [] \<Rightarrow> clean_segments rooted (if rooted then [] else [''..'']) ss
         | t # ts \<Rightarrow> if t = ''..'' then clean_segments rooted (''..'' # stack) ss
                     else clean_segments rooted ts ss)
      else clean_segments rooted (s # stack) ss)"

definition clean_path :: "string \<Rightarrow> string" where
  "clean_path p =
     (let rooted = has_prefix p ''/'';
          body = join_with ''/'' (clean_segments rooted [] (split_char CHR ''/'' p))
      in if rooted then ''/'' @ body else if body = [] then ''.'' else body)"

definition trim_first_prefix :: "string list \<Rightarrow> string \<Rightarrow> string" where
  "trim_first_prefix prefixes p =
     (case find (has_prefix p) prefixes of None \<Rightarrow> p | Some q \<Rightarrow> trim_prefix p q)"

definition NormalizePath :: "string \<Rightarrow> string" where
  "NormalizePath path =
     (let p1 = trim_prefix (trim_space path) ''file://'' in
      if contains_sub p1 ''://'' then p1
      else
        let p2 = trim_prefix (replace_char (CHR 0x5C) CHR ''/'' p1) ''./'';
            p3 = trim_first_prefix [''/scan/'', ''/workspace/'', ''/repo/'', ''/src/''] p2
        in if contains_elem [''/scan'', ''/workspace'', ''/repo'', ''/src''] p3 then []
           else let p4 = clean_path (trim_prefix p3 ''/'') in if p4 = ''.'' then [] else p4)"

section \<open>Fingerprints\<close>

record fingerprints =
  fp_Stable :: string
  fp_Location :: string
  fp_Semantic :: string
  fp_Evidence :: string
  fp_Version :: int

type_synonym sha_fn = "string \<Rightarrow> string"

definition Digest :: "sha_fn \<Rightarrow> string list \<Rightarrow> string" where
  "Digest sha parts = sha (join_with [CHR 0x00] (map (\<lambda>p. trim_space (to_lower p)) parts))"

fun firstNonEmpty :: "string list \<Rightarrow> string" where
  "firstNonEmpty [] = []"
| "firstNonEmpty (v # vs) = (if trim_space v \<noteq> [] then trim_space v else firstNonEmpty vs)"

definition regexp_space :: "char \<Rightarrow> bool" where
  "regexp_space c \<longleftrightarrow> of_char c \<in> set [9, 10, 12, 13, 32 :: nat]"

text \<open>\<open>whitespaceRE.ReplaceAllString(s, " ")\<close>.\<close>

fun collapse_spaces :: "bool \<Rightarrow> string \<Rightarrow> string" where
  "collapse_spaces in_space [] = []"
| "collapse_spaces in_space (c # cs) =
     (if regexp_space c then (if in_space then collapse_spaces True cs else CHR '' '' # collapse_spaces True cs)
      else c # collapse_spaces False cs)"

definition normalizedSnippetHash :: "sha_fn \<Rightarrow> string \<Rightarrow> string" where
  "normalizedSnippetHash sha snippet =
     (let s = trim_space snippet in
      if s = [] then [] else Digest sha [''snippet'', collapse_spaces False s])"

definition line_text :: "finding \<Rightarrow> string" where
  "line_text f = show_int (fi_LineStart f) @ '':'' @ show_int (fi_LineEnd f)"

definition buildDetectSecret :: "sha_fn \<Rightarrow> finding \<Rightarrow> fingerprints" where
  "buildDetectSecret sha f =
     (let path = NormalizePath (fi_FilePath f);
          line = line_text f;
          opaque = (case cut_char CHR '':'' (fi_RuleID f) of
                      None \<Rightarrow> False | Some (_, hash) \<Rightarrow> length hash = 40 \<and> list_all hex_digit hash);
          stable = Digest sha ([''detect-secret-v3'', fi_RuleID f] @
                     (if opaque then [] else [path, line, fi_Title f]))
      in \<lparr>fp_Stable = stable,
          fp_Location = Digest sha [''detect-secret-location-v3'', stable, path, line],
          fp_Semantic = stable,
          fp_Evidence = Digest sha [''detect-secret-evidence-v3'', stable, path, line, fi_Title f],
          fp_Version = 3\<rparr>)"

definition rule_key :: "finding \<Rightarrow> string" where
  "rule_key f =
     (if fi_Category f = CategorySCA
      then firstNonEmpty [fi_RuleID f, fi_CWEID f, fi_Title f, fi_FineCategory f]
      else firstNonEmpty [fi_FineCategory f, fi_RuleID f, fi_Title f, category_string (fi_Category f)])"

definition buildV1 :: "sha_fn \<Rightarrow> finding \<Rightarrow> fingerprints" where
  "buildV1 sha f =
     (let path = NormalizePath (fi_FilePath f);
          ruleKey = rule_key f;
          symbolKey = firstNonEmpty [fi_FunctionName f, fi_ModuleName f, fi_SymbolKind f];
          snippetHash = normalizedSnippetHash sha (fi_CodeSnippet f);
          line = line_text f;
          location = Digest sha [''location'', path, line, ruleKey, fi_ToolName f];
          semantic = Digest sha [''semantic'', path, ruleKey, symbolKey, snippetHash];
          evidence = Digest sha [''evidence'', fi_ToolName f, fi_RuleID f, fi_Title f, path, line, snippetHash]
      in \<lparr>fp_Stable = (if path = [] \<or> ruleKey = [] then location else semantic),
          fp_Location = location, fp_Semantic = semantic, fp_Evidence = evidence, fp_Version = 1\<rparr>)"

definition upper_char :: "char \<Rightarrow> char" where
  "upper_char c =
     (if 97 \<le> (of_char c :: nat) \<and> (of_char c :: nat) \<le> 122 then char_of ((of_char c :: nat) - 32) else c)"

definition to_upper :: "string \<Rightarrow> string" where
  "to_upper s = map upper_char s"

definition advisory_matches :: "string \<Rightarrow> string list \<Rightarrow> string list" where
  "advisory_matches prefix candidates =
     filter (\<lambda>c. has_prefix c prefix) (map (\<lambda>c. to_upper (trim_space c)) candidates)"

definition CanonicalAdvisory :: "string \<Rightarrow> string list \<Rightarrow> string" where
  "CanonicalAdvisory i aliases =
     (let candidates = trim_space i # aliases;
          cves = advisory_matches ''CVE-'' candidates;
          ghsas = advisory_matches ''GHSA-'' candidates
      in if cves \<noteq> [] then hd (sort cves) else if ghsas \<noteq> [] then hd (sort ghsas) else trim_space i)"

definition packageEcosystem :: "string \<Rightarrow> string" where
  "packageEcosystem value =
     (let v = to_lower (trim_space value) in
      if contains_elem [''go'', ''gomod'', ''go-module''] v then ''golang''
      else if contains_elem [''python'', ''python-pkg'', ''pip''] v then ''pypi''
      else if contains_elem [''rust'', ''rust-crate''] v then ''cargo''
      else if contains_elem [''node-pkg'', ''nodejs''] v then ''npm''
      else if contains_elem [''java'', ''java-archive'', ''jar'', ''pom''] v then ''maven''
      else if contains_elem [''dotnet'', ''dotnet-deps''] v then ''nuget''
      else v)"

text \<open>The digest of length-prefixed parts of \<open>buildSCA\<close>.\<close>

definition framed :: "string list \<Rightarrow> string" where
  "framed parts = concat (map (\<lambda>p. show_int (int (length p)) @ '':'' @ p) parts)"

definition sca_parts :: "finding \<Rightarrow> string list" where
  "sca_parts f =
     (let advisory = CanonicalAdvisory (firstNonEmpty [fi_AdvisoryID f, fi_RuleID f]) [] in
      [''sca-v2'', NormalizePath (fi_FilePath f), packageEcosystem (fi_PackageEcosystem f),
       trim_space (fi_PackageName f), trim_space (fi_PackageVersion f), trim_space (fi_PackageURL f),
       advisory] @
      (if (trim_space (fi_PackageName f) = [] \<and> trim_space (fi_PackageURL f) = []) \<or> advisory = []
       then [fi_ToolName f, fi_Title f, fi_Description f] else []))"

definition buildSCA :: "sha_fn \<Rightarrow> finding \<Rightarrow> fingerprints" where
  "buildSCA sha f =
     (let parts = sca_parts f; stable = sha (framed parts) in
      \<lparr>fp_Stable = stable,
       fp_Location = sha (framed (parts @ [line_text f, fi_ToolName f])),
       fp_Semantic = stable,
       fp_Evidence = sha (framed (parts @ [fi_ToolName f, fi_RuleID f, fi_Title f, fi_Description f])),
       fp_Version = 2\<rparr>)"

definition Build :: "sha_fn \<Rightarrow> finding \<Rightarrow> fingerprints" where
  "Build sha f =
     (if fi_Category f = CategorySecrets \<and> fi_ToolName f = ''detect-secrets'' then buildDetectSecret sha f
      else if fi_Category f = CategorySCA then buildSCA sha f
      else buildV1 sha f)"

text \<open>\<open>cweRE\<close> with \<open>strconv.Atoi\<close>: the digits after an optional prefix, up to a word boundary.\<close>

definition word_char :: "char \<Rightarrow> bool" where
  "word_char c \<longleftrightarrow> (let n = (of_char c :: int) in 48 \<le> n \<and> n \<le> 57 \<or> 65 \<le> n \<and> n \<le> 90 \<or> 97 \<le> n \<and> n \<le> 122 \<or> n = 95)"

definition cwe_number :: "string \<Rightarrow> int option" where
  "cwe_number value =
     (let s = trim_space value;
          body = (if to_upper (take 4 s) = ''CWE-'' then drop 4 s else s);
          digits = takeWhile (\<lambda>c. digit_value c \<noteq> None) body;
          rest = drop (length digits) body
      in if digits = [] \<or> (rest \<noteq> [] \<and> word_char (hd rest)) then None
         else case parse_int64 digits of None \<Rightarrow> None | Some n \<Rightarrow> if 0 < n then Some n else None)"

definition keep_or :: "string \<Rightarrow> string \<Rightarrow> string" where
  "keep_or old new = (if old = [] then new else old)"

definition apply_identity :: "sha_fn \<Rightarrow> finding \<Rightarrow> finding" where
  "apply_identity sha f =
     (let fps = (if fi_IdentityVersion f = 1 then buildV1 sha f else Build sha f) in
      f\<lparr>fi_FilePath := NormalizePath (fi_FilePath f),
        fi_CWEID := (case cwe_number (fi_CWEID f) of None \<Rightarrow> fi_CWEID f | Some n \<Rightarrow> ''CWE-'' @ show_int n),
        fi_StableFingerprint := keep_or (fi_StableFingerprint f) (fp_Stable fps),
        fi_LocationFingerprint := keep_or (fi_LocationFingerprint f) (fp_Location fps),
        fi_SemanticFingerprint := keep_or (fi_SemanticFingerprint f) (fp_Semantic fps),
        fi_EvidenceFingerprint := keep_or (fi_EvidenceFingerprint f) (fp_Evidence fps),
        fi_IdentityVersion := (if fi_IdentityVersion f = 0 then fp_Version fps else fi_IdentityVersion f),
        fi_Fingerprint := keep_or (fi_Fingerprint f) (fp_Stable fps)\<rparr>)"

section \<open>Clusters\<close>

text \<open>\<open>%q\<close> of an ASCII string.\<close>

definition hex_char :: "nat \<Rightarrow> char" where
  "hex_char n = char_of (if n < 10 then 48 + n else 87 + n)"

definition quote_char :: "char \<Rightarrow> string" where
  "quote_char c =
     (let n = (of_char c :: nat) in
      if n = 34 \<or> n = 92 then [CHR 0x5C, c]
      else if n = 7 then [CHR 0x5C, CHR ''a'']
      else if n = 8 then [CHR 0x5C, CHR ''b'']
      else if n = 12 then [CHR 0x5C, CHR ''f'']
      else if n = 10 then [CHR 0x5C, CHR ''n'']
      else if n = 13 then [CHR 0x5C, CHR ''r'']
      else if n = 9 then [CHR 0x5C, CHR ''t'']
      else if n = 11 then [CHR 0x5C, CHR ''v'']
      else if n < 32 \<or> n = 127 then [CHR 0x5C, CHR ''x'', hex_char (n div 16), hex_char (n mod 16)]
      else [c])"

definition go_quote :: "string \<Rightarrow> string" where
  "go_quote s = [CHR 0x22] @ concat (map quote_char s) @ [CHR 0x22]"

definition ClusterKey :: "sha_fn \<Rightarrow> finding \<Rightarrow> string" where
  "ClusterKey sha f =
     (if fi_Category f = CategorySecrets \<and> fi_ToolName f = ''detect-secrets''
      then ''detect-secret:'' @ fp_Stable (Build sha f)
      else if fi_Category f = CategorySCA then ''sca:'' @ fp_Stable (Build sha f)
      else
        let identifier = (if fi_FineCategory f \<noteq> [] then fi_FineCategory f
                          else if fi_RuleID f \<noteq> [] then fi_RuleID f else fi_Title f)
        in join_with '':'' [go_quote (category_string (fi_Category f)), go_quote (fi_FilePath f),
                          show_int (fi_LineStart f), go_quote identifier])"

section \<open>Which of two findings of a cluster is shown\<close>

fun severityRank :: "severity \<Rightarrow> int" where
  "severityRank SeverityCritical = 5"
| "severityRank SeverityHigh = 4"
| "severityRank SeverityMedium = 3"
| "severityRank SeverityLow = 2"
| "severityRank SeverityInfo = 1"
| "severityRank (SeverityOther s) = 0"

definition visible :: "finding \<Rightarrow> bool" where
  "visible f \<longleftrightarrow> \<not> fi_Suppressed f \<and> (fi_Status f = StatusOpen \<or> fi_Status f = StatusOther [])"

definition PreferPrimary :: "finding \<Rightarrow> finding \<Rightarrow> bool" where
  "PreferPrimary candidate current \<longleftrightarrow>
     visible candidate \<and> \<not> visible current \<or>
     visible candidate = visible current \<and>
       severityRank (fi_Severity current) < severityRank (fi_Severity candidate)"

section \<open>Length prefixes keep the parts apart\<close>

lemma framed_Nil [simp]: "framed [] = []"
  by (simp add: framed_def)

lemma framed_Cons: "framed (p # ps) = show_int (int (length p)) @ CHR '':'' # p @ framed ps"
  by (simp add: framed_def)

lemma show_int_no_colon: "0 \<le> n \<Longrightarrow> CHR '':'' \<notin> set (show_int n)"
  using show_int_digits [of n] digit_not_sign(3)
  by (fastforce simp: all_digits_def list_all_iff simp del: not_None_eq)

lemma show_int_inj: "0 \<le> m \<Longrightarrow> 0 \<le> n \<Longrightarrow> show_int m = show_int n \<Longrightarrow> m = n"
  by (metis parse_digits_show_int option.inject)

lemma framed_inj: "framed ps = framed qs \<Longrightarrow> ps = qs"
proof (induction ps arbitrary: qs)
  case Nil
  then show ?case by (cases qs) (auto simp: framed_Cons)
next
  case (Cons p ps)
  then obtain q qs' where qs: "qs = q # qs'" by (cases qs) (auto simp: framed_Cons)
  have "cut_char CHR '':'' (framed (p # ps)) = cut_char CHR '':'' (framed (q # qs'))"
    using Cons.prems qs by simp
  then have "show_int (int (length p)) = show_int (int (length q)) \<and> p @ framed ps = q @ framed qs'"
    by (simp add: framed_Cons cut_char_append show_int_no_colon)
  then have "length p = length q" "p @ framed ps = q @ framed qs'"
    using show_int_inj [of "int (length p)" "int (length q)"] by simp_all
  then show ?case using Cons.IH qs by auto
qed

text \<open>Where SHA-256 does not collide on the two inputs, two findings of software composition analysis have the same
  stable identity exactly when path, ecosystem, name, version, package URL and advisory agree (and,
  where no package or no advisory is known, tool, title and description too): the length prefixes
  keep parts from running into each other.\<close>

theorem sca_identity_exact:
  assumes "inj_on sha {framed (sca_parts f), framed (sca_parts g)}"
    and "fi_Category f = CategorySCA" "fi_Category g = CategorySCA"
  shows "fp_Stable (Build sha f) = fp_Stable (Build sha g) \<longleftrightarrow> sca_parts f = sca_parts g"
proof -
  have "fp_Stable (Build sha x) = sha (framed (sca_parts x))" if "fi_Category x = CategorySCA" for x
    using that by (simp add: Build_def buildSCA_def Let_def)
  then have "fp_Stable (Build sha f) = fp_Stable (Build sha g) \<longleftrightarrow>
      sha (framed (sca_parts f)) = sha (framed (sca_parts g))"
    using assms by simp
  also have "\<dots> \<longleftrightarrow> framed (sca_parts f) = framed (sca_parts g)"
    using assms(1) by (auto dest: inj_onD)
  finally show ?thesis using framed_inj by metis
qed

text \<open>A finding to try the theorems on.\<close>

definition sample_finding :: "string \<Rightarrow> string \<Rightarrow> finding" where
  "sample_finding i key =
     \<lparr>fi_ID = i, fi_ScanID = ''s'', fi_RepoID = ''r'', fi_Fingerprint = [], fi_StableFingerprint = key,
      fi_LocationFingerprint = [], fi_SemanticFingerprint = [], fi_EvidenceFingerprint = [],
      fi_IdentityVersion = 1, fi_ToolName = ''gosec'', fi_Category = CategorySAST,
      fi_Severity = SeverityHigh, fi_Title = ''t'', fi_Description = [], fi_FilePath = ''a.go'',
      fi_LineStart = 1, fi_LineEnd = 1, fi_CodeSnippet = [], fi_CWEID = [], fi_RuleID = ''G1'',
      fi_PackageName = [], fi_PackageVersion = [], fi_PackageEcosystem = [], fi_PackageURL = [],
      fi_AdvisoryID = [], fi_ModuleName = [], fi_FunctionName = [], fi_SymbolKind = [],
      fi_Status = StatusOpen, fi_FineCategory = [], fi_Confidence = ''high'', fi_Suppressed = False,
      fi_SuppressionID = [], fi_SuppressedReason = [], fi_BaselineState = []\<rparr>"

text \<open>Names and versions that only differ in where one ends and the next begins stay apart, here with the
  injective digest that leaves its input alone.\<close>

definition package_finding :: "string \<Rightarrow> string \<Rightarrow> finding" where
  "package_finding name version =
     (sample_finding ''1'' [])\<lparr>fi_Category := CategorySCA, fi_PackageName := name, fi_PackageVersion := version\<rparr>"

theorem sca_identity_exact_witness:
  "fp_Stable (Build (\<lambda>x. x) (package_finding ''ab'' ''1'')) \<noteq> fp_Stable (Build (\<lambda>x. x) (package_finding ''a'' ''b1''))"
proof -
  have parts: "sca_parts (package_finding ''ab'' ''1'') \<noteq> sca_parts (package_finding ''a'' ''b1'')" by code_simp
  have "fi_Category (package_finding n v) = CategorySCA" for n v by (simp add: package_finding_def)
  then show ?thesis using parts by (subst sca_identity_exact) simp_all
qed

section \<open>Identity is assigned once\<close>

lemma to_upper_CWE: "to_upper ''CWE-'' = ''CWE-''"
  by code_simp

lemma cwe_number_canonical:
  assumes "0 < n" "n < 2 ^ 63"
  shows "cwe_number (''CWE-'' @ show_int n) = Some n"
proof -
  have d: "all_digits (show_int n)" using assms show_int_digits by simp
  then have "last (show_int n) \<in> set (show_int n)" by (simp add: all_digits_def)
  then have "\<not> is_space (last (show_int n))"
    using d digit_not_sign(4) by (auto simp: all_digits_def list_all_iff)
  moreover have "\<not> is_space CHR ''C''" by (simp add: is_space_def)
  ultimately have "trim_space (''CWE-'' @ show_int n) = ''CWE-'' @ show_int n"
    using d by (intro trim_space_id) (simp add: all_digits_def)
  moreover have "takeWhile (\<lambda>c. digit_value c \<noteq> None) (show_int n) = show_int n"
    using d by (simp add: all_digits_def takeWhile_eq_all_conv list_all_iff)
  moreover have "parse_int64 (show_int n) = Some n" using assms by (simp add: parse_int64_show_int)
  moreover have "show_int n \<noteq> []" using d by (simp add: all_digits_def)
  ultimately show ?thesis
    using assms by (simp add: cwe_number_def to_upper_CWE Let_def del: not_None_eq takeWhile_eq_all_conv)
qed

lemma cwe_number_range:
  assumes "cwe_number v = Some n"
  shows "0 < n \<and> n < 2 ^ 63"
proof -
  obtain digits where "parse_int64 digits = Some n" "0 < n"
    using assms by (auto simp: cwe_number_def Let_def split: if_splits option.splits)
  then show ?thesis by (auto simp: parse_int64_def in_int64_def Let_def split: if_splits option.splits)
qed

lemma apply_identity_CWEID:
  "fi_CWEID (apply_identity sha f) =
     (case cwe_number (fi_CWEID f) of None \<Rightarrow> fi_CWEID f | Some n \<Rightarrow> ''CWE-'' @ show_int n)"
  by (simp add: apply_identity_def Let_def)

text \<open>Every spelling of a weakness identifier becomes the one canonical text, and a second identity step
  leaves it alone.\<close>

lemma cwe_canonical_form:
  "cwe_number (fi_CWEID f) = Some n \<Longrightarrow> fi_CWEID (apply_identity sha f) = ''CWE-'' @ show_int n"
  "fi_CWEID (apply_identity sha' (apply_identity sha f)) = fi_CWEID (apply_identity sha f)"
  using cwe_number_canonical cwe_number_range by (auto simp: apply_identity_CWEID split: option.splits)

end
