(* ===== verification/Globs.thy ===== *)
theory Globs
  imports Findings
begin

text \<open>
  The path globs of suppression rules (\<open>pathMatch\<close> in \<open>internal/scan/suppress/suppress.go\<close>).
  \<open>path.Match\<close> of the Go library is written out (\<open>glob_match\<close>) for names and patterns of ASCII: a
  rune is one byte. The loop over double stars is shown to decide the recursive definition of such a
  pattern (\<open>segments_match\<close>).
\<close>

section \<open>\<open>path.Match\<close>\<close>

datatype glob_item = GStar | GAny | GClass bool "(char \<times> char) list" | GLit char

definition backslash :: char where
  "backslash = CHR 0x5C"

text \<open>\<open>getEsc\<close>: a possibly escaped character of a class, which may not end the pattern.\<close>

definition get_esc :: "string \<Rightarrow> (char \<times> string) option" where
  "get_esc s =
     (case s of
        [] \<Rightarrow> None
      | c # cs \<Rightarrow>
          if c = CHR ''-'' \<or> c = CHR '']'' then None
          else let t = (if c = backslash then cs else s) in
               case t of [] \<Rightarrow> None | d # ds \<Rightarrow> if ds = [] then None else Some (d, ds))"

lemma get_esc_shorter: "get_esc s = Some (c, r) \<Longrightarrow> length r < length s"
  by (auto simp: get_esc_def Let_def split: list.splits if_splits)

text \<open>The ranges of a class up to its closing bracket.\<close>

function class_ranges :: "nat \<Rightarrow> string \<Rightarrow> ((char \<times> char) list \<times> string) option" where
  "class_ranges nrange s =
     (if 0 < nrange \<and> take 1 s = '']'' then Some ([], drop 1 s)
      else case get_esc s of
             None \<Rightarrow> None
           | Some (lo, r) \<Rightarrow>
               (case (if take 1 r = ''-'' then get_esc (drop 1 r) else Some (lo, r)) of
                  None \<Rightarrow> None
                | Some (hi, r') \<Rightarrow>
                    map_option (\<lambda>(rs, t). ((lo, hi) # rs, t)) (class_ranges (Suc nrange) r')))"
  by pat_completeness auto

termination
proof (relation "measure (\<lambda>(n, s). length s)", goal_cases)
  case 1
  then show ?case by simp
next
  case (2 nrange s a lo r b hi r')
  then have "length r < length s" by (auto dest: get_esc_shorter)
  moreover have "length r' \<le> length r"
    using 2 by (auto split: if_splits dest: get_esc_shorter)
  ultimately show ?case by simp
qed

declare class_ranges.simps [simp del]

lemma class_ranges_shorter: "class_ranges n s = Some (rs, t) \<Longrightarrow> length t < length s"
proof (induction n s arbitrary: rs t rule: class_ranges.induct)
  case (1 n s)
  show ?case
  proof (cases "0 < n \<and> take 1 s = '']''")
    case True
    then show ?thesis using 1(2) by (cases s) (auto simp: class_ranges.simps)
  next
    case False
    then obtain lo r hi r' rs' where e: "get_esc s = Some (lo, r)"
      "(if take 1 r = ''-'' then get_esc (drop 1 r) else Some (lo, r)) = Some (hi, r')"
      "class_ranges (Suc n) r' = Some (rs', t)"
      using 1(2) by (subst (asm) class_ranges.simps) (auto split: option.splits prod.splits)
    have "length r' \<le> length r" using e(2) by (auto split: if_splits dest: get_esc_shorter)
    then show ?thesis using 1(1) [OF False e(1) _ e(2) _ e(3)] get_esc_shorter [OF e(1)] by simp
  qed
qed

text \<open>The items of a pattern; \<open>None\<close> is \<open>ErrBadPattern\<close>.\<close>

function glob_items :: "string \<Rightarrow> glob_item list option" where
  "glob_items [] = Some []"
| "glob_items (c # cs) =
     (if c = CHR ''*'' then map_option (Cons GStar) (glob_items cs)
      else if c = CHR ''?'' then map_option (Cons GAny) (glob_items cs)
      else if c = CHR ''['' then
        (let negated = (take 1 cs = ''^'') in
         case class_ranges 0 (if negated then drop 1 cs else cs) of
           None \<Rightarrow> None
         | Some (rs, r) \<Rightarrow> map_option (Cons (GClass negated rs)) (glob_items r))
      else if c = backslash then
        (case cs of [] \<Rightarrow> None | d # ds \<Rightarrow> map_option (Cons (GLit d)) (glob_items ds))
      else map_option (Cons (GLit c)) (glob_items cs))"
  by pat_completeness auto

termination
  by (relation "measure length") (auto dest!: class_ranges_shorter split: if_splits)

text \<open>The pattern as chunks without stars, each with the stars in front of it (\<open>scanChunk\<close>).\<close>

fun glob_chunks :: "glob_item list \<Rightarrow> (bool \<times> glob_item list) list" where
  "glob_chunks [] = []"
| "glob_chunks (GStar # is) =
     (case glob_chunks is of
        [] \<Rightarrow> [(True, [])]
      | (star, chunk) # rest \<Rightarrow> if star then (star, chunk) # rest else (True, chunk) # rest)"
| "glob_chunks (i # is) =
     (case glob_chunks is of
        [] \<Rightarrow> [(False, [i])]
      | (star, chunk) # rest \<Rightarrow>
          if star then (False, [i]) # (star, chunk) # rest else (False, i # chunk) # rest)"

fun glob_item_match :: "glob_item \<Rightarrow> char \<Rightarrow> bool" where
  "glob_item_match GStar c \<longleftrightarrow> False"
| "glob_item_match GAny c \<longleftrightarrow> c \<noteq> CHR ''/''"
| "glob_item_match (GClass negated rs) c \<longleftrightarrow>
     list_ex (\<lambda>(lo, hi). (of_char lo :: nat) \<le> of_char c \<and> (of_char c :: nat) \<le> of_char hi) rs \<noteq> negated"
| "glob_item_match (GLit d) c \<longleftrightarrow> c = d"

text \<open>\<open>matchChunk\<close> returns the rest of the name.\<close>

fun match_chunk :: "glob_item list \<Rightarrow> string \<Rightarrow> string option" where
  "match_chunk [] s = Some s"
| "match_chunk (i # is) [] = None"
| "match_chunk (i # is) (c # cs) = (if glob_item_match i c then match_chunk is cs else None)"

text \<open>The scan for the first position after a star at which the chunk matches, within a segment.\<close>

fun find_chunk :: "bool \<Rightarrow> glob_item list \<Rightarrow> string \<Rightarrow> string option" where
  "find_chunk is_last chunk [] = None"
| "find_chunk is_last chunk (c # cs) =
     (if c = CHR ''/'' then None
      else case match_chunk chunk cs of
             Some t \<Rightarrow> if is_last \<and> t \<noteq> [] then find_chunk is_last chunk cs else Some t
           | None \<Rightarrow> find_chunk is_last chunk cs)"

fun match_chunks :: "(bool \<times> glob_item list) list \<Rightarrow> string \<Rightarrow> bool" where
  "match_chunks [] s \<longleftrightarrow> s = []"
| "match_chunks ((star, chunk) # rest) s \<longleftrightarrow>
     (if star \<and> chunk = [] then \<not> contains_elem s CHR ''/''
      else case (case match_chunk chunk s of
                   Some t \<Rightarrow> if t = [] \<or> rest \<noteq> [] then Some t
                             else if star then find_chunk (rest = []) chunk s else None
                 | None \<Rightarrow> if star then find_chunk (rest = []) chunk s else None) of
             None \<Rightarrow> False
           | Some t \<Rightarrow> match_chunks rest t)"

definition glob_match :: "string \<Rightarrow> string \<Rightarrow> bool" where
  "glob_match pattern name =
     (case glob_items pattern of None \<Rightarrow> False | Some is \<Rightarrow> match_chunks (glob_chunks is) name)"

section \<open>Paths\<close>

definition matchAnyPrefix :: "string \<Rightarrow> string \<Rightarrow> bool" where
  "matchAnyPrefix pattern name =
     (let parts = split_char CHR ''/'' name in
      list_ex (\<lambda>i. glob_match pattern (join_with ''/'' (drop i parts))) [0..<length parts])"

text \<open>The loop of \<open>doubleStarMatch\<close>: the rest of the pattern and of the name, and where the last
  double star left off (\<open>ppStar\<close> and \<open>npStar\<close>, as the rests at these positions).\<close>

function double_star :: "string list \<Rightarrow> string list \<Rightarrow> (string list \<times> string list) option \<Rightarrow> bool" where
  "double_star pat [] star \<longleftrightarrow> list_all (\<lambda>p. p = ''**'') pat"
| "double_star pat (x # xs) star \<longleftrightarrow>
     (if pat \<noteq> [] \<and> hd pat = ''**'' then double_star (tl pat) (x # xs) (Some (tl pat, x # xs))
      else if pat \<noteq> [] \<and> glob_match (hd pat) x then double_star (tl pat) xs star
      else case star of
             None \<Rightarrow> False
           | Some (after, from) \<Rightarrow>
               if from = [] then False else double_star after (tl from) (Some (after, tl from)))"
  by pat_completeness auto

termination
  by (relation "measures [\<lambda>(pat, name, star). (case star of None \<Rightarrow> length pat
                              | Some (after, from) \<Rightarrow> max (length pat) (length after)),
                          \<lambda>(pat, name, star). (case star of None \<Rightarrow> 0 | Some (after, from) \<Rightarrow> length from),
                          \<lambda>(pat, name, star). length name]")
    (auto simp: less_max_iff_disj neq_Nil_conv split: option.splits)

definition doubleStarMatch :: "string list \<Rightarrow> string list \<Rightarrow> bool" where
  "doubleStarMatch pat parts = double_star pat parts None"

definition pathMatch :: "string \<Rightarrow> string \<Rightarrow> bool" where
  "pathMatch pattern name =
     (let n = trim_prefix name ''./'' in
      if \<not> contains_sub pattern ''**'' then glob_match pattern n \<or> matchAnyPrefix pattern n
      else doubleStarMatch (split_char CHR ''/'' pattern) (split_char CHR ''/'' n))"

section \<open>The double-star loop decides the recursive definition\<close>

text \<open>What the comment of \<open>pathMatch\<close> promises: a double star is any number of segments, every other
  segment of the pattern is one segment of the path.\<close>

fun segments_match :: "string list \<Rightarrow> string list \<Rightarrow> bool" where
  "segments_match [] name \<longleftrightarrow> name = []"
| "segments_match (p # ps) [] \<longleftrightarrow> p = ''**'' \<and> segments_match ps []"
| "segments_match (p # ps) (x # xs) \<longleftrightarrow>
     (if p = ''**'' then segments_match ps (x # xs) \<or> segments_match (p # ps) xs
      else glob_match p x \<and> segments_match ps xs)"

lemma segments_match_Nil: "segments_match pat [] \<longleftrightarrow> list_all (\<lambda>p. p = ''**'') pat"
  by (induction pat) auto

lemma ex_le_Suc: "(\<exists>k \<le> Suc n. P k) \<longleftrightarrow> P 0 \<or> (\<exists>k \<le> n. P (Suc k))"
  by (metis Suc_le_mono le0 not0_implies_Suc)

lemma segments_match_double_star:
  "segments_match (''**'' # ps) name \<longleftrightarrow> (\<exists>k \<le> length name. segments_match ps (drop k name))"
  by (induction name) (simp_all add: ex_le_Suc)

lemma double_star_tail:
  "segments_match (''**'' # ps) (drop k name) \<Longrightarrow> segments_match (''**'' # ps) name"
proof (induction name arbitrary: k)
  case (Cons x xs)
  then show ?case by (cases k) auto
qed simp

lemma segments_match_drop:
  "''**'' \<notin> set qs \<Longrightarrow> segments_match (qs @ ps) name \<Longrightarrow>
   length qs \<le> length name \<and> segments_match ps (drop (length qs) name)"
proof (induction qs arbitrary: name)
  case (Cons q qs)
  then show ?case by (cases name) auto
qed simp

text \<open>The loop's invariant: the segments since the last double star are plain, and as many segments
  of the name were matched against them.\<close>

definition star_ok :: "string list \<Rightarrow> string list \<Rightarrow> (string list \<times> string list) option \<Rightarrow> bool" where
  "star_ok pat name star =
     (case star of
        None \<Rightarrow> True
      | Some (after, mark) \<Rightarrow>
          (\<exists>qs pre. after = qs @ pat \<and> mark = pre @ name \<and> length pre = length qs \<and> ''**'' \<notin> set qs))"

definition later_match :: "(string list \<times> string list) option \<Rightarrow> bool" where
  "later_match star =
     (case star of
        None \<Rightarrow> False
      | Some (after, mark) \<Rightarrow> (\<exists>k. 0 < k \<and> k \<le> length mark \<and> segments_match after (drop k mark)))"

lemma later_match_stale:
  assumes "star_ok pat [] star"
  shows "\<not> later_match star"
proof
  assume "later_match star"
  then obtain after mark k where star: "star = Some (after, mark)" and k: "0 < k" "k \<le> length mark"
    and m: "segments_match after (drop k mark)"
    by (auto simp: later_match_def split: option.splits)
  then obtain qs where "after = qs @ pat" "length mark = length qs" "''**'' \<notin> set qs"
    using assms by (auto simp: star_ok_def)
  then show False using segments_match_drop m k by fastforce
qed

lemma ex_pos_le_Suc: "(\<exists>k. 0 < k \<and> k \<le> Suc n \<and> P k) \<longleftrightarrow> (\<exists>k \<le> n. P (Suc k))"
  by (metis Suc_le_mono gr0_implies_Suc zero_less_Suc)

text \<open>Meeting a further double star, the earlier one can be forgotten.\<close>

lemma later_match_forget:
  assumes "star_ok (''**'' # ps) name star" "later_match star"
  shows "segments_match (''**'' # ps) name"
proof -
  obtain after mark k where star: "star = Some (after, mark)"
    and m: "segments_match after (drop k mark)"
    using assms(2) by (auto simp: later_match_def split: option.splits)
  then obtain qs pre where *: "after = qs @ ''**'' # ps" "mark = pre @ name" "length pre = length qs"
    "''**'' \<notin> set qs"
    using assms(1) by (auto simp: star_ok_def)
  then have "segments_match (''**'' # ps) (drop (length qs) (drop k mark))"
    using segments_match_drop m by blast
  moreover have "drop (length qs) (drop k mark) = drop k name"
    using * by (metis add.commute append_eq_conv_conj drop_drop)
  ultimately show ?thesis using double_star_tail by metis
qed

lemma later_match_advance:
  "mark \<noteq> [] \<Longrightarrow> later_match (Some (after, mark)) \<longleftrightarrow>
   segments_match after (tl mark) \<or> later_match (Some (after, tl mark))"
proof (cases mark)
  case (Cons x xs)
  have "later_match (Some (after, x # xs)) \<longleftrightarrow>
        (\<exists>k \<le> length xs. segments_match after (drop k xs))"
    by (simp add: later_match_def ex_pos_le_Suc)
  also have "\<dots> \<longleftrightarrow> segments_match after xs \<or> later_match (Some (after, xs))"
    by (cases xs) (simp_all add: later_match_def ex_pos_le_Suc ex_le_Suc)
  finally show ?thesis using Cons by simp
qed simp

definition stuck_at :: "string list \<Rightarrow> string \<Rightarrow> bool" where
  "stuck_at pat x = (case pat of [] \<Rightarrow> True | p # ps \<Rightarrow> p \<noteq> ''**'' \<and> \<not> glob_match p x)"

lemma double_star_steps:
  "double_star (''**'' # ps) (x # xs) star = double_star ps (x # xs) (Some (ps, x # xs))"
  "p \<noteq> ''**'' \<Longrightarrow> glob_match p x \<Longrightarrow> double_star (p # ps) (x # xs) star = double_star ps xs star"
  "stuck_at pat x \<Longrightarrow> \<not> double_star pat (x # xs) None"
  "stuck_at pat x \<Longrightarrow> mark \<noteq> [] \<Longrightarrow>
   double_star pat (x # xs) (Some (after, mark)) = double_star after (tl mark) (Some (after, tl mark))"
  by (cases pat; simp add: stuck_at_def)+

lemma stuck_at_no_match: "stuck_at pat x \<Longrightarrow> \<not> segments_match pat (x # xs)"
  by (cases pat) (auto simp: stuck_at_def)

declare double_star.simps(2) [simp del]

lemma double_star_gen:
  "star_ok pat name star \<Longrightarrow>
   double_star pat name star \<longleftrightarrow> segments_match pat name \<or> later_match star"
proof (induction pat name star rule: double_star.induct)
  case (1 pat star)
  then show ?case by (simp add: segments_match_Nil later_match_stale)
next
  case (2 pat x xs star)
  consider (dstar) ps where "pat = ''**'' # ps"
    | (step) p ps where "pat = p # ps" "p \<noteq> ''**''" "glob_match p x"
    | (stuck) "stuck_at pat x"
    by (cases pat) (auto simp: stuck_at_def)
  then show ?case
  proof cases
    case dstar
    have "double_star pat (x # xs) star = double_star ps (x # xs) (Some (ps, x # xs))"
      by (simp add: dstar double_star_steps)
    also have "\<dots> \<longleftrightarrow> segments_match ps (x # xs) \<or> later_match (Some (ps, x # xs))"
      using "2.IH"(1) dstar by (simp add: star_ok_def)
    also have "\<dots> \<longleftrightarrow> segments_match pat (x # xs)"
      using later_match_advance [of "x # xs" ps] by (auto simp: dstar segments_match_double_star later_match_def ex_le_Suc)
    finally show ?thesis using later_match_forget "2.prems" dstar by blast
  next
    case step
    have "star_ok ps xs star"
      using "2.prems" step by (fastforce simp: star_ok_def split: option.splits)
    then show ?thesis using "2.IH"(2) step by (simp add: double_star_steps)
  next
    case stuck
    then have no: "\<not> segments_match pat (x # xs)" "\<not> (pat \<noteq> [] \<and> hd pat = ''**'')"
      "\<not> (pat \<noteq> [] \<and> glob_match (hd pat) x)"
      by (auto simp: stuck_at_no_match stuck_at_def split: list.splits)
    show ?thesis
    proof (cases star)
      case None
      then show ?thesis using stuck no by (simp add: later_match_def double_star_steps)
    next
      case (Some s)
      obtain after mark where s: "s = (after, mark)" by (cases s)
      then have ne: "mark \<noteq> []" using "2.prems" Some by (auto simp: star_ok_def)
      have "double_star pat (x # xs) star = double_star after (tl mark) (Some (after, tl mark))"
        by (simp add: stuck Some s ne double_star_steps)
      also have "\<dots> \<longleftrightarrow> segments_match after (tl mark) \<or> later_match (Some (after, tl mark))"
        using ne by (intro "2.IH"(3) [OF no(2,3) Some s [symmetric]]) (auto simp: star_ok_def)
      finally show ?thesis using no later_match_advance [OF ne] Some s by simp
    qed
  qed
qed

text \<open>C19: The iterative matcher of double-star globs, which remembers only the last double star,
  accepts exactly the paths that the recursive definition accepts: the backtracking to the last
  double star alone loses no match.\<close>

theorem doubleStarMatch_correct: "doubleStarMatch pat parts \<longleftrightarrow> segments_match pat parts"
  by (simp add: doubleStarMatch_def double_star_gen star_ok_def later_match_def)

end
