(* ===== verification/Suppress.thy ===== *)
theory Suppress
  imports Globs
begin

text \<open>
  Suppression rules (\<open>internal/scan/suppress\<close>): the rules and their application to the findings of a
  scan, git's ignore decisions, the snapshot of the policy that a scan keeps, and the \<open>.wolfignore\<close>
  syntax. The environment variable that disables the built-in rules, the files of the repository,
  git and the JSON decoder come from outside.
\<close>

section \<open>Rules\<close>

record suppress_rule =
  sr_PathGlob :: string
  sr_Categories :: "string list"
  sr_ToolCategories :: "category list"
  sr_RuleIDs :: "string list"
  sr_Reason :: string

definition contains_name :: "string list \<Rightarrow> string \<Rightarrow> bool" where
  "contains_name haystack needle \<longleftrightarrow> needle \<noteq> [] \<and> contains_elem haystack needle"

definition rule_matches :: "suppress_rule \<Rightarrow> finding \<Rightarrow> bool" where
  "rule_matches r f \<longleftrightarrow>
     (if sr_ToolCategories r \<noteq> [] \<and> \<not> contains_elem (sr_ToolCategories r) (fi_Category f) then False
      else if sr_PathGlob r \<noteq> [] \<and> \<not> pathMatch (sr_PathGlob r) (fi_FilePath f) then False
      else if sr_Categories r \<noteq> [] \<and> \<not> contains_name (sr_Categories r) (fi_FineCategory f) then False
      else if sr_RuleIDs r \<noteq> [] \<and> \<not> contains_name (sr_RuleIDs r) (fi_RuleID f) then False
      else True)"

definition ruleset_match :: "suppress_rule list \<Rightarrow> finding \<Rightarrow> suppress_rule option" where
  "ruleset_match rs f = find (\<lambda>r. rule_matches r f) rs"

text \<open>The rules left for a path: those whose glob matches it, without their glob.\<close>

definition path_candidates :: "suppress_rule list \<Rightarrow> string \<Rightarrow> suppress_rule list" where
  "path_candidates rs path =
     map (\<lambda>r. r\<lparr>sr_PathGlob := []\<rparr>)
       (filter (\<lambda>r. sr_PathGlob r = [] \<or> pathMatch (sr_PathGlob r) path) rs)"

definition suppress :: "suppress_rule \<Rightarrow> finding \<Rightarrow> finding" where
  "suppress r f = f\<lparr>fi_Suppressed := True, fi_SuppressedReason := sr_Reason r\<rparr>"

text \<open>The loop of \<open>Apply\<close> with its cache from paths to the rules left for them.\<close>

fun apply_loop ::
  "suppress_rule list \<Rightarrow> (string \<times> suppress_rule list) list \<Rightarrow> int \<Rightarrow> finding list \<Rightarrow> finding list \<times> int" where
  "apply_loop rs cache n0 [] = ([], n0)"
| "apply_loop rs cache n0 (f # fs) =
     (if fi_Suppressed f then (let (gs, n) = apply_loop rs cache n0 fs in (f # gs, n))
      else
        let (candidates, cache') =
              (case map_of cache (fi_FilePath f) of
                 Some cs \<Rightarrow> (cs, cache)
               | None \<Rightarrow> let cs = path_candidates rs (fi_FilePath f) in (cs, (fi_FilePath f, cs) # cache))
        in case ruleset_match candidates f of
             None \<Rightarrow> (let (gs, n) = apply_loop rs cache' n0 fs in (f # gs, n))
           | Some r \<Rightarrow> (let (gs, n) = apply_loop rs cache' (n0 + 1) fs in (suppress r f # gs, n)))"

definition apply_rules :: "finding list \<Rightarrow> suppress_rule list \<Rightarrow> finding list \<times> int" where
  "apply_rules findings rs = apply_loop rs [] 0 findings"

definition Combine :: "suppress_rule list list \<Rightarrow> suppress_rule list" where
  "Combine sets = concat sets"

section \<open>The built-in rules\<close>

definition path_rule :: "string \<Rightarrow> string \<Rightarrow> suppress_rule" where
  "path_rule glob reason =
     \<lparr>sr_PathGlob = glob, sr_Categories = [], sr_ToolCategories = [], sr_RuleIDs = [], sr_Reason = reason\<rparr>"

definition locked_rule :: "string \<Rightarrow> string \<Rightarrow> suppress_rule" where
  "locked_rule glob reason =
     (path_rule glob reason)\<lparr>sr_ToolCategories := [CategorySAST, CategorySecrets]\<rparr>"

definition vendored_rules :: "suppress_rule list" where
  "vendored_rules =
     [path_rule ''**/vendor/**'' ''default:vendor'',
      path_rule ''**/node_modules/**'' ''default:node_modules'',
      path_rule ''**/third_party/**'' ''default:third_party'',
      path_rule ''**/.git/**'' ''default:git-internal'',
      path_rule ''**/site-packages/**'' ''default:python-site-packages'',
      path_rule ''**/Pods/**'' ''default:cocoapods'',
      path_rule ''**/.bundle/**'' ''default:ruby-bundle'']"

definition cache_rules :: "suppress_rule list" where
  "cache_rules =
     [path_rule ''**/.next/**'' ''default:nextjs-cache'',
      path_rule ''**/.nuxt/**'' ''default:nuxt-cache'',
      path_rule ''**/.svelte-kit/**'' ''default:sveltekit-cache'',
      path_rule ''**/.turbo/**'' ''default:turborepo-cache'',
      path_rule ''**/.cache/**'' ''default:generic-cache'',
      path_rule ''**/dist/**'' ''default:dist'',
      path_rule ''**/build/**'' ''default:build-output'',
      path_rule ''**/target/**'' ''default:target-output'',
      path_rule ''**/__pycache__/**'' ''default:python-cache'',
      path_rule ''**/.pytest_cache/**'' ''default:pytest-cache'',
      path_rule ''**/.mypy_cache/**'' ''default:mypy-cache'',
      path_rule ''**/.tox/**'' ''default:python-tox'']"

definition generated_rules :: "suppress_rule list" where
  "generated_rules =
     [path_rule ''**/*.generated.go'' ''default:generated'',
      path_rule ''**/*.gen.go'' ''default:generated'',
      path_rule ''**/*_generated.go'' ''default:generated'',
      path_rule ''**/*.pb.go'' ''default:protobuf-generated'',
      path_rule ''**/*_pb2.py'' ''default:protobuf-generated'',
      path_rule ''**/*.min.js'' ''default:minified'',
      path_rule ''**/*.min.css'' ''default:minified'',
      path_rule ''**/*.bundle.js'' ''default:bundled-asset'']"

definition fixture_rules :: "suppress_rule list" where
  "fixture_rules =
     [path_rule ''**/testdata/**'' ''default:testdata'',
      path_rule ''**/test-fixtures/**'' ''default:test-fixtures'',
      path_rule ''**/test_fixtures/**'' ''default:test-fixtures'',
      path_rule ''**/testFixtures/**'' ''default:test-fixtures'',
      path_rule ''**/fixtures/**'' ''default:fixtures'',
      path_rule ''**/__fixtures__/**'' ''default:fixtures'',
      path_rule ''**/__snapshots__/**'' ''default:snapshots'',
      path_rule ''**/__mocks__/**'' ''default:mocks'',
      path_rule ''**/mocks/**'' ''default:mocks'',
      path_rule ''**/mock_data/**'' ''default:mock-data'',
      path_rule ''**/mock-data/**'' ''default:mock-data'',
      path_rule ''**/cypress/fixtures/**'' ''default:cypress-fixtures'',
      path_rule ''**/cypress/screenshots/**'' ''default:cypress-screenshots'',
      path_rule ''**/cypress/videos/**'' ''default:cypress-videos'',
      path_rule ''**/playwright-report/**'' ''default:playwright-report'']"

definition test_dir_rules :: "suppress_rule list" where
  "test_dir_rules =
     [path_rule ''**/test/**'' ''default:test-dir'',
      path_rule ''**/tests/**'' ''default:tests-dir'',
      path_rule ''**/spec/**'' ''default:spec-dir'',
      path_rule ''**/Test/**'' ''default:test-dir-case'',
      path_rule ''**/Tests/**'' ''default:tests-dir-case'',
      path_rule ''**/e2e/**'' ''default:e2e'',
      path_rule ''**/integration/**'' ''default:integration-dir'',
      path_rule ''**/integrationTest/**'' ''default:gradle-integration'',
      path_rule ''**/src/test/**'' ''default:maven-test'',
      path_rule ''**/src/integrationTest/**'' ''default:gradle-integration'',
      path_rule ''**/__tests__/**'' ''default:jest-tests-dir'']"

definition test_file_rules :: "suppress_rule list" where
  "test_file_rules =
     [path_rule ''**/*_test.go'' ''default:test-file:go'',
      path_rule ''**/*_mock.go'' ''default:mock-file:go'',
      path_rule ''**/mock_*.go'' ''default:mock-file:go'',
      path_rule ''**/test_*.py'' ''default:test-file:py'',
      path_rule ''**/*_test.py'' ''default:test-file:py'',
      path_rule ''**/conftest.py'' ''default:pytest-conftest'',
      path_rule ''**/*.test.ts'' ''default:test-file:ts'',
      path_rule ''**/*.test.tsx'' ''default:test-file:tsx'',
      path_rule ''**/*.test.js'' ''default:test-file:js'',
      path_rule ''**/*.test.jsx'' ''default:test-file:jsx'',
      path_rule ''**/*.test.mjs'' ''default:test-file:mjs'',
      path_rule ''**/*.test.cjs'' ''default:test-file:cjs'',
      path_rule ''**/*.spec.ts'' ''default:spec-file:ts'',
      path_rule ''**/*.spec.tsx'' ''default:spec-file:tsx'',
      path_rule ''**/*.spec.js'' ''default:spec-file:js'',
      path_rule ''**/*.spec.jsx'' ''default:spec-file:jsx'',
      path_rule ''**/*.spec.mjs'' ''default:spec-file:mjs'',
      path_rule ''**/*.spec.cjs'' ''default:spec-file:cjs'',
      path_rule ''**/*.stories.ts'' ''default:storybook'',
      path_rule ''**/*.stories.tsx'' ''default:storybook'',
      path_rule ''**/*.stories.js'' ''default:storybook'',
      path_rule ''**/*.stories.jsx'' ''default:storybook'',
      path_rule ''**/*.stories.mdx'' ''default:storybook'',
      path_rule ''**/*Test.java'' ''default:test-file:java'',
      path_rule ''**/*Tests.java'' ''default:test-file:java'',
      path_rule ''**/*IT.java'' ''default:integration-file:java'',
      path_rule ''**/*ITCase.java'' ''default:integration-file:java'',
      path_rule ''**/*Test.kt'' ''default:test-file:kt'',
      path_rule ''**/*Tests.kt'' ''default:test-file:kt'',
      path_rule ''**/*Spec.kt'' ''default:spec-file:kt'',
      path_rule ''**/*_test.rb'' ''default:test-file:rb'',
      path_rule ''**/*_spec.rb'' ''default:spec-file:rb'',
      path_rule ''**/*Test.php'' ''default:test-file:php'',
      path_rule ''**/*TestCase.php'' ''default:test-file:php'',
      path_rule ''**/*Tests.cs'' ''default:test-file:cs'',
      path_rule ''**/*Test.cs'' ''default:test-file:cs'',
      path_rule ''**/*Spec.cs'' ''default:spec-file:cs'',
      path_rule ''**/*Tests.swift'' ''default:test-file:swift'',
      path_rule ''**/*Spec.swift'' ''default:spec-file:swift'',
      path_rule ''**/tests.rs'' ''default:test-file:rs'',
      path_rule ''**/test.rs'' ''default:test-file:rs'',
      path_rule ''**/*_output.json'' ''default:scanner-fixture'',
      path_rule ''**/*_output.jsonl'' ''default:scanner-fixture'',
      path_rule ''**/*.sample.*'' ''default:sample-file'',
      path_rule ''**/sample_*.json'' ''default:sample-file'']"

definition example_rules :: "suppress_rule list" where
  "example_rules =
     [path_rule ''**/examples/**'' ''default:examples'',
      path_rule ''**/example/**'' ''default:examples'',
      path_rule ''**/demo/**'' ''default:demo'',
      path_rule ''**/demos/**'' ''default:demo'',
      path_rule ''**/samples/**'' ''default:samples'',
      path_rule ''**/sample/**'' ''default:samples'']"

definition workflow_rules :: "suppress_rule list" where
  "workflow_rules =
     [path_rule ''.github/workflows/**'' ''default:github-workflows'',
      path_rule ''**/.github/workflows/**'' ''default:github-workflows'']"

definition lockfile_rules :: "suppress_rule list" where
  "lockfile_rules =
     [locked_rule ''**/package-lock.json'' ''default:lockfile'',
      locked_rule ''**/pnpm-lock.yaml'' ''default:lockfile'',
      locked_rule ''**/yarn.lock'' ''default:lockfile'',
      locked_rule ''**/Gemfile.lock'' ''default:lockfile'',
      locked_rule ''**/composer.lock'' ''default:lockfile'',
      locked_rule ''**/Cargo.lock'' ''default:lockfile'',
      locked_rule ''**/poetry.lock'' ''default:lockfile'',
      locked_rule ''**/go.sum'' ''default:lockfile'']"

definition wolf_output_rules :: "suppress_rule list" where
  "wolf_output_rules =
     [path_rule ''FINDINGS/**'' ''default:wolf-self-output'',
      path_rule ''**/FINDINGS/**'' ''default:wolf-self-output'',
      path_rule ''.kics.yaml'' ''default:scanner-config'',
      path_rule ''.kics-config.yaml'' ''default:scanner-config'',
      path_rule ''.semgrepignore'' ''default:scanner-config'',
      path_rule ''.trufflehog*'' ''default:scanner-config'',
      path_rule ''.sqlfluff'' ''default:scanner-config'',
      path_rule ''.yamllint'' ''default:scanner-config'',
      path_rule ''.markdownlint*'' ''default:scanner-config'']"

text \<open>\<open>disabled\<close>: the environment sets \<open>WOLF_DISABLE_DEFAULT_SUPPRESSIONS\<close> to 1.\<close>

definition DefaultRules :: "bool \<Rightarrow> suppress_rule list" where
  "DefaultRules disabled =
     (if disabled then []
      else vendored_rules @ cache_rules @ generated_rules @ fixture_rules @ test_dir_rules @
           test_file_rules @ example_rules @ workflow_rules @ lockfile_rules @ wolf_output_rules)"

section \<open>Git's ignore decisions\<close>

datatype suppress_error =
    ContextDone | RulesUnreadable | GitFailed | GitUnterminated | GitUnrequestedPath
  | SnapshotIncomplete | SnapshotPathAbsent | SnapshotUndecodable | SnapshotSourceDiffers

text \<open>What comes back from the repository: no \<open>.git\<close>, a failure (a timeout, an unreadable rule file,
  diagnostics), exit code 1 without output, or the output of \<open>git check-ignore --stdin -z\<close>.\<close>

datatype git_answer = GitNoRepository | GitFailure | GitNothingIgnored | GitOutput string

definition nul :: char where
  "nul = CHR 0x00"

definition ValidPath :: "string \<Rightarrow> bool" where
  "ValidPath name \<longleftrightarrow>
     name = ''.'' \<or> list_all (\<lambda>e. e \<noteq> [] \<and> e \<noteq> ''.'' \<and> e \<noteq> ''..'') (split_char CHR ''/'' name)"

fun safe_paths :: "string list \<Rightarrow> string list \<Rightarrow> string list" where
  "safe_paths requested [] = []"
| "safe_paths requested (p # ps) =
     (let normalized = trim_prefix p ''./'' in
      if normalized = ''.'' \<or> \<not> ValidPath normalized \<or> contains_elem p nul then safe_paths requested ps
      else if contains_elem requested p then safe_paths requested ps
      else p # safe_paths (p # requested) ps)"

definition parse_ignored :: "string list \<Rightarrow> string \<Rightarrow> suppress_error + string list" where
  "parse_ignored requested out =
     (if out = [] \<or> last out \<noteq> nul then Inl GitUnterminated
      else let ps = split_char nul (butlast out) in
           if list_all (contains_elem requested) ps then Inr ps else Inl GitUnrequestedPath)"

definition IgnoredPaths ::
  "(string list \<Rightarrow> git_answer) \<Rightarrow> string \<Rightarrow> string list \<Rightarrow> suppress_error + string list" where
  "IgnoredPaths git repoPath paths =
     (if repoPath = [] \<or> paths = [] then Inr []
      else let safe = safe_paths [] paths in
           if safe = [] then Inr []
           else case git safe of
                  GitNoRepository \<Rightarrow> Inr []
                | GitFailure \<Rightarrow> Inl GitFailed
                | GitNothingIgnored \<Rightarrow> Inr []
                | GitOutput out \<Rightarrow> parse_ignored safe out)"

fun unsuppressed_paths :: "string list \<Rightarrow> finding list \<Rightarrow> string list" where
  "unsuppressed_paths seen [] = []"
| "unsuppressed_paths seen (f # fs) =
     (if fi_Suppressed f \<or> fi_FilePath f = [] then unsuppressed_paths seen fs
      else if contains_elem seen (fi_FilePath f) then unsuppressed_paths seen fs
      else fi_FilePath f # unsuppressed_paths (fi_FilePath f # seen) fs)"

definition gitignoreReason :: string where
  "gitignoreReason = ''default:gitignored''"

text \<open>The loop over the findings that are left, with the ignored paths as a predicate.\<close>

fun mark_ignored :: "(string \<Rightarrow> bool) \<Rightarrow> finding list \<Rightarrow> finding list \<times> int" where
  "mark_ignored ignored [] = ([], 0)"
| "mark_ignored ignored (f # fs) =
     (let (gs, n) = mark_ignored ignored fs in
      if fi_Suppressed f then (f # gs, n)
      else if ignored (fi_FilePath f)
      then (f\<lparr>fi_Suppressed := True, fi_SuppressedReason := gitignoreReason\<rparr> # gs, n + 1)
      else (f # gs, n))"

definition ApplyGitignore ::
  "(string list \<Rightarrow> git_answer) \<Rightarrow> finding list \<Rightarrow> string \<Rightarrow> suppress_error + finding list \<times> int" where
  "ApplyGitignore git findings repoPath =
     (if repoPath = [] \<or> findings = [] then Inr (findings, 0)
      else let paths = unsuppressed_paths [] findings in
           if paths = [] then Inr (findings, 0)
           else case IgnoredPaths git repoPath paths of
                  Inl e \<Rightarrow> Inl e
                | Inr ignored \<Rightarrow>
                    if ignored = [] then Inr (findings, 0)
                    else Inr (mark_ignored (contains_elem ignored) findings))"

section \<open>The policy of a repository and its snapshot\<close>

text \<open>\<open>rule_file\<close> is the parsed \<open>.wolfignore\<close> of the repository (no rules when it is missing), or its
  error. On an error the caller's findings stay as they are.\<close>

definition load_rules :: "'e + suppress_rule list \<Rightarrow> string \<Rightarrow> suppress_error + suppress_rule list" where
  "load_rules rule_file repoPath =
     (if repoPath = [] then Inr []
      else case rule_file of Inl e \<Rightarrow> Inl RulesUnreadable | Inr wolf \<Rightarrow> Inr wolf)"

definition ApplyRepo ::
  "bool \<Rightarrow> bool \<Rightarrow> 'e + suppress_rule list \<Rightarrow> (string list \<Rightarrow> git_answer) \<Rightarrow> string \<Rightarrow> finding list
     \<Rightarrow> suppress_error + finding list \<times> int" where
  "ApplyRepo cancelled disabled rule_file git repoPath findings =
     (if cancelled then Inl ContextDone
      else and_then (load_rules rule_file repoPath) (\<lambda>wolf.
        let (projected, n) = apply_rules findings (Combine [DefaultRules disabled, wolf]) in
        and_then (ApplyGitignore git projected repoPath) (\<lambda>(final, gitCount).
          Inr (final, n + gitCount))))"

text \<open>\<open>ss_Paths\<close> is \<open>None\<close> for a nil map.\<close>

record snapshot =
  ss_SourceKey :: string
  ss_Version :: int
  ss_Rules :: "suppress_rule list"
  ss_Paths :: "(string \<times> bool) list option"

fun distinct_paths :: "string list \<Rightarrow> finding list \<Rightarrow> string list" where
  "distinct_paths seen [] = []"
| "distinct_paths seen (f # fs) =
     (if contains_elem seen (fi_FilePath f) then distinct_paths seen fs
      else fi_FilePath f # distinct_paths (fi_FilePath f # seen) fs)"

definition Capture ::
  "bool \<Rightarrow> bool \<Rightarrow> 'e + suppress_rule list \<Rightarrow> (string list \<Rightarrow> git_answer) \<Rightarrow> string \<Rightarrow> finding list
     \<Rightarrow> suppress_error + snapshot" where
  "Capture cancelled disabled rule_file git repoPath findings =
     (if cancelled then Inl ContextDone
      else and_then (load_rules rule_file repoPath) (\<lambda>wolf.
        let paths = distinct_paths [] findings in
        and_then (IgnoredPaths git repoPath paths) (\<lambda>ignored.
          Inr \<lparr>ss_SourceKey = [], ss_Version = 1, ss_Rules = Combine [DefaultRules disabled, wolf],
               ss_Paths = Some (map (\<lambda>p. (p, contains_elem ignored p)) paths)\<rparr>)))"

definition Snapshot_Apply :: "snapshot \<Rightarrow> finding list \<Rightarrow> suppress_error + finding list \<times> int" where
  "Snapshot_Apply s findings =
     (case ss_Paths s of
        None \<Rightarrow> Inl SnapshotIncomplete
      | Some paths \<Rightarrow>
          if ss_Version s \<noteq> 1 then Inl SnapshotIncomplete
          else if list_ex (\<lambda>f. map_of paths (fi_FilePath f) = None) findings then Inl SnapshotPathAbsent
          else let (projected, n) = apply_rules findings (ss_Rules s);
                   (final, m) = mark_ignored (\<lambda>p. map_of paths p = Some True) projected
               in Inr (final, n + m))"

text \<open>\<open>source_key\<close> is the digest of the JSON array, and \<open>decode\<close> the JSON decoder of a stored snapshot.\<close>

definition ScanSourceKey :: "(string list \<Rightarrow> string) \<Rightarrow> scan \<Rightarrow> string" where
  "ScanSourceKey source_key sc =
     source_key [sc_ID sc, sc_RepoID sc, sc_Branch sc, sc_SourceType sc, sc_SourcePath sc,
       sc_PreparedWorkspace sc, sc_CommitSHA sc, sc_TreeDigest sc, sc_SourceFingerprint sc,
       (case sc_RemoteNodeID sc of None \<Rightarrow> [] | Some r \<Rightarrow> r)]"

definition ApplyScan ::
  "(string list \<Rightarrow> string) \<Rightarrow> (string \<Rightarrow> snapshot option) \<Rightarrow> bool \<Rightarrow> bool \<Rightarrow> 'e + suppress_rule list
     \<Rightarrow> (string list \<Rightarrow> git_answer) \<Rightarrow> finding list \<Rightarrow> scan \<Rightarrow> string
     \<Rightarrow> suppress_error + finding list \<times> int" where
  "ApplyScan source_key decode cancelled disabled rule_file git findings sc repoPath =
     (if cancelled then Inl ContextDone
      else if sc_IgnorePolicyJSON sc \<noteq> [] then
        (case decode (sc_IgnorePolicyJSON sc) of
           None \<Rightarrow> Inl SnapshotUndecodable
         | Some s \<Rightarrow>
             if ss_SourceKey s \<noteq> [] \<and> ss_SourceKey s \<noteq> ScanSourceKey source_key sc
             then Inl SnapshotSourceDiffers
             else Snapshot_Apply s findings)
      else if contains_elem [ScanStatusCompleted, ScanStatusFailed, ScanStatusCancelled] (sc_Status sc)
      then Inr (findings, 0)
      else ApplyRepo cancelled disabled rule_file git repoPath findings)"

section \<open>The \<open>.wolfignore\<close> file\<close>

datatype ignore_error =
    NegationUnsupported | FilterBeforeGlob | GlobContainsNul | InvalidGlob | EmptyFilter
  | EmptyFilterValue | UnknownFilter string | ReadError

text \<open>\<open>strings.Fields\<close>.\<close>

fun fields_loop :: "string \<Rightarrow> string \<Rightarrow> string list" where
  "fields_loop acc [] = (if acc = [] then [] else [rev acc])"
| "fields_loop acc (c # cs) =
     (if is_space c then (if acc = [] then fields_loop [] cs else rev acc # fields_loop [] cs)
      else fields_loop (c # acc) cs)"

definition fields :: "string \<Rightarrow> string list" where
  "fields s = fields_loop [] s"

definition category_keys :: "string list" where
  "category_keys = [''category'', ''categories'']"

definition rule_keys :: "string list" where
  "rule_keys = [''rule'', ''rules'', ''rule_id'', ''rule-id'']"

fun parse_filters :: "suppress_rule \<Rightarrow> string list \<Rightarrow> ignore_error + suppress_rule" where
  "parse_filters r [] = Inr r"
| "parse_filters r (p # ps) =
     (if has_prefix p ''#'' then Inr r
      else case cut_char CHR ''='' p of
             None \<Rightarrow> Inl EmptyFilter
           | Some (key, val) \<Rightarrow>
               if val = [] \<or> contains_elem val nul then Inl EmptyFilter
               else
                 let k = to_lower key; values = split_char CHR '','' val in
                 if contains_elem (category_keys @ rule_keys) k
                 then (if contains_elem values [] then Inl EmptyFilterValue
                       else if contains_elem category_keys k
                       then parse_filters (r\<lparr>sr_Categories := sr_Categories r @ values\<rparr>) ps
                       else parse_filters (r\<lparr>sr_RuleIDs := sr_RuleIDs r @ values\<rparr>) ps)
                 else if k = ''reason'' then parse_filters (r\<lparr>sr_Reason := val\<rparr>) ps
                 else Inl (UnknownFilter key))"

text \<open>\<open>raw\<close> is not blank, so it has a first field.\<close>

definition parseWolfIgnoreLine :: "string \<Rightarrow> string \<Rightarrow> ignore_error + suppress_rule" where
  "parseWolfIgnoreLine source raw =
     (let parts = fields raw; pathGlob = hd parts in
      if has_prefix pathGlob ''!'' then Inl NegationUnsupported
      else if (case cut_char CHR ''='' pathGlob of
                 None \<Rightarrow> False
               | Some (key, _) \<Rightarrow> contains_elem (category_keys @ rule_keys @ [''reason'']) (to_lower key))
      then Inl FilterBeforeGlob
      else if contains_elem pathGlob nul then Inl GlobContainsNul
      else if glob_items pathGlob = None then Inl InvalidGlob
      else parse_filters
             \<lparr>sr_PathGlob = pathGlob, sr_Categories = [], sr_ToolCategories = [], sr_RuleIDs = [],
              sr_Reason = source @ '':'' @ pathGlob\<rparr> (tl parts))"

text \<open>\<open>ParseWolfIgnore\<close> on the lines that the scanner returned, and whether it stopped at an error; an
  error carries the line number.\<close>

fun parse_lines ::
  "string \<Rightarrow> bool \<Rightarrow> int \<Rightarrow> string list \<Rightarrow> (int \<times> ignore_error) + suppress_rule list" where
  "parse_lines source read_error lineNo [] = (if read_error then Inl (lineNo + 1, ReadError) else Inr [])"
| "parse_lines source read_error lineNo (l # ls) =
     (let raw = trim_space l in
      if raw = [] \<or> has_prefix raw ''#'' then parse_lines source read_error (lineNo + 1) ls
      else case parseWolfIgnoreLine source raw of
             Inl e \<Rightarrow> Inl (lineNo + 1, e)
           | Inr r \<Rightarrow> and_then (parse_lines source read_error (lineNo + 1) ls) (\<lambda>rs. Inr (r # rs)))"

definition ParseWolfIgnore ::
  "string \<Rightarrow> string list \<Rightarrow> bool \<Rightarrow> (int \<times> ignore_error) + suppress_rule list" where
  "ParseWolfIgnore source lines read_error = parse_lines source read_error 0 lines"

section \<open>The cache of path matches changes nothing\<close>

text \<open>What the comment of \<open>Apply\<close> promises: every finding that is not suppressed yet gets the first
  rule that matches it.\<close>

definition apply_one :: "suppress_rule list \<Rightarrow> finding \<Rightarrow> finding" where
  "apply_one rs f =
     (if fi_Suppressed f then f
      else case ruleset_match rs f of None \<Rightarrow> f | Some r \<Rightarrow> suppress r f)"

definition newly_suppressed :: "suppress_rule list \<Rightarrow> finding \<Rightarrow> bool" where
  "newly_suppressed rs f \<longleftrightarrow> \<not> fi_Suppressed f \<and> ruleset_match rs f \<noteq> None"

lemma candidates_match:
  "ruleset_match (path_candidates rs (fi_FilePath f)) f =
   map_option (\<lambda>r. r\<lparr>sr_PathGlob := []\<rparr>) (ruleset_match rs f)"
  by (induction rs) (auto simp: ruleset_match_def path_candidates_def rule_matches_def)

lemma suppress_without_glob [simp]: "suppress (r\<lparr>sr_PathGlob := g\<rparr>) f = suppress r f"
  by (simp add: suppress_def)

definition cache_ok :: "suppress_rule list \<Rightarrow> (string \<times> suppress_rule list) list \<Rightarrow> bool" where
  "cache_ok rs cache \<longleftrightarrow> (\<forall>p cs. map_of cache p = Some cs \<longrightarrow> cs = path_candidates rs p)"

definition cached :: "suppress_rule list \<Rightarrow> (string \<times> suppress_rule list) list \<Rightarrow> string
    \<Rightarrow> (string \<times> suppress_rule list) list" where
  "cached rs cache p = (if map_of cache p = None then (p, path_candidates rs p) # cache else cache)"

lemma cache_ok_lookup:
  "cache_ok rs cache \<Longrightarrow>
   (case map_of cache p of
      None \<Rightarrow> let cs = path_candidates rs p in (cs, (p, cs) # cache)
    | Some cs \<Rightarrow> (cs, cache)) = (path_candidates rs p, cached rs cache p)"
  by (cases "map_of cache p") (simp_all add: cache_ok_def cached_def Let_def)

lemma cache_ok_cached: "cache_ok rs cache \<Longrightarrow> cache_ok rs (cached rs cache p)"
  by (simp add: cache_ok_def cached_def)

lemma apply_loop_direct:
  "cache_ok rs cache \<Longrightarrow>
   apply_loop rs cache n0 fs =
     (map (apply_one rs) fs, n0 + int (length (filter (newly_suppressed rs) fs)))"
proof (induction fs arbitrary: cache n0)
  case (Cons f fs)
  show ?case
    using Cons.IH [OF Cons.prems] Cons.IH [OF cache_ok_cached [OF Cons.prems]]
    by (cases "ruleset_match rs f")
      (simp_all add: cache_ok_lookup [OF Cons.prems] candidates_match apply_one_def newly_suppressed_def)
qed simp

lemma apply_rules_eq:
  "apply_rules fs rs =
     (map (apply_one rs) fs, int (length (filter (newly_suppressed rs) fs)))"
  by (simp add: apply_rules_def apply_loop_direct cache_ok_def)

text \<open>Matching a path once per batch and keeping the rules left for it gives every finding the
  rule, the reason and the count that matching each finding against the whole rule set gives.\<close>

theorem apply_rules_direct:
  "apply_rules fs rs =
     (map (apply_one rs) fs, int (length (filter (newly_suppressed rs) fs)))"
  by (rule apply_rules_eq)

section \<open>A snapshot replays the policy it was taken under\<close>

text \<open>\<open>git check-ignore --stdin -z\<close> as documented: the ignored ones of the requested paths, each
  ended by a NUL, and exit code 1 when there is none.\<close>

definition check_ignore :: "(string \<Rightarrow> bool) \<Rightarrow> string list \<Rightarrow> git_answer" where
  "check_ignore ign safe =
     (let ignored = filter ign safe in
      if ignored = [] then GitNothingIgnored else GitOutput (concat (map (\<lambda>p. p @ [nul]) ignored)))"

definition git_path :: "string \<Rightarrow> bool" where
  "git_path p \<longleftrightarrow>
     (let normalized = trim_prefix p ''./'' in normalized \<noteq> ''.'' \<and> ValidPath normalized \<and> nul \<notin> set p)"

lemma set_safe_paths: "set (safe_paths requested ps) = {p \<in> set ps. p \<notin> set requested \<and> git_path p}"
  by (induction requested ps rule: safe_paths.induct) (auto simp: Let_def git_path_def)

lemma empty_not_git_path [simp]: "\<not> git_path []"
  by (simp add: git_path_def ValidPath_def trim_prefix_def has_prefix_def)

lemma split_terminated:
  assumes "ps \<noteq> []" "\<forall>p \<in> set ps. sep \<notin> set p"
  shows "split_char sep (butlast (concat (map (\<lambda>p. p @ [sep]) ps))) = ps"
  using assms
proof (induction ps)
  case (Cons p ps)
  show ?case
  proof (cases "ps = []")
    case False
    then have "concat (map (\<lambda>p. p @ [sep]) ps) \<noteq> []" by (cases ps) auto
    then show ?thesis using Cons False by (simp add: butlast_append split_char_append)
  qed (use Cons in \<open>simp add: split_char_single butlast_append\<close>)
qed simp

lemma parse_ignored_check_ignore:
  assumes "filter ign safe \<noteq> []" "\<forall>p \<in> set safe. nul \<notin> set p"
  shows "parse_ignored safe (concat (map (\<lambda>p. p @ [nul]) (filter ign safe))) = Inr (filter ign safe)"
proof -
  let ?out = "concat (map (\<lambda>p. p @ [nul]) (filter ign safe))"
  obtain qs q where "filter ign safe = qs @ [q]" using assms(1) by (metis rev_exhaust)
  then have "?out \<noteq> []" "last ?out = nul" by simp_all
  moreover have "split_char nul (butlast ?out) = filter ign safe"
    using assms by (intro split_terminated) auto
  ultimately show ?thesis by (simp add: parse_ignored_def list_all_iff)
qed

lemma IgnoredPaths_check_ignore:
  "IgnoredPaths (check_ignore ign) repoPath paths =
     Inr (if repoPath = [] then [] else filter ign (safe_paths [] paths))"
proof -
  have "\<forall>p \<in> set (safe_paths [] paths). nul \<notin> set p" by (simp add: set_safe_paths git_path_def Let_def)
  then show ?thesis
    using parse_ignored_check_ignore [of ign "safe_paths [] paths"]
    by (simp add: IgnoredPaths_def check_ignore_def Let_def)
qed

lemma mark_ignored_cong:
  "(\<And>f. f \<in> set fs \<Longrightarrow> \<not> fi_Suppressed f \<Longrightarrow> P (fi_FilePath f) = Q (fi_FilePath f)) \<Longrightarrow>
   mark_ignored P fs = mark_ignored Q fs"
  by (induction fs) (auto simp: case_prod_beta)

lemma mark_ignored_none: "mark_ignored (\<lambda>p. False) fs = (fs, 0)"
  by (induction fs) auto

lemma set_unsuppressed_paths:
  "set (unsuppressed_paths seen fs) =
     {p. p \<noteq> [] \<and> p \<notin> set seen \<and> (\<exists>f \<in> set fs. \<not> fi_Suppressed f \<and> fi_FilePath f = p)}"
  by (induction seen fs rule: unsuppressed_paths.induct) auto

lemma set_distinct_paths: "set (distinct_paths seen fs) = fi_FilePath ` set fs - set seen"
  by (induction seen fs rule: distinct_paths.induct) auto

definition hidden_by_git :: "(string \<Rightarrow> bool) \<Rightarrow> string \<Rightarrow> string \<Rightarrow> bool" where
  "hidden_by_git ign repoPath p \<longleftrightarrow> repoPath \<noteq> [] \<and> git_path p \<and> ign p"

lemma ApplyGitignore_marks:
  "ApplyGitignore (check_ignore ign) fs repoPath = Inr (mark_ignored (hidden_by_git ign repoPath) fs)"
proof (cases "repoPath = [] \<or> unsuppressed_paths [] fs = []")
  case True
  have "mark_ignored (hidden_by_git ign repoPath) fs = mark_ignored (\<lambda>p. False) fs"
  proof (rule mark_ignored_cong)
    fix f assume "f \<in> set fs" "\<not> fi_Suppressed f"
    moreover have "repoPath \<noteq> [] \<Longrightarrow> fi_FilePath f \<notin> set (unsuppressed_paths [] fs)"
      using True by simp
    ultimately have "fi_FilePath f = [] \<or> repoPath = []"
      unfolding set_unsuppressed_paths by auto
    then show "hidden_by_git ign repoPath (fi_FilePath f) = False" by (auto simp: hidden_by_git_def)
  qed
  then show ?thesis using True by (auto simp: ApplyGitignore_def mark_ignored_none)
next
  case False
  let ?ignored = "filter ign (safe_paths [] (unsuppressed_paths [] fs))"
  have marks: "mark_ignored (contains_elem ?ignored) fs = mark_ignored (hidden_by_git ign repoPath) fs"
    using False by (intro mark_ignored_cong)
      (auto simp: set_safe_paths set_unsuppressed_paths hidden_by_git_def)
  have "ApplyGitignore (check_ignore ign) fs repoPath =
      (if ?ignored = [] then Inr (fs, 0) else Inr (mark_ignored (contains_elem ?ignored) fs))"
    using False by (auto simp: ApplyGitignore_def IgnoredPaths_check_ignore Let_def)
  also have "\<dots> = Inr (mark_ignored (contains_elem ?ignored) fs)"
    using mark_ignored_none [of fs] by (auto simp: contains_elem.simps(1) [abs_def])
  finally show ?thesis by (simp only: marks)
qed

lemma apply_one_path [simp]: "fi_FilePath (apply_one rs f) = fi_FilePath f"
  by (simp add: apply_one_def suppress_def split: option.splits)

lemma Snapshot_Apply_captured:
  assumes "map fi_FilePath fs = map fi_FilePath findings"
  shows "mark_ignored (\<lambda>p. map_of (map (\<lambda>p. (p, contains_elem ignored p)) (distinct_paths [] findings)) p = Some True) fs
         = mark_ignored (\<lambda>p. p \<in> set ignored) fs"
proof (rule mark_ignored_cong)
  fix f assume "f \<in> set fs"
  then have "fi_FilePath f \<in> set (distinct_paths [] findings)"
    using arg_cong [OF assms, of set] by (auto simp: set_distinct_paths)
  then show "(map_of (map (\<lambda>p. (p, contains_elem ignored p)) (distinct_paths [] findings)) (fi_FilePath f) = Some True)
      = (fi_FilePath f \<in> set ignored)"
    by (simp add: map_of_map_restrict)
qed

text \<open>While git answers, capturing the policy of a repository and applying the snapshot to the captured
  findings gives what applying the live policy gives.\<close>

lemma replay_with_answers:
  "and_then (Capture cancelled disabled rule_file (check_ignore ign) repoPath findings)
      (\<lambda>s. Snapshot_Apply s findings) =
   ApplyRepo cancelled disabled rule_file (check_ignore ign) repoPath findings"
proof (cases "load_rules rule_file repoPath")
  case (Inl e)
  then show ?thesis by (simp add: Capture_def ApplyRepo_def)
next
  case (Inr wolf)
  let ?rs = "Combine [DefaultRules disabled, wolf]"
  let ?paths = "distinct_paths [] findings"
  let ?ignored = "if repoPath = [] then [] else filter ign (safe_paths [] ?paths)"
  have hidden: "mark_ignored (\<lambda>p. p \<in> set ?ignored) (map (apply_one ?rs) findings) =
      mark_ignored (hidden_by_git ign repoPath) (map (apply_one ?rs) findings)"
    by (rule mark_ignored_cong) (auto simp: set_safe_paths set_distinct_paths hidden_by_git_def)
  have known: "\<not> list_ex (\<lambda>f. map_of (map (\<lambda>p. (p, contains_elem ?ignored p)) ?paths) (fi_FilePath f) = None) findings"
    by (simp add: list_ex_iff map_of_map_restrict set_distinct_paths)
  have replay: "mark_ignored (\<lambda>p. map_of (map (\<lambda>p. (p, contains_elem ?ignored p)) ?paths) p = Some True)
      (map (apply_one ?rs) findings) = mark_ignored (hidden_by_git ign repoPath) (map (apply_one ?rs) findings)"
    by (subst Snapshot_Apply_captured) (simp_all only: hidden, simp)
  let ?s = "\<lparr>ss_SourceKey = [], ss_Version = 1, ss_Rules = ?rs,
            ss_Paths = Some (map (\<lambda>p. (p, contains_elem ?ignored p)) ?paths)\<rparr>"
  let ?n = "int (length (filter (newly_suppressed ?rs) findings))"
  let ?marked = "mark_ignored (hidden_by_git ign repoPath) (map (apply_one ?rs) findings)"
  have capture: "Capture False disabled rule_file (check_ignore ign) repoPath findings = Inr ?s"
    unfolding Capture_def Inr IgnoredPaths_check_ignore Let_def by simp
  have "Snapshot_Apply ?s findings = Inr (fst ?marked, ?n + snd ?marked)"
    unfolding Snapshot_Apply_def using known replay
    by (simp add: apply_rules_eq case_prod_beta del: contains_elem_iff)
  moreover have "ApplyRepo False disabled rule_file (check_ignore ign) repoPath findings =
      Inr (fst ?marked, ?n + snd ?marked)"
    by (simp add: ApplyRepo_def Inr apply_rules_eq ApplyGitignore_marks case_prod_beta)
  ultimately show ?thesis
    using capture by (cases cancelled) (simp_all add: Capture_def ApplyRepo_def)
qed

text \<open>A git of which every call gives the answer of the documented command for \<open>ign\<close>, or fails; a source
  without a repository ignores nothing.\<close>

definition git_agrees :: "(string list \<Rightarrow> git_answer) \<Rightarrow> (string \<Rightarrow> bool) \<Rightarrow> bool" where
  "git_agrees git ign \<longleftrightarrow>
     (\<forall>ps. git ps = check_ignore ign ps \<or> git ps = GitFailure \<or> (git ps = GitNoRepository \<and> (\<forall>p. \<not> ign p)))"

definition may_fail :: "(string list \<Rightarrow> git_answer) \<Rightarrow> bool" where
  "may_fail git \<longleftrightarrow> (\<exists>ps. git ps = GitFailure)"

lemma IgnoredPaths_agrees:
  assumes "git_agrees git ign"
  shows "IgnoredPaths git repoPath paths = IgnoredPaths (check_ignore ign) repoPath paths \<or>
    (IgnoredPaths git repoPath paths = Inl GitFailed \<and> may_fail git)"
proof -
  consider "git (safe_paths [] paths) = check_ignore ign (safe_paths [] paths)"
    | (failed) "git (safe_paths [] paths) = GitFailure"
    | (bare) "git (safe_paths [] paths) = GitNoRepository" "\<forall>p. \<not> ign p"
    using assms by (auto simp: git_agrees_def)
  then show ?thesis
  proof cases
    case failed
    then have "may_fail git" by (auto simp: may_fail_def)
    then show ?thesis using failed by (simp add: IgnoredPaths_def Let_def)
  next
    case bare
    then show ?thesis by (simp add: IgnoredPaths_def Let_def check_ignore_def)
  qed (simp add: IgnoredPaths_def Let_def)
qed

lemma ApplyGitignore_agrees:
  assumes "git_agrees git ign"
  shows "ApplyGitignore git fs repoPath = ApplyGitignore (check_ignore ign) fs repoPath \<or>
    (ApplyGitignore git fs repoPath = Inl GitFailed \<and> may_fail git)"
  using IgnoredPaths_agrees [OF assms, of repoPath "unsuppressed_paths [] fs"]
  by (auto simp: ApplyGitignore_def Let_def)

lemma ApplyRepo_agrees:
  assumes "git_agrees git ign"
  shows "ApplyRepo cancelled disabled rule_file git repoPath findings =
      ApplyRepo cancelled disabled rule_file (check_ignore ign) repoPath findings \<or>
    (ApplyRepo cancelled disabled rule_file git repoPath findings = Inl GitFailed \<and> may_fail git)"
  using ApplyGitignore_agrees [OF assms, of "fst (apply_rules findings (Combine [DefaultRules disabled,
      projr (load_rules rule_file repoPath)]))" repoPath]
  by (cases "load_rules rule_file repoPath") (auto simp: ApplyRepo_def case_prod_beta)

lemma Capture_agrees:
  assumes "git_agrees git ign"
  shows "Capture cancelled disabled rule_file git repoPath findings =
      Capture cancelled disabled rule_file (check_ignore ign) repoPath findings \<or>
    (Capture cancelled disabled rule_file git repoPath findings = Inl GitFailed \<and> may_fail git)"
  using IgnoredPaths_agrees [OF assms, of repoPath "distinct_paths [] findings"]
  by (cases "load_rules rule_file repoPath") (auto simp: Capture_def Let_def)

text \<open>C36: Applying the snapshot of a policy to the findings it was captured for and applying the live
  policy are two evaluations that ask git about different paths (the live policy about the paths that no
  rule hides, the snapshot about all of them), so a git that fails can fail one of them alone. As long
  as every answer that git does give is the one the documented command gives for the same ignored
  paths: a replay that succeeds agrees with every live evaluation that succeeds (the same findings
  suppressed for the same reasons, and the same count), and the live evaluation otherwise fails only
  because git failed; a replay that fails does so because git failed, or with the error of the live
  evaluation (a cancelled context, rules that cannot be read).\<close>

theorem snapshot_replays_live_policy:
  fixes rule_file :: "'e + suppress_rule list" and cancelled disabled :: bool and repoPath :: string
    and findings :: "finding list"
  assumes "git_agrees capturing ign" "git_agrees applying ign"
  defines "live \<equiv> ApplyRepo cancelled disabled rule_file applying repoPath findings"
  shows "case and_then (Capture cancelled disabled rule_file capturing repoPath findings)
           (\<lambda>s. Snapshot_Apply s findings) of
       Inr r \<Rightarrow> live = Inr r \<or> live = Inl GitFailed \<and> may_fail applying
     | Inl e \<Rightarrow> e = GitFailed \<and> may_fail capturing \<or> live = Inl e"
proof -
  let ?exact = "ApplyRepo cancelled disabled rule_file (check_ignore ign) repoPath findings"
  have applied: "live = ?exact \<or> live = Inl GitFailed \<and> may_fail applying"
    unfolding live_def by (rule ApplyRepo_agrees [OF assms(2)])
  have failing: "?exact = Inl e \<Longrightarrow> live = Inl e" for e
    using assms(2) unfolding live_def
    by (cases "load_rules rule_file repoPath") (auto simp: ApplyRepo_def case_prod_beta ApplyGitignore_marks)
  consider (same) "Capture cancelled disabled rule_file capturing repoPath findings =
      Capture cancelled disabled rule_file (check_ignore ign) repoPath findings"
    | (failed) "Capture cancelled disabled rule_file capturing repoPath findings = Inl GitFailed"
      "may_fail capturing"
    using Capture_agrees [OF assms(1)] by blast
  then show ?thesis
  proof cases
    case same
    show ?thesis
      unfolding same replay_with_answers using applied failing by (auto split: sum.split)
  next
    case failed
    then show ?thesis by simp
  qed
qed

text \<open>Git answers for one path and fails for two: the live policy asks about one, as a rule hides the
  other, and the snapshot about both.\<close>

definition small_git :: "string list \<Rightarrow> git_answer" where
  "small_git ps = (if 1 < length ps then GitFailure else check_ignore (\<lambda>p. p = ''out/a'') ps)"

definition located_finding :: "string \<Rightarrow> finding" where
  "located_finding path = (sample_finding ''f'' ''k'')\<lparr>fi_FilePath := path\<rparr>"

theorem snapshot_replays_live_policy_witness:
  "\<exists>r. and_then (Capture False False (Inr [] :: unit + suppress_rule list) (check_ignore (\<lambda>p. p = ''out/a'')) ''/src''
          [located_finding ''out/a'', located_finding ''.git/config'']) (\<lambda>s. Snapshot_Apply s
          [located_finding ''out/a'', located_finding ''.git/config'']) = Inr r \<and> snd r = 2 \<and>
       ApplyRepo False False (Inr [] :: unit + suppress_rule list) small_git ''/src''
          [located_finding ''out/a'', located_finding ''.git/config''] = Inr r \<and>
       Capture False False (Inr [] :: unit + suppress_rule list) small_git ''/src''
          [located_finding ''out/a'', located_finding ''.git/config''] = Inl GitFailed"
proof -
  let ?ign = "\<lambda>p. p = ''out/a''" and ?fs = "[located_finding ''out/a'', located_finding ''.git/config'']"
  let ?rules = "Inr [] :: unit + suppress_rule list"
  let ?replay = "and_then (Capture False False ?rules (check_ignore ?ign) ''/src'' ?fs) (\<lambda>s. Snapshot_Apply s ?fs)"
  have agree: "git_agrees (check_ignore ?ign) ?ign" "git_agrees small_git ?ign"
    by (simp_all add: git_agrees_def small_git_def)
  have "map_sum id snd ?replay = Inr 2" by code_simp
  then obtain r where r: "?replay = Inr r" "snd r = 2" by (cases ?replay) auto
  have "\<not> ApplyRepo False False ?rules small_git ''/src'' ?fs = Inl GitFailed" by code_simp
  then have "ApplyRepo False False ?rules small_git ''/src'' ?fs = Inr r"
    using snapshot_replays_live_policy [OF agree, of False False ?rules "''/src''" ?fs] unfolding r(1) by simp
  moreover have "Capture False False ?rules small_git ''/src'' ?fs = Inl GitFailed" by code_simp
  ultimately show ?thesis using r by blast
qed

end
