(* ===== verification/FindingDiff.thy ===== *)
theory FindingDiff
  imports Suppress "HOL-Library.Product_Lexorder"
begin

text \<open>
  Comparing the findings of two scans (\<open>internal/finding/diff/diff.go\<close>), and the suppressions that the
  server keeps (\<open>internal/finding/suppression/match.go\<close>).

  Go iterates a map in no fixed order; the order in which \<open>Compare\<close> meets the keys of the baseline is a
  parameter of the model, a permutation of these keys.
\<close>

section \<open>Comparison\<close>

record diff_result =
  dr_New :: "finding list"
  dr_Existing :: "finding list"
  dr_Fixed :: "finding list"
  dr_Resurfaced :: "finding list"

definition StateNew :: string where
  "StateNew = ''new''"

definition StateExisting :: string where
  "StateExisting = ''existing''"

definition StateFixed :: string where
  "StateFixed = ''fixed''"

definition StateResurfaced :: string where
  "StateResurfaced = ''resurfaced''"

definition Key :: "sha_fn \<Rightarrow> finding \<Rightarrow> string" where
  "Key sha f =
     (if fi_StableFingerprint f \<noteq> [] then fi_StableFingerprint f
      else if fi_Fingerprint f \<noteq> [] then fi_Fingerprint f
      else fp_Stable (Build sha f))"

text \<open>\<open>baseByID\<close>: the first finding of the baseline with each key that is not empty.\<close>

fun base_by_id :: "sha_fn \<Rightarrow> finding list \<Rightarrow> (string \<times> finding) list \<Rightarrow> (string \<times> finding) list" where
  "base_by_id sha [] base = base"
| "base_by_id sha (f # fs) base =
     (let key = Key sha f in
      if key = [] then base_by_id sha fs base
      else if map_of base key \<noteq> None then base_by_id sha fs base
      else base_by_id sha fs (base @ [(key, f)]))"

definition sort_tuple :: "finding \<Rightarrow> string \<times> int \<times> string \<times> string" where
  "sort_tuple f = (fi_FilePath f, fi_LineStart f, fi_RuleID f, fi_Title f)"

definition sortFindings :: "finding list \<Rightarrow> finding list" where
  "sortFindings fs = sort_key sort_tuple fs"

definition set_state :: "string \<Rightarrow> finding \<Rightarrow> finding" where
  "set_state st f = f\<lparr>fi_BaselineState := st\<rparr>"

text \<open>The loop over the current findings: the new ones, the existing ones and the keys seen.\<close>

fun compare_current ::
  "sha_fn \<Rightarrow> (string \<times> finding) list \<Rightarrow> finding list \<Rightarrow> finding list \<times> finding list \<times> string list" where
  "compare_current sha base [] = ([], [], [])"
| "compare_current sha base (f # fs) =
     (let (new, existing, seen) = compare_current sha base fs; key = Key sha f in
      if key = [] then (set_state StateNew f # new, existing, seen)
      else if map_of base key \<noteq> None then (new, set_state StateExisting f # existing, key # seen)
      else (set_state StateNew f # new, existing, key # seen))"

definition fixed_findings ::
  "(string \<times> finding) list \<Rightarrow> string list \<Rightarrow> (string \<times> finding) list" where
  "fixed_findings order seen = filter (\<lambda>(key, f). \<not> contains_elem seen key) order"

text \<open>\<open>order\<close> is the order in which the map of the baseline is iterated.\<close>

definition Compare ::
  "sha_fn \<Rightarrow> ((string \<times> finding) list \<Rightarrow> (string \<times> finding) list) \<Rightarrow> finding list \<Rightarrow> finding list \<Rightarrow> diff_result" where
  "Compare sha order baseline current =
     (let base = base_by_id sha baseline [];
          (new, existing, seen) = compare_current sha base current
      in \<lparr>dr_New = sortFindings new,
          dr_Existing = sortFindings existing,
          dr_Fixed = sortFindings (map (\<lambda>(key, f). set_state StateFixed f) (fixed_findings (order base) seen)),
          dr_Resurfaced = sortFindings []\<rparr>)"

record diff_counts =
  dc_New :: int
  dc_Existing :: int
  dc_Fixed :: int
  dc_Resurfaced :: int

definition Counts :: "diff_result \<Rightarrow> diff_counts" where
  "Counts r =
     \<lparr>dc_New = int (length (dr_New r)), dc_Existing = int (length (dr_Existing r)),
      dc_Fixed = int (length (dr_Fixed r)), dc_Resurfaced = int (length (dr_Resurfaced r))\<rparr>"

section \<open>Every finding is classified once\<close>

lemma Key_set_state [simp]: "Key sha (set_state st f) = Key sha f"
  by (simp add: Key_def set_state_def Build_def buildDetectSecret_def buildSCA_def buildV1_def
      sca_parts_def rule_key_def line_text_def Let_def)

definition known :: "sha_fn \<Rightarrow> finding list \<Rightarrow> finding \<Rightarrow> bool" where
  "known sha baseline f \<longleftrightarrow> Key sha f \<noteq> [] \<and> Key sha f \<in> Key sha ` set baseline"

lemma base_by_id_append:
  "\<forall>(k, f) \<in> set base. k = Key sha f \<and> k \<noteq> [] \<Longrightarrow> distinct (map fst base) \<Longrightarrow>
   (\<forall>(k, f) \<in> set (base_by_id sha fs base). k = Key sha f \<and> k \<noteq> []) \<and>
   distinct (map fst (base_by_id sha fs base)) \<and>
   fst ` set (base_by_id sha fs base) = fst ` set base \<union> (Key sha ` set fs - {[]})"
proof (induction sha fs base rule: base_by_id.induct)
  case (2 sha f fs base)
  then show ?case
    by (auto simp: Let_def map_of_eq_None_iff split: if_splits)
qed auto

lemma base_by_id_props:
  "\<forall>(k, f) \<in> set (base_by_id sha fs []). k = Key sha f"
  "distinct (map fst (base_by_id sha fs []))"
  "fst ` set (base_by_id sha fs []) = Key sha ` set fs - {[]}"
  using base_by_id_append [of "[]" sha fs] by auto

lemma base_by_id_known:
  "Key sha f \<noteq> [] \<Longrightarrow> map_of (base_by_id sha baseline []) (Key sha f) \<noteq> None \<longleftrightarrow> known sha baseline f"
  by (simp add: map_of_eq_None_iff base_by_id_props(3) known_def)

lemma compare_current_eq:
  "compare_current sha (base_by_id sha baseline []) fs =
     (map (set_state StateNew) (filter (\<lambda>f. \<not> known sha baseline f) fs),
      map (set_state StateExisting) (filter (known sha baseline) fs),
      map (Key sha) (filter (\<lambda>f. Key sha f \<noteq> []) fs))"
proof (induction fs)
  case (Cons f fs)
  then show ?case
    using base_by_id_known [of sha f baseline] by (auto simp: known_def Let_def)
qed simp

lemma mset_sortFindings [simp]: "mset (sortFindings fs) = mset fs"
  by (simp add: sortFindings_def)

lemma distinct_map_sortFindings [simp]: "distinct (map g (sortFindings fs)) \<longleftrightarrow> distinct (map g fs)"
  by (rule mset_eq_imp_distinct_iff) simp

lemma set_sortFindings [simp]: "set (sortFindings fs) = set fs"
  by (simp add: sortFindings_def)

lemma fixed_keys:
  assumes "mset entries = mset (base_by_id sha baseline [])"
  shows "map (Key sha) (map (\<lambda>(key, f). set_state StateFixed f) (fixed_findings entries seen)) =
           filter (\<lambda>key. key \<notin> set seen) (map fst entries)"
    and "distinct (map fst entries)"
    and "set (map fst entries) = Key sha ` set baseline - {[]}"
proof -
  have s: "set entries = set (base_by_id sha baseline [])" using assms by (metis set_mset_mset)
  then have "\<forall>(k, f) \<in> set entries. k = Key sha f" using base_by_id_props(1) by metis
  then show "map (Key sha) (map (\<lambda>(key, f). set_state StateFixed f) (fixed_findings entries seen)) =
      filter (\<lambda>key. key \<notin> set seen) (map fst entries)"
    by (induction entries) (auto simp: fixed_findings_def)
  show "distinct (map fst entries)"
    using base_by_id_props(2) assms by (metis mset_map mset_eq_imp_distinct_iff)
  show "set (map fst entries) = Key sha ` set baseline - {[]}"
    using s base_by_id_props(3) by simp
qed

text \<open>C33: Whatever order the map is iterated in, a comparison classifies every finding of the current
  scan exactly once, existing when its key is in the baseline and new otherwise; reports as fixed one
  finding of the baseline for each key that the current scan no longer has, and no other; and
  reports nothing as resurfaced.\<close>

theorem compare_partitions:
  assumes "mset (order (base_by_id sha baseline [])) = mset (base_by_id sha baseline [])"
  shows "mset (dr_New (Compare sha order baseline current)) =
           mset (map (set_state StateNew) (filter (\<lambda>f. \<not> known sha baseline f) current)) \<and>
         mset (dr_Existing (Compare sha order baseline current)) =
           mset (map (set_state StateExisting) (filter (known sha baseline) current)) \<and>
         distinct (map (Key sha) (dr_Fixed (Compare sha order baseline current))) \<and>
         Key sha ` set (dr_Fixed (Compare sha order baseline current)) =
           Key sha ` set baseline - {[]} - Key sha ` set current \<and>
         dr_Resurfaced (Compare sha order baseline current) = []"
proof -
  note keys = fixed_keys [OF assms]
  let ?seen = "map (Key sha) (filter (\<lambda>f. Key sha f \<noteq> []) current)"
  let ?fixed = "map (\<lambda>(key, f). set_state StateFixed f)
                  (fixed_findings (order (base_by_id sha baseline [])) ?seen)"
  have "distinct (map (Key sha) ?fixed)"
    unfolding keys(1) using keys(2) by simp
  moreover have "set (map (Key sha) ?fixed) = Key sha ` set baseline - {[]} - Key sha ` set current"
    unfolding keys(1) using keys(3) by auto
  then have "Key sha ` set ?fixed = Key sha ` set baseline - {[]} - Key sha ` set current"
    by (simp only: set_map)
  ultimately show ?thesis
    by (simp add: Compare_def compare_current_eq Let_def) (simp add: sortFindings_def)
qed

text \<open>An example: one finding kept, one new, one gone.\<close>

definition sample_scan_pair :: "finding list \<times> finding list" where
  "sample_scan_pair =
     ([sample_finding ''1'' ''a'', sample_finding ''2'' ''b''],
      [sample_finding ''3'' ''b'', sample_finding ''4'' ''c''])"

theorem compare_partitions_witness:
  "map fi_ID (dr_New (Compare (\<lambda>x. x) rev (fst sample_scan_pair) (snd sample_scan_pair))) = [''4''] \<and>
   Key (\<lambda>x. x) ` set (dr_Fixed (Compare (\<lambda>x. x) rev (fst sample_scan_pair) (snd sample_scan_pair))) = {''a''}"
proof
  let ?b = "fst sample_scan_pair" and ?c = "snd sample_scan_pair"
  show "map fi_ID (dr_New (Compare (\<lambda>x. x) rev ?b ?c)) = [''4'']" by code_simp
  have "Key (\<lambda>x. x) ` set (dr_Fixed (Compare (\<lambda>x. x) rev ?b ?c)) =
      Key (\<lambda>x. x) ` set ?b - {[]} - Key (\<lambda>x. x) ` set ?c"
    using compare_partitions [of rev "\<lambda>x. x" ?b ?c] by simp
  also have "\<dots> = {''a''}" by code_simp
  finally show "Key (\<lambda>x. x) ` set (dr_Fixed (Compare (\<lambda>x. x) rev ?b ?c)) = {''a''}" .
qed

section \<open>Durable suppressions\<close>

datatype suppression_status =
    SuppressionStatusActive | SuppressionStatusRevoked | SuppressionStatusExpired | SuppressionStatusOther string

datatype scope_type =
    SuppressionScopeFingerprint | SuppressionScopeStableFingerprint | SuppressionScopeRule
  | SuppressionScopeFineCategory | SuppressionScopePathGlob | SuppressionScopeOther string

record durable_suppression =
  du_ID :: string
  du_RepoID :: string
  du_ScopeType :: scope_type
  du_ScopeValue :: string
  du_Branch :: string
  du_Reason :: string
  du_ExpiresAt :: "go_time option"
  du_Status :: suppression_status

definition in_scope :: "durable_suppression \<Rightarrow> finding \<Rightarrow> bool" where
  "in_scope s f =
     (case du_ScopeType s of
        SuppressionScopeFingerprint \<Rightarrow>
          du_ScopeValue s = fi_Fingerprint f \<or> du_ScopeValue s = fi_StableFingerprint f
      | SuppressionScopeStableFingerprint \<Rightarrow> du_ScopeValue s = fi_StableFingerprint f
      | SuppressionScopeRule \<Rightarrow> du_ScopeValue s = fi_RuleID f
      | SuppressionScopeFineCategory \<Rightarrow> du_ScopeValue s = fi_FineCategory f
      | SuppressionScopePathGlob \<Rightarrow> ruleset_match [path_rule (du_ScopeValue s) []] f \<noteq> None
      | SuppressionScopeOther t \<Rightarrow> False)"

definition Matches :: "durable_suppression \<Rightarrow> finding \<Rightarrow> string \<Rightarrow> go_time \<Rightarrow> bool" where
  "Matches s f branch now =
     (if du_RepoID s \<noteq> fi_RepoID f \<or> du_ScopeValue s = [] \<or> du_Status s \<noteq> SuppressionStatusActive
      then False
      else if (case du_ExpiresAt s of None \<Rightarrow> False | Some e \<Rightarrow> \<not> now < e) then False
      else if du_Branch s \<noteq> [] \<and> du_Branch s \<noteq> branch then False
      else in_scope s f)"

definition FirstMatch ::
  "durable_suppression list \<Rightarrow> finding \<Rightarrow> string \<Rightarrow> go_time \<Rightarrow> (durable_suppression \<times> string) option" where
  "FirstMatch ss f branch now =
     map_option (\<lambda>s. (s, ''suppression:'' @ du_ID s @ '':'' @ du_Reason s))
       (find (\<lambda>s. Matches s f branch now) ss)"

text \<open>\<open>known\<close>: the repository of the last suppression with each identifier.\<close>

definition owned :: "durable_suppression list \<Rightarrow> finding \<Rightarrow> bool" where
  "owned ss f \<longleftrightarrow> map_of (rev (map (\<lambda>s. (du_ID s, du_RepoID s)) ss)) (fi_SuppressionID f) = Some (fi_RepoID f)"

definition clear_suppression :: "finding \<Rightarrow> finding" where
  "clear_suppression f = f\<lparr>fi_Suppressed := False, fi_SuppressionID := [], fi_SuppressedReason := []\<rparr>"

text \<open>One turn of the loop of \<open>Apply\<close>: the finding and whether it was counted.\<close>

definition apply_durable_one ::
  "durable_suppression list \<Rightarrow> (string \<rightharpoonup> string) \<Rightarrow> go_time \<Rightarrow> finding \<Rightarrow> finding \<times> bool" where
  "apply_durable_one ss branches now f =
     (let g = (if owned ss f then clear_suppression f else f) in
      if fi_Suppressed g then (g, False)
      else case FirstMatch ss g (case branches (fi_ScanID g) of None \<Rightarrow> [] | Some b \<Rightarrow> b) now of
             None \<Rightarrow> (g, False)
           | Some (s, reason) \<Rightarrow>
               (g\<lparr>fi_Suppressed := True, fi_SuppressionID := du_ID s, fi_SuppressedReason := reason\<rparr>, True))"

fun apply_durable ::
  "durable_suppression list \<Rightarrow> (string \<rightharpoonup> string) \<Rightarrow> go_time \<Rightarrow> finding list \<Rightarrow> finding list \<times> int" where
  "apply_durable ss branches now [] = ([], 0)"
| "apply_durable ss branches now (f # fs) =
     (let (g, counted) = apply_durable_one ss branches now f;
          (gs, n) = apply_durable ss branches now fs
      in (g # gs, if counted then n + 1 else n))"

section \<open>A suppression hides only while it is in force\<close>

definition branch_of :: "(string \<rightharpoonup> string) \<Rightarrow> finding \<Rightarrow> string" where
  "branch_of branches f = (case branches (fi_ScanID f) of None \<Rightarrow> [] | Some b \<Rightarrow> b)"

lemma Matches_clear [simp]: "Matches s (clear_suppression f) branch now = Matches s f branch now"
  by (simp add: Matches_def in_scope_def clear_suppression_def ruleset_match_def rule_matches_def
      split: scope_type.split)

lemma branch_of_clear [simp]: "branch_of branches (clear_suppression f) = branch_of branches f"
  by (simp add: branch_of_def clear_suppression_def)

lemma apply_durable_eq:
  "fst (apply_durable ss branches now fs) = map (\<lambda>f. fst (apply_durable_one ss branches now f)) fs"
  by (induction fs) (auto simp: Let_def case_prod_beta)

lemma apply_durable_one_Suppressed:
  assumes "owned ss f \<or> \<not> fi_Suppressed f"
  shows "fi_Suppressed (fst (apply_durable_one ss branches now f)) \<longleftrightarrow>
         (\<exists>s \<in> set ss. Matches s f (branch_of branches f) now)"
proof -
  let ?g = "if owned ss f then clear_suppression f else f"
  have g: "\<not> fi_Suppressed ?g" using assms by (auto simp: clear_suppression_def)
  have same: "Matches s ?g (branch_of branches ?g) now = Matches s f (branch_of branches f) now" for s
    by simp
  show ?thesis
  proof (cases "find (\<lambda>s. Matches s f (branch_of branches f) now) ss")
    case None
    then have "fst (apply_durable_one ss branches now f) = ?g"
      using g by (simp add: apply_durable_one_def FirstMatch_def same flip: branch_of_def)
    then show ?thesis using None g by (auto simp: find_None_iff)
  next
    case (Some s)
    then have "fi_Suppressed (fst (apply_durable_one ss branches now f))"
      using g by (simp add: apply_durable_one_def FirstMatch_def same flip: branch_of_def)
    moreover have "\<exists>s \<in> set ss. Matches s f (branch_of branches f) now"
      using Some by (auto simp: find_Some_iff)
    ultimately show ?thesis by simp
  qed
qed

lemma apply_durable_one_independent:
  "fi_Suppressed f \<Longrightarrow> \<not> owned ss f \<Longrightarrow> fst (apply_durable_one ss branches now f) = f"
  by (simp add: apply_durable_one_def)

text \<open>C32: After the durable suppressions are applied, a finding is hidden exactly when an active
  suppression of its own repository, not expired and for its branch, covers it, or when it was hidden
  before and not by a listed suppression of its repository: evidence that was suppressed independently
  (an imported finding, a rule of the repository) stays hidden. So a revoked or expired suppression
  that is still listed hides nothing any more, and no suppression reaches into another repository.\<close>

theorem durable_suppression_in_force:
  assumes "i < length fs"
  shows "fi_Suppressed (fst (apply_durable ss branches now fs) ! i) \<longleftrightarrow>
         (fi_Suppressed (fs ! i) \<and> \<not> owned ss (fs ! i)) \<or>
         (\<exists>s \<in> set ss. du_RepoID s = fi_RepoID (fs ! i) \<and> du_ScopeValue s \<noteq> [] \<and>
            du_Status s = SuppressionStatusActive \<and>
            (\<forall>e. du_ExpiresAt s = Some e \<longrightarrow> now < e) \<and>
            (du_Branch s = [] \<or> du_Branch s = branch_of branches (fs ! i)) \<and>
            in_scope s (fs ! i))"
proof -
  have "Matches s f b now \<longleftrightarrow>
      du_RepoID s = fi_RepoID f \<and> du_ScopeValue s \<noteq> [] \<and> du_Status s = SuppressionStatusActive \<and>
      (\<forall>e. du_ExpiresAt s = Some e \<longrightarrow> now < e) \<and> (du_Branch s = [] \<or> du_Branch s = b) \<and> in_scope s f"
    for s f b by (auto simp: Matches_def split: option.splits)
  then show ?thesis
    using assms apply_durable_one_Suppressed [of ss "fs ! i" branches now]
    by (cases "fi_Suppressed (fs ! i) \<and> \<not> owned ss (fs ! i)")
      (auto simp: apply_durable_eq apply_durable_one_independent)
qed

definition sample_suppression :: "suppression_status \<Rightarrow> go_time option \<Rightarrow> durable_suppression" where
  "sample_suppression st expires =
     \<lparr>du_ID = ''d'', du_RepoID = ''r'', du_ScopeType = SuppressionScopePathGlob, du_ScopeValue = ''*.go'',
      du_Branch = ''main'', du_Reason = ''accepted'', du_ExpiresAt = expires, du_Status = st\<rparr>"

text \<open>The finding was hidden by the suppression before; a second after it expires it is visible.\<close>

definition hidden_sample :: finding where
  "hidden_sample = (sample_finding ''1'' ''a'')\<lparr>fi_Suppressed := True, fi_SuppressionID := ''d''\<rparr>"

theorem durable_suppression_in_force_witness:
  "\<not> fi_Suppressed (fst (apply_durable [sample_suppression SuppressionStatusActive (Some 5)]
        [''s'' \<mapsto> ''main''] 6 [hidden_sample]) ! 0) \<and>
   fi_Suppressed (fst (apply_durable [sample_suppression SuppressionStatusActive (Some 5)]
        [''s'' \<mapsto> ''main''] 4 [hidden_sample]) ! 0)"
proof
  have o: "owned [sample_suppression SuppressionStatusActive (Some 5)] ([hidden_sample] ! 0)"
    by code_simp
  show "\<not> fi_Suppressed (fst (apply_durable [sample_suppression SuppressionStatusActive (Some 5)]
        [''s'' \<mapsto> ''main''] 6 [hidden_sample]) ! 0)"
    using durable_suppression_in_force [of 0 "[hidden_sample]" "[sample_suppression SuppressionStatusActive (Some 5)]"
        "[''s'' \<mapsto> ''main'']" 6] o
    by (simp add: sample_suppression_def)
  show "fi_Suppressed (fst (apply_durable [sample_suppression SuppressionStatusActive (Some 5)]
        [''s'' \<mapsto> ''main''] 4 [hidden_sample]) ! 0)"
    by code_simp
qed

end
