(* ===== verification/Gates.thy ===== *)
theory Gates
  imports FindingDiff
begin

text \<open>
  Quality gates (\<open>internal/finding/gates\<close>): the rules of a policy against the findings of a scan, the
  completeness of the scan, and the requirements on measured test coverage. The JSON decoder of the
  scan's tool lists is a parameter: \<open>None\<close> is a decoding error, and \<open>null\<close> decodes to the empty list.
\<close>

section \<open>Policies\<close>

definition StatusPass :: string where "StatusPass = ''pass''"
definition StatusWarn :: string where "StatusWarn = ''warn''"
definition StatusFail :: string where "StatusFail = ''fail''"
definition StatusPending :: string where "StatusPending = ''pending''"
definition StatusIncomplete :: string where "StatusIncomplete = ''incomplete''"
definition ActionFail :: string where "ActionFail = ''fail''"
definition ActionWarn :: string where "ActionWarn = ''warn''"
definition ActionIgnore :: string where "ActionIgnore = ''ignore''"

lemmas status_defs = StatusPass_def StatusWarn_def StatusFail_def StatusPending_def
  StatusIncomplete_def ActionFail_def ActionWarn_def ActionIgnore_def

record coverage_requirement =
  cr_Metric :: string
  cr_Minimum :: float64
  cr_Scope :: string
  cr_PathPrefix :: string

record gate_rule =
  gr_ID :: string
  gr_Severity :: "severity list"
  gr_Category :: "category list"
  gr_FineCategory :: "string list"
  gr_BaselineState :: "string list"
  gr_ConfidenceMin :: string
  gr_Suppressed :: "bool option"
  gr_Action :: string
  gr_TestCoverage :: "coverage_requirement option"

record gate_policy =
  gp_Name :: string
  gp_Mode :: string
  gp_Rules :: "gate_rule list"

definition SecurityCategories :: "category list" where
  "SecurityCategories =
     [CategorySAST, CategorySCA, CategorySecrets, CategoryContainer, CategoryInfra, CategoryDAST]"

definition gate_rule_of ::
  "string \<Rightarrow> severity list \<Rightarrow> category list \<Rightarrow> string list \<Rightarrow> string \<Rightarrow> gate_rule" where
  "gate_rule_of i severities categories fine action =
     \<lparr>gr_ID = i, gr_Severity = severities, gr_Category = categories, gr_FineCategory = fine,
      gr_BaselineState = [], gr_ConfidenceMin = [], gr_Suppressed = Some False, gr_Action = action,
      gr_TestCoverage = None\<rparr>"

definition DefaultPolicy :: gate_policy where
  "DefaultPolicy =
     \<lparr>gp_Name = ''default-security-gate'', gp_Mode = ''warn'',
      gp_Rules =
        [gate_rule_of ''fail-unsuppressed-secrets'' [] [CategorySecrets] [] ActionFail,
         gate_rule_of ''fail-hardcoded-secret'' [] [] [''hardcoded-secret''] ActionFail,
         gate_rule_of ''fail-critical'' [SeverityCritical] [] [] ActionFail,
         gate_rule_of ''fail-high-security'' [SeverityHigh] SecurityCategories [] ActionFail,
         gate_rule_of ''warn-medium-security'' [SeverityMedium] SecurityCategories [] ActionWarn]\<rparr>"

definition FastPRPolicy :: gate_policy where
  "FastPRPolicy =
     DefaultPolicy\<lparr>gp_Name := ''fast-pr-gate'',
       gp_Rules := map (\<lambda>r. if contains_elem [''fail-critical'', ''fail-high-security''] (gr_ID r)
                            then r\<lparr>gr_BaselineState := [''new'', ''resurfaced'']\<rparr> else r)
                       (gp_Rules DefaultPolicy)\<rparr>"

datatype policy_error = RulesUndecodable | CoverageScopeInvalid | CoverageRuleInvalid | CoverageRuleFiltered

definition check_coverage_rule :: "gate_rule \<Rightarrow> policy_error option" where
  "check_coverage_rule r =
     (case gr_TestCoverage r of
        None \<Rightarrow> None
      | Some c \<Rightarrow>
          if \<not> contains_elem [[], ''overall'', ''changed''] (cr_Scope c) \<or>
             (cr_Scope c = ''changed'' \<and> cr_Metric c \<noteq> ''lines'') \<or>
             contains_sub (cr_PathPrefix c) ''..'' \<or> has_prefix (cr_PathPrefix c) ''/'' \<or>
             list_ex (contains_elem [CHR 0x5C, CHR '':'', CHR 0x00, CHR 0x0D, CHR 0x0A]) (cr_PathPrefix c)
          then Some CoverageScopeInvalid
          else if gr_ID r = [] \<or> (gr_Action r \<noteq> ActionFail \<and> gr_Action r \<noteq> ActionWarn) \<or>
             \<not> contains_elem [''lines'', ''branches'', ''statements'', ''functions''] (cr_Metric c) \<or>
             cr_Minimum c = NaN \<or> cr_Minimum c = PosInf \<or> cr_Minimum c = NegInf \<or>
             f64_less (cr_Minimum c) (Fin 0) \<or> f64_less (Fin 100) (cr_Minimum c)
          then Some CoverageRuleInvalid
          else if 0 < length (gr_Severity r) + length (gr_Category r) + length (gr_FineCategory r) +
                     length (gr_BaselineState r) \<or>
                  gr_Suppressed r \<noteq> None \<or> gr_ConfidenceMin r \<noteq> []
          then Some CoverageRuleFiltered
          else None)"

text \<open>\<open>decode\<close> is the JSON decoder of the stored rules.\<close>

definition ParsePolicy ::
  "(string \<Rightarrow> gate_rule list option) \<Rightarrow> string \<Rightarrow> string \<Rightarrow> string \<Rightarrow> policy_error + gate_policy" where
  "ParsePolicy decode name mode rulesJSON =
     and_then (if trim_space rulesJSON \<noteq> []
               then (case decode rulesJSON of None \<Rightarrow> Inl RulesUndecodable | Some rs \<Rightarrow> Inr rs)
               else Inr [])
       (\<lambda>rules. case first_error (map check_coverage_rule rules) of
                 Some e \<Rightarrow> Inl e
               | None \<Rightarrow> Inr \<lparr>gp_Name = name, gp_Mode = mode, gp_Rules = rules\<rparr>)"

section \<open>Evaluation\<close>

definition confidenceRank :: "string \<Rightarrow> int" where
  "confidenceRank confidence =
     (let c = to_lower confidence in
      if c = ''confirmed'' then 4 else if c = ''high'' then 3
      else if c = ''medium'' then 2 else if c = ''low'' then 1 else 0)"

definition matchesRule :: "gate_rule \<Rightarrow> finding \<Rightarrow> bool" where
  "matchesRule r f =
     (if gr_ID r = [] then False
      else if gr_Severity r \<noteq> [] \<and> \<not> contains_elem (gr_Severity r) (fi_Severity f) then False
      else if gr_Category r \<noteq> [] \<and> \<not> contains_elem (gr_Category r) (fi_Category f) then False
      else if gr_FineCategory r \<noteq> [] \<and> \<not> contains_elem (gr_FineCategory r) (fi_FineCategory f) then False
      else if gr_BaselineState r \<noteq> [] \<and> \<not> contains_elem (gr_BaselineState r) (fi_BaselineState f) then False
      else if gr_ConfidenceMin r \<noteq> [] \<and>
              confidenceRank (fi_Confidence f) < confidenceRank (gr_ConfidenceMin r) then False
      else case gr_Suppressed r of None \<Rightarrow> True | Some b \<Rightarrow> fi_Suppressed f = b)"

record matched_rule =
  mr_RuleID :: string
  mr_Action :: string
  mr_FindingIDs :: "string list"
  mr_FindingCount :: int

record gate_summary =
  su_Status :: string
  su_FailCount :: int
  su_WarnCount :: int
  su_PassCount :: int
  su_Ignored :: int
  su_BySeverity :: "(string \<times> int) list"

record coverage_check =
  cc_RuleID :: string
  cc_Metric :: string
  cc_Minimum :: float64
  cc_Actual :: "float64 option"
  cc_Status :: string
  cc_Reason :: string
  cc_Scope :: string
  cc_PathPrefix :: string

record evaluation =
  ev_Status :: string
  ev_Reason :: string
  ev_Summary :: gate_summary
  ev_MatchedRules :: "matched_rule list"
  ev_Coverage :: "coverage_check list"

fun severity_string :: "severity \<Rightarrow> string" where
  "severity_string SeverityCritical = ''critical''"
| "severity_string SeverityHigh = ''high''"
| "severity_string SeverityMedium = ''medium''"
| "severity_string SeverityLow = ''low''"
| "severity_string SeverityInfo = ''info''"
| "severity_string (SeverityOther s) = s"

fun bump :: "string \<Rightarrow> (string \<times> int) list \<Rightarrow> (string \<times> int) list" where
  "bump k [] = [(k, 1)]"
| "bump k ((j, n) # rest) = (if j = k then (j, n + 1) # rest else (j, n) # bump k rest)"

text \<open>A finding without a baseline state that the rule would match if it had one.\<close>

definition baseline_unknown :: "gate_rule \<Rightarrow> finding \<Rightarrow> bool" where
  "baseline_unknown r f \<longleftrightarrow>
     gr_BaselineState r \<noteq> [] \<and> fi_BaselineState f = [] \<and> gr_Action r \<noteq> ActionIgnore \<and>
     matchesRule (r\<lparr>gr_BaselineState := []\<rparr>) f"

text \<open>The loop over the findings for one rule: the summary, the unknown flag and the matched findings.\<close>

fun eval_findings ::
  "gate_rule \<Rightarrow> finding list \<Rightarrow> gate_summary \<times> bool \<times> string list \<Rightarrow> gate_summary \<times> bool \<times> string list" where
  "eval_findings r [] st = st"
| "eval_findings r (f # fs) (su, unknown, ids) =
     (let unknown' = (unknown \<or> baseline_unknown r f) in
      if \<not> matchesRule r f then eval_findings r fs (su, unknown', ids)
      else if gr_Action r = ActionIgnore
      then eval_findings r fs (su\<lparr>su_Ignored := su_Ignored su + 1\<rparr>, unknown', ids)
      else eval_findings r fs
             (su\<lparr>su_BySeverity := bump (severity_string (fi_Severity f)) (su_BySeverity su)\<rparr>,
              unknown', ids @ [fi_ID f]))"

definition count_action :: "string \<Rightarrow> int \<Rightarrow> gate_summary \<Rightarrow> gate_summary" where
  "count_action action n su =
     (if action = ActionFail then su\<lparr>su_FailCount := su_FailCount su + n\<rparr>
      else if action = ActionWarn then su\<lparr>su_WarnCount := su_WarnCount su + n\<rparr>
      else su\<lparr>su_PassCount := su_PassCount su + n\<rparr>)"

fun eval_rules ::
  "finding list \<Rightarrow> gate_rule list \<Rightarrow> gate_summary \<times> bool \<times> matched_rule list
     \<Rightarrow> gate_summary \<times> bool \<times> matched_rule list" where
  "eval_rules fs [] st = st"
| "eval_rules fs (r # rs) (su, unknown, matched) =
     (if gr_TestCoverage r \<noteq> None then eval_rules fs rs (su, unknown, matched)
      else
        let (su', unknown', ids) = eval_findings r fs (su, unknown, []) in
        if ids = [] then eval_rules fs rs (su', unknown', matched)
        else eval_rules fs rs
               (count_action (gr_Action r) (int (length ids)) su', unknown',
                matched @ [\<lparr>mr_RuleID = gr_ID r, mr_Action = gr_Action r, mr_FindingIDs = ids,
                            mr_FindingCount = int (length ids)\<rparr>]))"

definition effective_rules :: "gate_policy \<Rightarrow> gate_rule list" where
  "effective_rules p = (if gp_Rules p = [] then gp_Rules DefaultPolicy else gp_Rules p)"

definition Evaluate :: "gate_policy \<Rightarrow> finding list \<Rightarrow> evaluation" where
  "Evaluate policy findings =
     (let (su, unknown, matched) =
            eval_rules findings (effective_rules policy)
              (\<lparr>su_Status = StatusPass, su_FailCount = 0, su_WarnCount = 0, su_PassCount = 0,
                su_Ignored = 0, su_BySeverity = []\<rparr>, False, []);
          st = (if 0 < su_FailCount su then StatusFail
                else if 0 < su_WarnCount su then StatusWarn else StatusPass)
      in if unknown \<and> st \<noteq> StatusFail
         then \<lparr>ev_Status = StatusIncomplete,
               ev_Reason = ''Baseline state is unknown for findings covered by the policy.'',
               ev_Summary = su\<lparr>su_Status := StatusIncomplete\<rparr>, ev_MatchedRules = matched, ev_Coverage = []\<rparr>
         else \<lparr>ev_Status = st, ev_Reason = [], ev_Summary = su\<lparr>su_Status := st\<rparr>,
               ev_MatchedRules = matched, ev_Coverage = []\<rparr>)"

section \<open>Completeness of the scan\<close>

definition all_completed :: "string list \<Rightarrow> string list \<Rightarrow> bool" where
  "all_completed selected completed \<longleftrightarrow> list_all (\<lambda>t. t \<noteq> [] \<and> contains_elem completed t) selected"

definition ScanCompleteness :: "(string \<Rightarrow> string list option) \<Rightarrow> scan \<Rightarrow> string \<times> string" where
  "ScanCompleteness decode sc =
     (case sc_Status sc of
        ScanStatusPending \<Rightarrow> (StatusPending, ''Scan has not finished.'')
      | ScanStatusRunning \<Rightarrow> (StatusPending, ''Scan has not finished.'')
      | ScanStatusFailed \<Rightarrow> (StatusIncomplete, ''Scan failed; results are incomplete.'')
      | ScanStatusCancelled \<Rightarrow> (StatusIncomplete, ''Scan cancelled; results are incomplete.'')
      | ScanStatusOther s \<Rightarrow> (StatusIncomplete, ''Scan execution status is unknown.'')
      | ScanStatusCompleted \<Rightarrow>
          (case (decode (sc_ToolsSelected sc), decode (sc_ToolsCompleted sc), decode (sc_ToolsFailed sc)) of
             (Some selected, Some completed, Some failed) \<Rightarrow>
               if selected = [] \<or> completed = [] \<or> failed \<noteq> []
               then (StatusIncomplete, ''Not all selected scanners completed successfully.'')
               else if \<not> all_completed selected completed
               then (StatusIncomplete, ''Not all selected scanners completed successfully.'')
               else (''complete'', ''All selected scanners completed successfully.'')
           | _ \<Rightarrow> (StatusIncomplete, ''Scanner completion metadata is invalid.'')))"

definition EvaluateScan ::
  "(string \<Rightarrow> string list option) \<Rightarrow> gate_policy \<Rightarrow> scan \<Rightarrow> finding list \<Rightarrow> evaluation" where
  "EvaluateScan decode policy sc findings =
     (let ev = Evaluate policy findings; (st, reason) = ScanCompleteness decode sc in
      if st \<noteq> ''complete''
      then ev\<lparr>ev_Status := st, ev_Summary := (ev_Summary ev)\<lparr>su_Status := st\<rparr>, ev_Reason := reason\<rparr>
      else ev)"

section \<open>Measured test coverage\<close>

record metric =
  me_Covered :: int
  me_Total :: int

record measured_file =
  mf_Path :: string
  mf_Metrics :: "(string \<times> metric) list"

record measured_report =
  rp_CommitSHA :: string
  rp_Files :: "measured_file list"
  rp_Changed :: "measured_file list option"

definition Percent :: "metric \<Rightarrow> float64" where
  "Percent m =
     (if me_Total m = 0 then Fin 0
      else f64_div (f64_mul (Fin 100) (f64_of_int (me_Covered m))) (f64_of_int (me_Total m)))"

definition in_prefix :: "string \<Rightarrow> string \<Rightarrow> bool" where
  "in_prefix prefix path \<longleftrightarrow>
     prefix = [] \<or> path = prefix \<or> has_prefix path (trim_suffix prefix ''/'' @ ''/'')"

text \<open>The loop over the files: the sums, the files in scope and the files that measure the metric.\<close>

fun measure_files :: "string \<Rightarrow> string \<Rightarrow> measured_file list \<Rightarrow> metric \<times> int \<times> int \<Rightarrow> metric \<times> int \<times> int" where
  "measure_files prefix name [] st = st"
| "measure_files prefix name (f # fs) (m, n, measured) =
     (if \<not> in_prefix prefix (mf_Path f) then measure_files prefix name fs (m, n, measured)
      else case map_of (mf_Metrics f) name of
             None \<Rightarrow> measure_files prefix name fs (m, n + 1, measured)
           | Some x \<Rightarrow>
               measure_files prefix name fs
                 (\<lparr>me_Covered = wrap64 (me_Covered m + me_Covered x),
                   me_Total = wrap64 (me_Total m + me_Total x)\<rparr>, n + 1, measured + 1))"

definition files_of :: "coverage_requirement \<Rightarrow> measured_report option \<Rightarrow> measured_file list" where
  "files_of c report =
     (case report of
        None \<Rightarrow> []
      | Some r \<Rightarrow>
          if cr_Scope c = ''changed'' then (case rp_Changed r of None \<Rightarrow> [] | Some fs \<Rightarrow> fs) else rp_Files r)"

definition coverage_reason :: "float64 \<Rightarrow> coverage_requirement \<Rightarrow> string" where
  "coverage_reason actual c =
     show_fixed2 actual @ ''% '' @ cr_Metric c @ '' coverage; '' @ show_fixed2 (cr_Minimum c) @ ''% required.''"

definition coverage_check_of ::
  "measured_report option \<Rightarrow> string \<Rightarrow> gate_rule \<Rightarrow> coverage_requirement \<Rightarrow> coverage_check" where
  "coverage_check_of report commit r c =
     (let check = \<lparr>cc_RuleID = gr_ID r, cc_Metric = cr_Metric c, cc_Minimum = cr_Minimum c, cc_Actual = None,
                   cc_Status = StatusIncomplete, cc_Reason = [],
                   cc_Scope = (if cr_Scope c = [] then ''overall'' else cr_Scope c),
                   cc_PathPrefix = cr_PathPrefix c\<rparr>;
          (m, n, measured) =
            measure_files (cr_PathPrefix c) (cr_Metric c) (files_of c report) (\<lparr>me_Covered = 0, me_Total = 0\<rparr>, 0, 0)
      in case report of
           None \<Rightarrow> check\<lparr>cc_Reason := ''Measured test coverage has not been imported.''\<rparr>
         | Some rep \<Rightarrow>
             if rp_CommitSHA rep \<noteq> commit \<or> commit = []
             then check\<lparr>cc_Reason := ''Coverage does not match the scanned commit.''\<rparr>
             else if cr_Scope c = ''changed'' \<and> rp_Changed rep = None
             then check\<lparr>cc_Reason := ''A diff-cover report for the tested commit has not been imported.''\<rparr>
             else if measured \<noteq> n \<or> (n = 0 \<and> cr_Scope c \<noteq> ''changed'')
             then check\<lparr>cc_Reason := ''This metric is not measured for every file in the imported bundle.''\<rparr>
             else if me_Total m = 0
             then check\<lparr>cc_Status := ''not_applicable'',
                        cc_Reason := ''No coverable items for this metric in the reported scope.''\<rparr>
             else let actual = Percent m in
                  check\<lparr>cc_Actual := Some actual,
                        cc_Status := (if f64_less actual (cr_Minimum c) then gr_Action r else StatusPass),
                        cc_Reason := coverage_reason actual c\<rparr>)"

definition record_check :: "coverage_check \<Rightarrow> evaluation \<Rightarrow> evaluation" where
  "record_check check ev =
     (let ev' = ev\<lparr>ev_Coverage := ev_Coverage ev @ [check]\<rparr>; st = cc_Status check in
      if contains_elem [StatusFail, StatusIncomplete, StatusWarn] st then
        (if ev_Status ev' = StatusPending \<or> ev_Status ev' = StatusIncomplete then ev'
         else if st \<noteq> StatusWarn \<or> ev_Status ev' = StatusPass
         then ev'\<lparr>ev_Status := st, ev_Summary := (ev_Summary ev')\<lparr>su_Status := st\<rparr>, ev_Reason := cc_Reason check\<rparr>
         else ev')
      else ev')"

fun apply_coverage_rules ::
  "measured_report option \<Rightarrow> string \<Rightarrow> gate_rule list \<Rightarrow> evaluation \<Rightarrow> evaluation" where
  "apply_coverage_rules report commit [] ev = ev"
| "apply_coverage_rules report commit (r # rs) ev =
     (case gr_TestCoverage r of
        None \<Rightarrow> apply_coverage_rules report commit rs ev
      | Some c \<Rightarrow>
          apply_coverage_rules report commit rs (record_check (coverage_check_of report commit r c) ev))"

definition ApplyCoverage ::
  "evaluation \<Rightarrow> gate_policy \<Rightarrow> measured_report option \<Rightarrow> string \<Rightarrow> evaluation" where
  "ApplyCoverage ev policy report commit = apply_coverage_rules report commit (gp_Rules policy) ev"

text \<open>\<open>coverageForGate\<close> (\<open>internal/api/routes/test_coverage.go\<close>): the stored report is only read when a
  rule asks for coverage, and a scan of a dirty tree has no commit to match.\<close>

definition coverageForGate ::
  "'e + measured_report option \<Rightarrow> string \<Rightarrow> string \<Rightarrow> gate_policy \<Rightarrow> evaluation \<Rightarrow> 'e + evaluation" where
  "coverageForGate report commitSHA dirtyState policy ev =
     (if list_ex (\<lambda>r. gr_TestCoverage r \<noteq> None) (gp_Rules policy) then
        and_then report (\<lambda>rep.
          let commit = (if dirtyState \<noteq> [] \<and> dirtyState \<noteq> ''clean'' then [] else commitSHA)
          in Inr (ApplyCoverage ev policy rep commit))
      else Inr ev)"

section \<open>What a passing gate means\<close>

lemma eval_findings_eq:
  "fst (snd (eval_findings r fs (su, unknown, ids))) \<longleftrightarrow> unknown \<or> list_ex (baseline_unknown r) fs"
  "snd (snd (eval_findings r fs (su, unknown, ids))) =
     ids @ (if gr_Action r = ActionIgnore then [] else map fi_ID (filter (matchesRule r) fs))"
  "su_FailCount (fst (eval_findings r fs (su, unknown, ids))) = su_FailCount su"
  "su_WarnCount (fst (eval_findings r fs (su, unknown, ids))) = su_WarnCount su"
  by (induction fs arbitrary: su unknown ids) (auto simp: Let_def)

text \<open>How many pairs of a rule with this action and a finding match.\<close>

definition rule_matches_count :: "string \<Rightarrow> finding list \<Rightarrow> gate_rule \<Rightarrow> int" where
  "rule_matches_count action fs r =
     (if gr_TestCoverage r = None \<and> gr_Action r = action
      then int (length (filter (matchesRule r) fs)) else 0)"

lemma count_action_counts:
  "su_FailCount (count_action a n su) = su_FailCount su + (if a = ActionFail then n else 0)"
  "su_WarnCount (count_action a n su) = su_WarnCount su + (if a = ActionWarn then n else 0)"
  by (simp_all add: count_action_def status_defs)

lemma eval_rules_conj:
  "su_FailCount (fst (eval_rules fs rs (su, unknown, matched))) =
     su_FailCount su + sum_list (map (rule_matches_count ActionFail fs) rs) \<and>
   su_WarnCount (fst (eval_rules fs rs (su, unknown, matched))) =
     su_WarnCount su + sum_list (map (rule_matches_count ActionWarn fs) rs) \<and>
   (fst (snd (eval_rules fs rs (su, unknown, matched))) \<longleftrightarrow>
     unknown \<or> list_ex (\<lambda>r. gr_TestCoverage r = None \<and> list_ex (baseline_unknown r) fs) rs)"
proof (induction rs arbitrary: su unknown matched)
  case (Cons r rs)
  obtain su' unknown' ids where e: "eval_findings r fs (su, unknown, []) = (su', unknown', ids)"
    by (metis prod_cases3)
  note ef = eval_findings_eq [of r fs su unknown "[]", unfolded e fst_conv snd_conv append_Nil]
  define matched' where "matched' = matched @ [\<lparr>mr_RuleID = gr_ID r, mr_Action = gr_Action r,
    mr_FindingIDs = ids, mr_FindingCount = int (length ids)\<rparr>]"
  have step: "eval_rules fs (r # rs) (su, unknown, matched) =
      (if gr_TestCoverage r \<noteq> None then eval_rules fs rs (su, unknown, matched)
       else if ids = [] then eval_rules fs rs (su', unknown', matched)
       else eval_rules fs rs (count_action (gr_Action r) (int (length ids)) su', unknown', matched'))"
    unfolding matched'_def eval_rules.simps e Let_def prod.case ..
  show ?case
    using Cons.IH ef unfolding step
    by (auto simp: rule_matches_count_def count_action_counts status_defs)
qed simp

lemmas eval_rules_eq =
  eval_rules_conj [THEN conjunct1] eval_rules_conj [THEN conjunct2, THEN conjunct1]
  eval_rules_conj [THEN conjunct2, THEN conjunct2]

lemma rule_matches_count_nonneg: "0 \<le> rule_matches_count a fs r"
  by (simp add: rule_matches_count_def)

lemma sum_counts_zero:
  "\<not> 0 < sum_list (map (rule_matches_count a fs) rs) \<longleftrightarrow> (\<forall>r \<in> set rs. rule_matches_count a fs r = 0)"
proof (induction rs)
  case (Cons r rs)
  have "0 \<le> sum_list (map (rule_matches_count a fs) rs)"
    by (rule sum_list_nonneg) (auto simp: rule_matches_count_nonneg)
  then show ?case using Cons rule_matches_count_nonneg [of a fs r] by auto
qed simp

lemma Evaluate_pass_iff:
  "ev_Status (Evaluate p fs) = StatusPass \<longleftrightarrow>
   (\<forall>r \<in> set (effective_rules p). rule_matches_count ActionFail fs r = 0 \<and>
      rule_matches_count ActionWarn fs r = 0 \<and>
      (gr_TestCoverage r = None \<longrightarrow> \<not> list_ex (baseline_unknown r) fs))"
proof -
  let ?init = "\<lparr>su_Status = StatusPass, su_FailCount = 0, su_WarnCount = 0, su_PassCount = 0,
                su_Ignored = 0, su_BySeverity = []\<rparr>"
  obtain su unknown matched where e: "eval_rules fs (effective_rules p) (?init, False, []) = (su, unknown, matched)"
    by (metis prod_cases3)
  note ef = eval_rules_eq [of fs "effective_rules p" ?init False "[]", unfolded e, simplified]
  have "ev_Status (Evaluate p fs) = StatusPass \<longleftrightarrow>
      \<not> 0 < su_FailCount su \<and> \<not> 0 < su_WarnCount su \<and> \<not> unknown"
    unfolding Evaluate_def e by (simp add: status_defs Let_def)
  then show ?thesis unfolding ef sum_counts_zero by (auto simp: list_ex_iff)
qed

lemma ScanCompleteness_complete:
  "fst (ScanCompleteness decode sc) = ''complete'' \<longleftrightarrow>
   sc_Status sc = ScanStatusCompleted \<and> decode (sc_ToolsFailed sc) = Some [] \<and>
   (\<exists>selected completed. decode (sc_ToolsSelected sc) = Some selected \<and>
      decode (sc_ToolsCompleted sc) = Some completed \<and> selected \<noteq> [] \<and> completed \<noteq> [] \<and>
      (\<forall>t \<in> set selected. t \<noteq> [] \<and> t \<in> set completed))"
  by (auto simp: ScanCompleteness_def status_defs all_completed_def list_all_iff
      split: scan_status.splits option.splits)

lemma ScanCompleteness_not_pass: "fst (ScanCompleteness decode sc) \<noteq> StatusPass"
  by (auto simp: ScanCompleteness_def status_defs split: scan_status.splits option.splits)

definition clean_for :: "gate_rule \<Rightarrow> finding list \<Rightarrow> bool" where
  "clean_for r fs \<longleftrightarrow>
     list_all (\<lambda>f. \<not> baseline_unknown r f \<and>
       ((gr_Action r = ActionFail \<or> gr_Action r = ActionWarn) \<longrightarrow> \<not> matchesRule r f)) fs"

text \<open>C7: A gate passes exactly when the scan completed, all its tool lists are readable, at least one
  scanner was selected, every selected scanner is named and among the completed ones and none
  failed, and no finding matches a failing or warning rule of the policy (of the default policy, if
  it has no rules) or could match one if its baseline state were known: missing evidence never
  counts as a clean scan.\<close>

theorem gate_passes_exactly:
  "ev_Status (EvaluateScan decode p sc fs) = StatusPass \<longleftrightarrow>
     sc_Status sc = ScanStatusCompleted \<and> decode (sc_ToolsFailed sc) = Some [] \<and>
     (\<exists>selected completed. decode (sc_ToolsSelected sc) = Some selected \<and>
        decode (sc_ToolsCompleted sc) = Some completed \<and> selected \<noteq> [] \<and> completed \<noteq> [] \<and>
        (\<forall>t \<in> set selected. t \<noteq> [] \<and> t \<in> set completed)) \<and>
     (\<forall>r \<in> set (effective_rules p). gr_TestCoverage r = None \<longrightarrow> clean_for r fs)"
proof -
  have "ev_Status (EvaluateScan decode p sc fs) = StatusPass \<longleftrightarrow>
      fst (ScanCompleteness decode sc) = ''complete'' \<and> ev_Status (Evaluate p fs) = StatusPass"
    using ScanCompleteness_not_pass [of decode sc] by (auto simp: EvaluateScan_def Let_def case_prod_beta)
  moreover have "(rule_matches_count ActionFail fs r = 0 \<and> rule_matches_count ActionWarn fs r = 0 \<and>
      (gr_TestCoverage r = None \<longrightarrow> \<not> list_ex (baseline_unknown r) fs)) \<longleftrightarrow>
      (gr_TestCoverage r = None \<longrightarrow> clean_for r fs)" for r
    by (auto simp: rule_matches_count_def clean_for_def list_ex_iff list_all_iff filter_empty_conv)
  ultimately show ?thesis unfolding Evaluate_pass_iff ScanCompleteness_complete by simp
qed

section \<open>What a met coverage requirement means\<close>

lemma measure_counts:
  "fst (snd (measure_files prefix name fs (m, n, k))) = n + int (length (filter (\<lambda>f. in_prefix prefix (mf_Path f)) fs))"
  "snd (snd (measure_files prefix name fs (m, n, k))) =
     k + int (length (filter (\<lambda>f. in_prefix prefix (mf_Path f) \<and> map_of (mf_Metrics f) name \<noteq> None) fs))"
  by (induction fs arbitrary: m n k) (auto split: option.splits)

lemma length_filter_eq:
  "length (filter (\<lambda>x. P x \<and> Q x) xs) = length (filter P xs) \<longleftrightarrow> (\<forall>x \<in> set xs. P x \<longrightarrow> Q x)"
proof (induction xs)
  case (Cons x xs)
  have "length (filter (\<lambda>x. P x \<and> Q x) xs) \<le> length (filter P xs)"
    by (induction xs) auto
  then show ?case using Cons by auto
qed simp

definition scope_sum :: "coverage_requirement \<Rightarrow> measured_report option \<Rightarrow> metric" where
  "scope_sum c report =
     fst (measure_files (cr_PathPrefix c) (cr_Metric c) (files_of c report) (\<lparr>me_Covered = 0, me_Total = 0\<rparr>, 0, 0))"

definition in_scope_files :: "coverage_requirement \<Rightarrow> measured_report option \<Rightarrow> measured_file list" where
  "in_scope_files c report = filter (\<lambda>f. in_prefix (cr_PathPrefix c) (mf_Path f)) (files_of c report)"

text \<open>A requirement is met by a report of the tested commit in which every file in scope measures the
  metric and the sum over these files reaches the minimum, if there is anything to cover.\<close>

definition requirement_met :: "measured_report option \<Rightarrow> string \<Rightarrow> coverage_requirement \<Rightarrow> bool" where
  "requirement_met report commit c \<longleftrightarrow>
     (case report of
        None \<Rightarrow> False
      | Some rp \<Rightarrow>
          rp_CommitSHA rp = commit \<and> commit \<noteq> [] \<and>
          (cr_Scope c = ''changed'' \<longrightarrow> rp_Changed rp \<noteq> None) \<and>
          (cr_Scope c \<noteq> ''changed'' \<longrightarrow> in_scope_files c report \<noteq> []) \<and>
          list_all (\<lambda>f. map_of (mf_Metrics f) (cr_Metric c) \<noteq> None) (in_scope_files c report) \<and>
          (me_Total (scope_sum c report) = 0 \<or> \<not> f64_less (Percent (scope_sum c report)) (cr_Minimum c)))"

definition blocking :: "string \<Rightarrow> bool" where
  "blocking st \<longleftrightarrow> st = StatusFail \<or> st = StatusIncomplete \<or> st = StatusWarn"

lemma check_status:
  assumes "gr_Action r = ActionFail \<or> gr_Action r = ActionWarn"
  shows "\<not> blocking (cc_Status (coverage_check_of report commit r c)) \<longleftrightarrow> requirement_met report commit c"
proof (cases report)
  case None
  then show ?thesis
    by (simp add: coverage_check_of_def requirement_met_def blocking_def case_prod_beta)
next
  case (Some rp)
  let ?m = "measure_files (cr_PathPrefix c) (cr_Metric c) (files_of c report) (\<lparr>me_Covered = 0, me_Total = 0\<rparr>, 0, 0)"
  have measured: "snd (snd ?m) = fst (snd ?m) \<longleftrightarrow>
      list_all (\<lambda>f. map_of (mf_Metrics f) (cr_Metric c) \<noteq> None) (in_scope_files c report)"
    using length_filter_eq [of "\<lambda>f. in_prefix (cr_PathPrefix c) (mf_Path f)"
        "\<lambda>f. map_of (mf_Metrics f) (cr_Metric c) \<noteq> None" "files_of c report"]
    by (auto simp: measure_counts in_scope_files_def list_all_iff)
  have empty: "fst (snd ?m) = 0 \<longleftrightarrow> in_scope_files c report = []"
    by (simp add: measure_counts in_scope_files_def)
  have "cc_Status (coverage_check_of report commit r c) =
      (if rp_CommitSHA rp \<noteq> commit \<or> commit = [] \<or> (cr_Scope c = ''changed'' \<and> rp_Changed rp = None) \<or>
          snd (snd ?m) \<noteq> fst (snd ?m) \<or> (fst (snd ?m) = 0 \<and> cr_Scope c \<noteq> ''changed'')
       then StatusIncomplete
       else if me_Total (scope_sum c report) = 0 then ''not_applicable''
       else if f64_less (Percent (scope_sum c report)) (cr_Minimum c) then gr_Action r else StatusPass)"
  proof -
    obtain m n k where m: "?m = (m, n, k)" by (metis prod_cases3)
    show ?thesis
      unfolding coverage_check_of_def scope_sum_def Let_def Some option.case m [unfolded Some] prod.case fst_conv snd_conv
      by (cases "me_Total m = 0"; cases "f64_less (Percent m) (cr_Minimum c)"; auto)
  qed
  then show ?thesis
    using assms
    unfolding Some measured [unfolded Some] empty [unfolded Some] requirement_met_def option.case
    by (auto simp: blocking_def status_defs)
qed

lemma record_check_pass:
  "ev_Status (record_check check ev) = StatusPass \<longleftrightarrow>
   ev_Status ev = StatusPass \<and> \<not> blocking (cc_Status check)"
  by (auto simp: record_check_def blocking_def status_defs Let_def)

lemma apply_coverage_pass:
  assumes "list_all (\<lambda>r. check_coverage_rule r = None) rs"
  shows "ev_Status (apply_coverage_rules report commit rs ev) = StatusPass \<longleftrightarrow>
         ev_Status ev = StatusPass \<and>
         (\<forall>r \<in> set rs. \<forall>c. gr_TestCoverage r = Some c \<longrightarrow> requirement_met report commit c)"
  using assms
proof (induction rs arbitrary: ev)
  case (Cons r rs)
  show ?case
  proof (cases "gr_TestCoverage r")
    case (Some c)
    then have "gr_Action r = ActionFail \<or> gr_Action r = ActionWarn"
      using Cons.prems by (auto simp: check_coverage_rule_def split: if_splits)
    then show ?thesis using Cons Some check_status by (simp add: record_check_pass)
  qed (use Cons in simp)
qed simp

text \<open>C30: Under an accepted policy the coverage rules leave a verdict of pass exactly when it was pass
  before and every requirement is met: the report is there, belongs to the tested commit of a clean
  tree, measures the metric for every file in scope, and reaches the minimum. Missing, foreign or
  partial coverage never passes, and coverage never turns another verdict into pass.\<close>

theorem coverage_gate_exact:
  assumes "ParsePolicy decode name mode rulesJSON = Inr p"
  shows "(\<exists>ev'. coverageForGate (Inr report) sha dirty p ev = Inr ev' \<and> ev_Status ev' = StatusPass) \<longleftrightarrow>
         ev_Status ev = StatusPass \<and>
         (\<forall>r \<in> set (gp_Rules p). \<forall>c. gr_TestCoverage r = Some c \<longrightarrow>
            (dirty = [] \<or> dirty = ''clean'') \<and> requirement_met report sha c)"
proof -
  have ok: "list_all (\<lambda>r. check_coverage_rule r = None) (gp_Rules p)"
    using assms by (auto simp: ParsePolicy_def and_then_Inr list_all_iff split: option.splits if_splits)
  have no_commit: "\<not> requirement_met report [] c" for c
    by (simp add: requirement_met_def split: option.splits)
  show ?thesis
  proof (cases "list_ex (\<lambda>r. gr_TestCoverage r \<noteq> None) (gp_Rules p)")
    case True
    then obtain r c where "r \<in> set (gp_Rules p)" "gr_TestCoverage r = Some c" by (auto simp: list_ex_iff)
    then show ?thesis
      using True no_commit by (auto simp: coverageForGate_def ApplyCoverage_def apply_coverage_pass [OF ok])
  next
    case False
    then show ?thesis by (auto simp: coverageForGate_def list_ex_iff)
  qed
qed

section \<open>The theorems at concrete inputs\<close>

text \<open>A decoder of the one JSON text that the samples use.\<close>

definition sample_decode :: "string \<Rightarrow> string list option" where
  "sample_decode s =
     (if s = ''[gosec]'' then Some [''gosec''] else if s = ''[]'' then Some [] else None)"

definition sample_scan :: scan where
  "sample_scan =
     \<lparr>sc_ID = ''s'', sc_RepoID = ''r'', sc_Branch = ''main'', sc_SourceType = ''local'', sc_SourcePath = ''/src'',
      sc_PreparedWorkspace = [], sc_CommitSHA = ''abc'', sc_TreeDigest = [], sc_SourceFingerprint = [],
      sc_RemoteNodeID = None, sc_IgnorePolicyJSON = [], sc_Status = ScanStatusCompleted,
      sc_ToolsSelected = ''[gosec]'', sc_ToolsCompleted = ''[gosec]'', sc_ToolsFailed = ''[]''\<rparr>"

definition empty_policy :: gate_policy where
  "empty_policy = \<lparr>gp_Name = ''p'', gp_Mode = ''enforce'', gp_Rules = []\<rparr>"

theorem gate_passes_exactly_witness:
  "ev_Status (EvaluateScan sample_decode empty_policy sample_scan
     [(sample_finding ''1'' ''a'')\<lparr>fi_Severity := SeverityLow\<rparr>]) = StatusPass \<and>
   ev_Status (EvaluateScan sample_decode empty_policy sample_scan [sample_finding ''1'' ''a'']) = StatusFail"
proof
  let ?fs = "[(sample_finding ''1'' ''a'')\<lparr>fi_Severity := SeverityLow\<rparr>]"
  have clean: "list_all (\<lambda>r. clean_for r ?fs) (effective_rules empty_policy)" by code_simp
  have tools: "sc_Status sample_scan = ScanStatusCompleted" "sample_decode (sc_ToolsFailed sample_scan) = Some []"
    "sample_decode (sc_ToolsSelected sample_scan) = Some [''gosec'']"
    "sample_decode (sc_ToolsCompleted sample_scan) = Some [''gosec'']"
    by (simp_all add: sample_scan_def sample_decode_def)
  show "ev_Status (EvaluateScan sample_decode empty_policy sample_scan ?fs) = StatusPass"
    using clean by (subst gate_passes_exactly) (simp add: tools list_all_iff)
  show "ev_Status (EvaluateScan sample_decode empty_policy sample_scan [sample_finding ''1'' ''a'']) = StatusFail"
    by code_simp
qed

definition coverage_rule :: gate_rule where
  "coverage_rule =
     \<lparr>gr_ID = ''tests'', gr_Severity = [], gr_Category = [], gr_FineCategory = [], gr_BaselineState = [],
      gr_ConfidenceMin = [], gr_Suppressed = None, gr_Action = ActionFail,
      gr_TestCoverage = Some \<lparr>cr_Metric = ''lines'', cr_Minimum = Fin 80, cr_Scope = [], cr_PathPrefix = ''pkg''\<rparr>\<rparr>"

definition sample_report :: measured_report where
  "sample_report =
     \<lparr>rp_CommitSHA = ''abc'',
      rp_Files = [\<lparr>mf_Path = ''pkg/a.go'', mf_Metrics = [(''lines'', \<lparr>me_Covered = 9, me_Total = 10\<rparr>)]\<rparr>,
                  \<lparr>mf_Path = ''cmd/b.go'', mf_Metrics = []\<rparr>],
      rp_Changed = None\<rparr>"

text \<open>Nine of ten lines under \<open>pkg\<close> reach the eighty percent on a clean tree, and not on a dirty one.\<close>

theorem coverage_gate_exact_witness:
  "(\<exists>ev'. coverageForGate (Inr (Some sample_report) :: unit + _) ''abc'' ''clean''
        \<lparr>gp_Name = ''p'', gp_Mode = ''warn'', gp_Rules = [coverage_rule]\<rparr> (Evaluate empty_policy []) = Inr ev' \<and>
      ev_Status ev' = StatusPass) \<and>
   \<not> (\<exists>ev'. coverageForGate (Inr (Some sample_report) :: unit + _) ''abc'' ''dirty''
        \<lparr>gp_Name = ''p'', gp_Mode = ''warn'', gp_Rules = [coverage_rule]\<rparr> (Evaluate empty_policy []) = Inr ev' \<and>
      ev_Status ev' = StatusPass)"
proof -
  let ?p = "\<lparr>gp_Name = ''p'', gp_Mode = ''warn'', gp_Rules = [coverage_rule]\<rparr>"
  have p: "ParsePolicy (\<lambda>s. Some [coverage_rule]) ''p'' ''warn'' ''[..]'' = Inr ?p" by code_simp
  have met: "requirement_met (Some sample_report) ''abc''
      \<lparr>cr_Metric = ''lines'', cr_Minimum = Fin 80, cr_Scope = [], cr_PathPrefix = ''pkg''\<rparr>"
    by code_simp
  have pass: "ev_Status (Evaluate empty_policy []) = StatusPass" by code_simp
  show ?thesis
    unfolding coverage_gate_exact [OF p]
    using met pass by (simp add: coverage_rule_def)
qed

text \<open>A finding rule without an id, or with a misspelled action, is accepted and lets a critical finding pass.\<close>

definition critical_rule :: "string \<Rightarrow> string \<Rightarrow> gate_rule" where
  "critical_rule i action = gate_rule_of i [SeverityCritical] [] [] action"

lemma inert_rules_pass:
  assumes "(i, action) \<in> {([], ActionFail), (''no-critical'', ''failed'')}"
  shows "ParsePolicy (\<lambda>s. Some [critical_rule i action]) ''p'' ''enforce'' ''[..]'' =
           Inr \<lparr>gp_Name = ''p'', gp_Mode = ''enforce'', gp_Rules = [critical_rule i action]\<rparr> \<and>
         ev_Status (EvaluateScan sample_decode
           \<lparr>gp_Name = ''p'', gp_Mode = ''enforce'', gp_Rules = [critical_rule i action]\<rparr> sample_scan
           [(sample_finding ''1'' ''a'')\<lparr>fi_Severity := SeverityCritical\<rparr>]) = StatusPass"
proof -
  have "?thesis" if "i = []" "action = ActionFail"
    unfolding that by code_simp
  moreover have "?thesis" if "i = ''no-critical''" "action = ''failed''"
    unfolding that by code_simp
  ultimately show ?thesis using assms by blast
qed

end
