(* ===== verification/Baselines.thy ===== *)
theory Baselines
  imports FindingDiff
begin

text \<open>
  Baselines of scans (\<open>internal/db/scan_baselines.go\<close>, \<open>internal/db/finding_baselines.go\<close>): which scans
  can be a baseline, named baselines, and the classification of a scan's findings as new, existing or
  resurfaced against the history of its branch, as one transaction on the tables.

  A transaction either returns an error and leaves the tables as they were, or commits. The row that
  its first statement read, before the locks were taken, is an argument: another session may have
  changed the scan in between. The columns \<open>updated_at\<close> and the error values of the database are left
  out; \<open>ORDER BY id\<close> is the bytewise order. The JSON decoder of the tool lists is a parameter.
\<close>

section \<open>Tables\<close>

record base_scan =
  bs_ID :: string
  bs_RepoID :: string
  bs_UserID :: string
  bs_Branch :: string
  bs_SourceType :: string
  bs_RemoteNodeID :: "string option"
  bs_SourcePath :: string
  bs_Status :: scan_status
  bs_ToolsSelected :: string
  bs_ToolsCompleted :: string
  bs_ToolsFailed :: string
  bs_CompletedAt :: "go_time option"
  bs_CancelRequestedAt :: "go_time option"
  bs_FailureCode :: string
  bs_LeaseToken :: string
  bs_BaselineScanID :: string
  bs_BaselineResolvedAt :: "go_time option"
  bs_FindingsRevision :: int

record observed =
  ob_Finding :: finding
  ob_ClusterID :: string
  ob_BaselineIdentityKey :: string
  ob_FirstSeenAt :: "go_time option"
  ob_LastSeenAt :: "go_time option"
  ob_IntroducedInScanID :: string
  ob_ResolvedInScanID :: string

abbreviation ob_ID :: "observed \<Rightarrow> string" where
  "ob_ID r \<equiv> fi_ID (ob_Finding r)"

abbreviation ob_ScanID :: "observed \<Rightarrow> string" where
  "ob_ScanID r \<equiv> fi_ScanID (ob_Finding r)"

record baseline_row =
  bl_ID :: string
  bl_RepoID :: string
  bl_Branch :: string
  bl_Name :: string
  bl_ScanID :: string
  bl_Strategy :: string
  bl_CreatedBy :: string

text \<open>\<open>bd_Repos\<close> holds the repositories with their owners.\<close>

record baseline_db =
  bd_Repos :: "(string \<times> string) list"
  bd_Scans :: "base_scan list"
  bd_Findings :: "observed list"
  bd_Baselines :: "baseline_row list"

datatype baseline_error =
    ObservationTimeRequired | BaselineNoRows | StaleFindings | StaleScanLease | SavedBaselineUnusable
  | EvidenceCrossesRepo | ClusterPrimaryMissing | InvalidBaseline | BaselineExists

section \<open>Baselines\<close>

text \<open>A column of tools: empty is no tool, otherwise a JSON list.\<close>

definition tool_column :: "(string \<Rightarrow> string list option) \<Rightarrow> string \<Rightarrow> string list option" where
  "tool_column decode raw = (if raw = [] then Some [] else decode raw)"

definition validBaselineScan :: "(string \<Rightarrow> string list option) \<Rightarrow> base_scan \<Rightarrow> bool" where
  "validBaselineScan decode s =
     (if bs_Status s \<noteq> ScanStatusCompleted \<or> bs_CompletedAt s = None \<or> bs_CancelRequestedAt s \<noteq> None \<or>
         bs_FailureCode s \<noteq> [] then False
      else case (tool_column decode (bs_ToolsSelected s), tool_column decode (bs_ToolsCompleted s),
                 tool_column decode (bs_ToolsFailed s)) of
             (Some selected, Some completed, Some failed) \<Rightarrow>
               if completed = [] \<or> failed \<noteq> [] then False
               else list_all (contains_elem completed) selected
           | _ \<Rightarrow> False)"

definition createScanBaseline ::
  "(string \<Rightarrow> string list option) \<Rightarrow> baseline_row \<Rightarrow> baseline_db \<Rightarrow> baseline_error + baseline_db" where
  "createScanBaseline decode b db =
     (case map_of (bd_Repos db) (bl_RepoID b) of
        None \<Rightarrow> Inl BaselineNoRows
      | Some owner \<Rightarrow>
          case find (\<lambda>s. bs_ID s = bl_ScanID b \<and> bs_RepoID s = bl_RepoID b) (bd_Scans db) of
            None \<Rightarrow> Inl BaselineNoRows
          | Some s \<Rightarrow>
              if \<not> validBaselineScan decode s \<or> bs_Branch s \<noteq> bl_Branch b \<or> bs_UserID s \<noteq> owner \<or>
                 (bl_CreatedBy b \<noteq> [] \<and> bl_CreatedBy b \<noteq> owner)
              then Inl InvalidBaseline
              else if list_ex (\<lambda>r. bl_ID r = bl_ID b \<or> (bl_RepoID r = bl_RepoID b \<and>
                        bl_Branch r = bl_Branch b \<and> bl_Name r = bl_Name b)) (bd_Baselines db)
              then Inl BaselineExists
              else Inr (db\<lparr>bd_Baselines := bd_Baselines db @
                     [b\<lparr>bl_Strategy := (if bl_Strategy b = [] then ''named'' else bl_Strategy b)\<rparr>]\<rparr>))"

definition source_kind :: "base_scan \<Rightarrow> string" where
  "source_kind s = (if bs_SourceType s = [] then ''local'' else bs_SourceType s)"

definition remote_node :: "base_scan \<Rightarrow> string" where
  "remote_node s = (case bs_RemoteNodeID s of None \<Rightarrow> [] | Some n \<Rightarrow> n)"

definition baselineSourceCompatible :: "base_scan \<Rightarrow> base_scan \<Rightarrow> bool" where
  "baselineSourceCompatible a b =
     (if source_kind a \<noteq> source_kind b then False
      else if source_kind a \<noteq> ''ssh'' then True
      else remote_node a = remote_node b \<and> bs_SourcePath a = bs_SourcePath b)"

section \<open>The scans that take part\<close>

definition completed_before :: "go_time \<Rightarrow> base_scan \<Rightarrow> bool" where
  "completed_before t s = (case bs_CompletedAt s of None \<Rightarrow> False | Some c \<Rightarrow> c < t)"

text \<open>The cutoff of each branch, the zero time if no target is on it, and how many targets were found.\<close>

fun branch_cutoffs ::
  "(string \<times> go_time) list \<Rightarrow> base_scan list \<Rightarrow> (string \<times> go_time) list \<times> nat
     \<Rightarrow> (string \<times> go_time) list \<times> nat" where
  "branch_cutoffs targets [] st = st"
| "branch_cutoffs targets (s # ss) (cutoffs, found) =
     (case map_of targets (bs_ID s) of
        None \<Rightarrow> branch_cutoffs targets ss (cutoffs, found)
      | Some t0 \<Rightarrow>
          let t = (case bs_BaselineResolvedAt s of None \<Rightarrow> t0 | Some r \<Rightarrow> r);
              old = (case map_of cutoffs (bs_Branch s) of None \<Rightarrow> 0 | Some c \<Rightarrow> c)
          in branch_cutoffs targets ss
               (if old < t then (bs_Branch s, t) # cutoffs else cutoffs, Suc found))"

definition lockBaselineScans ::
  "baseline_db \<Rightarrow> string \<Rightarrow> (string \<times> go_time) list \<Rightarrow> baseline_error + base_scan list" where
  "lockBaselineScans db repoID targets =
     (let scans = sort_key bs_ID (filter (\<lambda>s. bs_RepoID s = repoID) (bd_Scans db));
          (cutoffs, found) = branch_cutoffs targets scans ([], 0)
      in if found \<noteq> length targets then Inl BaselineNoRows
         else Inr (filter (\<lambda>s. map_of targets (bs_ID s) \<noteq> None \<or>
                 (bs_Status s = ScanStatusCompleted \<and>
                  completed_before (case map_of cutoffs (bs_Branch s) of None \<Rightarrow> 0 | Some c \<Rightarrow> c) s)) scans))"

definition prior_scans ::
  "(string \<Rightarrow> string list option) \<Rightarrow> base_scan \<Rightarrow> base_scan list \<Rightarrow> go_time \<Rightarrow> base_scan list" where
  "prior_scans decode current scans t =
     filter (\<lambda>s. bs_ID s \<noteq> bs_ID current \<and> validBaselineScan decode s \<and> completed_before t s \<and>
                 bs_Branch s = bs_Branch current \<and> baselineSourceCompatible s current) scans"

definition completed_at :: "base_scan \<Rightarrow> go_time" where
  "completed_at s = (case bs_CompletedAt s of None \<Rightarrow> 0 | Some c \<Rightarrow> c)"

text \<open>The latest of the prior scans, the smaller identifier where two completed at the same time.\<close>

fun pick_latest :: "base_scan option \<Rightarrow> base_scan list \<Rightarrow> base_scan option" where
  "pick_latest latest [] = latest"
| "pick_latest latest (s # ss) =
     pick_latest
       (case latest of
          None \<Rightarrow> Some s
        | Some l \<Rightarrow>
            if completed_at l < completed_at s \<or> (completed_at s = completed_at l \<and> bs_ID s < bs_ID l)
            then Some s else Some l) ss"

definition latest_id :: "base_scan option \<Rightarrow> string" where
  "latest_id latest = (case latest of None \<Rightarrow> [] | Some l \<Rightarrow> bs_ID l)"

text \<open>The baseline: the one resolved earlier, else the saved automatic one, else the latest prior scan.\<close>

definition choose_baseline ::
  "baseline_db \<Rightarrow> base_scan \<Rightarrow> base_scan list \<Rightarrow> base_scan option \<Rightarrow> baseline_error + string" where
  "choose_baseline db current prior latest =
     (let auto = find (\<lambda>r. bl_RepoID r = bs_RepoID current \<and> bl_Branch r = bs_Branch current \<and>
                           bl_Name r = ''auto'') (bd_Baselines db);
          (baselineID, savedAuto) =
            (if bs_BaselineResolvedAt current \<noteq> None then (bs_BaselineScanID current, False)
             else case auto of
                    Some r \<Rightarrow> (bl_ScanID r, True)
                  | None \<Rightarrow> (latest_id latest, False))
      in if baselineID \<noteq> [] \<and> baselineID \<noteq> bs_ID current \<and> \<not> contains_elem (map bs_ID prior) baselineID
         then (if \<not> savedAuto then Inl SavedBaselineUnusable else Inr (latest_id latest))
         else Inr baselineID)"

section \<open>Evidence and history\<close>

definition is_primary :: "observed \<Rightarrow> bool" where
  "is_primary r \<longleftrightarrow> ob_ClusterID r = [] \<or> ob_ClusterID r = ob_ID r"

definition primary_id :: "observed \<Rightarrow> string" where
  "primary_id r = (if ob_ClusterID r = [] then ob_ID r else ob_ClusterID r)"

text \<open>The history query reads no other column that takes part in the key.\<close>

definition blank_finding :: finding where
  "blank_finding =
     \<lparr>fi_ID = [], fi_ScanID = [], fi_RepoID = [], fi_Fingerprint = [], fi_StableFingerprint = [],
      fi_LocationFingerprint = [], fi_SemanticFingerprint = [], fi_EvidenceFingerprint = [],
      fi_IdentityVersion = 0, fi_ToolName = [], fi_Category = CategoryOther [],
      fi_Severity = SeverityOther [], fi_Title = [], fi_Description = [], fi_FilePath = [],
      fi_LineStart = 0, fi_LineEnd = 0, fi_CodeSnippet = [], fi_CWEID = [], fi_RuleID = [],
      fi_PackageName = [], fi_PackageVersion = [], fi_PackageEcosystem = [], fi_PackageURL = [],
      fi_AdvisoryID = [], fi_ModuleName = [], fi_FunctionName = [], fi_SymbolKind = [],
      fi_Status = StatusOther [], fi_FineCategory = [], fi_Confidence = [], fi_Suppressed = False,
      fi_SuppressionID = [], fi_SuppressedReason = [], fi_BaselineState = []\<rparr>"

definition history_key :: "sha_fn \<Rightarrow> observed \<Rightarrow> string" where
  "history_key sha r =
     Key sha (blank_finding\<lparr>fi_StableFingerprint := fi_StableFingerprint (ob_Finding r),
                            fi_Fingerprint := fi_Fingerprint (ob_Finding r)\<rparr>)"

record history =
  hi_First :: "string \<rightharpoonup> string \<times> go_time"
  hi_InBaseline :: "string list"
  hi_InLatest :: "string list"

text \<open>Where and when an observation says it was first seen.\<close>

definition introduction_of :: "string \<Rightarrow> go_time \<Rightarrow> observed \<Rightarrow> string \<times> go_time" where
  "introduction_of key completed r =
     (case ob_FirstSeenAt r of
        None \<Rightarrow> (ob_ScanID r, completed)
      | Some t \<Rightarrow>
          if ob_BaselineIdentityKey r = key \<and> t < completed
          then (if ob_IntroducedInScanID r \<noteq> [] then ob_IntroducedInScanID r else ob_ScanID r, t)
          else (ob_ScanID r, completed))"

definition earlier :: "string \<times> go_time \<Rightarrow> string \<times> go_time \<Rightarrow> bool" where
  "earlier a b \<longleftrightarrow> snd a < snd b \<or> (snd a = snd b \<and> fst a < fst b)"

definition history_step ::
  "sha_fn \<Rightarrow> base_scan list \<Rightarrow> string list \<Rightarrow> string \<Rightarrow> base_scan option \<Rightarrow> observed \<Rightarrow> history \<Rightarrow> history" where
  "history_step sha prior keys baselineID latest r h =
     (let key = history_key sha r in
      case find (\<lambda>s. bs_ID s = ob_ScanID r) prior of
        None \<Rightarrow> h
      | Some s \<Rightarrow>
          if \<not> contains_elem keys key then h
          else
            let intro = introduction_of key (completed_at s) r in
            \<lparr>hi_First = (case hi_First h key of
                 None \<Rightarrow> (hi_First h)(key \<mapsto> intro)
               | Some old \<Rightarrow> if earlier intro old then (hi_First h)(key \<mapsto> intro) else hi_First h),
             hi_InBaseline = (if ob_ScanID r = baselineID then key # hi_InBaseline h else hi_InBaseline h),
             hi_InLatest = (if latest \<noteq> None \<and> ob_ScanID r = latest_id latest
                            then key # hi_InLatest h else hi_InLatest h)\<rparr>)"

text \<open>The rows of the history query, joined with their scans.\<close>

definition history_rows :: "baseline_db \<Rightarrow> base_scan \<Rightarrow> go_time \<Rightarrow> observed list" where
  "history_rows db current t =
     filter (\<lambda>r. list_ex (\<lambda>s. bs_ID s = ob_ScanID r \<and> bs_RepoID s = bs_RepoID current \<and>
                    bs_Branch s = bs_Branch current \<and> bs_Status s = ScanStatusCompleted \<and>
                    completed_before t s) (bd_Scans db)) (bd_Findings db)"

definition read_history ::
  "sha_fn \<Rightarrow> base_scan list \<Rightarrow> string list \<Rightarrow> string \<Rightarrow> base_scan option \<Rightarrow> observed list \<Rightarrow> history" where
  "read_history sha prior keys baselineID latest rows =
     fold (history_step sha prior keys baselineID latest) rows
       \<lparr>hi_First = Map.empty, hi_InBaseline = [], hi_InLatest = []\<rparr>"

section \<open>Classification\<close>

record verdict =
  ve_Key :: string
  ve_State :: string
  ve_Introduced :: string
  ve_FirstSeen :: go_time

definition classify ::
  "sha_fn \<Rightarrow> history \<Rightarrow> string \<Rightarrow> string \<Rightarrow> go_time \<Rightarrow> observed \<Rightarrow> verdict" where
  "classify sha h baselineID scanID t primary =
     (let key = Key sha (ob_Finding primary);
          observed = hi_First h key;
          st = (if observed \<noteq> None \<and> \<not> contains_elem (hi_InLatest h) key then StateResurfaced
                else if contains_elem (hi_InBaseline h) key \<or> baselineID = scanID then StateExisting
                else StateNew);
          intro = (case observed of None \<Rightarrow> (scanID, t) | Some x \<Rightarrow> x);
          own = (case ob_FirstSeenAt primary of
                   None \<Rightarrow> intro
                 | Some first \<Rightarrow>
                     if ob_BaselineIdentityKey primary = key \<and> first < snd intro \<and>
                        ob_IntroducedInScanID primary \<noteq> []
                     then (ob_IntroducedInScanID primary, first) else intro)
      in \<lparr>ve_Key = key, ve_State = st, ve_Introduced = fst own, ve_FirstSeen = snd own\<rparr>)"

definition row_is_current :: "verdict \<Rightarrow> go_time \<Rightarrow> observed \<Rightarrow> bool" where
  "row_is_current v t r \<longleftrightarrow>
     ob_BaselineIdentityKey r = ve_Key v \<and> fi_BaselineState (ob_Finding r) = ve_State v \<and>
     ob_IntroducedInScanID r = ve_Introduced v \<and> ob_ResolvedInScanID r = [] \<and>
     ob_FirstSeenAt r = Some (ve_FirstSeen v) \<and> ob_LastSeenAt r = Some t"

definition stamp :: "verdict \<Rightarrow> go_time \<Rightarrow> observed \<Rightarrow> observed" where
  "stamp v t r =
     r\<lparr>ob_Finding := set_state (ve_State v) (ob_Finding r), ob_BaselineIdentityKey := ve_Key v,
       ob_IntroducedInScanID := ve_Introduced v, ob_ResolvedInScanID := [],
       ob_FirstSeenAt := Some (ve_FirstSeen v), ob_LastSeenAt := Some t\<rparr>"

text \<open>The loop over the evidence: the table and whether a row changed.\<close>

fun classify_loop ::
  "(observed \<Rightarrow> verdict) \<Rightarrow> go_time \<Rightarrow> observed list \<Rightarrow> observed list \<Rightarrow> observed list \<times> bool
     \<Rightarrow> baseline_error + observed list \<times> bool" where
  "classify_loop verdict_of t primaries [] st = Inr st"
| "classify_loop verdict_of t primaries (r # rs) (table, changed) =
     (case first_by ob_ID primaries (primary_id r) of
        None \<Rightarrow> Inl ClusterPrimaryMissing
      | Some p \<Rightarrow>
          let v = verdict_of p in
          if row_is_current v t r then classify_loop verdict_of t primaries rs (table, changed)
          else classify_loop verdict_of t primaries rs
                 (update_where (\<lambda>x. ob_ID x = ob_ID r) (stamp v t) table, True))"

definition deriveFindingBaseline ::
  "sha_fn \<Rightarrow> (string \<Rightarrow> string list option) \<Rightarrow> baseline_db \<Rightarrow> base_scan \<Rightarrow> base_scan list \<Rightarrow> go_time
     \<Rightarrow> baseline_error + bool \<times> baseline_db" where
  "deriveFindingBaseline sha decode db current scans t =
     (let prior = prior_scans decode current scans t;
          latest = pick_latest None prior
      in and_then (choose_baseline db current prior latest) (\<lambda>baselineID.
        let evidence = sort_key ob_ID (filter (\<lambda>r. ob_ScanID r = bs_ID current) (bd_Findings db)) in
        if list_ex (\<lambda>r. fi_RepoID (ob_Finding r) \<noteq> bs_RepoID current) evidence then Inl EvidenceCrossesRepo
        else
          let primaries = filter is_primary evidence;
              keys = map (\<lambda>r. Key sha (ob_Finding r)) primaries;
              h = read_history sha prior keys baselineID latest (history_rows db current t)
          in and_then (classify_loop (classify sha h baselineID (bs_ID current) t) t primaries evidence
                        (bd_Findings db, bs_BaselineResolvedAt current = None))
               (\<lambda>(table, changed).
                 Inr (changed,
                   if changed
                   then db\<lparr>bd_Findings := table,
                           bd_Scans := update_where (\<lambda>s. bs_ID s = bs_ID current)
                             (\<lambda>s. s\<lparr>bs_BaselineScanID := baselineID, bs_BaselineResolvedAt := Some t\<rparr>)
                             (bd_Scans db)\<rparr>
                   else db\<lparr>bd_Findings := table\<rparr>))))"

definition advanceFindingsRevision :: "string \<Rightarrow> baseline_db \<Rightarrow> baseline_error + baseline_db" where
  "advanceFindingsRevision scanID db =
     (if list_ex (\<lambda>s. bs_ID s = scanID) (bd_Scans db)
      then Inr (db\<lparr>bd_Scans := update_where (\<lambda>s. bs_ID s = scanID)
                     (\<lambda>s. s\<lparr>bs_FindingsRevision := bs_FindingsRevision s + 1\<rparr>) (bd_Scans db)\<rparr>)
      else Inl BaselineNoRows)"

text \<open>\<open>read\<close> is the row of the scan as the first statement saw it.\<close>

definition persistFindingBaseline ::
  "sha_fn \<Rightarrow> (string \<Rightarrow> string list option) \<Rightarrow> base_scan option \<Rightarrow> baseline_db \<Rightarrow> string \<Rightarrow> string \<Rightarrow> go_time
     \<Rightarrow> baseline_error + baseline_db" where
  "persistFindingBaseline sha decode read db scanID leaseToken t0 =
     (if is_zero_time t0 then Inl ObservationTimeRequired
      else case read of
        None \<Rightarrow> Inl BaselineNoRows
      | Some before \<Rightarrow>
        if map_of (bd_Repos db) (bs_RepoID before) = None then Inl BaselineNoRows
        else and_then (lockBaselineScans db (bs_RepoID before) [(scanID, t0)]) (\<lambda>scans.
          let current = (case find (\<lambda>s. bs_ID s = scanID) scans of None \<Rightarrow> before | Some s \<Rightarrow> s) in
          if bs_RepoID current \<noteq> bs_RepoID before \<or> bs_Branch current \<noteq> bs_Branch before
          then Inl StaleFindings
          else if bs_CancelRequestedAt current \<noteq> None \<or> bs_LeaseToken current \<noteq> leaseToken \<or>
                  (bs_Status current = ScanStatusCompleted \<and> bs_FailureCode current \<noteq> []) \<or>
                  (bs_Status current \<noteq> ScanStatusRunning \<and>
                   \<not> (bs_Status current = ScanStatusCompleted \<and> leaseToken = []))
          then Inl StaleScanLease
          else
            let t = (case bs_BaselineResolvedAt current of None \<Rightarrow> t0 | Some r \<Rightarrow> r) in
            and_then (deriveFindingBaseline sha decode db current scans t) (\<lambda>(changed, db').
              if changed then advanceFindingsRevision scanID db' else Inr db')))"

section \<open>The classification loop\<close>

lemma row_is_current_stamp: "row_is_current v t r \<longleftrightarrow> stamp v t r = r"
proof
  assume "row_is_current v t r"
  then show "stamp v t r = r" by (simp add: row_is_current_def stamp_def set_state_def)
next
  assume "stamp v t r = r"
  then have "row_is_current v t (stamp v t r) \<longleftrightarrow> row_is_current v t r" by simp
  moreover have "row_is_current v t (stamp v t r)"
    by (simp add: row_is_current_def stamp_def set_state_def)
  ultimately show "row_is_current v t r" by simp
qed

lemma stamp_fields [simp]:
  "ob_ID (stamp v t r) = ob_ID r" "ob_ScanID (stamp v t r) = ob_ScanID r"
  "fi_RepoID (ob_Finding (stamp v t r)) = fi_RepoID (ob_Finding r)"
  "ob_ClusterID (stamp v t r) = ob_ClusterID r"
  "Key sha (ob_Finding (stamp v t r)) = Key sha (ob_Finding r)"
  "is_primary (stamp v t r) = is_primary r" "primary_id (stamp v t r) = primary_id r"
  by (simp_all add: stamp_def is_primary_def primary_id_def) (simp_all add: set_state_def)

lemma stamp_stamp [simp]: "stamp v t (stamp v t r) = stamp v t r"
  by (simp add: stamp_def set_state_def)

lemma is_primary_id: "is_primary r \<Longrightarrow> primary_id r = ob_ID r"
  by (auto simp: is_primary_def primary_id_def)

text \<open>The verdict that the loop gives to the row with this identifier.\<close>

definition verdict_at :: "(observed \<Rightarrow> verdict) \<Rightarrow> observed list \<Rightarrow> observed list \<Rightarrow> observed \<Rightarrow> verdict option" where
  "verdict_at verdict_of primaries evidence x =
     (case first_by ob_ID evidence (ob_ID x) of
        None \<Rightarrow> None
      | Some r \<Rightarrow> map_option verdict_of (first_by ob_ID primaries (primary_id r)))"

definition restamp :: "(observed \<Rightarrow> verdict option) \<Rightarrow> go_time \<Rightarrow> observed \<Rightarrow> observed" where
  "restamp vs t r = (case vs r of None \<Rightarrow> r | Some v \<Rightarrow> stamp v t r)"

lemma restamp_fields [simp]:
  "ob_ID (restamp vs t r) = ob_ID r" "ob_ScanID (restamp vs t r) = ob_ScanID r"
  "fi_RepoID (ob_Finding (restamp vs t r)) = fi_RepoID (ob_Finding r)"
  "Key sha (ob_Finding (restamp vs t r)) = Key sha (ob_Finding r)"
  "is_primary (restamp vs t r) = is_primary r" "primary_id (restamp vs t r) = primary_id r"
  by (simp_all add: restamp_def split: option.split)

lemma verdict_at_Cons:
  "verdict_at verdict_of primaries (r # rs) x =
     (if ob_ID r = ob_ID x then map_option verdict_of (first_by ob_ID primaries (primary_id r))
      else verdict_at verdict_of primaries rs x)"
  by (simp add: verdict_at_def)

lemma verdict_at_restamp [simp]:
  "verdict_at verdict_of primaries rs (stamp v t x) = verdict_at verdict_of primaries rs x"
  by (simp add: verdict_at_def)

lemma classify_loop_table:
  assumes "classify_loop verdict_of t primaries rs (table, c0) = Inr (table', c)"
    and "distinct (map ob_ID rs)" "\<forall>r \<in> set rs. \<forall>x \<in> set table. ob_ID x = ob_ID r \<longrightarrow> x = r"
  shows "table' = map (restamp (verdict_at verdict_of primaries rs) t) table \<and>
         (\<not> c \<longrightarrow> \<not> c0 \<and> table' = table)"
  using assms
proof (induction rs arbitrary: table c0)
  case Nil
  have "restamp (verdict_at verdict_of primaries []) t = (\<lambda>r. r)"
    by (simp add: restamp_def verdict_at_def fun_eq_iff)
  then show ?case using Nil by simp
next
  case (Cons r rs)
  then obtain p where p: "first_by ob_ID primaries (primary_id r) = Some p"
    by (auto split: option.splits)
  let ?v = "verdict_of p"
  let ?table = "update_where (\<lambda>x. ob_ID x = ob_ID r) (stamp ?v t) table"
  have ids: "ob_ID r \<notin> ob_ID ` set rs" "distinct (map ob_ID rs)" using Cons.prems(2) by auto
  have rest: "\<forall>q \<in> set rs. \<forall>x \<in> set ?table. ob_ID x = ob_ID q \<longrightarrow> x = q"
    using Cons.prems(3) ids(1) by (force simp: set_update_where)
  have same: "?table = table" if "row_is_current ?v t r"
  proof -
    have "stamp ?v t r = r" using that by (simp add: row_is_current_stamp)
    then have "(if ob_ID x = ob_ID r then stamp ?v t x else x) = x" if "x \<in> set table" for x
      using that Cons.prems(3) by (metis list.set_intros(1))
    then show ?thesis unfolding update_where_def by (rule map_idI)
  qed
  obtain c1 where run: "classify_loop verdict_of t primaries rs (?table, c1) = Inr (table', c)"
    and c1: "c1 \<longleftrightarrow> c0 \<or> \<not> row_is_current ?v t r"
    using Cons.prems(1) p same by (auto simp: Let_def split: if_splits)
  have IH: "table' = map (restamp (verdict_at verdict_of primaries rs) t) ?table \<and>
      (\<not> c \<longrightarrow> \<not> c1 \<and> table' = ?table)"
    using Cons.IH [OF run ids(2) rest] .
  have none: "verdict_at verdict_of primaries rs x = None" if "ob_ID x = ob_ID r" for x
  proof -
    have "first_by ob_ID rs (ob_ID x) = None" using that ids(1) by (simp add: first_by_None)
    then show ?thesis by (simp add: verdict_at_def)
  qed
  have "map (restamp (verdict_at verdict_of primaries rs) t) ?table =
      map (restamp (verdict_at verdict_of primaries (r # rs)) t) table"
    using none p by (auto simp: update_where_def restamp_def verdict_at_Cons)
  then show ?case using IH c1 same by auto
qed

lemma classify_loop_current:
  assumes "\<And>r. r \<in> set rs \<Longrightarrow> \<exists>p. first_by ob_ID primaries (primary_id r) = Some p \<and>
      row_is_current (verdict_of p) t r"
  shows "classify_loop verdict_of t primaries rs st = Inr st"
  using assms
proof (induction rs)
  case (Cons r rs)
  obtain p where "first_by ob_ID primaries (primary_id r) = Some p" "row_is_current (verdict_of p) t r"
    using Cons.prems by force
  then show ?case using Cons by (cases st) simp
qed simp

text \<open>A primary that carries its verdict is given the same verdict again.\<close>

lemma classify_stamp:
  "classify sha h b i t (stamp (classify sha h b i t p) t' p) = classify sha h b i t p"
  by (simp add: classify_def Let_def) (auto simp: stamp_def split: option.splits)

section \<open>Publishing twice\<close>

lemma insort_key_map_same:
  "(\<And>x. k (f x) = k x) \<Longrightarrow> insort_key k (f x) (map f xs) = map f (insort_key k x xs)"
  by (induction xs) auto

lemma sort_key_map_same: "(\<And>x. k (f x) = k x) \<Longrightarrow> sort_key k (map f xs) = map f (sort_key k xs)"
  by (induction xs) (simp_all add: insort_key_map_same)

lemma filter_map_same: "(\<And>x. P (f x) = Q x) \<Longrightarrow> filter P (map f xs) = map f (filter Q xs)"
  by (induction xs) auto

lemma first_by_map_same:
  "(\<And>x. key (f x) = key x) \<Longrightarrow> first_by key (map f xs) k = map_option f (first_by key xs k)"
  by (induction xs) auto

text \<open>The scan that was published, with its baseline, its observation time and its revision.\<close>

definition pinned :: "string \<Rightarrow> string \<Rightarrow> go_time \<Rightarrow> int \<Rightarrow> base_scan \<Rightarrow> base_scan" where
  "pinned i b t n s =
     (if bs_ID s = i
      then s\<lparr>bs_BaselineScanID := b, bs_BaselineResolvedAt := Some t,
             bs_FindingsRevision := bs_FindingsRevision s + n\<rparr>
      else s)"

lemma pinned_fields [simp]:
  "bs_ID (pinned i b t n s) = bs_ID s" "bs_RepoID (pinned i b t n s) = bs_RepoID s"
  "bs_Branch (pinned i b t n s) = bs_Branch s" "bs_Status (pinned i b t n s) = bs_Status s"
  "bs_CompletedAt (pinned i b t n s) = bs_CompletedAt s"
  "bs_CancelRequestedAt (pinned i b t n s) = bs_CancelRequestedAt s"
  "bs_FailureCode (pinned i b t n s) = bs_FailureCode s"
  "bs_LeaseToken (pinned i b t n s) = bs_LeaseToken s"
  "bs_SourceType (pinned i b t n s) = bs_SourceType s"
  "bs_RemoteNodeID (pinned i b t n s) = bs_RemoteNodeID s"
  "bs_SourcePath (pinned i b t n s) = bs_SourcePath s"
  "bs_ToolsSelected (pinned i b t n s) = bs_ToolsSelected s"
  "bs_ToolsCompleted (pinned i b t n s) = bs_ToolsCompleted s"
  "bs_ToolsFailed (pinned i b t n s) = bs_ToolsFailed s"
  by (simp_all add: pinned_def)

lemma pinned_checks [simp]:
  "completed_before u (pinned i b t n s) = completed_before u s"
  "validBaselineScan decode (pinned i b t n s) = validBaselineScan decode s"
  "baselineSourceCompatible (pinned i b t n s) s' = baselineSourceCompatible s s'"
  "baselineSourceCompatible s' (pinned i b t n s) = baselineSourceCompatible s' s"
  by (simp_all only: completed_before_def validBaselineScan_def baselineSourceCompatible_def
      source_kind_def remote_node_def pinned_fields)

lemma pinned_other: "bs_ID s \<noteq> i \<Longrightarrow> pinned i b t n s = s"
  by (simp add: pinned_def)

definition evidence_of :: "baseline_db \<Rightarrow> base_scan \<Rightarrow> observed list" where
  "evidence_of db cur = sort_key ob_ID (filter (\<lambda>r. ob_ScanID r = bs_ID cur) (bd_Findings db))"

definition verdicts_of ::
  "sha_fn \<Rightarrow> (string \<Rightarrow> string list option) \<Rightarrow> baseline_db \<Rightarrow> base_scan \<Rightarrow> base_scan list \<Rightarrow> go_time \<Rightarrow> string
     \<Rightarrow> observed \<Rightarrow> verdict" where
  "verdicts_of sha decode db cur scans t b =
     (let prior = prior_scans decode cur scans t in
      classify sha
        (read_history sha prior (map (\<lambda>r. Key sha (ob_Finding r)) (filter is_primary (evidence_of db cur)))
           b (pick_latest None prior) (history_rows db cur t))
        b (bs_ID cur) t)"

definition published ::
  "sha_fn \<Rightarrow> (string \<Rightarrow> string list option) \<Rightarrow> baseline_db \<Rightarrow> base_scan \<Rightarrow> base_scan list \<Rightarrow> go_time \<Rightarrow> string
     \<Rightarrow> observed \<Rightarrow> observed" where
  "published sha decode db cur scans t b =
     restamp (verdict_at (verdicts_of sha decode db cur scans t b)
       (filter is_primary (evidence_of db cur)) (evidence_of db cur)) t"

lemma published_fields [simp]:
  "ob_ID (published sha decode db cur scans t b r) = ob_ID r"
  "ob_ScanID (published sha decode db cur scans t b r) = ob_ScanID r"
  "fi_RepoID (ob_Finding (published sha decode db cur scans t b r)) = fi_RepoID (ob_Finding r)"
  "Key sha' (ob_Finding (published sha decode db cur scans t b r)) = Key sha' (ob_Finding r)"
  "is_primary (published sha decode db cur scans t b r) = is_primary r"
  "primary_id (published sha decode db cur scans t b r) = primary_id r"
  by (simp_all add: published_def)

lemma pick_latest_in: "pick_latest l0 ss = Some l \<Longrightarrow> l \<in> set ss \<or> l0 = Some l"
proof (induction ss arbitrary: l0)
  case (Cons s ss)
  then show ?case by (auto split: option.splits if_splits)
qed simp

lemma choose_baseline_known:
  assumes "choose_baseline db cur prior (pick_latest None prior) = Inr b"
  shows "b = [] \<or> b = bs_ID cur \<or> b \<in> bs_ID ` set prior"
proof -
  have "latest_id (pick_latest None prior) = [] \<or> latest_id (pick_latest None prior) \<in> bs_ID ` set prior"
    using pick_latest_in [of None prior] by (cases "pick_latest None prior") (auto simp: latest_id_def)
  then show ?thesis
    using assms by (auto simp: choose_baseline_def Let_def split: if_splits option.splits)
qed

lemma classify_loop_primaries:
  "classify_loop verdict_of t primaries rs st = Inr st' \<Longrightarrow> r \<in> set rs \<Longrightarrow>
   \<exists>p. first_by ob_ID primaries (primary_id r) = Some p"
proof (induction rs arbitrary: st)
  case (Cons q rs)
  then show ?case by (cases st) (auto simp: Let_def split: option.splits if_splits)
qed simp

lemma derive_unfold:
  "deriveFindingBaseline sha decode db cur scans t =
     and_then (choose_baseline db cur (prior_scans decode cur scans t)
                 (pick_latest None (prior_scans decode cur scans t))) (\<lambda>b.
       if list_ex (\<lambda>r. fi_RepoID (ob_Finding r) \<noteq> bs_RepoID cur) (evidence_of db cur)
       then Inl EvidenceCrossesRepo
       else and_then (classify_loop (verdicts_of sha decode db cur scans t b) t
                        (filter is_primary (evidence_of db cur)) (evidence_of db cur)
                        (bd_Findings db, bs_BaselineResolvedAt cur = None))
              (\<lambda>(table, changed). Inr (changed,
                 if changed
                 then db\<lparr>bd_Findings := table,
                         bd_Scans := update_where (\<lambda>s. bs_ID s = bs_ID cur)
                           (\<lambda>s. s\<lparr>bs_BaselineScanID := b, bs_BaselineResolvedAt := Some t\<rparr>) (bd_Scans db)\<rparr>
                 else db\<lparr>bd_Findings := table\<rparr>)))"
  unfolding deriveFindingBaseline_def evidence_of_def verdicts_of_def Let_def by (rule refl)

text \<open>The state after a publication.\<close>

definition after_publish ::
  "sha_fn \<Rightarrow> (string \<Rightarrow> string list option) \<Rightarrow> baseline_db \<Rightarrow> base_scan \<Rightarrow> base_scan list \<Rightarrow> go_time \<Rightarrow> string
     \<Rightarrow> int \<Rightarrow> baseline_db" where
  "after_publish sha decode db cur scans t b n =
     db\<lparr>bd_Findings := map (published sha decode db cur scans t b) (bd_Findings db),
        bd_Scans := map (pinned (bs_ID cur) b t n) (bd_Scans db)\<rparr>"

text \<open>What a derivation that succeeded leaves for a second one.\<close>

definition derivation_ok ::
  "sha_fn \<Rightarrow> (string \<Rightarrow> string list option) \<Rightarrow> baseline_db \<Rightarrow> base_scan \<Rightarrow> base_scan list \<Rightarrow> go_time \<Rightarrow> string
     \<Rightarrow> bool" where
  "derivation_ok sha decode db cur scans t b \<longleftrightarrow>
     (b = [] \<or> b = bs_ID cur \<or> b \<in> bs_ID ` set (prior_scans decode cur scans t)) \<and>
     \<not> list_ex (\<lambda>r. fi_RepoID (ob_Finding r) \<noteq> bs_RepoID cur) (evidence_of db cur) \<and>
     (\<forall>r \<in> set (evidence_of db cur).
        \<exists>p. first_by ob_ID (filter is_primary (evidence_of db cur)) (primary_id r) = Some p)"

lemma set_evidence_of: "set (evidence_of db cur) = {r \<in> set (bd_Findings db). ob_ScanID r = bs_ID cur}"
  by (auto simp: evidence_of_def)

lemma distinct_evidence_of:
  assumes "distinct (map ob_ID (bd_Findings db))"
  shows "distinct (map ob_ID (evidence_of db cur))"
proof -
  have "mset (map ob_ID (evidence_of db cur)) =
      mset (map ob_ID (filter (\<lambda>r. ob_ScanID r = bs_ID cur) (bd_Findings db)))"
    by (simp add: evidence_of_def)
  then show ?thesis using assms distinct_map_filter mset_eq_imp_distinct_iff by blast
qed

lemma same_id_same_row:
  "distinct (map key xs) \<Longrightarrow> x \<in> set xs \<Longrightarrow> y \<in> set xs \<Longrightarrow> key x = key y \<Longrightarrow> x = y"
  by (meson distinct_map inj_onD)

lemma derive_first:
  assumes ids: "distinct (map ob_ID (bd_Findings db))"
    and run: "deriveFindingBaseline sha decode db cur scans t = Inr (changed, db1)"
    and same: "bs_BaselineResolvedAt cur \<noteq> None \<longrightarrow> bs_BaselineResolvedAt cur = Some t"
  obtains b where "derivation_ok sha decode db cur scans t b"
    and "changed \<longrightarrow> db1 = db\<lparr>bd_Findings := map (published sha decode db cur scans t b) (bd_Findings db),
           bd_Scans := update_where (\<lambda>s. bs_ID s = bs_ID cur)
             (\<lambda>s. s\<lparr>bs_BaselineScanID := b, bs_BaselineResolvedAt := Some t\<rparr>) (bd_Scans db)\<rparr>"
    and "\<not> changed \<longrightarrow> db1 = db \<and> map (published sha decode db cur scans t b) (bd_Findings db) = bd_Findings db \<and>
           bs_BaselineResolvedAt cur = Some t \<and> bs_BaselineScanID cur = b"
proof -
  let ?prior = "prior_scans decode cur scans t" and ?ev = "evidence_of db cur"
  obtain b where b: "choose_baseline db cur ?prior (pick_latest None ?prior) = Inr b"
    using run unfolding derive_unfold by (auto simp: and_then_Inr)
  obtain table where repo: "\<not> list_ex (\<lambda>r. fi_RepoID (ob_Finding r) \<noteq> bs_RepoID cur) ?ev"
    and loop: "classify_loop (verdicts_of sha decode db cur scans t b) t (filter is_primary ?ev) ?ev
                 (bd_Findings db, bs_BaselineResolvedAt cur = None) = Inr (table, changed)"
    and db1: "db1 = (if changed
                 then db\<lparr>bd_Findings := table,
                         bd_Scans := update_where (\<lambda>s. bs_ID s = bs_ID cur)
                           (\<lambda>s. s\<lparr>bs_BaselineScanID := b, bs_BaselineResolvedAt := Some t\<rparr>) (bd_Scans db)\<rparr>
                 else db\<lparr>bd_Findings := table\<rparr>)"
    using run unfolding derive_unfold b and_then_simps by (auto simp: and_then_Inr split: if_splits)
  have "\<forall>r \<in> set ?ev. \<forall>x \<in> set (bd_Findings db). ob_ID x = ob_ID r \<longrightarrow> x = r"
    using same_id_same_row [OF ids] by (auto simp: set_evidence_of)
  then have table: "table = map (published sha decode db cur scans t b) (bd_Findings db)"
    and quiet: "\<not> changed \<longrightarrow> bs_BaselineResolvedAt cur \<noteq> None \<and> table = bd_Findings db"
    using classify_loop_table [OF loop distinct_evidence_of [OF ids]] by (auto simp: published_def)
  have "bs_BaselineResolvedAt cur \<noteq> None \<Longrightarrow> bs_BaselineScanID cur = b"
    using b by (auto simp: choose_baseline_def Let_def split: if_splits)
  then show thesis
    using that [of b] choose_baseline_known [OF b] repo classify_loop_primaries [OF loop] db1 table quiet same
    by (auto simp: derivation_ok_def)
qed

lemma prior_pinned:
  "prior_scans decode (pinned (bs_ID cur) b t n cur) (map (pinned (bs_ID cur) b t n) scans) u =
   prior_scans decode cur scans u"
proof -
  have "prior_scans decode (pinned (bs_ID cur) b t n cur) (map (pinned (bs_ID cur) b t n) scans) u =
      map (pinned (bs_ID cur) b t n) (prior_scans decode cur scans u)"
    unfolding prior_scans_def by (rule filter_map_same) simp
  also have "\<dots> = prior_scans decode cur scans u"
    by (rule map_idI) (auto simp: prior_scans_def pinned_other)
  finally show ?thesis .
qed

lemma evidence_published:
  "evidence_of (after_publish sha decode db cur scans t b n) (pinned (bs_ID cur) b t n cur) =
   map (published sha decode db cur scans t b) (evidence_of db cur)"
  unfolding evidence_of_def after_publish_def
  by (simp add: filter_map_same [where Q = "\<lambda>r. ob_ScanID r = bs_ID cur"] sort_key_map_same)

lemma primaries_published:
  "filter is_primary (map (published sha decode db cur scans t b) rs) =
   map (published sha decode db cur scans t b) (filter is_primary rs)"
  by (rule filter_map_same) simp

lemma history_rows_published:
  "history_rows (after_publish sha decode db cur scans t b n) (pinned (bs_ID cur) b t n cur) u =
   map (published sha decode db cur scans t b) (history_rows db cur u)"
  unfolding history_rows_def after_publish_def
  by (simp add: list.map_comp list_ex_iff) (rule filter_map_same, simp)

lemma published_other:
  assumes "distinct (map ob_ID (bd_Findings db))" "r \<in> set (bd_Findings db)" "ob_ScanID r \<noteq> bs_ID cur"
  shows "published sha decode db cur scans t b r = r"
proof -
  have "ob_ID r \<notin> ob_ID ` set (evidence_of db cur)"
    using assms same_id_same_row [OF assms(1)] by (auto simp: set_evidence_of)
  then have "first_by ob_ID (evidence_of db cur) (ob_ID r) = None" by (simp add: first_by_None)
  then show ?thesis by (simp add: published_def restamp_def verdict_at_def)
qed

lemma read_history_published:
  assumes "distinct (map ob_ID (bd_Findings db))" "bs_ID cur \<notin> bs_ID ` set prior"
  shows "read_history sha' prior keys b' latest
           (map (published sha decode db cur scans t b) (history_rows db cur u)) =
         read_history sha' prior keys b' latest (history_rows db cur u)"
proof -
  have "history_step sha' prior keys b' latest (published sha decode db cur scans t b r) =
      history_step sha' prior keys b' latest r" if "r \<in> set (history_rows db cur u)" for r
  proof (cases "ob_ScanID r = bs_ID cur")
    case True
    then have "find (\<lambda>s. bs_ID s = bs_ID cur) prior = None"
      using assms(2) unfolding find_None_iff by (metis image_eqI)
    then show ?thesis using True by (simp add: history_step_def fun_eq_iff)
  next
    case False
    then show ?thesis using published_other [OF assms(1)] that by (simp add: history_rows_def)
  qed
  then show ?thesis unfolding read_history_def fold_map by (intro fold_cong) auto
qed

lemma verdicts_published:
  assumes "distinct (map ob_ID (bd_Findings db))"
  shows "verdicts_of sha decode (after_publish sha decode db cur scans t b n) (pinned (bs_ID cur) b t n cur)
           (map (pinned (bs_ID cur) b t n) scans) t b = verdicts_of sha decode db cur scans t b"
proof -
  have "bs_ID cur \<notin> bs_ID ` set (prior_scans decode cur scans t)" by (auto simp: prior_scans_def)
  then show ?thesis
    by (simp add: verdicts_of_def prior_pinned evidence_published primaries_published
        history_rows_published read_history_published [OF assms] Let_def comp_def)
qed

lemma published_current:
  assumes ids: "distinct (map ob_ID (bd_Findings db))"
    and ok: "derivation_ok sha decode db cur scans t b"
    and r: "r \<in> set (evidence_of db cur)"
  obtains p where
    "first_by ob_ID (filter is_primary (evidence_of db cur)) (primary_id r) = Some p"
    "row_is_current (verdicts_of sha decode db cur scans t b (published sha decode db cur scans t b p)) t
       (published sha decode db cur scans t b r)"
proof -
  let ?ev = "evidence_of db cur" and ?vf = "verdicts_of sha decode db cur scans t b"
  let ?pub = "published sha decode db cur scans t b"
  have at: "first_by ob_ID ?ev (ob_ID q) = Some q" if "q \<in> set ?ev" for q
    using first_by_distinct [OF distinct_evidence_of [OF ids] that] .
  obtain p where p: "first_by ob_ID (filter is_primary ?ev) (primary_id r) = Some p"
    using ok r by (auto simp: derivation_ok_def)
  then have pp: "p \<in> set ?ev" "is_primary p" "ob_ID p = primary_id r"
    using first_by_Some [OF p] by auto
  have pub: "?pub q = stamp (?vf p) t q"
    if "q \<in> set ?ev" "first_by ob_ID (filter is_primary ?ev) (primary_id q) = Some p" for q
    using that at by (simp add: published_def restamp_def verdict_at_def)
  have "?pub p = stamp (?vf p) t p" using pub [OF pp(1)] p pp by (simp add: is_primary_id)
  then have "?vf (?pub p) = ?vf p" by (simp add: verdicts_of_def classify_stamp Let_def)
  moreover have "row_is_current (?vf p) t (?pub r)"
    using pub [OF r p] by (simp add: row_is_current_stamp)
  ultimately show thesis using that [OF p] by simp
qed

lemma derive_again:
  assumes ids: "distinct (map ob_ID (bd_Findings db))"
    and ok: "derivation_ok sha decode db cur scans t b"
  shows "deriveFindingBaseline sha decode (after_publish sha decode db cur scans t b n)
           (pinned (bs_ID cur) b t n cur) (map (pinned (bs_ID cur) b t n) scans) t =
         Inr (False, after_publish sha decode db cur scans t b n)"
proof -
  let ?db = "after_publish sha decode db cur scans t b n" and ?cur = "pinned (bs_ID cur) b t n cur"
  let ?prior = "prior_scans decode cur scans t" and ?ev = "evidence_of db cur"
  let ?pub = "published sha decode db cur scans t b" and ?vf = "verdicts_of sha decode db cur scans t b"
  have choose: "choose_baseline ?db ?cur ?prior (pick_latest None ?prior) = Inr b"
    using ok by (auto simp: choose_baseline_def derivation_ok_def pinned_def)
  have repo: "\<not> list_ex (\<lambda>r. fi_RepoID (ob_Finding r) \<noteq> bs_RepoID cur) (map ?pub ?ev)"
    using ok by (auto simp: derivation_ok_def list_ex_iff)
  have "\<exists>p. first_by ob_ID (map ?pub (filter is_primary ?ev)) (primary_id r) = Some p \<and>
      row_is_current (?vf p) t r" if "r \<in> set (map ?pub ?ev)" for r
  proof -
    obtain q where q: "q \<in> set ?ev" "r = ?pub q" using \<open>r \<in> set (map ?pub ?ev)\<close> by auto
    obtain p where "first_by ob_ID (filter is_primary ?ev) (primary_id q) = Some p"
      "row_is_current (?vf (?pub p)) t (?pub q)"
      using published_current [OF ids ok q(1)] .
    then show ?thesis using q(2) by (simp add: first_by_map_same)
  qed
  then have loop: "classify_loop ?vf t (map ?pub (filter is_primary ?ev)) (map ?pub ?ev) st = Inr st" for st
    by (rule classify_loop_current)
  have pinned_at: "bs_BaselineResolvedAt ?cur = Some t" by (simp add: pinned_def)
  show ?thesis
    unfolding derive_unfold prior_pinned evidence_published primaries_published
    by (simp add: choose repo loop pinned_at verdicts_published [OF ids])
qed

lemma cutoffs_absent:
  "i \<notin> bs_ID ` set ss \<Longrightarrow> branch_cutoffs [(i, t0)] ss st = st"
proof (induction ss arbitrary: st)
  case (Cons s ss)
  then show ?case by (cases st) auto
qed simp

definition resolved_or :: "go_time \<Rightarrow> base_scan \<Rightarrow> go_time" where
  "resolved_or t0 s = (case bs_BaselineResolvedAt s of None \<Rightarrow> t0 | Some r \<Rightarrow> r)"

lemma cutoffs_single:
  "distinct (map bs_ID ss) \<Longrightarrow> first_by bs_ID ss i = Some cur \<Longrightarrow>
   branch_cutoffs [(i, t0)] ss ([], 0) =
     (if 0 < resolved_or t0 cur then [(bs_Branch cur, resolved_or t0 cur)] else [], 1)"
proof (induction ss)
  case (Cons s ss)
  show ?case
  proof (cases "bs_ID s = i")
    case True
    then have "i \<notin> bs_ID ` set ss" "s = cur" using Cons.prems by auto
    then show ?thesis using True by (simp add: cutoffs_absent resolved_or_def Let_def)
  next
    case False
    then show ?thesis using Cons by simp
  qed
qed simp

definition repo_scans :: "baseline_db \<Rightarrow> string \<Rightarrow> base_scan list" where
  "repo_scans db repo = sort_key bs_ID (filter (\<lambda>s. bs_RepoID s = repo) (bd_Scans db))"

definition locked :: "baseline_db \<Rightarrow> base_scan \<Rightarrow> go_time \<Rightarrow> base_scan list" where
  "locked db cur t =
     filter (\<lambda>s. bs_ID s = bs_ID cur \<or> (bs_Status s = ScanStatusCompleted \<and>
               completed_before (if bs_Branch s = bs_Branch cur \<and> 0 < t then t else 0) s))
       (repo_scans db (bs_RepoID cur))"

lemma distinct_repo_scans:
  assumes "distinct (map bs_ID (bd_Scans db))"
  shows "distinct (map bs_ID (repo_scans db repo))"
proof -
  have "mset (map bs_ID (repo_scans db repo)) = mset (map bs_ID (filter (\<lambda>s. bs_RepoID s = repo) (bd_Scans db)))"
    by (simp add: repo_scans_def)
  then show ?thesis using assms distinct_map_filter mset_eq_imp_distinct_iff by blast
qed

lemma lock_single:
  assumes "distinct (map bs_ID (bd_Scans db))"
  shows "lockBaselineScans db repo [(i, t0)] =
     (case first_by bs_ID (repo_scans db repo) i of
        None \<Rightarrow> Inl BaselineNoRows
      | Some cur \<Rightarrow> Inr (locked db cur (resolved_or t0 cur)))"
proof (cases "first_by bs_ID (repo_scans db repo) i")
  case None
  then have "i \<notin> bs_ID ` set (repo_scans db repo)" by (simp only: first_by_None not_False_eq_True)
  then show ?thesis
    by (simp add: lockBaselineScans_def cutoffs_absent None flip: repo_scans_def)
next
  case (Some cur)
  then have "bs_RepoID cur = repo" "bs_ID cur = i" by (auto dest: first_by_Some simp: repo_scans_def)
  then show ?thesis
    using cutoffs_single [OF distinct_repo_scans [OF assms] Some]
    by (auto simp: lockBaselineScans_def locked_def Some Let_def simp flip: repo_scans_def intro!: filter_cong)
qed

definition publishable :: "string \<Rightarrow> base_scan \<Rightarrow> bool" where
  "publishable lease s \<longleftrightarrow>
     bs_CancelRequestedAt s = None \<and> bs_LeaseToken s = lease \<and>
     \<not> (bs_Status s = ScanStatusCompleted \<and> bs_FailureCode s \<noteq> []) \<and>
     (bs_Status s = ScanStatusRunning \<or> (bs_Status s = ScanStatusCompleted \<and> lease = []))"

definition publish ::
  "sha_fn \<Rightarrow> (string \<Rightarrow> string list option) \<Rightarrow> baseline_db \<Rightarrow> base_scan \<Rightarrow> go_time \<Rightarrow> baseline_error + baseline_db" where
  "publish sha decode db cur t =
     and_then (deriveFindingBaseline sha decode db cur (locked db cur t) t) (\<lambda>(changed, db').
       if changed then advanceFindingsRevision (bs_ID cur) db' else Inr db')"

lemma first_by_locked:
  assumes "distinct (map bs_ID (bd_Scans db))" "cur \<in> set (bd_Scans db)"
  shows "find (\<lambda>s. bs_ID s = bs_ID cur) (locked db cur t) = Some cur"
proof -
  have "distinct (map bs_ID (locked db cur t))"
    unfolding locked_def by (rule distinct_map_filter) (rule distinct_repo_scans [OF assms(1)])
  moreover have "cur \<in> set (locked db cur t)" using assms(2) by (simp add: locked_def repo_scans_def)
  ultimately show ?thesis using first_by_distinct [of bs_ID "locked db cur t" cur] by (simp add: first_by_def)
qed

lemma persist_publishes:
  assumes "distinct (map bs_ID (bd_Scans db))" "cur \<in> set (bd_Scans db)" "t0 \<noteq> 0"
    and "map_of (bd_Repos db) (bs_RepoID cur) \<noteq> None" "publishable lease cur"
  shows "persistFindingBaseline sha decode (Some cur) db (bs_ID cur) lease t0 =
         publish sha decode db cur (resolved_or t0 cur)"
proof -
  have "first_by bs_ID (repo_scans db (bs_RepoID cur)) (bs_ID cur) = Some cur"
    using assms(2) by (intro first_by_distinct distinct_repo_scans [OF assms(1)]) (simp add: repo_scans_def)
  then show ?thesis
    using assms by (auto simp: persistFindingBaseline_def publish_def is_zero_time_def lock_single
        first_by_locked publishable_def resolved_or_def Let_def)
qed

lemma persist_success:
  assumes "distinct (map bs_ID (bd_Scans db))"
    and "persistFindingBaseline sha decode read db i lease t0 = Inr db'"
  obtains cur where "cur \<in> set (bd_Scans db)" "bs_ID cur = i"
    "map_of (bd_Repos db) (bs_RepoID cur) \<noteq> None" "publishable lease cur"
    "publish sha decode db cur (resolved_or t0 cur) = Inr db'"
proof -
  have zero: "\<not> is_zero_time t0" using assms(2) by (auto simp: persistFindingBaseline_def)
  obtain before where before: "read = Some before"
    using assms(2) zero by (cases read) (simp_all add: persistFindingBaseline_def)
  have repos: "map_of (bd_Repos db) (bs_RepoID before) \<noteq> None"
    using assms(2) zero before
    by (cases "map_of (bd_Repos db) (bs_RepoID before)") (simp_all add: persistFindingBaseline_def)
  obtain scans where lock: "lockBaselineScans db (bs_RepoID before) [(i, t0)] = Inr scans"
    using assms(2) zero before repos
    by (cases "lockBaselineScans db (bs_RepoID before) [(i, t0)]") (auto simp: persistFindingBaseline_def)
  obtain cur where fb: "first_by bs_ID (repo_scans db (bs_RepoID before)) i = Some cur"
    and scans: "scans = locked db cur (resolved_or t0 cur)"
    using lock by (auto simp: lock_single [OF assms(1)] split: option.splits)
  then have cur: "cur \<in> set (bd_Scans db)" "bs_ID cur = i" "bs_RepoID cur = bs_RepoID before"
    by (auto dest!: first_by_Some simp: repo_scans_def)
  then have "find (\<lambda>s. bs_ID s = i) scans = Some cur"
    using first_by_locked [OF assms(1) cur(1)] scans by simp
  then have "publishable lease cur" "publish sha decode db cur (resolved_or t0 cur) = Inr db'"
    using assms(2) zero before repos lock cur(2,3) scans
    unfolding persistFindingBaseline_def publish_def publishable_def resolved_or_def Let_def cur(2)
    by (simp_all split: if_splits)
  then show thesis using that cur repos by simp
qed

lemma after_publish_scans:
  "distinct (map bs_ID (bd_Scans db)) \<Longrightarrow>
   distinct (map bs_ID (bd_Scans (after_publish sha decode db cur scans t b n)))"
  by (simp add: after_publish_def comp_def)

lemma locked_after_publish:
  "locked (after_publish sha decode db cur scans t b n) (pinned (bs_ID cur) b t n cur) u =
   map (pinned (bs_ID cur) b t n) (locked db cur u)"
proof -
  have "repo_scans (after_publish sha decode db cur scans t b n) (bs_RepoID cur) =
      map (pinned (bs_ID cur) b t n) (repo_scans db (bs_RepoID cur))"
    unfolding repo_scans_def after_publish_def
    by (simp add: filter_map_same [where Q = "\<lambda>s. bs_RepoID s = bs_RepoID cur"] sort_key_map_same)
  then show ?thesis unfolding locked_def by (simp add: filter_map_same)
qed

text \<open>A publication that succeeded leaves the pinned scan and the published rows.\<close>

lemma publish_result:
  assumes ids: "distinct (map ob_ID (bd_Findings db))"
    and run: "publish sha decode db cur t = Inr db'"
    and same: "bs_BaselineResolvedAt cur \<noteq> None \<longrightarrow> bs_BaselineResolvedAt cur = Some t"
    and cur: "cur \<in> set (bd_Scans db)" "distinct (map bs_ID (bd_Scans db))"
  obtains b n where "derivation_ok sha decode db cur (locked db cur t) t b"
    "db' = after_publish sha decode db cur (locked db cur t) t b n"
proof -
  let ?scans = "locked db cur t"
  obtain changed db1 where d: "deriveFindingBaseline sha decode db cur ?scans t = Inr (changed, db1)"
    and rev: "(if changed then advanceFindingsRevision (bs_ID cur) db1 else Inr db1) = Inr db'"
    using run by (auto simp: publish_def and_then_Inr)
  obtain b where b: "derivation_ok sha decode db cur ?scans t b"
    and yes: "changed \<longrightarrow> db1 = db\<lparr>bd_Findings := map (published sha decode db cur ?scans t b) (bd_Findings db),
           bd_Scans := update_where (\<lambda>s. bs_ID s = bs_ID cur)
             (\<lambda>s. s\<lparr>bs_BaselineScanID := b, bs_BaselineResolvedAt := Some t\<rparr>) (bd_Scans db)\<rparr>"
    and no: "\<not> changed \<longrightarrow> db1 = db \<and> map (published sha decode db cur ?scans t b) (bd_Findings db) = bd_Findings db \<and>
           bs_BaselineResolvedAt cur = Some t \<and> bs_BaselineScanID cur = b"
    using derive_first [OF ids d same] .
  have "db' = after_publish sha decode db cur ?scans t b (if changed then 1 else 0)"
  proof (cases changed)
    case True
    then have "db' = db1\<lparr>bd_Scans := update_where (\<lambda>s. bs_ID s = bs_ID cur)
        (\<lambda>s. s\<lparr>bs_FindingsRevision := bs_FindingsRevision s + 1\<rparr>) (bd_Scans db1)\<rparr>"
      using rev by (simp add: advanceFindingsRevision_def split: if_splits)
    then show ?thesis
      using yes True by (auto simp: after_publish_def update_where_def pinned_def)
  next
    case False
    have "pinned (bs_ID cur) b t 0 s = s" if "s \<in> set (bd_Scans db)" for s
      using same_id_same_row [OF cur(2) that cur(1)] no False by (auto simp: pinned_def)
    then have "map (pinned (bs_ID cur) b t 0) (bd_Scans db) = bd_Scans db" by (simp add: map_idI)
    then show ?thesis using no False rev by (simp add: after_publish_def)
  qed
  then show thesis using that b by blast
qed

lemma publish_again:
  assumes "distinct (map ob_ID (bd_Findings db))" "derivation_ok sha decode db cur (locked db cur t) t b"
  shows "publish sha decode (after_publish sha decode db cur (locked db cur t) t b n)
           (pinned (bs_ID cur) b t n cur) t =
         Inr (after_publish sha decode db cur (locked db cur t) t b n)"
  unfolding publish_def locked_after_publish derive_again [OF assms] by simp

text \<open>C18: Publishing a baseline is idempotent: once a publication has committed, a retry with the same
  lease, at whatever time, commits without changing a row, a scan or the revision of the findings,
  because the observation time is pinned and every finding of the scan already carries its verdict.\<close>

theorem publication_idempotent:
  assumes scans: "distinct (map bs_ID (bd_Scans db))" and rows: "distinct (map ob_ID (bd_Findings db))"
    and first: "persistFindingBaseline sha decode read db i lease t1 = Inr db'"
    and t2: "t2 \<noteq> 0"
  shows "persistFindingBaseline sha decode (first_by bs_ID (bd_Scans db') i) db' i lease t2 = Inr db'"
proof -
  obtain cur where cur: "cur \<in> set (bd_Scans db)" "bs_ID cur = i"
    and repo: "map_of (bd_Repos db) (bs_RepoID cur) \<noteq> None" and lease: "publishable lease cur"
    and run: "publish sha decode db cur (resolved_or t1 cur) = Inr db'"
    using persist_success [OF scans first] .
  let ?t = "resolved_or t1 cur"
  have same: "bs_BaselineResolvedAt cur \<noteq> None \<longrightarrow> bs_BaselineResolvedAt cur = Some ?t"
    by (auto simp: resolved_or_def)
  obtain b n where ok: "derivation_ok sha decode db cur (locked db cur ?t) ?t b"
    and db': "db' = after_publish sha decode db cur (locked db cur ?t) ?t b n"
    using publish_result [OF rows run same cur(1) scans] .
  let ?cur = "pinned (bs_ID cur) b ?t n cur"
  have ids: "distinct (map bs_ID (bd_Scans db'))" unfolding db' by (rule after_publish_scans [OF scans])
  have in': "?cur \<in> set (bd_Scans db')" using cur(1) by (auto simp: db' after_publish_def)
  have read: "first_by bs_ID (bd_Scans db') i = Some ?cur"
    using first_by_distinct [OF ids in'] cur(2) by simp
  have "persistFindingBaseline sha decode (Some ?cur) db' (bs_ID ?cur) lease t2 =
      publish sha decode db' ?cur (resolved_or t2 ?cur)"
  proof (rule persist_publishes [OF ids in' t2])
    show "map_of (bd_Repos db') (bs_RepoID ?cur) \<noteq> None" using repo by (simp add: db' after_publish_def)
    show "publishable lease ?cur" using lease by (simp add: publishable_def)
  qed
  moreover have "resolved_or t2 ?cur = ?t" by (simp add: resolved_or_def pinned_def)
  ultimately show ?thesis using publish_again [OF rows ok] read cur(2) by (simp add: db')
qed

section \<open>What a published finding looks like\<close>

definition introduced_by :: "go_time \<Rightarrow> history \<Rightarrow> bool" where
  "introduced_by t h \<longleftrightarrow> (\<forall>k x. hi_First h k = Some x \<longrightarrow> snd x \<le> t)"

lemma history_step_introduced:
  assumes "introduced_by t h" "\<forall>s \<in> set prior. completed_at s \<le> t"
  shows "introduced_by t (history_step sha prior keys b latest r h)"
proof (cases "find (\<lambda>s. bs_ID s = ob_ScanID r) prior")
  case (Some s)
  then have "completed_at s \<le> t" using assms(2) by (auto simp: find_Some_iff)
  then have "snd (introduction_of (history_key sha r) (completed_at s) r) \<le> t"
    by (auto simp: introduction_of_def split: option.splits)
  then show ?thesis
    using assms(1) Some by (auto simp: history_step_def introduced_by_def Let_def split: option.splits)
qed (use assms in \<open>simp add: history_step_def Let_def\<close>)

lemma read_history_introduced:
  assumes "\<forall>s \<in> set prior. completed_at s \<le> t"
  shows "introduced_by t (read_history sha prior keys b latest rows)"
proof -
  have "introduced_by t h \<Longrightarrow> introduced_by t (fold (history_step sha prior keys b latest) rows h)" for h
    by (induction rows arbitrary: h) (auto simp: history_step_introduced [OF _ assms])
  moreover have "introduced_by t \<lparr>hi_First = Map.empty, hi_InBaseline = [], hi_InLatest = []\<rparr>"
    by (simp add: introduced_by_def)
  ultimately show ?thesis by (simp add: read_history_def)
qed

lemma verdict_range:
  "ve_State (verdicts_of sha decode db cur scans t b p) \<in> {StateNew, StateExisting, StateResurfaced} \<and>
   ve_FirstSeen (verdicts_of sha decode db cur scans t b p) \<le> t \<and>
   ve_Key (verdicts_of sha decode db cur scans t b p) = Key sha (ob_Finding p)"
proof -
  let ?prior = "prior_scans decode cur scans t"
  let ?h = "read_history sha ?prior (map (\<lambda>r. Key sha (ob_Finding r)) (filter is_primary (evidence_of db cur)))
           b (pick_latest None ?prior) (history_rows db cur t)"
  have "\<forall>s \<in> set ?prior. completed_at s \<le> t"
    by (auto simp: prior_scans_def completed_before_def completed_at_def split: option.splits)
  then have h: "introduced_by t ?h" by (rule read_history_introduced)
  have v: "verdicts_of sha decode db cur scans t b p = classify sha ?h b (bs_ID cur) t p"
    by (simp add: verdicts_of_def Let_def)
  let ?intro = "case hi_First ?h (Key sha (ob_Finding p)) of None \<Rightarrow> (bs_ID cur, t) | Some x \<Rightarrow> x"
  have "snd ?intro \<le> t"
    using h by (cases "hi_First ?h (Key sha (ob_Finding p))") (auto simp: introduced_by_def)
  moreover have "ve_FirstSeen (classify sha ?h b (bs_ID cur) t p) \<le> snd ?intro"
    by (cases "ob_FirstSeenAt p") (simp_all add: classify_def Let_def)
  ultimately have "ve_FirstSeen (classify sha ?h b (bs_ID cur) t p) \<le> t" by simp
  then show ?thesis unfolding v by (simp add: classify_def Let_def)
qed

text \<open>C37: After a publication every finding of the scan has a complete record: one of the three states
  that a publication assigns, the identity of the primary of its cluster, no scan that resolved it,
  and a first observation that is not after the last one, which is the observation time of the scan.\<close>

theorem published_findings_typed:
  assumes "distinct (map bs_ID (bd_Scans db))" "distinct (map ob_ID (bd_Findings db))"
    and "persistFindingBaseline sha decode read db i lease t1 = Inr db'"
    and "r \<in> set (bd_Findings db')" "ob_ScanID r = i"
  shows "fi_BaselineState (ob_Finding r) \<in> {StateNew, StateExisting, StateResurfaced} \<and>
    ob_ResolvedInScanID r = [] \<and>
    (\<exists>s \<in> set (bd_Scans db'). \<exists>first t. bs_ID s = i \<and> bs_BaselineResolvedAt s = Some t \<and>
       ob_FirstSeenAt r = Some first \<and> ob_LastSeenAt r = Some t \<and> first \<le> t) \<and>
    (\<exists>p \<in> set (bd_Findings db'). ob_ScanID p = i \<and> is_primary p \<and> primary_id r = ob_ID p \<and>
       ob_BaselineIdentityKey r = Key sha (ob_Finding p))"
proof -
  obtain cur where cur: "cur \<in> set (bd_Scans db)" "bs_ID cur = i"
    and run: "publish sha decode db cur (resolved_or t1 cur) = Inr db'"
    using persist_success [OF assms(1,3)] .
  let ?t = "resolved_or t1 cur"
  have same: "bs_BaselineResolvedAt cur \<noteq> None \<longrightarrow> bs_BaselineResolvedAt cur = Some ?t"
    by (auto simp: resolved_or_def)
  obtain b n where ok: "derivation_ok sha decode db cur (locked db cur ?t) ?t b"
    and db': "db' = after_publish sha decode db cur (locked db cur ?t) ?t b n"
    using publish_result [OF assms(2) run same cur(1) assms(1)] .
  let ?pub = "published sha decode db cur (locked db cur ?t) ?t b" and ?ev = "evidence_of db cur"
  let ?vf = "verdicts_of sha decode db cur (locked db cur ?t) ?t b"
  obtain q where q: "q \<in> set ?ev" "r = ?pub q"
    using assms(4,5) cur(2) by (auto simp: db' after_publish_def set_evidence_of)
  obtain p where p: "first_by ob_ID (filter is_primary ?ev) (primary_id q) = Some p"
    using ok q(1) by (auto simp: derivation_ok_def)
  have "first_by ob_ID ?ev (ob_ID q) = Some q"
    using first_by_distinct [OF distinct_evidence_of [OF assms(2)] q(1)] .
  then have r: "r = stamp (?vf p) ?t q" using q(2) p by (simp add: published_def restamp_def verdict_at_def)
  have pp: "?pub p \<in> set (bd_Findings db')" "ob_ScanID p = i" "is_primary p" "ob_ID p = primary_id q"
    using first_by_Some [OF p] cur(2) by (auto simp: db' after_publish_def set_evidence_of)
  have "pinned (bs_ID cur) b ?t n cur \<in> set (bd_Scans db')" using cur(1) by (simp add: db' after_publish_def)
  then have scan: "\<exists>s \<in> set (bd_Scans db'). bs_ID s = i \<and> bs_BaselineResolvedAt s = Some ?t"
    using cur(2) by (rule_tac bexI) (simp_all add: pinned_def)
  have prim: "\<exists>p' \<in> set (bd_Findings db'). ob_ScanID p' = i \<and> is_primary p' \<and> primary_id r = ob_ID p' \<and>
      Key sha (ob_Finding p) = Key sha (ob_Finding p')"
    using pp r by (intro bexI [OF _ pp(1)]) simp
  show ?thesis
    using scan prim verdict_range [of sha decode db cur "locked db cur ?t" ?t b p]
    unfolding r by (auto simp: stamp_def set_state_def)
qed

section \<open>The theorems at concrete inputs\<close>

text \<open>A branch with two earlier scans: a finding of the first is missing from the second and comes back.\<close>

definition sample_baseline_scan :: "string \<Rightarrow> scan_status \<Rightarrow> go_time option \<Rightarrow> base_scan" where
  "sample_baseline_scan i st completed =
     \<lparr>bs_ID = i, bs_RepoID = ''r'', bs_UserID = ''u'', bs_Branch = ''main'', bs_SourceType = [],
      bs_RemoteNodeID = None, bs_SourcePath = ''/src'', bs_Status = st, bs_ToolsSelected = ''t'',
      bs_ToolsCompleted = ''t'', bs_ToolsFailed = [], bs_CompletedAt = completed,
      bs_CancelRequestedAt = None, bs_FailureCode = [], bs_LeaseToken = ''lease'',
      bs_BaselineScanID = [], bs_BaselineResolvedAt = None, bs_FindingsRevision = 0\<rparr>"

definition sample_observed :: "string \<Rightarrow> string \<Rightarrow> string \<Rightarrow> observed" where
  "sample_observed i sc key =
     \<lparr>ob_Finding = (sample_finding i key)\<lparr>fi_ScanID := sc\<rparr>, ob_ClusterID = [], ob_BaselineIdentityKey = [],
      ob_FirstSeenAt = None, ob_LastSeenAt = None, ob_IntroducedInScanID = [], ob_ResolvedInScanID = []\<rparr>"

definition sample_baseline_db :: baseline_db where
  "sample_baseline_db =
     \<lparr>bd_Repos = [(''r'', ''u'')],
      bd_Scans = [sample_baseline_scan ''1'' ScanStatusCompleted (Some 10),
                  sample_baseline_scan ''2'' ScanStatusCompleted (Some 20),
                  sample_baseline_scan ''3'' ScanStatusRunning None],
      bd_Findings = [sample_observed ''a1'' ''1'' ''A'', sample_observed ''b2'' ''2'' ''B'',
                     sample_observed ''a3'' ''3'' ''A'', sample_observed ''b3'' ''3'' ''B'',
                     sample_observed ''c3'' ''3'' ''C''],
      bd_Baselines = []\<rparr>"

definition sample_tools :: "string \<Rightarrow> string list option" where
  "sample_tools s = Some [s]"

definition sample_published :: "baseline_error + baseline_db" where
  "sample_published = persistFindingBaseline (\<lambda>x. x) sample_tools
     (Some (sample_baseline_scan ''3'' ScanStatusRunning None)) sample_baseline_db ''3'' ''lease'' 30"

definition published_db :: baseline_db where
  "published_db = (case sample_published of Inl e \<Rightarrow> sample_baseline_db | Inr db' \<Rightarrow> db')"

lemma sample_published_ok: "sample_published = Inr published_db"
proof -
  have "is_ok sample_published" by code_simp
  then obtain db' where run: "sample_published = Inr db'" by (auto simp: is_ok_def split: sum.splits)
  have "published_db = db'" unfolding published_db_def by (subst run) simp
  then show ?thesis using run by simp
qed

lemma sample_ids:
  "distinct (map bs_ID (bd_Scans sample_baseline_db))" "distinct (map ob_ID (bd_Findings sample_baseline_db))"
  by code_simp+

theorem publication_idempotent_witness:
  "persistFindingBaseline (\<lambda>x. x) sample_tools (first_by bs_ID (bd_Scans published_db) ''3'')
     published_db ''3'' ''lease'' 99 = Inr published_db \<and>
   map (\<lambda>r. fi_BaselineState (ob_Finding r)) (bd_Findings published_db) =
     [[], [], ''resurfaced'', ''existing'', ''new'']"
proof
  show "persistFindingBaseline (\<lambda>x. x) sample_tools (first_by bs_ID (bd_Scans published_db) ''3'')
      published_db ''3'' ''lease'' 99 = Inr published_db"
    using publication_idempotent [OF sample_ids sample_published_ok [unfolded sample_published_def], of 99] by simp
  show "map (\<lambda>r. fi_BaselineState (ob_Finding r)) (bd_Findings published_db) =
      [[], [], ''resurfaced'', ''existing'', ''new'']" by code_simp
qed

theorem published_findings_typed_witness:
  "fi_BaselineState (ob_Finding (bd_Findings published_db ! 2)) \<in> {StateNew, StateExisting, StateResurfaced} \<and>
   ob_FirstSeenAt (bd_Findings published_db ! 2) = Some 10"
proof
  have n: "2 < length (bd_Findings published_db)" by code_simp
  have i: "ob_ScanID (bd_Findings published_db ! 2) = ''3''" by code_simp
  show "fi_BaselineState (ob_Finding (bd_Findings published_db ! 2)) \<in> {StateNew, StateExisting, StateResurfaced}"
    using published_findings_typed [OF sample_ids sample_published_ok [unfolded sample_published_def]
        nth_mem [OF n] i] by blast
  show "ob_FirstSeenAt (bd_Findings published_db ! 2) = Some 10" by code_simp
qed

end
