(* ===== verification/Schedules.thy ===== *)
theory Schedules
  imports GoText "HOL-Library.Product_Lexorder"
begin

text \<open>
  Release schedules and maintenance windows (\<open>internal/scannerpolicy/schedule.go\<close>). The time zone
  database and the cron library are outside the repository: \<open>clock\<close> holds what the code calls of
  them. \<open>ck_Next\<close> is the next occurrence after a time in a location, 0 (the zero time) when the library
  finds none; \<open>ck_Midnight\<close> is the start of 2024 in a location and \<open>ck_Horizon\<close> the time 400 days later.
  The JSON decoder of a schedule is left out: the model starts at the decoded value.
\<close>

section \<open>Policies\<close>

record ('loc, 'sched) clock =
  ck_Load :: "string \<Rightarrow> 'loc option"
  ck_Parse :: "string \<Rightarrow> 'sched option"
  ck_Next :: "'sched \<Rightarrow> 'loc \<Rightarrow> go_time \<Rightarrow> go_time"
  ck_Midnight :: "'loc \<Rightarrow> go_time"
  ck_Horizon :: "'loc \<Rightarrow> go_time"

record periodic_schedule =
  ps_Enabled :: "bool option"
  ps_Frequency :: string
  ps_At :: string
  ps_Jitter :: string
  ps_CatchUp :: string

record maintenance_window =
  mw_ID :: string
  mw_Name :: string
  mw_Cron :: string
  mw_Duration :: string

record schedule_policy =
  sp_Timezone :: string
  sp_DailyDiscovery :: periodic_schedule
  sp_WeeklyCandidate :: periodic_schedule
  sp_Weekday :: string
  sp_MaximumStableImageAge :: string
  sp_ForceWeeklyRebuild :: bool
  sp_MaintenanceWindow :: "maintenance_window list"

datatype schedule_error =
    TimezoneInvalid | FrequencyInvalid string | ClockInvalid string | JitterInvalid string
  | CatchUpInvalid string | WeekdayInvalid | StableAgeInvalid | TooManyWindows | WindowNameRequired nat
  | DuplicateWindow string | WindowCronInvalid nat | WindowDurationInvalid nat | WindowsOverlap string string

definition default_daily :: periodic_schedule where
  "default_daily =
     \<lparr>ps_Enabled = Some True, ps_Frequency = ''daily'', ps_At = ''02:00'', ps_Jitter = ''20m'', ps_CatchUp = ''6h''\<rparr>"

definition default_weekly :: periodic_schedule where
  "default_weekly =
     \<lparr>ps_Enabled = Some True, ps_Frequency = ''weekly'', ps_At = ''03:00'', ps_Jitter = ''20m'', ps_CatchUp = ''48h''\<rparr>"

definition DefaultSchedule :: schedule_policy where
  "DefaultSchedule =
     \<lparr>sp_Timezone = ''UTC'', sp_DailyDiscovery = default_daily, sp_WeeklyCandidate = default_weekly,
      sp_Weekday = ''Sunday'', sp_MaximumStableImageAge = ''168h0m0s'', sp_ForceWeeklyRebuild = False,
      sp_MaintenanceWindow = []\<rparr>"

definition fill :: "string \<Rightarrow> string \<Rightarrow> string" where
  "fill value s = (if s = [] then value else s)"

definition fillPeriodic :: "periodic_schedule \<Rightarrow> periodic_schedule \<Rightarrow> periodic_schedule" where
  "fillPeriodic s defaults =
     \<lparr>ps_Enabled = (if ps_Enabled s = None then Some True else ps_Enabled s),
      ps_Frequency = fill (ps_Frequency defaults) (ps_Frequency s),
      ps_At = fill (ps_At defaults) (ps_At s),
      ps_Jitter = fill (ps_Jitter defaults) (ps_Jitter s),
      ps_CatchUp = fill (ps_CatchUp defaults) (ps_CatchUp s)\<rparr>"

definition IsEnabled :: "periodic_schedule \<Rightarrow> bool" where
  "IsEnabled s \<longleftrightarrow> ps_Enabled s = None \<or> ps_Enabled s = Some True"

text \<open>\<open>time.Parse("15:04", value)\<close>: one or two digits of the hour, two of the minute.\<close>

definition two_digits :: "string \<Rightarrow> (int \<times> string) option" where
  "two_digits s =
     (case s of
        a # b # rest \<Rightarrow>
          (case (digit_value a, digit_value b) of
             (Some x, Some y) \<Rightarrow> Some (10 * x + y, rest) | _ \<Rightarrow> None)
      | _ \<Rightarrow> None)"

definition one_or_two_digits :: "string \<Rightarrow> (int \<times> string) option" where
  "one_or_two_digits s =
     (case two_digits s of
        Some r \<Rightarrow> Some r
      | None \<Rightarrow> (case s of [] \<Rightarrow> None | a # rest \<Rightarrow> map_option (\<lambda>x. (x, rest)) (digit_value a)))"

definition parsePolicyClock :: "string \<Rightarrow> (int \<times> int) option" where
  "parsePolicyClock value =
     (case one_or_two_digits value of
        None \<Rightarrow> None
      | Some (h, rest) \<Rightarrow>
          if 24 \<le> h \<or> take 1 rest \<noteq> '':'' then None
          else case two_digits (drop 1 rest) of
                 None \<Rightarrow> None
               | Some (m, rest') \<Rightarrow> if 60 \<le> m \<or> rest' \<noteq> [] then None else Some (h, m))"

definition duration_in :: "duration \<Rightarrow> duration \<Rightarrow> string \<Rightarrow> bool" where
  "duration_in lo hi s = (case ParseDuration s of None \<Rightarrow> False | Some d \<Rightarrow> lo \<le> d \<and> d \<le> hi)"

definition validatePeriodic :: "string \<Rightarrow> periodic_schedule \<Rightarrow> string \<Rightarrow> schedule_error option" where
  "validatePeriodic field s frequency =
     (if ps_Frequency s \<noteq> frequency then Some (FrequencyInvalid field)
      else if parsePolicyClock (ps_At s) = None then Some (ClockInvalid field)
      else if \<not> duration_in 0 (24 * hour) (ps_Jitter s) then Some (JitterInvalid field)
      else if (case ParseDuration (ps_CatchUp s) of None \<Rightarrow> True | Some d \<Rightarrow> d \<le> 0) then Some (CatchUpInvalid field)
      else None)"

section \<open>Maintenance windows\<close>

definition window_identity :: "maintenance_window \<Rightarrow> string" where
  "window_identity w = (if mw_ID w = [] then mw_Name w else mw_ID w)"

fun check_windows ::
  "('loc, 'sched) clock \<Rightarrow> nat \<Rightarrow> string list \<Rightarrow> maintenance_window list \<Rightarrow> schedule_error option" where
  "check_windows ck i seen [] = None"
| "check_windows ck i seen (w # ws) =
     (if trim_space (mw_Name w) = [] then Some (WindowNameRequired i)
      else if contains_elem seen (window_identity w) then Some (DuplicateWindow (window_identity w))
      else if ck_Parse ck (mw_Cron w) = None then Some (WindowCronInvalid i)
      else if \<not> duration_in 1 (7 * 24 * hour) (mw_Duration w) then Some (WindowDurationInvalid i)
      else check_windows ck (Suc i) (window_identity w # seen) ws)"

text \<open>The merge of the occurrences of two windows up to the horizon; \<open>fuel\<close> is the cap of the loop.\<close>

fun overlap_loop ::
  "(go_time \<Rightarrow> go_time) \<Rightarrow> (go_time \<Rightarrow> go_time) \<Rightarrow> duration \<Rightarrow> duration \<Rightarrow> go_time \<Rightarrow> nat
     \<Rightarrow> go_time \<Rightarrow> go_time \<Rightarrow> bool" where
  "overlap_loop nextL nextR dL dR horizon 0 l r = False"
| "overlap_loop nextL nextR dL dR horizon (Suc fuel) l r =
     (if horizon < l \<or> horizon < r then False
      else if l < r + dR \<and> r < l + dL then True
      else if l \<le> r then overlap_loop nextL nextR dL dR horizon fuel (nextL l) r
      else overlap_loop nextL nextR dL dR horizon fuel l (nextR r))"

definition maxOccurrencesPerPair :: nat where
  "maxOccurrencesPerPair = 2048"

text \<open>A window that was checked: its occurrences in the location and its duration.\<close>

definition window_next :: "('loc, 'sched) clock \<Rightarrow> 'loc \<Rightarrow> maintenance_window \<Rightarrow> go_time \<Rightarrow> go_time" where
  "window_next ck loc w t = (case ck_Parse ck (mw_Cron w) of None \<Rightarrow> 0 | Some s \<Rightarrow> ck_Next ck s loc t)"

definition window_duration :: "maintenance_window \<Rightarrow> duration" where
  "window_duration w = (case ParseDuration (mw_Duration w) of None \<Rightarrow> 0 | Some d \<Rightarrow> d)"

definition windows_overlap ::
  "('loc, 'sched) clock \<Rightarrow> 'loc \<Rightarrow> maintenance_window \<Rightarrow> maintenance_window \<Rightarrow> bool" where
  "windows_overlap ck loc a b =
     (let start = ck_Midnight ck loc - 1 in
      overlap_loop (window_next ck loc a) (window_next ck loc b) (window_duration a) (window_duration b)
        (ck_Horizon ck loc) maxOccurrencesPerPair (window_next ck loc a start) (window_next ck loc b start))"

fun overlap_with ::
  "('loc, 'sched) clock \<Rightarrow> 'loc \<Rightarrow> maintenance_window \<Rightarrow> maintenance_window list \<Rightarrow> schedule_error option" where
  "overlap_with ck loc a [] = None"
| "overlap_with ck loc a (b # ws) =
     (if windows_overlap ck loc a b then Some (WindowsOverlap (mw_Name a) (mw_Name b))
      else overlap_with ck loc a ws)"

fun validateMaintenanceWindowOverlaps ::
  "('loc, 'sched) clock \<Rightarrow> 'loc \<Rightarrow> maintenance_window list \<Rightarrow> schedule_error option" where
  "validateMaintenanceWindowOverlaps ck loc [] = None"
| "validateMaintenanceWindowOverlaps ck loc (a # ws) =
     (case overlap_with ck loc a ws of
        Some e \<Rightarrow> Some e
      | None \<Rightarrow> validateMaintenanceWindowOverlaps ck loc ws)"

section \<open>Normalization\<close>

definition fill_defaults :: "schedule_policy \<Rightarrow> schedule_policy" where
  "fill_defaults s =
     \<lparr>sp_Timezone = (if trim_space (sp_Timezone s) = [] then sp_Timezone DefaultSchedule else sp_Timezone s),
      sp_DailyDiscovery = fillPeriodic (sp_DailyDiscovery s) default_daily,
      sp_WeeklyCandidate = fillPeriodic (sp_WeeklyCandidate s) default_weekly,
      sp_Weekday = fill (sp_Weekday DefaultSchedule) (sp_Weekday s),
      sp_MaximumStableImageAge =
        (if trim_space (sp_MaximumStableImageAge s) = [] then sp_MaximumStableImageAge DefaultSchedule
         else sp_MaximumStableImageAge s),
      sp_ForceWeeklyRebuild = sp_ForceWeeklyRebuild s,
      sp_MaintenanceWindow = sp_MaintenanceWindow s\<rparr>"

definition weekdays :: "string list" where
  "weekdays = [''Sunday'', ''Monday'', ''Tuesday'', ''Wednesday'', ''Thursday'', ''Friday'', ''Saturday'']"

definition Normalize :: "('loc, 'sched) clock \<Rightarrow> schedule_policy \<Rightarrow> schedule_error + schedule_policy" where
  "Normalize ck s0 =
     (let s = fill_defaults s0 in
      case ck_Load ck (sp_Timezone s) of
        None \<Rightarrow> Inl TimezoneInvalid
      | Some loc \<Rightarrow>
          case first_error
            [validatePeriodic ''daily_discovery'' (sp_DailyDiscovery s) ''daily'',
             validatePeriodic ''weekly_candidate'' (sp_WeeklyCandidate s) ''weekly'',
             if contains_elem weekdays (sp_Weekday s) then None else Some WeekdayInvalid,
             if duration_in 1 (365 * 24 * hour) (sp_MaximumStableImageAge s) then None else Some StableAgeInvalid,
             if 32 < length (sp_MaintenanceWindow s) then Some TooManyWindows else None,
             check_windows ck 0 [] (sp_MaintenanceWindow s),
             validateMaintenanceWindowOverlaps ck loc (sp_MaintenanceWindow s)] of
            Some e \<Rightarrow> Inl e
          | None \<Rightarrow> Inr s)"

definition MaximumStableAge :: "('loc, 'sched) clock \<Rightarrow> schedule_policy \<Rightarrow> schedule_error + duration option" where
  "MaximumStableAge ck s0 =
     and_then (Normalize ck s0) (\<lambda>s. Inr (ParseDuration (sp_MaximumStableImageAge s)))"

section \<open>The state of the windows\<close>

record occurrence =
  oc_ID :: string
  oc_Name :: string
  oc_At :: go_time
  oc_Duration :: duration

definition NextMaintenanceWindows ::
  "('loc, 'sched) clock \<Rightarrow> go_time \<Rightarrow> schedule_policy \<Rightarrow> schedule_error + occurrence list" where
  "NextMaintenanceWindows ck now s0 =
     and_then (Normalize ck s0) (\<lambda>s.
       case ck_Load ck (sp_Timezone s) of
         None \<Rightarrow> Inl TimezoneInvalid
       | Some loc \<Rightarrow>
           Inr (sort_key (\<lambda>o'. (oc_At o', oc_Name o'))
             (map (\<lambda>w. \<lparr>oc_ID = mw_ID w, oc_Name = mw_Name w, oc_At = window_next ck loc w now,
                        oc_Duration = window_duration w\<rparr>) (sp_MaintenanceWindow s))))"

text \<open>The loop over the occurrences that may still be open; it does not end if the library kept
  returning times that do not grow.\<close>

partial_function (option) open_loop ::
  "(go_time \<Rightarrow> go_time) \<Rightarrow> duration \<Rightarrow> go_time \<Rightarrow> go_time \<Rightarrow> bool option" where
  "open_loop next d now occ =
     (if occ = 0 \<or> now < occ then Some False
      else if now < occ + d then Some True
      else open_loop next d now (next occ))"

declare open_loop.simps [code]

fun open_windows ::
  "('loc, 'sched) clock \<Rightarrow> 'loc \<Rightarrow> go_time \<Rightarrow> maintenance_window list \<Rightarrow> string list option" where
  "open_windows ck loc now [] = Some []"
| "open_windows ck loc now (w # ws) =
     (case open_loop (window_next ck loc w) (window_duration w) now
             (window_next ck loc w (now - window_duration w - 1)) of
        None \<Rightarrow> None
      | Some is_open \<Rightarrow>
          map_option (\<lambda>ids. if is_open
              then (if trim_space (mw_ID w) = [] then mw_Name w else trim_space (mw_ID w)) # ids
              else ids) (open_windows ck loc now ws))"

text \<open>\<open>None\<close> is a call that does not return.\<close>

definition MaintenanceWindowStatus ::
  "('loc, 'sched) clock \<Rightarrow> go_time \<Rightarrow> schedule_policy \<Rightarrow> (schedule_error + bool \<times> string list) option" where
  "MaintenanceWindowStatus ck now s0 =
     (case Normalize ck s0 of
        Inl e \<Rightarrow> Some (Inl e)
      | Inr s \<Rightarrow>
          if sp_MaintenanceWindow s = [] then Some (Inr (True, []))
          else case ck_Load ck (sp_Timezone s) of
                 None \<Rightarrow> Some (Inl TimezoneInvalid)
               | Some loc \<Rightarrow>
                   map_option (\<lambda>ids. Inr (ids \<noteq> [], sort ids))
                     (open_windows ck loc now (sp_MaintenanceWindow s)))"

section \<open>What the cron library promises\<close>

text \<open>\<open>Next\<close> returns the first occurrence after a time, and the zero time when there is none.\<close>

definition cron_law :: "(go_time \<Rightarrow> go_time) \<Rightarrow> go_time set \<Rightarrow> bool" where
  "cron_law next occs \<longleftrightarrow>
     0 \<notin> occs \<and>
     (\<forall>t. if next t = 0 then \<forall>x \<in> occs. x \<le> t
          else t < next t \<and> next t \<in> occs \<and> (\<forall>x \<in> occs. t < x \<longrightarrow> next t \<le> x))"

lemma cron_lawD:
  assumes "cron_law next occs"
  shows "next t = 0 \<Longrightarrow> x \<in> occs \<Longrightarrow> x \<le> t"
    and "next t \<noteq> 0 \<Longrightarrow> t < next t"
    and "next t \<noteq> 0 \<Longrightarrow> next t \<in> occs"
    and "next t \<noteq> 0 \<Longrightarrow> x \<in> occs \<Longrightarrow> t < x \<Longrightarrow> next t \<le> x"
  using assms unfolding cron_law_def by meson+

text \<open>A window is open at a time inside one of its occurrences.\<close>

definition open_at :: "go_time set \<Rightarrow> duration \<Rightarrow> go_time \<Rightarrow> bool" where
  "open_at occs d now \<longleftrightarrow> (\<exists>x \<in> occs. x \<le> now \<and> now < x + d)"

lemma open_loop_gen:
  assumes law: "cron_law next occs"
  shows "(\<forall>x \<in> occs. x \<le> t \<longrightarrow> x + d \<le> now) \<Longrightarrow> open_loop next d now (next t) = Some (open_at occs d now)"
proof (induction "nat (now - t)" arbitrary: t rule: less_induct)
  case less
  note past = less.prems and D = cron_lawD [OF law]
  consider (never) "next t = 0" | (late) "next t \<noteq> 0" "now < next t"
    | (inside) "next t \<noteq> 0" "next t \<le> now" "now < next t + d"
    | (over) "next t \<noteq> 0" "next t \<le> now" "next t + d \<le> now"
    by linarith
  then show ?case
  proof cases
    case never
    have "\<not> open_at occs d now" using D(1) [OF never] past by (force simp: open_at_def)
    then show ?thesis using never by (simp add: open_loop.simps)
  next
    case late
    have "\<not> open_at occs d now" using D(4) [OF late(1)] late(2) past by (force simp: open_at_def)
    then show ?thesis using late by (simp add: open_loop.simps)
  next
    case inside
    then have "open_at occs d now" using D(3) by (auto simp: open_at_def)
    then show ?thesis using inside by (simp add: open_loop.simps)
  next
    case over
    have "\<forall>x \<in> occs. x \<le> next t \<longrightarrow> x + d \<le> now" using D(4) [OF over(1)] over(3) past by force
    then have "open_loop next d now (next (next t)) = Some (open_at occs d now)"
      using D(2) [OF over(1)] over(2) by (intro less.hyps) auto
    then show ?thesis using over by (subst open_loop.simps) simp
  qed
qed

lemma open_loop_exact:
  assumes "cron_law next occs" "0 < d"
  shows "open_loop next d now (next (now - d - 1)) = Some (open_at occs d now)"
  using assms(2) by (intro open_loop_gen [OF assms(1)]) auto

lemma duration_in_positive: "duration_in 1 hi (mw_Duration w) \<Longrightarrow> 0 < window_duration w"
  by (simp add: duration_in_def window_duration_def split: option.splits)

lemma check_windows_duration:
  "check_windows ck i seen ws = None \<Longrightarrow> w \<in> set ws \<Longrightarrow> 0 < window_duration w"
  by (induction ws arbitrary: i seen) (auto simp: duration_in_positive split: if_splits)

lemma Normalize_windows:
  assumes "Normalize ck s0 = Inr s"
  shows "check_windows ck 0 [] (sp_MaintenanceWindow s) = None" "ck_Load ck (sp_Timezone s) \<noteq> None"
    "sp_MaintenanceWindow s = sp_MaintenanceWindow s0"
  using assms by (auto simp: Normalize_def Let_def fill_defaults_def split: option.splits)

definition display_identity :: "maintenance_window \<Rightarrow> string" where
  "display_identity w = (if trim_space (mw_ID w) = [] then mw_Name w else trim_space (mw_ID w))"

lemma open_windows_exact:
  assumes "\<forall>w \<in> set ws. cron_law (window_next ck loc w) (occs w) \<and> 0 < window_duration w"
  shows "open_windows ck loc now ws =
     Some (map display_identity (filter (\<lambda>w. open_at (occs w) (window_duration w) now) ws))"
  using assms by (induction ws) (auto simp: open_loop_exact display_identity_def)

text \<open>C21: Where the library returns the next occurrence of each window's schedule, the status call
  returns for every accepted schedule, and reports as open exactly the windows of which an occurrence
  contains the present; without windows operation is unrestricted.\<close>

theorem window_status_exact:
  assumes "Normalize ck s0 = Inr s" "ck_Load ck (sp_Timezone s) = Some loc"
    and "\<forall>w \<in> set (sp_MaintenanceWindow s). cron_law (window_next ck loc w) (occs w)"
  shows "MaintenanceWindowStatus ck now s0 =
     Some (Inr (if sp_MaintenanceWindow s = [] then (True, [])
                else let opened = filter (\<lambda>w. open_at (occs w) (window_duration w) now) (sp_MaintenanceWindow s)
                     in (opened \<noteq> [], sort (map display_identity opened))))"
proof -
  have "\<forall>w \<in> set (sp_MaintenanceWindow s). cron_law (window_next ck loc w) (occs w) \<and> 0 < window_duration w"
    using assms(3) check_windows_duration [OF Normalize_windows(1) [OF assms(1)]] by blast
  then show ?thesis
    using assms(1,2) open_windows_exact [of "sp_MaintenanceWindow s" ck loc occs now]
    by (simp add: MaintenanceWindowStatus_def Let_def)
qed

section \<open>The overlap check\<close>

text \<open>What the check relies on of the library from \<open>a\<close> to \<open>b\<close>: a schedule either has a next occurrence
  from each of these times on, or it never fires (as the thirtieth of February) and the answer is
  always the zero time.\<close>

definition fires :: "(go_time \<Rightarrow> go_time) \<Rightarrow> go_time set \<Rightarrow> go_time \<Rightarrow> go_time \<Rightarrow> bool" where
  "fires next occs a b \<longleftrightarrow>
     (\<forall>t. a \<le> t \<and> t \<le> b \<longrightarrow> t < next t \<and> next t \<in> occs \<and> (\<forall>x \<in> occs. t < x \<longrightarrow> next t \<le> x))"

definition never_fires :: "(go_time \<Rightarrow> go_time) \<Rightarrow> go_time set \<Rightarrow> bool" where
  "never_fires next occs \<longleftrightarrow> occs = {} \<and> (\<forall>t. next t = 0)"

lemma firesD:
  assumes "fires next occs a b" "a \<le> t" "t \<le> b"
  shows "t < next t" "next t \<in> occs" "x \<in> occs \<Longrightarrow> t < x \<Longrightarrow> next t \<le> x"
  using assms by (auto simp: fires_def)

definition between :: "go_time set \<Rightarrow> go_time \<Rightarrow> go_time \<Rightarrow> go_time set" where
  "between occs a b = {x \<in> occs. a \<le> x \<and> x \<le> b}"

lemma finite_between [simp]: "finite (between occs a b)"
  by (rule finite_subset [of _ "{a..b}"]) (auto simp: between_def)

lemma between_next:
  assumes "fires next occs a b" "x \<in> occs" "a \<le> x" "x \<le> b"
  shows "card (between occs x b) = Suc (card (between occs (next x) b))"
proof -
  note D = firesD [OF assms(1,3,4)]
  have "between occs x b = insert x (between occs (next x) b)"
    using D(1) D(3) assms(2,4) by (fastforce simp: between_def)
  moreover have "x \<notin> between occs (next x) b" using D(1) by (simp add: between_def)
  ultimately show ?thesis by simp
qed

definition overlapping ::
  "go_time set \<Rightarrow> go_time set \<Rightarrow> duration \<Rightarrow> duration \<Rightarrow> go_time \<Rightarrow> go_time \<Rightarrow> go_time \<Rightarrow> bool" where
  "overlapping occsL occsR dL dR horizon l r \<longleftrightarrow>
     (\<exists>x \<in> between occsL l horizon. \<exists>y \<in> between occsR r horizon. x < y + dR \<and> y < x + dL)"

lemma overlapping_advance_left:
  assumes "fires nextL occsL a horizon" "l \<in> occsL" "a \<le> l" "l \<le> horizon" "l \<le> r" "0 < dR"
    and "\<not> (l < r + dR \<and> r < l + dL)"
  shows "overlapping occsL occsR dL dR horizon l r = overlapping occsL occsR dL dR horizon (nextL l) r"
proof -
  note D = firesD [OF assms(1,3,4)]
  have "x = l \<or> nextL l \<le> x" if "x \<in> occsL" "l \<le> x" for x
    using D(3) [OF that(1)] that(2) by linarith
  moreover have "\<not> (y < l + dL)" if "r \<le> y" for y using assms(5-7) that by linarith
  ultimately show ?thesis
    using D(1) unfolding overlapping_def between_def by (smt (verit) mem_Collect_eq)
qed

lemma overlapping_sym:
  "overlapping occsL occsR dL dR horizon l r = overlapping occsR occsL dR dL horizon r l"
  by (auto simp: overlapping_def)

lemma overlap_loop_exact:
  assumes L: "fires nextL occsL a horizon" and R: "fires nextR occsR a horizon"
    and d: "0 < dL" "0 < dR"
  shows "l \<in> occsL \<Longrightarrow> r \<in> occsR \<Longrightarrow> a \<le> l \<Longrightarrow> a \<le> r \<Longrightarrow>
     card (between occsL l horizon) + card (between occsR r horizon) \<le> Suc fuel \<Longrightarrow>
     overlap_loop nextL nextR dL dR horizon fuel l r \<longleftrightarrow> overlapping occsL occsR dL dR horizon l r"
proof (induction fuel arbitrary: l r)
  case 0
  have "between occsL l horizon = {} \<or> between occsR r horizon = {}"
    using "0.prems"(5) by (metis One_nat_def add_is_1 card_0_eq finite_between le_Suc_eq le_zero_eq add_is_0)
  then show ?case by (auto simp: overlapping_def)
next
  case (Suc fuel)
  consider (past) "horizon < l \<or> horizon < r"
    | (now) "l \<le> horizon" "r \<le> horizon" "l < r + dR" "r < l + dL"
    | (left) "l \<le> horizon" "r \<le> horizon" "\<not> (l < r + dR \<and> r < l + dL)" "l \<le> r"
    | (right) "l \<le> horizon" "r \<le> horizon" "\<not> (l < r + dR \<and> r < l + dL)" "r < l"
    by linarith
  then show ?case
  proof cases
    case past
    then show ?thesis by (auto simp: overlapping_def between_def)
  next
    case now
    then have "overlapping occsL occsR dL dR horizon l r"
      using Suc.prems(1,2) by (auto simp: overlapping_def between_def)
    then show ?thesis using now by simp
  next
    case left
    note D = firesD [OF L Suc.prems(3) left(1)]
    have "card (between occsL (nextL l) horizon) + card (between occsR r horizon) \<le> Suc fuel"
      using Suc.prems(5) between_next [OF L Suc.prems(1,3) left(1)] by simp
    then show ?thesis
      using Suc.IH [OF D(2) Suc.prems(2) _ Suc.prems(4)] D(1) Suc.prems(3) left
        overlapping_advance_left [OF L Suc.prems(1,3) left(1,4) d(2) left(3)] by auto
  next
    case right
    note D = firesD [OF R Suc.prems(4) right(2)]
    have "card (between occsL l horizon) + card (between occsR (nextR r) horizon) \<le> Suc fuel"
      using Suc.prems(5) between_next [OF R Suc.prems(2,4) right(2)] by simp
    moreover have "overlapping occsL occsR dL dR horizon l r = overlapping occsL occsR dL dR horizon l (nextR r)"
      using overlapping_advance_left [OF R Suc.prems(2,4) right(2) _ d(1), of l dR occsL] right overlapping_sym
      by auto
    ultimately show ?thesis using Suc.IH [OF Suc.prems(1) D(2) Suc.prems(3)] D(1) Suc.prems(4) right by auto
  qed
qed

lemma between_first:
  assumes "fires next occs (t - 1) b" "t \<le> b + 1"
  shows "between occs (next (t - 1)) b = between occs t b"
  using firesD [OF assms(1), of "t - 1"] assms(2) by (fastforce simp: between_def)

text \<open>Against a schedule that never fires, whose time stays zero, the loop finds nothing, unless the
  other side is at the zero time as well.\<close>

lemma overlap_loop_never:
  assumes "0 \<le> dL" "0 \<le> dR"
  shows "dL \<le> r \<Longrightarrow> 0 \<le> r \<Longrightarrow> \<not> overlap_loop (\<lambda>_. 0) nextR dL dR horizon fuel 0 r"
    "dR < l \<Longrightarrow> \<not> overlap_loop nextL (\<lambda>_. 0) dL dR horizon fuel l 0"
  using assms by (induction fuel) auto

text \<open>C31: The overlap check of two windows whose schedules together have no more occurrences in the 400
  days than the cap allows, each of which either has a next occurrence from every time of the horizon
  on or never fires. It rejects them exactly when some occurrence of one meets some occurrence of the
  other within the horizon, however long the windows are (looking only at the current pair and
  advancing the earlier one misses nothing), or when neither of them ever fires: then both times are
  the zero time of the library, and the check takes them for occurrences that meet.\<close>

theorem overlap_check_exact:
  fixes ck :: "('loc, 'sched) clock" and loc :: 'loc
  defines "m \<equiv> ck_Midnight ck loc" and "e \<equiv> ck_Horizon ck loc"
  assumes "never_fires (window_next ck loc a) occsA \<or> fires (window_next ck loc a) occsA (m - 1) e"
    and "never_fires (window_next ck loc b) occsB \<or> fires (window_next ck loc b) occsB (m - 1) e"
    and "0 < window_duration a" "window_duration a < m" "0 < window_duration b" "window_duration b < m" "m \<le> e"
    and "card (between occsA m e) + card (between occsB m e) \<le> Suc maxOccurrencesPerPair"
  shows "windows_overlap ck loc a b \<longleftrightarrow>
         overlapping occsA occsB (window_duration a) (window_duration b) e m m \<or>
         never_fires (window_next ck loc a) occsA \<and> never_fires (window_next ck loc b) occsB"
proof -
  let ?A = "window_next ck loc a" and ?B = "window_next ck loc b"
  have check: "windows_overlap ck loc a b =
      overlap_loop ?A ?B (window_duration a) (window_duration b) e maxOccurrencesPerPair (?A (m - 1)) (?B (m - 1))"
    by (simp add: windows_overlap_def m_def e_def Let_def)
  have zero: "n = (\<lambda>_. 0) \<and> occs = {}" if "never_fires n occs" for n occs
    using that by (auto simp: never_fires_def)
  have start: "m \<le> n (m - 1) \<and> n (m - 1) \<in> occs \<and> between occs (n (m - 1)) e = between occs m e"
    if "fires n occs (m - 1) e" for n occs
    using firesD [OF that, of "m - 1"] between_first [OF that] assms(9) by auto
  consider (both) "never_fires ?A occsA" "never_fires ?B occsB"
    | (left) "never_fires ?A occsA" "fires ?B occsB (m - 1) e" "\<not> never_fires ?B occsB"
    | (right) "fires ?A occsA (m - 1) e" "never_fires ?B occsB" "\<not> never_fires ?A occsA"
    | (neither) "fires ?A occsA (m - 1) e" "fires ?B occsB (m - 1) e" "\<not> never_fires ?A occsA"
    using assms(3,4) by blast
  then show ?thesis
  proof cases
    case both
    then show ?thesis
      using assms(5-9) zero [OF both(1)] zero [OF both(2)] by (simp add: check maxOccurrencesPerPair_def numeral_eq_Suc)
  next
    case left
    then show ?thesis
      using assms(5-9) zero [OF left(1)] start [OF left(2)] overlap_loop_never(1)
      by (simp add: check overlapping_def between_def)
  next
    case right
    then show ?thesis
      using assms(5-9) zero [OF right(2)] start [OF right(1)] overlap_loop_never(2)
      by (simp add: check overlapping_def between_def)
  next
    case neither
    note sA = start [OF neither(1)] and sB = start [OF neither(2)]
    show ?thesis
      using overlap_loop_exact [OF neither(1,2) assms(5,7), of "?A (m - 1)" "?B (m - 1)" maxOccurrencesPerPair]
        sA sB assms(10) neither(3) by (simp add: check overlapping_def)
  qed
qed

section \<open>The theorems at concrete inputs\<close>

text \<open>A schedule with one occurrence in every period.\<close>

definition next_every :: "duration \<Rightarrow> duration \<Rightarrow> go_time \<Rightarrow> go_time" where
  "next_every period offset t = t + 1 + (offset - (t + 1)) mod period"

definition every :: "duration \<Rightarrow> duration \<Rightarrow> go_time set" where
  "every period offset = {x. x mod period = offset}"

lemma next_every_props:
  assumes "0 < offset" "offset < period"
  shows "t < next_every period offset t" "next_every period offset t \<in> every period offset"
    "x \<in> every period offset \<Longrightarrow> t < x \<Longrightarrow> next_every period offset t \<le> x"
proof -
  let ?n = "next_every period offset t"
  have r: "0 \<le> (offset - (t + 1)) mod period" "(offset - (t + 1)) mod period < period" using assms by auto
  then show "t < ?n" by (simp add: next_every_def)
  have "?n mod period = (t + 1 + (offset - (t + 1))) mod period"
    unfolding next_every_def by (rule mod_add_right_eq)
  then have m: "?n mod period = offset" using assms by simp
  then show "?n \<in> every period offset" by (simp add: every_def)
  assume x: "x \<in> every period offset" "t < x"
  show "?n \<le> x"
  proof (rule ccontr)
    assume "\<not> ?n \<le> x"
    moreover have "?n mod period = x mod period" using m x(1) by (simp add: every_def)
    then have "period dvd ?n - x" by (simp only: mod_eq_dvd_iff)
    ultimately have "period \<le> ?n - x" by (intro zdvd_imp_le) auto
    then show False using r(2) x(2) by (simp add: next_every_def)
  qed
qed

lemma every_law:
  assumes "0 < offset" "offset < period"
  shows "cron_law (next_every period offset) (every period offset)" "fires (next_every period offset) (every period offset) a b"
proof -
  have zero: "0 \<notin> every period offset" using assms by (simp add: every_def)
  then have "next_every period offset t \<noteq> 0" for t using next_every_props(2) [OF assms] by metis
  then show "cron_law (next_every period offset) (every period offset)"
    using zero next_every_props [OF assms] by (auto simp: cron_law_def)
  show "fires (next_every period offset) (every period offset) a b"
    using next_every_props [OF assms] by (auto simp: fires_def)
qed

text \<open>A clock with one location and schedules of one day and of five days, and the windows on them.\<close>

definition sample_clock :: "(unit, duration \<times> duration) clock" where
  "sample_clock =
     \<lparr>ck_Load = (\<lambda>s. Some ()),
      ck_Parse = (\<lambda>s. if s = ''daily'' then Some (24 * hour, 3 * hour)
                      else if s = ''fifth day'' then Some (120 * hour, 4 * hour) else None),
      ck_Next = (\<lambda>(period, offset) loc t. next_every period offset t),
      ck_Midnight = (\<lambda>loc. 120 * hour), ck_Horizon = (\<lambda>loc. 144 * hour)\<rparr>"

definition daily_window :: maintenance_window where
  "daily_window = \<lparr>mw_ID = ''d'', mw_Name = ''daily'', mw_Cron = ''daily'', mw_Duration = ''2h''\<rparr>"

definition fifth_day_window :: maintenance_window where
  "fifth_day_window = \<lparr>mw_ID = [], mw_Name = ''fifth'', mw_Cron = ''fifth day'', mw_Duration = ''1h''\<rparr>"

lemma sample_windows:
  "window_next sample_clock () daily_window = next_every (24 * hour) (3 * hour)"
  "window_next sample_clock () fifth_day_window = next_every (120 * hour) (4 * hour)"
  by (simp_all add: window_next_def sample_clock_def daily_window_def fifth_day_window_def fun_eq_iff)

lemma sample_durations: "window_duration daily_window = 2 * hour" "window_duration fifth_day_window = hour"
  by code_simp+

lemma hour_pos [simp]: "0 < hour"
  by (simp add: duration_defs)

definition sample_policy :: schedule_policy where
  "sample_policy = DefaultSchedule\<lparr>sp_MaintenanceWindow := [daily_window]\<rparr>"

text \<open>Half past three is inside the daily window.\<close>

theorem window_status_exact_witness:
  "MaintenanceWindowStatus sample_clock (3 * hour + 30 * minute) sample_policy = Some (Inr (True, [''d'']))"
proof -
  have n: "Normalize sample_clock sample_policy = Inr sample_policy" by code_simp
  have law: "\<forall>w \<in> set (sp_MaintenanceWindow sample_policy).
      cron_law (window_next sample_clock () w) (every (24 * hour) (3 * hour))"
    using every_law(1) [of "3 * hour" "24 * hour"] by (simp add: sample_policy_def sample_windows)
  have "open_at (every (24 * hour) (3 * hour)) (2 * hour) (3 * hour + 30 * minute)"
    unfolding open_at_def by (intro bexI [of _ "3 * hour"]) (auto simp: every_def duration_defs)
  then have "filter (\<lambda>w. open_at (every (24 * hour) (3 * hour)) (window_duration w) (3 * hour + 30 * minute))
      (sp_MaintenanceWindow sample_policy) = [daily_window]"
    by (simp add: sample_policy_def sample_durations)
  moreover have "sp_MaintenanceWindow sample_policy = [daily_window]" by (simp add: sample_policy_def)
  moreover have "display_identity daily_window = ''d''" by code_simp
  moreover have "ck_Load sample_clock (sp_Timezone sample_policy) = Some ()" by (simp add: sample_clock_def)
  ultimately show ?thesis
    using window_status_exact [OF n _ law, of "3 * hour + 30 * minute"] by (simp add: Let_def)
qed

text \<open>Once in five days the two windows meet.\<close>

lemma card_every:
  assumes "x \<in> every p k" "0 < p" "b < x + p" "x - p < a"
  shows "card (between (every p k) a b) \<le> 1"
proof -
  have "between (every p k) a b \<subseteq> {x}"
  proof
    fix y assume y: "y \<in> between (every p k) a b"
    then have "y mod p = x mod p" using assms(1) by (simp add: between_def every_def)
    then have d: "p dvd y - x" by (simp only: mod_eq_dvd_iff)
    have "\<bar>y - x\<bar> < p" using y assms(3,4) by (auto simp: between_def)
    then have "y - x = 0" using d dvd_imp_le_int [of "y - x" p] assms(2) by fastforce
    then show "y \<in> {x}" by simp
  qed
  then have "card (between (every p k) a b) \<le> card {x}" by (intro card_mono) auto
  then show ?thesis by simp
qed

theorem overlap_check_exact_witness:
  "windows_overlap sample_clock () daily_window fifth_day_window"
proof -
  have A: "card (between (every (24 * hour) (3 * hour)) (120 * hour) (144 * hour)) \<le> 1"
    by (rule card_every [of "123 * hour"]) (auto simp: every_def duration_defs)
  have B: "card (between (every (120 * hour) (4 * hour)) (120 * hour) (144 * hour)) \<le> 1"
    by (rule card_every [of "124 * hour"]) (auto simp: every_def duration_defs)
  have meet: "overlapping (every (24 * hour) (3 * hour)) (every (120 * hour) (4 * hour)) (2 * hour) hour
      (144 * hour) (120 * hour) (120 * hour)"
    unfolding overlapping_def
    by (intro bexI [of _ "123 * hour"] bexI [of _ "124 * hour"]) (auto simp: between_def every_def duration_defs)
  have clock: "ck_Midnight sample_clock () = 120 * hour" "ck_Horizon sample_clock () = 144 * hour"
    by (simp_all add: sample_clock_def)
  show ?thesis
    using overlap_check_exact [of sample_clock "()" daily_window "every (24 * hour) (3 * hour)" fifth_day_window
        "every (120 * hour) (4 * hour)"] A B meet every_law(2) [of "3 * hour" "24 * hour"]
      every_law(2) [of "4 * hour" "120 * hour"]
    by (simp add: sample_windows sample_durations clock maxOccurrencesPerPair_def)
qed

text \<open>Two windows that never open, on the thirtieth and the thirty-first of February, are rejected.\<close>

definition february_clock :: "(unit, unit) clock" where
  "february_clock =
     \<lparr>ck_Load = (\<lambda>s. Some ()), ck_Parse = (\<lambda>s. Some ()), ck_Next = (\<lambda>_ _ _. 0),
      ck_Midnight = (\<lambda>loc. 120 * hour), ck_Horizon = (\<lambda>loc. 144 * hour)\<rparr>"

lemma idle_windows_rejected:
  "validateMaintenanceWindowOverlaps february_clock ()
     [\<lparr>mw_ID = ''a'', mw_Name = ''a'', mw_Cron = ''0 0 30 2 *'', mw_Duration = ''1h''\<rparr>,
      \<lparr>mw_ID = ''b'', mw_Name = ''b'', mw_Cron = ''0 0 31 2 *'', mw_Duration = ''1h''\<rparr>] =
   Some (WindowsOverlap ''a'' ''b'')"
  by code_simp

section \<open>The cap of the overlap check\<close>

text \<open>A window of a minute in every other minute and one minute of the sixtieth day: they meet within
  the horizon, and the check gives up before it gets there.\<close>

definition minute_clock :: "(unit, duration \<times> duration) clock" where
  "minute_clock =
     \<lparr>ck_Load = (\<lambda>s. Some ()),
      ck_Parse = (\<lambda>s. if s = ''1-59/2 * * * *'' then Some (2 * minute, minute)
                      else Some (10000 * hour, 1440 * hour + minute)),
      ck_Next = (\<lambda>(period, offset) loc t. next_every period offset t),
      ck_Midnight = (\<lambda>loc. 0), ck_Horizon = (\<lambda>loc. 9600 * hour)\<rparr>"

definition odd_minutes :: maintenance_window where
  "odd_minutes = \<lparr>mw_ID = ''o'', mw_Name = ''odd'', mw_Cron = ''1-59/2 * * * *'', mw_Duration = ''1m''\<rparr>"

definition sixtieth_day :: maintenance_window where
  "sixtieth_day = \<lparr>mw_ID = ''s'', mw_Name = ''sixtieth'', mw_Cron = ''1 0 1 3 *'', mw_Duration = ''1m''\<rparr>"

lemma capped_check_misses_overlap:
  "\<not> windows_overlap minute_clock () odd_minutes sixtieth_day \<and>
   overlapping (every (2 * minute) minute) (every (10000 * hour) (1440 * hour + minute)) minute minute
     (9600 * hour) 0 0"
proof
  show "\<not> windows_overlap minute_clock () odd_minutes sixtieth_day" by code_simp
  show "overlapping (every (2 * minute) minute) (every (10000 * hour) (1440 * hour + minute)) minute minute
      (9600 * hour) 0 0"
    unfolding overlapping_def
    by (intro bexI [of _ "1440 * hour + minute"] bexI [of _ "1440 * hour + minute"])
      (auto simp: between_def every_def duration_defs)
qed

end
