(* ===== verification/ScanQueue.thy ===== *)
theory ScanQueue
  imports FindingDiff Leases
begin

text \<open>
  The durable queue of scans (\<open>internal/db/postgres_scanqueue.go\<close>, \<open>finalizeScan\<close>, \<open>UpdateScan\<close>, the
  event policy of \<open>scan_event_policy.go\<close>) and its worker (\<open>internal/scanjob/worker.go\<close>). A table is the
  list of its rows; every operation is one transaction, from the database to its result and the new
  database. A fresh UUID and the clock are arguments. The columns that no operation of the queue reads
  or decides on (the request, the profile, the lineage of a scan) are left out.
\<close>

section \<open>Rows\<close>

record queue_scan = scan +
  qs_UserID :: string
  qs_IdempotencyKey :: string
  qs_DirtyState :: string
  qs_Phase :: string
  qs_ClaimedBy :: string
  qs_LeaseToken :: string
  qs_LeaseExpiresAt :: "go_time option"
  qs_HeartbeatAt :: "go_time option"
  qs_Attempt :: int
  qs_MaxAttempts :: int
  qs_CancelRequestedAt :: "go_time option"
  qs_FailureCode :: string
  qs_FailureMessage :: string
  qs_ExecutionBackend :: string
  qs_ScannerReleaseID :: string
  qs_ReleaseManifestDigest :: string
  qs_ToolsErrors :: string
  qs_FindingCount :: int
  qs_CoverageSummary :: string
  qs_FindingsRevision :: int
  qs_StartedAt :: "go_time option"
  qs_CompletedAt :: "go_time option"
  qs_CreatedAt :: go_time
  qs_UpdatedAt :: go_time

record queued_finding =
  qf_Finding :: finding
  qf_ClusterID :: string

record scan_event =
  se_ID :: string
  se_ScanID :: string
  se_Sequence :: int
  se_EventType :: string
  se_DataJSON :: string
  se_LeaseToken :: string
  se_CreatedAt :: go_time

text \<open>The lease token of a run record is not a column: it only guards the write.\<close>

record run_record =
  rr_ID :: string
  rr_ScanID :: string
  rr_ToolName :: string
  rr_Status :: string
  rr_Category :: string
  rr_Image :: string
  rr_ImageDigest :: string
  rr_ScannerReleaseID :: string
  rr_ReleaseManifestDigest :: string
  rr_Version :: string
  rr_CommandJSON :: string
  rr_ExitCode :: int
  rr_DurationMS :: int
  rr_FindingCount :: int
  rr_ErrorMessage :: string
  rr_ParserStatus :: string
  rr_ParserMessage :: string
  rr_RuntimeBackend :: string
  rr_RuntimeRef :: string
  rr_Attempt :: int
  rr_LeaseToken :: string
  rr_CancelRequestedAt :: "go_time option"
  rr_RequestedScope :: string
  rr_EffectiveScope :: string
  rr_ScopeMessage :: string
  rr_StartedAt :: "go_time option"
  rr_FinishedAt :: "go_time option"
  rr_CreatedAt :: go_time
  rr_UpdatedAt :: go_time

record scan_worker =
  sw_ID :: string
  sw_Backend :: string
  sw_Status :: string
  sw_Capacity :: int
  sw_ActiveScans :: int
  sw_Version :: string
  sw_CapabilitiesJSON :: string
  sw_HeartbeatAt :: go_time
  sw_StartedAt :: go_time
  sw_UpdatedAt :: go_time

text \<open>The suppressions are kept in the order of \<open>loadFindingSuppressions\<close>, the newest first.\<close>

record queue_db =
  qd_Scans :: "queue_scan list"
  qd_Findings :: "queued_finding list"
  qd_Suppressions :: "durable_suppression list"
  qd_Events :: "scan_event list"
  qd_RunRecords :: "run_record list"
  qd_Workers :: "scan_worker list"

datatype queue_error =
    QueueNoRows | QueueDuplicate | QueueForeignKey | RepositoryMismatch | SnapshotFailed suppress_error
  | QueueStaleLease | EventDropped

text \<open>\<open>UPDATE scans SET f WHERE cond\<close>, and whether exactly one row was affected.\<close>

definition exec_scans ::
  "(queue_scan \<Rightarrow> bool) \<Rightarrow> (queue_scan \<Rightarrow> queue_scan) \<Rightarrow> queue_db \<Rightarrow> bool \<times> queue_db" where
  "exec_scans cond f db =
     (length (filter cond (qd_Scans db)) = 1, db\<lparr>qd_Scans := update_where cond f (qd_Scans db)\<rparr>)"

definition coalesce :: "'a option \<Rightarrow> 'a \<Rightarrow> 'a option" where
  "coalesce a b = (case a of None \<Rightarrow> Some b | Some x \<Rightarrow> Some x)"

section \<open>Creating, claiming and finishing\<close>

definition prepareScanForWrite :: "queue_scan \<Rightarrow> queue_scan" where
  "prepareScanForWrite s =
     s\<lparr>qs_Phase := (if qs_Phase s = [] then ''queued'' else qs_Phase s),
       qs_MaxAttempts := (if qs_MaxAttempts s \<le> 0 then 2 else qs_MaxAttempts s),
       sc_ToolsSelected := (if sc_ToolsSelected s = [] then ''[]'' else sc_ToolsSelected s),
       sc_ToolsCompleted := (if sc_ToolsCompleted s = [] then ''[]'' else sc_ToolsCompleted s),
       sc_ToolsFailed := (if sc_ToolsFailed s = [] then ''[]'' else sc_ToolsFailed s),
       qs_ToolsErrors := (if qs_ToolsErrors s = [] then ''{}'' else qs_ToolsErrors s)\<rparr>"

text \<open>A scan that does not belong to a remediation. The ignore policy and the revision of the findings
  are not among the inserted columns and take their defaults.\<close>

definition CreateScan :: "go_time \<Rightarrow> queue_scan \<Rightarrow> queue_db \<Rightarrow> queue_error + queue_scan \<times> queue_db" where
  "CreateScan now s db =
     (let row = (prepareScanForWrite (s\<lparr>qs_CreatedAt := now, qs_UpdatedAt := now\<rparr>))
                  \<lparr>sc_IgnorePolicyJSON := [], qs_FindingsRevision := 0\<rparr> in
      if contains_elem (map sc_ID (qd_Scans db)) (sc_ID s) then Inl QueueDuplicate
      else Inr (row, db\<lparr>qd_Scans := qd_Scans db @ [row]\<rparr>))"

definition FindScanByIdempotencyKey :: "string \<Rightarrow> string \<Rightarrow> queue_db \<Rightarrow> queue_error + queue_scan" where
  "FindScanByIdempotencyKey userID key db =
     (case filter (\<lambda>s. qs_UserID s = userID \<and> qs_IdempotencyKey s = key) (qd_Scans db) of
        [] \<Rightarrow> Inl QueueNoRows | s # _ \<Rightarrow> Inr s)"

definition claim_columns :: "string \<Rightarrow> go_time \<Rightarrow> string \<Rightarrow> string \<Rightarrow> go_time \<Rightarrow> queue_scan \<Rightarrow> queue_scan" where
  "claim_columns token now workerID backend leaseUntil s =
     s\<lparr>sc_Status := ScanStatusRunning, qs_Phase := ''preparing'', qs_ClaimedBy := workerID,
       qs_LeaseToken := token, qs_LeaseExpiresAt := Some leaseUntil, qs_HeartbeatAt := Some now,
       qs_Attempt := qs_Attempt s + 1, qs_ExecutionBackend := backend, qs_FailureCode := [],
       qs_FailureMessage := [], qs_CompletedAt := None, qs_StartedAt := coalesce (qs_StartedAt s) now,
       qs_UpdatedAt := now\<rparr>"

text \<open>\<open>FOR UPDATE SKIP LOCKED\<close> passes over the rows that other transactions have \<open>locked\<close>.\<close>

definition claimable :: "(string \<Rightarrow> bool) \<Rightarrow> queue_db \<Rightarrow> queue_scan list" where
  "claimable locked db =
     sort_key qs_CreatedAt
       (filter (\<lambda>s. sc_Status s = ScanStatusPending \<and> qs_CancelRequestedAt s = None \<and> \<not> locked (sc_ID s))
         (qd_Scans db))"

definition ClaimNextScan ::
  "(string \<Rightarrow> bool) \<Rightarrow> string \<Rightarrow> go_time \<Rightarrow> string \<Rightarrow> string \<Rightarrow> go_time \<Rightarrow> queue_db
     \<Rightarrow> queue_scan option \<times> queue_db" where
  "ClaimNextScan locked token now workerID backend leaseUntil db =
     (case claimable locked db of
        [] \<Rightarrow> (None, db)
      | s # _ \<Rightarrow>
          let f = claim_columns token now workerID backend leaseUntil in
          (Some (f s), snd (exec_scans (\<lambda>r. sc_ID r = sc_ID s) f db)))"

text \<open>The condition that every write under a lease repeats.\<close>

definition owned_by :: "string \<Rightarrow> string \<Rightarrow> queue_scan \<Rightarrow> bool" where
  "owned_by scanID token s \<longleftrightarrow>
     sc_ID s = scanID \<and> sc_Status s = ScanStatusRunning \<and> qs_LeaseToken s = token \<and>
     qs_CancelRequestedAt s = None"

definition StartScanExecution :: "string \<Rightarrow> string \<Rightarrow> go_time \<Rightarrow> queue_db \<Rightarrow> bool \<times> queue_db" where
  "StartScanExecution scanID token startedAt db =
     (let f = (\<lambda>s. s\<lparr>qs_Phase := ''scanning'', qs_StartedAt := coalesce (qs_StartedAt s) startedAt,
                     qs_UpdatedAt := startedAt\<rparr>) in
      if token = []
      then exec_scans (\<lambda>s. sc_ID s = scanID \<and> sc_Status s = ScanStatusPending \<and> qs_CancelRequestedAt s = None)
             (\<lambda>s. (f s)\<lparr>sc_Status := ScanStatusRunning\<rparr>) db
      else exec_scans (owned_by scanID token) f db)"

definition HeartbeatScanLease :: "go_time \<Rightarrow> string \<Rightarrow> string \<Rightarrow> go_time \<Rightarrow> queue_db \<Rightarrow> bool \<times> queue_db" where
  "HeartbeatScanLease now scanID token leaseUntil db =
     exec_scans (\<lambda>s. sc_ID s = scanID \<and> qs_LeaseToken s = token \<and> sc_Status s = ScanStatusRunning)
       (\<lambda>s. s\<lparr>qs_HeartbeatAt := Some now, qs_LeaseExpiresAt := Some leaseUntil, qs_UpdatedAt := now\<rparr>) db"

definition final_columns :: "go_time \<Rightarrow> queue_scan \<Rightarrow> queue_scan \<Rightarrow> queue_scan" where
  "final_columns now s row =
     row\<lparr>sc_Status := sc_Status s, qs_Phase := qs_Phase s, sc_ToolsSelected := sc_ToolsSelected s,
         sc_ToolsCompleted := sc_ToolsCompleted s, sc_ToolsFailed := sc_ToolsFailed s,
         qs_ToolsErrors := qs_ToolsErrors s, qs_FindingCount := qs_FindingCount s,
         qs_CoverageSummary := qs_CoverageSummary s, sc_SourceType := sc_SourceType s,
         sc_RemoteNodeID := sc_RemoteNodeID s, sc_SourcePath := sc_SourcePath s,
         sc_CommitSHA := sc_CommitSHA s, sc_TreeDigest := sc_TreeDigest s, qs_DirtyState := qs_DirtyState s,
         sc_PreparedWorkspace := sc_PreparedWorkspace s, qs_FailureCode := qs_FailureCode s,
         qs_FailureMessage := qs_FailureMessage s, qs_CompletedAt := qs_CompletedAt s, qs_ClaimedBy := [],
         qs_LeaseToken := [], qs_LeaseExpiresAt := None, qs_HeartbeatAt := None, qs_UpdatedAt := now\<rparr>"

definition finalizeScan :: "go_time \<Rightarrow> queue_scan \<Rightarrow> string \<Rightarrow> queue_db \<Rightarrow> bool \<times> queue_db" where
  "finalizeScan now s token db = exec_scans (owned_by (sc_ID s) token) (final_columns now s) db"

text \<open>A lease without an expiry is never stale: \<open>NULL < now\<close> does not hold.\<close>

definition stale_at :: "go_time \<Rightarrow> queue_scan \<Rightarrow> bool" where
  "stale_at now s \<longleftrightarrow>
     sc_Status s = ScanStatusRunning \<and> (case qs_LeaseExpiresAt s of None \<Rightarrow> False | Some e \<Rightarrow> e < now)"

definition requeued :: "go_time \<Rightarrow> queue_scan \<Rightarrow> queue_scan" where
  "requeued now s =
     s\<lparr>sc_Status := ScanStatusPending, qs_Phase := ''queued'', qs_ClaimedBy := [], qs_LeaseToken := [],
       qs_LeaseExpiresAt := None, qs_HeartbeatAt := None, qs_FailureCode := ''worker_lost'',
       qs_FailureMessage := ''scan worker lease expired; retrying'', qs_UpdatedAt := now\<rparr>"

definition abandoned :: "go_time \<Rightarrow> queue_scan \<Rightarrow> queue_scan" where
  "abandoned now s =
     s\<lparr>sc_Status := ScanStatusFailed, qs_Phase := ''failed'', qs_ClaimedBy := [], qs_LeaseToken := [],
       qs_LeaseExpiresAt := None, qs_FailureCode := ''worker_lost'',
       qs_FailureMessage := ''scan worker lease expired and retry budget was exhausted'',
       qs_CompletedAt := Some now, qs_UpdatedAt := now\<rparr>"

definition ReclaimStaleScans :: "go_time \<Rightarrow> queue_db \<Rightarrow> int \<times> queue_db" where
  "ReclaimStaleScans now db =
     (let retry = (\<lambda>s. stale_at now s \<and> qs_Attempt s < qs_MaxAttempts s);
          n1 = length (filter retry (qd_Scans db));
          db1 = snd (exec_scans retry (requeued now) db);
          spent = (\<lambda>s. stale_at now s \<and> qs_Attempt s \<ge> qs_MaxAttempts s);
          n2 = length (filter spent (qd_Scans db1))
      in (int (n1 + n2), snd (exec_scans spent (abandoned now) db1)))"

definition RequestScanCancellation :: "string \<Rightarrow> go_time \<Rightarrow> queue_db \<Rightarrow> queue_db" where
  "RequestScanCancellation scanID t db =
     snd (exec_scans (\<lambda>s. sc_ID s = scanID \<and> contains_elem [ScanStatusPending, ScanStatusRunning] (sc_Status s))
       (\<lambda>s. s\<lparr>sc_Status := ScanStatusCancelled, qs_Phase := ''cancelled'', qs_CancelRequestedAt := Some t,
              qs_CompletedAt := coalesce (qs_CompletedAt s) t, qs_UpdatedAt := t\<rparr>) db)"

definition RequestScannerRunCancellation :: "string \<Rightarrow> string \<Rightarrow> go_time \<Rightarrow> queue_db \<Rightarrow> queue_db" where
  "RequestScannerRunCancellation scanID toolName t db =
     db\<lparr>qd_RunRecords := update_where
          (\<lambda>r. rr_ScanID r = scanID \<and> rr_ToolName r = toolName \<and>
               contains_elem [''pending'', ''queued'', ''running''] (rr_Status r))
          (\<lambda>r. r\<lparr>rr_CancelRequestedAt := Some t, rr_Status := ''cancelled'',
                 rr_ErrorMessage := ''cancelled by user'', rr_FinishedAt := coalesce (rr_FinishedAt r) t,
                 rr_UpdatedAt := t\<rparr>) (qd_RunRecords db)\<rparr>"

text \<open>\<open>UpdateScan\<close> writes all columns of the caller's copy but those of the row that are kept. A copy
  with a lease token is fenced, one without is not.\<close>

definition update_columns :: "go_time \<Rightarrow> queue_scan \<Rightarrow> queue_scan \<Rightarrow> queue_scan" where
  "update_columns now s row =
     s\<lparr>sc_ID := sc_ID row, sc_RepoID := sc_RepoID row, sc_Branch := sc_Branch row,
       sc_IgnorePolicyJSON := sc_IgnorePolicyJSON row, qs_UserID := qs_UserID row,
       qs_ScannerReleaseID := (if qs_ScannerReleaseID row = [] then qs_ScannerReleaseID s
                               else qs_ScannerReleaseID row),
       qs_ReleaseManifestDigest := (if qs_ReleaseManifestDigest row = [] then qs_ReleaseManifestDigest s
                                    else qs_ReleaseManifestDigest row),
       qs_FindingsRevision := qs_FindingsRevision row, qs_CreatedAt := qs_CreatedAt row,
       qs_UpdatedAt := now\<rparr>"

definition writable_by :: "queue_scan \<Rightarrow> queue_scan \<Rightarrow> bool" where
  "writable_by s row \<longleftrightarrow>
     sc_ID row = sc_ID s \<and>
     (qs_LeaseToken s = [] \<or>
      qs_LeaseToken row = qs_LeaseToken s \<and> sc_Status row = ScanStatusRunning \<and>
      qs_CancelRequestedAt row = None) \<and>
     (qs_CancelRequestedAt row = None \<or> qs_CancelRequestedAt s \<noteq> None)"

definition UpdateScan :: "go_time \<Rightarrow> queue_scan \<Rightarrow> queue_db \<Rightarrow> queue_db" where
  "UpdateScan now s db = snd (exec_scans (writable_by s) (update_columns now s) db)"

section \<open>Findings\<close>

definition advanceFindingsRevision :: "string \<Rightarrow> queue_db \<Rightarrow> queue_error + queue_db" where
  "advanceFindingsRevision scanID db =
     (let (one, db') = exec_scans (\<lambda>s. sc_ID s = scanID)
                         (\<lambda>s. s\<lparr>qs_FindingsRevision := wrap64 (qs_FindingsRevision s + 1)\<rparr>) db
      in if one then Inr db' else Inl QueueNoRows)"

definition prepareFindingForWrite :: "sha_fn \<Rightarrow> finding \<Rightarrow> finding" where
  "prepareFindingForWrite sha f =
     (let g = (if fi_StableFingerprint f = [] \<or> fi_LocationFingerprint f = [] \<or>
                  fi_SemanticFingerprint f = [] \<or> fi_IdentityVersion f = 0
               then apply_identity sha f else f)
      in if fi_Fingerprint g = [] then g\<lparr>fi_Fingerprint := fi_StableFingerprint g\<rparr> else g)"

definition loadFindingSuppressions :: "string \<Rightarrow> queue_db \<Rightarrow> durable_suppression list" where
  "loadFindingSuppressions repoID db = filter (\<lambda>s. du_RepoID s = repoID) (qd_Suppressions db)"

text \<open>The loop over the findings of \<open>applyFindingSuppressionsTx\<close>.\<close>

fun durable_loop :: "go_time \<Rightarrow> queue_db \<Rightarrow> finding list \<Rightarrow> queue_error + finding list" where
  "durable_loop now db [] = Inr []"
| "durable_loop now db (f # fs) =
     (case first_by sc_ID (qd_Scans db) (fi_ScanID f) of
        None \<Rightarrow> Inl QueueNoRows
      | Some sc \<Rightarrow>
          if fi_RepoID f \<noteq> sc_RepoID sc then Inl RepositoryMismatch
          else and_then (durable_loop now db fs) (\<lambda>gs.
            Inr (fst (apply_durable (loadFindingSuppressions (sc_RepoID sc) db)
                        [sc_ID sc \<mapsto> sc_Branch sc] now [f]) @ gs)))"

text \<open>Writing the changed findings of one scan back to their places.\<close>

fun put_back :: "(finding \<Rightarrow> bool) \<Rightarrow> finding list \<Rightarrow> finding list \<Rightarrow> finding list" where
  "put_back sel [] gs = []"
| "put_back sel (f # fs) gs =
     (if sel f then (case gs of [] \<Rightarrow> f # put_back sel fs [] | g # gs' \<Rightarrow> g # put_back sel fs gs')
      else f # put_back sel fs gs)"

text \<open>The loop over the scans, in the order in which the map is ranged over. The snapshot of a scan
  decides alone: neither the rule file nor git is asked.\<close>

fun snapshot_loop ::
  "(string list \<Rightarrow> string) \<Rightarrow> (string \<Rightarrow> snapshot option) \<Rightarrow> queue_db \<Rightarrow> string list \<Rightarrow> finding list
     \<Rightarrow> queue_error + finding list" where
  "snapshot_loop key decode db [] fs = Inr fs"
| "snapshot_loop key decode db (scanID # ids) fs =
     (case first_by sc_ID (qd_Scans db) scanID of
        None \<Rightarrow> Inl QueueNoRows
      | Some sc \<Rightarrow>
          if sc_IgnorePolicyJSON sc = [] then snapshot_loop key decode db ids fs
          else
            (case ApplyScan key decode False False (Inr [] :: unit + suppress_rule list)
                    (\<lambda>_. GitNoRepository) (filter (\<lambda>f. fi_ScanID f = scanID) fs) (scan.truncate sc) [] of
               Inl e \<Rightarrow> Inl (SnapshotFailed e)
             | Inr (changed, _) \<Rightarrow>
                 snapshot_loop key decode db ids (put_back (\<lambda>f. fi_ScanID f = scanID) fs changed)))"

definition applyFindingSuppressionsTx ::
  "(string list \<Rightarrow> string) \<Rightarrow> (string \<Rightarrow> snapshot option) \<Rightarrow> go_time \<Rightarrow> queue_db \<Rightarrow> finding list
     \<Rightarrow> queue_error + finding list" where
  "applyFindingSuppressionsTx key decode now db findings =
     and_then (durable_loop now db findings)
       (snapshot_loop key decode db (remdups (map fi_ScanID findings)))"

fun advance_all :: "string list \<Rightarrow> queue_db \<Rightarrow> queue_error + queue_db" where
  "advance_all [] db = Inr db"
| "advance_all (i # ids) db = and_then (advanceFindingsRevision i db) (advance_all ids)"

record finding_env =
  fe_Digest :: sha_fn
  fe_SourceKey :: "string list \<Rightarrow> string"
  fe_Decode :: "string \<Rightarrow> snapshot option"

definition insertFindingsTx ::
  "finding_env \<Rightarrow> go_time \<Rightarrow> finding list \<Rightarrow> queue_db \<Rightarrow> queue_error + queue_db" where
  "insertFindingsTx env now findings db =
     and_then (advance_all (sort (remdups (map fi_ScanID findings))) db) (\<lambda>db1.
     and_then (applyFindingSuppressionsTx (fe_SourceKey env) (fe_Decode env) now db1
                 (map (prepareFindingForWrite (fe_Digest env)) findings)) (\<lambda>stored.
     if \<not> distinct (map (\<lambda>r. fi_ID (qf_Finding r)) (qd_Findings db1) @ map fi_ID stored)
     then Inl QueueDuplicate
     else Inr (db1\<lparr>qd_Findings := qd_Findings db1 @
                 map (\<lambda>f. \<lparr>qf_Finding = f, qf_ClusterID = []\<rparr>) stored\<rparr>)))"

text \<open>The update that changes nothing locks the row and proves the lease.\<close>

definition lease_lock :: "string \<Rightarrow> string \<Rightarrow> queue_db \<Rightarrow> bool" where
  "lease_lock scanID token db \<longleftrightarrow> fst (exec_scans (owned_by scanID token) (\<lambda>s. s) db)"

definition CreateFindings ::
  "finding_env \<Rightarrow> go_time \<Rightarrow> finding list \<Rightarrow> queue_db \<Rightarrow> queue_error + queue_db" where
  "CreateFindings env now findings db = insertFindingsTx env now findings db"

definition CreateFindingsForScanLease ::
  "finding_env \<Rightarrow> go_time \<Rightarrow> finding list \<Rightarrow> string \<Rightarrow> string \<Rightarrow> queue_db \<Rightarrow> queue_error + bool \<times> queue_db" where
  "CreateFindingsForScanLease env now findings scanID token db =
     (if token = [] then Inr (False, db)
      else if \<not> list_all (\<lambda>f. fi_ScanID f = scanID) findings then Inl QueueStaleLease
      else if \<not> lease_lock scanID token db then Inr (False, db)
      else and_then (insertFindingsTx env now findings db) (\<lambda>db'. Inr (True, db')))"

definition DeleteFindingsByScanTool ::
  "string \<Rightarrow> string \<Rightarrow> string \<Rightarrow> queue_db \<Rightarrow> queue_error + queue_db" where
  "DeleteFindingsByScanTool scanID toolName token db =
     (if \<not> lease_lock scanID token db then Inl QueueStaleLease
      else
        let unclustered = update_where (\<lambda>r. fi_ScanID (qf_Finding r) = scanID) (\<lambda>r. r\<lparr>qf_ClusterID := []\<rparr>)
                            (qd_Findings db);
            rest = filter (\<lambda>r. \<not> (fi_ScanID (qf_Finding r) = scanID \<and> fi_ToolName (qf_Finding r) = toolName))
                     unclustered
        in advanceFindingsRevision scanID (db\<lparr>qd_Findings := rest\<rparr>))"

section \<open>Run records and the ignore policy\<close>

definition prepare_run :: "go_time \<Rightarrow> run_record \<Rightarrow> run_record" where
  "prepare_run now r =
     r\<lparr>rr_ID := (if rr_ID r = [] then rr_ScanID r @ '':'' @ rr_ToolName r else rr_ID r),
       rr_CommandJSON := (if rr_CommandJSON r = [] then ''{}'' else rr_CommandJSON r),
       rr_UpdatedAt := now, rr_CreatedAt := (if is_zero_time (rr_CreatedAt r) then now else rr_CreatedAt r)\<rparr>"

text \<open>\<open>ON CONFLICT (scan_id, tool_name) DO UPDATE\<close>: a run that was cancelled stays cancelled.\<close>

definition upsert_columns :: "run_record \<Rightarrow> run_record \<Rightarrow> run_record" where
  "upsert_columns r row =
     (let cancelled = rr_CancelRequestedAt row \<noteq> None in
      r\<lparr>rr_ID := rr_ID row, rr_LeaseToken := [], rr_CreatedAt := rr_CreatedAt row,
        rr_Status := (if cancelled then ''cancelled'' else rr_Status r),
        rr_ErrorMessage := (if cancelled then rr_ErrorMessage row else rr_ErrorMessage r),
        rr_CancelRequestedAt := (if cancelled then rr_CancelRequestedAt row else rr_CancelRequestedAt r),
        rr_StartedAt := (if rr_StartedAt r = None then rr_StartedAt row else rr_StartedAt r),
        rr_FinishedAt := (if cancelled then rr_FinishedAt row else rr_FinishedAt r)\<rparr>)"

definition upsert_run :: "run_record \<Rightarrow> queue_db \<Rightarrow> queue_error + queue_db" where
  "upsert_run r db =
     (let same = (\<lambda>q. rr_ScanID q = rr_ScanID r \<and> rr_ToolName q = rr_ToolName r) in
      if list_ex same (qd_RunRecords db)
      then Inr (db\<lparr>qd_RunRecords := update_where same (upsert_columns r) (qd_RunRecords db)\<rparr>)
      else if contains_elem (map rr_ID (qd_RunRecords db)) (rr_ID r) then Inl QueueDuplicate
      else if \<not> contains_elem (map sc_ID (qd_Scans db)) (rr_ScanID r) then Inl QueueForeignKey
      else Inr (db\<lparr>qd_RunRecords := qd_RunRecords db @ [r\<lparr>rr_LeaseToken := []\<rparr>]\<rparr>))"

definition UpsertScannerRunRecord :: "go_time \<Rightarrow> run_record \<Rightarrow> queue_db \<Rightarrow> queue_error + queue_db" where
  "UpsertScannerRunRecord now record db =
     (if rr_LeaseToken record \<noteq> [] \<and> \<not> lease_lock (rr_ScanID record) (rr_LeaseToken record) db
      then Inl QueueStaleLease
      else upsert_run (prepare_run now record) db)"

text \<open>What the capture of the ignore policy asks from outside: the JSON of a snapshot, the rule file and git.\<close>

record policy_env =
  pe_SourceKey :: "string list \<Rightarrow> string"
  pe_Decode :: "string \<Rightarrow> snapshot option"
  pe_Encode :: "snapshot \<Rightarrow> string"
  pe_Cancelled :: bool
  pe_Disabled :: bool
  pe_Rules :: "unit + suppress_rule list"
  pe_Git :: "string list \<Rightarrow> git_answer"

text \<open>The policy and the revision of the scan, and the decisions on its findings, found by their primary key.\<close>

definition captured ::
  "string \<Rightarrow> string \<Rightarrow> finding list \<Rightarrow> queue_db \<Rightarrow> queue_db" where
  "captured scanID policy decided db =
     db\<lparr>qd_Findings := update_where (\<lambda>r. fi_ScanID (qf_Finding r) = scanID)
          (\<lambda>r. case first_by fi_ID decided (fi_ID (qf_Finding r)) of
                 None \<Rightarrow> r
               | Some g \<Rightarrow> r\<lparr>qf_Finding := (qf_Finding r)\<lparr>fi_Suppressed := fi_Suppressed g,
                              fi_SuppressedReason := fi_SuppressedReason g\<rparr>\<rparr>) (qd_Findings db),
        qd_Scans := update_where (\<lambda>s. sc_ID s = scanID)
          (\<lambda>s. s\<lparr>sc_IgnorePolicyJSON := policy, qs_FindingsRevision := wrap64 (qs_FindingsRevision s + 1)\<rparr>)
          (qd_Scans db)\<rparr>"

definition policy_decision ::
  "policy_env \<Rightarrow> string \<Rightarrow> scan \<Rightarrow> finding list \<Rightarrow> suppress_error + snapshot \<times> finding list" where
  "policy_decision env repoPath sc findings =
     and_then (Capture (pe_Cancelled env) (pe_Disabled env) (pe_Rules env) (pe_Git env) repoPath findings) (\<lambda>taken.
       let kept = taken\<lparr>ss_SourceKey := ScanSourceKey (pe_SourceKey env) sc\<rparr> in
       and_then (Snapshot_Apply kept findings) (\<lambda>(decided, _). Inr (kept, decided)))"

definition CaptureScanIgnorePolicy ::
  "policy_env \<Rightarrow> string \<Rightarrow> string \<Rightarrow> string \<Rightarrow> queue_db \<Rightarrow> queue_error + queue_db" where
  "CaptureScanIgnorePolicy env scanID token repoPath db =
     (if \<not> lease_lock scanID token db then Inl QueueStaleLease
      else case first_by sc_ID (qd_Scans db) scanID of
        None \<Rightarrow> Inl QueueNoRows
      | Some sc \<Rightarrow>
          if sc_IgnorePolicyJSON sc \<noteq> [] then
            (case ApplyScan (pe_SourceKey env) (pe_Decode env) (pe_Cancelled env) (pe_Disabled env) (pe_Rules env)
                    (pe_Git env) [] (scan.truncate sc) [] of
               Inl e \<Rightarrow> Inl (SnapshotFailed e)
             | Inr _ \<Rightarrow> Inr db)
          else
            let findings = sort_key fi_ID
                  (filter (\<lambda>f. fi_ScanID f = scanID) (map qf_Finding (qd_Findings db))) in
            (case policy_decision env repoPath (scan.truncate sc) findings of
               Inl e \<Rightarrow> Inl (SnapshotFailed e)
             | Inr (kept, decided) \<Rightarrow> Inr (captured scanID (pe_Encode env kept) decided db)))"

section \<open>Events\<close>

definition ScanEventTypeToolOutput :: string where "ScanEventTypeToolOutput = ''tool_output''"
definition ScanEventTypeToolOutputTruncated :: string where
  "ScanEventTypeToolOutputTruncated = ''tool_output_truncated''"
definition ScanEventTypeToolOutputDropped :: string where
  "ScanEventTypeToolOutputDropped = ''tool_output_dropped''"
definition MaxDurableToolOutputEventsPerScan :: nat where "MaxDurableToolOutputEventsPerScan = 2000"
definition MaxDurableScanEventDataBytes :: nat where "MaxDurableScanEventDataBytes = 4096"

definition output_types :: "string list" where
  "output_types = [ScanEventTypeToolOutput, ScanEventTypeToolOutputTruncated, ScanEventTypeToolOutputDropped]"

text \<open>What \<open>json.Marshal\<close> is given, and the encoder and the decoder of the tool name.\<close>

datatype json_value = JString string | JBool bool | JInt int

record event_codec =
  ec_Marshal :: "(string \<times> json_value) list \<Rightarrow> string"
  ec_ToolName :: "string \<Rightarrow> string"

definition truncate_output :: "event_codec \<Rightarrow> scan_event \<Rightarrow> scan_event" where
  "truncate_output codec e =
     (if MaxDurableScanEventDataBytes < length (se_DataJSON e)
      then e\<lparr>se_EventType := ScanEventTypeToolOutputTruncated,
             se_DataJSON := ec_Marshal codec
               [(''type'', JString ScanEventTypeToolOutput), (''scan_id'', JString (se_ScanID e)),
                (''tool_name'', JString (ec_ToolName codec (se_DataJSON e))),
                (''line'', JString (''[durable output line omitted: '' @ show_int (int (length (se_DataJSON e))) @
                   '' bytes exceeds the '' @ show_int (int MaxDurableScanEventDataBytes) @
                   ''-byte event limit; complete output remains in scan artifacts]'')),
                (''truncated'', JBool True), (''reason'', JString ''event_too_large''),
                (''original_bytes'', JInt (int (length (se_DataJSON e)))),
                (''max_bytes'', JInt (int MaxDurableScanEventDataBytes))]\<rparr>
      else e)"

definition output_count :: "string \<Rightarrow> scan_event list \<Rightarrow> nat" where
  "output_count scanID events =
     length (filter (\<lambda>e. se_ScanID e = scanID \<and> contains_elem output_types (se_EventType e)) events)"

definition dropped_output :: "event_codec \<Rightarrow> scan_event \<Rightarrow> scan_event" where
  "dropped_output codec e =
     e\<lparr>se_EventType := ScanEventTypeToolOutputDropped,
       se_DataJSON := ec_Marshal codec
         [(''type'', JString ScanEventTypeToolOutput), (''scan_id'', JString (se_ScanID e)),
          (''tool_name'', JString (ec_ToolName codec (se_DataJSON e))),
          (''line'', JString (''[durable output stopped after '' @ show_int (int MaxDurableToolOutputEventsPerScan) @
             '' events; complete output remains in scan artifacts]'')),
          (''truncated'', JBool True), (''reason'', JString ''event_limit''),
          (''max_events'', JInt (int MaxDurableToolOutputEventsPerScan))]\<rparr>"

definition enforceDurableScanEventPolicy ::
  "event_codec \<Rightarrow> queue_db \<Rightarrow> scan_event \<Rightarrow> queue_error + scan_event" where
  "enforceDurableScanEventPolicy codec db event =
     (if \<not> contains_elem output_types (se_EventType event) then Inr event
      else
        let e = truncate_output codec event; n = output_count (se_ScanID e) (qd_Events db) in
        if n < MaxDurableToolOutputEventsPerScan then Inr e
        else if n > MaxDurableToolOutputEventsPerScan \<or> se_EventType e = ScanEventTypeToolOutputDropped
        then Inl EventDropped
        else Inr (dropped_output codec e))"

definition next_sequence :: "string \<Rightarrow> scan_event list \<Rightarrow> int" where
  "next_sequence scanID events =
     fold max (map se_Sequence (filter (\<lambda>e. se_ScanID e = scanID) events)) 0 + 1"

text \<open>Without a lease token the row of the scan is only locked, and its existence is left to the
  foreign key of the event.\<close>

definition AppendScanEvent ::
  "event_codec \<Rightarrow> string \<Rightarrow> go_time \<Rightarrow> scan_event \<Rightarrow> queue_db \<Rightarrow> queue_error + scan_event \<times> queue_db" where
  "AppendScanEvent codec uuid now event db =
     (if se_LeaseToken event \<noteq> [] \<and> \<not> lease_lock (se_ScanID event) (se_LeaseToken event) db
      then Inl QueueStaleLease
      else and_then (enforceDurableScanEventPolicy codec db event) (\<lambda>e.
        let e' = e\<lparr>se_ID := (if se_ID e = [] then uuid else se_ID e),
                   se_CreatedAt := (if is_zero_time (se_CreatedAt e) then now else se_CreatedAt e),
                   se_Sequence := next_sequence (se_ScanID e) (qd_Events db)\<rparr> in
        if \<not> contains_elem (map sc_ID (qd_Scans db)) (se_ScanID e) then Inl QueueForeignKey
        else if contains_elem (map se_ID (qd_Events db)) (se_ID e') then Inl QueueDuplicate
        else Inr (e', db\<lparr>qd_Events := qd_Events db @ [e']\<rparr>)))"

definition ListScanEvents :: "string \<Rightarrow> int \<Rightarrow> int \<Rightarrow> queue_db \<Rightarrow> scan_event list" where
  "ListScanEvents scanID afterSequence limit db =
     take (nat (if limit \<le> 0 \<or> limit > 1000 then 200 else limit))
       (sort_key se_Sequence
         (filter (\<lambda>e. se_ScanID e = scanID \<and> afterSequence < se_Sequence e) (qd_Events db)))"

section \<open>Workers\<close>

definition prepare_worker :: "go_time \<Rightarrow> scan_worker \<Rightarrow> scan_worker" where
  "prepare_worker now w =
     w\<lparr>sw_StartedAt := (if is_zero_time (sw_StartedAt w) then now else sw_StartedAt w),
       sw_HeartbeatAt := now, sw_UpdatedAt := now,
       sw_Status := (if sw_Status w = [] then ''ready'' else sw_Status w),
       sw_Capacity := (if sw_Capacity w \<le> 0 then 1 else sw_Capacity w),
       sw_CapabilitiesJSON := (if sw_CapabilitiesJSON w = [] then ''{}'' else sw_CapabilitiesJSON w)\<rparr>"

definition UpsertScanWorker :: "go_time \<Rightarrow> scan_worker \<Rightarrow> queue_db \<Rightarrow> queue_db" where
  "UpsertScanWorker now worker db =
     (let w = prepare_worker now worker in
      if contains_elem (map sw_ID (qd_Workers db)) (sw_ID w)
      then db\<lparr>qd_Workers := update_where (\<lambda>r. sw_ID r = sw_ID w)
                (\<lambda>r. w\<lparr>sw_StartedAt := sw_StartedAt r\<rparr>) (qd_Workers db)\<rparr>
      else db\<lparr>qd_Workers := qd_Workers db @ [w]\<rparr>)"

definition ListScanWorkers :: "go_time \<Rightarrow> queue_db \<Rightarrow> scan_worker list" where
  "ListScanWorkers activeAfter db =
     sort_key sw_ID (filter (\<lambda>w. activeAfter \<le> sw_HeartbeatAt w \<and>
       contains_elem [''ready'', ''busy''] (sw_Status w)) (qd_Workers db))"

section \<open>The worker of the queue\<close>

record scan_worker_config =
  wc_WorkerID :: string
  wc_Backend :: string
  wc_Capacity :: int
  wc_Once :: bool
  wc_PollInterval :: duration
  wc_Heartbeat :: duration
  wc_Lease :: duration
  wc_Capabilities :: string

text \<open>\<open>New\<close>, for a store and an executor that are there; the host name and process id are the default name.\<close>

definition NewScanWorker :: "string \<Rightarrow> scan_worker_config \<Rightarrow> scan_worker_config" where
  "NewScanWorker defaultWorkerID c =
     (let capacity = (if wc_Capacity c \<le> 0 then 1 else wc_Capacity c);
          beat = (if wc_Heartbeat c \<le> 0 then 10 * second else wc_Heartbeat c) in
      c\<lparr>wc_WorkerID := (if wc_WorkerID c = [] then defaultWorkerID else wc_WorkerID c),
        wc_Backend := (if wc_Backend c = [] then ''docker'' else wc_Backend c),
        wc_Capacity := (if wc_Once c then 1 else capacity),
        wc_PollInterval := (if wc_PollInterval c \<le> 0 then 2 * second else wc_PollInterval c),
        wc_Heartbeat := beat,
        wc_Lease := (if wc_Lease c \<le> wrap64 (beat * 2) then 45 * second else wc_Lease c),
        wc_Capabilities := (if wc_Capabilities c = [] then ''{}'' else wc_Capabilities c)\<rparr>)"

text \<open>One round of \<open>claimLoop\<close> up to the claim.\<close>

definition claim_round ::
  "scan_worker_config \<Rightarrow> (string \<Rightarrow> bool) \<Rightarrow> string \<Rightarrow> go_time \<Rightarrow> go_time \<Rightarrow> queue_db
     \<Rightarrow> queue_scan option \<times> queue_db" where
  "claim_round c locked token reclaimTime claimTime db =
     ClaimNextScan locked token claimTime (wc_WorkerID c) (wc_Backend c) (claimTime + wc_Lease c)
       (snd (ReclaimStaleScans reclaimTime db))"

definition stale_workspaces :: "queue_db \<Rightarrow> string list" where
  "stale_workspaces db =
     map sc_PreparedWorkspace
       (filter (\<lambda>s. sc_PreparedWorkspace s \<noteq> [] \<and> qs_FailureCode s = ''worker_lost'' \<and>
                    sc_Status s = ScanStatusFailed) (qd_Scans db))"

definition isTerminal :: "scan_status \<Rightarrow> bool" where
  "isTerminal st \<longleftrightarrow> st = ScanStatusCompleted \<or> st = ScanStatusFailed \<or> st = ScanStatusCancelled"

definition truncate_text :: "string \<Rightarrow> nat \<Rightarrow> string" where
  "truncate_text v n = (if length v \<le> n then v else take n v @ [CHR 0xE2, CHR 0x80, CHR 0xA6])"

text \<open>What \<open>process\<close> does after the executor has failed.\<close>

definition process_error :: "go_time \<Rightarrow> go_time \<Rightarrow> string \<Rightarrow> queue_scan \<Rightarrow> queue_db \<Rightarrow> queue_db" where
  "process_error now written err claimed db =
     (case first_by sc_ID (qd_Scans db) (sc_ID claimed) of
        None \<Rightarrow> db
      | Some current \<Rightarrow>
          if qs_LeaseToken current \<noteq> qs_LeaseToken claimed \<or> isTerminal (sc_Status current) then db
          else snd (finalizeScan written
                 (current\<lparr>sc_Status := ScanStatusFailed, qs_Phase := ''failed'',
                          qs_FailureCode := ''executor_error'', qs_FailureMessage := truncate_text err 500,
                          qs_CompletedAt := Some now\<rparr>) (qs_LeaseToken claimed) db))"

text \<open>The loop of \<open>scanHeartbeat\<close> over the ticks, each with its time and the answer of the store
  (\<open>None\<close> is an error); the result is the tick at which the executor is stopped.\<close>

fun scan_heartbeat :: "duration \<Rightarrow> duration \<Rightarrow> go_time \<Rightarrow> (go_time \<times> bool option) list \<Rightarrow> go_time option" where
  "scan_heartbeat lease beat lastSuccess [] = None"
| "scan_heartbeat lease beat lastSuccess ((t, answer) # ticks) =
     (case answer of
        None \<Rightarrow> if lease - beat \<le> t - lastSuccess then Some t else scan_heartbeat lease beat lastSuccess ticks
      | Some False \<Rightarrow> Some t
      | Some True \<Rightarrow> scan_heartbeat lease beat t ticks)"

end
