(* ===== verification/ScanQueueLaws.thy ===== *)
theory ScanQueueLaws
  imports ScanQueue
begin

text \<open>
  What the scan queue promises. A system is the database with the tokens that were given out and the
  copies of rows that executors hold: an executor reads a row, works for a while, and writes its copy
  back, while other workers go on. \<open>queue_step bare\<close> is one transaction of the queue or one such read.
  Executors write a row back under the lease token that the copy has, which can be another worker's
  (\<open>executeScan\<close> reads the row again after it started) or none (the row was reclaimed before it was
  read): a row without a token is written without a fence. Such unfenced writes of a whole row are
  steps only if \<open>bare\<close> holds. The fencing of leases is proved with them, the bound on the claims of a
  scan without them, and \<open>unleased_write_undoes_claim\<close> shows that they do break it.
\<close>

section \<open>The system\<close>

record queue_system =
  qy_DB :: queue_db
  qy_Issued :: "(string \<times> string) list"
  qy_Copies :: "(string \<times> queue_scan) list"

definition control :: "queue_scan \<Rightarrow> scan_status \<times> string \<times> int \<times> int \<times> go_time option" where
  "control r = (sc_Status r, qs_LeaseToken r, qs_Attempt r, qs_MaxAttempts r, qs_CancelRequestedAt r)"

text \<open>A copy with new progress under a token, or with the end of the scan (\<open>failPreparedScan\<close>, the
  recovery of orphans): what a caller changes in a row before it writes it back.\<close>

definition progress_of :: "string \<Rightarrow> queue_scan \<Rightarrow> queue_scan \<Rightarrow> bool" where
  "progress_of token c s \<longleftrightarrow>
     sc_ID s = sc_ID c \<and> (sc_Status s = sc_Status c \<or> isTerminal (sc_Status s)) \<and> qs_LeaseToken s = token \<and>
     qs_Attempt s = qs_Attempt c \<and> qs_MaxAttempts s = qs_MaxAttempts c \<and>
     qs_CancelRequestedAt s = qs_CancelRequestedAt c"

text \<open>A transaction on the evidence of scans (storing findings without a lease, clusters, baselines, triage):
  it leaves what the queue decides on and the events alone.\<close>

definition evidence_only :: "queue_db \<Rightarrow> queue_db \<Rightarrow> bool" where
  "evidence_only db db' \<longleftrightarrow>
     (\<exists>f. (\<forall>r. sc_ID (f r) = sc_ID r \<and> control (f r) = control r) \<and> qd_Scans db' = map f (qd_Scans db)) \<and>
     qd_Events db' = qd_Events db"

definition with_db :: "queue_system \<Rightarrow> queue_db \<Rightarrow> queue_system" where
  "with_db s db = s\<lparr>qy_DB := db\<rparr>"

text \<open>An imported scan is created as running, without a lease. The completion of a scan is
  \<open>finalizeScan\<close> on the tables of the queue.\<close>

inductive queue_step :: "bool \<Rightarrow> queue_system \<Rightarrow> queue_system \<Rightarrow> bool" for bare where
  step_create: "CreateScan now r (qy_DB s) = Inr (row, db) \<Longrightarrow>
    sc_Status r = ScanStatusPending \<or> sc_Status r = ScanStatusRunning \<Longrightarrow> qs_Attempt r = 0 \<Longrightarrow>
    qs_LeaseToken r = [] \<Longrightarrow> queue_step bare s (with_db s db)"
| step_claim: "ClaimNextScan locked token now worker backend until (qy_DB s) = (Some row, db) \<Longrightarrow>
    token \<noteq> [] \<Longrightarrow> token \<notin> snd ` set (qy_Issued s) \<Longrightarrow>
    queue_step bare s (s\<lparr>qy_DB := db, qy_Issued := (sc_ID row, token) # qy_Issued s\<rparr>)"
| step_start: "queue_step bare s (with_db s (snd (StartScanExecution i token now (qy_DB s))))"
| step_heartbeat: "queue_step bare s (with_db s (snd (HeartbeatScanLease now i token until (qy_DB s))))"
| step_finalize: "isTerminal (sc_Status r) \<Longrightarrow>
    queue_step bare s (with_db s (snd (finalizeScan now r token (qy_DB s))))"
| step_reclaim: "queue_step bare s (with_db s (snd (ReclaimStaleScans now (qy_DB s))))"
| step_cancel: "queue_step bare s (with_db s (RequestScanCancellation i t (qy_DB s)))"
| step_cancel_run: "queue_step bare s (with_db s (RequestScannerRunCancellation i tool t (qy_DB s)))"
| step_run: "UpsertScannerRunRecord now r (qy_DB s) = Inr db \<Longrightarrow> queue_step bare s (with_db s db)"
| step_findings: "CreateFindingsForScanLease env now fs i token (qy_DB s) = Inr (b, db) \<Longrightarrow>
    queue_step bare s (with_db s db)"
| step_delete: "DeleteFindingsByScanTool i tool token (qy_DB s) = Inr db \<Longrightarrow> queue_step bare s (with_db s db)"
| step_policy: "CaptureScanIgnorePolicy penv i token path (qy_DB s) = Inr db \<Longrightarrow> queue_step bare s (with_db s db)"
| step_evidence: "evidence_only (qy_DB s) db \<Longrightarrow> queue_step bare s (with_db s db)"
| step_event: "AppendScanEvent codec uuid now e (qy_DB s) = Inr (e', db) \<Longrightarrow> queue_step bare s (with_db s db)"
| step_worker: "queue_step bare s (with_db s (UpsertScanWorker now w (qy_DB s)))"
| step_read: "row \<in> set (qd_Scans (qy_DB s)) \<Longrightarrow> (sc_ID row, token) \<in> set (qy_Issued s) \<Longrightarrow>
    queue_step bare s (s\<lparr>qy_Copies := (token, row) # qy_Copies s\<rparr>)"
| step_write: "(token, c) \<in> set (qy_Copies s) \<Longrightarrow> progress_of token c r \<Longrightarrow>
    queue_step bare s (with_db s (UpdateScan now r (qy_DB s)))"
| step_bare_write: "bare \<Longrightarrow> qs_LeaseToken r = [] \<Longrightarrow> queue_step bare s (with_db s (UpdateScan now r (qy_DB s)))"

definition empty_queue :: "durable_suppression list \<Rightarrow> run_record list \<Rightarrow> queue_system" where
  "empty_queue rules runs =
     \<lparr>qy_DB = \<lparr>qd_Scans = [], qd_Findings = [], qd_Suppressions = rules, qd_Events = [],
               qd_RunRecords = runs, qd_Workers = []\<rparr>, qy_Issued = [], qy_Copies = []\<rparr>"

text \<open>The token that owns a scan, and the tokens given out for it.\<close>

definition scan_row :: "queue_system \<Rightarrow> string \<Rightarrow> queue_scan option" where
  "scan_row s i = first_by sc_ID (qd_Scans (qy_DB s)) i"

definition scan_holder :: "queue_system \<Rightarrow> string \<Rightarrow> string option" where
  "scan_holder s i =
     (case scan_row s i of
        None \<Rightarrow> None
      | Some r \<Rightarrow> if sc_Status r = ScanStatusRunning \<and> qs_LeaseToken r \<noteq> [] then Some (qs_LeaseToken r) else None)"

definition scan_tokens :: "queue_system \<Rightarrow> string \<Rightarrow> string set" where
  "scan_tokens s i = {t. (i, t) \<in> set (qy_Issued s)}"

section \<open>How a step changes a row\<close>

definition claims :: "queue_system \<Rightarrow> string \<Rightarrow> nat" where
  "claims s i = length (filter (\<lambda>p. fst p = i) (qy_Issued s))"

definition same_claims :: "queue_system \<Rightarrow> queue_system \<Rightarrow> string \<Rightarrow> bool" where
  "same_claims s s' i \<longleftrightarrow> filter (\<lambda>p. fst p = i) (qy_Issued s') = filter (\<lambda>p. fst p = i) (qy_Issued s)"

text \<open>A row keeps what its owner and its retries depend on, or is claimed, or its execution starts without
  a lease, or it ends, or a whole row without a token is written over it.\<close>

definition row_kept :: "queue_scan \<Rightarrow> queue_scan \<Rightarrow> bool" where
  "row_kept r r' \<longleftrightarrow> control r' = control r"

definition row_claimed :: "queue_system \<Rightarrow> queue_system \<Rightarrow> string \<Rightarrow> queue_scan \<Rightarrow> queue_scan \<Rightarrow> bool" where
  "row_claimed s s' i r r' \<longleftrightarrow>
     (\<exists>t. qy_Issued s' = (i, t) # qy_Issued s \<and> t \<noteq> [] \<and> t \<notin> snd ` set (qy_Issued s) \<and>
          sc_Status r = ScanStatusPending \<and>
          control r' = (ScanStatusRunning, t, qs_Attempt r + 1, qs_MaxAttempts r, qs_CancelRequestedAt r))"

definition row_started :: "queue_scan \<Rightarrow> queue_scan \<Rightarrow> bool" where
  "row_started r r' \<longleftrightarrow>
     sc_Status r = ScanStatusPending \<and>
     control r' = (ScanStatusRunning, qs_LeaseToken r, qs_Attempt r, qs_MaxAttempts r, qs_CancelRequestedAt r)"

definition row_ended :: "queue_scan \<Rightarrow> queue_scan \<Rightarrow> bool" where
  "row_ended r r' \<longleftrightarrow>
     \<not> isTerminal (sc_Status r) \<and> qs_Attempt r' = qs_Attempt r \<and> qs_MaxAttempts r' = qs_MaxAttempts r \<and>
     (isTerminal (sc_Status r') \<or>
      sc_Status r' = ScanStatusPending \<and> sc_Status r = ScanStatusRunning \<and> qs_Attempt r < qs_MaxAttempts r \<and>
      qs_LeaseToken r' = [])"

definition row_change :: "bool \<Rightarrow> queue_system \<Rightarrow> queue_system \<Rightarrow> string \<Rightarrow> queue_scan \<Rightarrow> queue_scan \<Rightarrow> bool" where
  "row_change bare s s' i r r' \<longleftrightarrow>
     row_claimed s s' i r r' \<or>
     (same_claims s s' i \<and> (row_kept r r' \<or> row_started r r' \<or> row_ended r r' \<or> (bare \<and> qs_LeaseToken r' = [])))"

lemma row_kept_refl [simp]: "row_kept r r"
  by (simp add: row_kept_def)

lemma with_db_simps [simp]:
  "qy_DB (with_db s db) = db" "qy_Issued (with_db s db) = qy_Issued s" "qy_Copies (with_db s db) = qy_Copies s"
  by (simp_all add: with_db_def)

lemma same_claims_with_db [simp]: "same_claims s (with_db s db) i" "same_claims s s i"
  by (simp_all add: same_claims_def)

text \<open>An update of rows by \<open>f\<close>: if \<open>f\<close> keeps or ends every row it is applied to, so does the step.\<close>

lemma exec_row:
  assumes "\<And>r. sc_ID (f r) = sc_ID r"
  shows "first_by sc_ID (qd_Scans (snd (exec_scans cond f db))) i =
         map_option (\<lambda>r. if cond r then f r else r) (first_by sc_ID (qd_Scans db) i)"
  unfolding exec_scans_def by (simp add: first_by_update_where assms)

lemma exec_row_change:
  assumes "\<And>r. sc_ID (f r) = sc_ID r" "scan_row s i = Some r"
    and "\<And>r. cond r \<Longrightarrow> row_kept r (f r) \<or> row_started r (f r) \<or> row_ended r (f r)"
  shows "\<exists>r'. scan_row (with_db s (snd (exec_scans cond f (qy_DB s)))) i = Some r' \<and>
              row_change bare s (with_db s (snd (exec_scans cond f (qy_DB s)))) i r r'"
  using assms(2) assms(3) [of r] by (auto simp: scan_row_def exec_row assms(1) row_change_def)

lemma exec_ids:
  assumes "\<And>r. sc_ID (f r) = sc_ID r"
  shows "map sc_ID (qd_Scans (snd (exec_scans cond f db))) = map sc_ID (qd_Scans db)"
  unfolding exec_scans_def by (simp add: map_update_where assms)

text \<open>The transactions on evidence.\<close>

lemma evidence_refl: "evidence_only db db"
  unfolding evidence_only_def by (auto intro: exI [of _ "\<lambda>r. r"])

lemma evidence_trans:
  assumes "evidence_only a b" "evidence_only b c"
  shows "evidence_only a c"
proof -
  obtain f g where "\<forall>r. sc_ID (f r) = sc_ID r \<and> control (f r) = control r" "qd_Scans b = map f (qd_Scans a)"
    "\<forall>r. sc_ID (g r) = sc_ID r \<and> control (g r) = control r" "qd_Scans c = map g (qd_Scans b)"
    using assms by (auto simp: evidence_only_def)
  then show ?thesis
    using assms unfolding evidence_only_def by (auto intro!: exI [of _ "\<lambda>r. g (f r)"])
qed

lemma evidence_update:
  assumes "qd_Scans db' = update_where cond f (qd_Scans db)" "qd_Events db' = qd_Events db"
    and "\<And>r. sc_ID (f r) = sc_ID r \<and> control (f r) = control r"
  shows "evidence_only db db'"
  unfolding evidence_only_def using assms
  by (auto simp: update_where_def intro!: exI [of _ "\<lambda>r. if cond r then f r else r"])

lemma evidence_findings: "evidence_only db db' \<Longrightarrow> evidence_only (db\<lparr>qd_Findings := fs\<rparr>) db'"
  "evidence_only db db' \<Longrightarrow> evidence_only db (db'\<lparr>qd_Findings := fs\<rparr>)"
  by (simp_all add: evidence_only_def)

lemma advance_evidence: "advanceFindingsRevision i db = Inr db' \<Longrightarrow> evidence_only db db'"
  by (rule evidence_update [of _ "\<lambda>r. sc_ID r = i" "\<lambda>r. r\<lparr>qs_FindingsRevision := wrap64 (qs_FindingsRevision r + 1)\<rparr>"])
    (auto simp: advanceFindingsRevision_def exec_scans_def control_def split: if_splits)

lemma advance_all_evidence: "advance_all ids db = Inr db' \<Longrightarrow> evidence_only db db'"
  by (induction ids arbitrary: db)
    (auto simp: and_then_Inr evidence_refl dest: advance_evidence intro: evidence_trans)

lemma CreateFindings_evidence: "CreateFindings env now fs db = Inr db' \<Longrightarrow> evidence_only db db'"
  by (auto simp: CreateFindings_def insertFindingsTx_def and_then_Inr split: if_splits
      dest!: advance_all_evidence intro: evidence_findings)

lemma lease_findings_evidence:
  "CreateFindingsForScanLease env now fs i t db = Inr (b, db') \<Longrightarrow> evidence_only db db'"
  by (auto simp: CreateFindingsForScanLease_def and_then_Inr evidence_refl CreateFindings_evidence
      simp flip: CreateFindings_def split: if_splits)

lemma delete_evidence: "DeleteFindingsByScanTool i tool t db = Inr db' \<Longrightarrow> evidence_only db db'"
  by (auto simp: DeleteFindingsByScanTool_def Let_def split: if_splits dest!: advance_evidence
      simp: evidence_only_def)

lemma captured_evidence: "evidence_only db (captured i policy decided db)"
  by (rule evidence_update [of _ "\<lambda>s. sc_ID s = i" "\<lambda>s. s\<lparr>sc_IgnorePolicyJSON := policy,
        qs_FindingsRevision := wrap64 (qs_FindingsRevision s + 1)\<rparr>"]) (simp_all add: captured_def control_def)

lemma policy_evidence: "CaptureScanIgnorePolicy env i t path db = Inr db' \<Longrightarrow> evidence_only db db'"
  by (auto simp: CaptureScanIgnorePolicy_def Let_def evidence_refl captured_evidence
      split: if_splits option.splits sum.splits)

lemma evidence_ids: "evidence_only db db' \<Longrightarrow> map sc_ID (qd_Scans db') = map sc_ID (qd_Scans db)"
  by (auto simp: evidence_only_def)

lemma first_by_map:
  "(\<And>x. key (f x) = key x) \<Longrightarrow> first_by key (map f xs) k = map_option f (first_by key xs k)"
  by (induction xs) auto

lemma evidence_row:
  assumes "evidence_only (qy_DB s) db" "scan_row s i = Some r"
  shows "\<exists>r'. scan_row (with_db s db) i = Some r' \<and> row_kept r r'"
proof -
  obtain f where f: "\<And>r. sc_ID (f r) = sc_ID r" "\<And>r. control (f r) = control r"
    "qd_Scans db = map f (qd_Scans (qy_DB s))"
    using assms(1) by (auto simp: evidence_only_def)
  have "scan_row (with_db s db) i = Some (f r)"
    using assms(2) by (simp add: scan_row_def f(3) first_by_map f(1))
  then show ?thesis using f(2) by (simp add: row_kept_def)
qed

lemma run_scans: "UpsertScannerRunRecord now r db = Inr db' \<Longrightarrow>
    qd_Scans db' = qd_Scans db \<and> qd_Events db' = qd_Events db"
  by (auto simp: UpsertScannerRunRecord_def upsert_run_def Let_def split: if_splits)

section \<open>The invariant of the system\<close>

text \<open>Copies read under a lease agree with the row as long as the lease lasts, and a waiting scan has no
  token; without unfenced writes of rows, the attempts of a scan are its claims, and a waiting scan has
  attempts left.\<close>

definition copy_ok :: "queue_system \<Rightarrow> string \<Rightarrow> queue_scan \<Rightarrow> bool" where
  "copy_ok s t c \<longleftrightarrow>
     t \<in> scan_tokens s (sc_ID c) \<and>
     (scan_holder s (sc_ID c) = Some t \<longrightarrow>
       (\<exists>r. scan_row s (sc_ID c) = Some r \<and> control c = control r))"

definition row_inv :: "queue_system \<Rightarrow> queue_scan \<Rightarrow> bool" where
  "row_inv s r \<longleftrightarrow>
     qs_Attempt r = int (claims s (sc_ID r)) \<and> qs_Attempt r \<le> qs_MaxAttempts r \<and>
     (sc_Status r = ScanStatusPending \<longrightarrow> qs_Attempt r < qs_MaxAttempts r)"

definition queue_inv :: "bool \<Rightarrow> queue_system \<Rightarrow> bool" where
  "queue_inv bare s \<longleftrightarrow>
     distinct (map sc_ID (qd_Scans (qy_DB s))) \<and>
     fst ` set (qy_Issued s) \<subseteq> sc_ID ` set (qd_Scans (qy_DB s)) \<and> [] \<notin> snd ` set (qy_Issued s) \<and>
     (\<forall>i r. scan_row s i = Some r \<longrightarrow>
        (sc_Status r = ScanStatusPending \<longrightarrow> qs_LeaseToken r = []) \<and> (\<not> bare \<longrightarrow> row_inv s r)) \<and>
     (\<forall>(t, c) \<in> set (qy_Copies s). copy_ok s t c)"

lemma columns_ID [simp]:
  "sc_ID (update_columns now s r) = sc_ID r" "sc_ID (claim_columns t now w b until r) = sc_ID r"
  "sc_ID (final_columns now s r) = sc_ID r" "sc_ID (requeued now r) = sc_ID r" "sc_ID (abandoned now r) = sc_ID r"
  by (simp_all add: update_columns_def claim_columns_def final_columns_def requeued_def abandoned_def)

lemma scan_row_ID: "scan_row s i = Some r \<Longrightarrow> sc_ID r = i \<and> r \<in> set (qd_Scans (qy_DB s))"
  by (auto simp: scan_row_def dest: first_by_Some)

lemma row_in_table:
  "queue_inv bare s \<Longrightarrow> r \<in> set (qd_Scans (qy_DB s)) \<Longrightarrow> scan_row s (sc_ID r) = Some r"
  by (auto simp: queue_inv_def scan_row_def intro: first_by_distinct)

lemma token_not_empty:
  assumes "queue_inv bare s" "t \<in> scan_tokens s i"
  shows "t \<noteq> []"
proof -
  have "(i, t) \<in> set (qy_Issued s)" using assms(2) by (simp add: scan_tokens_def)
  then have "t \<in> snd ` set (qy_Issued s)" by (rule image_eqI [rotated]) simp
  moreover have "[] \<notin> snd ` set (qy_Issued s)" using assms(1) by (simp add: queue_inv_def)
  ultimately show ?thesis by blast
qed

lemma write_row:
  assumes "scan_row s i = Some r"
  shows "scan_row (with_db s (UpdateScan now q (qy_DB s))) i =
    Some (if writable_by q r then update_columns now q r else r)"
  using assms by (simp add: UpdateScan_def scan_row_def exec_row)

lemma write_keeps_row:
  assumes "queue_inv bare s" "(t, c) \<in> set (qy_Copies s)" "progress_of t c q" "scan_row s i = Some r"
  shows "\<exists>r'. scan_row (with_db s (UpdateScan now q (qy_DB s))) i = Some r' \<and> (row_kept r r' \<or> row_ended r r')"
proof -
  have "row_kept r (update_columns now q r) \<or> row_ended r (update_columns now q r)" if cond: "writable_by q r"
  proof -
    have cp: "copy_ok s t c" using assms(1,2) by (auto simp: queue_inv_def)
    then have t: "t \<noteq> []" using token_not_empty [OF assms(1), of t] unfolding copy_ok_def by blast
    have ids: "sc_ID r = i" "sc_ID q = sc_ID c" "qs_LeaseToken q = t"
      using scan_row_ID [OF assms(4)] assms(3) by (simp_all add: progress_of_def)
    then have run: "sc_Status r = ScanStatusRunning" "qs_LeaseToken r = t" and i: "sc_ID c = i"
      using cond t by (auto simp: writable_by_def)
    then have "scan_holder s i = Some t" using t assms(4) by (simp add: scan_holder_def)
    then have "control c = control r" using cp i assms(4) by (auto simp: copy_ok_def)
    then show ?thesis
      using assms(3) run
      by (auto simp: row_kept_def row_ended_def control_def update_columns_def progress_of_def isTerminal_def)
  qed
  then show ?thesis using write_row [OF assms(4)] by (cases "writable_by q r") simp_all
qed

lemma claim_row:
  assumes "ClaimNextScan locked t now w b until db = (Some row, db')" "distinct (map sc_ID (qd_Scans db))"
  obtains c where "c \<in> set (qd_Scans db)" "sc_Status c = ScanStatusPending" "sc_ID row = sc_ID c"
    "row = claim_columns t now w b until c"
    "db' = snd (exec_scans (\<lambda>r. sc_ID r = sc_ID c) (claim_columns t now w b until) db)"
proof -
  obtain c cs where "claimable locked db = c # cs" "row = claim_columns t now w b until c"
    and db: "db' = snd (exec_scans (\<lambda>r. sc_ID r = sc_ID c) (claim_columns t now w b until) db)"
    using assms(1) by (auto simp: ClaimNextScan_def Let_def split: list.splits)
  moreover have "c \<in> set (claimable locked db)" using calculation(1) by simp
  then have "c \<in> set (qd_Scans db)" "sc_Status c = ScanStatusPending" by (auto simp: claimable_def)
  ultimately show thesis using that by (simp add: claim_columns_def)
qed

text \<open>What a reclaim makes of one row.\<close>

definition reclaimed :: "go_time \<Rightarrow> queue_scan \<Rightarrow> queue_scan" where
  "reclaimed now r =
     (if stale_at now r then if qs_Attempt r < qs_MaxAttempts r then requeued now r else abandoned now r else r)"

lemma settled [simp]: "\<not> stale_at now (requeued now r)" "\<not> stale_at now (abandoned now r)"
  by (simp_all add: stale_at_def requeued_def abandoned_def)

lemma reclaimed_settled: "\<not> stale_at now (reclaimed now r)"
  by (simp add: reclaimed_def)

lemma reclaimed_ended: "reclaimed now r = r \<or> row_ended r (reclaimed now r)"
  by (simp add: reclaimed_def stale_at_def row_ended_def requeued_def abandoned_def isTerminal_def)

lemma reclaim_first:
  assumes "first_by sc_ID (qd_Scans db) i = Some r"
  shows "first_by sc_ID (qd_Scans (snd (ReclaimStaleScans now db))) i = Some (reclaimed now r)"
  using assms unfolding ReclaimStaleScans_def Let_def snd_conv
  by (simp add: exec_row reclaimed_def)

lemma reclaim_row:
  "scan_row s i = Some r \<Longrightarrow>
   scan_row (with_db s (snd (ReclaimStaleScans now (qy_DB s)))) i = Some (reclaimed now r)"
  by (simp add: scan_row_def reclaim_first)

text \<open>Every step, seen from one row.\<close>

lemma step_row:
  assumes "queue_step bare s s'" "queue_inv bare s" "scan_row s i = Some r"
  shows "\<exists>r'. scan_row s' i = Some r' \<and> row_change bare s s' i r r'"
  using assms
proof (induction rule: queue_step.induct)
  case (step_create now q s row db)
  then have "qd_Scans db = qd_Scans (qy_DB s) @ [row]"
    by (auto simp: CreateScan_def Let_def split: if_splits)
  then show ?case
    using step_create(6) by (simp add: scan_row_def first_by_append row_change_def)
next
  case (step_claim locked token now worker b until s row db)
  then have d: "distinct (map sc_ID (qd_Scans (qy_DB s)))" by (simp add: queue_inv_def)
  obtain c where c: "c \<in> set (qd_Scans (qy_DB s))" "sc_Status c = ScanStatusPending" "sc_ID row = sc_ID c"
    "db = snd (exec_scans (\<lambda>r. sc_ID r = sc_ID c) (claim_columns token now worker b until) (qy_DB s))"
    using claim_row [OF step_claim(1) d] by metis
  let ?s' = "s\<lparr>qy_DB := db, qy_Issued := (sc_ID row, token) # qy_Issued s\<rparr>"
  show ?case
  proof (cases "i = sc_ID c")
    case True
    then have rc: "r = c" using row_in_table [OF step_claim(4) c(1)] step_claim(5) by simp
    have "scan_row ?s' i = Some (claim_columns token now worker b until r)"
      using step_claim(5) True rc by (simp add: scan_row_def c(4) exec_row)
    moreover have "row_claimed s ?s' i r (claim_columns token now worker b until r)"
      using step_claim(2,3) c(2,3) True rc by (simp add: row_claimed_def control_def claim_columns_def)
    ultimately show ?thesis by (simp add: row_change_def)
  next
    case False
    have "scan_row ?s' i = Some r"
      using step_claim(5) False scan_row_ID [OF step_claim(5)] by (simp add: scan_row_def c(4) exec_row)
    moreover have "same_claims s ?s' i" using False c(3) by (simp add: same_claims_def)
    ultimately show ?thesis by (simp add: row_change_def)
  qed
next
  case (step_start s j token now)
  show ?case
    unfolding StartScanExecution_def Let_def
    by (cases "token = []"; simp only: if_True if_False simp_thms; rule exec_row_change)
      (simp_all add: step_start(2) row_kept_def row_started_def control_def)
next
  case (step_heartbeat s now j token until)
  show ?case
    unfolding HeartbeatScanLease_def
    by (rule exec_row_change) (simp_all add: step_heartbeat(2) row_kept_def control_def)
next
  case (step_finalize q s now token)
  show ?case
    unfolding finalizeScan_def
    by (rule exec_row_change)
      (use step_finalize(1,3) in \<open>simp_all add: row_ended_def final_columns_def owned_by_def isTerminal_def\<close>)
next
  case (step_reclaim s now)
  then show ?case using reclaim_row [of s i r now] reclaimed_ended [of now r] by (auto simp: row_change_def)
next
  case (step_cancel s j t)
  show ?case
    unfolding RequestScanCancellation_def
    by (rule exec_row_change) (use step_cancel(2) in \<open>auto simp: row_ended_def isTerminal_def\<close>)
next
  case (step_run now q s db)
  then show ?case using run_scans [OF step_run(1)] by (auto simp: scan_row_def row_change_def)
next
  case (step_findings env now fs j token s b db)
  then show ?case using evidence_row [OF lease_findings_evidence [OF step_findings(1)]] by (auto simp: row_change_def)
next
  case (step_delete j tool token s db)
  then show ?case using evidence_row [OF delete_evidence [OF step_delete(1)]] by (auto simp: row_change_def)
next
  case (step_policy penv j token path s db)
  then show ?case using evidence_row [OF policy_evidence [OF step_policy(1)]] by (auto simp: row_change_def)
next
  case (step_evidence s db)
  then show ?case using evidence_row [OF step_evidence(1)] by (auto simp: row_change_def)
next
  case (step_write token c s q now)
  then show ?case
    using write_keeps_row [OF step_write(3,1,2,4), of now] by (auto simp: row_change_def)
next
  case (step_bare_write q s now)
  have "row_kept r r' \<or> qs_LeaseToken r' = []"
    if "r' = (if writable_by q r then update_columns now q r else r)" for r'
    using that step_bare_write(2) by (auto simp: update_columns_def)
  then show ?case using write_row [OF step_bare_write(4), of now q] step_bare_write(1) by (auto simp: row_change_def)
qed (auto simp: scan_row_def row_change_def RequestScannerRunCancellation_def UpsertScanWorker_def Let_def
    AppendScanEvent_def and_then_Inr same_claims_def split: if_splits)

lemma claim_ids:
  assumes "ClaimNextScan locked t now w b until db = (Some row, db')" "distinct (map sc_ID (qd_Scans db))"
  shows "map sc_ID (qd_Scans db') = map sc_ID (qd_Scans db)" "sc_ID row \<in> sc_ID ` set (qd_Scans db)"
proof -
  obtain c where "c \<in> set (qd_Scans db)" "sc_ID row = sc_ID c"
    "db' = snd (exec_scans (\<lambda>r. sc_ID r = sc_ID c) (claim_columns t now w b until) db)"
    by (rule claim_row [OF assms])
  then show "map sc_ID (qd_Scans db') = map sc_ID (qd_Scans db)" "sc_ID row \<in> sc_ID ` set (qd_Scans db)"
    by (simp_all add: exec_ids)
qed

lemma step_table:
  assumes "queue_step bare s s'" "queue_inv bare s"
  shows "map sc_ID (qd_Scans (qy_DB s')) = map sc_ID (qd_Scans (qy_DB s)) \<or>
    (\<exists>row. qd_Scans (qy_DB s') = qd_Scans (qy_DB s) @ [row] \<and> sc_ID row \<notin> sc_ID ` set (qd_Scans (qy_DB s)) \<and>
       qs_LeaseToken row = [] \<and> qs_Attempt row = 0 \<and> 0 < qs_MaxAttempts row \<and> qy_Issued s' = qy_Issued s)"
  using assms
proof (induction rule: queue_step.induct)
  case (step_create now q s row db)
  then show ?case
    by (auto simp: CreateScan_def prepareScanForWrite_def Let_def split: if_splits)
next
  case (step_claim locked token now worker b until s row db)
  then have d: "distinct (map sc_ID (qd_Scans (qy_DB s)))" by (simp add: queue_inv_def)
  show ?case using claim_ids(1) [OF step_claim(1) d] by simp
next
  case (step_reclaim s now)
  show ?case by (simp add: ReclaimStaleScans_def Let_def exec_ids)
next
  case (step_run now q s db)
  then show ?case using run_scans by simp
next
  case (step_findings env now fs i token s b db)
  then show ?case using evidence_ids [OF lease_findings_evidence] by simp
next
  case (step_delete i tool token s db)
  then show ?case using evidence_ids [OF delete_evidence] by simp
next
  case (step_policy penv i token path s db)
  then show ?case using evidence_ids [OF policy_evidence] by simp
next
  case (step_evidence s db)
  then show ?case using evidence_ids by simp
qed (auto simp: StartScanExecution_def Let_def HeartbeatScanLease_def finalizeScan_def exec_ids
    RequestScanCancellation_def RequestScannerRunCancellation_def UpsertScanWorker_def UpdateScan_def
    AppendScanEvent_def and_then_Inr split: if_splits)

lemma step_issued:
  assumes "queue_step bare s s'" "queue_inv bare s"
  shows "qy_Issued s' = qy_Issued s \<or>
    (\<exists>i t. qy_Issued s' = (i, t) # qy_Issued s \<and> t \<noteq> [] \<and> t \<notin> snd ` set (qy_Issued s) \<and>
       i \<in> sc_ID ` set (qd_Scans (qy_DB s)))"
  using assms
proof (induction rule: queue_step.induct)
  case (step_claim locked token now worker b until s row db)
  then have d: "distinct (map sc_ID (qd_Scans (qy_DB s)))" by (simp add: queue_inv_def)
  show ?case using claim_ids(2) [OF step_claim(1) d] step_claim(2,3) by simp
qed simp_all

lemma new_row_waits:
  assumes "queue_step bare s s'" "queue_inv bare s" "scan_row s i = None" "scan_row s' i = Some r"
  shows "qs_LeaseToken r = [] \<and> qs_Attempt r = 0 \<and> 0 < qs_MaxAttempts r \<and> qy_Issued s' = qy_Issued s"
  using step_table [OF assms(1,2)]
proof
  assume same: "map sc_ID (qd_Scans (qy_DB s')) = map sc_ID (qd_Scans (qy_DB s))"
  have "i \<in> set (map sc_ID (qd_Scans (qy_DB s')))" using scan_row_ID [OF assms(4)] by auto
  then have "i \<in> sc_ID ` set (qd_Scans (qy_DB s))" unfolding same by simp
  then show ?thesis using assms(3) by (simp add: scan_row_def first_by_None)
next
  assume "\<exists>row. qd_Scans (qy_DB s') = qd_Scans (qy_DB s) @ [row] \<and> sc_ID row \<notin> sc_ID ` set (qd_Scans (qy_DB s)) \<and>
       qs_LeaseToken row = [] \<and> qs_Attempt row = 0 \<and> 0 < qs_MaxAttempts row \<and> qy_Issued s' = qy_Issued s"
  then show ?thesis using assms(3,4) by (auto simp: scan_row_def first_by_append split: if_splits)
qed

lemma holder_Some:
  "scan_holder s i = Some t \<longleftrightarrow>
     (\<exists>r. scan_row s i = Some r \<and> sc_Status r = ScanStatusRunning \<and> qs_LeaseToken r = t) \<and> t \<noteq> []"
  by (auto simp: scan_holder_def split: option.splits)

lemma waiting_token:
  assumes "queue_inv bare s" "scan_row s i = Some r" "sc_Status r = ScanStatusPending"
  shows "qs_LeaseToken r = []"
  using assms by (auto simp: queue_inv_def)

lemma change_to_holder:
  assumes "row_change bare s s' i r r'" "queue_inv bare s" "scan_row s i = Some r"
    and "sc_Status r' = ScanStatusRunning" "qs_LeaseToken r' \<noteq> []"
  shows "row_claimed s s' i r r' \<or> row_kept r r'"
  using assms waiting_token [OF assms(2,3)]
  by (auto simp: row_change_def row_started_def row_ended_def control_def isTerminal_def)

lemma new_holder:
  assumes "queue_step bare s s'" "queue_inv bare s" "scan_holder s' i = Some t" "scan_holder s i \<noteq> Some t"
  shows "t \<notin> scan_tokens s i \<and> t \<in> scan_tokens s' i"
proof -
  obtain r' where r': "scan_row s' i = Some r'" "sc_Status r' = ScanStatusRunning" "qs_LeaseToken r' = t" "t \<noteq> []"
    using assms(3) by (auto simp: holder_Some)
  show ?thesis
  proof (cases "scan_row s i")
    case None
    then show ?thesis using new_row_waits [OF assms(1,2) _ r'(1)] r'(3,4) by simp
  next
    case (Some r)
    then obtain q where "scan_row s' i = Some q" "row_change bare s s' i r q" using step_row [OF assms(1,2)] by blast
    then have ch: "row_change bare s s' i r r'" using r'(1) by simp
    have "\<not> row_kept r r'"
      using assms(4) r' Some by (auto simp: row_kept_def control_def holder_Some)
    then have "row_claimed s s' i r r'" using change_to_holder [OF ch assms(2) Some] r' by simp
    then show ?thesis
      using r'(3) by (auto simp: row_claimed_def control_def scan_tokens_def image_iff)
  qed
qed

lemma step_tokens_grow:
  "queue_step bare s s' \<Longrightarrow> queue_inv bare s \<Longrightarrow> scan_tokens s i \<subseteq> scan_tokens s' i"
  using step_issued by (fastforce simp: scan_tokens_def)

lemma step_row_inv:
  assumes "queue_step False s s'" "queue_inv False s" "scan_row s' i = Some r'"
  shows "row_inv s' r'"
proof (cases "scan_row s i")
  case None
  have "i \<notin> sc_ID ` set (qd_Scans (qy_DB s))" using None by (simp add: scan_row_def first_by_None)
  then have "i \<notin> fst ` set (qy_Issued s)" using assms(2) by (auto simp: queue_inv_def)
  then have "claims s i = 0" by (force simp: claims_def filter_empty_conv)
  then show ?thesis
    using new_row_waits [OF assms(1,2) None assms(3)] scan_row_ID [OF assms(3)]
    by (simp add: row_inv_def claims_def)
next
  case (Some r)
  then have ids: "sc_ID r = i" "sc_ID r' = i" using scan_row_ID assms(3) by blast+
  have inv: "row_inv s r" using assms(2) Some by (auto simp: queue_inv_def)
  have "row_change False s s' i r r'" using step_row [OF assms(1,2) Some] assms(3) by auto
  then consider (claimed) "row_claimed s s' i r r'"
    | (kept) "same_claims s s' i" "control r' = control r"
    | (started) "same_claims s s' i" "row_started r r'"
    | (ended) "same_claims s s' i" "row_ended r r'"
    by (auto simp: row_change_def row_kept_def)
  then show ?thesis
  proof cases
    case claimed
    then show ?thesis
      using inv ids by (auto simp: row_claimed_def control_def row_inv_def claims_def)
  next
    case kept
    then have "claims s' i = claims s i" by (simp add: same_claims_def claims_def)
    then show ?thesis using kept inv ids by (auto simp: row_inv_def control_def)
  next
    case started
    then have "claims s' i = claims s i" by (simp add: same_claims_def claims_def)
    then show ?thesis using started inv ids by (auto simp: row_inv_def row_started_def control_def)
  next
    case ended
    then have "claims s' i = claims s i" by (simp add: same_claims_def claims_def)
    then show ?thesis
      using ended inv ids by (auto simp: row_inv_def row_ended_def isTerminal_def)
  qed
qed

lemma step_waiting:
  assumes "queue_step bare s s'" "queue_inv bare s" "scan_row s' i = Some r'" "sc_Status r' = ScanStatusPending"
  shows "qs_LeaseToken r' = []"
proof (cases "scan_row s i")
  case None
  then show ?thesis using new_row_waits [OF assms(1,2) None assms(3)] by simp
next
  case (Some r)
  have "row_change bare s s' i r r'" using step_row [OF assms(1,2) Some] assms(3) by auto
  then show ?thesis
    using assms(4) waiting_token [OF assms(2) Some]
    by (auto simp: row_change_def row_claimed_def row_kept_def row_started_def row_ended_def control_def isTerminal_def)
qed

lemma step_copy:
  assumes "queue_step bare s s'" "queue_inv bare s" "copy_ok s t c"
  shows "copy_ok s' t c"
proof -
  let ?i = "sc_ID c"
  have t: "t \<in> scan_tokens s ?i" "t \<in> scan_tokens s' ?i"
    using assms(3) step_tokens_grow [OF assms(1,2)] by (auto simp: copy_ok_def)
  have "\<exists>r. scan_row s' ?i = Some r \<and> control c = control r" if h: "scan_holder s' ?i = Some t"
  proof -
    have "scan_holder s ?i = Some t" using new_holder [OF assms(1,2) h] t(1) by blast
    then obtain r where r: "scan_row s ?i = Some r" "control c = control r"
      using assms(3) by (auto simp: copy_ok_def)
    obtain r' where r': "scan_row s' ?i = Some r'" "row_change bare s s' ?i r r'"
      using step_row [OF assms(1,2) r(1)] by blast
    have run: "sc_Status r' = ScanStatusRunning" "qs_LeaseToken r' = t" "t \<noteq> []"
      using h r'(1) by (auto simp: holder_Some)
    have "\<not> row_claimed s s' ?i r r'"
      using run(2) t(1) by (force simp: row_claimed_def control_def scan_tokens_def)
    then have "control r' = control r"
      using change_to_holder [OF r'(2) assms(2) r(1)] run by (auto simp: row_kept_def)
    then show ?thesis using r(2) r'(1) by simp
  qed
  then show ?thesis using t(2) by (simp add: copy_ok_def)
qed

lemma step_copies:
  assumes "queue_step bare s s'" "queue_inv bare s"
  shows "\<forall>(t, c) \<in> set (qy_Copies s'). (t, c) \<in> set (qy_Copies s) \<or>
    (c \<in> set (qd_Scans (qy_DB s)) \<and> (sc_ID c, t) \<in> set (qy_Issued s) \<and> qy_DB s' = qy_DB s \<and> qy_Issued s' = qy_Issued s)"
  using assms by (induction rule: queue_step.induct) auto

lemma queue_inv_step:
  assumes "queue_step bare s s'" "queue_inv bare s"
  shows "queue_inv bare s'"
proof -
  have ids: "sc_ID ` set (qd_Scans (qy_DB s)) \<subseteq> sc_ID ` set (qd_Scans (qy_DB s'))" and
    d: "distinct (map sc_ID (qd_Scans (qy_DB s')))"
    using step_table [OF assms] assms(2) by (auto simp: queue_inv_def dest: arg_cong [of _ _ set])
  have issued: "fst ` set (qy_Issued s') \<subseteq> sc_ID ` set (qd_Scans (qy_DB s'))" "[] \<notin> snd ` set (qy_Issued s')"
  proof -
    have inv: "fst ` set (qy_Issued s) \<subseteq> sc_ID ` set (qd_Scans (qy_DB s))" "[] \<notin> snd ` set (qy_Issued s)"
      using assms(2) by (simp_all add: queue_inv_def)
    note old = order_trans [OF inv(1) ids] inv(2)
    show "fst ` set (qy_Issued s') \<subseteq> sc_ID ` set (qd_Scans (qy_DB s'))" "[] \<notin> snd ` set (qy_Issued s')"
      using step_issued [OF assms] old ids by (elim disjE exE conjE; simp; blast)+
  qed
  have "copy_ok s' t c" if "(t, c) \<in> set (qy_Copies s')" for t c
  proof (cases "(t, c) \<in> set (qy_Copies s)")
    case True
    then show ?thesis using step_copy [OF assms] assms(2) by (auto simp: queue_inv_def)
  next
    case False
    then have new: "c \<in> set (qd_Scans (qy_DB s))" "(sc_ID c, t) \<in> set (qy_Issued s)" "qy_DB s' = qy_DB s"
      "qy_Issued s' = qy_Issued s"
      using step_copies [OF assms] that by auto
    then show ?thesis
      using row_in_table [OF assms(2) new(1)] by (auto simp: copy_ok_def scan_tokens_def scan_row_def)
  qed
  moreover have "\<not> bare \<longrightarrow> row_inv s' r" if "scan_row s' i = Some r" for i r
    using step_row_inv that assms by (cases bare) auto
  ultimately show ?thesis
    using d issued step_waiting [OF assms] by (auto simp: queue_inv_def)
qed

lemma queue_inv_start: "queue_inv bare (empty_queue rules runs)"
  by (simp add: queue_inv_def empty_queue_def scan_row_def)

lemma queue_inv_run: "(queue_step bare)\<^sup>*\<^sup>* s s' \<Longrightarrow> queue_inv bare s \<Longrightarrow> queue_inv bare s'"
  by (induction rule: rtranclp_induct) (simp_all add: queue_inv_step)

section \<open>Leases of scans are fenced\<close>

definition live_step :: "bool \<Rightarrow> queue_system \<Rightarrow> queue_system \<Rightarrow> bool" where
  "live_step bare s s' \<longleftrightarrow> queue_inv bare s \<and> queue_step bare s s'"

lemma live_run: "(queue_step bare)\<^sup>*\<^sup>* s s' \<Longrightarrow> queue_inv bare s \<Longrightarrow> (live_step bare)\<^sup>*\<^sup>* s s'"
proof (induction rule: rtranclp_induct)
  case (step s1 s2)
  then have "live_step bare s1 s2" using queue_inv_run by (auto simp: live_step_def)
  then show ?case using step by (meson rtranclp.rtrancl_into_rtrancl)
qed simp

interpretation scan_leases: fenced_leases "live_step bare" scan_tokens scan_holder for bare
proof
  show "scan_tokens s i \<subseteq> scan_tokens s' i" if "live_step bare s s'" for s s' i
    using that step_tokens_grow unfolding live_step_def by blast
  show "t \<notin> scan_tokens s i \<and> t \<in> scan_tokens s' i"
    if "live_step bare s s'" "scan_holder s' i = Some t" "scan_holder s i \<noteq> Some t" for s s' i t
    using that new_holder unfolding live_step_def by blast
qed

lemma exec_none:
  assumes "\<And>r. r \<in> set (qd_Scans db) \<Longrightarrow> \<not> cond r"
  shows "exec_scans cond f db = (False, db)"
proof -
  have "update_where cond f rows = rows" if "\<And>r. r \<in> set rows \<Longrightarrow> \<not> cond r" for rows
    using that by (induction rows) (auto simp: update_where_def)
  moreover have "filter cond (qd_Scans db) = []" using assms by (simp add: filter_empty_conv)
  ultimately show ?thesis using assms by (simp add: exec_scans_def)
qed

text \<open>Without the lease no row matches a fenced write.\<close>

lemma no_owner:
  assumes "queue_inv bare s" "t \<noteq> []" "scan_holder s i \<noteq> Some t" "r \<in> set (qd_Scans (qy_DB s))"
  shows "\<not> (sc_ID r = i \<and> qs_LeaseToken r = t \<and> sc_Status r = ScanStatusRunning)"
  using row_in_table [OF assms(1,4)] assms(2,3) by (auto simp: scan_holder_def)

text \<open>C22: Scan leases are fenced. Once a scan has been taken from a token, by a reclaim, a cancellation
  or the end of the scan, then whatever happens later, unfenced writes of whole rows included, these
  writes with that token are refused and change nothing: starting, heartbeats, finishing
  (\<open>finalizeScan\<close>), writing back a copy of the row that carries the token, storing and deleting
  findings, events, run records and the capture of the ignore policy; and the row cannot be locked
  under the token, which is how \<open>FinalizeFindingClusters\<close> begins. The transactions
  \<open>PersistFindingBaseline\<close> and \<open>CompleteScan\<close> compare the token on their own and are not covered.\<close>

theorem scan_lease_fenced:
  assumes "(queue_step True)\<^sup>*\<^sup>* (empty_queue rules runs) s" "t \<in> scan_tokens s i" "scan_holder s i \<noteq> Some t"
    "(queue_step True)\<^sup>*\<^sup>* s s'"
  defines "db \<equiv> qy_DB s'"
  shows "StartScanExecution i t now db = (False, db) \<and> HeartbeatScanLease now i t until db = (False, db) \<and>
    finalizeScan now (r\<lparr>sc_ID := i\<rparr>) t db = (False, db) \<and>
    UpdateScan now (r\<lparr>sc_ID := i, qs_LeaseToken := t\<rparr>) db = db \<and>
    DeleteFindingsByScanTool i tool t db = Inl QueueStaleLease \<and>
    AppendScanEvent codec uuid now (e\<lparr>se_ScanID := i, se_LeaseToken := t\<rparr>) db = Inl QueueStaleLease \<and>
    UpsertScannerRunRecord now (rr\<lparr>rr_ScanID := i, rr_LeaseToken := t\<rparr>) db = Inl QueueStaleLease \<and>
    CaptureScanIgnorePolicy penv i t path db = Inl QueueStaleLease \<and> \<not> lease_lock i t db \<and>
    (CreateFindingsForScanLease env now fs i t db = Inr (False, db) \<or>
     CreateFindingsForScanLease env now fs i t db = Inl QueueStaleLease)"
proof -
  have inv: "queue_inv True s" using queue_inv_run [OF assms(1) queue_inv_start] .
  have inv': "queue_inv True s'" using queue_inv_run [OF assms(4) inv] .
  have t: "t \<noteq> []" using token_not_empty [OF inv assms(2)] .
  have "scan_holder s' i \<noteq> Some t"
    using scan_leases.superseded_forever [OF live_run [OF assms(4) inv] assms(2,3)] .
  note none = no_owner [OF inv' t this]
  have own: "exec_scans (owned_by i t) f db = (False, db)" for f
    unfolding db_def by (rule exec_none) (use none in \<open>auto simp: owned_by_def\<close>)
  have lock: "\<not> lease_lock i t db" by (simp add: lease_lock_def own)
  have beat: "exec_scans (\<lambda>s. sc_ID s = i \<and> qs_LeaseToken s = t \<and> sc_Status s = ScanStatusRunning) f db = (False, db)" for f
    unfolding db_def by (rule exec_none) (use none in auto)
  have upd: "exec_scans (writable_by (r\<lparr>sc_ID := i, qs_LeaseToken := t\<rparr>)) f db = (False, db)" for f
    unfolding db_def by (rule exec_none) (use none t in \<open>auto simp: writable_by_def\<close>)
  show ?thesis
    using t lock
    by (auto simp: StartScanExecution_def HeartbeatScanLease_def finalizeScan_def UpdateScan_def own beat upd
        DeleteFindingsByScanTool_def AppendScanEvent_def CreateFindingsForScanLease_def UpsertScannerRunRecord_def
        CaptureScanIgnorePolicy_def Let_def)
qed

section \<open>Retries are bounded\<close>

text \<open>C24: As long as every copy of a row that is written back carries a lease token that was given out for
  the scan, then however often workers crash, stall or are replaced, a scan is claimed at most as
  often as its budget of attempts, which never changes: the attempts in its row are its claims, a scan
  that waits has attempts left, and after a reclaim no execution with an expired lease is left. The
  executor does not ensure the premise: a copy that was read after a reclaim has no token.\<close>

theorem scan_claims_bounded:
  assumes "(queue_step False)\<^sup>*\<^sup>* (empty_queue rules runs) s0" "scan_row s0 i = Some r0" "(queue_step False)\<^sup>*\<^sup>* s0 s"
  shows "\<exists>r. scan_row s i = Some r \<and> qs_MaxAttempts r = qs_MaxAttempts r0 \<and>
    int (claims s i) = qs_Attempt r \<and> qs_Attempt r \<le> qs_MaxAttempts r \<and>
    (sc_Status r = ScanStatusPending \<longrightarrow> qs_Attempt r < qs_MaxAttempts r) \<and>
    (\<forall>now. \<exists>r'. scan_row (with_db s (snd (ReclaimStaleScans now (qy_DB s)))) i = Some r' \<and> \<not> stale_at now r')"
proof -
  have inv0: "queue_inv False s0" using queue_inv_run [OF assms(1) queue_inv_start] .
  have "\<exists>r. scan_row s i = Some r \<and> qs_MaxAttempts r = qs_MaxAttempts r0" using assms(3)
  proof (induction rule: rtranclp_induct)
    case (step s1 s2)
    then obtain r where r: "scan_row s1 i = Some r" "qs_MaxAttempts r = qs_MaxAttempts r0" by blast
    obtain r' where "scan_row s2 i = Some r'" "row_change False s1 s2 i r r'"
      using step_row [OF step(2) queue_inv_run [OF step(1) inv0] r(1)] by blast
    then show ?case
      using r(2)
      by (auto simp: row_change_def row_claimed_def row_kept_def row_started_def row_ended_def control_def)
  qed (use assms(2) in simp)
  then obtain r where r: "scan_row s i = Some r" "qs_MaxAttempts r = qs_MaxAttempts r0" by blast
  have "row_inv s r" using queue_inv_run [OF assms(3) inv0] r(1) by (simp add: queue_inv_def)
  then have "int (claims s i) = qs_Attempt r \<and> qs_Attempt r \<le> qs_MaxAttempts r \<and>
      (sc_Status r = ScanStatusPending \<longrightarrow> qs_Attempt r < qs_MaxAttempts r)"
    using scan_row_ID [OF r(1)] by (auto simp: row_inv_def)
  moreover have "\<forall>now. \<exists>r'. scan_row (with_db s (snd (ReclaimStaleScans now (qy_DB s)))) i = Some r' \<and>
      \<not> stale_at now r'"
    using reclaim_row [OF r(1)] reclaimed_settled by blast
  ultimately show ?thesis using r by blast
qed

section \<open>Finished scans\<close>

text \<open>The result of a scan is final: as long as rows are written back under a token, once a scan is
  completed, failed or cancelled, its status, its token, its attempts and its cancellation never change
  again, whatever workers with an old lease, heartbeats, reclaims, cancellations or late copies of the
  row do.\<close>

theorem finished_scan_frozen:
  assumes "(queue_step False)\<^sup>*\<^sup>* (empty_queue rules runs) s" "scan_row s i = Some r" "isTerminal (sc_Status r)"
    "(queue_step False)\<^sup>*\<^sup>* s s'"
  shows "\<exists>r'. scan_row s' i = Some r' \<and> control r' = control r"
  using assms(4)
proof (induction rule: rtranclp_induct)
  case (step s1 s2)
  have inv: "queue_inv False s1" using queue_inv_run [OF step(1) queue_inv_run [OF assms(1) queue_inv_start]] .
  obtain r1 where r1: "scan_row s1 i = Some r1" "control r1 = control r" using step(3) by blast
  obtain r2 where "scan_row s2 i = Some r2" "row_change False s1 s2 i r1 r2"
    using step_row [OF step(2) inv r1(1)] by blast
  then show ?case
    using r1(2) assms(3)
    by (auto simp: row_change_def row_claimed_def row_kept_def row_started_def row_ended_def control_def isTerminal_def)
qed (use assms(2) in simp)

section \<open>A copy rewinds the lease\<close>

lemma exec_one:
  assumes "distinct (map sc_ID (qd_Scans db))" "first_by sc_ID (qd_Scans db) i = Some r" "cond r"
    and "\<And>q. cond q \<Longrightarrow> sc_ID q = i"
  shows "fst (exec_scans cond f db)"
proof -
  have r: "r \<in> set (qd_Scans db)" "sc_ID r = i" using first_by_Some [OF assms(2)] by auto
  have "q = r" if "q \<in> set (qd_Scans db)" "cond q" for q
    using first_by_distinct [OF assms(1) that(1)] assms(2) assms(4) [OF that(2)] by simp
  then have "{q \<in> set (qd_Scans db). cond q} = {r}" using r(1) assms(3) by blast
  then have "set (filter cond (qd_Scans db)) = {r}" by (simp only: set_filter)
  moreover have "distinct (filter cond (qd_Scans db))" using assms(1) by (simp add: distinct_map)
  ultimately have "length (filter cond (qd_Scans db)) = 1" by (metis card_1_singleton_iff distinct_card One_nat_def)
  then show ?thesis by (simp add: exec_scans_def)
qed

text \<open>C27: Writing a copy back also writes the lease expiry of the time the copy was read. A worker that reads its
  scan, prepares the source while its heartbeats extend the lease, and writes the copy back, rewinds
  the lease: the next reclaim takes the scan from the live worker, although by the heartbeat alone
  the lease would still be valid.\<close>

theorem progress_write_rewinds_lease:
  assumes "distinct (map sc_ID (qd_Scans db))" "first_by sc_ID (qd_Scans db) i = Some c"
    "sc_Status c = ScanStatusRunning" "qs_LeaseToken c \<noteq> []" "qs_CancelRequestedAt c = None"
    "qs_LeaseExpiresAt c = Some e" "e < now" "now \<le> until" "qs_Attempt c < qs_MaxAttempts c"
  shows "\<exists>beaten kept taken.
    HeartbeatScanLease t0 i (qs_LeaseToken c) until db = (True, beaten) \<and>
    first_by sc_ID (qd_Scans (snd (ReclaimStaleScans now beaten))) i = Some kept \<and>
    sc_Status kept = ScanStatusRunning \<and> qs_LeaseToken kept = qs_LeaseToken c \<and>
    first_by sc_ID (qd_Scans (snd (ReclaimStaleScans now (UpdateScan t1 c beaten)))) i = Some taken \<and>
    sc_Status taken = ScanStatusPending \<and> qs_LeaseToken taken = []"
proof -
  let ?beat = "\<lambda>s. s\<lparr>qs_HeartbeatAt := Some t0, qs_LeaseExpiresAt := Some until, qs_UpdatedAt := t0\<rparr>"
  let ?db = "snd (HeartbeatScanLease t0 i (qs_LeaseToken c) until db)"
  have i: "sc_ID c = i" using first_by_Some [OF assms(2)] by simp
  have ok: "fst (HeartbeatScanLease t0 i (qs_LeaseToken c) until db)"
    unfolding HeartbeatScanLease_def by (rule exec_one [OF assms(1,2)]) (simp_all add: i assms(3))
  have beaten: "first_by sc_ID (qd_Scans ?db) i = Some (?beat c)"
    unfolding HeartbeatScanLease_def by (simp add: exec_row assms(2,3) i)
  have "writable_by c (?beat c)" using assms(3-5) by (simp add: writable_by_def)
  then have written: "first_by sc_ID (qd_Scans (UpdateScan t1 c ?db)) i = Some (update_columns t1 c (?beat c))"
    unfolding UpdateScan_def by (simp add: exec_row beaten)
  have live: "\<not> stale_at now (?beat c)" using assms(8) by (simp add: stale_at_def)
  have stale: "stale_at now (update_columns t1 c (?beat c))"
    using assms(3,6,7) by (simp add: stale_at_def update_columns_def)
  have remaining: "qs_Attempt (update_columns t1 c (?beat c)) < qs_MaxAttempts (update_columns t1 c (?beat c))"
    using assms(9) by (simp add: update_columns_def)
  have "first_by sc_ID (qd_Scans (snd (ReclaimStaleScans now ?db))) i = Some (?beat c)"
    using reclaim_first [OF beaten, of now] live by (simp add: reclaimed_def)
  moreover have "first_by sc_ID (qd_Scans (snd (ReclaimStaleScans now (UpdateScan t1 c ?db)))) i =
      Some (requeued now (update_columns t1 c (?beat c)))"
    using reclaim_first [OF written, of now] stale remaining by (simp add: reclaimed_def)
  ultimately show ?thesis
    using ok assms(3) by (intro exI [of _ ?db] exI [of _ "?beat c"] exI conjI) (auto simp: prod_eq_iff requeued_def)
qed

section \<open>A copy without a token undoes a claim\<close>

lemma claimed_first:
  assumes "ClaimNextScan locked t now w b until db = (Some row, db')" "distinct (map sc_ID (qd_Scans db))"
    "first_by sc_ID (qd_Scans db) (sc_ID row) = Some c"
  shows "first_by sc_ID (qd_Scans db') (sc_ID row) = Some (claim_columns t now w b until c)"
proof -
  obtain d where d: "d \<in> set (qd_Scans db)" "sc_ID row = sc_ID d"
    "db' = snd (exec_scans (\<lambda>r. sc_ID r = sc_ID d) (claim_columns t now w b until) db)"
    using claim_row [OF assms(1,2)] by metis
  then have "c = d" using first_by_distinct [OF assms(2) d(1)] assms(3) by simp
  then show ?thesis using assms(3) d by (simp add: exec_row)
qed

text \<open>C28: An executor that loses its lease to a reclaim before it reads its scan again (\<open>executeScan\<close> reads
  the row a second time after it has started, without comparing the token) holds a copy without a token,
  and writes it back without a fence. If another worker claims the scan in between, the write undoes that
  claim: the scan waits again with the attempts it had before, so the next worker can claim it although the
  other one is still at work, and the attempt is never charged to the budget. The token of the other
  worker is gone from the row: its heartbeat is refused.\<close>

theorem unleased_write_undoes_claim:
  fixes t1 :: go_time
  assumes "distinct (map sc_ID (qd_Scans db))" "first_by sc_ID (qd_Scans db) i = Some c"
    "sc_Status c = ScanStatusPending" "qs_LeaseToken c = []" "qs_CancelRequestedAt c = None"
    "ClaimNextScan locked t now w b until db = (Some row, db1)" "sc_ID row = i" "t \<noteq> []"
    "sc_ID copy = i" "control copy = control c"
  defines "db2 \<equiv> UpdateScan t1 copy db1"
  shows "\<exists>mid r. first_by sc_ID (qd_Scans db1) i = Some mid \<and> sc_Status mid = ScanStatusRunning \<and>
      qs_LeaseToken mid = t \<and> qs_Attempt mid = qs_Attempt c + 1 \<and>
      first_by sc_ID (qd_Scans db2) i = Some r \<and> control r = control c \<and>
      \<not> fst (HeartbeatScanLease t2 i t until2 db2)"
proof -
  let ?mid = "claim_columns t now w b until c"
  have i: "sc_ID c = i" using first_by_Some [OF assms(2)] by simp
  have mid: "first_by sc_ID (qd_Scans db1) i = Some ?mid"
    using claimed_first [OF assms(6,1)] assms(2,7) by simp
  have copy: "qs_LeaseToken copy = []" "sc_Status copy = ScanStatusPending" "qs_CancelRequestedAt copy = None"
    using assms(3-5,10) by (simp_all add: control_def)
  have "writable_by copy ?mid"
    using copy i assms(5,9) by (simp add: writable_by_def claim_columns_def)
  then have row: "first_by sc_ID (qd_Scans db2) i = Some (update_columns t1 copy ?mid)"
    unfolding db2_def UpdateScan_def by (simp add: exec_row mid)
  have same: "control (update_columns t1 copy ?mid) = control c"
    using assms(10) by (simp add: update_columns_def control_def)
  have dist: "distinct (map sc_ID (qd_Scans db2))"
    using claim_ids(1) [OF assms(6,1)] assms(1) by (simp add: db2_def UpdateScan_def exec_ids)
  then have only: "q = update_columns t1 copy ?mid" if "q \<in> set (qd_Scans db2)" "sc_ID q = i" for q
    using first_by_distinct [OF dist that(1)] that(2) row by simp
  have "qs_LeaseToken (update_columns t1 copy ?mid) \<noteq> t" using copy(1) assms(8) by (simp add: update_columns_def)
  then have "\<not> (sc_ID q = i \<and> qs_LeaseToken q = t \<and> sc_Status q = ScanStatusRunning)" if "q \<in> set (qd_Scans db2)" for q
    using only [OF that] by metis
  then have "\<not> fst (HeartbeatScanLease t2 i t until2 db2)"
    unfolding HeartbeatScanLease_def by (subst exec_none) auto
  moreover have "sc_Status ?mid = ScanStatusRunning" "qs_LeaseToken ?mid = t" "qs_Attempt ?mid = qs_Attempt c + 1"
    by (simp_all add: claim_columns_def)
  ultimately show ?thesis using mid row same by blast
qed

section \<open>Events\<close>

definition events_inv :: "scan_event list \<Rightarrow> bool" where
  "events_inv es \<longleftrightarrow>
     (\<forall>i. map se_Sequence (filter (\<lambda>e. se_ScanID e = i) es) =
            map int [1..<Suc (length (filter (\<lambda>e. se_ScanID e = i) es))] \<and>
          output_count i es \<le> Suc MaxDurableToolOutputEventsPerScan)"

lemma fold_max_upto: "fold max (map int [1..<Suc n]) 0 = int n"
  by (induction n) auto

lemma policy_keeps_scan [simp]:
  "se_ScanID (truncate_output codec e) = se_ScanID e" "se_ScanID (dropped_output codec e) = se_ScanID e"
  by (simp_all add: truncate_output_def dropped_output_def)

lemma append_event_shape:
  assumes "AppendScanEvent codec uuid now e db = Inr (e', db')"
  shows "qd_Events db' = qd_Events db @ [e'] \<and> se_ScanID e' = se_ScanID e \<and>
    se_Sequence e' = next_sequence (se_ScanID e) (qd_Events db) \<and>
    (contains_elem output_types (se_EventType e') \<longrightarrow>
       output_count (se_ScanID e) (qd_Events db) \<le> MaxDurableToolOutputEventsPerScan)"
proof -
  obtain p where pol: "enforceDurableScanEventPolicy codec db e = Inr p"
    using assms by (cases "enforceDurableScanEventPolicy codec db e") (simp_all add: AppendScanEvent_def split: if_splits)
  have p: "qd_Events db' = qd_Events db @ [e']" "se_ScanID e' = se_ScanID p" "se_EventType e' = se_EventType p"
    "se_Sequence e' = next_sequence (se_ScanID p) (qd_Events db)"
    using assms by (auto simp: AppendScanEvent_def pol Let_def split: if_splits)
  have id: "se_ScanID p = se_ScanID e"
    using pol by (auto simp: enforceDurableScanEventPolicy_def Let_def split: if_splits)
  have count: "contains_elem output_types (se_EventType p) \<longrightarrow>
      output_count (se_ScanID e) (qd_Events db) \<le> MaxDurableToolOutputEventsPerScan"
    using pol id by (auto simp: enforceDurableScanEventPolicy_def Let_def split: if_splits)
  show ?thesis using p id count by simp
qed

lemma events_inv_append:
  assumes "AppendScanEvent codec uuid now e db = Inr (e', db')" "events_inv (qd_Events db)"
  shows "events_inv (qd_Events db')"
proof -
  note sh = append_event_shape [OF assms(1)]
  have "next_sequence i es = int (length (filter (\<lambda>e. se_ScanID e = i) es)) + 1" if "events_inv es" for i es
    using that by (simp only: events_inv_def next_sequence_def fold_max_upto)
  then show ?thesis
    using sh assms(2) by (auto simp: events_inv_def output_count_def)
qed

lemma step_events:
  assumes "queue_step bare s s'" "events_inv (qd_Events (qy_DB s))"
  shows "events_inv (qd_Events (qy_DB s'))"
  using assms
proof (induction rule: queue_step.induct)
  case (step_event codec uuid now e s e' db)
  then show ?case using events_inv_append by simp
next
  case (step_run now r s db)
  then show ?case using run_scans by simp
next
  case (step_findings env now fs i token s b db)
  then show ?case using lease_findings_evidence [OF step_findings(1)] by (simp add: evidence_only_def)
next
  case (step_delete i tool token s db)
  then show ?case using delete_evidence [OF step_delete(1)] by (simp add: evidence_only_def)
next
  case (step_policy penv i token path s db)
  then show ?case using policy_evidence [OF step_policy(1)] by (simp add: evidence_only_def)
next
  case (step_evidence s db)
  then show ?case by (simp add: evidence_only_def)
qed (auto simp: CreateScan_def ClaimNextScan_def StartScanExecution_def HeartbeatScanLease_def
      finalizeScan_def ReclaimStaleScans_def RequestScanCancellation_def RequestScannerRunCancellation_def
      UpsertScanWorker_def UpdateScan_def exec_scans_def Let_def split: if_splits list.splits)

text \<open>The events of a scan are numbered from one without gaps, by whatever workers they are written, and at
  most 2001 of them are tool output, the last of which can be the note that output was dropped.\<close>

theorem scan_events_bounded:
  assumes "(queue_step bare)\<^sup>*\<^sup>* (empty_queue rules runs) s"
  shows "map se_Sequence (filter (\<lambda>e. se_ScanID e = i) (qd_Events (qy_DB s))) =
      map int [1..<Suc (length (filter (\<lambda>e. se_ScanID e = i) (qd_Events (qy_DB s))))] \<and>
    output_count i (qd_Events (qy_DB s)) \<le> 2001"
proof -
  have "events_inv (qd_Events (qy_DB s))" using assms
  proof (induction rule: rtranclp_induct)
    case base
    show ?case by (simp add: empty_queue_def events_inv_def output_count_def)
  next
    case (step s1 s2)
    then show ?case using step_events by blast
  qed
  then show ?thesis by (simp add: events_inv_def MaxDurableToolOutputEventsPerScan_def)
qed

section \<open>A run of the queue\<close>

text \<open>A scan is created, claimed by a worker that reads its row and dies, reclaimed, and claimed again.\<close>

definition waiting_scan :: queue_scan where
  "waiting_scan =
     \<lparr>sc_ID = ''s'', sc_RepoID = ''r'', sc_Branch = ''main'', sc_SourceType = [], sc_SourcePath = [],
      sc_PreparedWorkspace = [], sc_CommitSHA = [], sc_TreeDigest = [], sc_SourceFingerprint = [],
      sc_RemoteNodeID = None, sc_IgnorePolicyJSON = [], sc_Status = ScanStatusPending,
      sc_ToolsSelected = [], sc_ToolsCompleted = [], sc_ToolsFailed = [], qs_UserID = ''u'',
      qs_IdempotencyKey = [], qs_DirtyState = [], qs_Phase = [], qs_ClaimedBy = [], qs_LeaseToken = [],
      qs_LeaseExpiresAt = None, qs_HeartbeatAt = None, qs_Attempt = 0, qs_MaxAttempts = 2,
      qs_CancelRequestedAt = None, qs_FailureCode = [], qs_FailureMessage = [], qs_ExecutionBackend = [],
      qs_ScannerReleaseID = [], qs_ReleaseManifestDigest = [], qs_ToolsErrors = [], qs_FindingCount = 0,
      qs_CoverageSummary = [], qs_FindingsRevision = 0, qs_StartedAt = None, qs_CompletedAt = None,
      qs_CreatedAt = 0, qs_UpdatedAt = 0\<rparr>"

definition run_created :: queue_system where
  "run_created = with_db (empty_queue [] [])
     (snd (projr (CreateScan 1 waiting_scan (qy_DB (empty_queue [] [])))))"

definition claim_by :: "string \<Rightarrow> go_time \<Rightarrow> queue_system \<Rightarrow> queue_scan option \<times> queue_db" where
  "claim_by token now s = ClaimNextScan (\<lambda>_. False) token now ''w'' ''docker'' (now + 5) (qy_DB s)"

definition claimed_by :: "string \<Rightarrow> go_time \<Rightarrow> queue_system \<Rightarrow> queue_system" where
  "claimed_by token now s =
     s\<lparr>qy_DB := snd (claim_by token now s), qy_Issued := (''s'', token) # qy_Issued s\<rparr>"

definition run_claimed :: queue_system where "run_claimed = claimed_by ''t1'' 2 run_created"

definition run_lost :: queue_system where
  "run_lost = with_db run_claimed (snd (ReclaimStaleScans 10 (qy_DB run_claimed)))"

definition run_taken :: queue_system where "run_taken = claimed_by ''t2'' 11 run_lost"

definition run_finished :: queue_system where
  "run_finished = with_db run_taken (snd (finalizeScan 12
     (waiting_scan\<lparr>sc_Status := ScanStatusCompleted\<rparr>) ''t2'' (qy_DB run_taken)))"

definition run_late :: queue_system where
  "run_late = with_db run_finished (snd (HeartbeatScanLease 13 ''s'' ''t1'' 18 (qy_DB run_finished)))"

lemma claim_by_step:
  assumes "fst (claim_by token now s) = Some row" "sc_ID row = ''s''" "token \<noteq> []"
    "token \<notin> snd ` set (qy_Issued s)"
  shows "queue_step b s (claimed_by token now s)"
proof -
  have "ClaimNextScan (\<lambda>_. False) token now ''w'' ''docker'' (now + 5) (qy_DB s) =
      (Some row, snd (claim_by token now s))"
    using assms(1) unfolding claim_by_def by (simp add: prod_eq_iff)
  from step_claim [OF this assms(3,4)] show ?thesis unfolding claimed_by_def assms(2) .
qed

lemma run_of_sample:
  "queue_step b (empty_queue [] []) run_created" "queue_step b run_created run_claimed"
  "queue_step b run_claimed run_lost" "queue_step b run_lost run_taken" "queue_step b run_taken run_finished"
  "queue_step b run_finished run_late"
proof -
  let ?out = "projr (CreateScan 1 waiting_scan (qy_DB (empty_queue [] [])))"
  have "CreateScan 1 waiting_scan (qy_DB (empty_queue [] [])) = Inr (fst ?out, snd ?out)" by code_simp
  from step_create [OF this] show "queue_step b (empty_queue [] []) run_created"
    unfolding run_created_def by (simp add: waiting_scan_def)
  have c1: "fst (claim_by ''t1'' 2 run_created) = Some (the (fst (claim_by ''t1'' 2 run_created)))"
    "sc_ID (the (fst (claim_by ''t1'' 2 run_created))) = ''s''" "''t1'' \<notin> snd ` set (qy_Issued run_created)"
    by code_simp+
  show "queue_step b run_created run_claimed"
    unfolding run_claimed_def by (rule claim_by_step [OF c1(1,2) _ c1(3)]) simp
  show "queue_step b run_claimed run_lost" unfolding run_lost_def by (rule step_reclaim)
  have c2: "fst (claim_by ''t2'' 11 run_lost) = Some (the (fst (claim_by ''t2'' 11 run_lost)))"
    "sc_ID (the (fst (claim_by ''t2'' 11 run_lost))) = ''s''" "''t2'' \<notin> snd ` set (qy_Issued run_lost)"
    by code_simp+
  show "queue_step b run_lost run_taken"
    unfolding run_taken_def by (rule claim_by_step [OF c2(1,2) _ c2(3)]) simp
  show "queue_step b run_taken run_finished"
    unfolding run_finished_def by (rule step_finalize) (simp add: isTerminal_def waiting_scan_def)
  show "queue_step b run_finished run_late"
    unfolding run_late_def by (rule step_heartbeat)
qed

lemma runs_of_sample:
  "(queue_step b)\<^sup>*\<^sup>* (empty_queue [] []) run_created" "(queue_step b)\<^sup>*\<^sup>* run_created run_taken"
  "(queue_step b)\<^sup>*\<^sup>* (empty_queue [] []) run_lost" "(queue_step b)\<^sup>*\<^sup>* run_lost run_taken"
  "(queue_step b)\<^sup>*\<^sup>* (empty_queue [] []) run_finished" "(queue_step b)\<^sup>*\<^sup>* run_finished run_late"
  using run_of_sample by (meson converse_rtranclp_into_rtranclp rtranclp.rtrancl_refl)+

theorem scan_lease_fenced_witness:
  "HeartbeatScanLease 12 ''s'' ''t1'' 17 (qy_DB run_taken) = (False, qy_DB run_taken) \<and>
   scan_holder run_taken ''s'' = Some ''t2''"
proof
  have "''t1'' \<in> scan_tokens run_lost ''s''" unfolding scan_tokens_def mem_Collect_eq by code_simp
  moreover have "scan_holder run_lost ''s'' \<noteq> Some ''t1''" by code_simp
  ultimately show "HeartbeatScanLease 12 ''s'' ''t1'' 17 (qy_DB run_taken) = (False, qy_DB run_taken)"
    using scan_lease_fenced [OF runs_of_sample(3) _ _ runs_of_sample(4)] by blast
  show "scan_holder run_taken ''s'' = Some ''t2''" by code_simp
qed

theorem scan_claims_bounded_witness:
  "\<exists>r. scan_row run_taken ''s'' = Some r \<and> int (claims run_taken ''s'') = qs_Attempt r \<and>
       qs_Attempt r = 2 \<and> qs_MaxAttempts r = 2"
proof -
  let ?r = "the (scan_row run_taken ''s'')"
  have row: "scan_row run_created ''s'' = Some (the (scan_row run_created ''s''))" by code_simp
  have r: "scan_row run_taken ''s'' = Some ?r" "qs_Attempt ?r = 2" "qs_MaxAttempts ?r = 2" by code_simp+
  have "\<exists>r. scan_row run_taken ''s'' = Some r \<and> int (claims run_taken ''s'') = qs_Attempt r"
    using scan_claims_bounded [OF runs_of_sample(1) row runs_of_sample(2)] by blast
  then show ?thesis using r by auto
qed

theorem finished_scan_frozen_witness:
  "\<exists>r'. scan_row run_late ''s'' = Some r' \<and> sc_Status r' = ScanStatusCompleted"
proof -
  have row: "scan_row run_finished ''s'' = Some (the (scan_row run_finished ''s''))"
    "isTerminal (sc_Status (the (scan_row run_finished ''s'')))"
    "sc_Status (the (scan_row run_finished ''s'')) = ScanStatusCompleted" by code_simp+
  show ?thesis
    using finished_scan_frozen [OF runs_of_sample(5) row(1,2) runs_of_sample(6)] row(3)
    by (auto simp: control_def)
qed

theorem progress_write_rewinds_lease_witness:
  "\<exists>beaten taken. HeartbeatScanLease 6 ''s'' ''t1'' 11 (qy_DB run_claimed) = (True, beaten) \<and>
     first_by sc_ID (qd_Scans (snd (ReclaimStaleScans 8
       (UpdateScan 7 (the (scan_row run_claimed ''s'')) beaten)))) ''s'' = Some taken \<and>
     sc_Status taken = ScanStatusPending"
proof -
  let ?c = "the (scan_row run_claimed ''s'')"
  have c: "distinct (map sc_ID (qd_Scans (qy_DB run_claimed)))"
    "first_by sc_ID (qd_Scans (qy_DB run_claimed)) ''s'' = Some ?c" "sc_Status ?c = ScanStatusRunning"
    "qs_LeaseToken ?c \<noteq> []" "qs_CancelRequestedAt ?c = None" "qs_LeaseExpiresAt ?c = Some 7"
    "(7::int) < 8" "(8::int) \<le> 11" "qs_Attempt ?c < qs_MaxAttempts ?c" "qs_LeaseToken ?c = ''t1''"
    by code_simp+
  show ?thesis using progress_write_rewinds_lease [OF c(1-9), of 6 7] unfolding c(10) by blast
qed

text \<open>A scan with two attempts is claimed a third time: the first executor reads the row after the reclaim
  and writes its copy back after the second claim.\<close>

definition run_undone :: queue_system where
  "run_undone = with_db run_taken (UpdateScan 12 (the (scan_row run_lost ''s'')) (qy_DB run_taken))"

definition run_third :: queue_system where "run_third = claimed_by ''t3'' 13 run_undone"

theorem unleased_write_undoes_claim_witness:
  "(queue_step True)\<^sup>*\<^sup>* (empty_queue [] []) run_third \<and> claims run_third ''s'' = 3 \<and>
   map qs_MaxAttempts (qd_Scans (qy_DB run_third)) = [2] \<and>
   \<not> fst (HeartbeatScanLease 12 ''s'' ''t2'' 17 (qy_DB run_undone))"
proof (intro conjI)
  let ?c = "the (scan_row run_lost ''s'')"
  have c: "distinct (map sc_ID (qd_Scans (qy_DB run_lost)))" "first_by sc_ID (qd_Scans (qy_DB run_lost)) ''s'' = Some ?c"
    "sc_Status ?c = ScanStatusPending" "qs_LeaseToken ?c = []" "qs_CancelRequestedAt ?c = None" "sc_ID ?c = ''s''"
    by code_simp+
  have claim: "ClaimNextScan (\<lambda>_. False) ''t2'' 11 ''w'' ''docker'' (11 + 5) (qy_DB run_lost) =
      (Some (the (fst (claim_by ''t2'' 11 run_lost))), qy_DB run_taken)"
    "sc_ID (the (fst (claim_by ''t2'' 11 run_lost))) = ''s''"
  proof -
    have "fst (claim_by ''t2'' 11 run_lost) \<noteq> None" by code_simp
    then show "ClaimNextScan (\<lambda>_. False) ''t2'' 11 ''w'' ''docker'' (11 + 5) (qy_DB run_lost) =
      (Some (the (fst (claim_by ''t2'' 11 run_lost))), qy_DB run_taken)"
      by (simp add: claim_by_def run_taken_def claimed_by_def prod_eq_iff)
    show "sc_ID (the (fst (claim_by ''t2'' 11 run_lost))) = ''s''" by code_simp
  qed
  show "\<not> fst (HeartbeatScanLease 12 ''s'' ''t2'' 17 (qy_DB run_undone))"
    using unleased_write_undoes_claim [OF c(1-5) claim _ c(6) refl, of 12 12 17]
    by (auto simp: run_undone_def)
  have undone: "queue_step True run_taken run_undone"
    unfolding run_undone_def by (rule step_bare_write) (simp_all add: c(4))
  have c3: "fst (claim_by ''t3'' 13 run_undone) = Some (the (fst (claim_by ''t3'' 13 run_undone)))"
    "sc_ID (the (fst (claim_by ''t3'' 13 run_undone))) = ''s''" "''t3'' \<notin> snd ` set (qy_Issued run_undone)"
    by code_simp+
  have "queue_step True run_undone run_third"
    unfolding run_third_def by (rule claim_by_step [OF c3(1,2) _ c3(3)]) simp
  then show "(queue_step True)\<^sup>*\<^sup>* (empty_queue [] []) run_third"
    using undone rtranclp_trans [OF runs_of_sample(3,4)] by (meson rtranclp.rtrancl_into_rtrancl)
  show "claims run_third ''s'' = 3" by code_simp
  show "map qs_MaxAttempts (qd_Scans (qy_DB run_third)) = [2]" by code_simp
qed

theorem scan_events_bounded_witness:
  "output_count ''s'' (qd_Events (qy_DB run_late)) \<le> 2001"
  using scan_events_bounded [OF rtranclp_trans [OF runs_of_sample(5) [of False] runs_of_sample(6) [of False]], of "''s''"] by blast

end
