(* ===== verification/SupplyStore.thy ===== *)
theory SupplyStore
  imports ReleaseStore GoText
begin

text \<open>
  The candidates of the durable store (\<open>internal/db/scannerrelease_repository.go\<close>): policies, release
  candidates, build runs and their steps, approvals and the event log, with the constraints of the
  schema and the repository operations on them. As in \<open>ReleaseStore\<close> a table is the list of its rows,
  an operation is one transaction, and UUIDs and the clock are arguments. The null value of a nullable
  text column is the empty string, as the code reads it back.
\<close>

section \<open>Rows\<close>

record policy_row =
  pl_ID :: string
  pl_Scope :: string
  pl_Revision :: int
  pl_Enabled :: bool
  pl_ScheduleJSON :: string
  pl_RulesJSON :: string
  pl_CreatedBy :: string
  pl_CreatedAt :: go_time
  pl_UpdatedAt :: go_time

text \<open>A candidate without the columns of the proposal worker.\<close>

record candidate_row =
  ct_ID :: string
  ct_DiscoveryRunID :: string
  ct_SelectionJSON :: string
  ct_DefinitionCommit :: string
  ct_ProposedCommit :: string
  ct_ProposalURL :: string
  ct_LockDigest :: string
  ct_LockURI :: string
  ct_RiskSummaryJSON :: string
  ct_State :: candidate_state
  ct_RequiredGatesJSON :: string
  ct_PolicyDecision :: string
  ct_PolicyID :: string
  ct_PolicyRevision :: int
  ct_Actor :: string
  ct_IdempotencyKey :: string
  ct_ErrorClass :: string
  ct_ErrorDetail :: string
  ct_Version :: int
  ct_CreatedAt :: go_time
  ct_UpdatedAt :: go_time

record build_row =
  br_ID :: string
  br_CandidateID :: string
  br_Attempt :: int
  br_WorkerID :: string
  br_State :: build_state
  br_PlatformsJSON :: string
  br_LeaseToken :: string
  br_LeaseExpiresAt :: "go_time option"
  br_HeartbeatAt :: "go_time option"
  br_CancelRequestedAt :: "go_time option"
  br_ErrorClass :: string
  br_ErrorDetail :: string
  br_Version :: int
  br_StartedAt :: "go_time option"
  br_CompletedAt :: "go_time option"
  br_CreatedAt :: go_time
  br_UpdatedAt :: go_time

record step_row =
  bt_ID :: string
  bt_BuildRunID :: string
  bt_StepKey :: string
  bt_State :: build_state
  bt_Attempt :: int
  bt_OutputURI :: string
  bt_OutputDigest :: string
  bt_SummaryJSON :: string
  bt_RetentionClass :: string
  bt_RetainUntil :: "go_time option"
  bt_Protected :: bool
  bt_ErrorClass :: string
  bt_ErrorDetail :: string
  bt_Version :: int
  bt_StartedAt :: "go_time option"
  bt_CompletedAt :: "go_time option"
  bt_CreatedAt :: go_time
  bt_UpdatedAt :: go_time

record approval_row =
  ar_ID :: string
  ar_CandidateID :: string
  ar_ReleaseID :: string
  ar_Actor :: string
  ar_Action :: string
  ar_Reason :: string
  ar_ExceptionScope :: string
  ar_ExceptionOwner :: string
  ar_CompensatingControl :: string
  ar_EvidenceDigest :: string
  ar_PolicyDecision :: string
  ar_ExpiresAt :: "go_time option"
  ar_IdempotencyKey :: string
  ar_CreatedAt :: go_time

text \<open>The identifiers of the releases, and the digests of the quarantine objects in state \<open>deleting\<close>.\<close>

record supply_db =
  sd_Policies :: "policy_row list"
  sd_Candidates :: "candidate_row list"
  sd_Builds :: "build_row list"
  sd_Steps :: "step_row list"
  sd_Approvals :: "approval_row list"
  sd_ReleaseIDs :: "string list"
  sd_Deleting :: "string list"
  sd_Events :: "event_row list"

fun candidate_state_string :: "candidate_state \<Rightarrow> string" where
  "candidate_state_string CandidateDraft = ''draft''"
| "candidate_state_string CandidateAwaitingDefinition = ''awaiting_definition''"
| "candidate_state_string CandidateQueued = ''queued''"
| "candidate_state_string CandidateBuilding = ''building''"
| "candidate_state_string CandidateTesting = ''testing''"
| "candidate_state_string CandidateSecurityReview = ''security_review''"
| "candidate_state_string CandidateAwaitingApproval = ''awaiting_approval''"
| "candidate_state_string CandidateApproved = ''approved''"
| "candidate_state_string CandidatePublishing = ''publishing''"
| "candidate_state_string CandidatePublished = ''published''"
| "candidate_state_string CandidateBlocked = ''blocked''"
| "candidate_state_string CandidateRejected = ''rejected''"
| "candidate_state_string CandidateFailed = ''failed''"
| "candidate_state_string (CandidateOther x) = x"

fun build_state_string :: "build_state \<Rightarrow> string" where
  "build_state_string BuildQueued = ''queued''"
| "build_state_string BuildClaimed = ''claimed''"
| "build_state_string BuildRunning = ''running''"
| "build_state_string BuildCompleted = ''completed''"
| "build_state_string BuildFailed = ''failed''"
| "build_state_string BuildCancelled = ''cancelled''"
| "build_state_string (BuildOther x) = x"

section \<open>The constraints of the schema\<close>

fun known_candidate :: "candidate_state \<Rightarrow> bool" where
  "known_candidate (CandidateOther _) \<longleftrightarrow> False"
| "known_candidate _ \<longleftrightarrow> True"

fun known_build :: "build_state \<Rightarrow> bool" where
  "known_build (BuildOther _) \<longleftrightarrow> False"
| "known_build _ \<longleftrightarrow> True"

definition policy_constraints :: "supply_db \<Rightarrow> bool" where
  "policy_constraints db \<longleftrightarrow>
     distinct (map pl_ID (sd_Policies db)) \<and>
     distinct (map (\<lambda>p. (pl_Scope p, pl_Revision p)) (sd_Policies db))"

definition candidate_constraints :: "supply_db \<Rightarrow> bool" where
  "candidate_constraints db \<longleftrightarrow>
     distinct (map ct_ID (sd_Candidates db)) \<and> distinct (map ct_IdempotencyKey (sd_Candidates db)) \<and>
     list_all (\<lambda>c. known_candidate (ct_State c) \<and> contains_elem (map pl_ID (sd_Policies db)) (ct_PolicyID c))
       (sd_Candidates db)"

definition build_constraints :: "supply_db \<Rightarrow> bool" where
  "build_constraints db \<longleftrightarrow>
     distinct (map br_ID (sd_Builds db)) \<and>
     distinct (map (\<lambda>b. (br_CandidateID b, br_Attempt b)) (sd_Builds db)) \<and>
     list_all (\<lambda>b. known_build (br_State b) \<and> 0 < br_Attempt b \<and>
                   contains_elem (map ct_ID (sd_Candidates db)) (br_CandidateID b)) (sd_Builds db)"

definition step_constraints :: "supply_db \<Rightarrow> bool" where
  "step_constraints db \<longleftrightarrow>
     distinct (map bt_ID (sd_Steps db)) \<and>
     distinct (map (\<lambda>s. (bt_BuildRunID s, bt_StepKey s, bt_Attempt s)) (sd_Steps db)) \<and>
     list_all (\<lambda>s. known_build (bt_State s) \<and> 0 < bt_Attempt s \<and>
                   contains_elem (map br_ID (sd_Builds db)) (bt_BuildRunID s)) (sd_Steps db)"

definition approval_constraints :: "supply_db \<Rightarrow> bool" where
  "approval_constraints db \<longleftrightarrow>
     distinct (map ar_ID (sd_Approvals db)) \<and> distinct (map ar_IdempotencyKey (sd_Approvals db)) \<and>
     list_all (\<lambda>a. contains_elem [''approve'', ''reject'', ''exception'', ''emergency_override''] (ar_Action a) \<and>
                   (ar_CandidateID a \<noteq> [] \<or> ar_ReleaseID a \<noteq> []) \<and>
                   null_or_in (map ct_ID (sd_Candidates db)) (ar_CandidateID a) \<and>
                   null_or_in (sd_ReleaseIDs db) (ar_ReleaseID a)) (sd_Approvals db)"

definition log_constraints :: "event_row list \<Rightarrow> bool" where
  "log_constraints es \<longleftrightarrow>
     distinct (map (\<lambda>e. (er_AggregateType e, er_AggregateID e, er_Sequence e)) es) \<and>
     distinct (map (\<lambda>e. (er_AggregateType e, er_AggregateID e, er_IdempotencyKey e)) es) \<and>
     list_all (\<lambda>e. 0 < er_Sequence e) es"

definition supply_constraints :: "supply_db \<Rightarrow> bool" where
  "supply_constraints db \<longleftrightarrow>
     policy_constraints db \<and> candidate_constraints db \<and> build_constraints db \<and> step_constraints db \<and>
     approval_constraints db \<and> log_constraints (sd_Events db)"

definition sd_checked :: "supply_db \<Rightarrow> store_error + supply_db" where
  "sd_checked db = (if supply_constraints db then Inr db else Inl ConstraintViolation)"

type_synonym 'a stx = "supply_db \<Rightarrow> store_error + 'a \<times> supply_db"

definition commit_or_roll_back :: "'a stx \<Rightarrow> supply_db \<Rightarrow> (store_error + 'a) \<times> supply_db" where
  "commit_or_roll_back op db = (case op db of Inl e \<Rightarrow> (Inl e, db) | Inr (a, db') \<Rightarrow> (Inr a, db'))"

section \<open>Commands\<close>

definition append_event ::
  "string \<Rightarrow> string \<Rightarrow> string \<Rightarrow> string \<Rightarrow> string \<Rightarrow> string \<Rightarrow> command \<Rightarrow> go_time
     \<Rightarrow> supply_db \<Rightarrow> store_error + supply_db" where
  "append_event uuid aggregateType aggregateID eventType priorState newState cmd now db =
     sd_checked (db\<lparr>sd_Events := sd_Events db @
       [new_event uuid aggregateType aggregateID eventType priorState newState cmd now (sd_Events db)]\<rparr>)"

definition logged_command :: "string \<Rightarrow> string \<Rightarrow> string \<Rightarrow> supply_db \<Rightarrow> event_row option" where
  "logged_command aggregateType aggregateID key db =
     (if key = [] then None
      else first_by er_IdempotencyKey (stream_of aggregateType aggregateID (sd_Events db)) key)"

definition existing_command :: "string \<Rightarrow> string \<Rightarrow> string \<Rightarrow> string \<Rightarrow> supply_db \<Rightarrow> store_error + bool" where
  "existing_command aggregateType aggregateID key intendedState db =
     (case logged_command aggregateType aggregateID key db of
        None \<Rightarrow> Inr False
      | Some e \<Rightarrow> if er_NewState e \<noteq> intendedState then Inl IdempotencyConflict else Inr True)"

text \<open>The table that \<open>transitionState\<close> is called with: its rows and columns, the validation of its
  states, and the columns the update sets.\<close>

record ('r, 's) versioned_table =
  vt_Rows :: "supply_db \<Rightarrow> 'r list"
  vt_Put :: "'r list \<Rightarrow> supply_db \<Rightarrow> supply_db"
  vt_Key :: "'r \<Rightarrow> string"
  vt_Version :: "'r \<Rightarrow> int"
  vt_State :: "'r \<Rightarrow> 's"
  vt_Text :: "'s \<Rightarrow> string"
  vt_Aggregate :: string
  vt_Allowed :: "'r \<Rightarrow> 's \<Rightarrow> bool"
  vt_Columns :: "'s \<Rightarrow> go_time \<Rightarrow> 'r \<Rightarrow> 'r"

definition transition_row ::
  "('r, 's) versioned_table \<Rightarrow> string \<Rightarrow> go_time \<Rightarrow> string \<Rightarrow> int \<Rightarrow> 's \<Rightarrow> command \<Rightarrow> bool stx" where
  "transition_row t uuid now i expectedVersion to cmd db =
     and_then (existing_command (vt_Aggregate t) i (cmd_IdempotencyKey cmd) (vt_Text t to) db)
       (\<lambda>exists. if exists then Inr (False, db) else
        case first_by (vt_Key t) (vt_Rows t db) i of
          None \<Rightarrow> Inl NotFound
        | Some current \<Rightarrow>
          if vt_Version t current \<noteq> expectedVersion then Inl VersionConflict
          else if \<not> vt_Allowed t current to then Inl InvalidTransitionErr
          else
            and_then (sd_checked (vt_Put t (update_where
                 (\<lambda>r. vt_Key t r = i \<and> vt_Version t r = expectedVersion)
                 (vt_Columns t to now) (vt_Rows t db)) db)) (\<lambda>db1.
            and_then (append_event uuid (vt_Aggregate t) i (vt_Aggregate t @ ''.'' @ vt_Text t to)
                 (vt_Text t (vt_State t current)) (vt_Text t to) cmd now db1)
            (\<lambda>db2. Inr (True, db2))))"

definition when_none :: "bool \<Rightarrow> 'a option \<Rightarrow> 'a \<Rightarrow> 'a option" where
  "when_none set_it old new = (if set_it then (case old of None \<Rightarrow> Some new | Some x \<Rightarrow> Some x) else old)"

definition candidate_columns :: "candidate_state \<Rightarrow> go_time \<Rightarrow> candidate_row \<Rightarrow> candidate_row" where
  "candidate_columns to now c = c\<lparr>ct_State := to, ct_Version := ct_Version c + 1, ct_UpdatedAt := now\<rparr>"

definition build_columns :: "build_state \<Rightarrow> go_time \<Rightarrow> build_row \<Rightarrow> build_row" where
  "build_columns to now b =
     b\<lparr>br_State := to, br_Version := br_Version b + 1, br_UpdatedAt := now,
       br_StartedAt := when_none (to = BuildClaimed \<or> to = BuildRunning) (br_StartedAt b) now,
       br_CompletedAt := (if IsTerminalBuildState to then Some now else br_CompletedAt b),
       br_WorkerID := (if IsTerminalBuildState to then [] else br_WorkerID b),
       br_LeaseToken := (if IsTerminalBuildState to then [] else br_LeaseToken b),
       br_LeaseExpiresAt := (if IsTerminalBuildState to then None else br_LeaseExpiresAt b),
       br_HeartbeatAt := (if IsTerminalBuildState to then None else br_HeartbeatAt b)\<rparr>"

definition step_columns :: "build_state \<Rightarrow> go_time \<Rightarrow> step_row \<Rightarrow> step_row" where
  "step_columns to now s =
     s\<lparr>bt_State := to, bt_Version := bt_Version s + 1, bt_UpdatedAt := now,
       bt_StartedAt := when_none (to = BuildClaimed \<or> to = BuildRunning) (bt_StartedAt s) now,
       bt_CompletedAt := (if IsTerminalBuildState to then Some now else bt_CompletedAt s)\<rparr>"

definition candidates_table :: "(candidate_row, candidate_state) versioned_table" where
  "candidates_table =
     \<lparr>vt_Rows = sd_Candidates, vt_Put = (\<lambda>rows db. db\<lparr>sd_Candidates := rows\<rparr>), vt_Key = ct_ID,
      vt_Version = ct_Version, vt_State = ct_State, vt_Text = candidate_state_string,
      vt_Aggregate = ''candidate'',
      vt_Allowed = (\<lambda>c to. ValidateCandidateTransition (ct_State c) to = None),
      vt_Columns = candidate_columns\<rparr>"

text \<open>A build whose cancellation was requested can only be cancelled.\<close>

definition builds_table :: "(build_row, build_state) versioned_table" where
  "builds_table =
     \<lparr>vt_Rows = sd_Builds, vt_Put = (\<lambda>rows db. db\<lparr>sd_Builds := rows\<rparr>), vt_Key = br_ID,
      vt_Version = br_Version, vt_State = br_State, vt_Text = build_state_string,
      vt_Aggregate = ''build'',
      vt_Allowed = (\<lambda>b to. ValidateBuildTransition (br_State b) to = None \<and>
                           \<not> (br_CancelRequestedAt b \<noteq> None \<and> to \<noteq> BuildCancelled)),
      vt_Columns = build_columns\<rparr>"

definition steps_table :: "(step_row, build_state) versioned_table" where
  "steps_table =
     \<lparr>vt_Rows = sd_Steps, vt_Put = (\<lambda>rows db. db\<lparr>sd_Steps := rows\<rparr>), vt_Key = bt_ID,
      vt_Version = bt_Version, vt_State = bt_State, vt_Text = build_state_string,
      vt_Aggregate = ''build_step'',
      vt_Allowed = (\<lambda>s to. ValidateBuildTransition (bt_State s) to = None),
      vt_Columns = step_columns\<rparr>"

text \<open>The operations return the row read back after the commit.\<close>

definition read_back ::
  "(supply_db \<Rightarrow> store_error + 'r) \<Rightarrow> bool stx \<Rightarrow> supply_db \<Rightarrow> (store_error + 'r) \<times> supply_db" where
  "read_back get op db =
     (case commit_or_roll_back op db of (Inl e, db') \<Rightarrow> (Inl e, db') | (Inr _, db') \<Rightarrow> (get db', db'))"

section \<open>Policies and candidates\<close>

definition prepare_policy :: "string \<Rightarrow> go_time \<Rightarrow> policy_row \<Rightarrow> policy_row" where
  "prepare_policy uuid now p =
     (case initializeIDAndTimes uuid now (pl_ID p, pl_CreatedAt p, pl_UpdatedAt p) of
        (i, created, updated) \<Rightarrow>
          p\<lparr>pl_ID := i, pl_CreatedAt := created, pl_UpdatedAt := updated,
            pl_Revision := (if pl_Revision p \<le> 0 then 1 else pl_Revision p),
            pl_ScheduleJSON := jsonDefault (pl_ScheduleJSON p) ''{}'',
            pl_RulesJSON := jsonDefault (pl_RulesJSON p) ''{}''\<rparr>)"

definition CreatePolicy :: "string \<Rightarrow> go_time \<Rightarrow> policy_row \<Rightarrow> policy_row stx" where
  "CreatePolicy uuid now policy db =
     (let p = prepare_policy uuid now policy;
          rows = (if pl_Enabled p
                  then update_where (\<lambda>r. pl_Scope r = pl_Scope p \<and> pl_Enabled r)
                         (\<lambda>r. r\<lparr>pl_Enabled := False, pl_UpdatedAt := pl_CreatedAt p\<rparr>) (sd_Policies db)
                  else sd_Policies db)
      in and_then (sd_checked (db\<lparr>sd_Policies := rows @ [p]\<rparr>)) (\<lambda>db'. Inr (p, db')))"

definition GetPolicy :: "string \<Rightarrow> supply_db \<Rightarrow> store_error + policy_row" where
  "GetPolicy i db = (case first_by pl_ID (sd_Policies db) i of None \<Rightarrow> Inl NotFound | Some p \<Rightarrow> Inr p)"

definition ListPolicies :: "string \<Rightarrow> bool \<Rightarrow> supply_db \<Rightarrow> policy_row list" where
  "ListPolicies scope enabledOnly db =
     sort_key (\<lambda>p. (pl_Scope p, - pl_Revision p))
       (filter (\<lambda>p. (scope = [] \<or> pl_Scope p = scope) \<and> (enabledOnly \<longrightarrow> pl_Enabled p)) (sd_Policies db))"

definition prepare_candidate :: "string \<Rightarrow> go_time \<Rightarrow> command \<Rightarrow> candidate_row \<Rightarrow> candidate_row" where
  "prepare_candidate uuid now cmd c =
     (case initializeIDAndTimes uuid now (ct_ID c, ct_CreatedAt c, ct_UpdatedAt c) of
        (i, created, updated) \<Rightarrow>
          c\<lparr>ct_ID := i, ct_CreatedAt := created, ct_UpdatedAt := updated,
            ct_State := (if ct_State c = CandidateOther [] then CandidateDraft else ct_State c),
            ct_Version := (if ct_Version c \<le> 0 then 1 else ct_Version c),
            ct_IdempotencyKey := (if ct_IdempotencyKey c = [] then cmd_IdempotencyKey cmd
                                  else ct_IdempotencyKey c),
            ct_RiskSummaryJSON := jsonDefault (ct_RiskSummaryJSON c) ''{}'',
            ct_RequiredGatesJSON := jsonDefault (ct_RequiredGatesJSON c) ''[]'',
            ct_SelectionJSON := jsonDefault (ct_SelectionJSON c) ''{}''\<rparr>)"

definition CreateCandidate :: "(nat \<Rightarrow> string) \<Rightarrow> go_time \<Rightarrow> candidate_row \<Rightarrow> command \<Rightarrow> candidate_row stx" where
  "CreateCandidate uuids now candidate cmd db =
     (let c = prepare_candidate (uuids 0) now cmd candidate in
      case first_by ct_IdempotencyKey (sd_Candidates db) (ct_IdempotencyKey c) of
        Some existing \<Rightarrow>
          if ct_DefinitionCommit existing \<noteq> ct_DefinitionCommit c \<or> ct_PolicyID existing \<noteq> ct_PolicyID c \<or>
             ct_PolicyRevision existing \<noteq> ct_PolicyRevision c \<or>
             ct_DiscoveryRunID existing \<noteq> ct_DiscoveryRunID c \<or> ct_SelectionJSON existing \<noteq> ct_SelectionJSON c
          then Inl IdempotencyConflict else Inr (existing, db)
      | None \<Rightarrow>
          and_then (sd_checked (db\<lparr>sd_Candidates := sd_Candidates db @ [c]\<rparr>)) (\<lambda>db1.
          and_then (append_event (uuids 1) ''candidate'' (ct_ID c) ''candidate.created'' []
                     (candidate_state_string (ct_State c)) cmd (ct_CreatedAt c) db1) (\<lambda>db2.
          Inr (c, db2))))"

definition GetCandidate :: "string \<Rightarrow> supply_db \<Rightarrow> store_error + candidate_row" where
  "GetCandidate i db = (case first_by ct_ID (sd_Candidates db) i of None \<Rightarrow> Inl NotFound | Some c \<Rightarrow> Inr c)"

definition TransitionCandidate ::
  "string \<Rightarrow> go_time \<Rightarrow> string \<Rightarrow> int \<Rightarrow> candidate_state \<Rightarrow> command \<Rightarrow> supply_db
     \<Rightarrow> (store_error + candidate_row) \<times> supply_db" where
  "TransitionCandidate uuid now i expectedVersion to cmd =
     read_back (GetCandidate i) (transition_row candidates_table uuid now i expectedVersion to cmd)"

definition proposal_columns :: "go_time \<Rightarrow> candidate_row \<Rightarrow> candidate_row \<Rightarrow> candidate_row" where
  "proposal_columns now c row =
     row\<lparr>ct_ProposedCommit := ct_ProposedCommit c, ct_ProposalURL := ct_ProposalURL c,
         ct_LockDigest := ct_LockDigest c, ct_LockURI := ct_LockURI c,
         ct_RiskSummaryJSON := jsonDefault (ct_RiskSummaryJSON c) ''{}'',
         ct_RequiredGatesJSON := jsonDefault (ct_RequiredGatesJSON c) ''[]'',
         ct_PolicyDecision := ct_PolicyDecision c, ct_ErrorClass := ct_ErrorClass c,
         ct_ErrorDetail := ct_ErrorDetail c, ct_Version := ct_Version row + 1, ct_UpdatedAt := now\<rparr>"

text \<open>Unlike a transition, this update does not look for its command in the log first.\<close>

definition update_candidate :: "string \<Rightarrow> go_time \<Rightarrow> candidate_row \<Rightarrow> int \<Rightarrow> command \<Rightarrow> bool stx" where
  "update_candidate uuid now c expectedVersion cmd db =
     (case first_by ct_ID (sd_Candidates db) (ct_ID c) of
        None \<Rightarrow> Inl NotFound
      | Some current \<Rightarrow>
          if ct_Version current \<noteq> expectedVersion then Inl VersionConflict
          else
            let state = candidate_state_string (ct_State current) in
            and_then (sd_checked (db\<lparr>sd_Candidates := update_where
                 (\<lambda>r. ct_ID r = ct_ID c \<and> ct_Version r = expectedVersion)
                 (proposal_columns now c) (sd_Candidates db)\<rparr>)) (\<lambda>db1.
            and_then (append_event uuid ''candidate'' (ct_ID c) ''candidate.proposal_updated'' state state
                 cmd now db1) (\<lambda>db2. Inr (True, db2))))"

definition UpdateCandidateProposal ::
  "string \<Rightarrow> go_time \<Rightarrow> candidate_row \<Rightarrow> int \<Rightarrow> command \<Rightarrow> supply_db
     \<Rightarrow> (store_error + candidate_row) \<times> supply_db" where
  "UpdateCandidateProposal uuid now c expectedVersion cmd =
     read_back (GetCandidate (ct_ID c)) (update_candidate uuid now c expectedVersion cmd)"

section \<open>Approvals\<close>

definition prepare_approval :: "string \<Rightarrow> go_time \<Rightarrow> approval_row \<Rightarrow> approval_row" where
  "prepare_approval uuid now a =
     (let i = (if ar_ID a = [] then uuid else ar_ID a) in
      a\<lparr>ar_ID := i,
        ar_IdempotencyKey := (if ar_IdempotencyKey a = [] then ''approval:'' @ i else ar_IdempotencyKey a),
        ar_CreatedAt := (if is_zero_time (ar_CreatedAt a) then now else ar_CreatedAt a)\<rparr>)"

definition same_approval :: "approval_row \<Rightarrow> approval_row \<Rightarrow> bool" where
  "same_approval x a \<longleftrightarrow>
     ar_EvidenceDigest x = ar_EvidenceDigest a \<and> ar_Action x = ar_Action a \<and> ar_Actor x = ar_Actor a \<and>
     ar_Reason x = ar_Reason a \<and> ar_CandidateID x = ar_CandidateID a \<and> ar_ReleaseID x = ar_ReleaseID a \<and>
     ar_ExceptionScope x = ar_ExceptionScope a \<and> ar_ExceptionOwner x = ar_ExceptionOwner a \<and>
     ar_CompensatingControl x = ar_CompensatingControl a \<and> ar_PolicyDecision x = ar_PolicyDecision a \<and>
     ar_ExpiresAt x = ar_ExpiresAt a"

definition AddApproval :: "string \<Rightarrow> go_time \<Rightarrow> approval_row \<Rightarrow> approval_row stx" where
  "AddApproval uuid now approval db =
     (let a = prepare_approval uuid now approval in
      case first_by ar_IdempotencyKey (sd_Approvals db) (ar_IdempotencyKey a) of
        None \<Rightarrow> and_then (sd_checked (db\<lparr>sd_Approvals := sd_Approvals db @ [a]\<rparr>)) (\<lambda>db'. Inr (a, db'))
      | Some existing \<Rightarrow> if same_approval existing a then Inr (existing, db) else Inl IdempotencyConflict)"

definition ListApprovals :: "string \<Rightarrow> string \<Rightarrow> supply_db \<Rightarrow> approval_row list" where
  "ListApprovals candidateID releaseID db =
     sort_key (\<lambda>a. (ar_CreatedAt a, ar_ID a))
       (filter (\<lambda>a. (candidateID \<noteq> [] \<longrightarrow> ar_CandidateID a = candidateID) \<and>
                    (releaseID \<noteq> [] \<longrightarrow> ar_ReleaseID a = releaseID)) (sd_Approvals db))"

end
