(* ===== verification/BuildStore.thy ===== *)
theory BuildStore
  imports SupplyStore
begin

text \<open>
  The builds of the durable store: runs with their leases and cancellations, the persisted plan of
  steps, and the evidence of steps (\<open>internal/db/scannerrelease_repository.go\<close>, the section on builds).
\<close>

section \<open>Build runs\<close>

text \<open>The two shapes of \<open>platforms_json\<close>: a list of platforms, or a list of images with platforms.\<close>

record platform_codec =
  pc_Platforms :: "string \<Rightarrow> string list option"
  pc_Images :: "string \<Rightarrow> string list list option"

definition distinct_in_order :: "string list \<Rightarrow> string list" where
  "distinct_in_order xs = fold (\<lambda>x seen. if contains_elem seen x then seen else seen @ [x]) xs []"

definition requestedBuildPlatforms :: "platform_codec \<Rightarrow> string \<Rightarrow> store_error + string list" where
  "requestedBuildPlatforms codec requestedJSON =
     (let encoded = jsonDefault requestedJSON ''[]'' in
      and_then (case pc_Platforms codec encoded of
          Some requested \<Rightarrow> Inr requested
        | None \<Rightarrow> (case pc_Images codec encoded of
              None \<Rightarrow> Inl InvalidRequest
            | Some images \<Rightarrow> Inr (distinct_in_order (concat images)))) (\<lambda>requested.
      if list_ex (\<lambda>p. trim_space p = []) requested then Inl InvalidRequest else Inr requested))"

definition supportsBuildPlatforms ::
  "platform_codec \<Rightarrow> string \<Rightarrow> string list \<Rightarrow> store_error + bool" where
  "supportsBuildPlatforms codec requestedJSON supported =
     and_then (requestedBuildPlatforms codec requestedJSON) (\<lambda>requested.
       Inr (supported = [] \<or> list_all (contains_elem supported) requested))"

definition prepare_build :: "string \<Rightarrow> go_time \<Rightarrow> build_row \<Rightarrow> build_row" where
  "prepare_build uuid now b =
     (case initializeIDAndTimes uuid now (br_ID b, br_CreatedAt b, br_UpdatedAt b) of
        (i, created, updated) \<Rightarrow>
          b\<lparr>br_ID := i, br_CreatedAt := created, br_UpdatedAt := updated,
            br_Attempt := (if br_Attempt b \<le> 0 then 1 else br_Attempt b),
            br_State := (if br_State b = BuildOther [] then BuildQueued else br_State b),
            br_Version := (if br_Version b \<le> 0 then 1 else br_Version b),
            br_PlatformsJSON := jsonDefault (br_PlatformsJSON b) ''[]''\<rparr>)"

definition build_of_attempt :: "string \<Rightarrow> int \<Rightarrow> supply_db \<Rightarrow> build_row option" where
  "build_of_attempt candidateID attempt db =
     first_by (\<lambda>b. (br_CandidateID b, br_Attempt b)) (sd_Builds db) (candidateID, attempt)"

text \<open>The insertion of the run: the row, and whether it is new.\<close>

definition insert_build :: "string \<Rightarrow> build_row \<Rightarrow> command \<Rightarrow> (build_row \<times> bool) stx" where
  "insert_build uuid b cmd db =
     (case build_of_attempt (br_CandidateID b) (br_Attempt b) db of
        Some existing \<Rightarrow>
          if br_PlatformsJSON existing \<noteq> br_PlatformsJSON b then Inl IdempotencyConflict
          else Inr ((existing, False), db)
      | None \<Rightarrow>
          and_then (sd_checked (db\<lparr>sd_Builds := sd_Builds db @ [b]\<rparr>)) (\<lambda>db1.
          and_then (append_event uuid ''build'' (br_ID b) ''build.created'' []
                     (build_state_string (br_State b)) cmd (br_CreatedAt b) db1) (\<lambda>db2.
          Inr ((b, True), db2))))"

definition CreateBuildRun ::
  "platform_codec \<Rightarrow> (nat \<Rightarrow> string) \<Rightarrow> go_time \<Rightarrow> build_row \<Rightarrow> command \<Rightarrow> build_row stx" where
  "CreateBuildRun codec uuids now run cmd db =
     (let b = prepare_build (uuids 0) now run in
      and_then (requestedBuildPlatforms codec (br_PlatformsJSON b)) (\<lambda>platforms.
      if platforms = [] then Inl InvalidRequest
      else and_then (insert_build (uuids 1) b cmd db) (\<lambda>((stored, _), db'). Inr (stored, db'))))"

definition GetBuildRun :: "string \<Rightarrow> supply_db \<Rightarrow> store_error + build_row" where
  "GetBuildRun i db = (case first_by br_ID (sd_Builds db) i of None \<Rightarrow> Inl NotFound | Some b \<Rightarrow> Inr b)"

definition ListBuildRuns :: "string \<Rightarrow> supply_db \<Rightarrow> build_row list" where
  "ListBuildRuns candidateID db =
     sort_key (\<lambda>b. - br_Attempt b) (filter (\<lambda>b. br_CandidateID b = candidateID) (sd_Builds db))"

section \<open>The persisted plan\<close>

definition prepare_step :: "string \<Rightarrow> go_time \<Rightarrow> step_row \<Rightarrow> step_row" where
  "prepare_step uuid now s =
     (case initializeIDAndTimes uuid now (bt_ID s, bt_CreatedAt s, bt_UpdatedAt s) of
        (i, created, updated) \<Rightarrow>
          s\<lparr>bt_ID := i, bt_CreatedAt := created, bt_UpdatedAt := updated,
            bt_Attempt := (if bt_Attempt s \<le> 0 then 1 else bt_Attempt s),
            bt_State := (if bt_State s = BuildOther [] then BuildQueued else bt_State s),
            bt_Version := (if bt_Version s \<le> 0 then 1 else bt_Version s),
            bt_SummaryJSON := jsonDefault (bt_SummaryJSON s) ''{}'',
            bt_RetentionClass := (if bt_RetentionClass s = [] then ''transient'' else bt_RetentionClass s)\<rparr>)"

definition step_of_attempt :: "string \<Rightarrow> string \<Rightarrow> int \<Rightarrow> supply_db \<Rightarrow> step_row option" where
  "step_of_attempt runID key attempt db =
     first_by (\<lambda>s. (bt_BuildRunID s, bt_StepKey s, bt_Attempt s)) (sd_Steps db) (runID, key, attempt)"

definition pad3 :: "int \<Rightarrow> string" where
  "pad3 n = (if n < 10 then ''00'' else if n < 100 then ''0'' else []) @ show_int n"

definition plan_step_command :: "command \<Rightarrow> nat \<Rightarrow> step_row \<Rightarrow> command" where
  "plan_step_command cmd index s =
     cmd\<lparr>cmd_IdempotencyKey := cmd_IdempotencyKey cmd @ ''/step/'' @ pad3 (int index) @ ''/'' @
            bt_StepKey s @ ''/'' @ show_int (bt_Attempt s),
         cmd_Reason := ''candidate build step enqueued''\<rparr>"

definition insert_new_step :: "string \<Rightarrow> step_row \<Rightarrow> command \<Rightarrow> supply_db \<Rightarrow> store_error + supply_db" where
  "insert_new_step uuid s cmd db =
     and_then (sd_checked (db\<lparr>sd_Steps := sd_Steps db @ [s]\<rparr>))
       (append_event uuid ''build_step'' (bt_ID s) ''build_step.created'' []
          (build_state_string (bt_State s)) cmd (bt_CreatedAt s))"

text \<open>The loop over the steps of a plan, with the index and the logical keys seen before.\<close>

fun plan_steps ::
  "(nat \<Rightarrow> string) \<Rightarrow> go_time \<Rightarrow> build_row \<Rightarrow> command \<Rightarrow> nat \<Rightarrow> string list \<Rightarrow> step_row list
     \<Rightarrow> supply_db \<Rightarrow> store_error + supply_db" where
  "plan_steps uuids now run cmd index seen [] db = Inr db"
| "plan_steps uuids now run cmd index seen (step # steps) db =
     (if bt_BuildRunID step \<noteq> [] \<and> bt_BuildRunID step \<noteq> br_ID run then Inl IdempotencyConflict
      else
        let s = prepare_step (uuids (2 * index + 2)) now (step\<lparr>bt_BuildRunID := br_ID run\<rparr>);
            logicalKey = bt_StepKey s @ ''/'' @ show_int (bt_Attempt s)
        in if contains_elem seen logicalKey then Inl InvalidRequest
           else
             and_then
               (case step_of_attempt (br_ID run) (bt_StepKey s) (bt_Attempt s) db of
                  Some existing \<Rightarrow>
                    if bt_RetentionClass existing \<noteq> bt_RetentionClass s \<or>
                       bt_SummaryJSON existing \<noteq> bt_SummaryJSON s
                    then Inl IdempotencyConflict else Inr db
                | None \<Rightarrow> insert_new_step (uuids (2 * index + 3)) s (plan_step_command cmd index s) db)
               (plan_steps uuids now run cmd (Suc index) (logicalKey # seen) steps))"

definition CreateBuildPlan ::
  "platform_codec \<Rightarrow> (nat \<Rightarrow> string) \<Rightarrow> go_time \<Rightarrow> build_row \<Rightarrow> step_row list \<Rightarrow> command \<Rightarrow> build_row stx" where
  "CreateBuildPlan codec uuids now run steps cmd db =
     (let b = prepare_build (uuids 0) now run in
      and_then (requestedBuildPlatforms codec (br_PlatformsJSON b)) (\<lambda>platforms.
      if platforms = [] \<or> steps = [] then Inl InvalidRequest
      else
        and_then (insert_build (uuids 1) b cmd db) (\<lambda>((stored, created), db1).
        and_then (plan_steps uuids now stored cmd 0 [] steps db1) (\<lambda>db2.
        if \<not> created \<and> length (filter (\<lambda>s. bt_BuildRunID s = br_ID stored) (sd_Steps db2)) \<noteq> length steps
        then Inl IdempotencyConflict
        else Inr (stored, db2)))))"

section \<open>Leases\<close>

definition queued_builds :: "supply_db \<Rightarrow> build_row list" where
  "queued_builds db =
     sort_key (\<lambda>b. (br_CreatedAt b, br_ID b))
       (filter (\<lambda>b. br_State b = BuildQueued \<and> br_CancelRequestedAt b = None) (sd_Builds db))"

definition build_claim_columns :: "string \<Rightarrow> string \<Rightarrow> go_time \<Rightarrow> go_time \<Rightarrow> build_row \<Rightarrow> build_row" where
  "build_claim_columns workerID token leaseUntil now b =
     b\<lparr>br_State := BuildClaimed, br_WorkerID := workerID, br_LeaseToken := token,
       br_LeaseExpiresAt := Some leaseUntil, br_HeartbeatAt := Some now,
       br_StartedAt := when_none True (br_StartedAt b) now, br_Version := br_Version b + 1,
       br_UpdatedAt := now\<rparr>"

definition exec_builds ::
  "(build_row \<Rightarrow> bool) \<Rightarrow> (build_row \<Rightarrow> build_row) \<Rightarrow> supply_db \<Rightarrow> store_error + bool \<times> supply_db" where
  "exec_builds cond f db =
     and_then (sd_checked (db\<lparr>sd_Builds := update_where cond f (sd_Builds db)\<rparr>)) (\<lambda>db'.
       Inr (length (filter cond (sd_Builds db)) = 1, db'))"

definition build_claim_command :: "string \<Rightarrow> string \<Rightarrow> command" where
  "build_claim_command workerID token =
     \<lparr>cmd_Actor = workerID, cmd_Reason = ''build worker claimed queued release build'',
      cmd_PolicyRevision = 0, cmd_IdempotencyKey = ''claim:'' @ token,
      cmd_PayloadJSON = ''{\"lease\":\"acquired\"}''\<rparr>"

fun claim_queued ::
  "platform_codec \<Rightarrow> string \<Rightarrow> string \<Rightarrow> string \<Rightarrow> string list \<Rightarrow> go_time \<Rightarrow> go_time \<Rightarrow> build_row list
     \<Rightarrow> build_row option stx" where
  "claim_queued codec uuid token workerID supported now leaseUntil [] db = Inr (None, db)"
| "claim_queued codec uuid token workerID supported now leaseUntil (b # bs) db =
     and_then (supportsBuildPlatforms codec (br_PlatformsJSON b) supported) (\<lambda>compatible.
     if \<not> compatible then claim_queued codec uuid token workerID supported now leaseUntil bs db
     else
       and_then (exec_builds (\<lambda>r. br_ID r = br_ID b \<and> br_State r = BuildQueued \<and>
                    br_Version r = br_Version b \<and> br_CancelRequestedAt r = None)
                  (build_claim_columns workerID token leaseUntil now) db) (\<lambda>(one, db1).
       if \<not> one then claim_queued codec uuid token workerID supported now leaseUntil bs db1
       else
         and_then (append_event uuid ''build'' (br_ID b) ''build.claimed''
                     (build_state_string BuildQueued) (build_state_string BuildClaimed)
                     (build_claim_command workerID token) now db1) (\<lambda>db2.
         and_then (GetBuildRun (br_ID b) db2) (\<lambda>claimed. Inr (Some claimed, db2)))))"

definition ClaimNextBuildRun ::
  "platform_codec \<Rightarrow> string \<Rightarrow> string \<Rightarrow> go_time \<Rightarrow> string \<Rightarrow> string list \<Rightarrow> go_time \<Rightarrow> build_row option stx" where
  "ClaimNextBuildRun codec uuid token now workerID supported leaseUntil db =
     (if workerID = [] \<or> \<not> now < leaseUntil then Inl InvalidRequest
      else claim_queued codec uuid token workerID supported now leaseUntil (queued_builds db) db)"

record build_lease =
  lt_Current :: bool
  lt_CancelRequested :: bool
  lt_Version :: int

definition no_lease :: build_lease where
  "no_lease = \<lparr>lt_Current = False, lt_CancelRequested = False, lt_Version = 0\<rparr>"

definition holds_build :: "string \<Rightarrow> string \<Rightarrow> string \<Rightarrow> go_time \<Rightarrow> build_row \<Rightarrow> bool" where
  "holds_build i workerID token now b \<longleftrightarrow>
     br_ID b = i \<and> br_WorkerID b = workerID \<and> br_LeaseToken b = token \<and>
     contains_elem [BuildClaimed, BuildRunning] (br_State b) \<and>
     (case br_LeaseExpiresAt b of None \<Rightarrow> False | Some e \<Rightarrow> now < e)"

definition HeartbeatBuildRun ::
  "string \<Rightarrow> string \<Rightarrow> string \<Rightarrow> go_time \<Rightarrow> go_time \<Rightarrow> build_lease stx" where
  "HeartbeatBuildRun i workerID token now leaseUntil db =
     (if i = [] \<or> workerID = [] \<or> token = [] \<or> \<not> now < leaseUntil then Inl InvalidRequest
      else
        and_then (exec_builds (holds_build i workerID token now)
          (\<lambda>b. b\<lparr>br_HeartbeatAt := Some now, br_LeaseExpiresAt := Some leaseUntil, br_UpdatedAt := now\<rparr>) db)
          (\<lambda>(_, db').
          case filter (holds_build i workerID token now) (sd_Builds db) of
            [] \<Rightarrow> Inr (no_lease, db')
          | b # _ \<Rightarrow> Inr (\<lparr>lt_Current = True, lt_CancelRequested = (br_CancelRequestedAt b \<noteq> None),
                           lt_Version = br_Version b\<rparr>, db')))"

text \<open>The clock is read where the caller gives no time.\<close>

definition RequestBuildCancellation ::
  "string \<Rightarrow> go_time \<Rightarrow> string \<Rightarrow> command \<Rightarrow> go_time \<Rightarrow> bool stx" where
  "RequestBuildCancellation uuid now i cmd requestedAt db =
     (let t = (if is_zero_time requestedAt then now else requestedAt) in
      case first_by br_ID (sd_Builds db) i of
        None \<Rightarrow> Inl NotFound
      | Some current \<Rightarrow>
          (case logged_command ''build'' i (cmd_IdempotencyKey cmd) db of
             Some e \<Rightarrow> if er_EventType e \<noteq> ''build.cancellation_requested'' then Inl IdempotencyConflict
                       else Inr (False, db)
           | None \<Rightarrow>
               if IsTerminalBuildState (br_State current) \<or> br_CancelRequestedAt current \<noteq> None
               then Inr (False, db)
               else
                 let state = build_state_string (br_State current) in
                 and_then (exec_builds (\<lambda>b. br_ID b = i \<and> br_Version b = br_Version current)
                   (\<lambda>b. b\<lparr>br_CancelRequestedAt := when_none True (br_CancelRequestedAt b) t,
                          br_Version := br_Version b + 1, br_UpdatedAt := t\<rparr>) db) (\<lambda>(one, db1).
                 if \<not> one then Inl VersionConflict
                 else and_then (append_event uuid ''build'' i ''build.cancellation_requested'' state state
                                  cmd t db1) (\<lambda>db2. Inr (True, db2)))))"

definition lapsed :: "go_time \<Rightarrow> build_row \<Rightarrow> bool" where
  "lapsed now b \<longleftrightarrow>
     contains_elem [BuildClaimed, BuildRunning] (br_State b) \<and>
     (case br_LeaseExpiresAt b of None \<Rightarrow> False | Some e \<Rightarrow> e \<le> now)"

definition stale_builds :: "go_time \<Rightarrow> supply_db \<Rightarrow> build_row list" where
  "stale_builds now db =
     sort_key (\<lambda>b. (case br_LeaseExpiresAt b of None \<Rightarrow> 0 | Some e \<Rightarrow> e, br_ID b))
       (filter (lapsed now) (sd_Builds db))"

definition reclaimed_build :: "go_time \<Rightarrow> build_row \<Rightarrow> build_row \<Rightarrow> build_row" where
  "reclaimed_build now stale b =
     b\<lparr>br_State := (if br_CancelRequestedAt stale = None then BuildQueued else BuildCancelled),
       br_WorkerID := [], br_LeaseToken := [], br_LeaseExpiresAt := None, br_HeartbeatAt := None,
       br_ErrorClass := [], br_ErrorDetail := [],
       br_CompletedAt := (if br_CancelRequestedAt stale = None then None else Some now),
       br_Version := br_Version b + 1, br_UpdatedAt := now\<rparr>"

definition reclaim_command :: "string \<Rightarrow> command" where
  "reclaim_command token =
     \<lparr>cmd_Actor = ''scheduler'', cmd_Reason = ''build worker lease expired'', cmd_PolicyRevision = 0,
      cmd_IdempotencyKey = ''reclaim:'' @ token, cmd_PayloadJSON = ''{\"errorClass\":\"worker_lost\"}''\<rparr>"

fun reclaim_builds :: "(nat \<Rightarrow> string) \<Rightarrow> go_time \<Rightarrow> nat \<Rightarrow> build_row list \<Rightarrow> int stx" where
  "reclaim_builds uuids now reclaimed [] db = Inr (int reclaimed, db)"
| "reclaim_builds uuids now reclaimed (b # bs) db =
     and_then (exec_builds (\<lambda>r. br_ID r = br_ID b \<and> br_Version r = br_Version b \<and>
                  br_LeaseToken r = br_LeaseToken b) (reclaimed_build now b) db) (\<lambda>(one, db1).
     if \<not> one then reclaim_builds uuids now reclaimed bs db1
     else
       and_then (append_event (uuids reclaimed) ''build'' (br_ID b)
           (if br_CancelRequestedAt b = None then ''build.requeued_after_worker_loss''
            else ''build.cancelled_after_worker_loss'')
           (build_state_string (br_State b))
           (build_state_string (if br_CancelRequestedAt b = None then BuildQueued else BuildCancelled))
           (reclaim_command (br_LeaseToken b)) now db1)
         (reclaim_builds uuids now (Suc reclaimed) bs))"

definition ReclaimStaleBuildRuns :: "(nat \<Rightarrow> string) \<Rightarrow> go_time \<Rightarrow> go_time \<Rightarrow> int stx" where
  "ReclaimStaleBuildRuns uuids clock now db =
     (let t = (if is_zero_time now then clock else now) in
      reclaim_builds uuids t 0 (stale_builds t db) db)"

definition TransitionBuildRun ::
  "string \<Rightarrow> go_time \<Rightarrow> string \<Rightarrow> int \<Rightarrow> build_state \<Rightarrow> command \<Rightarrow> supply_db
     \<Rightarrow> (store_error + build_row) \<times> supply_db" where
  "TransitionBuildRun uuid now i expectedVersion to cmd =
     read_back (GetBuildRun i) (transition_row builds_table uuid now i expectedVersion to cmd)"

section \<open>Steps\<close>

definition CreateBuildStep :: "(nat \<Rightarrow> string) \<Rightarrow> go_time \<Rightarrow> step_row \<Rightarrow> command \<Rightarrow> step_row stx" where
  "CreateBuildStep uuids now step cmd db =
     (let s = prepare_step (uuids 0) now step in
      case step_of_attempt (bt_BuildRunID s) (bt_StepKey s) (bt_Attempt s) db of
        Some existing \<Rightarrow>
          if bt_RetentionClass existing \<noteq> bt_RetentionClass s then Inl IdempotencyConflict
          else Inr (existing, db)
      | None \<Rightarrow> and_then (insert_new_step (uuids 1) s cmd db) (\<lambda>db'. Inr (s, db')))"

definition ListBuildSteps :: "string \<Rightarrow> supply_db \<Rightarrow> step_row list" where
  "ListBuildSteps runID db =
     sort_key (\<lambda>s. (bt_CreatedAt s, bt_StepKey s, bt_Attempt s))
       (filter (\<lambda>s. bt_BuildRunID s = runID) (sd_Steps db))"

definition rejectQuarantineDeletionReferenceTx :: "string \<Rightarrow> supply_db \<Rightarrow> store_error + unit" where
  "rejectQuarantineDeletionReferenceTx digest db =
     (if trim_space digest \<noteq> [] \<and> contains_elem (sd_Deleting db) digest then Inl VersionConflict else Inr ())"

definition evidence_columns :: "go_time \<Rightarrow> step_row \<Rightarrow> step_row \<Rightarrow> step_row" where
  "evidence_columns now s row =
     row\<lparr>bt_OutputURI := bt_OutputURI s, bt_OutputDigest := bt_OutputDigest s,
         bt_SummaryJSON := jsonDefault (bt_SummaryJSON s) ''{}'',
         bt_RetentionClass := (if bt_RetentionClass s = [] then ''transient'' else bt_RetentionClass s),
         bt_RetainUntil := bt_RetainUntil s, bt_Protected := bt_Protected s,
         bt_ErrorClass := bt_ErrorClass s, bt_ErrorDetail := bt_ErrorDetail s,
         bt_Version := bt_Version row + 1, bt_UpdatedAt := now\<rparr>"

definition update_evidence :: "string \<Rightarrow> go_time \<Rightarrow> step_row \<Rightarrow> int \<Rightarrow> command \<Rightarrow> bool stx" where
  "update_evidence uuid now s expectedVersion cmd db =
     (case first_by bt_ID (sd_Steps db) (bt_ID s) of
        None \<Rightarrow> Inl NotFound
      | Some current \<Rightarrow>
          if bt_Version current \<noteq> expectedVersion then Inl VersionConflict
          else
            let state = build_state_string (bt_State current) in
            and_then (rejectQuarantineDeletionReferenceTx (bt_OutputDigest s) db) (\<lambda>_.
            and_then (sd_checked (db\<lparr>sd_Steps := update_where
                 (\<lambda>r. bt_ID r = bt_ID s \<and> bt_Version r = expectedVersion)
                 (evidence_columns now s) (sd_Steps db)\<rparr>)) (\<lambda>db1.
            and_then (append_event uuid ''build_step'' (bt_ID s) ''build_step.evidence_recorded'' state state
                 cmd now db1) (\<lambda>db2. Inr (True, db2)))))"

definition GetBuildStep :: "string \<Rightarrow> supply_db \<Rightarrow> store_error + step_row" where
  "GetBuildStep i db = (case first_by bt_ID (sd_Steps db) i of None \<Rightarrow> Inl NotFound | Some s \<Rightarrow> Inr s)"

definition UpdateBuildStepEvidence ::
  "string \<Rightarrow> go_time \<Rightarrow> step_row \<Rightarrow> int \<Rightarrow> command \<Rightarrow> supply_db \<Rightarrow> (store_error + step_row) \<times> supply_db" where
  "UpdateBuildStepEvidence uuid now s expectedVersion cmd =
     read_back (GetBuildStep (bt_ID s)) (update_evidence uuid now s expectedVersion cmd)"

definition TransitionBuildStep ::
  "string \<Rightarrow> go_time \<Rightarrow> string \<Rightarrow> int \<Rightarrow> build_state \<Rightarrow> command \<Rightarrow> supply_db
     \<Rightarrow> (store_error + step_row) \<times> supply_db" where
  "TransitionBuildStep uuid now i expectedVersion to cmd =
     read_back (GetBuildStep i) (transition_row steps_table uuid now i expectedVersion to cmd)"

end
