(* ===== verification/SupplyLaws.thy ===== *)
theory SupplyLaws
  imports BuildStore StoreLog
begin

text \<open>
  What the candidate store promises. \<open>supply_step\<close> is one committed transaction on candidates, builds,
  steps or approvals, so a run of it is any interleaving of API calls and workers. The contract
  \<open>fenced_rows\<close> says that a version stands for the content of a row: whoever writes with the version it
  has read writes on what it has read. Builds, steps and candidates provide it, and so the version in a
  heartbeat's answer fences the lease of a build.
\<close>

section \<open>Transactions\<close>

inductive supply_step :: "supply_db \<Rightarrow> supply_db \<Rightarrow> bool" where
  step_policy: "CreatePolicy uuid now p db = Inr (x, db') \<Longrightarrow> supply_step db db'"
| step_candidate: "CreateCandidate uuids now c cmd db = Inr (x, db') \<Longrightarrow> supply_step db db'"
| step_transition_candidate: "transition_row candidates_table uuid now i v to cmd db = Inr (b, db') \<Longrightarrow> supply_step db db'"
| step_update_candidate: "update_candidate uuid now c v cmd db = Inr (b, db') \<Longrightarrow> supply_step db db'"
| step_approval: "AddApproval uuid now a db = Inr (x, db') \<Longrightarrow> supply_step db db'"
| step_build: "CreateBuildRun codec uuids now r cmd db = Inr (x, db') \<Longrightarrow> supply_step db db'"
| step_plan: "CreateBuildPlan codec uuids now r ss cmd db = Inr (x, db') \<Longrightarrow> supply_step db db'"
| step_claim_build: "ClaimNextBuildRun codec uuid token now w ps until db = Inr (x, db') \<Longrightarrow> supply_step db db'"
| step_heartbeat_build: "HeartbeatBuildRun i w token now until db = Inr (x, db') \<Longrightarrow> supply_step db db'"
| step_cancel_build: "RequestBuildCancellation uuid now i cmd t db = Inr (x, db') \<Longrightarrow> supply_step db db'"
| step_reclaim_build: "ReclaimStaleBuildRuns uuids clock now db = Inr (x, db') \<Longrightarrow> supply_step db db'"
| step_transition_build: "transition_row builds_table uuid now i v b_to cmd db = Inr (b, db') \<Longrightarrow> supply_step db db'"
| step_create_step: "CreateBuildStep uuids now s cmd db = Inr (x, db') \<Longrightarrow> supply_step db db'"
| step_evidence: "update_evidence uuid now s v cmd db = Inr (b, db') \<Longrightarrow> supply_step db db'"
| step_transition_step: "transition_row steps_table uuid now i v s_to cmd db = Inr (b, db') \<Longrightarrow> supply_step db db'"

section \<open>Rows under a version\<close>

locale fenced_rows =
  fixes step :: "'s \<Rightarrow> 's \<Rightarrow> bool"
    and row :: "'s \<Rightarrow> 'k \<Rightarrow> 'r option"
    and version :: "'r \<Rightarrow> int"
    and content :: "'r \<Rightarrow> 'c"
  assumes row_kept: "step s s' \<Longrightarrow> row s k = Some r \<Longrightarrow>
    \<exists>r'. row s' k = Some r' \<and> (version r < version r' \<or> version r = version r' \<and> content r = content r')"
begin

lemma run_kept:
  "step\<^sup>*\<^sup>* s s' \<Longrightarrow> row s k = Some r \<Longrightarrow>
    \<exists>r'. row s' k = Some r' \<and> (version r < version r' \<or> version r = version r' \<and> content r = content r')"
proof (induction rule: rtranclp_induct)
  case (step s1 s2)
  then obtain r1 where r1: "row s1 k = Some r1"
    "version r < version r1 \<or> version r = version r1 \<and> content r = content r1" by blast
  then show ?case using row_kept [OF step(2) r1(1)] by (metis order.strict_trans)
qed simp

lemma same_version_same_content:
  "step\<^sup>*\<^sup>* s s' \<Longrightarrow> row s k = Some r \<Longrightarrow> row s' k = Some r' \<Longrightarrow> version r' = version r \<Longrightarrow> content r' = content r"
  using run_kept [of s s' k r] by auto

end

section \<open>What a transaction does to the tables\<close>

lemma sd_checked_Inr: "sd_checked db = Inr db' \<longleftrightarrow> db' = db \<and> supply_constraints db"
  by (auto simp: sd_checked_def)

lemma append_event_Inr:
  "append_event uuid ty i ev s t cmd now db = Inr db' \<Longrightarrow>
     (\<exists>e. db' = db\<lparr>sd_Events := sd_Events db @ [e]\<rparr>) \<and> supply_constraints db'"
  by (auto simp: append_event_def sd_checked_Inr)

lemma exec_builds_Inr:
  "exec_builds cond f db = Inr (one, db') \<longleftrightarrow>
     db' = db\<lparr>sd_Builds := update_where cond f (sd_Builds db)\<rparr> \<and>
     one = (length (filter cond (sd_Builds db)) = 1) \<and> supply_constraints db'"
  by (auto simp: exec_builds_def and_then_Inr sd_checked_Inr)

text \<open>The three tables of a transition.\<close>

lemma transition_row_Inr:
  assumes "transition_row t uuid now i v to cmd db = Inr (b, db')"
  shows "\<not> b \<and> db' = db \<or>
    (\<exists>r e. b \<and> first_by (vt_Key t) (vt_Rows t db) i = Some r \<and> vt_Version t r = v \<and> vt_Allowed t r to \<and>
       db' = (vt_Put t (update_where (\<lambda>r. vt_Key t r = i \<and> vt_Version t r = v) (vt_Columns t to now)
                (vt_Rows t db)) db)\<lparr>sd_Events := e\<rparr> \<and> supply_constraints db')"
proof (cases "existing_command (vt_Aggregate t) i (cmd_IdempotencyKey cmd) (vt_Text t to) db = Inr True")
  case True
  then show ?thesis using assms by (simp add: transition_row_def)
next
  case False
  then show ?thesis
    using assms
    by (auto simp: transition_row_def and_then_Inr sd_checked_Inr split: option.splits if_splits
        dest!: append_event_Inr)
qed

lemma builds_table_simps [simp]:
  "vt_Rows builds_table = sd_Builds" "vt_Put builds_table rows db = db\<lparr>sd_Builds := rows\<rparr>"
  "vt_Key builds_table = br_ID" "vt_Version builds_table = br_Version" "vt_Columns builds_table = build_columns"
  "vt_State builds_table = br_State" "vt_Text builds_table = build_state_string"
  "vt_Aggregate builds_table = ''build''"
  "vt_Allowed builds_table b to \<longleftrightarrow> ValidateBuildTransition (br_State b) to = None \<and>
     (br_CancelRequestedAt b \<noteq> None \<longrightarrow> to = BuildCancelled)"
  by (auto simp: builds_table_def)

lemma steps_table_simps [simp]:
  "vt_Rows steps_table = sd_Steps" "vt_Put steps_table rows db = db\<lparr>sd_Steps := rows\<rparr>"
  "vt_Key steps_table = bt_ID" "vt_Version steps_table = bt_Version" "vt_Columns steps_table = step_columns"
  "vt_State steps_table = bt_State" "vt_Text steps_table = build_state_string"
  "vt_Aggregate steps_table = ''build_step''"
  "vt_Allowed steps_table s to \<longleftrightarrow> ValidateBuildTransition (bt_State s) to = None"
  by (simp_all add: steps_table_def)

lemma candidates_table_simps [simp]:
  "vt_Rows candidates_table = sd_Candidates" "vt_Put candidates_table rows db = db\<lparr>sd_Candidates := rows\<rparr>"
  "vt_Key candidates_table = ct_ID" "vt_Version candidates_table = ct_Version"
  "vt_Columns candidates_table = candidate_columns" "vt_State candidates_table = ct_State"
  "vt_Text candidates_table = candidate_state_string" "vt_Aggregate candidates_table = ''candidate''"
  "vt_Allowed candidates_table c to \<longleftrightarrow> ValidateCandidateTransition (ct_State c) to = None"
  by (simp_all add: candidates_table_def)

lemmas option_sum_splits = option.splits if_splits sum.splits

text \<open>The creating operations only append rows.\<close>

definition appended :: "supply_db \<Rightarrow> supply_db \<Rightarrow> bool" where
  "appended db db' \<longleftrightarrow>
     (\<exists>bs. sd_Builds db' = sd_Builds db @ bs) \<and> (\<exists>ss. sd_Steps db' = sd_Steps db @ ss) \<and>
     (\<exists>cs. sd_Candidates db' = sd_Candidates db @ cs)"

lemma appended_refl [simp]: "appended db db"
  by (simp add: appended_def)

lemma appended_trans: "appended db db1 \<Longrightarrow> appended db1 db2 \<Longrightarrow> appended db db2"
  by (auto simp: appended_def)

lemma appended_event: "append_event uuid ty i ev s t cmd now db = Inr db' \<Longrightarrow> appended db db'"
  by (auto simp: appended_def dest!: append_event_Inr)

lemma appended_build:
  "insert_build uuid b cmd db = Inr (x, db') \<Longrightarrow> appended db db'"
  by (auto simp: insert_build_def and_then_Inr sd_checked_Inr appended_def split: option_sum_splits
      dest!: append_event_Inr)

lemma appended_new_step: "insert_new_step uuid s cmd db = Inr db' \<Longrightarrow> appended db db'"
  by (auto simp: insert_new_step_def and_then_Inr sd_checked_Inr appended_def dest!: append_event_Inr)

lemma appended_plan: "plan_steps uuids now run cmd n seen steps db = Inr db' \<Longrightarrow> appended db db'"
proof (induction steps arbitrary: n seen db)
  case (Cons step steps)
  then show ?case
    by (auto simp: Let_def and_then_Inr split: option_sum_splits
        intro: appended_trans [OF appended_new_step])
qed simp

lemma creations_append:
  "CreatePolicy uuid now p db = Inr (xp, db') \<Longrightarrow> appended db db'"
  "CreateCandidate uuids now c cmd db = Inr (xc, db') \<Longrightarrow> appended db db'"
  "AddApproval uuid now a db = Inr (xa, db') \<Longrightarrow> appended db db'"
  "CreateBuildRun codec uuids now r cmd db = Inr (xb, db') \<Longrightarrow> appended db db'"
  "CreateBuildPlan codec uuids now r ss cmd db = Inr (xb, db') \<Longrightarrow> appended db db'"
  "CreateBuildStep uuids now s cmd db = Inr (xs, db') \<Longrightarrow> appended db db'"
proof -
  show "CreatePolicy uuid now p db = Inr (xp, db') \<Longrightarrow> appended db db'"
    by (auto simp: CreatePolicy_def Let_def and_then_Inr sd_checked_Inr appended_def)
  show "CreateCandidate uuids now c cmd db = Inr (xc, db') \<Longrightarrow> appended db db'"
    by (auto simp: CreateCandidate_def Let_def and_then_Inr sd_checked_Inr appended_def
        split: option_sum_splits dest!: append_event_Inr)
  show "AddApproval uuid now a db = Inr (xa, db') \<Longrightarrow> appended db db'"
    by (auto simp: AddApproval_def Let_def and_then_Inr sd_checked_Inr appended_def split: option_sum_splits)
  show "CreateBuildRun codec uuids now r cmd db = Inr (xb, db') \<Longrightarrow> appended db db'"
    by (auto simp: CreateBuildRun_def Let_def and_then_Inr split: option_sum_splits dest: appended_build)
  show "CreateBuildPlan codec uuids now r ss cmd db = Inr (xb, db') \<Longrightarrow> appended db db'"
    by (auto simp: CreateBuildPlan_def Let_def and_then_Inr split: option_sum_splits
        intro: appended_trans [OF appended_build appended_plan])
  show "CreateBuildStep uuids now s cmd db = Inr (xs, db') \<Longrightarrow> appended db db'"
    by (auto simp: CreateBuildStep_def Let_def and_then_Inr split: option_sum_splits dest: appended_new_step)
qed

section \<open>Rows of builds\<close>

definition build_fence :: "build_row \<Rightarrow> build_state \<times> string \<times> string \<times> go_time option" where
  "build_fence b = (br_State b, br_WorkerID b, br_LeaseToken b, br_CancelRequestedAt b)"

text \<open>A change of a build: a heartbeat, a validated transition, a cancellation request, a reclaim.\<close>

definition leased_state :: "build_state \<Rightarrow> bool" where
  "leased_state st \<longleftrightarrow> st = BuildClaimed \<or> st = BuildRunning"

definition build_moved :: "build_row \<Rightarrow> build_row \<Rightarrow> bool" where
  "build_moved b b' \<longleftrightarrow>
     br_CancelRequestedAt b' = br_CancelRequestedAt b \<and>
       ValidateBuildTransition (br_State b) (br_State b') = None \<and>
       (br_CancelRequestedAt b \<noteq> None \<longrightarrow> br_State b' = BuildCancelled) \<or>
     br_CancelRequestedAt b = None \<and> br_CancelRequestedAt b' \<noteq> None \<and> br_State b' = br_State b \<or>
     br_CancelRequestedAt b' = br_CancelRequestedAt b \<and> leased_state (br_State b) \<and>
       br_State b' = (if br_CancelRequestedAt b = None then BuildQueued else BuildCancelled)"

definition build_change :: "build_row \<Rightarrow> build_row \<Rightarrow> bool" where
  "build_change b b' \<longleftrightarrow>
     br_ID b' = br_ID b \<and>
     (build_fence b' = build_fence b \<and> br_Version b' = br_Version b \<or>
      br_Version b' = br_Version b + 1 \<and> build_moved b b')"

abbreviation build_changes :: "build_row \<Rightarrow> build_row \<Rightarrow> bool" where
  "build_changes \<equiv> build_change\<^sup>*\<^sup>*"

definition follow_builds :: "supply_db \<Rightarrow> supply_db \<Rightarrow> bool" where
  "follow_builds db db' \<longleftrightarrow>
     (\<forall>i b. first_by br_ID (sd_Builds db) i = Some b \<longrightarrow>
        (\<exists>b'. first_by br_ID (sd_Builds db') i = Some b' \<and> build_changes b b'))"

lemma follow_builds_refl [simp]: "sd_Builds db' = sd_Builds db \<Longrightarrow> follow_builds db db'"
  by (auto simp: follow_builds_def)

lemma follow_builds_trans: "follow_builds db db1 \<Longrightarrow> follow_builds db1 db2 \<Longrightarrow> follow_builds db db2"
  unfolding follow_builds_def by (meson rtranclp_trans)

lemma follow_appended: "appended db db' \<Longrightarrow> follow_builds db db'"
  by (auto simp: appended_def follow_builds_def first_by_append)

lemma follow_update:
  assumes "sd_Builds db' = update_where cond f (sd_Builds db)" "\<And>b. br_ID (f b) = br_ID b"
    and "\<And>b. cond b \<Longrightarrow> b \<in> set (sd_Builds db) \<Longrightarrow> build_change b (f b)"
  shows "follow_builds db db'"
  unfolding follow_builds_def
proof (intro allI impI)
  fix i b assume b: "first_by br_ID (sd_Builds db) i = Some b"
  have "first_by br_ID (sd_Builds db') i = Some (if cond b then f b else b)"
    unfolding assms(1) by (rule first_by_update_row [OF assms(2) b])
  moreover have "b \<in> set (sd_Builds db)" using first_by_Some [OF b] by blast
  ultimately show "\<exists>b'. first_by br_ID (sd_Builds db') i = Some b' \<and> build_changes b b'"
    using assms(3) by auto
qed

lemmas build_change_defs = build_change_def build_moved_def build_fence_def leased_state_def when_none_def

text \<open>Writing an event leaves the rows as they are.\<close>

definition same_rows :: "supply_db \<Rightarrow> supply_db \<Rightarrow> bool" where
  "same_rows db db' \<longleftrightarrow> sd_Builds db' = sd_Builds db \<and> sd_Steps db' = sd_Steps db \<and>
     sd_Candidates db' = sd_Candidates db"

lemma same_rows_refl [simp]: "same_rows db db"
  by (simp add: same_rows_def)

lemma logged_then:
  assumes "and_then (append_event uuid ty i ev s t cmd now db) f = Inr y"
  obtains db1 where "f db1 = Inr y" "same_rows db db1" "supply_constraints db1"
proof -
  obtain db1 where db1: "append_event uuid ty i ev s t cmd now db = Inr db1" "f db1 = Inr y"
    using assms by (auto simp: and_then_Inr)
  show thesis using that [OF db1(2)] append_event_Inr [OF db1(1)] by (auto simp: same_rows_def)
qed

text \<open>One pass of the loop of a claim, and of the loop of a reclaim.\<close>

lemma and_then_InrE:
  assumes "and_then m f = Inr y" obtains x where "m = Inr x" "f x = Inr y"
  using assms by (auto simp: and_then_Inr)

lemma claim_pass:
  assumes "claim_queued codec uuid token w ps now until (b # bs) db = Inr (x, db')"
  obtains (skipped) "claim_queued codec uuid token w ps now until bs db = Inr (x, db')"
  | (lost) db1 where
    "exec_builds (\<lambda>r. br_ID r = br_ID b \<and> br_State r = BuildQueued \<and> br_Version r = br_Version b \<and>
       br_CancelRequestedAt r = None) (build_claim_columns w token until now) db = Inr (False, db1)"
    "claim_queued codec uuid token w ps now until bs db1 = Inr (x, db')"
  | (won) db1 where
    "exec_builds (\<lambda>r. br_ID r = br_ID b \<and> br_State r = BuildQueued \<and> br_Version r = br_Version b \<and>
       br_CancelRequestedAt r = None) (build_claim_columns w token until now) db = Inr (True, db1)"
    "same_rows db1 db'"
  using assms unfolding claim_queued.simps
  apply (elim and_then_InrE)
  subgoal for compatible
    apply (cases compatible)
     apply (simp only: simp_thms if_False)
     apply (elim and_then_InrE)
    subgoal for p
      apply (cases p)
      subgoal for one db1
        apply (cases one)
         apply (simp only: prod.case simp_thms if_False)
         apply (elim logged_then and_then_InrE)
         apply (simp only: sum.inject prod.inject won)
        apply (simp only: prod.case simp_thms if_True lost)
        done
      done
    apply (simp only: simp_thms if_True skipped)
    done
  done

lemma reclaim_pass:
  assumes "reclaim_builds uuids now n (b # bs) db = Inr (x, db')"
  obtains one db1 m db2 where
    "exec_builds (\<lambda>r. br_ID r = br_ID b \<and> br_Version r = br_Version b \<and> br_LeaseToken r = br_LeaseToken b)
       (reclaimed_build now b) db = Inr (one, db1)"
    "reclaim_builds uuids now m bs db2 = Inr (x, db')" "same_rows db1 db2"
  using assms unfolding reclaim_builds.simps
  apply (elim and_then_InrE)
  subgoal for p
    apply (cases p)
    subgoal for one db1
      apply (cases one)
       apply (simp only: prod.case simp_thms if_False)
       apply (elim logged_then)
       apply (erule (2) that)
      apply (simp only: prod.case simp_thms if_True)
      apply (erule (1) that, rule same_rows_refl)
      done
    done
  done

lemma follow_claim:
  "claim_queued codec uuid token w ps now until bs db = Inr (x, db') \<Longrightarrow> follow_builds db db'"
proof (induction bs arbitrary: db)
  case (Cons b bs)
  have one: "follow_builds db db1"
    if "exec_builds (\<lambda>r. br_ID r = br_ID b \<and> br_State r = BuildQueued \<and> br_Version r = br_Version b \<and>
      br_CancelRequestedAt r = None) (build_claim_columns w token until now) db = Inr (won, db1)" for won db1
    using that unfolding exec_builds_Inr
    by (intro follow_update [of db1 "\<lambda>r. br_ID r = br_ID b \<and> br_State r = BuildQueued \<and>
          br_Version r = br_Version b \<and> br_CancelRequestedAt r = None" "build_claim_columns w token until now"])
      (auto simp: build_claim_columns_def build_change_defs validate_defs validateTransition_None)
  show ?case using Cons.prems
  proof (rule claim_pass)
    assume "claim_queued codec uuid token w ps now until bs db = Inr (x, db')"
    then show ?thesis by (rule Cons.IH)
  next
    fix db1 assume "exec_builds (\<lambda>r. br_ID r = br_ID b \<and> br_State r = BuildQueued \<and>
        br_Version r = br_Version b \<and> br_CancelRequestedAt r = None) (build_claim_columns w token until now) db = Inr (False, db1)"
      "claim_queued codec uuid token w ps now until bs db1 = Inr (x, db')"
    then show ?thesis using follow_builds_trans [OF one Cons.IH] by blast
  next
    fix db1 assume "exec_builds (\<lambda>r. br_ID r = br_ID b \<and> br_State r = BuildQueued \<and>
        br_Version r = br_Version b \<and> br_CancelRequestedAt r = None) (build_claim_columns w token until now) db = Inr (True, db1)"
      "same_rows db1 db'"
    then show ?thesis using follow_builds_trans [OF one follow_builds_refl] by (simp add: same_rows_def)
  qed
qed simp

lemma follow_reclaim:
  assumes "reclaim_builds uuids now n bs db = Inr (x, db')"
    and "\<forall>b \<in> set bs. \<forall>r \<in> set (sd_Builds db). br_ID r = br_ID b \<longrightarrow> r = b \<and> leased_state (br_State b)"
    and "distinct (map br_ID bs)"
  shows "follow_builds db db'"
  using assms
proof (induction bs arbitrary: n db)
  case (Cons b bs)
  let ?cond = "\<lambda>r. br_ID r = br_ID b \<and> br_Version r = br_Version b \<and> br_LeaseToken r = br_LeaseToken b"
  obtain one db1 m db2 where e: "exec_builds ?cond (reclaimed_build now b) db = Inr (one, db1)"
    and r2: "reclaim_builds uuids now m bs db2 = Inr (x, db')" and db2: "same_rows db1 db2"
    using reclaim_pass [OF Cons.prems(1)] .
  have same: "sd_Builds db2 = sd_Builds db1" using db2 by (simp add: same_rows_def)
  have rows: "sd_Builds db1 = update_where ?cond (reclaimed_build now b) (sd_Builds db)"
    using e by (simp add: exec_builds_Inr)
  have f: "follow_builds db db1"
  proof (rule follow_update [OF rows])
    show "br_ID (reclaimed_build now b r) = br_ID r" for r by (simp add: reclaimed_build_def)
    fix r assume "?cond r" "r \<in> set (sd_Builds db)"
    then have "r = b" "leased_state (br_State b)" using Cons.prems(2) by auto
    then show "build_change r (reclaimed_build now b r)"
      by (auto simp: reclaimed_build_def build_change_def build_moved_def)
  qed
  have rest: "\<forall>c \<in> set bs. \<forall>r \<in> set (sd_Builds db1). br_ID r = br_ID c \<longrightarrow> r = c \<and> leased_state (br_State c)"
    using Cons.prems(2,3) unfolding rows set_update_where
    by (auto simp: reclaimed_build_def split: if_splits)
  have "follow_builds db2 db'"
    using Cons.IH [OF r2] rest Cons.prems(3) by (simp add: same)
  then show ?case using follow_builds_trans [OF f follow_builds_trans [OF follow_builds_refl [OF same]]] by blast
qed simp

lemma set_stale_builds: "set (stale_builds now db) = {b \<in> set (sd_Builds db). lapsed now b}"
  by (auto simp: stale_builds_def)

lemma lapsed_leased: "lapsed now b \<Longrightarrow> leased_state (br_State b)"
  by (simp add: lapsed_def leased_state_def split: if_splits)

lemma same_build_row:
  assumes "distinct (map f rows)" "r \<in> set rows" "r' \<in> set rows" "f r = f r'"
  shows "r = r'"
  using assms(1,2,3,4) by (simp add: distinct_map inj_on_def)

lemma stale_builds_rows:
  assumes "distinct (map br_ID (sd_Builds db))"
  shows "\<forall>b \<in> set (stale_builds now db). \<forall>r \<in> set (sd_Builds db). br_ID r = br_ID b \<longrightarrow>
           r = b \<and> leased_state (br_State b)"
    and "distinct (map br_ID (stale_builds now db))"
proof -
  have "distinct (stale_builds now db)"
    using assms by (simp add: stale_builds_def distinct_map)
  moreover have "inj_on br_ID (set (stale_builds now db))"
    using assms by (simp add: distinct_map inj_on_def set_stale_builds)
  ultimately show "distinct (map br_ID (stale_builds now db))" by (simp add: distinct_map)
  show "\<forall>b \<in> set (stale_builds now db). \<forall>r \<in> set (sd_Builds db). br_ID r = br_ID b \<longrightarrow>
      r = b \<and> leased_state (br_State b)"
    using same_build_row [OF assms] lapsed_leased unfolding set_stale_builds by blast
qed

lemma follow_transition:
  assumes "transition_row builds_table uuid now i v to cmd db = Inr (b, db')"
    and "distinct (map br_ID (sd_Builds db))"
  shows "follow_builds db db'"
  using transition_row_Inr [OF assms(1)]
proof (elim disjE exE conjE)
  fix r e assume r: "first_by (vt_Key builds_table) (vt_Rows builds_table db) i = Some r"
    and v: "vt_Version builds_table r = v" and allowed: "vt_Allowed builds_table r to"
    and db': "db' = (vt_Put builds_table (update_where (\<lambda>r. vt_Key builds_table r = i \<and> vt_Version builds_table r = v)
      (vt_Columns builds_table to now) (vt_Rows builds_table db)) db)\<lparr>sd_Events := e\<rparr>"
  have rows: "sd_Builds db' = update_where (\<lambda>r. br_ID r = i \<and> br_Version r = v) (build_columns to now) (sd_Builds db)"
    using db' by simp
  show ?thesis
  proof (rule follow_update [OF rows])
    show "br_ID (build_columns to now b) = br_ID b" for b by (simp add: build_columns_def)
    fix b assume b: "br_ID b = i \<and> br_Version b = v" "b \<in> set (sd_Builds db)"
    then have "b = r" using first_by_distinct [OF assms(2) b(2)] r by simp
    then show "build_change b (build_columns to now b)"
      using allowed by (simp add: build_change_def build_moved_def build_columns_def)
  qed
qed simp

lemma constraints_ids:
  assumes "supply_constraints db"
  shows "distinct (map br_ID (sd_Builds db))" "distinct (map bt_ID (sd_Steps db))"
    "distinct (map ct_ID (sd_Candidates db))"
  using assms
  by (simp_all add: supply_constraints_def build_constraints_def step_constraints_def candidate_constraints_def)

lemma update_others:
  "update_candidate uuid now c v cmd db = Inr (b, db') \<Longrightarrow> sd_Builds db' = sd_Builds db \<and> sd_Steps db' = sd_Steps db"
  "update_evidence uuid now s v cmd db = Inr (b, db') \<Longrightarrow> sd_Builds db' = sd_Builds db \<and> sd_Candidates db' = sd_Candidates db"
  "transition_row candidates_table uuid now i v cto cmd db = Inr (b, db') \<Longrightarrow>
     sd_Builds db' = sd_Builds db \<and> sd_Steps db' = sd_Steps db"
  "transition_row steps_table uuid now i v sto cmd db = Inr (b, db') \<Longrightarrow>
     sd_Builds db' = sd_Builds db \<and> sd_Candidates db' = sd_Candidates db"
  "transition_row builds_table uuid now i v bto cmd db = Inr (b, db') \<Longrightarrow>
     sd_Steps db' = sd_Steps db \<and> sd_Candidates db' = sd_Candidates db"
proof -
  show "update_candidate uuid now c v cmd db = Inr (b, db') \<Longrightarrow> sd_Builds db' = sd_Builds db \<and> sd_Steps db' = sd_Steps db"
    by (auto simp: update_candidate_def Let_def and_then_Inr sd_checked_Inr split: option_sum_splits dest!: append_event_Inr)
  show "update_evidence uuid now s v cmd db = Inr (b, db') \<Longrightarrow>
      sd_Builds db' = sd_Builds db \<and> sd_Candidates db' = sd_Candidates db"
    by (auto simp: update_evidence_def Let_def and_then_Inr sd_checked_Inr split: option_sum_splits dest!: append_event_Inr)
qed (auto dest!: transition_row_Inr)

text \<open>The operations on leases touch nothing but builds and events.\<close>

lemma exec_only:
  "exec_builds cond f db = Inr (one, db') \<Longrightarrow> sd_Steps db' = sd_Steps db \<and> sd_Candidates db' = sd_Candidates db"
  by (simp add: exec_builds_Inr)

lemma claim_only:
  "claim_queued codec uuid token w ps now until bs db = Inr (x, db') \<Longrightarrow>
     sd_Steps db' = sd_Steps db \<and> sd_Candidates db' = sd_Candidates db"
proof (induction bs arbitrary: db)
  case (Cons b bs)
  from Cons.prems show ?case
  proof (cases rule: claim_pass)
    case skipped then show ?thesis by (rule Cons.IH)
  next
    case (lost db1) then show ?thesis using exec_only [OF lost(1)] Cons.IH [OF lost(2)] by simp
  next
    case (won db1) then show ?thesis using exec_only [OF won(1)] by (simp add: same_rows_def)
  qed
qed simp

lemma reclaim_only:
  "reclaim_builds uuids now n bs db = Inr (k, db') \<Longrightarrow>
     sd_Steps db' = sd_Steps db \<and> sd_Candidates db' = sd_Candidates db"
proof (induction bs arbitrary: n db)
  case (Cons b bs)
  from Cons.prems show ?case
  proof (cases rule: reclaim_pass)
    case (1 one db1 m db2)
    then show ?thesis using exec_only [OF 1(1)] Cons.IH [OF 1(2)] by (simp add: same_rows_def)
  qed
qed simp

section \<open>The contract on builds, steps and candidates\<close>

lemma follow_transition_build:
  assumes "transition_row builds_table uuid now i v to cmd db = Inr (b, db')"
  shows "follow_builds db db'"
proof (cases "\<not> b \<and> db' = db")
  case False
  then obtain e where "db' = (db\<lparr>sd_Builds := update_where (\<lambda>r. br_ID r = i \<and> br_Version r = v)
      (build_columns to now) (sd_Builds db)\<rparr>)\<lparr>sd_Events := e\<rparr>" "supply_constraints db'"
    using transition_row_Inr [OF assms] by auto
  then have "distinct (map br_ID (sd_Builds db))"
    using constraints_ids(1) [of db'] by (simp add: map_update_where build_columns_def)
  then show ?thesis by (rule follow_transition [OF assms])
qed simp

lemma follow_reclaim_stale:
  assumes "reclaim_builds uuids now n (stale_builds now db) db = Inr (x, db')"
  shows "follow_builds db db'"
proof (cases "stale_builds now db")
  case Nil
  then show ?thesis using assms by simp
next
  case (Cons b bs)
  show ?thesis using assms [unfolded Cons]
  proof (cases rule: reclaim_pass)
    case (1 one db1 m db2)
    have "supply_constraints db1" and rows: "sd_Builds db1 = update_where
        (\<lambda>r. br_ID r = br_ID b \<and> br_Version r = br_Version b \<and> br_LeaseToken r = br_LeaseToken b)
        (reclaimed_build now b) (sd_Builds db)"
      using 1(1) [unfolded exec_builds_Inr] by (blast, simp)
    then have "distinct (map br_ID (sd_Builds db))"
      using constraints_ids(1) [of db1] unfolding rows by (simp add: map_update_where reclaimed_build_def)
    from follow_reclaim [OF assms stale_builds_rows [OF this]] show ?thesis .
  qed
qed

lemma follow_heartbeat:
  assumes "HeartbeatBuildRun i w token now until db = Inr (x, db')"
  shows "follow_builds db db'"
proof -
  have "sd_Builds db' = update_where (holds_build i w token now)
      (\<lambda>b. b\<lparr>br_HeartbeatAt := Some now, br_LeaseExpiresAt := Some until, br_UpdatedAt := now\<rparr>) (sd_Builds db)"
    using assms by (auto simp: HeartbeatBuildRun_def and_then_Inr exec_builds_Inr split: if_splits list.splits)
  then show ?thesis by (rule follow_update) (simp_all add: build_change_def build_fence_def)
qed

lemma follow_cancel:
  assumes "RequestBuildCancellation uuid now i cmd t db = Inr (x, db')"
  shows "follow_builds db db'"
proof (cases "db' = db")
  case False
  obtain b u where b: "first_by br_ID (sd_Builds db) i = Some b" "br_CancelRequestedAt b = None"
    and rows: "sd_Builds db' = update_where (\<lambda>r. br_ID r = i \<and> br_Version r = br_Version b)
      (\<lambda>r. r\<lparr>br_CancelRequestedAt := when_none True (br_CancelRequestedAt r) u,
             br_Version := br_Version r + 1, br_UpdatedAt := u\<rparr>) (sd_Builds db)"
    and ok: "supply_constraints db'"
    using assms False
    by (auto simp: RequestBuildCancellation_def Let_def and_then_Inr exec_builds_Inr same_rows_def
        split: option.splits if_splits dest!: append_event_Inr)
  have ids: "distinct (map br_ID (sd_Builds db))"
    using constraints_ids(1) [OF ok] by (simp add: rows map_update_where)
  show ?thesis
  proof (rule follow_update [OF rows], simp)
    fix r assume r: "br_ID r = i \<and> br_Version r = br_Version b" "r \<in> set (sd_Builds db)"
    then have "r = b" using first_by_distinct [OF ids r(2)] b(1) by simp
    then show "build_change r (r\<lparr>br_CancelRequestedAt := when_none True (br_CancelRequestedAt r) u,
             br_Version := br_Version r + 1, br_UpdatedAt := u\<rparr>)"
      using b(2) by (simp add: build_change_def build_moved_def when_none_def)
  qed
qed simp

lemma supply_step_builds: "supply_step db db' \<Longrightarrow> follow_builds db db'"
proof (induction rule: supply_step.induct)
  case (step_claim_build codec uuid token now w ps until db x db')
  then show ?case by (auto simp: ClaimNextBuildRun_def split: if_splits dest: follow_claim)
next
  case (step_reclaim_build uuids clock now db x db')
  then show ?case unfolding ReclaimStaleBuildRuns_def Let_def by (rule follow_reclaim_stale)
qed (blast intro: follow_appended creations_append follow_builds_refl follow_transition_build
      follow_heartbeat follow_cancel dest: update_others)+

lemma build_change_fence:
  "build_change b b' \<Longrightarrow>
     br_Version b < br_Version b' \<or> br_Version b = br_Version b' \<and> build_fence b = build_fence b'"
  by (auto simp: build_change_def)

lemma build_changes_fence:
  "build_changes b b' \<Longrightarrow>
     br_Version b < br_Version b' \<or> br_Version b = br_Version b' \<and> build_fence b = build_fence b'"
proof (induction rule: rtranclp_induct)
  case (step b1 b2)
  then show ?case using build_change_fence [OF step(2)] by auto
qed simp

interpretation build_rows: fenced_rows supply_step "\<lambda>db. first_by br_ID (sd_Builds db)" br_Version build_fence
proof
  fix db db' i b assume "supply_step db db'" "first_by br_ID (sd_Builds db) i = Some b"
  then obtain b' where "first_by br_ID (sd_Builds db') i = Some b'" "build_changes b b'"
    using supply_step_builds unfolding follow_builds_def by blast
  then show "\<exists>b'. first_by br_ID (sd_Builds db') i = Some b' \<and>
      (br_Version b < br_Version b' \<or> br_Version b = br_Version b' \<and> build_fence b = build_fence b')"
    using build_changes_fence by blast
qed

text \<open>Steps and candidates change as whole rows.\<close>

definition rows_kept :: "('r \<Rightarrow> string) \<Rightarrow> ('r \<Rightarrow> int) \<Rightarrow> 'r list \<Rightarrow> 'r list \<Rightarrow> bool" where
  "rows_kept key version rows rows' \<longleftrightarrow>
     (\<forall>i r. first_by key rows i = Some r \<longrightarrow>
        (\<exists>r'. first_by key rows' i = Some r' \<and> (version r < version r' \<or> r = r')))"

lemma rows_kept_refl [simp]: "rows_kept key version rows rows"
  by (auto simp: rows_kept_def)

lemma rows_kept_append: "rows_kept key version rows (rows @ added)"
  by (auto simp: rows_kept_def first_by_append)

lemma rows_kept_update:
  assumes "\<And>r. key (f r) = key r" "\<And>r. version r < version (f r)"
  shows "rows_kept key version rows (update_where cond f rows)"
  unfolding rows_kept_def
proof (intro allI impI)
  fix i r assume r: "first_by key rows i = Some r"
  show "\<exists>r'. first_by key (update_where cond f rows) i = Some r' \<and> (version r < version r' \<or> r = r')"
    using first_by_update_row [of key f rows i r cond, OF assms(1) r] assms(2) [of r] by auto
qed

lemma update_rows:
  "update_candidate uuid now c v cmd db = Inr (b, db') \<Longrightarrow>
     rows_kept ct_ID ct_Version (sd_Candidates db) (sd_Candidates db')"
  "update_evidence uuid now s v cmd db = Inr (b, db') \<Longrightarrow>
     rows_kept bt_ID bt_Version (sd_Steps db) (sd_Steps db')"
  "transition_row candidates_table uuid now i v cto cmd db = Inr (b, db') \<Longrightarrow>
     rows_kept ct_ID ct_Version (sd_Candidates db) (sd_Candidates db')"
  "transition_row steps_table uuid now i v sto cmd db = Inr (b, db') \<Longrightarrow>
     rows_kept bt_ID bt_Version (sd_Steps db) (sd_Steps db')"
proof -
  show "update_candidate uuid now c v cmd db = Inr (b, db') \<Longrightarrow>
     rows_kept ct_ID ct_Version (sd_Candidates db) (sd_Candidates db')"
    by (auto simp: update_candidate_def Let_def and_then_Inr sd_checked_Inr proposal_columns_def
        split: option_sum_splits dest!: append_event_Inr intro!: rows_kept_update)
  show "update_evidence uuid now s v cmd db = Inr (b, db') \<Longrightarrow>
     rows_kept bt_ID bt_Version (sd_Steps db) (sd_Steps db')"
    by (auto simp: update_evidence_def Let_def and_then_Inr sd_checked_Inr evidence_columns_def
        split: option_sum_splits dest!: append_event_Inr intro!: rows_kept_update)
qed (auto dest!: transition_row_Inr intro!: rows_kept_update simp: candidate_columns_def step_columns_def)

lemma follow_nothing:
  "HeartbeatBuildRun i w token now until db = Inr (x, db') \<Longrightarrow>
     sd_Steps db' = sd_Steps db \<and> sd_Candidates db' = sd_Candidates db"
  "RequestBuildCancellation uuid now i cmd t db = Inr (y, db') \<Longrightarrow>
     sd_Steps db' = sd_Steps db \<and> sd_Candidates db' = sd_Candidates db"
proof -
  show "HeartbeatBuildRun i w token now until db = Inr (x, db') \<Longrightarrow>
     sd_Steps db' = sd_Steps db \<and> sd_Candidates db' = sd_Candidates db"
    by (auto simp: HeartbeatBuildRun_def and_then_Inr exec_builds_Inr split: if_splits list.splits)
  show "RequestBuildCancellation uuid now i cmd t db = Inr (y, db') \<Longrightarrow>
     sd_Steps db' = sd_Steps db \<and> sd_Candidates db' = sd_Candidates db"
    by (auto simp: RequestBuildCancellation_def Let_def and_then_Inr exec_builds_Inr
        split: option.splits if_splits dest!: append_event_Inr)
qed

lemma rows_kept_appended:
  "appended db db' \<Longrightarrow> rows_kept ct_ID ct_Version (sd_Candidates db) (sd_Candidates db') \<and>
     rows_kept bt_ID bt_Version (sd_Steps db) (sd_Steps db')"
  by (auto simp: appended_def intro: rows_kept_append)

definition kept :: "supply_db \<Rightarrow> supply_db \<Rightarrow> bool" where
  "kept db db' \<longleftrightarrow> rows_kept ct_ID ct_Version (sd_Candidates db) (sd_Candidates db') \<and>
     rows_kept bt_ID bt_Version (sd_Steps db) (sd_Steps db')"

lemma kept_appended: "appended db db' \<Longrightarrow> kept db db'"
  using rows_kept_appended by (simp add: kept_def)

lemma kept_both: "sd_Steps db' = sd_Steps db \<and> sd_Candidates db' = sd_Candidates db \<Longrightarrow> kept db db'"
  by (simp add: kept_def)

lemma kept_steps:
  "sd_Builds db' = sd_Builds db \<and> sd_Steps db' = sd_Steps db \<Longrightarrow>
     rows_kept ct_ID ct_Version (sd_Candidates db) (sd_Candidates db') \<Longrightarrow> kept db db'"
  by (simp add: kept_def)

lemma kept_candidates:
  "sd_Builds db' = sd_Builds db \<and> sd_Candidates db' = sd_Candidates db \<Longrightarrow>
     rows_kept bt_ID bt_Version (sd_Steps db) (sd_Steps db') \<Longrightarrow> kept db db'"
  by (simp add: kept_def)

lemma supply_step_rows: "supply_step db db' \<Longrightarrow> kept db db'"
proof (induction rule: supply_step.induct)
  case step_policy then show ?case by (rule kept_appended [OF creations_append(1)])
next
  case step_candidate then show ?case by (rule kept_appended [OF creations_append(2)])
next
  case step_approval then show ?case by (rule kept_appended [OF creations_append(3)])
next
  case step_build then show ?case by (rule kept_appended [OF creations_append(4)])
next
  case step_plan then show ?case by (rule kept_appended [OF creations_append(5)])
next
  case step_create_step then show ?case by (rule kept_appended [OF creations_append(6)])
next
  case step_transition_candidate
  then show ?case by - (rule kept_steps [OF update_others(3) update_rows(3)])
next
  case step_update_candidate
  then show ?case by - (rule kept_steps [OF update_others(1) update_rows(1)])
next
  case step_evidence
  then show ?case by - (rule kept_candidates [OF update_others(2) update_rows(2)])
next
  case step_transition_step
  then show ?case by - (rule kept_candidates [OF update_others(4) update_rows(4)])
next
  case step_transition_build then show ?case by (rule kept_both [OF update_others(5)])
next
  case step_heartbeat_build then show ?case by (rule kept_both [OF follow_nothing(1)])
next
  case step_cancel_build then show ?case by (rule kept_both [OF follow_nothing(2)])
next
  case (step_claim_build codec uuid token now w ps until db x db')
  then have "claim_queued codec uuid token w ps now until (queued_builds db) db = Inr (x, db')"
    by (simp add: ClaimNextBuildRun_def split: if_splits)
  then show ?case by (rule kept_both [OF claim_only])
next
  case step_reclaim_build
  then show ?case unfolding ReclaimStaleBuildRuns_def Let_def by (rule kept_both [OF reclaim_only])
qed

interpretation candidate_rows: fenced_rows supply_step "\<lambda>db. first_by ct_ID (sd_Candidates db)" ct_Version "\<lambda>c. c"
  using supply_step_rows unfolding kept_def rows_kept_def by unfold_locales blast

interpretation step_rows: fenced_rows supply_step "\<lambda>db. first_by bt_ID (sd_Steps db)" bt_Version "\<lambda>s. s"
  using supply_step_rows unfolding kept_def rows_kept_def by unfold_locales blast

section \<open>Properties\<close>

text \<open>A build whose cancellation was requested: it keeps the request, and it only ends cancelled.\<close>

definition cancelling :: "build_row \<Rightarrow> bool" where
  "cancelling b \<longleftrightarrow>
     br_CancelRequestedAt b \<noteq> None \<and> br_State b \<noteq> BuildCompleted \<and> br_State b \<noteq> BuildFailed"

lemma build_changes_cancelling: "build_changes b b' \<Longrightarrow> cancelling b \<Longrightarrow> cancelling b'"
proof (induction rule: rtranclp_induct)
  case (step b1 b2)
  then show ?case by (auto simp: build_change_def build_moved_def build_fence_def cancelling_def split: if_splits)
qed simp

lemma follow_builds_run:
  "supply_step\<^sup>*\<^sup>* db db' \<Longrightarrow> follow_builds db db'"
proof (induction rule: rtranclp_induct)
  case (step db1 db2)
  then show ?case using follow_builds_trans supply_step_builds by blast
qed simp

lemma heartbeat_current:
  assumes "HeartbeatBuildRun i w token now until db = Inr (answer, db1)" "lt_Current answer"
  obtains b where "first_by br_ID (sd_Builds db1) i = Some b" "br_Version b = lt_Version answer"
    "br_WorkerID b = w" "br_LeaseToken b = token" "leased_state (br_State b)"
    "(br_CancelRequestedAt b \<noteq> None) = lt_CancelRequested answer"
proof -
  let ?f = "\<lambda>b. b\<lparr>br_HeartbeatAt := Some now, br_LeaseExpiresAt := Some until, br_UpdatedAt := now\<rparr>"
  obtain b bs where b: "filter (holds_build i w token now) (sd_Builds db) = b # bs"
    and rows: "sd_Builds db1 = update_where (holds_build i w token now) ?f (sd_Builds db)"
    and answer: "answer = \<lparr>lt_Current = True, lt_CancelRequested = (br_CancelRequestedAt b \<noteq> None),
      lt_Version = br_Version b\<rparr>" and ok: "supply_constraints db1"
    using assms by (auto simp: HeartbeatBuildRun_def and_then_Inr exec_builds_Inr no_lease_def
        split: if_splits list.splits)
  have holds: "holds_build i w token now b" and mem: "b \<in> set (sd_Builds db)"
    using b by (auto dest!: arg_cong [where f = set])
  have "distinct (map br_ID (sd_Builds db))"
    using constraints_ids(1) [OF ok] by (simp add: rows map_update_where)
  moreover have "br_ID b = i" using holds by (simp add: holds_build_def)
  ultimately have "first_by br_ID (sd_Builds db) i = Some b" using first_by_distinct [OF _ mem] by auto
  then have "first_by br_ID (sd_Builds db1) i = Some (?f b)"
    using holds unfolding rows by (subst first_by_update_row) auto
  then show thesis
    using holds by (intro that [of "?f b"])
      (auto simp: answer holds_build_def leased_state_def split: if_splits)
qed

text \<open>C9: A worker that transitions a build with the version its heartbeat returned holds the lease at
  that moment: if the heartbeat answered \<open>Current\<close> and a later \<open>TransitionBuildRun\<close> with that version
  commits, then, whatever other transactions ran in between, the build still names this worker and this
  lease token, is claimed or running, and its cancellation request is as the heartbeat reported it.\<close>

theorem version_fences_build:
  assumes "HeartbeatBuildRun i w token now until db = Inr (answer, db1)" "lt_Current answer"
    and "supply_step\<^sup>*\<^sup>* db1 db2"
    and "transition_row builds_table uuid t i (lt_Version answer) to cmd db2 = Inr (True, db3)"
  shows "\<exists>b. first_by br_ID (sd_Builds db2) i = Some b \<and> br_WorkerID b = w \<and> br_LeaseToken b = token \<and>
    (br_State b = BuildClaimed \<or> br_State b = BuildRunning) \<and>
    (br_CancelRequestedAt b \<noteq> None) = lt_CancelRequested answer"
proof -
  obtain b where b: "first_by br_ID (sd_Builds db1) i = Some b" "br_Version b = lt_Version answer"
    "br_WorkerID b = w" "br_LeaseToken b = token" "leased_state (br_State b)"
    "(br_CancelRequestedAt b \<noteq> None) = lt_CancelRequested answer"
    using heartbeat_current [OF assms(1,2)] .
  obtain b2 where b2: "first_by br_ID (sd_Builds db2) i = Some b2" "br_Version b2 = lt_Version answer"
    using transition_row_Inr [OF assms(4)] by auto
  have "build_fence b2 = build_fence b"
    using build_rows.same_version_same_content [OF assms(3) b(1) b2(1)] b(2) b2(2) by simp
  then show ?thesis using b b2(1) by (simp add: build_fence_def leased_state_def)
qed

text \<open>C23: A cancelled build never completes: once a cancellation is recorded on a build that has not
  completed or failed, no sequence of transactions leads to a completed or failed build, and the request
  stays recorded.\<close>

theorem cancelled_build_never_completes:
  assumes "first_by br_ID (sd_Builds db) i = Some b" "br_CancelRequestedAt b \<noteq> None"
    and "br_State b \<noteq> BuildCompleted" "br_State b \<noteq> BuildFailed" and "supply_step\<^sup>*\<^sup>* db db'"
  shows "\<exists>b'. first_by br_ID (sd_Builds db') i = Some b' \<and> br_CancelRequestedAt b' \<noteq> None \<and>
    br_State b' \<noteq> BuildCompleted \<and> br_State b' \<noteq> BuildFailed"
proof -
  obtain b' where "first_by br_ID (sd_Builds db') i = Some b'" "build_changes b b'"
    using follow_builds_run [OF assms(5)] assms(1) unfolding follow_builds_def by blast
  then show ?thesis using build_changes_cancelling [of b b'] assms(2,3,4) by (auto simp: cancelling_def)
qed

text \<open>A proposal update overwrites nothing it has not read: if a caller reads a candidate, other
  transactions run, and its \<open>UpdateCandidateProposal\<close> with the version it read commits, then the
  candidate was still exactly the row the caller had read.\<close>

theorem proposal_update_loses_nothing:
  assumes "GetCandidate i db = Inr c" "supply_step\<^sup>*\<^sup>* db db'" "ct_ID c' = i"
    and "update_candidate uuid now c' (ct_Version c) cmd db' = Inr (written, db'')"
  shows "GetCandidate i db' = Inr c"
proof -
  have c: "first_by ct_ID (sd_Candidates db) i = Some c"
    using assms(1) by (simp add: GetCandidate_def split: option.splits)
  obtain r where r: "first_by ct_ID (sd_Candidates db') i = Some r" "ct_Version r = ct_Version c"
    using assms(3,4) by (auto simp: update_candidate_def split: option.splits if_splits)
  show ?thesis
    using candidate_rows.same_version_same_content [OF assms(2) c r] r(1) by (simp add: GetCandidate_def)
qed

section \<open>Witnesses\<close>

text \<open>A candidate under construction whose build worker w1 holds until time 100.\<close>

definition sample_policy :: policy_row where
  "sample_policy = \<lparr>pl_ID = ''p'', pl_Scope = ''global'', pl_Revision = 1, pl_Enabled = True,
     pl_ScheduleJSON = ''{}'', pl_RulesJSON = ''{}'', pl_CreatedBy = ''ann'', pl_CreatedAt = 1, pl_UpdatedAt = 1\<rparr>"

definition sample_candidate_row :: candidate_row where
  "sample_candidate_row = \<lparr>ct_ID = ''c'', ct_DiscoveryRunID = [], ct_SelectionJSON = ''{}'',
     ct_DefinitionCommit = ''d0'', ct_ProposedCommit = ''d1'', ct_ProposalURL = [], ct_LockDigest = [],
     ct_LockURI = [], ct_RiskSummaryJSON = ''{}'', ct_State = CandidateBuilding, ct_RequiredGatesJSON = ''[]'',
     ct_PolicyDecision = [], ct_PolicyID = ''p'', ct_PolicyRevision = 1, ct_Actor = ''ann'',
     ct_IdempotencyKey = ''k'', ct_ErrorClass = [], ct_ErrorDetail = [], ct_Version = 3,
     ct_CreatedAt = 1, ct_UpdatedAt = 1\<rparr>"

definition sample_build :: build_row where
  "sample_build = \<lparr>br_ID = ''b'', br_CandidateID = ''c'', br_Attempt = 1, br_WorkerID = ''w1'',
     br_State = BuildClaimed, br_PlatformsJSON = ''[\"linux/amd64\"]'', br_LeaseToken = ''t1'',
     br_LeaseExpiresAt = Some 100, br_HeartbeatAt = Some 10, br_CancelRequestedAt = None,
     br_ErrorClass = [], br_ErrorDetail = [], br_Version = 2, br_StartedAt = Some 10,
     br_CompletedAt = None, br_CreatedAt = 1, br_UpdatedAt = 10\<rparr>"

definition sample_supply :: supply_db where
  "sample_supply = \<lparr>sd_Policies = [sample_policy], sd_Candidates = [sample_candidate_row],
     sd_Builds = [sample_build], sd_Steps = [], sd_Approvals = [], sd_ReleaseIDs = [], sd_Deleting = [],
     sd_Events = []\<rparr>"

definition sample_supply_command :: "string \<Rightarrow> command" where
  "sample_supply_command key = \<lparr>cmd_Actor = ''w1'', cmd_Reason = ''test'', cmd_PolicyRevision = 0,
     cmd_IdempotencyKey = key, cmd_PayloadJSON = ''{}''\<rparr>"

definition after :: "'a stx \<Rightarrow> supply_db \<Rightarrow> supply_db" where
  "after op db = (case op db of Inl _ \<Rightarrow> db | Inr (_, db') \<Rightarrow> db')"

definition sample_beaten :: supply_db where
  "sample_beaten = after (HeartbeatBuildRun ''b'' ''w1'' ''t1'' 20 120) sample_supply"

lemma sample_version_fences:
  "\<exists>b. first_by br_ID (sd_Builds sample_beaten) ''b'' = Some b \<and> br_WorkerID b = ''w1'' \<and>
     br_LeaseToken b = ''t1'' \<and> (br_State b = BuildClaimed \<or> br_State b = BuildRunning) \<and>
     (br_CancelRequestedAt b \<noteq> None) = False"
proof -
  let ?answer = "\<lparr>lt_Current = True, lt_CancelRequested = False, lt_Version = 2\<rparr>"
  let ?last = "after (transition_row builds_table ''e'' 30 ''b'' 2 BuildRunning (sample_supply_command ''run'')) sample_beaten"
  have "HeartbeatBuildRun ''b'' ''w1'' ''t1'' 20 120 sample_supply = Inr (?answer, sample_beaten)"
    by code_simp
  moreover have "transition_row builds_table ''e'' 30 ''b'' (lt_Version ?answer) BuildRunning
      (sample_supply_command ''run'') sample_beaten = Inr (True, ?last)" by code_simp
  ultimately show ?thesis
    using version_fences_build [of "''b''" "''w1''" "''t1''" 20 120 sample_supply ?answer sample_beaten
      sample_beaten "''e''" 30 BuildRunning "sample_supply_command ''run''" ?last] by simp
qed

definition sample_cancelling :: supply_db where
  "sample_cancelling = after (RequestBuildCancellation ''e1'' 30 ''b'' (sample_supply_command ''cancel'') 30) sample_supply"

definition sample_reclaimed :: supply_db where
  "sample_reclaimed = after (ReclaimStaleBuildRuns (\<lambda>_. ''e2'') 200 200) sample_cancelling"

lemma sample_cancelled:
  "\<exists>b'. first_by br_ID (sd_Builds sample_reclaimed) ''b'' = Some b' \<and> br_CancelRequestedAt b' \<noteq> None \<and>
     br_State b' \<noteq> BuildCompleted \<and> br_State b' \<noteq> BuildFailed"
proof -
  have "ReclaimStaleBuildRuns (\<lambda>_. ''e2'') 200 200 sample_cancelling = Inr (1, sample_reclaimed)"
    by code_simp
  then have run: "supply_step\<^sup>*\<^sup>* sample_cancelling sample_reclaimed"
    using step_reclaim_build by blast
  let ?b = "sample_build\<lparr>br_CancelRequestedAt := Some 30, br_Version := 3, br_UpdatedAt := 30\<rparr>"
  have "first_by br_ID (sd_Builds sample_cancelling) ''b'' = Some ?b" by code_simp
  moreover have "br_CancelRequestedAt ?b \<noteq> None" by simp
  moreover have "br_State ?b \<noteq> BuildCompleted" by (simp add: sample_build_def)
  moreover have "br_State ?b \<noteq> BuildFailed" by (simp add: sample_build_def)
  ultimately show ?thesis using run by (rule cancelled_build_never_completes)
qed

lemma sample_proposal_update: "GetCandidate ''c'' sample_beaten = Inr sample_candidate_row"
proof -
  have "HeartbeatBuildRun ''b'' ''w1'' ''t1'' 20 120 sample_supply =
      Inr (\<lparr>lt_Current = True, lt_CancelRequested = False, lt_Version = 2\<rparr>, sample_beaten)"
    by code_simp
  then have run: "supply_step\<^sup>*\<^sup>* sample_supply sample_beaten" using step_heartbeat_build by blast
  let ?c = "sample_candidate_row\<lparr>ct_LockDigest := ''l''\<rparr>"
  let ?op = "update_candidate ''e'' 30 ?c (ct_Version sample_candidate_row) (sample_supply_command ''lock'')"
  have "?op sample_beaten = Inr (True, after ?op sample_beaten)" by code_simp
  moreover have "GetCandidate ''c'' sample_supply = Inr sample_candidate_row" by code_simp
  moreover have "ct_ID ?c = ''c''" by (simp add: sample_candidate_row_def)
  ultimately show ?thesis using run by (blast intro: proposal_update_loses_nothing)
qed

end
