(* ===== verification/SupplyCalls.thy ===== *)
theory SupplyCalls
  imports SupplyLaws
begin

text \<open>
  Programs that call the candidate store. The API commands and the release worker make one
  transaction after another; between two calls other processes commit theirs, and a call may be lost
  on its way. \<open>act\<close> is such a program: it runs in a world that holds the database and counts the calls,
  and it ends with a result or an error, keeping what it has committed. Every program built from calls
  of the store is a run of \<open>supply_step\<close>, so what SupplyLaws promises holds across it.
\<close>

section \<open>Programs over the store\<close>

record 'r supply_world =
  sw_DB :: supply_db
  sw_Calls :: nat
  sw_Trace :: "'r list"

datatype call_fault = CallOk | CallDropped | CallUnacknowledged

text \<open>The clock, fresh identifiers, the transactions of others and the faults, by the number of the call.\<close>

record supply_env =
  se_Now :: "nat \<Rightarrow> go_time"
  se_Uuid :: "nat \<Rightarrow> nat \<Rightarrow> string"
  se_Others :: "nat \<Rightarrow> supply_db \<Rightarrow> supply_db"
  se_Fault :: "nat \<Rightarrow> call_fault"

datatype call_error = CallFailed store_error | CallUnreachable

type_synonym ('r, 'e, 'a) act = "'r supply_world \<Rightarrow> ('e + 'a) \<times> 'r supply_world"

definition act_return :: "'a \<Rightarrow> ('r, 'e, 'a) act" where
  "act_return a w = (Inr a, w)"

definition act_fail :: "'e \<Rightarrow> ('r, 'e, 'a) act" where
  "act_fail e w = (Inl e, w)"

definition act_bind :: "('r, 'e, 'a) act \<Rightarrow> ('a \<Rightarrow> ('r, 'e, 'b) act) \<Rightarrow> ('r, 'e, 'b) act" where
  "act_bind m f w = (case m w of (Inl e, w') \<Rightarrow> (Inl e, w') | (Inr a, w') \<Rightarrow> f a w')"

text \<open>Running a program and looking at its result, an error included.\<close>

definition act_try :: "('r, 'e, 'a) act \<Rightarrow> ('e + 'a \<Rightarrow> ('r, 'f, 'b) act) \<Rightarrow> ('r, 'f, 'b) act" where
  "act_try m f w = (case m w of (r, w') \<Rightarrow> f r w')"

definition act_record :: "'r \<Rightarrow> ('r, 'e, unit) act" where
  "act_record x w = (Inr (), w\<lparr>sw_Trace := sw_Trace w @ [x]\<rparr>)"

definition act_now :: "supply_env \<Rightarrow> ('r, 'e, go_time) act" where
  "act_now env w = (Inr (se_Now env (sw_Calls w)), w\<lparr>sw_Calls := Suc (sw_Calls w)\<rparr>)"

definition act_uuids :: "supply_env \<Rightarrow> ('r, 'e, nat \<Rightarrow> string) act" where
  "act_uuids env w = (Inr (se_Uuid env (sw_Calls w)), w\<lparr>sw_Calls := Suc (sw_Calls w)\<rparr>)"

text \<open>An answer that the environment gives by the number of the call.\<close>

definition act_ask :: "(nat \<Rightarrow> 'a) \<Rightarrow> ('r, 'e, 'a) act" where
  "act_ask f w = (Inr (f (sw_Calls w)), w\<lparr>sw_Calls := Suc (sw_Calls w)\<rparr>)"

definition call_store ::
  "supply_env \<Rightarrow> (call_error \<Rightarrow> 'e)
     \<Rightarrow> ((nat \<Rightarrow> string) \<Rightarrow> go_time \<Rightarrow> supply_db \<Rightarrow> (store_error + 'a) \<times> supply_db) \<Rightarrow> ('r, 'e, 'a) act" where
  "call_store env wrap op w =
     (let n = sw_Calls w; db = se_Others env n (sw_DB w); w1 = w\<lparr>sw_Calls := Suc n, sw_DB := db\<rparr>;
          answer = op (se_Uuid env n) (se_Now env n) db in
      case se_Fault env n of
        CallDropped \<Rightarrow> (Inl (wrap CallUnreachable), w1)
      | CallUnacknowledged \<Rightarrow> (Inl (wrap CallUnreachable), w1\<lparr>sw_DB := snd answer\<rparr>)
      | CallOk \<Rightarrow>
          (case fst answer of
             Inl e \<Rightarrow> (Inl (wrap (CallFailed e)), w1\<lparr>sw_DB := snd answer\<rparr>)
           | Inr a \<Rightarrow> (Inr a, w1\<lparr>sw_DB := snd answer\<rparr>)))"

definition call_tx ::
  "supply_env \<Rightarrow> (call_error \<Rightarrow> 'e) \<Rightarrow> ((nat \<Rightarrow> string) \<Rightarrow> go_time \<Rightarrow> 'a stx) \<Rightarrow> ('r, 'e, 'a) act" where
  "call_tx env wrap op = call_store env wrap (\<lambda>uuids now. commit_or_roll_back (op uuids now))"

definition call_read ::
  "supply_env \<Rightarrow> (call_error \<Rightarrow> 'e) \<Rightarrow> (supply_db \<Rightarrow> store_error + 'a) \<Rightarrow> ('r, 'e, 'a) act" where
  "call_read env wrap f = call_store env wrap (\<lambda>uuids now db. (f db, db))"

fun act_list :: "('x \<Rightarrow> ('r, 'e, unit) act) \<Rightarrow> 'x list \<Rightarrow> ('r, 'e, unit) act" where
  "act_list f [] = act_return ()"
| "act_list f (x # xs) = act_bind (f x) (\<lambda>_. act_list f xs)"

section \<open>Programs are runs of transactions\<close>

definition honest :: "supply_env \<Rightarrow> bool" where
  "honest env \<longleftrightarrow> (\<forall>n db. supply_step\<^sup>*\<^sup>* db (se_Others env n db))"

definition run_of_steps :: "('r, 'e, 'a) act \<Rightarrow> bool" where
  "run_of_steps m \<longleftrightarrow> (\<forall>w. supply_step\<^sup>*\<^sup>* (sw_DB w) (sw_DB (snd (m w))))"

named_theorems runs "programs that are runs of transactions"

lemma runs_return [runs]: "run_of_steps (act_return a)"
  by (simp add: run_of_steps_def act_return_def)

lemma runs_fail [runs]: "run_of_steps (act_fail e)"
  by (simp add: run_of_steps_def act_fail_def)

lemma runs_record [runs]: "run_of_steps (act_record x)"
  by (simp add: run_of_steps_def act_record_def)

lemma runs_now [runs]: "run_of_steps (act_now env)"
  by (simp add: run_of_steps_def act_now_def)

lemma runs_uuids [runs]: "run_of_steps (act_uuids env)"
  by (simp add: run_of_steps_def act_uuids_def)

lemma runs_ask [runs]: "run_of_steps (act_ask f)"
  by (simp add: run_of_steps_def act_ask_def)

lemma runs_bind [runs]:
  assumes "run_of_steps m" "\<And>a. run_of_steps (f a)"
  shows "run_of_steps (act_bind m f)"
  unfolding run_of_steps_def
proof
  fix w
  obtain r w' where m: "m w = (r, w')" by (cases "m w")
  have first: "supply_step\<^sup>*\<^sup>* (sw_DB w) (sw_DB w')" using assms(1) m unfolding run_of_steps_def by (metis snd_conv)
  show "supply_step\<^sup>*\<^sup>* (sw_DB w) (sw_DB (snd (act_bind m f w)))"
  proof (cases r)
    case (Inl e) then show ?thesis using first m by (simp add: act_bind_def)
  next
    case (Inr a)
    have "supply_step\<^sup>*\<^sup>* (sw_DB w') (sw_DB (snd (f a w')))" using assms(2) unfolding run_of_steps_def by blast
    then show ?thesis using first m Inr by (simp add: act_bind_def)
  qed
qed

lemma runs_try [runs]:
  assumes "run_of_steps m" "\<And>r. run_of_steps (f r)"
  shows "run_of_steps (act_try m f)"
  unfolding run_of_steps_def
proof
  fix w
  obtain r w' where m: "m w = (r, w')" by (cases "m w")
  have "supply_step\<^sup>*\<^sup>* (sw_DB w) (sw_DB w')" using assms(1) m unfolding run_of_steps_def by (metis snd_conv)
  moreover have "supply_step\<^sup>*\<^sup>* (sw_DB w') (sw_DB (snd (f r w')))" using assms(2) unfolding run_of_steps_def by blast
  ultimately show "supply_step\<^sup>*\<^sup>* (sw_DB w) (sw_DB (snd (act_try m f w)))" using m by (simp add: act_try_def)
qed

lemma runs_list [runs]: "(\<And>x. run_of_steps (f x)) \<Longrightarrow> run_of_steps (act_list f xs)"
  by (induction xs) (auto intro: runs)

lemma runs_if [runs]: "run_of_steps m \<Longrightarrow> run_of_steps m' \<Longrightarrow> run_of_steps (if b then m else m')"
  by simp

lemma runs_option [runs]:
  "run_of_steps m \<Longrightarrow> (\<And>x. run_of_steps (f x)) \<Longrightarrow> run_of_steps (case opt of None \<Rightarrow> m | Some x \<Rightarrow> f x)"
  by (cases opt) simp_all

lemma runs_sum [runs]:
  "(\<And>x. run_of_steps (f x)) \<Longrightarrow> (\<And>y. run_of_steps (g y)) \<Longrightarrow>
     run_of_steps (case s of Inl x \<Rightarrow> f x | Inr y \<Rightarrow> g y)"
  by (cases s) simp_all

lemma runs_let [runs]: "(\<And>x. run_of_steps (f x)) \<Longrightarrow> run_of_steps (let x = v in f x)"
  by simp

lemma runs_store:
  fixes op :: "(nat \<Rightarrow> string) \<Rightarrow> go_time \<Rightarrow> supply_db \<Rightarrow> (store_error + 'a) \<times> supply_db"
    and wrap :: "call_error \<Rightarrow> 'e"
  assumes "honest env" "\<And>uuids now db. supply_step\<^sup>*\<^sup>* db (snd (op uuids now db))"
  shows "run_of_steps (call_store env wrap op :: ('r, 'e, 'a) act)"
  unfolding run_of_steps_def
proof
  fix w :: "'r supply_world"
  let ?db = "se_Others env (sw_Calls w) (sw_DB w)"
  have others: "supply_step\<^sup>*\<^sup>* (sw_DB w) ?db" using assms(1) by (simp add: honest_def)
  have "supply_step\<^sup>*\<^sup>* ?db (snd (op (se_Uuid env (sw_Calls w)) (se_Now env (sw_Calls w)) ?db))" by (rule assms(2))
  then have "supply_step\<^sup>*\<^sup>* (sw_DB w) (snd (op (se_Uuid env (sw_Calls w)) (se_Now env (sw_Calls w)) ?db))"
    using others by simp
  then show "supply_step\<^sup>*\<^sup>* (sw_DB w) (sw_DB (snd ((call_store env wrap op :: ('r, 'e, 'a) act) w)))"
    using others by (simp add: call_store_def Let_def split: call_fault.split sum.split)
qed

lemma runs_read [runs]: "honest env \<Longrightarrow> run_of_steps (call_read env wrap f)"
  unfolding call_read_def by (rule runs_store) simp_all

lemma runs_tx:
  assumes "honest env" "\<And>uuids now db x db'. op uuids now db = Inr (x, db') \<Longrightarrow> supply_step\<^sup>*\<^sup>* db db'"
  shows "run_of_steps (call_tx env wrap op)"
  unfolding call_tx_def
proof (rule runs_store [OF assms(1)])
  fix uuids now db
  show "supply_step\<^sup>*\<^sup>* db (snd (commit_or_roll_back (op uuids now) db))"
    using assms(2) by (auto simp: commit_or_roll_back_def split: sum.split)
qed

text \<open>The operations that read their row back.\<close>

lemma snd_read_back: "snd (read_back get op db) = snd (commit_or_roll_back op db)"
  by (auto simp: read_back_def split: prod.split sum.split)

lemma steps_read_back:
  "(\<And>x db'. op db = Inr (x, db') \<Longrightarrow> supply_step db db') \<Longrightarrow> supply_step\<^sup>*\<^sup>* db (snd (read_back get op db))"
  unfolding snd_read_back by (auto simp: commit_or_roll_back_def split: sum.split)

lemma transitions_run:
  "supply_step\<^sup>*\<^sup>* db (snd (TransitionCandidate uuid now i v c_to cmd db))"
  "supply_step\<^sup>*\<^sup>* db (snd (TransitionBuildRun uuid now i v b_to cmd db))"
  "supply_step\<^sup>*\<^sup>* db (snd (TransitionBuildStep uuid now i v s_to cmd db))"
  "supply_step\<^sup>*\<^sup>* db (snd (UpdateCandidateProposal uuid now c v cmd db))"
  "supply_step\<^sup>*\<^sup>* db (snd (UpdateBuildStepEvidence uuid now s v cmd db))"
  unfolding TransitionCandidate_def TransitionBuildRun_def TransitionBuildStep_def
    UpdateCandidateProposal_def UpdateBuildStepEvidence_def
  by (rule steps_read_back, erule supply_step.intros)+

end
