(* ===== verification/CandidateControl.thy ===== *)
theory CandidateControl
  imports SupplyCalls Pipeline ScannerPolicy
begin

text \<open>
  The release commands on candidates (\<open>internal/scannercontrol/service.go\<close>) and the two handlers that
  command the store directly (retry and cancel in \<open>internal/api/routes/scanner_supply_chain.go\<close>). Each is
  a program over the candidate store. Decoding and encoding of JSON are parameters, and so is the
  publication verifier, an interface of the service.
\<close>

section \<open>Commands\<close>

record approval_command =
  ac_CandidateID :: string
  ac_LockDigest :: string
  ac_PolicyDecisionDigest :: string
  ac_EvidenceDigest :: string
  ac_Actor :: string
  ac_Reason :: string
  ac_IdempotencyKey :: string

record exception_command =
  xc_CandidateID :: string
  xc_Gate :: string
  xc_OwnerID :: string
  xc_Reason :: string
  xc_CompensatingControl :: string
  xc_EvidenceDigest :: string
  xc_ExpiresAt :: go_time
  xc_Actor :: string
  xc_IdempotencyKey :: string

datatype control_error =
    ErrValidation string | ErrCandidateNotReady candidate_state | ErrApprovalStale | BadPolicy
  | PlanFailed plan_error | BadAttempt | IncompleteImages | ControlCall call_error
  | Conflict string | ReasonRequired

record control_codec =
  cc_Rules :: "string \<Rightarrow> policy option"
  cc_Images :: "string \<Rightarrow> image_spec list option"
  cc_EncodeImages :: "image_spec list \<Rightarrow> string"
  cc_StepSummary :: "nat \<Rightarrow> step \<Rightarrow> string"
  cc_Platforms :: platform_codec

text \<open>What \<open>PublicationVerifier\<close> finds in the store: the digest of the verified receipt.\<close>

type_synonym verifier = "supply_db \<Rightarrow> candidate_row \<Rightarrow> string \<Rightarrow> string option"

text \<open>\<open>^sha256:[a-f0-9]{64}$\<close>\<close>

definition lower_hex :: "char \<Rightarrow> bool" where
  "lower_hex c \<longleftrightarrow> (let n = (of_char c :: int) in 97 \<le> n \<and> n \<le> 102 \<or> 48 \<le> n \<and> n \<le> 57)"

definition digestPattern :: "string \<Rightarrow> bool" where
  "digestPattern value \<longleftrightarrow>
     has_prefix value ''sha256:'' \<and> length value = 71 \<and> list_all lower_hex (drop 7 value)"

section \<open>Images and the build plan\<close>

definition defaultImages :: "image_spec list" where
  "defaultImages =
     map (\<lambda>(k, ps). \<lparr>im_Key = k, im_Kind = ImageKindScanner, im_Platforms = ps, im_DependsOn = []\<rparr>)
       [(''default'', [''linux/amd64'', ''linux/arm64'']), (''jvm'', [''linux/amd64'', ''linux/arm64'']),
        (''rust'', [''linux/amd64'', ''linux/arm64'']), (''codeql'', [''linux/amd64''])]"

definition normalized_image :: "image_spec \<Rightarrow> image_spec" where
  "normalized_image i =
     i\<lparr>im_Kind := (if im_Kind i = [] then ImageKindScanner else im_Kind i),
       im_Platforms := sort (im_Platforms i), im_DependsOn := sort (im_DependsOn i)\<rparr>"

text \<open>The map by key that the closure \<open>normalize\<close> fills: a later image replaces an earlier one.\<close>

definition images_by_key :: "image_spec list \<Rightarrow> (string \<times> image_spec) list" where
  "images_by_key images = rev (map (\<lambda>i. (im_Key i, normalized_image i)) images)"

definition validateCompleteImageSet :: "image_spec list \<Rightarrow> image_spec list \<Rightarrow> bool" where
  "validateCompleteImageSet actual expected \<longleftrightarrow>
     (let got = images_by_key actual; want = images_by_key expected;
          size_of = (\<lambda>m. length (remdups (map fst m))) in
      size_of got = size_of want \<and> length actual = size_of got \<and>
      list_all (\<lambda>k. case (map_of got k, map_of want k) of
          (Some a, Some e) \<Rightarrow> im_Kind a = im_Kind e \<and>
             join_with '','' (im_Platforms a) = join_with '','' (im_Platforms e) \<and>
             join_with '','' (im_DependsOn a) = join_with '','' (im_DependsOn e)
        | _ \<Rightarrow> False) (map fst want))"

definition plan_images :: "image_spec list \<Rightarrow> control_error + image_spec list" where
  "plan_images images =
     (if images = [] then Inr defaultImages
      else if validateCompleteImageSet images defaultImages then Inr images else Inl IncompleteImages)"

definition queued_step :: "control_codec \<Rightarrow> (nat \<Rightarrow> string) \<Rightarrow> nat \<Rightarrow> step \<Rightarrow> step_row" where
  "queued_step codec uuids index s =
     \<lparr>bt_ID = uuids (Suc index), bt_BuildRunID = uuids 0, bt_StepKey = st_Key s, bt_State = BuildQueued,
      bt_Attempt = 1, bt_OutputURI = [], bt_OutputDigest = [],
      bt_SummaryJSON = cc_StepSummary codec index s, bt_RetentionClass = ''candidate-evidence'',
      bt_RetainUntil = None, bt_Protected = False, bt_ErrorClass = [], bt_ErrorDetail = [], bt_Version = 0,
      bt_StartedAt = None, bt_CompletedAt = None, bt_CreatedAt = 0, bt_UpdatedAt = 0\<rparr>"

definition queued_build :: "string \<Rightarrow> string \<Rightarrow> int \<Rightarrow> string \<Rightarrow> build_row" where
  "queued_build i candidateID attempt platforms =
     \<lparr>br_ID = i, br_CandidateID = candidateID, br_Attempt = attempt, br_WorkerID = [],
      br_State = BuildQueued, br_PlatformsJSON = platforms, br_LeaseToken = [], br_LeaseExpiresAt = None,
      br_HeartbeatAt = None, br_CancelRequestedAt = None, br_ErrorClass = [], br_ErrorDetail = [],
      br_Version = 0, br_StartedAt = None, br_CompletedAt = None, br_CreatedAt = 0, br_UpdatedAt = 0\<rparr>"

definition EnqueueCandidateBuildPlanAttempt ::
  "supply_env \<Rightarrow> control_codec \<Rightarrow> candidate_row \<Rightarrow> image_spec list \<Rightarrow> int \<Rightarrow> ('r, control_error, unit) act" where
  "EnqueueCandidateBuildPlanAttempt env codec c given attempt =
     (if attempt \<le> 0 then act_fail BadAttempt
      else case plan_images given of
        Inl e \<Rightarrow> act_fail e
      | Inr images \<Rightarrow>
          (case pipeline_default \<lparr>in_Images = images, in_RequireCompose = True, in_RequireKubernetes = True,
                  in_RequireMirror = True\<rparr> of
             Inl e \<Rightarrow> act_fail (PlanFailed e)
           | Inr plan \<Rightarrow>
               act_bind (act_uuids env) (\<lambda>uuids.
               act_bind (call_tx env ControlCall (\<lambda>fresh now. CreateBuildPlan (cc_Platforms codec) fresh now
                   (queued_build (uuids 0) (ct_ID c) attempt (cc_EncodeImages codec images))
                   (map (\<lambda>(i, s). queued_step codec uuids i s) (enumerate 0 plan))
                   \<lparr>cmd_Actor = ct_Actor c, cmd_Reason = ''candidate build enqueued'',
                    cmd_PolicyRevision = ct_PolicyRevision c,
                    cmd_IdempotencyKey = ct_IdempotencyKey c @ ''/build/'' @ show_int attempt,
                    cmd_PayloadJSON = ''{}''\<rparr>)) (\<lambda>_. act_return ()))))"

section \<open>Approvals\<close>

definition policy_rules :: "control_codec \<Rightarrow> policy_row \<Rightarrow> policy option" where
  "policy_rules codec p =
     (case cc_Rules codec (pl_RulesJSON p) of
        None \<Rightarrow> None
      | Some rules \<Rightarrow> (case Normalize rules of Inl _ \<Rightarrow> None | Inr normal \<Rightarrow> Some normal))"

definition new_approval ::
  "string \<Rightarrow> string \<Rightarrow> string \<Rightarrow> string \<Rightarrow> string \<Rightarrow> string \<Rightarrow> string \<Rightarrow> string \<Rightarrow> approval_row" where
  "new_approval i candidateID actor action reason evidenceDigest decisionDigest key =
     \<lparr>ar_ID = i, ar_CandidateID = candidateID, ar_ReleaseID = [], ar_Actor = actor, ar_Action = action,
      ar_Reason = reason, ar_ExceptionScope = [], ar_ExceptionOwner = [], ar_CompensatingControl = [],
      ar_EvidenceDigest = evidenceDigest, ar_PolicyDecision = decisionDigest, ar_ExpiresAt = None,
      ar_IdempotencyKey = key, ar_CreatedAt = 0\<rparr>"

definition control_transition ::
  "candidate_row \<Rightarrow> approval_command \<Rightarrow> command" where
  "control_transition c cmd =
     \<lparr>cmd_Actor = ac_Actor cmd, cmd_Reason = ac_Reason cmd, cmd_PolicyRevision = ct_PolicyRevision c,
      cmd_IdempotencyKey = ac_IdempotencyKey cmd @ ''/transition'', cmd_PayloadJSON = ''{}''\<rparr>"

definition approving_actors :: "policy \<Rightarrow> candidate_row \<Rightarrow> approval_row list \<Rightarrow> string list" where
  "approving_actors rules c approvals =
     remdups (map ar_Actor (filter (\<lambda>a. ar_Action a = ''approve'' \<and> ar_PolicyDecision a = ct_PolicyDecision c \<and>
       \<not> (po_SeparateCreator rules \<and> ar_Actor a = ct_Actor c)) approvals))"

definition incomplete_command :: "approval_command \<Rightarrow> bool" where
  "incomplete_command cmd \<longleftrightarrow>
     ac_CandidateID cmd = [] \<or> ac_Actor cmd = [] \<or> ac_Reason cmd = [] \<or> ac_IdempotencyKey cmd = []"

text \<open>The policy of the candidate, with its rules.\<close>

definition candidate_rules ::
  "supply_env \<Rightarrow> control_codec \<Rightarrow> candidate_row \<Rightarrow> ('r, control_error, policy) act" where
  "candidate_rules env codec c =
     act_bind (call_read env ControlCall (GetPolicy (ct_PolicyID c))) (\<lambda>p.
     case policy_rules codec p of None \<Rightarrow> act_fail BadPolicy | Some rules \<Rightarrow> act_return rules)"

text \<open>The listing asks for the approvals of a candidate named \<open>candidate\<close> and of a release named as the
  candidate: \<open>ListApprovals\<close> takes a candidate and a release, not an aggregate type and its identifier.\<close>

definition listed_approvals :: "supply_env \<Rightarrow> candidate_row \<Rightarrow> ('r, control_error, approval_row list) act" where
  "listed_approvals env c =
     call_read env ControlCall (\<lambda>db. Inr (ListApprovals ''candidate'' (ct_ID c) db))"

definition transition_candidate ::
  "supply_env \<Rightarrow> candidate_row \<Rightarrow> candidate_state \<Rightarrow> command \<Rightarrow> ('r, control_error, candidate_row) act" where
  "transition_candidate env c to cmd =
     call_store env ControlCall (\<lambda>uuids now. TransitionCandidate (uuids 0) now (ct_ID c) (ct_Version c) to cmd)"

definition ApproveCandidate ::
  "supply_env \<Rightarrow> control_codec \<Rightarrow> verifier \<Rightarrow> approval_command \<Rightarrow> ('r, control_error, candidate_row) act" where
  "ApproveCandidate env codec verify cmd =
     (if incomplete_command cmd then act_fail (ErrValidation ''approval'')
      else
        act_bind (call_read env ControlCall (GetCandidate (ac_CandidateID cmd))) (\<lambda>c.
        if ct_State c \<noteq> CandidateAwaitingApproval then act_fail (ErrCandidateNotReady (ct_State c))
        else if ac_LockDigest cmd \<noteq> ct_LockDigest c \<or> ac_PolicyDecisionDigest cmd = [] \<or>
                ac_PolicyDecisionDigest cmd \<noteq> ct_PolicyDecision c
        then act_fail ErrApprovalStale
        else
          act_bind (call_read env ControlCall (\<lambda>db. Inr (verify db c (ac_EvidenceDigest cmd)))) (\<lambda>verified.
          if verified \<noteq> Some (ac_EvidenceDigest cmd) then act_fail ErrApprovalStale
          else
            act_bind (act_uuids env) (\<lambda>uuids.
            act_bind (call_tx env ControlCall (\<lambda>fresh now. AddApproval (fresh 0) now
               (new_approval (uuids 0) (ct_ID c) (ac_Actor cmd) ''approve'' (ac_Reason cmd)
                  (ac_EvidenceDigest cmd) (ac_PolicyDecisionDigest cmd) (ac_IdempotencyKey cmd)))) (\<lambda>_.
            act_bind (candidate_rules env codec c) (\<lambda>rules.
            act_bind (listed_approvals env c) (\<lambda>approvals.
            if int (length (approving_actors rules c approvals)) < po_RequiredApprovals rules
            then act_return c
            else transition_candidate env c CandidateApproved (control_transition c cmd))))))))"

definition RejectCandidate ::
  "supply_env \<Rightarrow> approval_command \<Rightarrow> ('r, control_error, candidate_row) act" where
  "RejectCandidate env cmd =
     (if incomplete_command cmd then act_fail (ErrValidation ''approval'')
      else
        act_bind (call_read env ControlCall (GetCandidate (ac_CandidateID cmd))) (\<lambda>c.
        if contains_elem [CandidatePublished, CandidateRejected, CandidateFailed] (ct_State c)
        then act_fail (ErrCandidateNotReady (ct_State c))
        else
          act_bind (act_uuids env) (\<lambda>uuids.
          act_bind (call_tx env ControlCall (\<lambda>fresh now. AddApproval (fresh 0) now
             (new_approval (uuids 0) (ct_ID c) (ac_Actor cmd) ''reject'' (ac_Reason cmd)
                (ac_EvidenceDigest cmd) (ct_PolicyDecision c) (ac_IdempotencyKey cmd)))) (\<lambda>_.
          transition_candidate env c CandidateRejected (control_transition c cmd)))))"

section \<open>Exceptions\<close>

definition exception_incomplete :: "exception_command \<Rightarrow> bool" where
  "exception_incomplete cmd \<longleftrightarrow>
     xc_CandidateID cmd = [] \<or> xc_Actor cmd = [] \<or> xc_OwnerID cmd = [] \<or> trim_space (xc_Gate cmd) = [] \<or>
     trim_space (xc_Reason cmd) = [] \<or> trim_space (xc_CompensatingControl cmd) = [] \<or>
     xc_IdempotencyKey cmd = []"

text \<open>The checks on the command alone, at the time the command is handled.\<close>

definition exception_checks :: "exception_command \<Rightarrow> go_time \<Rightarrow> control_error option" where
  "exception_checks cmd now =
     (if \<not> digestPattern (xc_EvidenceDigest cmd) then Some (ErrValidation ''evidence digest'')
      else if \<not> now < xc_ExpiresAt cmd \<or> now + 90 * day < xc_ExpiresAt cmd then Some (ErrValidation ''expiration'')
      else if xc_Actor cmd = xc_OwnerID cmd then Some (ErrValidation ''owner'')
      else None)"

definition exception_states :: "candidate_state list" where
  "exception_states = [CandidateQueued, CandidateBuilding, CandidateBlocked, CandidateAwaitingApproval]"

text \<open>The checks on the rules of the candidate's policy.\<close>

definition exception_allowed :: "policy \<Rightarrow> exception_command \<Rightarrow> go_time \<Rightarrow> control_error option" where
  "exception_allowed rules cmd now =
     (if \<not> contains_elem (po_RequiredGates rules) (xc_Gate cmd) then Some (ErrValidation ''gate not required'')
      else if \<not> ExceptionEligible (xc_Gate cmd) then Some (ErrValidation ''hard gate'')
      else if \<not> allows_exception rules (xc_Gate cmd) then Some (ErrValidation ''not allowed'')
      else if po_ExceptionMaxAge rules \<le> 0 \<or> now + po_ExceptionMaxAge rules < xc_ExpiresAt cmd
      then Some (ErrValidation ''maximum age'')
      else None)"

definition exception_approval :: "string \<Rightarrow> candidate_row \<Rightarrow> exception_command \<Rightarrow> go_time \<Rightarrow> approval_row" where
  "exception_approval i c cmd now =
     \<lparr>ar_ID = i, ar_CandidateID = ct_ID c, ar_ReleaseID = [], ar_Actor = xc_Actor cmd,
      ar_Action = ''exception'', ar_Reason = trim_space (xc_Reason cmd),
      ar_ExceptionScope = trim_space (xc_Gate cmd), ar_ExceptionOwner = xc_OwnerID cmd,
      ar_CompensatingControl = trim_space (xc_CompensatingControl cmd),
      ar_EvidenceDigest = xc_EvidenceDigest cmd, ar_PolicyDecision = ct_PolicyDecision c,
      ar_ExpiresAt = Some (xc_ExpiresAt cmd), ar_IdempotencyKey = xc_IdempotencyKey cmd, ar_CreatedAt = now\<rparr>"

definition AddCandidateException ::
  "supply_env \<Rightarrow> control_codec \<Rightarrow> exception_command \<Rightarrow> ('r, control_error, approval_row) act" where
  "AddCandidateException env codec cmd =
     (if exception_incomplete cmd then act_fail (ErrValidation ''exception'')
      else
        act_bind (act_now env) (\<lambda>now.
        case exception_checks cmd now of Some e \<Rightarrow> act_fail e | None \<Rightarrow>
        act_bind (call_read env ControlCall (GetCandidate (xc_CandidateID cmd))) (\<lambda>c.
        if \<not> contains_elem exception_states (ct_State c) then act_fail (ErrCandidateNotReady (ct_State c))
        else if ct_Actor c = xc_Actor cmd then act_fail (ErrValidation ''creator'')
        else
          act_bind (candidate_rules env codec c) (\<lambda>rules.
          case exception_allowed rules cmd now of Some e \<Rightarrow> act_fail e | None \<Rightarrow>
          act_bind (act_uuids env) (\<lambda>uuids.
          call_tx env ControlCall (\<lambda>fresh t. AddApproval (fresh 0) t
             (exception_approval (uuids 0) c cmd now)))))))"

section \<open>Retry and cancellation\<close>

text \<open>The handlers of the API: identifier, actor and key of the request, and the version of \<open>If-Match\<close>.\<close>

record candidate_request =
  cq_ID :: string
  cq_Actor :: string
  cq_Key :: string
  cq_Expected :: int
  cq_Reason :: string

text \<open>The loop over the builds: the next attempt, and the images of the latest one.\<close>

fun latest_snapshot ::
  "control_codec \<Rightarrow> int \<Rightarrow> image_spec list \<Rightarrow> build_row list \<Rightarrow> (int \<times> image_spec list) option" where
  "latest_snapshot codec nextAttempt images [] = Some (nextAttempt, images)"
| "latest_snapshot codec nextAttempt images (b # bs) =
     (if nextAttempt \<le> br_Attempt b
      then (case cc_Images codec (br_PlatformsJSON b) of
              None \<Rightarrow> None
            | Some is \<Rightarrow> latest_snapshot codec (br_Attempt b + 1) is bs)
      else latest_snapshot codec nextAttempt images bs)"

definition request_command :: "candidate_row \<Rightarrow> candidate_request \<Rightarrow> string \<Rightarrow> string \<Rightarrow> string \<Rightarrow> command" where
  "request_command c rq suffix reason payload =
     \<lparr>cmd_Actor = cq_Actor rq, cmd_Reason = reason, cmd_PolicyRevision = ct_PolicyRevision c,
      cmd_IdempotencyKey = cq_Key rq @ suffix, cmd_PayloadJSON = payload\<rparr>"

definition ScannerSupplyChainRetryCandidate ::
  "supply_env \<Rightarrow> control_codec \<Rightarrow> candidate_request \<Rightarrow> ('r, control_error, candidate_row) act" where
  "ScannerSupplyChainRetryCandidate env codec rq =
     act_bind (call_read env ControlCall (GetCandidate (cq_ID rq))) (\<lambda>c.
     if ct_Version c \<noteq> cq_Expected rq then act_fail (ControlCall (CallFailed VersionConflict))
     else if ct_State c \<noteq> CandidateBlocked then act_fail (Conflict ''retry_not_safe'')
     else
       act_bind (call_read env ControlCall (\<lambda>db. Inr (ListBuildRuns (cq_ID rq) db))) (\<lambda>builds.
       case latest_snapshot codec 1 [] builds of
         None \<Rightarrow> act_fail (Conflict ''retry_snapshot_invalid'')
       | Some (attempt, images) \<Rightarrow>
           if images = [] then act_fail (Conflict ''retry_snapshot_missing'')
           else
             act_bind (call_store env ControlCall (\<lambda>uuids now.
                 TransitionCandidate (uuids 0) now (cq_ID rq) (cq_Expected rq) CandidateQueued
                   (request_command c rq [] ''operator requested safe retry'' ''{}''))) (\<lambda>queued.
             act_try (EnqueueCandidateBuildPlanAttempt env codec queued images attempt) (\<lambda>r.
             case r of
               Inr _ \<Rightarrow> act_return queued
             | Inl e \<Rightarrow>
                 act_try (call_store env ControlCall (\<lambda>uuids now.
                     TransitionCandidate (uuids 0) now (cq_ID rq) (ct_Version queued) CandidateBlocked
                       (request_command queued rq ''/compensate'' ''candidate retry build enqueue failed'' ''{}'')))
                   (\<lambda>_. act_fail e)))))"

text \<open>The loop that requests the cancellation of every unfinished build, and counts the requests.\<close>

fun cancel_builds ::
  "supply_env \<Rightarrow> candidate_row \<Rightarrow> candidate_request \<Rightarrow> go_time \<Rightarrow> nat \<Rightarrow> build_row list
     \<Rightarrow> ('r, control_error, nat) act" where
  "cancel_builds env c rq now requested [] = act_return requested"
| "cancel_builds env c rq now requested (b # bs) =
     (if IsTerminalBuildState (br_State b) then cancel_builds env c rq now requested bs
      else act_bind (call_tx env ControlCall (\<lambda>uuids t. RequestBuildCancellation (uuids 0) t (br_ID b)
               (request_command c rq (''/build/'' @ br_ID b) (cq_Reason rq) ''{\"source\":\"api\"}'') now)) (\<lambda>ok.
           cancel_builds env c rq now (if ok then Suc requested else requested) bs))"

definition ScannerSupplyChainCancelCandidate ::
  "supply_env \<Rightarrow> candidate_request \<Rightarrow> ('r, control_error, string) act" where
  "ScannerSupplyChainCancelCandidate env rq =
     (if trim_space (cq_Reason rq) = [] then act_fail ReasonRequired
      else
        act_bind (call_read env ControlCall (GetCandidate (cq_ID rq))) (\<lambda>c.
        if ct_Version c \<noteq> cq_Expected rq then act_fail (ControlCall (CallFailed VersionConflict))
        else if IsTerminalCandidateState (ct_State c) then act_fail (Conflict ''candidate_terminal'')
        else
          act_bind (call_read env ControlCall (\<lambda>db. Inr (ListBuildRuns (cq_ID rq) db))) (\<lambda>builds.
          act_bind (act_now env) (\<lambda>now.
          act_bind (cancel_builds env c rq now 0 builds) (\<lambda>requested.
          if requested \<noteq> 0 then act_return ''cancellation_requested''
          else
            act_bind (call_store env ControlCall (\<lambda>uuids t.
                TransitionCandidate (uuids 0) t (cq_ID rq) (cq_Expected rq) CandidateRejected
                  (request_command c rq [] (cq_Reason rq) ''{\"action\":\"cancel\"}''))) (\<lambda>rejected.
            act_return (candidate_state_string (ct_State rejected))))))))"

end
