(* ===== verification/Publication.thy ===== *)
theory Publication
  imports CandidateControl
begin

text \<open>
  What may be published: the receipt of a release build (\<open>internal/scannerrelease/publication_receipt.go\<close>),
  its inventory (\<open>publication_inventory.go\<close>), and the verifier that holds a receipt against the durable
  evidence of the build (\<open>internal/scannercontrol/publication.go\<close>, \<open>validatePublication\<close> in
  \<open>service.go\<close>). JSON and SHA-256 are parameters. A check of the code that returns an error is a
  condition here; the texts of the errors are left out.
\<close>

section \<open>Receipts\<close>

record release_tool =
  tl_ID :: string
  tl_ReleaseID :: string
  tl_ToolKey :: string
  tl_Version :: string
  tl_SourceReference :: string
  tl_SourceDigest :: string
  tl_Checksum :: string
  tl_ParserCompatibility :: string
  tl_MetadataJSON :: string
  tl_CreatedAt :: go_time

record release_image =
  ri_ID :: string
  ri_ReleaseID :: string
  ri_ImageKey :: string
  ri_ImageKind :: string
  ri_RegistryTargetID :: string
  ri_Repository :: string
  ri_Digest :: string
  ri_PlatformDigests :: string
  ri_SizeBytes :: int
  ri_SignatureStatus :: string
  ri_SignatureDigest :: string
  ri_SignatureArtifactURI :: string
  ri_SignatureArtifactDigest :: string
  ri_SignatureMediaType :: string
  ri_SignatureArtifactSizeBytes :: int
  ri_SignatureCertificateDigest :: string
  ri_SignatureIdentity :: string
  ri_SignatureIssuer :: string
  ri_SignatureSubject :: string
  ri_SignatureTrustRoot :: string
  ri_SignatureOperationID :: string
  ri_ProvenanceDigest :: string
  ri_SBOMDigest :: string
  ri_CreatedAt :: go_time

record release_artifact =
  rf_ID :: string
  rf_ReleaseID :: string
  rf_CandidateID :: string
  rf_ArtifactType :: string
  rf_MediaType :: string
  rf_URI :: string
  rf_Digest :: string
  rf_SizeBytes :: int
  rf_RetentionClass :: string
  rf_RetainUntil :: "go_time option"
  rf_Protected :: bool
  rf_CreatedAt :: go_time

record receipt =
  rc_SchemaVersion :: string
  rc_CandidateID :: string
  rc_BuildRunID :: string
  rc_DefinitionCommit :: string
  rc_LockDigest :: string
  rc_PolicyID :: string
  rc_PolicyRevision :: int
  rc_PolicyDecisionDigest :: string
  rc_ManifestDigest :: string
  rc_ManifestURI :: string
  rc_SignerIdentity :: string
  rc_Tools :: "release_tool list"
  rc_Images :: "release_image list"
  rc_Artifacts :: "release_artifact list"

definition PublicationReceiptSchema :: string where
  "PublicationReceiptSchema = ''wolf.scanner-publication-receipt/v1''"

text \<open>The fields of the database are cleared and the lists are sorted. \<open>sort.Slice\<close> does not keep the
  order of equal keys; the inventory checks refuse two tools or two images with the same key.\<close>

definition CanonicalPublicationReceipt :: "receipt \<Rightarrow> receipt" where
  "CanonicalPublicationReceipt r =
     r\<lparr>rc_Tools := sort_key tl_ToolKey
         (map (\<lambda>t. t\<lparr>tl_ID := [], tl_ReleaseID := [], tl_CreatedAt := 0\<rparr>) (rc_Tools r)),
       rc_Images := sort_key (\<lambda>i. ri_RegistryTargetID i @ [CHR 0x00] @ ri_ImageKey i)
         (map (\<lambda>i. i\<lparr>ri_ID := [], ri_ReleaseID := [], ri_CreatedAt := 0\<rparr>) (rc_Images r)),
       rc_Artifacts := sort_key (\<lambda>a. rf_ArtifactType a @ [CHR 0x00] @ rf_URI a)
         (map (\<lambda>a. a\<lparr>rf_ID := [], rf_ReleaseID := [], rf_CreatedAt := 0\<rparr>) (rc_Artifacts r))\<rparr>"

record tool_metadata =
  tm_ImageKey :: string
  tm_Kind :: string
  tm_IntegrationTier :: string
  tm_Platforms :: "string list"
  tm_ParserFormat :: string
  tm_ResolvedReference :: string
  tm_ResolvedDigest :: string
  tm_ResolutionStatus :: string

record verification =
  vr_DefinitionCommit :: string
  vr_LockDigest :: string
  vr_PolicyID :: string
  vr_PolicyRevision :: int
  vr_PolicyDecisionDigest :: string

text \<open>The identity of a signature, as \<open>durableSignatureIdentity\<close> keeps it.\<close>

record signature_identity =
  sg_RegistryTargetID :: string
  sg_SubjectDigest :: string
  sg_PayloadDigest :: string
  sg_ArtifactURI :: string
  sg_ArtifactDigest :: string
  sg_MediaType :: string
  sg_SizeBytes :: int
  sg_CertificateDigest :: string
  sg_Identity :: string
  sg_Issuer :: string
  sg_Subject :: string
  sg_TrustRoot :: string
  sg_OperationID :: string

text \<open>The decoders and encoders. A map of platforms is the list of its entries, with distinct keys;
  the digest hashes the encoding of a canonical receipt.\<close>

record publication_codec =
  pb_Platforms :: "string \<Rightarrow> (string \<times> string) list option"
  pb_EncodePlatforms :: "(string \<times> string) list \<Rightarrow> string"
  pb_ToolMetadata :: "string \<Rightarrow> tool_metadata option"
  pb_Digest :: "receipt \<Rightarrow> string option"
  pb_Receipt :: "string \<Rightarrow> receipt option"
  pb_HasSummary :: "string \<Rightarrow> bool"
  pb_Verification :: "string \<Rightarrow> verification option"
  pb_SigningEvidence :: "string \<Rightarrow> (signature_identity \<times> string \<times> bool) option"
  pb_MirrorImages :: "string \<Rightarrow> (string \<times> signature_identity) list option"
  pb_Images :: "string \<Rightarrow> image_spec list option"
  pb_UriScheme :: "string \<Rightarrow> string option"

definition PublicationReceiptDigest :: "publication_codec \<Rightarrow> receipt \<Rightarrow> string option" where
  "PublicationReceiptDigest codec r = pb_Digest codec (CanonicalPublicationReceipt r)"

definition EffectiveDefinitionCommit :: "candidate_row \<Rightarrow> string" where
  "EffectiveDefinitionCommit c = (if ct_ProposedCommit c \<noteq> [] then ct_ProposedCommit c else ct_DefinitionCommit c)"

definition NormalizedImageKind :: "release_image \<Rightarrow> string" where
  "NormalizedImageKind i = (if ri_ImageKind i = [] then ''scanner'' else ri_ImageKind i)"

definition IsRuntimeScannerImage :: "release_image \<Rightarrow> bool" where
  "IsRuntimeScannerImage i \<longleftrightarrow> NormalizedImageKind i = ''scanner''"

section \<open>The inventory\<close>

definition RequiredReleaseToolKeys :: "string list" where
  "RequiredReleaseToolKeys =
     [''bandit'', ''bearer'', ''brakeman'', ''cargo-audit'', ''cargo-deny'', ''checkov'', ''clippy'', ''codeql'',
      ''conftest'', ''cppcheck'', ''detect-secrets'', ''detekt'', ''dockle'', ''eslint'', ''gitleaks'', ''gokart'',
      ''gosec'', ''govulncheck'', ''grype'', ''hadolint'', ''infer'', ''kics'', ''kube-linter'', ''kubescape'',
      ''markdownlint'', ''mypy'', ''npm-audit'', ''nuclei'', ''osv-scanner'', ''phpstan'', ''pip-audit'', ''pluto'',
      ''pmd'', ''poutine'', ''radon'', ''renovate'', ''rubocop'', ''ruff'', ''scorecard'', ''semgrep'', ''shellcheck'',
      ''spectral'', ''sqlfluff'', ''staticcheck'', ''swiftlint'', ''syft'', ''tflint'', ''trivy'', ''trufflehog'',
      ''vale'', ''vulture'', ''yamllint'', ''zizmor'']"

definition RequiredPublicationArtifactTypes :: "string list" where
  "RequiredPublicationArtifactTypes =
     [''aggregate-sbom'', ''finding-regression'', ''mirror-copy-verify'', ''mirror-release-closure-verify'',
      ''compose-integration'', ''compose-scanner-integration'', ''kubernetes-integration'',
      ''kind-scanner-integration'', ''release-manifest'', ''release-manifest-signature'',
      ''policy-decision-artifact'']"

definition requiredReleaseImages :: "(string \<times> string \<times> string list) list" where
  "requiredReleaseImages =
     [(''default'', ''scanner'', [''linux/amd64'', ''linux/arm64'']), (''jvm'', ''scanner'', [''linux/amd64'', ''linux/arm64'']),
      (''rust'', ''scanner'', [''linux/amd64'', ''linux/arm64'']), (''codeql'', ''scanner'', [''linux/amd64''])]"

text \<open>The identity of an image: its kind, digest and encoded platforms (the code joins them by NUL).\<close>

type_synonym image_identity = "string \<times> string \<times> string"

definition image_identity_complete :: "release_image \<Rightarrow> bool" where
  "image_identity_complete i \<longleftrightarrow>
     ri_ImageKey i \<noteq> [] \<and> ri_RegistryTargetID i \<noteq> [] \<and> ri_Repository i \<noteq> [] \<and>
     (NormalizedImageKind i = ''scanner'' \<or> NormalizedImageKind i = ''fixer'') \<and> digestPattern (ri_Digest i) \<and>
     ri_SignatureStatus i = ''verified''"

definition image_digests_ok :: "release_image \<Rightarrow> bool" where
  "image_digests_ok i \<longleftrightarrow>
     digestPattern (ri_ProvenanceDigest i) \<and> digestPattern (ri_SBOMDigest i) \<and> 0 \<le> ri_SizeBytes i"

definition signature_complete :: "release_image \<Rightarrow> bool" where
  "signature_complete i \<longleftrightarrow>
     digestPattern (ri_SignatureDigest i) \<and> digestPattern (ri_SignatureArtifactDigest i) \<and>
     contains_sub (ri_SignatureArtifactURI i) (ri_SignatureArtifactDigest i) \<and>
     trim_space (ri_SignatureMediaType i) \<noteq> [] \<and> 0 < ri_SignatureArtifactSizeBytes i \<and>
     trim_space (ri_SignatureIdentity i) \<noteq> [] \<and> trim_space (ri_SignatureIssuer i) \<noteq> [] \<and>
     trim_space (ri_SignatureSubject i) \<noteq> [] \<and> trim_space (ri_SignatureTrustRoot i) \<noteq> [] \<and>
     digestPattern (ri_SignatureOperationID i) \<and>
     (ri_SignatureCertificateDigest i \<noteq> [] \<longrightarrow> digestPattern (ri_SignatureCertificateDigest i))"

definition image_platforms :: "publication_codec \<Rightarrow> release_image \<Rightarrow> (string \<times> string) list option" where
  "image_platforms codec i =
     (case pb_Platforms codec (ri_PlatformDigests i) of
        None \<Rightarrow> None
      | Some ps \<Rightarrow> if ps \<noteq> [] \<and> list_all (\<lambda>(p, d). has_prefix p ''linux/'' \<and> digestPattern d) ps
                   then Some ps else None)"

text \<open>The loop over the images, with the check of each (the two callers differ in it): the identities
  by key, or \<open>None\<close> for an error.\<close>

fun image_loop ::
  "publication_codec \<Rightarrow> (release_image \<Rightarrow> bool) \<Rightarrow> (string \<times> string) list \<Rightarrow> (string \<times> image_identity) list
     \<Rightarrow> release_image list \<Rightarrow> (string \<times> image_identity) list option" where
  "image_loop codec ok records identities [] = Some identities"
| "image_loop codec ok records identities (i # is) =
     (let record_key = (ri_RegistryTargetID i, ri_ImageKey i) in
      if contains_elem records record_key \<or> \<not> ok i then None
      else case image_platforms codec i of
        None \<Rightarrow> None
      | Some ps \<Rightarrow>
          let identity = (NormalizedImageKind i, ri_Digest i, pb_EncodePlatforms codec ps) in
          if (case map_of identities (ri_ImageKey i) of None \<Rightarrow> False | Some existing \<Rightarrow> existing \<noteq> identity)
          then None
          else image_loop codec ok (record_key # records) ((ri_ImageKey i, identity) # identities) is)"

definition covers_image ::
  "publication_codec \<Rightarrow> (string \<times> image_identity) list \<Rightarrow> string \<times> string \<times> string list \<Rightarrow> bool" where
  "covers_image codec identities = (\<lambda>(key, kind, platforms).
     case map_of identities key of
       None \<Rightarrow> False
     | Some (k, d, encoded) \<Rightarrow>
         k = kind \<and>
         (case pb_Platforms codec encoded of
            None \<Rightarrow> False
          | Some ps \<Rightarrow> length ps = length platforms \<and>
              list_all (\<lambda>p. case map_of ps p of None \<Rightarrow> False | Some d \<Rightarrow> d \<noteq> []) platforms))"

definition runtime_keys :: "release_image list \<Rightarrow> string list" where
  "runtime_keys images = map ri_ImageKey (filter IsRuntimeScannerImage images)"

definition placeholder :: "string \<Rightarrow> bool" where
  "placeholder value \<longleftrightarrow>
     contains_elem [''locked'', ''declared'', ''unknown'', ''unresolved'', ''latest''] (to_lower (trim_space value))"

definition tool_identity_complete :: "release_tool \<Rightarrow> bool" where
  "tool_identity_complete t \<longleftrightarrow>
     tl_ToolKey t \<noteq> [] \<and> tl_Version t \<noteq> [] \<and> tl_SourceReference t \<noteq> [] \<and> tl_ParserCompatibility t \<noteq> []"

definition tool_exact :: "release_tool \<Rightarrow> bool" where
  "tool_exact t \<longleftrightarrow>
     list_all (\<lambda>v. \<not> placeholder v) [tl_Version t, tl_SourceReference t, tl_ParserCompatibility t] \<and>
     has_prefix (tl_ParserCompatibility t) ''quality_policy:'' \<and>
     trim_prefix (tl_ParserCompatibility t) ''quality_policy:'' \<noteq> []"

definition tool_image_ok :: "string list \<Rightarrow> tool_metadata \<Rightarrow> bool" where
  "tool_image_ok runtime m \<longleftrightarrow>
     contains_elem runtime (tm_ImageKey m) \<and> (tm_Kind m = ''wolf'' \<or> tm_Kind m = ''upstream'')"

definition tool_metadata_exact :: "release_tool \<Rightarrow> tool_metadata \<Rightarrow> bool" where
  "tool_metadata_exact t m \<longleftrightarrow>
     tm_IntegrationTier m \<noteq> [] \<and> tm_Platforms m \<noteq> [] \<and> tm_ParserFormat m \<noteq> [] \<and>
     (if tm_Kind m = ''upstream''
      then tm_IntegrationTier m = ''upstream'' \<and> digestPattern (tm_ResolvedDigest m) \<and>
           contains_sub (tm_ResolvedReference m) (''@'' @ tm_ResolvedDigest m) \<and>
           (tm_ResolutionStatus m = ''digest_pinned'' \<or> tm_ResolutionStatus m = ''registry_resolved'') \<and>
           tl_SourceReference t = tm_ResolvedReference m \<and> tl_SourceDigest t = tm_ResolvedDigest m
      else tm_IntegrationTier m = ''default'' \<or> tm_IntegrationTier m = ''bucket'')"

text \<open>The loop over the tools, with the further checks of a tool and its metadata.\<close>

definition tools_ok ::
  "publication_codec \<Rightarrow> (release_tool \<Rightarrow> bool) \<Rightarrow> (release_tool \<Rightarrow> tool_metadata \<Rightarrow> bool) \<Rightarrow> receipt \<Rightarrow> bool" where
  "tools_ok codec exact metadata_exact r \<longleftrightarrow>
     list_all (\<lambda>t. tool_identity_complete t \<and> exact t \<and>
       (case pb_ToolMetadata codec (tl_MetadataJSON t) of
          None \<Rightarrow> False
        | Some m \<Rightarrow> tool_image_ok (runtime_keys (rc_Images r)) m \<and> metadata_exact t m)) (rc_Tools r) \<and>
     distinct (map tl_ToolKey (rc_Tools r)) \<and>
     list_all (contains_elem (map tl_ToolKey (rc_Tools r))) RequiredReleaseToolKeys"

definition artifact_complete :: "release_artifact \<Rightarrow> bool" where
  "artifact_complete a \<longleftrightarrow>
     rf_ArtifactType a \<noteq> [] \<and> rf_MediaType a \<noteq> [] \<and> rf_URI a \<noteq> [] \<and> digestPattern (rf_Digest a) \<and>
     0 \<le> rf_SizeBytes a"

definition ValidatePublicationReceiptInventory :: "publication_codec \<Rightarrow> receipt \<Rightarrow> bool" where
  "ValidatePublicationReceiptInventory codec r \<longleftrightarrow>
     length (rc_Tools r) = length RequiredReleaseToolKeys \<and> rc_Images r \<noteq> [] \<and>
     (case image_loop codec
             (\<lambda>i. image_identity_complete i \<and> signature_complete i \<and> image_digests_ok i) [] [] (rc_Images r) of
        None \<Rightarrow> False
      | Some identities \<Rightarrow> list_all (covers_image codec identities) requiredReleaseImages) \<and>
     tools_ok codec tool_exact tool_metadata_exact r \<and>
     list_all artifact_complete (rc_Artifacts r) \<and> distinct (map rf_ArtifactType (rc_Artifacts r)) \<and>
     list_all (contains_elem (map rf_ArtifactType (rc_Artifacts r))) RequiredPublicationArtifactTypes"

text \<open>\<open>^scanner-set-[0-9]{4}\.[0-9]{2}\.[1-9][0-9]*$\<close>\<close>

definition releaseNamePattern :: "string \<Rightarrow> bool" where
  "releaseNamePattern name \<longleftrightarrow>
     has_prefix name ''scanner-set-'' \<and>
     (case split_char CHR ''.'' (drop 12 name) of
        [year, week, sequence] \<Rightarrow>
          length year = 4 \<and> length week = 2 \<and> sequence \<noteq> [] \<and> hd sequence \<noteq> CHR ''0'' \<and>
          list_all (\<lambda>c. contains_elem ''0123456789'' c) (year @ week @ sequence)
      | _ \<Rightarrow> False)"

definition validatePublication :: "publication_codec \<Rightarrow> candidate_row \<Rightarrow> string \<Rightarrow> receipt \<Rightarrow> bool" where
  "validatePublication codec c name r \<longleftrightarrow>
     ValidatePublicationReceiptInventory codec r \<and>
     (name \<noteq> [] \<longrightarrow> releaseNamePattern name) \<and> digestPattern (ct_LockDigest c) \<and>
     digestPattern (ct_PolicyDecision c) \<and> digestPattern (rc_ManifestDigest r) \<and>
     contains_sub (rc_ManifestURI r) (rc_ManifestDigest r) \<and> trim_space (rc_SignerIdentity r) \<noteq> [] \<and>
     length (rc_Tools r) = length RequiredReleaseToolKeys \<and> rc_Images r \<noteq> [] \<and>
     (case image_loop codec (\<lambda>i. image_identity_complete i \<and> image_digests_ok i) [] [] (rc_Images r) of
        None \<Rightarrow> False
      | Some identities \<Rightarrow>
          list_ex (\<lambda>i. ri_ImageKey i = ''default'' \<and> IsRuntimeScannerImage i) (rc_Images r) \<and>
          list_all (covers_image codec identities)
            (map (\<lambda>i. (im_Key i, im_Kind i, im_Platforms i)) defaultImages)) \<and>
     tools_ok codec (\<lambda>_. True) (\<lambda>_ _. True) r \<and> list_all artifact_complete (rc_Artifacts r)"

section \<open>The durable evidence\<close>

definition expectedPublicationPlan :: "publication_codec \<Rightarrow> build_row \<Rightarrow> plan option" where
  "expectedPublicationPlan codec b =
     (if trim_space (br_PlatformsJSON b) = [] then None
      else case pb_Images codec (br_PlatformsJSON b) of
        None \<Rightarrow> None
      | Some images \<Rightarrow>
          if \<not> validateCompleteImageSet images defaultImages then None
          else (case pipeline_default \<lparr>in_Images = images, in_RequireCompose = True, in_RequireKubernetes = True,
                       in_RequireMirror = True\<rparr> of
                  Inl _ \<Rightarrow> None
                | Inr p \<Rightarrow> Some p))"

text \<open>The latest attempt of every step: the map the verifier fills, by step key.\<close>

definition latest_steps :: "step_row list \<Rightarrow> (string \<times> step_row) list" where
  "latest_steps steps = fold (\<lambda>s latest.
     case map_of latest (bt_StepKey s) of
       None \<Rightarrow> (bt_StepKey s, s) # latest
     | Some current \<Rightarrow> if bt_Attempt current < bt_Attempt s
                       then map (\<lambda>(k, x). (k, if k = bt_StepKey s then s else x)) latest else latest) steps []"

definition verifyPersistedStepEvidence :: "publication_codec \<Rightarrow> step_row \<Rightarrow> candidate_row \<Rightarrow> bool" where
  "verifyPersistedStepEvidence codec s c \<longleftrightarrow>
     (case pb_Verification codec (bt_SummaryJSON s) of
        None \<Rightarrow> False
      | Some v \<Rightarrow>
          pb_HasSummary codec (bt_SummaryJSON s) \<and> vr_DefinitionCommit v = EffectiveDefinitionCommit c \<and>
          vr_LockDigest v = ct_LockDigest c \<and> vr_PolicyID v = ct_PolicyID c \<and>
          vr_PolicyRevision v = ct_PolicyRevision c)"

definition step_evidence_ok :: "publication_codec \<Rightarrow> candidate_row \<Rightarrow> (string \<times> step_row) list \<Rightarrow> step \<Rightarrow> bool" where
  "step_evidence_ok codec c latest plan_step \<longleftrightarrow>
     (case map_of latest (st_Key plan_step) of
        None \<Rightarrow> False
      | Some s \<Rightarrow> bt_State s = BuildCompleted \<and> digestPattern (bt_OutputDigest s) \<and>
                  verifyPersistedStepEvidence codec s c)"

text \<open>\<open>steps[key]\<close> of a Go map: a missing step is the zero value.\<close>

definition zero_step :: step_row where
  "zero_step =
     \<lparr>bt_ID = [], bt_BuildRunID = [], bt_StepKey = [], bt_State = BuildOther [], bt_Attempt = 0,
      bt_OutputURI = [], bt_OutputDigest = [], bt_SummaryJSON = [], bt_RetentionClass = [],
      bt_RetainUntil = None, bt_Protected = False, bt_ErrorClass = [], bt_ErrorDetail = [], bt_Version = 0,
      bt_StartedAt = None, bt_CompletedAt = None, bt_CreatedAt = 0, bt_UpdatedAt = 0\<rparr>"

definition step_at :: "(string \<times> step_row) list \<Rightarrow> string \<Rightarrow> step_row" where
  "step_at steps key = (case map_of steps key of None \<Rightarrow> zero_step | Some s \<Rightarrow> s)"

definition signature_matches :: "signature_identity \<Rightarrow> release_image \<Rightarrow> bool" where
  "signature_matches e i \<longleftrightarrow>
     sg_SubjectDigest e = ri_Digest i \<and> sg_PayloadDigest e = ri_SignatureDigest i \<and>
     sg_ArtifactURI e = ri_SignatureArtifactURI i \<and> sg_ArtifactDigest e = ri_SignatureArtifactDigest i \<and>
     sg_MediaType e = ri_SignatureMediaType i \<and> sg_SizeBytes e = ri_SignatureArtifactSizeBytes i \<and>
     sg_CertificateDigest e = ri_SignatureCertificateDigest i \<and> sg_Identity e = ri_SignatureIdentity i \<and>
     sg_Issuer e = ri_SignatureIssuer i \<and> sg_Subject e = ri_SignatureSubject i \<and>
     sg_TrustRoot e = ri_SignatureTrustRoot i \<and> sg_OperationID e = ri_SignatureOperationID i"

text \<open>The signing evidence of a step: the identity, the subject of the artifact, and the flag.\<close>

definition durablePrimarySignature :: "publication_codec \<Rightarrow> step_row \<Rightarrow> signature_identity option" where
  "durablePrimarySignature codec s =
     (if bt_StepKey s = [] \<or> \<not> pb_HasSummary codec (bt_SummaryJSON s) then None
      else case pb_SigningEvidence codec (bt_SummaryJSON s) of
        None \<Rightarrow> None
      | Some (e, subject, verified) \<Rightarrow> if verified \<and> sg_SubjectDigest e = subject then Some e else None)"

definition durableMirrorSignatures :: "publication_codec \<Rightarrow> step_row \<Rightarrow> (string \<times> signature_identity) list option" where
  "durableMirrorSignatures codec s =
     (if bt_StepKey s = [] then Some []
      else if \<not> pb_HasSummary codec (bt_SummaryJSON s) then None
      else pb_MirrorImages codec (bt_SummaryJSON s))"

definition image_signature_bound ::
  "publication_codec \<Rightarrow> (string \<times> signature_identity) list \<Rightarrow> (string \<times> step_row) list \<Rightarrow> release_image \<Rightarrow> bool" where
  "image_signature_bound codec mirrors steps i \<longleftrightarrow>
     (case map_of mirrors (ri_ImageKey i) of
        Some m \<Rightarrow>
          if sg_RegistryTargetID m = ri_RegistryTargetID i then signature_matches m i
          else (case durablePrimarySignature codec (step_at steps (''signature/'' @ ri_ImageKey i)) of
                  None \<Rightarrow> False | Some e \<Rightarrow> signature_matches e i)
      | None \<Rightarrow>
          (case durablePrimarySignature codec (step_at steps (''signature/'' @ ri_ImageKey i)) of
             None \<Rightarrow> False | Some e \<Rightarrow> signature_matches e i))"

definition bound_to_step :: "(string \<times> step_row) list \<Rightarrow> string \<Rightarrow> string \<Rightarrow> bool" where
  "bound_to_step steps key digest \<longleftrightarrow>
     (case map_of steps key of None \<Rightarrow> False | Some s \<Rightarrow> bt_OutputDigest s = digest)"

definition image_evidence_bound :: "publication_codec \<Rightarrow> (string \<times> step_row) list \<Rightarrow> release_image \<Rightarrow> bool" where
  "image_evidence_bound codec steps i \<longleftrightarrow>
     list_all (\<lambda>(prefix, digest). bound_to_step steps (prefix @ ri_ImageKey i) digest)
       [(''image-manifest/'', ri_Digest i), (''candidate-publish/'', ri_Digest i),
        (''published-verify/'', ri_Digest i), (''sbom/'', ri_SBOMDigest i),
        (''provenance/'', ri_ProvenanceDigest i)] \<and>
     (case pb_Platforms codec (ri_PlatformDigests i) of
        None \<Rightarrow> False
      | Some ps \<Rightarrow> list_all (\<lambda>(p, d). bound_to_step steps (build_key (ri_ImageKey i) p) d) ps)"

text \<open>The map of images by key holds the last image of a key; images of one key agree on the digest.\<close>

definition last_images :: "release_image list \<Rightarrow> release_image list" where
  "last_images images = map snd (fold (\<lambda>i m. (ri_ImageKey i, i) # filter (\<lambda>(k, _). k \<noteq> ri_ImageKey i) m) images [])"

definition same_digests :: "release_image list \<Rightarrow> bool" where
  "same_digests images \<longleftrightarrow>
     list_all (\<lambda>i. list_all (\<lambda>j. ri_ImageKey i = ri_ImageKey j \<longrightarrow> ri_Digest i = ri_Digest j) images) images"

definition requiredPublicationArtifactSteps :: "string list" where
  "requiredPublicationArtifactSteps =
     [''aggregate-sbom'', ''finding-regression'', ''mirror-copy-verify'', ''compose-integration'',
      ''compose-scanner-integration'', ''kubernetes-integration'', ''kind-scanner-integration'',
      ''release-manifest'', ''release-manifest-signature'', ''mirror-release-closure-verify'',
      ''policy-decision-artifact'']"

text \<open>A later artifact of a type replaces an earlier one.\<close>

definition artifact_bound :: "publication_codec \<Rightarrow> receipt \<Rightarrow> (string \<times> step_row) list \<Rightarrow> string \<Rightarrow> bool" where
  "artifact_bound codec r steps key \<longleftrightarrow>
     (case first_by rf_ArtifactType (rev (rc_Artifacts r)) key of
        None \<Rightarrow> False
      | Some a \<Rightarrow>
          rf_Digest a = bt_OutputDigest (step_at steps key) \<and> rf_URI a = bt_OutputURI (step_at steps key) \<and>
          (case pb_UriScheme codec (rf_URI a) of None \<Rightarrow> False | Some scheme \<Rightarrow> scheme \<noteq> []))"

definition verifyReceiptAgainstDurableEvidence ::
  "publication_codec \<Rightarrow> receipt \<Rightarrow> (string \<times> step_row) list \<Rightarrow> bool" where
  "verifyReceiptAgainstDurableEvidence codec r steps \<longleftrightarrow>
     rc_ManifestDigest r = bt_OutputDigest (step_at steps ''release-manifest'') \<and>
     rc_ManifestURI r = bt_OutputURI (step_at steps ''release-manifest'') \<and>
     (case durableMirrorSignatures codec (step_at steps ''mirror-copy-verify'') of
        None \<Rightarrow> False
      | Some mirrors \<Rightarrow> list_all (image_signature_bound codec mirrors steps) (rc_Images r)) \<and>
     same_digests (rc_Images r) \<and> list_all (image_evidence_bound codec steps) (last_images (rc_Images r)) \<and>
     list_all (artifact_bound codec r steps) requiredPublicationArtifactSteps"

section \<open>The verifier\<close>

definition receipt_bound :: "candidate_row \<Rightarrow> build_row \<Rightarrow> receipt \<Rightarrow> bool" where
  "receipt_bound c b r \<longleftrightarrow>
     rc_SchemaVersion r = PublicationReceiptSchema \<and> rc_CandidateID r = ct_ID c \<and> rc_BuildRunID r = br_ID b \<and>
     rc_DefinitionCommit r = EffectiveDefinitionCommit c \<and> rc_LockDigest r = ct_LockDigest c \<and>
     rc_PolicyID r = ct_PolicyID c \<and> rc_PolicyRevision r = ct_PolicyRevision c \<and>
     rc_PolicyDecisionDigest r = ct_PolicyDecision c"

definition verifyBuild ::
  "publication_codec \<Rightarrow> candidate_row \<Rightarrow> string \<Rightarrow> supply_db \<Rightarrow> build_row \<Rightarrow> receipt option" where
  "verifyBuild codec c expectedDigest db b =
     (case expectedPublicationPlan codec b of
        None \<Rightarrow> None
      | Some expected \<Rightarrow>
          let latest = latest_steps (ListBuildSteps (br_ID b) db);
              final = step_at latest ''candidate-evidence-summary'' in
          if length latest \<noteq> length expected \<or> \<not> list_all (step_evidence_ok codec c latest) expected \<or>
             map_of latest ''candidate-evidence-summary'' = None \<or> bt_OutputDigest final \<noteq> expectedDigest
          then None
          else case pb_Receipt codec (bt_SummaryJSON final) of
            None \<Rightarrow> None
          | Some r \<Rightarrow>
              if PublicationReceiptDigest codec r = Some expectedDigest \<and> receipt_bound c b r \<and>
                 validatePublication codec c [] r \<and> verifyReceiptAgainstDurableEvidence codec r latest
              then Some r else None)"

text \<open>The first build, from the latest attempt on, whose receipt verifies.\<close>

fun first_verified :: "(build_row \<Rightarrow> receipt option) \<Rightarrow> build_row list \<Rightarrow> receipt option" where
  "first_verified check [] = None"
| "first_verified check (b # bs) =
     (case (if br_State b = BuildCompleted then check b else None) of
        None \<Rightarrow> first_verified check bs
      | Some r \<Rightarrow> Some r)"

definition VerifyPublication ::
  "publication_codec \<Rightarrow> supply_db \<Rightarrow> candidate_row \<Rightarrow> string \<Rightarrow> receipt option" where
  "VerifyPublication codec db c expectedDigest =
     (if \<not> digestPattern expectedDigest then None
      else first_verified (verifyBuild codec c expectedDigest db) (ListBuildRuns (ct_ID c) db))"

text \<open>The verifier that \<open>ApproveCandidate\<close> uses when the service has none of its own.\<close>

definition DurablePublicationVerifier :: "publication_codec \<Rightarrow> verifier" where
  "DurablePublicationVerifier codec db c expectedDigest =
     map_option (\<lambda>_. expectedDigest) (VerifyPublication codec db c expectedDigest)"

end
