(* ===== verification/ReleaseCatalog.thy ===== *)
theory ReleaseCatalog
  imports Publication
begin

text \<open>
  The releases of the durable store (\<open>internal/db/scannerrelease_repository.go\<close>, the section on releases
  and immutable evidence) and the publication of a candidate (\<open>PublishCandidate\<close> of
  \<open>internal/scannercontrol/service.go\<close>): names reserved from weekly counters, the inventory written with
  the release, and the transaction that turns an approved candidate into a published one.
\<close>

section \<open>Tables\<close>

record published_row =
  pu_ID :: string
  pu_Name :: string
  pu_CandidateID :: string
  pu_LockDigest :: string
  pu_ManifestDigest :: string
  pu_ManifestURI :: string
  pu_State :: release_state
  pu_SignerIdentity :: string
  pu_PolicyID :: string
  pu_PolicyRevision :: int
  pu_DefinitionCommit :: string
  pu_Imported :: bool
  pu_Legacy :: bool
  pu_Protected :: bool
  pu_RollbackEligible :: bool
  pu_RetentionClass :: string
  pu_RetainUntil :: "go_time option"
  pu_Version :: int
  pu_PublishedAt :: go_time
  pu_DeprecatedAt :: "go_time option"
  pu_RevokedAt :: "go_time option"
  pu_CreatedAt :: go_time
  pu_UpdatedAt :: go_time

record inventory =
  iv_Release :: published_row
  iv_Tools :: "release_tool list"
  iv_Images :: "release_image list"
  iv_Artifacts :: "release_artifact list"

record name_row =
  nm_CandidateID :: string
  nm_Period :: string
  nm_Sequence :: int
  nm_Name :: string

record counter_row =
  kc_Period :: string
  kc_Next :: int

text \<open>The catalog next to the candidates; \<open>kt_Targets\<close> are the identifiers of the registry targets.\<close>

record catalog_db =
  kt_Supply :: supply_db
  kt_Releases :: "published_row list"
  kt_Tools :: "release_tool list"
  kt_Images :: "release_image list"
  kt_Artifacts :: "release_artifact list"
  kt_Counters :: "counter_row list"
  kt_Names :: "name_row list"
  kt_Targets :: "string list"

fun release_state_string :: "release_state \<Rightarrow> string" where
  "release_state_string ReleasePublished = ''published''"
| "release_state_string ReleaseCandidateChannel = ''candidate_channel''"
| "release_state_string ReleaseCanary = ''canary''"
| "release_state_string ReleaseStable = ''stable''"
| "release_state_string ReleaseDeprecated = ''deprecated''"
| "release_state_string ReleaseRevoked = ''revoked''"
| "release_state_string (ReleaseOther x) = x"

fun known_release :: "release_state \<Rightarrow> bool" where
  "known_release (ReleaseOther _) \<longleftrightarrow> False"
| "known_release _ \<longleftrightarrow> True"

definition release_constraints :: "catalog_db \<Rightarrow> bool" where
  "release_constraints db \<longleftrightarrow>
     (let rows = kt_Releases db; sup = kt_Supply db in
      distinct (map pu_ID rows) \<and> distinct (map pu_Name rows) \<and> distinct (map pu_CandidateID rows) \<and>
      distinct (map pu_ManifestDigest rows) \<and>
      list_all (\<lambda>r. known_release (pu_State r) \<and>
        contains_elem (map ct_ID (sd_Candidates sup)) (pu_CandidateID r) \<and>
        contains_elem (map pl_ID (sd_Policies sup)) (pu_PolicyID r)) rows)"

definition inventory_constraints :: "catalog_db \<Rightarrow> bool" where
  "inventory_constraints db \<longleftrightarrow>
     (let ids = map pu_ID (kt_Releases db) in
      distinct (map tl_ID (kt_Tools db)) \<and> distinct (map (\<lambda>t. (tl_ReleaseID t, tl_ToolKey t)) (kt_Tools db)) \<and>
      list_all (\<lambda>t. contains_elem ids (tl_ReleaseID t)) (kt_Tools db) \<and>
      distinct (map ri_ID (kt_Images db)) \<and>
      distinct (map (\<lambda>i. (ri_ReleaseID i, ri_ImageKey i, ri_RegistryTargetID i)) (kt_Images db)) \<and>
      list_all (\<lambda>i. contains_elem ids (ri_ReleaseID i) \<and> contains_elem (kt_Targets db) (ri_RegistryTargetID i) \<and>
                    0 \<le> ri_SizeBytes i) (kt_Images db) \<and>
      distinct (map rf_ID (kt_Artifacts db)) \<and>
      list_all (\<lambda>a. null_or_in ids (rf_ReleaseID a) \<and>
                    null_or_in (map ct_ID (sd_Candidates (kt_Supply db))) (rf_CandidateID a) \<and>
                    (rf_ReleaseID a \<noteq> [] \<or> rf_CandidateID a \<noteq> []) \<and> 0 \<le> rf_SizeBytes a) (kt_Artifacts db))"

text \<open>The counters are \<open>INTEGER\<close> columns of 32 bits.\<close>

definition max_int4 :: int where
  "max_int4 = 2147483647"

definition name_constraints :: "catalog_db \<Rightarrow> bool" where
  "name_constraints db \<longleftrightarrow>
     distinct (map kc_Period (kt_Counters db)) \<and>
     list_all (\<lambda>c. 1 \<le> kc_Next c \<and> kc_Next c \<le> max_int4) (kt_Counters db) \<and>
     distinct (map nm_CandidateID (kt_Names db)) \<and> distinct (map nm_Name (kt_Names db)) \<and>
     distinct (map (\<lambda>n. (nm_Period n, nm_Sequence n)) (kt_Names db)) \<and>
     list_all (\<lambda>n. 1 \<le> nm_Sequence n \<and> nm_Sequence n \<le> max_int4 \<and>
                   contains_elem (map ct_ID (sd_Candidates (kt_Supply db))) (nm_CandidateID n)) (kt_Names db)"

definition catalog_constraints :: "catalog_db \<Rightarrow> bool" where
  "catalog_constraints db \<longleftrightarrow>
     supply_constraints (kt_Supply db) \<and> release_constraints db \<and> inventory_constraints db \<and> name_constraints db"

definition kt_checked :: "catalog_db \<Rightarrow> store_error + catalog_db" where
  "kt_checked db = (if catalog_constraints db then Inr db else Inl ConstraintViolation)"

type_synonym 'a ktx = "catalog_db \<Rightarrow> store_error + 'a \<times> catalog_db"

definition with_supply :: "(supply_db \<Rightarrow> store_error + supply_db) \<Rightarrow> catalog_db \<Rightarrow> store_error + catalog_db" where
  "with_supply f db = and_then (f (kt_Supply db)) (\<lambda>s. Inr (db\<lparr>kt_Supply := s\<rparr>))"

section \<open>Names\<close>

text \<open>\<open>time.Time.ISOWeek\<close>: the zero time is a Monday, the first day of the year 1. The week of a day is
  the week of its Thursday.\<close>

definition year_and_day :: "int \<Rightarrow> int \<times> int" where
  "year_and_day d =
     (let n400 = d div 146097; r = d mod 146097;
          n100 = min (r div 36524) 3; r100 = r - n100 * 36524;
          n4 = r100 div 1461; r4 = r100 mod 1461;
          n1 = min (r4 div 365) 3
      in (400 * n400 + 100 * n100 + 4 * n4 + n1 + 1, r4 - 365 * n1))"

definition ISOWeek :: "go_time \<Rightarrow> int \<times> int" where
  "ISOWeek t =
     (let d = t div (24 * hour); thursday = d - d mod 7 + 3
      in case year_and_day thursday of (year, yday) \<Rightarrow> (year, yday div 7 + 1))"

definition period_key :: "int \<Rightarrow> int \<Rightarrow> string" where
  "period_key year week = pad4 year @ ''.'' @ pad2 week"

definition parseScannerReleaseName :: "string \<Rightarrow> (string \<times> int) option" where
  "parseScannerReleaseName name =
     (if \<not> has_prefix name ''scanner-set-'' then None
      else case split_char CHR ''.'' (trim_prefix name ''scanner-set-'') of
        [y, w, s] \<Rightarrow>
          if length y \<noteq> 4 \<or> length w \<noteq> 2 then None
          else (case (parse_int64 y, parse_int64 w, parse_int64 s) of
                  (Some year, Some week, Some sequence) \<Rightarrow>
                    if year < 1 \<or> week < 1 \<or> 53 < week \<or> sequence < 1 then None
                    else Some (period_key year week, sequence)
                | _ \<Rightarrow> None)
      | _ \<Rightarrow> None)"

definition release_name :: "string \<Rightarrow> int \<Rightarrow> string" where
  "release_name period sequence = ''scanner-set-'' @ period @ ''.'' @ show_int sequence"

definition put_counter :: "string \<Rightarrow> int \<Rightarrow> catalog_db \<Rightarrow> catalog_db" where
  "put_counter period nextSequence db =
     db\<lparr>kt_Counters := (if contains_elem (map kc_Period (kt_Counters db)) period
        then map (\<lambda>c. if kc_Period c = period then c\<lparr>kc_Next := nextSequence\<rparr> else c) (kt_Counters db)
        else kt_Counters db @ [\<lparr>kc_Period = period, kc_Next = nextSequence\<rparr>])\<rparr>"

definition counter_at :: "catalog_db \<Rightarrow> string \<Rightarrow> int option" where
  "counter_at db period = map_option kc_Next (first_by kc_Period (kt_Counters db) period)"

definition insert_name :: "name_row \<Rightarrow> catalog_db \<Rightarrow> store_error + catalog_db" where
  "insert_name row db = kt_checked (db\<lparr>kt_Names := kt_Names db @ [row]\<rparr>)"

text \<open>A supplied name raises the counter of its period past its sequence.\<close>

definition reserve_supplied :: "published_row \<Rightarrow> catalog_db \<Rightarrow> store_error + string \<times> catalog_db" where
  "reserve_supplied r db =
     (case parseScannerReleaseName (pu_Name r) of
        None \<Rightarrow> Inl InvalidRequest
      | Some (period, sequence) \<Rightarrow>
          let wanted = wrap64 (sequence + 1);
              kept_next = (case counter_at db period of None \<Rightarrow> wanted | Some n \<Rightarrow> if n < wanted then wanted else n) in
          and_then (kt_checked (put_counter period kept_next db)) (\<lambda>db1.
          and_then (insert_name \<lparr>nm_CandidateID = pu_CandidateID r, nm_Period = period, nm_Sequence = sequence,
                                 nm_Name = pu_Name r\<rparr> db1) (\<lambda>db2. Inr (pu_Name r, db2))))"

text \<open>The next sequence of a period: \<open>RETURNING next_sequence - 1\<close>.\<close>

definition take_sequence :: "string \<Rightarrow> catalog_db \<Rightarrow> store_error + int \<times> catalog_db" where
  "take_sequence period db =
     (let raised = (case counter_at db period of None \<Rightarrow> 2 | Some n \<Rightarrow> n + 1) in
      and_then (kt_checked (put_counter period raised db)) (\<lambda>db1. Inr (raised - 1, db1)))"

text \<open>The loop that skips the names of releases from before the allocator. \<open>None\<close> is a loop that does
  not end.\<close>

partial_function (option) generate_name ::
  "string \<Rightarrow> catalog_db \<Rightarrow> (store_error + int \<times> catalog_db) option" where
  "generate_name period db =
     (case take_sequence period db of
        Inl e \<Rightarrow> Some (Inl e)
      | Inr (sequence, db1) \<Rightarrow>
          if contains_elem (map pu_Name (kt_Releases db1)) (release_name period sequence)
          then generate_name period db1 else Some (Inr (sequence, db1)))"

declare generate_name.simps [code]

definition reserve_generated :: "published_row \<Rightarrow> catalog_db \<Rightarrow> (store_error + string \<times> catalog_db) option" where
  "reserve_generated r db =
     (case ISOWeek (pu_PublishedAt r) of (year, week) \<Rightarrow>
        let period = period_key year week in
        map_option (\<lambda>answer. and_then answer (\<lambda>(sequence, db1).
          and_then (insert_name \<lparr>nm_CandidateID = pu_CandidateID r, nm_Period = period, nm_Sequence = sequence,
                                 nm_Name = release_name period sequence\<rparr> db1)
            (\<lambda>db2. Inr (release_name period sequence, db2)))) (generate_name period db))"

definition reserveReleaseNameTx :: "published_row \<Rightarrow> catalog_db \<Rightarrow> (store_error + string \<times> catalog_db) option" where
  "reserveReleaseNameTx r db =
     (case first_by nm_CandidateID (kt_Names db) (pu_CandidateID r) of
        Some existing \<Rightarrow>
          Some (if pu_Name r \<noteq> [] \<and> pu_Name r \<noteq> nm_Name existing then Inl IdempotencyConflict
                else Inr (nm_Name existing, db))
      | None \<Rightarrow> if pu_Name r \<noteq> [] then Some (reserve_supplied r db) else reserve_generated r db)"

section \<open>The inventory of a release\<close>

definition prepareReleaseInventory :: "string \<Rightarrow> go_time \<Rightarrow> published_row \<Rightarrow> published_row" where
  "prepareReleaseInventory uuid now r =
     (case initializeIDAndTimes uuid now (pu_ID r, pu_CreatedAt r, pu_UpdatedAt r) of
        (i, created, updated) \<Rightarrow>
          r\<lparr>pu_ID := i, pu_CreatedAt := created, pu_UpdatedAt := updated,
            pu_State := (if pu_State r = ReleaseOther [] then ReleasePublished else pu_State r),
            pu_Version := (if pu_Version r \<le> 0 then 1 else pu_Version r),
            pu_PublishedAt := (if is_zero_time (pu_PublishedAt r) then created else pu_PublishedAt r),
            pu_RetentionClass := (if pu_RetentionClass r = [] then ''release'' else pu_RetentionClass r)\<rparr>)"

definition same_release :: "published_row \<Rightarrow> published_row \<Rightarrow> bool" where
  "same_release x r \<longleftrightarrow>
     pu_Name x = pu_Name r \<and> pu_LockDigest x = pu_LockDigest r \<and> pu_ManifestDigest x = pu_ManifestDigest r \<and>
     pu_ManifestURI x = pu_ManifestURI r \<and> pu_SignerIdentity x = pu_SignerIdentity r \<and>
     pu_PolicyID x = pu_PolicyID r \<and> pu_PolicyRevision x = pu_PolicyRevision r \<and>
     pu_DefinitionCommit x = pu_DefinitionCommit r"

definition prepare_tool :: "published_row \<Rightarrow> string \<Rightarrow> release_tool \<Rightarrow> release_tool" where
  "prepare_tool r uuid t =
     t\<lparr>tl_ID := (if tl_ID t = [] then uuid else tl_ID t), tl_ReleaseID := pu_ID r,
       tl_CreatedAt := (if is_zero_time (tl_CreatedAt t) then pu_CreatedAt r else tl_CreatedAt t),
       tl_MetadataJSON := jsonDefault (tl_MetadataJSON t) ''{}''\<rparr>"

definition prepare_image :: "published_row \<Rightarrow> string \<Rightarrow> release_image \<Rightarrow> release_image" where
  "prepare_image r uuid i =
     i\<lparr>ri_ID := (if ri_ID i = [] then uuid else ri_ID i), ri_ReleaseID := pu_ID r,
       ri_CreatedAt := (if is_zero_time (ri_CreatedAt i) then pu_CreatedAt r else ri_CreatedAt i),
       ri_PlatformDigests := jsonDefault (ri_PlatformDigests i) ''{}'', ri_ImageKind := NormalizedImageKind i\<rparr>"

definition prepare_artifact :: "published_row \<Rightarrow> string \<Rightarrow> release_artifact \<Rightarrow> release_artifact" where
  "prepare_artifact r uuid a =
     a\<lparr>rf_ID := (if rf_ID a = [] then uuid else rf_ID a), rf_ReleaseID := pu_ID r,
       rf_CreatedAt := (if is_zero_time (rf_CreatedAt a) then pu_CreatedAt r else rf_CreatedAt a),
       rf_RetentionClass := (if rf_RetentionClass a = [] then ''evidence'' else rf_RetentionClass a)\<rparr>"

definition deletion_free :: "catalog_db \<Rightarrow> string list \<Rightarrow> bool" where
  "deletion_free db digests \<longleftrightarrow>
     list_all (\<lambda>d. rejectQuarantineDeletionReferenceTx d (kt_Supply db) = Inr ()) digests"

text \<open>Whether the release is new, and the release as it is stored.\<close>

definition insertReleaseInventoryTx ::
  "(nat \<Rightarrow> string) \<Rightarrow> inventory \<Rightarrow> command \<Rightarrow> (bool \<times> published_row) ktx" where
  "insertReleaseInventoryTx uuids stock cmd db =
     (let r = iv_Release stock; nt = length (iv_Tools stock); ni = length (iv_Images stock);
          tools = map (\<lambda>(k, t). prepare_tool r (uuids (k + 2)) t) (enumerate 0 (iv_Tools stock));
          images = map (\<lambda>(k, i). prepare_image r (uuids (k + 2 + nt)) i) (enumerate 0 (iv_Images stock));
          artifacts = map (\<lambda>(k, a). prepare_artifact r (uuids (k + 2 + nt + ni)) a) (enumerate 0 (iv_Artifacts stock)) in
      if \<not> deletion_free db [pu_ManifestDigest r, pu_LockDigest r] then Inl VersionConflict
      else case first_by pu_CandidateID (kt_Releases db) (pu_CandidateID r) of
        Some existing \<Rightarrow> if same_release existing r then Inr ((False, existing), db) else Inl IdempotencyConflict
      | None \<Rightarrow>
          and_then (kt_checked (db\<lparr>kt_Releases := kt_Releases db @ [r],
             kt_Supply := (kt_Supply db)\<lparr>sd_ReleaseIDs := sd_ReleaseIDs (kt_Supply db) @ [pu_ID r]\<rparr>\<rparr>)) (\<lambda>db1.
          and_then (kt_checked (db1\<lparr>kt_Tools := kt_Tools db1 @ tools\<rparr>)) (\<lambda>db2.
          if list_ex (\<lambda>i. contains_elem (sd_Deleting (kt_Supply db2)) (ri_Digest i)) images then Inl VersionConflict
          else
          and_then (kt_checked (db2\<lparr>kt_Images := kt_Images db2 @ images\<rparr>)) (\<lambda>db3.
          if \<not> deletion_free db3 (map rf_Digest artifacts) then Inl VersionConflict
          else
          and_then (kt_checked (db3\<lparr>kt_Artifacts := kt_Artifacts db3 @ artifacts\<rparr>)) (\<lambda>db4.
          and_then (with_supply (append_event (uuids 1) ''release'' (pu_ID r) ''release.published'' []
             (release_state_string (pu_State r)) cmd (pu_PublishedAt r)) db4) (\<lambda>db5.
          Inr ((True, r), db5)))))))"

definition CreateRelease ::
  "(nat \<Rightarrow> string) \<Rightarrow> go_time \<Rightarrow> inventory \<Rightarrow> command \<Rightarrow> (bool \<times> published_row) ktx" where
  "CreateRelease uuids now stock cmd =
     insertReleaseInventoryTx uuids (stock\<lparr>iv_Release := prepareReleaseInventory (uuids 0) now (iv_Release stock)\<rparr>) cmd"

section \<open>The publication transaction\<close>

definition with_key :: "command \<Rightarrow> string \<Rightarrow> command" where
  "with_key cmd suffix = cmd\<lparr>cmd_IdempotencyKey := cmd_IdempotencyKey cmd @ suffix\<rparr>"

text \<open>One move of the candidate inside the transaction: the row at its version, and the event.\<close>

definition move_candidate ::
  "string \<Rightarrow> go_time \<Rightarrow> string \<Rightarrow> int \<Rightarrow> candidate_state \<Rightarrow> candidate_state \<Rightarrow> command
     \<Rightarrow> catalog_db \<Rightarrow> store_error + catalog_db" where
  "move_candidate uuid now i version current to cmd db =
     (if ValidateCandidateTransition current to \<noteq> None then Inl InvalidTransitionErr
      else
        with_supply (\<lambda>s.
          and_then (sd_checked (s\<lparr>sd_Candidates := update_where (\<lambda>c. ct_ID c = i \<and> ct_Version c = version)
             (candidate_columns to now) (sd_Candidates s)\<rparr>))
          (append_event uuid ''candidate'' i (''candidate.'' @ candidate_state_string to)
             (candidate_state_string current) (candidate_state_string to) cmd now)) db)"

definition publication_payload :: "string \<Rightarrow> string" where
  "publication_payload releaseID = ''{\"release_id\":\"'' @ releaseID @ ''\"}''"

text \<open>The part after the candidate is \<open>publishing\<close>.\<close>

definition finish_publication ::
  "(nat \<Rightarrow> string) \<Rightarrow> go_time \<Rightarrow> string \<Rightarrow> int \<Rightarrow> inventory \<Rightarrow> command \<Rightarrow> catalog_db
     \<Rightarrow> (store_error + published_row \<times> catalog_db) option" where
  "finish_publication uuids now candidateID version stock cmd db =
     map_option (\<lambda>reserved. and_then reserved (\<lambda>(name, db1).
       and_then (insertReleaseInventoryTx (\<lambda>k. uuids (k + 3))
           (stock\<lparr>iv_Release := (iv_Release stock)\<lparr>pu_Name := name\<rparr>\<rparr>) (with_key cmd ''/release'') db1)
         (\<lambda>((_, r), db2).
       and_then (move_candidate (uuids 2) now candidateID version CandidatePublishing CandidatePublished
           ((with_key cmd ''/published'')\<lparr>cmd_PayloadJSON := publication_payload (pu_ID r)\<rparr>) db2)
         (\<lambda>db3. Inr (r, db3))))) (reserveReleaseNameTx (iv_Release stock) db)"

definition CommitCandidatePublication ::
  "(nat \<Rightarrow> string) \<Rightarrow> go_time \<Rightarrow> string \<Rightarrow> int \<Rightarrow> inventory \<Rightarrow> command \<Rightarrow> catalog_db
     \<Rightarrow> (store_error + published_row \<times> catalog_db) option" where
  "CommitCandidatePublication uuids now candidateID expectedVersion given cmd db =
     (if candidateID = [] \<or> pu_CandidateID (iv_Release given) \<noteq> candidateID then Some (Inl IdempotencyConflict)
      else
        let stock = given\<lparr>iv_Release := prepareReleaseInventory (uuids 0) now (iv_Release given)\<rparr> in
        case first_by ct_ID (sd_Candidates (kt_Supply db)) candidateID of
          None \<Rightarrow> Some (Inl NotFound)
        | Some current \<Rightarrow>
            if ct_State current = CandidatePublished
            then Some (case first_by pu_CandidateID (kt_Releases db) candidateID of
                   None \<Rightarrow> Inl NotFound
                 | Some existing \<Rightarrow>
                     if pu_ManifestDigest existing \<noteq> pu_ManifestDigest (iv_Release stock) \<or>
                        pu_Name existing \<noteq> pu_Name (iv_Release stock)
                     then Inl IdempotencyConflict else Inr (existing, db))
            else if ct_State current = CandidatePublishing
            then finish_publication uuids now candidateID (ct_Version current) stock cmd db
            else if ct_State current \<noteq> CandidateApproved then Some (Inl InvalidRequest)
            else if ct_Version current \<noteq> expectedVersion then Some (Inl VersionConflict)
            else case move_candidate (uuids 1) now candidateID (ct_Version current) CandidateApproved
                        CandidatePublishing (with_key cmd ''/publishing'') db of
                   Inl e \<Rightarrow> Some (Inl e)
                 | Inr db1 \<Rightarrow> finish_publication uuids now candidateID (ct_Version current + 1) stock cmd db1)"

section \<open>The publication command\<close>

record publication_command =
  pm_CandidateID :: string
  pm_Name :: string
  pm_ReceiptDigest :: string
  pm_Actor :: string
  pm_Reason :: string
  pm_IdempotencyKey :: string

definition bound_approval :: "candidate_row \<Rightarrow> string \<Rightarrow> approval_row list \<Rightarrow> bool" where
  "bound_approval c digest approvals \<longleftrightarrow>
     list_ex (\<lambda>a. ar_Action a = ''approve'' \<and> ar_PolicyDecision a = ct_PolicyDecision c \<and>
                  ar_EvidenceDigest a = digest) approvals"

text \<open>Everything before the transaction: the candidate and the receipt that may be published.\<close>

definition publication_gate ::
  "supply_env \<Rightarrow> publication_codec \<Rightarrow> (supply_db \<Rightarrow> candidate_row \<Rightarrow> string \<Rightarrow> receipt option) \<Rightarrow> publication_command
     \<Rightarrow> ('r, control_error, candidate_row \<times> receipt) act" where
  "publication_gate env codec verify cmd =
     (if pm_CandidateID cmd = [] \<or> pm_ReceiptDigest cmd = [] \<or> pm_Actor cmd = [] \<or> pm_Reason cmd = [] \<or>
         pm_IdempotencyKey cmd = []
      then act_fail (ErrValidation ''publication'')
      else
        act_bind (call_read env ControlCall (GetCandidate (pm_CandidateID cmd))) (\<lambda>c.
        if \<not> contains_elem [CandidateApproved, CandidatePublishing, CandidatePublished] (ct_State c)
        then act_fail (ErrCandidateNotReady (ct_State c))
        else
          act_bind (call_read env ControlCall (\<lambda>db. Inr (verify db c (pm_ReceiptDigest cmd)))) (\<lambda>verified.
          case verified of
            None \<Rightarrow> act_fail (ErrValidation ''publication evidence'')
          | Some r \<Rightarrow>
              if \<not> validatePublication codec c (pm_Name cmd) r then act_fail (ErrValidation ''receipt'')
              else
                act_bind (listed_approvals env c) (\<lambda>approvals.
                if \<not> bound_approval c (pm_ReceiptDigest cmd) approvals then act_fail ErrApprovalStale
                else act_return (c, r)))))"

definition release_of :: "string \<Rightarrow> go_time \<Rightarrow> string \<Rightarrow> candidate_row \<Rightarrow> receipt \<Rightarrow> published_row" where
  "release_of uuid now name c r =
     \<lparr>pu_ID = uuid, pu_Name = name, pu_CandidateID = ct_ID c, pu_LockDigest = ct_LockDigest c,
      pu_ManifestDigest = rc_ManifestDigest r, pu_ManifestURI = rc_ManifestURI r, pu_State = ReleasePublished,
      pu_SignerIdentity = rc_SignerIdentity r, pu_PolicyID = ct_PolicyID c,
      pu_PolicyRevision = ct_PolicyRevision c, pu_DefinitionCommit = EffectiveDefinitionCommit c,
      pu_Imported = False, pu_Legacy = False, pu_Protected = True, pu_RollbackEligible = True,
      pu_RetentionClass = ''published'', pu_RetainUntil = None, pu_Version = 0, pu_PublishedAt = now,
      pu_DeprecatedAt = None, pu_RevokedAt = None, pu_CreatedAt = now, pu_UpdatedAt = now\<rparr>"

text \<open>The command on the catalog. Other transactions come between its calls before the commit.\<close>

definition PublishCandidate ::
  "supply_env \<Rightarrow> publication_codec \<Rightarrow> (supply_db \<Rightarrow> candidate_row \<Rightarrow> string \<Rightarrow> receipt option) \<Rightarrow> publication_command
     \<Rightarrow> catalog_db \<Rightarrow> (control_error + published_row) option \<times> catalog_db" where
  "PublishCandidate env codec verify cmd db =
     (case publication_gate env codec verify cmd
             (\<lparr>sw_DB = kt_Supply db, sw_Calls = 0, sw_Trace = []\<rparr> :: unit supply_world) of
        (Inl e, w) \<Rightarrow> (Some (Inl e), db\<lparr>kt_Supply := sw_DB w\<rparr>)
      | (Inr (c, r), w) \<Rightarrow>
          let n = sw_Calls w; now = se_Now env n; db1 = db\<lparr>kt_Supply := sw_DB w\<rparr> in
          (case CommitCandidatePublication (se_Uuid env (Suc n)) (se_Now env (Suc n)) (ct_ID c) (ct_Version c)
                  \<lparr>iv_Release = release_of (se_Uuid env n 0) now (pm_Name cmd) c r, iv_Tools = rc_Tools r,
                   iv_Images = rc_Images r, iv_Artifacts = rc_Artifacts r\<rparr>
                  \<lparr>cmd_Actor = pm_Actor cmd, cmd_Reason = pm_Reason cmd,
                   cmd_PolicyRevision = ct_PolicyRevision c, cmd_IdempotencyKey = pm_IdempotencyKey cmd,
                   cmd_PayloadJSON = ''{}''\<rparr> db1 of
             None \<Rightarrow> (None, db1)
           | Some (Inl e) \<Rightarrow> (Some (Inl (ControlCall (CallFailed e))), db1)
           | Some (Inr (p, db2)) \<Rightarrow> (Some (Inr p), db2)))"

end
