(* ===== verification/ControlLaws.thy ===== *)
theory ControlLaws
  imports Publication
begin

text \<open>
  What the release commands guarantee: every command is a run of store transactions, so what SupplyLaws
  promises of the rows holds across it; an exception is bounded by the rules of the policy; a verified
  receipt is backed by a completed build with evidence for every step of the plan; and approvals are
  looked up under the wrong key, so none of them ever counts.
\<close>

section \<open>Results of programs\<close>

lemma act_bind_Inr:
  "act_bind m f w = (Inr b, w') \<longleftrightarrow> (\<exists>a w1. m w = (Inr a, w1) \<and> f a w1 = (Inr b, w'))"
  by (auto simp: act_bind_def split: prod.split sum.split)

lemma act_results:
  "act_return a w = (Inr b, w') \<longleftrightarrow> b = a \<and> w' = w"
  "act_fail e w = (Inr b, w') \<longleftrightarrow> False"
  "act_now env w = (Inr t, w') \<longleftrightarrow> t = se_Now env (sw_Calls w) \<and> w' = w\<lparr>sw_Calls := Suc (sw_Calls w)\<rparr>"
  "act_uuids env w = (Inr u, w') \<longleftrightarrow> u = se_Uuid env (sw_Calls w) \<and> w' = w\<lparr>sw_Calls := Suc (sw_Calls w)\<rparr>"
  by (auto simp: act_return_def act_fail_def act_now_def act_uuids_def)

text \<open>The database a call runs on: the other transactions before it are committed.\<close>

definition called_db :: "supply_env \<Rightarrow> 'r supply_world \<Rightarrow> supply_db" where
  "called_db env w = se_Others env (sw_Calls w) (sw_DB w)"

lemma call_store_Inr:
  fixes w :: "'r supply_world" and op :: "(nat \<Rightarrow> string) \<Rightarrow> go_time \<Rightarrow> supply_db \<Rightarrow> (store_error + 'a) \<times> supply_db"
    and wrap :: "call_error \<Rightarrow> 'e"
  assumes "(call_store env wrap op :: ('r, 'e, 'a) act) w = (Inr a, w')"
  shows "op (se_Uuid env (sw_Calls w)) (se_Now env (sw_Calls w)) (called_db env w) = (Inr a, sw_DB w')"
    and "sw_Calls w' = Suc (sw_Calls w)"
  using assms
  by (auto simp: call_store_def called_db_def Let_def split: call_fault.splits sum.splits prod.splits)
     (metis prod.collapse)+

lemma call_tx_Inr:
  fixes w :: "'r supply_world"
  assumes "(call_tx env wrap op :: ('r, 'e, 'a) act) w = (Inr a, w')"
  shows "op (se_Uuid env (sw_Calls w)) (se_Now env (sw_Calls w)) (called_db env w) = Inr (a, sw_DB w')"
  using call_store_Inr(1) [OF assms [unfolded call_tx_def]]
  by (auto simp: commit_or_roll_back_def split: sum.splits prod.splits)

lemma call_read_Inr:
  fixes w :: "'r supply_world"
  assumes "(call_read env wrap f :: ('r, 'e, 'a) act) w = (Inr a, w')"
  shows "f (called_db env w) = Inr a" "sw_DB w' = called_db env w" "sw_Calls w' = Suc (sw_Calls w)"
proof -
  have both: "f (called_db env w) = Inr a \<and> called_db env w = sw_DB w'"
    using call_store_Inr(1) [OF assms [unfolded call_read_def]] unfolding prod.inject .
  have n: "sw_Calls w' = Suc (sw_Calls w)" by (rule call_store_Inr(2) [OF assms [unfolded call_read_def]])
  show "f (called_db env w) = Inr a" by (rule conjunct1 [OF both])
  show "sw_DB w' = called_db env w" by (rule conjunct2 [OF both, symmetric])
  show "sw_Calls w' = Suc (sw_Calls w)" by (rule n)
qed

lemma GetCandidate_Inr: "GetCandidate i db = Inr c \<longleftrightarrow> first_by ct_ID (sd_Candidates db) i = Some c"
  by (simp add: GetCandidate_def split: option.split)

lemma candidate_rules_Inr:
  fixes w :: "'r supply_world"
  assumes "(candidate_rules env codec c :: ('r, control_error, policy) act) w = (Inr rules, w')"
  shows "\<exists>p. GetPolicy (ct_PolicyID c) (sw_DB w') = Inr p \<and> policy_rules codec p = Some rules"
    and "sw_DB w' = called_db env w"
proof -
  obtain p w1 where p: "(call_read env ControlCall (GetPolicy (ct_PolicyID c)) :: ('r, control_error, policy_row) act) w
      = (Inr p, w1)" and rules: "policy_rules codec p = Some rules" "w' = w1"
    using assms by (auto simp: candidate_rules_def act_bind_Inr act_results split: option.splits)
  show "\<exists>p. GetPolicy (ct_PolicyID c) (sw_DB w') = Inr p \<and> policy_rules codec p = Some rules"
    using call_read_Inr [OF p] rules by auto
  show "sw_DB w' = called_db env w" using call_read_Inr(2) [OF p] rules(2) by simp
qed

section \<open>Commands are runs of transactions\<close>

lemma steps_once: "supply_step db db' \<Longrightarrow> supply_step\<^sup>*\<^sup>* db db'"
  by (rule r_into_rtranclp)

lemma runs_approval: "honest env \<Longrightarrow> run_of_steps (call_tx env wrap (\<lambda>fresh now. AddApproval (fresh 0) now a))"
  by (rule runs_tx) (auto intro: steps_once step_approval)

lemma runs_transition [runs]: "honest env \<Longrightarrow> run_of_steps (transition_candidate env c to cmd)"
  unfolding transition_candidate_def by (rule runs_store) (auto intro: transitions_run)

lemma runs_candidate_rules [runs]: "honest env \<Longrightarrow> run_of_steps (candidate_rules env codec c)"
  unfolding candidate_rules_def by (intro runs)

lemma runs_listed [runs]: "honest env \<Longrightarrow> run_of_steps (listed_approvals env c)"
  unfolding listed_approvals_def by (intro runs)

lemma runs_enqueue: "honest env \<Longrightarrow> run_of_steps (EnqueueCandidateBuildPlanAttempt env codec c given attempt)"
  unfolding EnqueueCandidateBuildPlanAttempt_def
  by (intro runs runs_tx) (auto intro: steps_once step_plan)

lemma runs_cancel_builds: "honest env \<Longrightarrow> run_of_steps (cancel_builds env c rq now n bs)"
  by (induction bs arbitrary: n) (auto intro!: runs runs_tx intro: steps_once step_cancel_build)

text \<open>The release commands change the store by its transactions only: each of them (approve, reject,
  except, retry, cancel, enqueue), wherever it fails and whatever other processes commit in between,
  leads from a database to one that a run of store transactions reaches. So every promise on the rows
  (versions that fence, cancellations that stick) holds across a command.\<close>

theorem commands_refine_store:
  assumes "honest env"
  shows "run_of_steps (ApproveCandidate env codec verify ac) \<and> run_of_steps (RejectCandidate env ac) \<and>
    run_of_steps (AddCandidateException env codec xc) \<and>
    run_of_steps (EnqueueCandidateBuildPlanAttempt env codec c images attempt) \<and>
    run_of_steps (ScannerSupplyChainRetryCandidate env codec rq) \<and>
    run_of_steps (ScannerSupplyChainCancelCandidate env rq)"
proof (intro conjI)
  show "run_of_steps (ApproveCandidate env codec verify ac)"
    unfolding ApproveCandidate_def by (intro runs runs_approval assms)
  show "run_of_steps (RejectCandidate env ac)"
    unfolding RejectCandidate_def by (intro runs runs_approval assms)
  show "run_of_steps (AddCandidateException env codec xc)"
    unfolding AddCandidateException_def by (intro runs runs_approval assms)
  show "run_of_steps (EnqueueCandidateBuildPlanAttempt env codec c images attempt)"
    by (rule runs_enqueue [OF assms])
  show "run_of_steps (ScannerSupplyChainRetryCandidate env codec rq)"
    unfolding ScannerSupplyChainRetryCandidate_def case_prod_unfold
    by (intro runs runs_enqueue runs_store transitions_run assms)
  show "run_of_steps (ScannerSupplyChainCancelCandidate env rq)"
    unfolding ScannerSupplyChainCancelCandidate_def
    by (intro runs runs_cancel_builds runs_store transitions_run assms)
qed

section \<open>Approvals\<close>

text \<open>No approval belongs to a candidate whose identifier is the word \<open>candidate\<close>.\<close>

definition unlisted :: "supply_db \<Rightarrow> bool" where
  "unlisted db \<longleftrightarrow> list_all (\<lambda>a. ar_CandidateID a \<noteq> ''candidate'') (sd_Approvals db)"

lemma unlisted_ListApprovals: "unlisted db \<Longrightarrow> ListApprovals ''candidate'' i db = []"
  by (auto simp: unlisted_def ListApprovals_def list_all_iff filter_empty_conv)

lemma unlisted_AddApproval:
  assumes "AddApproval uuid now a db = Inr (x, db')" "unlisted db" "ar_CandidateID a \<noteq> ''candidate''"
  shows "unlisted db'"
  using assms
  by (auto simp: AddApproval_def Let_def unlisted_def and_then_Inr sd_checked_Inr prepare_approval_def
      split: option.splits if_splits)

lemma listed_empty:
  fixes w :: "'r supply_world"
  assumes "(listed_approvals env c :: ('r, control_error, approval_row list) act) w = (Inr approvals, w')"
    and "unlisted (called_db env w)"
  shows "approvals = []" "sw_DB w' = called_db env w"
proof -
  note listed = assms(1) [unfolded listed_approvals_def]
  show "approvals = []" using call_read_Inr(1) [OF listed] unlisted_ListApprovals [OF assms(2)] by simp
  show "sw_DB w' = called_db env w" by (rule call_read_Inr(2) [OF listed])
qed

text \<open>C25: No approval ever counts: \<open>ApproveCandidate\<close> and \<open>PublishCandidate\<close> list the approvals of a
  candidate named \<open>candidate\<close>, because they pass an aggregate type where \<open>ListApprovals\<close> takes the
  candidate. With a policy that requires at least one approval, an accepted approval always leaves the
  candidate awaiting approval, whatever approvals are stored and whatever other processes commit (none
  of which stores one for a candidate of that name).\<close>

theorem approval_never_counts:
  fixes w :: "'r supply_world"
  assumes "(ApproveCandidate env codec verify cmd :: ('r, control_error, candidate_row) act) w = (Inr c, w')"
    and "\<And>p rules. policy_rules codec p = Some rules \<Longrightarrow> 1 \<le> po_RequiredApprovals rules"
    and "\<And>n db. unlisted db \<Longrightarrow> unlisted (se_Others env n db)"
    and "unlisted (sw_DB w)" "ac_CandidateID cmd \<noteq> ''candidate''"
  shows "ct_State c = CandidateAwaitingApproval"
proof -
  have quiet: "unlisted (called_db env x)" if "unlisted (sw_DB x)" for x :: "'r supply_world"
    using assms(3) [OF that] by (simp add: called_db_def)
  obtain c0 w1 v w2 uuids w3 x w4 rules w5 approvals w6 where
    get: "(call_read env ControlCall (GetCandidate (ac_CandidateID cmd)) :: ('r, control_error, candidate_row) act) w = (Inr c0, w1)"
    and state: "ct_State c0 = CandidateAwaitingApproval"
    and verified: "(call_read env ControlCall (\<lambda>db. Inr (verify db c0 (ac_EvidenceDigest cmd))) :: ('r, control_error, string option) act) w1 = (Inr v, w2)"
    and fresh: "(act_uuids env :: ('r, control_error, nat \<Rightarrow> string) act) w2 = (Inr uuids, w3)"
    and added: "(call_tx env ControlCall (\<lambda>fresh now. AddApproval (fresh 0) now
               (new_approval (uuids 0) (ct_ID c0) (ac_Actor cmd) ''approve'' (ac_Reason cmd)
                  (ac_EvidenceDigest cmd) (ac_PolicyDecisionDigest cmd) (ac_IdempotencyKey cmd))) :: ('r, control_error, approval_row) act) w3 = (Inr x, w4)"
    and rules: "(candidate_rules env codec c0 :: ('r, control_error, policy) act) w4 = (Inr rules, w5)"
    and listed: "(listed_approvals env c0 :: ('r, control_error, approval_row list) act) w5 = (Inr approvals, w6)"
    and last: "(if int (length (approving_actors rules c0 approvals)) < po_RequiredApprovals rules
            then act_return c0
            else transition_candidate env c0 CandidateApproved (control_transition c0 cmd)) w6 = (Inr c, w')"
    using assms(1) unfolding ApproveCandidate_def
    by (fastforce simp: act_bind_Inr act_results split: if_splits)
  have c0: "ct_ID c0 \<noteq> ''candidate''"
    using call_read_Inr(1) [OF get] assms(5) by (auto simp: GetCandidate_Inr dest: first_by_Some)
  have "unlisted (sw_DB w1)" using call_read_Inr(2) [OF get] quiet [OF assms(4)] by simp
  then have "unlisted (sw_DB w2)" using call_read_Inr(2) [OF verified] quiet [of w1] by simp
  then have "unlisted (sw_DB w3)" using fresh by (simp add: act_results)
  then have "unlisted (sw_DB w4)"
    using unlisted_AddApproval [OF call_tx_Inr [OF added] quiet] c0 by (simp add: new_approval_def)
  then have "unlisted (sw_DB w5)" using candidate_rules_Inr(2) [OF rules] quiet [of w4] by simp
  then have none: "approvals = []" by (rule listed_empty(1) [OF listed quiet])
  obtain p where "policy_rules codec p = Some rules" using candidate_rules_Inr(1) [OF rules] by blast
  then have "1 \<le> po_RequiredApprovals rules" by (rule assms(2))
  then show ?thesis using last none state by (simp add: approving_actors_def act_results)
qed

section \<open>Exceptions\<close>

lemma same_approval_fields:
  "same_approval x a \<Longrightarrow> ar_Action x = ar_Action a \<and> ar_Actor x = ar_Actor a \<and> ar_CandidateID x = ar_CandidateID a \<and>
     ar_ExceptionScope x = ar_ExceptionScope a \<and> ar_ExceptionOwner x = ar_ExceptionOwner a \<and>
     ar_ExpiresAt x = ar_ExpiresAt a"
  by (simp add: same_approval_def)

lemma AddApproval_Inr:
  assumes "AddApproval uuid now a db = Inr (x, db')"
  shows "x \<in> set (sd_Approvals db') \<and> same_approval x (prepare_approval uuid now a)"
  using assms
  by (auto simp: AddApproval_def Let_def and_then_Inr sd_checked_Inr same_approval_def
      split: option.splits if_splits dest: first_by_Some)

text \<open>C29: An accepted exception is bounded: the candidate is one that waits for its evidence or its
  approval, its creator did not record the exception and neither did the owner; the gate is required by
  the policy of the candidate, is not a hard gate, and the policy allows exceptions for it; and the
  exception ends within 90 days and within the maximum age of the policy.\<close>

theorem exception_is_bounded:
  fixes w :: "'r supply_world"
  assumes "(AddCandidateException env codec cmd :: ('r, control_error, approval_row) act) w = (Inr a, w')"
  shows "\<exists>db c p rules e. db = se_Others env (Suc (sw_Calls w)) (sw_DB w) \<and>
    GetCandidate (xc_CandidateID cmd) db = Inr c \<and> ar_CandidateID a = ct_ID c \<and>
    ct_State c \<in> {CandidateQueued, CandidateBuilding, CandidateBlocked, CandidateAwaitingApproval} \<and>
    GetPolicy (ct_PolicyID c) (se_Others env (Suc (Suc (sw_Calls w))) db) = Inr p \<and>
    policy_rules codec p = Some rules \<and>
    ar_Action a = ''exception'' \<and> a \<in> set (sd_Approvals (sw_DB w')) \<and>
    ar_Actor a \<noteq> ct_Actor c \<and> ar_Actor a \<noteq> ar_ExceptionOwner a \<and>
    ar_ExceptionScope a = trim_space (xc_Gate cmd) \<and> xc_Gate cmd \<in> set (po_RequiredGates rules) \<and>
    xc_Gate cmd \<notin> set nonBypassableGates \<and> allows_exception rules (xc_Gate cmd) \<and>
    ar_ExpiresAt a = Some e \<and> se_Now env (sw_Calls w) < e \<and> e \<le> se_Now env (sw_Calls w) + 90 * day \<and>
    e \<le> se_Now env (sw_Calls w) + po_ExceptionMaxAge rules"
proof -
  let ?now = "se_Now env (sw_Calls w)"
  obtain w1 c w2 rules w3 uuids w4 where
    w1: "w1 = w\<lparr>sw_Calls := Suc (sw_Calls w)\<rparr>" and checks: "exception_checks cmd ?now = None"
    and get: "(call_read env ControlCall (GetCandidate (xc_CandidateID cmd)) :: ('r, control_error, candidate_row) act) w1 = (Inr c, w2)"
    and state: "ct_State c \<in> set exception_states" "ct_Actor c \<noteq> xc_Actor cmd"
    and rules: "(candidate_rules env codec c :: ('r, control_error, policy) act) w2 = (Inr rules, w3)"
    and allowed: "exception_allowed rules cmd ?now = None"
    and added: "(call_tx env ControlCall (\<lambda>fresh t. AddApproval (fresh 0) t
             (exception_approval (uuids 0) c cmd ?now)) :: ('r, control_error, approval_row) act) w4 = (Inr a, w')"
    using assms unfolding AddCandidateException_def
    by (fastforce simp: act_bind_Inr act_results split: if_splits option.splits)
  obtain p where p: "GetPolicy (ct_PolicyID c) (sw_DB w3) = Inr p" "policy_rules codec p = Some rules"
    using candidate_rules_Inr(1) [OF rules] by blast
  have read: "called_db env w1 = se_Others env (Suc (sw_Calls w)) (sw_DB w)"
    "sw_DB w3 = se_Others env (Suc (Suc (sw_Calls w))) (called_db env w1)"
    using call_read_Inr(2,3) [OF get] candidate_rules_Inr(2) [OF rules] by (simp_all add: called_db_def w1)
  note stored = AddApproval_Inr [OF call_tx_Inr [OF added]]
  have fields: "ar_Action a = ''exception''" "ar_Actor a = xc_Actor cmd" "ar_CandidateID a = ct_ID c"
    "ar_ExceptionScope a = trim_space (xc_Gate cmd)" "ar_ExceptionOwner a = xc_OwnerID cmd"
    "ar_ExpiresAt a = Some (xc_ExpiresAt cmd)"
    using same_approval_fields [OF conjunct2 [OF stored]]
    by (auto simp: prepare_approval_def exception_approval_def Let_def)
  have limits: "?now < xc_ExpiresAt cmd" "xc_ExpiresAt cmd \<le> ?now + 90 * day" "xc_Actor cmd \<noteq> xc_OwnerID cmd"
    using checks by (auto simp: exception_checks_def split: if_splits)
  have gate: "xc_Gate cmd \<in> set (po_RequiredGates rules)" "xc_Gate cmd \<notin> set nonBypassableGates"
    "allows_exception rules (xc_Gate cmd)" "xc_ExpiresAt cmd \<le> ?now + po_ExceptionMaxAge rules"
    using allowed by (auto simp: exception_allowed_def ExceptionEligible_def split: if_splits)
  have "ct_State c \<in> {CandidateQueued, CandidateBuilding, CandidateBlocked, CandidateAwaitingApproval}"
    using state(1) by (simp add: exception_states_def)
  then show ?thesis
    using read(1) call_read_Inr(1) [OF get] p [unfolded read(2)] stored fields limits gate state(2)
    by (intro exI [of _ "called_db env w1"] exI [of _ c] exI [of _ p] exI [of _ rules]
        exI [of _ "xc_ExpiresAt cmd"]) metis
qed

section \<open>Verified publications\<close>

text \<open>The loop over the steps keeps the latest attempt of every key.\<close>

definition latest_of :: "step_row list \<Rightarrow> (string \<times> step_row) list \<Rightarrow> bool" where
  "latest_of steps latest \<longleftrightarrow>
     (\<forall>k s. map_of latest k = Some s \<longrightarrow>
        s \<in> set steps \<and> bt_StepKey s = k \<and> (\<forall>s' \<in> set steps. bt_StepKey s' = k \<longrightarrow> bt_Attempt s' \<le> bt_Attempt s)) \<and>
     (\<forall>s \<in> set steps. map_of latest (bt_StepKey s) \<noteq> None)"

lemma map_of_replace:
  "map_of (map (\<lambda>(k, x). (k, if k = key then s else x)) m) k =
     (if k = key then map_option (\<lambda>_. s) (map_of m k) else map_of m k)"
  by (induction m) auto

definition add_step :: "step_row \<Rightarrow> (string \<times> step_row) list \<Rightarrow> (string \<times> step_row) list" where
  "add_step s latest =
     (case map_of latest (bt_StepKey s) of
        None \<Rightarrow> (bt_StepKey s, s) # latest
      | Some current \<Rightarrow> if bt_Attempt current < bt_Attempt s
                        then map (\<lambda>(k, x). (k, if k = bt_StepKey s then s else x)) latest else latest)"

lemma map_of_add_step:
  "map_of (add_step s latest) k =
     (if k \<noteq> bt_StepKey s then map_of latest k
      else case map_of latest k of None \<Rightarrow> Some s
        | Some current \<Rightarrow> Some (if bt_Attempt current < bt_Attempt s then s else current))"
  by (simp add: add_step_def map_of_replace split: option.split)

lemma latest_of_add:
  assumes "latest_of ss latest"
  shows "latest_of (ss @ [s]) (add_step s latest)"
proof -
  have new: "map_of (add_step s latest) k \<noteq> None" if "k = bt_StepKey s \<or> map_of latest k \<noteq> None" for k
    using that by (auto simp: map_of_add_step split: option.split)
  have "x \<in> set (ss @ [s]) \<and> bt_StepKey x = k \<and>
      (\<forall>s' \<in> set (ss @ [s]). bt_StepKey s' = k \<longrightarrow> bt_Attempt s' \<le> bt_Attempt x)"
    if x: "map_of (add_step s latest) k = Some x" for k x
  proof (cases "k = bt_StepKey s")
    case False
    then show ?thesis using x assms by (auto simp: map_of_add_step latest_of_def)
  next
    case True
    show ?thesis
    proof (cases "map_of latest k")
      case None
      then have "\<forall>s' \<in> set ss. bt_StepKey s' \<noteq> k" using assms unfolding latest_of_def by metis
      then show ?thesis using x True None by (simp add: map_of_add_step)
    next
      case (Some c)
      then have c: "c \<in> set ss" "bt_StepKey c = k" "\<forall>s' \<in> set ss. bt_StepKey s' = k \<longrightarrow> bt_Attempt s' \<le> bt_Attempt c"
        using assms unfolding latest_of_def by blast+
      show ?thesis
      proof (cases "bt_Attempt c < bt_Attempt s")
        case later: True
        then have "x = s" using x True Some by (simp add: map_of_add_step)
        then show ?thesis using True c(3) later by (metis Un_iff dual_order.strict_implies_order empty_iff insert_iff
            list.set(1) list.simps(15) order_le_less_trans order_refl set_append)
      next
        case False
        then have "x = c" using x True Some by (simp add: map_of_add_step)
        then show ?thesis using c False by auto
      qed
    qed
  qed
  then show ?thesis using new assms unfolding latest_of_def by auto
qed

lemma latest_steps_of: "latest_of steps (latest_steps steps)"
proof (induction steps rule: rev_induct)
  case (snoc s ss)
  have "latest_steps (ss @ [s]) = add_step s (latest_steps ss)"
    by (simp add: latest_steps_def add_step_def)
  then show ?case using latest_of_add [OF snoc] by simp
qed (simp add: latest_steps_def latest_of_def)

lemma first_verified_Some: "first_verified check bs = Some r \<Longrightarrow> \<exists>b \<in> set bs. br_State b = BuildCompleted \<and> check b = Some r"
  by (induction bs) (auto split: option.splits if_splits)

lemma last_image_pair:
  "i \<in> set images \<Longrightarrow> \<exists>j. (ri_ImageKey i, j) \<in> set (fold (\<lambda>i m. (ri_ImageKey i, i) # filter (\<lambda>(k, _). k \<noteq> ri_ImageKey i) m) images [])
     \<and> ri_ImageKey j = ri_ImageKey i \<and> j \<in> set images"
proof (induction images rule: rev_induct)
  case (snoc x xs)
  show ?case
  proof (cases "ri_ImageKey i = ri_ImageKey x")
    case False
    then have "i \<in> set xs" using snoc.prems by auto
    then show ?thesis using snoc.IH False by auto
  qed auto
qed simp

lemma last_image:
  "i \<in> set images \<Longrightarrow> \<exists>j \<in> set (last_images images). ri_ImageKey j = ri_ImageKey i \<and> j \<in> set images"
  using last_image_pair [of i images] unfolding last_images_def by force

lemma bound_to_stepD:
  assumes "bound_to_step latest k d" "latest_of steps latest"
  shows "\<exists>s \<in> set steps. bt_StepKey s = k \<and> bt_OutputDigest s = d"
  using assms unfolding bound_to_step_def latest_of_def by (auto split: option.splits)

text \<open>Every image of a plan has a step for every piece of evidence.\<close>

lemma evidence_keys:
  "map st_Key (evidence_steps k builds) = map (\<lambda>e. e @ k) (publish_evidence @
     [''candidate-publish/'', ''signature/'', ''published-verify/''])"
  unfolding evidence_steps_def publish_evidence_def
  by (simp only: list.map append.simps requiredAfter_fields step_update_fields)

lemma plan_evidence:
  assumes "pipeline_default i = Inr p" "im \<in> set (in_Images i)" "e \<in> set publish_evidence"
  shows "e @ trim_space (im_Key im) \<in> st_Key ` set p"
proof -
  obtain images steps where r: "normalize_images [] (in_Images i) = Inr images" "all_image_steps images = Inr steps"
    and p: "p = source_steps @ steps @
       release_steps (in_RequireMirror i) (map (\<lambda>im. ''published-verify/'' @ im_Key im) images)"
    by (rule pipeline_default_result [OF assms(1)])
  obtain j where j: "j \<in> set images" "im_Key j = trim_space (im_Key im)"
    using normalize_images_result [OF r(1)] assms(2) by blast
  obtain builds where b: "set (builds @ evidence_steps (im_Key j) (map st_Key builds)) \<subseteq> set steps"
    using all_image_steps_result [OF r(2)] j(1) by blast
  have "e @ im_Key j \<in> set (map st_Key (evidence_steps (im_Key j) (map st_Key builds)))"
    unfolding evidence_keys using assms(3) by (simp only: set_map set_append image_Un) blast
  then show ?thesis using b by (auto simp: p j(2))
qed

lemma complete_image_keys:
  assumes "validateCompleteImageSet actual expected" "e \<in> set expected"
  shows "\<exists>a \<in> set actual. im_Key a = im_Key e"
proof -
  have "map_of (images_by_key actual) (im_Key e) \<noteq> None"
    using assms by (force simp: validateCompleteImageSet_def Let_def list_all_iff images_by_key_def split: option.splits)
  then show ?thesis by (auto simp: images_by_key_def map_of_eq_None_iff)
qed

lemma default_keys: "list_all (\<lambda>i. trim_space (im_Key i) = im_Key i) defaultImages"
  by code_simp

text \<open>A step of a build is done: its latest attempt completed with a digest, under the definitions, the lock
  and the policy of the candidate.\<close>

definition step_done :: "publication_codec \<Rightarrow> candidate_row \<Rightarrow> supply_db \<Rightarrow> string \<Rightarrow> string \<Rightarrow> bool" where
  "step_done codec c db run key \<longleftrightarrow>
     (\<exists>s \<in> set (sd_Steps db). bt_BuildRunID s = run \<and> bt_StepKey s = key \<and> bt_State s = BuildCompleted \<and>
        digestPattern (bt_OutputDigest s) \<and> verifyPersistedStepEvidence codec s c \<and>
        (\<forall>s' \<in> set (sd_Steps db). bt_BuildRunID s' = run \<and> bt_StepKey s' = key \<longrightarrow>
           bt_Attempt s' \<le> bt_Attempt s))"

lemma step_evidence_done:
  assumes "step_evidence_ok codec c (latest_steps (ListBuildSteps run db)) ps"
  shows "step_done codec c db run (st_Key ps)"
proof -
  obtain s where s: "map_of (latest_steps (ListBuildSteps run db)) (st_Key ps) = Some s"
    "bt_State s = BuildCompleted" "digestPattern (bt_OutputDigest s)" "verifyPersistedStepEvidence codec s c"
    using assms by (auto simp: step_evidence_ok_def split: option.splits)
  have "s \<in> set (ListBuildSteps run db) \<and> bt_StepKey s = st_Key ps \<and>
      (\<forall>s' \<in> set (ListBuildSteps run db). bt_StepKey s' = st_Key ps \<longrightarrow> bt_Attempt s' \<le> bt_Attempt s)"
    using latest_steps_of [of "ListBuildSteps run db"] s(1) unfolding latest_of_def by blast
  then have "s \<in> set (sd_Steps db)" "bt_BuildRunID s = run" "bt_StepKey s = st_Key ps"
    "\<forall>s' \<in> set (sd_Steps db). bt_BuildRunID s' = run \<and> bt_StepKey s' = st_Key ps \<longrightarrow> bt_Attempt s' \<le> bt_Attempt s"
    by (simp_all add: ListBuildSteps_def)
  then show ?thesis using s(2-4) unfolding step_done_def by blast
qed

lemma expected_plan_evidence:
  assumes "expectedPublicationPlan codec b = Some plan" "im \<in> set defaultImages" "e \<in> set publish_evidence"
  shows "e @ im_Key im \<in> st_Key ` set plan"
proof -
  obtain images where images: "validateCompleteImageSet images defaultImages"
    "pipeline_default \<lparr>in_Images = images, in_RequireCompose = True, in_RequireKubernetes = True,
       in_RequireMirror = True\<rparr> = Inr plan"
    using assms(1) by (auto simp: expectedPublicationPlan_def split: if_splits option.splits sum.splits)
  obtain a where a: "a \<in> set images" "im_Key a = im_Key im" using complete_image_keys [OF images(1) assms(2)] by blast
  have "trim_space (im_Key im) = im_Key im" using default_keys assms(2) unfolding list_all_iff by blast
  then show ?thesis using plan_evidence [OF images(2) _ assms(3), of a] a by simp
qed

text \<open>C3: Nothing is published without the evidence of its images: if every completed build of the
  candidate lacks one of the tests, scans or documents that a candidate image is published with (the
  latest attempt of the step is missing, not completed, or not bound to the candidate's definitions,
  lock and policy) for one of the scanner images, then the verifier finds no publication, whatever
  receipt the build stored.\<close>

theorem unevidenced_publication_refused:
  assumes "\<And>b. b \<in> set (sd_Builds db) \<Longrightarrow> br_CandidateID b = ct_ID c \<Longrightarrow> br_State b = BuildCompleted \<Longrightarrow>
    \<exists>im \<in> set defaultImages. \<exists>e \<in> set publish_evidence. \<not> step_done codec c db (br_ID b) (e @ im_Key im)"
  shows "VerifyPublication codec db c digest = None"
proof (rule ccontr)
  assume "VerifyPublication codec db c digest \<noteq> None"
  then obtain r b where b: "b \<in> set (sd_Builds db)" "br_CandidateID b = ct_ID c" "br_State b = BuildCompleted"
    and verified: "verifyBuild codec c digest db b = Some r"
    unfolding VerifyPublication_def by (auto simp: ListBuildRuns_def split: if_splits dest!: first_verified_Some)
  obtain plan where plan: "expectedPublicationPlan codec b = Some plan"
    "list_all (step_evidence_ok codec c (latest_steps (ListBuildSteps (br_ID b) db))) plan"
    using verified by (auto simp: verifyBuild_def Let_def split: option.splits if_splits)
  have "step_done codec c db (br_ID b) (e @ im_Key im)" if "im \<in> set defaultImages" "e \<in> set publish_evidence" for im e
    using expected_plan_evidence [OF plan(1) that] plan(2) step_evidence_done by (fastforce simp: list_all_iff)
  then show False using assms [OF b] by blast
qed

text \<open>C15: A receipt that the verifier accepts describes what the build produced: for every image of the
  receipt, in every registry, the latest attempts of the steps that built, published and re-read the
  image recorded the digest that the receipt gives it.\<close>

theorem receipt_matches_evidence:
  assumes "verifyReceiptAgainstDurableEvidence codec r (latest_steps steps)" "i \<in> set (rc_Images r)"
    and "(e, d) \<in> {(''image-manifest/'', ri_Digest i), (''candidate-publish/'', ri_Digest i),
      (''published-verify/'', ri_Digest i)}"
  shows "\<exists>s \<in> set steps. bt_StepKey s = e @ ri_ImageKey i \<and> bt_OutputDigest s = d \<and>
    (\<forall>s' \<in> set steps. bt_StepKey s' = bt_StepKey s \<longrightarrow> bt_Attempt s' \<le> bt_Attempt s)"
proof -
  obtain j where j: "j \<in> set (last_images (rc_Images r))" "ri_ImageKey j = ri_ImageKey i" "j \<in> set (rc_Images r)"
    using last_image [OF assms(2)] by blast
  have same: "ri_Digest j = ri_Digest i"
    using assms(1,2) j(2,3) unfolding verifyReceiptAgainstDurableEvidence_def same_digests_def list_all_iff by blast
  have "image_evidence_bound codec (latest_steps steps) j"
    using assms(1) j(1) unfolding verifyReceiptAgainstDurableEvidence_def list_all_iff by blast
  then have "bound_to_step (latest_steps steps) (e @ ri_ImageKey i) d"
    using assms(3) unfolding image_evidence_bound_def j(2) same by (auto simp: list_all_iff)
  then obtain s where s: "map_of (latest_steps steps) (e @ ri_ImageKey i) = Some s" "bt_OutputDigest s = d"
    by (auto simp: bound_to_step_def split: option.splits)
  have "s \<in> set steps \<and> bt_StepKey s = e @ ri_ImageKey i \<and>
      (\<forall>s' \<in> set steps. bt_StepKey s' = e @ ri_ImageKey i \<longrightarrow> bt_Attempt s' \<le> bt_Attempt s)"
    using latest_steps_of [of steps] s(1) unfolding latest_of_def by simp
  then show ?thesis using s(2) by (intro bexI [of _ s]) simp_all
qed

section \<open>Witnesses\<close>

text \<open>A quiet environment: no other process, no fault, and a clock that stands at 1000.\<close>

definition quiet_env :: supply_env where
  "quiet_env = \<lparr>se_Now = (\<lambda>_. 1000), se_Uuid = (\<lambda>n k. replicate n CHR ''u'' @ replicate (Suc k) CHR ''v''),
     se_Others = (\<lambda>_ db. db), se_Fault = (\<lambda>_. CallOk)\<rparr>"

definition sample_codec :: control_codec where
  "sample_codec = \<lparr>cc_Rules = (\<lambda>_. Some ScannerPolicy.sample_policy), cc_Images = (\<lambda>_. Some defaultImages),
     cc_EncodeImages = (\<lambda>_. ''[]''), cc_StepSummary = (\<lambda>_ _. ''{}''),
     cc_Platforms = \<lparr>pc_Platforms = (\<lambda>_. Some [''linux/amd64'']), pc_Images = (\<lambda>_. None)\<rparr>\<rparr>"

definition waiting_candidate :: candidate_row where
  "waiting_candidate = sample_candidate_row\<lparr>ct_State := CandidateAwaitingApproval, ct_LockDigest := ''lock'',
     ct_PolicyDecision := ''decision''\<rparr>"

definition waiting_supply :: supply_db where
  "waiting_supply = sample_supply\<lparr>sd_Candidates := [waiting_candidate]\<rparr>"

definition waiting_world :: "unit supply_world" where
  "waiting_world = \<lparr>sw_DB = waiting_supply, sw_Calls = 0, sw_Trace = []\<rparr>"

definition sample_approve :: approval_command where
  "sample_approve = \<lparr>ac_CandidateID = ''c'', ac_LockDigest = ''lock'', ac_PolicyDecisionDigest = ''decision'',
     ac_EvidenceDigest = ''receipt'', ac_Actor = ''bob'', ac_Reason = ''reviewed'', ac_IdempotencyKey = ''k1''\<rparr>"

definition trusting :: verifier where
  "trusting = (\<lambda>db c d. Some d)"

lemma sample_approval_ignored:
  "\<exists>c w'. ApproveCandidate quiet_env sample_codec trusting sample_approve waiting_world = (Inr c, w') \<and>
     ct_State c = CandidateAwaitingApproval \<and>
     approving_actors ScannerPolicy.sample_policy c (sd_Approvals (sw_DB w')) = [''bob'']"
proof -
  let ?run = "ApproveCandidate quiet_env sample_codec trusting sample_approve waiting_world"
  have result: "fst ?run = Inr waiting_candidate" by code_simp
  have actors: "approving_actors ScannerPolicy.sample_policy waiting_candidate (sd_Approvals (sw_DB (snd ?run))) = [''bob'']"
    by code_simp
  have run: "?run = (Inr waiting_candidate, snd ?run)" using result by (metis prod.collapse)
  have rules: "1 \<le> po_RequiredApprovals rules" if "policy_rules sample_codec p = Some rules" for p rules
  proof -
    have "rules = normal_form ScannerPolicy.sample_policy"
      using that by (simp add: policy_rules_def sample_codec_def sample_policy_ok)
    moreover have "po_RequiredApprovals (normal_form ScannerPolicy.sample_policy) = 1" by code_simp
    ultimately show ?thesis by simp
  qed
  have quiet: "unlisted (se_Others quiet_env n db)" if "unlisted db" for n db
    using that by (simp add: quiet_env_def)
  have start: "unlisted (sw_DB waiting_world)" by code_simp
  have name: "ac_CandidateID sample_approve \<noteq> ''candidate''" by code_simp
  have "ct_State waiting_candidate = CandidateAwaitingApproval"
    by (rule approval_never_counts [OF run _ _ start name]) (erule rules, erule quiet)
  then show ?thesis using run actors by blast
qed

definition sample_except :: exception_command where
  "sample_except = \<lparr>xc_CandidateID = ''c'', xc_Gate = ''vulnerability'', xc_OwnerID = ''sec'', xc_Reason = ''upstream'',
     xc_CompensatingControl = ''waf'', xc_EvidenceDigest = ''sha256:'' @ replicate 64 CHR ''a'',
     xc_ExpiresAt = 2000, xc_Actor = ''ciso'', xc_IdempotencyKey = ''x1''\<rparr>"

definition sample_approval_row :: approval_row where
  "sample_approval_row = exception_approval ''uuuv'' waiting_candidate sample_except 1000"

lemma sample_exception_bounded:
  "ar_Action sample_approval_row = ''exception'' \<and> ar_Actor sample_approval_row \<noteq> ar_ExceptionOwner sample_approval_row"
proof -
  let ?run = "AddCandidateException quiet_env sample_codec sample_except waiting_world"
  have "fst ?run = Inr sample_approval_row" by code_simp
  then have "?run = (Inr sample_approval_row, snd ?run)" by (metis prod.collapse)
  then show ?thesis using exception_is_bounded by blast
qed

lemma sample_commands_run:
  "run_of_steps (RejectCandidate quiet_env sample_approve :: (unit, control_error, candidate_row) act) \<and>
   run_of_steps (AddCandidateException quiet_env sample_codec sample_except :: (unit, control_error, approval_row) act)"
proof -
  have "honest quiet_env" by (simp add: honest_def quiet_env_def)
  then show ?thesis using commands_refine_store by blast
qed

text \<open>A receipt with one image of one platform, and the steps of its build. The decoders read the platform
  map of the image and the signature in the summaries.\<close>

definition digest_of :: "char \<Rightarrow> string" where
  "digest_of x = ''sha256:'' @ replicate 64 x"

definition sample_signature :: signature_identity where
  "sample_signature = \<lparr>sg_RegistryTargetID = ''r'', sg_SubjectDigest = digest_of CHR ''a'', sg_PayloadDigest = ''pay'',
     sg_ArtifactURI = ''uri'', sg_ArtifactDigest = ''art'', sg_MediaType = ''m'', sg_SizeBytes = 1,
     sg_CertificateDigest = [], sg_Identity = ''wolf'', sg_Issuer = ''ca'', sg_Subject = ''s'',
     sg_TrustRoot = ''root'', sg_OperationID = ''op''\<rparr>"

definition sample_publication_codec :: publication_codec where
  "sample_publication_codec = \<lparr>pb_Platforms = (\<lambda>_. Some [(''linux/amd64'', digest_of CHR ''b'')]),
     pb_EncodePlatforms = (\<lambda>_. ''p''), pb_ToolMetadata = (\<lambda>_. None), pb_Digest = (\<lambda>_. Some (digest_of CHR ''f'')),
     pb_Receipt = (\<lambda>_. None), pb_HasSummary = (\<lambda>_. True), pb_Verification = (\<lambda>_. None),
     pb_SigningEvidence = (\<lambda>_. Some (sample_signature, digest_of CHR ''a'', True)),
     pb_MirrorImages = (\<lambda>_. Some []), pb_Images = (\<lambda>_. Some defaultImages), pb_UriScheme = (\<lambda>_. Some ''oci'')\<rparr>"

definition sample_image :: release_image where
  "sample_image = \<lparr>ri_ID = [], ri_ReleaseID = [], ri_ImageKey = ''jvm'', ri_ImageKind = ''scanner'',
     ri_RegistryTargetID = ''r'', ri_Repository = ''wolf/jvm'', ri_Digest = digest_of CHR ''a'',
     ri_PlatformDigests = ''{}'', ri_SizeBytes = 1, ri_SignatureStatus = ''verified'', ri_SignatureDigest = ''pay'',
     ri_SignatureArtifactURI = ''uri'', ri_SignatureArtifactDigest = ''art'', ri_SignatureMediaType = ''m'',
     ri_SignatureArtifactSizeBytes = 1, ri_SignatureCertificateDigest = [], ri_SignatureIdentity = ''wolf'',
     ri_SignatureIssuer = ''ca'', ri_SignatureSubject = ''s'', ri_SignatureTrustRoot = ''root'',
     ri_SignatureOperationID = ''op'', ri_ProvenanceDigest = digest_of CHR ''c'', ri_SBOMDigest = digest_of CHR ''d'',
     ri_CreatedAt = 0\<rparr>"

definition sample_step :: "string \<Rightarrow> int \<Rightarrow> build_state \<Rightarrow> char \<Rightarrow> step_row" where
  "sample_step key attempt state x = zero_step\<lparr>bt_ID := key, bt_BuildRunID := ''b'', bt_StepKey := key,
     bt_Attempt := attempt, bt_State := state, bt_OutputDigest := digest_of x, bt_OutputURI := ''oci://'' @ key\<rparr>"

definition sample_steps :: "step_row list" where
  "sample_steps =
     [sample_step ''image-manifest/jvm'' 1 BuildFailed CHR ''e'', sample_step ''image-manifest/jvm'' 2 BuildCompleted CHR ''a'',
      sample_step ''build/jvm/linux-amd64'' 1 BuildCompleted CHR ''b'',
      sample_step ''candidate-publish/jvm'' 1 BuildCompleted CHR ''a'', sample_step ''signature/jvm'' 1 BuildCompleted CHR ''e'',
      sample_step ''published-verify/jvm'' 1 BuildCompleted CHR ''a'', sample_step ''sbom/jvm'' 1 BuildCompleted CHR ''d'',
      sample_step ''provenance/jvm'' 1 BuildCompleted CHR ''c''] @
     map (\<lambda>k. sample_step k 1 BuildCompleted CHR ''9'') requiredPublicationArtifactSteps"

definition sample_artifact :: "string \<Rightarrow> release_artifact" where
  "sample_artifact k = \<lparr>rf_ID = [], rf_ReleaseID = [], rf_CandidateID = ''c'', rf_ArtifactType = k,
     rf_MediaType = ''json'', rf_URI = ''oci://'' @ k, rf_Digest = digest_of CHR ''9'', rf_SizeBytes = 1,
     rf_RetentionClass = [], rf_RetainUntil = None, rf_Protected = True, rf_CreatedAt = 0\<rparr>"

definition sample_receipt :: receipt where
  "sample_receipt = \<lparr>rc_SchemaVersion = PublicationReceiptSchema, rc_CandidateID = ''c'', rc_BuildRunID = ''b'',
     rc_DefinitionCommit = ''d1'', rc_LockDigest = ''lock'', rc_PolicyID = ''p'', rc_PolicyRevision = 1,
     rc_PolicyDecisionDigest = ''decision'', rc_ManifestDigest = digest_of CHR ''9'',
     rc_ManifestURI = ''oci://release-manifest'', rc_SignerIdentity = ''wolf'', rc_Tools = [],
     rc_Images = [sample_image], rc_Artifacts = map sample_artifact requiredPublicationArtifactSteps\<rparr>"

lemma sample_receipt_matches:
  "\<exists>s \<in> set sample_steps. bt_StepKey s = ''published-verify/'' @ ri_ImageKey sample_image \<and>
     bt_OutputDigest s = ri_Digest sample_image"
proof -
  have "verifyReceiptAgainstDurableEvidence sample_publication_codec sample_receipt (latest_steps sample_steps)"
    by code_simp
  moreover have "sample_image \<in> set (rc_Images sample_receipt)" by (simp add: sample_receipt_def)
  ultimately show ?thesis using receipt_matches_evidence [of _ _ _ _ "''published-verify/''"] by blast
qed

text \<open>A completed build whose scan for secrets failed.\<close>

definition unscanned_supply :: supply_db where
  "unscanned_supply = waiting_supply\<lparr>sd_Builds := [sample_build\<lparr>br_State := BuildCompleted\<rparr>],
     sd_Steps := sample_steps @ [sample_step ''secret-scan/jvm'' 1 BuildFailed CHR ''0'']\<rparr>"

lemma sample_refused:
  "VerifyPublication sample_publication_codec unscanned_supply waiting_candidate (digest_of CHR ''f'') = None"
proof (rule unevidenced_publication_refused)
  fix b
  assume "b \<in> set (sd_Builds unscanned_supply)"
  then have b: "br_ID b = ''b''" by (auto simp: unscanned_supply_def sample_build_def)
  have im: "defaultImages ! 1 \<in> set defaultImages" "im_Key (defaultImages ! 1) = ''jvm''" by (simp_all add: defaultImages_def)
  have e: "''secret-scan/'' \<in> set publish_evidence" by (simp add: publish_evidence_def)
  have "list_all (\<lambda>s. bt_StepKey s = ''secret-scan/jvm'' \<longrightarrow> bt_State s \<noteq> BuildCompleted) (sd_Steps unscanned_supply)"
    by code_simp
  then have "\<not> step_done sample_publication_codec waiting_candidate unscanned_supply (br_ID b)
      (''secret-scan/'' @ im_Key (defaultImages ! 1))"
    unfolding step_done_def b im(2) list_all_iff by force
  then show "\<exists>im \<in> set defaultImages. \<exists>e \<in> set publish_evidence.
      \<not> step_done sample_publication_codec waiting_candidate unscanned_supply (br_ID b) (e @ im_Key im)"
    using im(1) e by blast
qed

end
