(* ===== verification/CatalogLaws.thy ===== *)
theory CatalogLaws
  imports ReleaseCatalog ControlLaws
begin

text \<open>
  What the release catalog guarantees: the allocation of a name always ends, a reserved name is kept and
  belongs to one candidate, a publication leaves the candidate published with its release stored, and the
  two ways in which a publication is refused although it should not be.
\<close>

section \<open>What a transaction does to the catalog\<close>

lemma kt_checked_Inr: "kt_checked db = Inr db' \<longleftrightarrow> db' = db \<and> catalog_constraints db"
  by (auto simp: kt_checked_def)

lemma with_supply_Inr:
  "with_supply f db = Inr db' \<longleftrightarrow> (\<exists>s. f (kt_Supply db) = Inr s \<and> db' = db\<lparr>kt_Supply := s\<rparr>)"
  by (auto simp: with_supply_def and_then_Inr)

lemma move_candidate_Inr:
  assumes "move_candidate uuid now i version current to cmd db = Inr db'"
  shows "ValidateCandidateTransition current to = None"
    and "sd_Candidates (kt_Supply db') =
      update_where (\<lambda>c. ct_ID c = i \<and> ct_Version c = version) (candidate_columns to now) (sd_Candidates (kt_Supply db))"
    and "kt_Releases db' = kt_Releases db" "kt_Names db' = kt_Names db"
  using assms
  by (auto simp: move_candidate_def with_supply_Inr and_then_Inr sd_checked_Inr append_event_def
      split: if_splits)

lemma moved_candidate:
  assumes "move_candidate uuid now i version current to cmd db = Inr db'"
    and "first_by ct_ID (sd_Candidates (kt_Supply db)) i = Some c" "ct_Version c = version"
  shows "first_by ct_ID (sd_Candidates (kt_Supply db')) i = Some (candidate_columns to now c)"
proof -
  have "ct_ID c = i" using first_by_Some [OF assms(2)] by simp
  then show ?thesis
    unfolding move_candidate_Inr(2) [OF assms(1)] using assms(2,3)
    by (subst first_by_update_where) (auto simp: candidate_columns_def)
qed

section \<open>Names\<close>

lemma counter_updated:
  "period \<in> kc_Period ` set cs \<Longrightarrow>
     map_option kc_Next (first_by kc_Period (map (\<lambda>c. if kc_Period c = period then c\<lparr>kc_Next := n\<rparr> else c) cs) period) = Some n"
  by (induction cs) auto

lemma counter_added:
  "period \<notin> kc_Period ` set cs \<Longrightarrow>
     map_option kc_Next (first_by kc_Period (cs @ [\<lparr>kc_Period = period, kc_Next = n\<rparr>]) period) = Some n"
  by (induction cs) auto

lemma counter_at_put: "counter_at (put_counter period n db) period = Some n"
proof (cases "period \<in> kc_Period ` set (kt_Counters db)")
  case True
  then show ?thesis using counter_updated [OF True] by (simp add: counter_at_def put_counter_def)
next
  case False
  then show ?thesis using counter_added [OF False] by (simp add: counter_at_def put_counter_def)
qed

lemma put_counter_frame [simp]:
  "kt_Releases (put_counter period n db) = kt_Releases db" "kt_Names (put_counter period n db) = kt_Names db"
  "kt_Supply (put_counter period n db) = kt_Supply db"
  by (simp_all add: put_counter_def)

lemma take_sequence_Inr:
  assumes "take_sequence period db = Inr (sequence, db1)"
  shows "db1 = put_counter period (sequence + 1) db" "sequence + 1 \<le> max_int4"
    "sequence + 1 = (case counter_at db period of None \<Rightarrow> 2 | Some n \<Rightarrow> n + 1)" "catalog_constraints db1"
proof -
  let ?raised = "case counter_at db period of None \<Rightarrow> 2 | Some n \<Rightarrow> n + 1"
  have r: "db1 = put_counter period ?raised db" "catalog_constraints db1" "sequence = ?raised - 1"
    using assms by (auto simp: take_sequence_def Let_def and_then_Inr kt_checked_Inr)
  then show "db1 = put_counter period (sequence + 1) db" "catalog_constraints db1" "sequence + 1 = ?raised" by simp_all
  have "counter_at db1 period = Some ?raised" unfolding r(1) by (rule counter_at_put)
  then obtain c where "c \<in> set (kt_Counters db1)" "kc_Next c = ?raised"
    by (auto simp: counter_at_def dest: first_by_Some)
  then show "sequence + 1 \<le> max_int4"
    using r(2,3) by (auto simp: catalog_constraints_def name_constraints_def list_all_iff)
qed

text \<open>The values a counter can still take.\<close>

definition room :: "catalog_db \<Rightarrow> string \<Rightarrow> nat" where
  "room db period = nat (max_int4 + 1 - (case counter_at db period of None \<Rightarrow> 1 | Some n \<Rightarrow> n))"

lemma take_sequence_room:
  assumes "take_sequence period db = Inr (sequence, db1)"
  shows "room db1 period < room db period"
proof -
  have "counter_at db1 period = Some (sequence + 1)"
    unfolding take_sequence_Inr(1) [OF assms] by (rule counter_at_put)
  moreover have "(case counter_at db period of None \<Rightarrow> 1 | Some n \<Rightarrow> n) = sequence"
    using take_sequence_Inr(3) [OF assms] by (auto split: option.splits)
  ultimately show ?thesis using take_sequence_Inr(2) [OF assms] by (simp add: room_def)
qed

lemma generate_name_ends: "\<exists>answer. generate_name period db = Some answer"
proof (induction "room db period" arbitrary: db rule: less_induct)
  case less
  show ?case
  proof (cases "take_sequence period db")
    case (Inr r)
    then obtain sequence db1 where r: "take_sequence period db = Inr (sequence, db1)" by (cases r) simp
    obtain answer where "generate_name period db1 = Some answer" using less [OF take_sequence_room [OF r]] by blast
    then show ?thesis using r by (subst generate_name.simps) auto
  qed (subst generate_name.simps, simp)
qed

lemma generate_name_Inr:
  assumes "generate_name period db = Some (Inr (sequence, db'))"
  shows "kt_Releases db' = kt_Releases db \<and> kt_Names db' = kt_Names db \<and> kt_Supply db' = kt_Supply db \<and>
    catalog_constraints db' \<and>
    release_name period sequence \<notin> pu_Name ` set (kt_Releases db)"
  using assms
proof (induction "room db period" arbitrary: db rule: less_induct)
  case less
  from less.prems obtain s1 db1 where n: "take_sequence period db = Inr (s1, db1)"
    by (subst (asm) generate_name.simps) (auto split: sum.splits)
  have frame: "kt_Releases db1 = kt_Releases db" "kt_Names db1 = kt_Names db" "kt_Supply db1 = kt_Supply db"
    by (simp_all add: take_sequence_Inr(1) [OF n])
  show ?case
  proof (cases "release_name period s1 \<in> pu_Name ` set (kt_Releases db1)")
    case True
    then have "generate_name period db1 = Some (Inr (sequence, db'))"
      using less.prems n by (subst (asm) generate_name.simps) simp
    then show ?thesis using less.hyps [OF take_sequence_room [OF n]] frame by simp
  next
    case False
    then have "sequence = s1 \<and> db' = db1" using less.prems n by (subst (asm) generate_name.simps) auto
    then show ?thesis using frame False take_sequence_Inr(4) [OF n] by simp
  qed
qed

text \<open>C35: Allocating the name of a release always ends, whatever names earlier releases took: the loop
  that skips taken names passes each value of the counter of the week at most once, and ends with a name
  or with the error of an exhausted counter.\<close>

theorem name_reservation_ends: "\<exists>answer. reserveReleaseNameTx r db = Some answer"
proof (cases "first_by nm_CandidateID (kt_Names db) (pu_CandidateID r)")
  case None
  obtain year week where iso: "ISOWeek (pu_PublishedAt r) = (year, week)" by (cases "ISOWeek (pu_PublishedAt r)") simp
  then show ?thesis
    using None generate_name_ends [of "period_key year week" db]
    by (auto simp: reserveReleaseNameTx_def reserve_generated_def Let_def)
qed (simp add: reserveReleaseNameTx_def)

lemma insert_name_Inr:
  "insert_name row db = Inr db' \<longleftrightarrow> db' = db\<lparr>kt_Names := kt_Names db @ [row]\<rparr> \<and> catalog_constraints db'"
  by (auto simp: insert_name_def kt_checked_Inr)

text \<open>A reserved name is a row of the candidate; only the names and the counters change.\<close>

lemma reserved:
  assumes "reserveReleaseNameTx r db = Some (Inr (name, db1))"
  shows "kt_Releases db1 = kt_Releases db \<and> kt_Supply db1 = kt_Supply db \<and>
    (\<exists>row. first_by nm_CandidateID (kt_Names db1) (pu_CandidateID r) = Some row \<and> nm_Name row = name) \<and>
    (db1 = db \<or> catalog_constraints db1)"
proof (cases "first_by nm_CandidateID (kt_Names db) (pu_CandidateID r)")
  case (Some row)
  then show ?thesis using assms by (auto simp: reserveReleaseNameTx_def split: if_splits)
next
  case None
  show ?thesis
  proof (cases "pu_Name r = []")
    case False
    then have "reserve_supplied r db = Inr (name, db1)" using assms None by (simp add: reserveReleaseNameTx_def)
    then show ?thesis
      using None by (auto simp: reserve_supplied_def Let_def and_then_Inr kt_checked_Inr insert_name_Inr first_by_append
          split: option.splits prod.splits)
  next
    case True
    then have "reserve_generated r db = Some (Inr (name, db1))" using assms None by (simp add: reserveReleaseNameTx_def)
    then obtain year week sequence db2 where g: "generate_name (period_key year week) db = Some (Inr (sequence, db2))"
      "insert_name \<lparr>nm_CandidateID = pu_CandidateID r, nm_Period = period_key year week, nm_Sequence = sequence,
         nm_Name = release_name (period_key year week) sequence\<rparr> db2 = Inr db1"
      "name = release_name (period_key year week) sequence"
      by (auto simp: reserve_generated_def Let_def and_then_Inr split: prod.splits)
    then show ?thesis using generate_name_Inr [OF g(1)] None by (auto simp: insert_name_Inr first_by_append)
  qed
qed

text \<open>A reserved name belongs to its candidate for good: a second reservation for the candidate that
  supplies no name, or this one, is answered with the same name and changes nothing, one that supplies
  another name is refused, and no other candidate has the name.\<close>

theorem reserved_name_kept:
  assumes "reserveReleaseNameTx r db = Some (Inr (name, db1))" "catalog_constraints db"
    and "pu_CandidateID r' = pu_CandidateID r"
  shows "reserveReleaseNameTx r' db1 =
      Some (if pu_Name r' = [] \<or> pu_Name r' = name then Inr (name, db1) else Inl IdempotencyConflict) \<and>
    (\<forall>n \<in> set (kt_Names db1). nm_Name n = name \<longrightarrow> nm_CandidateID n = pu_CandidateID r)"
proof -
  obtain row where row: "first_by nm_CandidateID (kt_Names db1) (pu_CandidateID r) = Some row" "nm_Name row = name"
    and ok: "catalog_constraints db1"
    using reserved [OF assms(1)] assms(2) by blast
  have again: "reserveReleaseNameTx r' db1 =
      Some (if pu_Name r' = [] \<or> pu_Name r' = name then Inr (name, db1) else Inl IdempotencyConflict)"
    using row by (simp add: reserveReleaseNameTx_def assms(3))
  have "distinct (map nm_Name (kt_Names db1))" using ok by (simp add: catalog_constraints_def name_constraints_def)
  moreover have "row \<in> set (kt_Names db1)" "nm_CandidateID row = pu_CandidateID r" using first_by_Some [OF row(1)] by simp_all
  ultimately have "\<forall>n \<in> set (kt_Names db1). nm_Name n = name \<longrightarrow> nm_CandidateID n = pu_CandidateID r"
    using row(2) by (metis distinct_map inj_on_eq_iff)
  then show ?thesis using again by blast
qed

section \<open>Publication\<close>

lemma insertReleaseInventoryTx_Inr:
  assumes "insertReleaseInventoryTx uuids stock cmd db = Inr ((fresh, p), db')"
  shows "p \<in> set (kt_Releases db') \<and> pu_CandidateID p = pu_CandidateID (iv_Release stock) \<and>
    pu_ManifestDigest p = pu_ManifestDigest (iv_Release stock) \<and> pu_LockDigest p = pu_LockDigest (iv_Release stock) \<and>
    pu_Name p = pu_Name (iv_Release stock) \<and> sd_Candidates (kt_Supply db') = sd_Candidates (kt_Supply db)"
proof (cases "first_by pu_CandidateID (kt_Releases db) (pu_CandidateID (iv_Release stock))")
  case (Some existing)
  then show ?thesis
    using assms first_by_Some [OF Some]
    by (auto simp: insertReleaseInventoryTx_def Let_def same_release_def split: if_splits)
next
  case None
  show ?thesis
    using assms None unfolding insertReleaseInventoryTx_def Let_def
    by (auto simp: and_then_Inr kt_checked_Inr with_supply_Inr append_event_def sd_checked_Inr split: if_splits)
qed

lemma prepared_release [simp]:
  "pu_CandidateID (prepareReleaseInventory uuid now r) = pu_CandidateID r"
  "pu_ManifestDigest (prepareReleaseInventory uuid now r) = pu_ManifestDigest r"
  "pu_LockDigest (prepareReleaseInventory uuid now r) = pu_LockDigest r"
  "pu_Name (prepareReleaseInventory uuid now r) = pu_Name r"
  by (simp_all add: prepareReleaseInventory_def split: prod.split)

lemma finish_publication_Inr:
  assumes "finish_publication uuids now i version stock cmd db = Some (Inr (p, db'))"
    and "first_by ct_ID (sd_Candidates (kt_Supply db)) i = Some c" "ct_Version c = version"
  shows "p \<in> set (kt_Releases db') \<and> pu_CandidateID p = pu_CandidateID (iv_Release stock) \<and>
    pu_ManifestDigest p = pu_ManifestDigest (iv_Release stock) \<and>
    first_by ct_ID (sd_Candidates (kt_Supply db')) i = Some (candidate_columns CandidatePublished now c) \<and>
    reserveReleaseNameTx (iv_Release stock) db \<noteq> None"
proof -
  obtain name db1 fresh db2 where
    name: "reserveReleaseNameTx (iv_Release stock) db = Some (Inr (name, db1))" and
    inserted: "insertReleaseInventoryTx (\<lambda>k. uuids (k + 3)) (stock\<lparr>iv_Release := (iv_Release stock)\<lparr>pu_Name := name\<rparr>\<rparr>)
       (with_key cmd ''/release'') db1 = Inr ((fresh, p), db2)" and
    moved: "move_candidate (uuids 2) now i version CandidatePublishing CandidatePublished
       ((with_key cmd ''/published'')\<lparr>cmd_PayloadJSON := publication_payload (pu_ID p)\<rparr>) db2 = Inr db'"
    using assms(1) by (auto simp: finish_publication_def and_then_Inr)
  have rows: "p \<in> set (kt_Releases db2)" "pu_CandidateID p = pu_CandidateID (iv_Release stock)"
    "pu_ManifestDigest p = pu_ManifestDigest (iv_Release stock)"
    "sd_Candidates (kt_Supply db2) = sd_Candidates (kt_Supply db)"
    using insertReleaseInventoryTx_Inr [OF inserted] reserved [OF name] by simp_all
  have "first_by ct_ID (sd_Candidates (kt_Supply db2)) i = Some c" using assms(2) rows(4) by simp
  then have "first_by ct_ID (sd_Candidates (kt_Supply db')) i = Some (candidate_columns CandidatePublished now c)"
    by (rule moved_candidate [OF moved _ assms(3)])
  then show ?thesis using rows(1-3) move_candidate_Inr(3) [OF moved] name by simp
qed

lemma publication_whole:
  assumes "CommitCandidatePublication uuids now i v given cmd db = Some (Inr (p, db'))"
  shows "(\<exists>c. GetCandidate i (kt_Supply db) = Inr c \<and>
      (ct_State c = CandidateApproved \<and> ct_Version c = v \<or> ct_State c = CandidatePublishing \<or> ct_State c = CandidatePublished)) \<and>
    (\<exists>c'. GetCandidate i (kt_Supply db') = Inr c' \<and> ct_State c' = CandidatePublished) \<and>
    p \<in> set (kt_Releases db') \<and> pu_CandidateID p = i \<and> pu_ManifestDigest p = pu_ManifestDigest (iv_Release given)"
proof -
  let ?stock = "given\<lparr>iv_Release := prepareReleaseInventory (uuids 0) now (iv_Release given)\<rparr>"
  have i: "pu_CandidateID (iv_Release given) = i"
    using assms by (auto simp: CommitCandidatePublication_def split: if_splits)
  obtain c where c: "first_by ct_ID (sd_Candidates (kt_Supply db)) i = Some c"
    using assms by (auto simp: CommitCandidatePublication_def Let_def split: if_splits option.splits)
  note run = assms [unfolded CommitCandidatePublication_def Let_def c option.case, simplified i]
  consider (published) "ct_State c = CandidatePublished" | (publishing) "ct_State c = CandidatePublishing"
    | (approved) "ct_State c = CandidateApproved" "ct_Version c = v"
    using run by (auto split: if_splits)
  then show ?thesis
  proof cases
    case published
    then show ?thesis using run c i by (auto simp: GetCandidate_Inr split: if_splits option.splits dest: first_by_Some)
  next
    case publishing
    then have "finish_publication uuids now i (ct_Version c) ?stock cmd db = Some (Inr (p, db'))"
      using run by (auto split: if_splits)
    from finish_publication_Inr [OF this c] show ?thesis
      using publishing c i by (simp add: GetCandidate_Inr candidate_columns_def)
  next
    case approved
    then obtain db1 where
      moved: "move_candidate (uuids 1) now i (ct_Version c) CandidateApproved CandidatePublishing
        (with_key cmd ''/publishing'') db = Inr db1" and
      rest: "finish_publication uuids now i (ct_Version c + 1) ?stock cmd db1 = Some (Inr (p, db'))"
      using run by (auto split: if_splits sum.splits)
    have "first_by ct_ID (sd_Candidates (kt_Supply db1)) i = Some (candidate_columns CandidatePublishing now c)"
      by (rule moved_candidate [OF moved c]) simp
    from finish_publication_Inr [OF rest this] show ?thesis
      using approved c i by (simp add: GetCandidate_Inr candidate_columns_def)
  qed
qed

text \<open>C16: A publication that commits is whole: the candidate was approved (at the version the caller read),
  or its publication had begun or was done; afterwards the candidate is published and its release is
  stored, with the manifest the caller gave.\<close>

theorem publication_commits:
  assumes "CommitCandidatePublication uuids now i v given cmd db = Some (Inr (p, db'))"
  shows "(\<exists>c. GetCandidate i (kt_Supply db) = Inr c \<and>
      (ct_State c = CandidateApproved \<and> ct_Version c = v \<or> ct_State c = CandidatePublishing \<or> ct_State c = CandidatePublished)) \<and>
    (\<exists>c'. GetCandidate i (kt_Supply db') = Inr c' \<and> ct_State c' = CandidatePublished) \<and>
    p \<in> set (kt_Releases db') \<and> pu_CandidateID p = i \<and> pu_ManifestDigest p = pu_ManifestDigest (iv_Release given)"
  by (rule publication_whole [OF assms])

text \<open>A publication that let the store choose its name cannot be repeated: the same call after a commit
  whose answer was lost is refused as a conflict, because the branch for a published candidate compares
  the stored name with the empty name of the request, where the reservation of names accepts a retry
  without a name.\<close>

theorem generated_name_retry_refused:
  assumes "CommitCandidatePublication uuids now i v given cmd db = Some (Inr (p, db1))"
    and "pu_Name (iv_Release given) = []" "pu_Name p \<noteq> []" "release_constraints db1"
  shows "CommitCandidatePublication uuids' now' i v' given cmd' db1 = Some (Inl IdempotencyConflict)"
proof -
  obtain c where c: "first_by ct_ID (sd_Candidates (kt_Supply db1)) i = Some c" "ct_State c = CandidatePublished"
    and p: "p \<in> set (kt_Releases db1)" "pu_CandidateID p = i"
    using publication_whole [OF assms(1)] by (auto simp: GetCandidate_Inr)
  have "distinct (map pu_CandidateID (kt_Releases db1))" using assms(4) by (simp add: release_constraints_def Let_def)
  then have "first_by pu_CandidateID (kt_Releases db1) i = Some p" using first_by_distinct [OF _ p(1)] p(2) by metis
  moreover have "i \<noteq> []" "pu_CandidateID (iv_Release given) = i"
    using assms(1) by (auto simp: CommitCandidatePublication_def split: if_splits)
  ultimately show ?thesis
    using c assms(2,3) by (simp add: CommitCandidatePublication_def)
qed

lemma publication_gate_Inl:
  fixes w :: "'r supply_world"
  assumes "\<And>n db. unlisted db \<Longrightarrow> unlisted (se_Others env n db)" "unlisted (sw_DB w)"
  shows "(publication_gate env codec verify cmd :: ('r, control_error, candidate_row \<times> receipt) act) w \<noteq> (Inr cr, w')"
proof
  assume run: "(publication_gate env codec verify cmd :: ('r, control_error, candidate_row \<times> receipt) act) w = (Inr cr, w')"
  have quiet: "unlisted (called_db env x)" if "unlisted (sw_DB x)" for x :: "'r supply_world"
    using assms(1) [OF that] by (simp add: called_db_def)
  obtain c w1 v w2 approvals w3 where
    get: "(call_read env ControlCall (GetCandidate (pm_CandidateID cmd)) :: ('r, control_error, candidate_row) act) w = (Inr c, w1)"
    and verified: "(call_read env ControlCall (\<lambda>db. Inr (verify db c (pm_ReceiptDigest cmd))) :: ('r, control_error, receipt option) act) w1 = (Inr v, w2)"
    and listed: "(listed_approvals env c :: ('r, control_error, approval_row list) act) w2 = (Inr approvals, w3)"
    and bound: "bound_approval c (pm_ReceiptDigest cmd) approvals"
    using run unfolding publication_gate_def
    by (fastforce simp: act_bind_Inr act_results split: if_splits option.splits)
  have "unlisted (sw_DB w1)" using call_read_Inr(2) [OF get] quiet [OF assms(2)] by simp
  then have "unlisted (sw_DB w2)" using call_read_Inr(2) [OF verified] quiet [of w1] by simp
  then have "approvals = []" by (rule listed_empty(1) [OF listed quiet])
  then show False using bound by (simp add: bound_approval_def)
qed

text \<open>Nothing is ever published through \<open>PublishCandidate\<close>: it looks the approvals up under the same wrong
  key, so it ends with an error and stores no release, however the candidate was approved and whatever
  the verifier finds.\<close>

theorem publication_always_refused:
  assumes "\<And>n db. unlisted db \<Longrightarrow> unlisted (se_Others env n db)" "unlisted (kt_Supply db)"
  shows "\<exists>e db'. PublishCandidate env codec verify cmd db = (Some (Inl e), db') \<and> kt_Releases db' = kt_Releases db"
proof -
  let ?w = "\<lparr>sw_DB = kt_Supply db, sw_Calls = 0, sw_Trace = []\<rparr> :: unit supply_world"
  obtain answer w' where run: "(publication_gate env codec verify cmd :: (unit, control_error, candidate_row \<times> receipt) act) ?w
      = (answer, w')" by fastforce
  then obtain e where "answer = Inl e" using publication_gate_Inl [OF assms(1), of ?w] assms(2) by (cases answer) auto
  then show ?thesis using run by (simp add: PublishCandidate_def)
qed

section \<open>Witnesses\<close>

text \<open>An approved candidate, and an earlier release that took the first name of the week.\<close>

definition legacy_release :: published_row where
  "legacy_release = \<lparr>pu_ID = ''r0'', pu_Name = ''scanner-set-0001.01.1'', pu_CandidateID = ''c0'', pu_LockDigest = ''l0'',
     pu_ManifestDigest = ''m0'', pu_ManifestURI = ''u0'', pu_State = ReleasePublished, pu_SignerIdentity = ''wolf'',
     pu_PolicyID = ''p'', pu_PolicyRevision = 1, pu_DefinitionCommit = ''d0'', pu_Imported = False, pu_Legacy = True,
     pu_Protected = True, pu_RollbackEligible = True, pu_RetentionClass = ''release'', pu_RetainUntil = None,
     pu_Version = 1, pu_PublishedAt = 5, pu_DeprecatedAt = None, pu_RevokedAt = None, pu_CreatedAt = 5, pu_UpdatedAt = 5\<rparr>"

definition approved_supply :: supply_db where
  "approved_supply = sample_supply\<lparr>sd_Candidates :=
     [sample_candidate_row\<lparr>ct_ID := ''c0'', ct_IdempotencyKey := ''k0'', ct_State := CandidatePublished\<rparr>,
      waiting_candidate\<lparr>ct_State := CandidateApproved\<rparr>], sd_ReleaseIDs := [''r0'']\<rparr>"

definition sample_catalog :: catalog_db where
  "sample_catalog = \<lparr>kt_Supply = approved_supply, kt_Releases = [legacy_release], kt_Tools = [], kt_Images = [],
     kt_Artifacts = [], kt_Counters = [], kt_Names = [], kt_Targets = []\<rparr>"

definition sample_release :: published_row where
  "sample_release = legacy_release\<lparr>pu_ID := ''r1'', pu_Name := [], pu_CandidateID := ''c'', pu_LockDigest := ''lock'',
     pu_ManifestDigest := ''m1'', pu_Legacy := False\<rparr>"

definition sample_stock :: inventory where
  "sample_stock = \<lparr>iv_Release = sample_release, iv_Tools = [], iv_Images = [], iv_Artifacts = []\<rparr>"

definition numbered :: "nat \<Rightarrow> string" where
  "numbered k = replicate (Suc k) CHR ''z''"

definition sample_commit :: "catalog_db \<Rightarrow> (store_error + published_row \<times> catalog_db) option" where
  "sample_commit = CommitCandidatePublication numbered 1000 ''c'' 3 sample_stock (sample_supply_command ''pub'')"

definition committed :: catalog_db where
  "committed = (case sample_commit sample_catalog of Some (Inr (_, db)) \<Rightarrow> db | _ \<Rightarrow> sample_catalog)"

definition committed_release :: published_row where
  "committed_release = sample_release\<lparr>pu_Name := ''scanner-set-0001.01.2''\<rparr>"

lemma sample_committed: "sample_commit sample_catalog = Some (Inr (committed_release, committed))"
  by code_simp

lemma sample_publication:
  "(\<exists>c'. GetCandidate ''c'' (kt_Supply committed) = Inr c' \<and> ct_State c' = CandidatePublished) \<and>
   committed_release \<in> set (kt_Releases committed)"
  using publication_commits [OF sample_committed [unfolded sample_commit_def]] by blast

lemma sample_retry: "sample_commit committed = Some (Inl IdempotencyConflict)"
  unfolding sample_commit_def
proof (rule generated_name_retry_refused [OF sample_committed [unfolded sample_commit_def]])
  show "pu_Name (iv_Release sample_stock) = []" by code_simp
  show "pu_Name committed_release \<noteq> []" by code_simp
  show "release_constraints committed" by code_simp
qed

definition reserved_catalog :: catalog_db where
  "reserved_catalog = (case reserveReleaseNameTx sample_release sample_catalog of Some (Inr (_, db)) \<Rightarrow> db | _ \<Rightarrow> sample_catalog)"

lemma sample_name_kept:
  "reserveReleaseNameTx sample_release reserved_catalog = Some (Inr (''scanner-set-0001.01.2'', reserved_catalog))"
proof -
  have "reserveReleaseNameTx sample_release sample_catalog = Some (Inr (''scanner-set-0001.01.2'', reserved_catalog))"
    by code_simp
  moreover have "catalog_constraints sample_catalog" by code_simp
  moreover have "pu_Name sample_release = []" by code_simp
  ultimately show ?thesis using reserved_name_kept [of sample_release] by simp
qed

definition sample_publish :: publication_command where
  "sample_publish = \<lparr>pm_CandidateID = ''c'', pm_Name = [], pm_ReceiptDigest = digest_of CHR ''f'', pm_Actor = ''bob'',
     pm_Reason = ''release'', pm_IdempotencyKey = ''pub''\<rparr>"

lemma sample_publication_refused:
  "\<exists>e db'. PublishCandidate quiet_env sample_publication_codec (\<lambda>db c d. Some sample_receipt) sample_publish sample_catalog
     = (Some (Inl e), db') \<and> kt_Releases db' = [legacy_release]"
proof -
  have "unlisted (kt_Supply sample_catalog)" by code_simp
  moreover have "unlisted (se_Others quiet_env n db)" if "unlisted db" for n db using that by (simp add: quiet_env_def)
  ultimately show ?thesis using publication_always_refused [of quiet_env sample_catalog] by (simp add: sample_catalog_def)
qed

end
