(* ===== verification/WorkerPlan.thy ===== *)
theory WorkerPlan
  imports CandidateControl
begin

text \<open>
  The plan of a release build as the worker restores it from the persisted steps
  (\<open>internal/scannerreleaseworker/plan.go\<close>), and what it decides on it in \<open>worker.go\<close>: the next batch, the
  evidence of dependencies and whether the plan is done. Go ranges over the map of logical steps in an
  arbitrary order; where the order shows, it is an argument.
\<close>

section \<open>The persisted plan\<close>

record step_metadata =
  sm_Kind :: string
  sm_DependsOn :: "string list"
  sm_Timeout :: string
  sm_Retryable :: bool
  sm_ConcurrencyKey :: string
  sm_Ordinal :: int

record logical_step =
  lg_Plan :: step
  lg_Metadata :: step_metadata
  lg_Attempts :: "step_row list"

datatype plan_fault =
    NoSteps | BadMetadata string | BadTimeout string | BadKind string | MetadataChanged string
  | BadPlan plan_error | DependencyOpen string string | DependencyDigest string string | NothingRunnable

definition validStepKind :: "string \<Rightarrow> step_kind option" where
  "validStepKind kind =
     map_of [(''checkout'', StepCheckout), (''validation'', StepValidation), (''build'', StepBuild),
       (''test'', StepTest), (''security'', StepSecurity), (''evidence'', StepEvidence),
       (''publish'', StepPublish), (''integration'', StepIntegration), (''policy'', StepPolicy)] kind"

text \<open>All fields but \<open>Required\<close>.\<close>

definition samePlanStep :: "step \<Rightarrow> step \<Rightarrow> bool" where
  "samePlanStep left right \<longleftrightarrow>
     st_Key left = st_Key right \<and> st_Kind left = st_Kind right \<and> st_Timeout left = st_Timeout right \<and>
     st_Retryable left = st_Retryable right \<and> st_ConcurrencyKey left = st_ConcurrencyKey right \<and>
     st_DependsOn left = st_DependsOn right"

definition restored_step :: "(string \<Rightarrow> step_metadata option) \<Rightarrow> step_row \<Rightarrow> plan_fault + step_metadata \<times> step" where
  "restored_step decode s =
     (case decode (bt_SummaryJSON s) of
        None \<Rightarrow> Inl (BadMetadata (bt_StepKey s))
      | Some m \<Rightarrow>
          (case ParseDuration (sm_Timeout m) of
             None \<Rightarrow> Inl (BadTimeout (bt_StepKey s))
           | Some timeout \<Rightarrow>
               if timeout \<le> 0 then Inl (BadTimeout (bt_StepKey s))
               else (case validStepKind (sm_Kind m) of
                       None \<Rightarrow> Inl (BadKind (bt_StepKey s))
                     | Some kind \<Rightarrow> Inr (m, \<lparr>st_Key = bt_StepKey s, st_Kind = kind, st_DependsOn = sm_DependsOn m,
                         st_Timeout = timeout, st_Retryable = sm_Retryable m, st_Required = True,
                         st_ConcurrencyKey = sm_ConcurrencyKey m\<rparr>))))"

text \<open>The loop over the records: the logical steps by key, each with the attempts found so far.\<close>

fun restore_loop ::
  "(string \<Rightarrow> step_metadata option) \<Rightarrow> (string \<times> logical_step) list \<Rightarrow> step_row list
     \<Rightarrow> plan_fault + (string \<times> logical_step) list" where
  "restore_loop decode logical [] = Inr logical"
| "restore_loop decode logical (s # ss) =
     and_then (restored_step decode s) (\<lambda>(m, st).
     case map_of logical (bt_StepKey s) of
       None \<Rightarrow> restore_loop decode
         (logical @ [(bt_StepKey s, \<lparr>lg_Plan = st, lg_Metadata = m, lg_Attempts = [s]\<rparr>)]) ss
     | Some l \<Rightarrow>
         if \<not> samePlanStep (lg_Plan l) st then Inl (MetadataChanged (bt_StepKey s))
         else restore_loop decode (map (\<lambda>(k, x). (k, if k = bt_StepKey s
           then x\<lparr>lg_Attempts := lg_Attempts x @ [s]\<rparr> else x)) logical) ss)"

definition sort_attempts :: "logical_step \<Rightarrow> logical_step" where
  "sort_attempts l = l\<lparr>lg_Attempts := sort_key (\<lambda>s. (bt_Attempt s, bt_CreatedAt s)) (lg_Attempts l)\<rparr>"

definition restorePlan ::
  "(string \<Rightarrow> step_metadata option) \<Rightarrow> step_row list \<Rightarrow> plan_fault + plan \<times> (string \<times> logical_step) list" where
  "restorePlan decode records =
     (if records = [] then Inl NoSteps
      else
        and_then (restore_loop decode [] records) (\<lambda>found.
        let logical = map (\<lambda>(k, l). (k, sort_attempts l)) found;
            plan = map lg_Plan (sort_key (\<lambda>l. (sm_Ordinal (lg_Metadata l), st_Key (lg_Plan l))) (map snd logical)) in
        case Pipeline.Validate plan of Some e \<Rightarrow> Inl (BadPlan e) | None \<Rightarrow> Inr (plan, logical)))"

definition latestAttempt :: "logical_step option \<Rightarrow> step_row option" where
  "latestAttempt step =
     (case step of None \<Rightarrow> None | Some l \<Rightarrow> if lg_Attempts l = [] then None else Some (last (lg_Attempts l)))"

section \<open>Decisions on the plan\<close>

text \<open>\<open>selectBatch\<close>: at most as many steps as may run, and one for each concurrency key. The loop with the
  room that is left and the keys in use.\<close>

fun select_from :: "nat \<Rightarrow> string list \<Rightarrow> step list \<Rightarrow> step list" where
  "select_from room busy [] = []"
| "select_from room busy (s # ss) =
     (if room = 0 then []
      else if st_ConcurrencyKey s \<noteq> [] \<and> contains_elem busy (st_ConcurrencyKey s) then select_from room busy ss
      else s # select_from (room - 1)
             (if st_ConcurrencyKey s \<noteq> [] then st_ConcurrencyKey s # busy else busy) ss)"

definition selectBatch :: "nat \<Rightarrow> step list \<Rightarrow> step list" where
  "selectBatch maxParallel ready = select_from maxParallel [] ready"

record dependency_evidence =
  dp_OutputURI :: string
  dp_OutputDigest :: string

fun dependency_loop ::
  "(string \<times> logical_step) list \<Rightarrow> string \<Rightarrow> string list \<Rightarrow> plan_fault + (string \<times> dependency_evidence) list" where
  "dependency_loop logical key [] = Inr []"
| "dependency_loop logical key (d # ds) =
     (case latestAttempt (map_of logical d) of
        None \<Rightarrow> Inl (DependencyOpen key d)
      | Some s \<Rightarrow>
          if bt_State s \<noteq> BuildCompleted then Inl (DependencyOpen key d)
          else if bt_OutputDigest s \<noteq> [] \<and> \<not> digestPattern (bt_OutputDigest s) then Inl (DependencyDigest key d)
          else and_then (dependency_loop logical key ds) (\<lambda>rest.
                 Inr ((d, \<lparr>dp_OutputURI = bt_OutputURI s, dp_OutputDigest = bt_OutputDigest s\<rparr>) # rest)))"

definition directDependencyEvidence ::
  "step \<Rightarrow> (string \<times> logical_step) list \<Rightarrow> plan_fault + (string \<times> dependency_evidence) list" where
  "directDependencyEvidence step logical = dependency_loop logical (st_Key step) (st_DependsOn step)"

definition completed_key :: "(string \<times> logical_step) list \<Rightarrow> string \<Rightarrow> bool" where
  "completed_key logical key \<longleftrightarrow>
     (case latestAttempt (map_of logical key) of None \<Rightarrow> False | Some s \<Rightarrow> bt_State s = BuildCompleted)"

text \<open>A step that failed for good: its latest attempt, after the retries were made.\<close>

definition exhausted_step :: "(string \<times> logical_step) list \<Rightarrow> (string \<times> step_row) option" where
  "exhausted_step ranged =
     (case filter (\<lambda>(k, l). case latestAttempt (Some l) of None \<Rightarrow> False
             | Some s \<Rightarrow> contains_elem [BuildFailed, BuildCancelled] (bt_State s)) ranged of
        [] \<Rightarrow> None
      | (k, l) # _ \<Rightarrow> map_option (\<lambda>s. (k, s)) (latestAttempt (Some l)))"

text \<open>A failed step that is tried again.\<close>

definition retryable :: "int \<Rightarrow> logical_step \<Rightarrow> step_row \<Rightarrow> bool" where
  "retryable maxAttempts l s \<longleftrightarrow>
     bt_State s = BuildFailed \<and> bt_ErrorClass s \<noteq> ''reconciliation_required'' \<and>
     st_Retryable (lg_Plan l) \<and> bt_Attempt s < maxAttempts"

section \<open>Laws of the plan\<close>

lemma select_from_subset: "set (select_from room busy ss) \<subseteq> set ss"
  by (induction room busy ss rule: select_from.induct) auto

lemma select_from_length: "length (select_from room busy ss) \<le> room"
  by (induction room busy ss rule: select_from.induct) auto

lemma select_from_free:
  "s \<in> set (select_from room busy ss) \<Longrightarrow> st_ConcurrencyKey s \<in> set busy \<Longrightarrow> st_ConcurrencyKey s = []"
  by (induction room busy ss rule: select_from.induct) (auto split: if_splits)

lemma select_from_keys:
  "distinct (filter (\<lambda>k. k \<noteq> []) (map st_ConcurrencyKey (select_from room busy ss)))"
proof (induction room busy ss rule: select_from.induct)
  case (2 room busy x xs)
  consider "room = 0" | "room \<noteq> 0" "st_ConcurrencyKey x \<noteq> [] \<and> st_ConcurrencyKey x \<in> set busy"
    | "room \<noteq> 0" "\<not> (st_ConcurrencyKey x \<noteq> [] \<and> st_ConcurrencyKey x \<in> set busy)" by blast
  then show ?case
  proof cases
    case 2
    then show ?thesis using "2.IH"(1) by simp
  next
    case 3
    let ?rest = "select_from (room - 1) (if st_ConcurrencyKey x \<noteq> [] then st_ConcurrencyKey x # busy else busy) xs"
    have "distinct (filter (\<lambda>k. k \<noteq> []) (map st_ConcurrencyKey ?rest))" using "2.IH"(2) 3 by simp
    moreover have "st_ConcurrencyKey x \<notin> st_ConcurrencyKey ` set ?rest" if "st_ConcurrencyKey x \<noteq> []"
    proof
      assume "st_ConcurrencyKey x \<in> st_ConcurrencyKey ` set ?rest"
      then obtain s where s: "s \<in> set ?rest" "st_ConcurrencyKey s = st_ConcurrencyKey x" by auto
      then show False using select_from_free [OF s(1)] that by simp
    qed
    ultimately show ?thesis using 3 by auto
  qed simp
qed simp

lemma select_from_maximal:
  "s \<in> set ss \<Longrightarrow> s \<notin> set (select_from room busy ss) \<Longrightarrow>
     length (select_from room busy ss) = room \<or>
     st_ConcurrencyKey s \<noteq> [] \<and>
       st_ConcurrencyKey s \<in> set busy \<union> st_ConcurrencyKey ` set (select_from room busy ss)"
proof (induction room busy ss rule: select_from.induct)
  case (2 room busy x xs)
  consider "room = 0" | "room \<noteq> 0" "st_ConcurrencyKey x \<noteq> [] \<and> st_ConcurrencyKey x \<in> set busy"
    | "room \<noteq> 0" "\<not> (st_ConcurrencyKey x \<noteq> [] \<and> st_ConcurrencyKey x \<in> set busy)" by blast
  then show ?case
  proof cases
    case 2
    then show ?thesis using "2.IH"(1) "2.prems" by auto
  next
    case 3
    then have "s \<in> set xs" "s \<notin> set (select_from (room - 1)
        (if st_ConcurrencyKey x \<noteq> [] then st_ConcurrencyKey x # busy else busy) xs)" using "2.prems" by auto
    from "2.IH"(2) [OF _ _ this] 3 show ?thesis by (auto split: if_splits)
  qed simp
qed simp

text \<open>The restored steps: one for each key of the records, with the attempts of that key.\<close>

lemma restored_step_key: "restored_step decode s = Inr (m, st) \<Longrightarrow> st_Key st = bt_StepKey s"
  by (auto simp: restored_step_def split: option.splits if_splits)

definition attempts_of :: "(string \<times> logical_step) list \<Rightarrow> string \<Rightarrow> step_row list" where
  "attempts_of logical k = (case map_of logical k of None \<Rightarrow> [] | Some l \<Rightarrow> lg_Attempts l)"

definition keyed :: "(string \<times> logical_step) list \<Rightarrow> bool" where
  "keyed logical \<longleftrightarrow> distinct (map fst logical) \<and> (\<forall>(k, l) \<in> set logical. st_Key (lg_Plan l) = k)"

abbreviation add_attempt :: "step_row \<Rightarrow> (string \<times> logical_step) list \<Rightarrow> (string \<times> logical_step) list" where
  "add_attempt s logical \<equiv> map (\<lambda>(k, x). (k, if k = bt_StepKey s
     then x\<lparr>lg_Attempts := lg_Attempts x @ [s]\<rparr> else x)) logical"

lemma map_of_add_attempt:
  "map_of (add_attempt s logical) k =
     map_option (\<lambda>x. if k = bt_StepKey s then x\<lparr>lg_Attempts := lg_Attempts x @ [s]\<rparr> else x) (map_of logical k)"
  by (induction logical) auto

lemma fst_add_attempt: "map fst (add_attempt s logical) = map fst logical"
  by (induction logical) auto

lemma restore_loop_attempts:
  assumes "restore_loop decode logical ss = Inr found" "keyed logical"
  shows "keyed found \<and> (\<forall>k. attempts_of found k = attempts_of logical k @ filter (\<lambda>s. bt_StepKey s = k) ss) \<and>
    set (map fst found) = set (map fst logical) \<union> bt_StepKey ` set ss"
  using assms
proof (induction ss arbitrary: logical)
  case (Cons s ss)
  obtain m st where st: "restored_step decode s = Inr (m, st)" using Cons.prems(1) by (auto simp: and_then_Inr)
  show ?case
  proof (cases "map_of logical (bt_StepKey s)")
    case None
    let ?next = "logical @ [(bt_StepKey s, \<lparr>lg_Plan = st, lg_Metadata = m, lg_Attempts = [s]\<rparr>)]"
    have fresh: "bt_StepKey s \<notin> fst ` set logical" using None by (simp add: map_of_eq_None_iff)
    have "keyed ?next"
      using Cons.prems(2) fresh restored_step_key [OF st] by (auto simp: keyed_def)
    moreover have "restore_loop decode ?next ss = Inr found" using Cons.prems(1) None st by simp
    ultimately have "keyed found \<and>
        (\<forall>k. attempts_of found k = attempts_of ?next k @ filter (\<lambda>s. bt_StepKey s = k) ss) \<and>
        set (map fst found) = set (map fst ?next) \<union> bt_StepKey ` set ss" using Cons.IH by blast
    moreover have "attempts_of ?next k = attempts_of logical k @ (if bt_StepKey s = k then [s] else [])" for k
      using None by (auto simp: attempts_of_def map_add_def split: option.split)
    ultimately show ?thesis by auto
  next
    case (Some l)
    have "keyed (add_attempt s logical)"
      unfolding keyed_def fst_add_attempt using Cons.prems(2) by (auto simp: keyed_def split: if_splits)
    moreover have "restore_loop decode (add_attempt s logical) ss = Inr found"
      using Cons.prems(1) Some st by (auto split: if_splits)
    ultimately have "keyed found \<and>
        (\<forall>k. attempts_of found k = attempts_of (add_attempt s logical) k @ filter (\<lambda>s. bt_StepKey s = k) ss) \<and>
        set (map fst found) = set (map fst logical) \<union> bt_StepKey ` set ss"
      using Cons.IH [of "add_attempt s logical"] unfolding fst_add_attempt by blast
    moreover have "attempts_of (add_attempt s logical) k
        = attempts_of logical k @ (if bt_StepKey s = k then [s] else [])" for k
      using Some by (auto simp: attempts_of_def map_of_add_attempt split: option.split)
    moreover have "bt_StepKey s \<in> set (map fst logical)" using map_of_SomeD [OF Some] by force
    ultimately show ?thesis by auto
  qed
qed simp

text \<open>What a restored plan is: a valid plan of the logical steps, each with the sorted attempts of its key.\<close>

lemma restorePlan_Inr:
  assumes "restorePlan decode records = Inr (plan, logical)"
  shows "Pipeline.Validate plan = None" "distinct (map fst logical)"
    "set plan = (lg_Plan \<circ> snd) ` set logical"
    "\<And>k l. (k, l) \<in> set logical \<Longrightarrow> st_Key (lg_Plan l) = k \<and>
       lg_Attempts l = sort_key (\<lambda>s. (bt_Attempt s, bt_CreatedAt s)) (filter (\<lambda>s. bt_StepKey s = k) records) \<and>
       lg_Attempts l \<noteq> []"
proof -
  let ?sorted = "map (\<lambda>(k, l). (k, sort_attempts l))"
  obtain found where found: "restore_loop decode [] records = Inr found" and logical: "logical = ?sorted found"
    and plan: "plan = map lg_Plan (sort_key (\<lambda>l. (sm_Ordinal (lg_Metadata l), st_Key (lg_Plan l))) (map snd logical))"
    and valid: "Pipeline.Validate plan = None"
    using assms by (auto simp: restorePlan_def Let_def and_then_Inr split: if_splits option.splits)
  have spec: "keyed found" "\<And>k. attempts_of found k = filter (\<lambda>s. bt_StepKey s = k) records"
    "set (map fst found) = bt_StepKey ` set records"
    using restore_loop_attempts [OF found] by (simp_all add: keyed_def attempts_of_def)
  show "Pipeline.Validate plan = None" by (rule valid)
  show "distinct (map fst logical)"
    using spec(1) by (simp add: logical keyed_def comp_def case_prod_beta)
  show "set plan = (lg_Plan \<circ> snd) ` set logical" by (auto simp: plan image_comp)
  fix k l assume "(k, l) \<in> set logical"
  then obtain l0 where l0: "(k, l0) \<in> set found" "l = sort_attempts l0" by (auto simp: logical)
  have "map_of found k = Some l0" using spec(1) l0(1) by (simp add: keyed_def)
  then have "lg_Attempts l0 = filter (\<lambda>s. bt_StepKey s = k) records" using spec(2) [of k] by (simp add: attempts_of_def)
  moreover have "k \<in> bt_StepKey ` set records" using l0(1) spec(3) by force
  ultimately have "lg_Attempts l0 = filter (\<lambda>s. bt_StepKey s = k) records \<and> lg_Attempts l0 \<noteq> []"
    by (auto simp: filter_empty_conv)
  then show "st_Key (lg_Plan l) = k \<and>
       lg_Attempts l = sort_key (\<lambda>s. (bt_Attempt s, bt_CreatedAt s)) (filter (\<lambda>s. bt_StepKey s = k) records) \<and>
       lg_Attempts l \<noteq> []"
    using spec(1) l0 by (auto simp: keyed_def sort_attempts_def)
qed

text \<open>The latest attempt of a step is one of its records, and none is later.\<close>

lemma last_sort_key:
  fixes f :: "'a \<Rightarrow> 'b :: linorder"
  assumes "xs \<noteq> []"
  shows "last (sort_key f xs) \<in> set xs \<and> (\<forall>x \<in> set xs. f x \<le> f (last (sort_key f xs)))"
proof -
  let ?ys = "sort_key f xs"
  have ne: "?ys \<noteq> []" using assms by (metis length_0_conv length_sort)
  then have "last ?ys \<in> set xs" using last_in_set [OF ne] by simp
  moreover have "f x \<le> f (last ?ys)" if "x \<in> set xs" for x
  proof -
    obtain i where i: "i < length ?ys" "?ys ! i = x" using \<open>x \<in> set xs\<close> by (metis in_set_conv_nth set_sort)
    have "map f ?ys ! i \<le> map f ?ys ! (length ?ys - 1)"
      by (rule sorted_nth_mono) (use i in simp_all)
    then show ?thesis using i ne by (simp add: last_conv_nth)
  qed
  ultimately show ?thesis by blast
qed

lemma latest_of_restored:
  assumes "restorePlan decode records = Inr (plan, logical)" "(k, l) \<in> set logical"
  obtains s where "latestAttempt (Some l) = Some s" "s \<in> set records" "bt_StepKey s = k"
    "\<And>s'. s' \<in> set records \<Longrightarrow> bt_StepKey s' = k \<Longrightarrow> bt_Attempt s' \<le> bt_Attempt s"
proof -
  let ?own = "filter (\<lambda>s. bt_StepKey s = k) records"
  have l: "lg_Attempts l = sort_key (\<lambda>s. (bt_Attempt s, bt_CreatedAt s)) ?own" "lg_Attempts l \<noteq> []"
    using restorePlan_Inr(4) [OF assms] by blast+
  then have "?own \<noteq> []" by auto
  note latest = last_sort_key [OF this, of "\<lambda>s. (bt_Attempt s, bt_CreatedAt s)", folded l(1)]
  show thesis
  proof (rule that [of "last (lg_Attempts l)"])
    show "latestAttempt (Some l) = Some (last (lg_Attempts l))" using l(2) by (simp add: latestAttempt_def)
    show "last (lg_Attempts l) \<in> set records" "bt_StepKey (last (lg_Attempts l)) = k" using latest by auto
    show "bt_Attempt s' \<le> bt_Attempt (last (lg_Attempts l))" if "s' \<in> set records" "bt_StepKey s' = k" for s'
      using latest that by (fastforce simp: less_eq_prod_def)
  qed
qed

text \<open>A batch of steps is exactly what may run at once: its steps are ready, there are at most as many
  as the worker may run, no two share a concurrency key, and a ready step is left out only when the batch
  is full or its concurrency key is taken by a step of the batch.\<close>

theorem batch_is_maximal:
  "set (selectBatch n ready) \<subseteq> set ready \<and> length (selectBatch n ready) \<le> n \<and>
   distinct (filter (\<lambda>k. k \<noteq> []) (map st_ConcurrencyKey (selectBatch n ready))) \<and>
   (\<forall>s \<in> set ready - set (selectBatch n ready). length (selectBatch n ready) = n \<or>
      st_ConcurrencyKey s \<noteq> [] \<and> st_ConcurrencyKey s \<in> st_ConcurrencyKey ` set (selectBatch n ready))"
  unfolding selectBatch_def
  using select_from_subset [of n "[]" ready] select_from_length [of n "[]" ready]
    select_from_keys [of n "[]" ready] select_from_maximal [of _ ready n "[]"] by auto

end
