(* ===== verification/ReleaseWorker.thy ===== *)
theory ReleaseWorker
  imports WorkerPlan Publication Schedules
begin

text \<open>
  The worker that executes release builds (\<open>internal/scannerreleaseworker/worker.go\<close>, \<open>types.go\<close>) as a
  program over the candidate store: it claims a build, holds its lease by heartbeats, runs the steps of
  the persisted plan, records their evidence, lets the policy decide, and moves the build and its
  candidate. The executor of steps, the files of a workspace, JSON, SHA-256 and the redaction of secrets
  are parameters. The steps of a batch run in the order of the batch here; the code starts them together
  and serializes their writes. The heartbeats of the monitor are transactions of the other processes;
  what the monitor or a shutdown makes the cause of the context is given by the environment.
\<close>

section \<open>Requests and results\<close>

record step_request =
  rq_BuildRunID :: string
  rq_CandidateID :: string
  rq_BuildAttempt :: int
  rq_Step :: step
  rq_StepAttempt :: int
  rq_LogicalOperationID :: string
  rq_DefinitionCommit :: string
  rq_LockDigest :: string
  rq_PolicyID :: string
  rq_PolicyRevision :: int
  rq_PlatformsJSON :: string
  rq_Dependencies :: "(string \<times> dependency_evidence) list"

record policy_input =
  pn_Risk :: risk
  pn_Changes :: "change list"
  pn_Gates :: "gate list"
  pn_Exceptions :: "gate_exception list"
  pn_Evidence :: "evidence option"

text \<open>The summary maps keys to encoded values.\<close>

record step_result =
  sr_OutputURI :: string
  sr_OutputDigest :: string
  sr_Summary :: "(string \<times> string) list"
  sr_RetentionClass :: string
  sr_RetainUntil :: "go_time option"
  sr_Protected :: bool
  sr_Verification :: verification
  sr_PolicyInput :: "policy_input option"
  sr_PolicyDecision :: "decision option"

datatype exec_error = ExecReconcile string | ExecTimeout string | ExecFailed string

datatype evidence_error =
    LedgerUnreadable call_error | LedgerIncomplete string | LedgerDuplicate string | NoPolicyInput
  | RulesUnreadable | RulesRevision | RiskMismatch | ChangesMismatch | ScheduleInvalid
  | PolicyRejected policy_error | CandidateUnreadable call_error | NoDigest | StaleBinding
  | NoDecisionDigest | NoReceipt | ReceiptInvalid

datatype worker_error =
    ErrLeaseLost | ErrCancellationRequested | ErrDrainDeadline | ContextCanceled | ErrReconciliationRequired
  | WorkerCall call_error | PlanFault plan_fault | StepExhausted string int string | StepState string build_state
  | EvidenceFiles | SummaryUnreadable | WorkspaceFailed | CleanupFailed | SnapshotInvalid
  | NoDecision | NoReceiptDigest | CandidateState candidate_state | NoPolicyDecision | TraceFailed

record risk_summary =
  rk_HighestRisk :: string
  rk_Highest :: string
  rk_Risk :: string
  rk_Changes :: "change list"

record worker_codec =
  wk_Metadata :: "string \<Rightarrow> step_metadata option"
  wk_EncodeMetadata :: "step_metadata \<Rightarrow> string"
  wk_Decision :: "string \<Rightarrow> decision option option"
  wk_Evidence :: "string \<Rightarrow> verification option"
  wk_EncodeEvidence :: "string \<Rightarrow> step_result \<Rightarrow> string option"
  wk_RedactText :: "string \<Rightarrow> string"
  wk_RedactURI :: "string \<Rightarrow> string"
  wk_Describe :: "evidence_error \<Rightarrow> string"
  wk_Explain :: "worker_error list \<Rightarrow> string"
  wk_Quote :: "string \<Rightarrow> string"
  wk_Risk :: "string \<Rightarrow> risk_summary option"
  wk_EncodeChanges :: "change list \<Rightarrow> string"
  wk_Rules :: "string \<Rightarrow> policy option"
  wk_Window :: "string \<Rightarrow> go_time \<Rightarrow> bool option"
  wk_Digest :: digest_fn
  wk_Hash :: "string \<times> string \<times> int \<times> string \<times> string \<times> string \<times> string \<times> int \<Rightarrow> string"
  wk_Receipt :: "string \<Rightarrow> receipt option"
  wk_Publication :: publication_codec
  wk_Platforms :: platform_codec

record worker_env =
  we_Supply :: supply_env
  we_WorkerID :: string
  we_Supported :: "string list"
  we_MaxParallel :: nat
  we_MaxAttempts :: int
  we_Lease :: duration
  we_Execute :: "nat \<Rightarrow> step_request \<Rightarrow> step_result \<times> exec_error option"
  we_Cause :: "nat \<Rightarrow> worker_error option"
  we_Workspace :: "nat \<Rightarrow> bool"
  we_Files :: "nat \<Rightarrow> bool"
  we_Cleanup :: "nat \<Rightarrow> bool"
  we_Trace :: "nat \<Rightarrow> bool"
  we_Range :: "nat \<Rightarrow> (string \<times> logical_step) list \<Rightarrow> (string \<times> logical_step) list"
  we_Codec :: worker_codec

text \<open>An error of the worker is the list of the errors it joins.\<close>

type_synonym 'a worker_act = "(step_request, worker_error list, 'a) act"

section \<open>Commands and identities\<close>

definition worker_command :: "worker_env \<Rightarrow> string \<Rightarrow> string \<Rightarrow> string \<Rightarrow> command" where
  "worker_command env aggregateID phase reason =
     \<lparr>cmd_Actor = we_WorkerID env, cmd_Reason = reason, cmd_PolicyRevision = 0,
      cmd_IdempotencyKey = ''scanner-release-worker/'' @ aggregateID @ ''/'' @ phase,
      cmd_PayloadJSON = ''{\"redacted\":true}''\<rparr>"

definition buildCommand :: "worker_env \<Rightarrow> build_row \<Rightarrow> string \<Rightarrow> string \<Rightarrow> command" where
  "buildCommand env b phase reason =
     (let c = worker_command env (br_ID b) phase reason in
      c\<lparr>cmd_IdempotencyKey := cmd_IdempotencyKey c @ ''/claim/'' @ br_LeaseToken b\<rparr>)"

definition stepCommand :: "worker_env \<Rightarrow> build_row \<Rightarrow> step_row \<Rightarrow> string \<Rightarrow> string \<Rightarrow> command" where
  "stepCommand env b s phase reason =
     buildCommand env b (''step/'' @ bt_StepKey s @ ''/'' @ show_int (bt_Attempt s) @ ''/'' @ phase) reason"

definition candidateCommand :: "worker_env \<Rightarrow> candidate_row \<Rightarrow> string \<Rightarrow> string \<Rightarrow> command" where
  "candidateCommand env c phase reason =
     (worker_command env (ct_ID c) (''candidate/'' @ phase) reason)\<lparr>cmd_PolicyRevision := ct_PolicyRevision c\<rparr>"

definition DeriveLogicalOperationID :: "worker_codec \<Rightarrow> step_request \<Rightarrow> string" where
  "DeriveLogicalOperationID codec r =
     wk_Hash codec (rq_BuildRunID r, rq_CandidateID r, rq_BuildAttempt r, st_Key (rq_Step r),
       rq_DefinitionCommit r, rq_LockDigest r, rq_PolicyID r, rq_PolicyRevision r)"

definition wrap_call :: "call_error \<Rightarrow> worker_error list" where
  "wrap_call e = [WorkerCall e]"

text \<open>\<open>errors.Join\<close> of programs that all run.\<close>

fun join_all :: "('r, 'e list, unit) act list \<Rightarrow> ('r, 'e list, unit) act" where
  "join_all [] = act_return ()"
| "join_all (m # ms) =
     act_try m (\<lambda>r. act_try (join_all ms) (\<lambda>rs.
       let es = (case r of Inl e \<Rightarrow> e | Inr _ \<Rightarrow> []) @ (case rs of Inl e \<Rightarrow> e | Inr _ \<Rightarrow> []) in
       if es = [] then act_return () else act_fail es))"

section \<open>The lease\<close>

definition beat :: "worker_env \<Rightarrow> build_row \<Rightarrow> build_lease worker_act" where
  "beat env b =
     act_bind (act_now (we_Supply env)) (\<lambda>t.
     call_tx (we_Supply env) wrap_call (\<lambda>uuids now.
       HeartbeatBuildRun (br_ID b) (we_WorkerID env) (br_LeaseToken b) now (t + we_Lease env)))"

definition checkLeaseAllowCancellation :: "worker_env \<Rightarrow> build_row \<Rightarrow> build_lease worker_act" where
  "checkLeaseAllowCancellation env b =
     act_try (beat env b) (\<lambda>r. case r of
       Inl _ \<Rightarrow> act_fail [ErrLeaseLost]
     | Inr s \<Rightarrow> if \<not> lt_Current s then act_fail [ErrLeaseLost] else act_return s)"

definition checkLease :: "worker_env \<Rightarrow> build_row \<Rightarrow> build_lease worker_act" where
  "checkLease env b =
     act_bind (checkLeaseAllowCancellation env b) (\<lambda>s.
     if lt_CancelRequested s then act_fail [ErrCancellationRequested] else act_return s)"

definition finalizeBuild :: "worker_env \<Rightarrow> build_row \<Rightarrow> build_state \<Rightarrow> build_row worker_act" where
  "finalizeBuild env b target =
     act_bind (checkLeaseAllowCancellation env b) (\<lambda>s.
     call_store (we_Supply env) wrap_call (\<lambda>uuids now.
       TransitionBuildRun (uuids 0) now (br_ID b) (lt_Version s) target
         (buildCommand env b (''finalize/'' @ build_state_string target)
            (''release build '' @ build_state_string target))))"

section \<open>Marking the candidate\<close>

definition get_candidate :: "worker_env \<Rightarrow> string \<Rightarrow> candidate_row worker_act" where
  "get_candidate env i = call_read (we_Supply env) wrap_call (GetCandidate i)"

definition move_to :: "worker_env \<Rightarrow> candidate_row \<Rightarrow> candidate_state \<Rightarrow> string \<Rightarrow> string \<Rightarrow> candidate_row worker_act" where
  "move_to env c to phase reason =
     call_store (we_Supply env) wrap_call (\<lambda>uuids now.
       TransitionCandidate (uuids 0) now (ct_ID c) (ct_Version c) to (candidateCommand env c phase reason))"

definition update_proposal :: "worker_env \<Rightarrow> candidate_row \<Rightarrow> string \<Rightarrow> string \<Rightarrow> candidate_row worker_act" where
  "update_proposal env c phase reason =
     call_store (we_Supply env) wrap_call (\<lambda>uuids now.
       UpdateCandidateProposal (uuids 0) now c (ct_Version c) (candidateCommand env c phase reason))"

definition markCandidateStarted :: "worker_env \<Rightarrow> candidate_row \<Rightarrow> candidate_row worker_act" where
  "markCandidateStarted env c =
     (if ct_State c \<noteq> CandidateQueued
      then if ct_State c = CandidateBuilding then act_return c else act_fail [CandidateState (ct_State c)]
      else move_to env c CandidateBuilding ''build-started'' ''candidate build started'')"

definition recordPolicyDecision :: "worker_env \<Rightarrow> string \<Rightarrow> string \<Rightarrow> unit worker_act" where
  "recordPolicyDecision env candidateID digest =
     act_bind (get_candidate env candidateID) (\<lambda>c.
     if ct_PolicyDecision c = digest then act_return ()
     else act_bind (update_proposal env (c\<lparr>ct_PolicyDecision := digest\<rparr>) ''policy-decision''
            ''candidate policy decision evidence recorded'') (\<lambda>_. act_return ()))"

text \<open>The loop advances the candidate one phase at a time. \<open>None\<close> is a loop that does not end.\<close>

definition next_phase :: "candidate_row \<Rightarrow> worker_error list + candidate_state option" where
  "next_phase c =
     (if ct_State c = CandidateQueued then Inr (Some CandidateBuilding)
      else if ct_State c = CandidateBuilding then Inr (Some CandidateTesting)
      else if ct_State c = CandidateTesting then Inr (Some CandidateSecurityReview)
      else if ct_State c = CandidateSecurityReview
      then if ct_PolicyDecision c = [] then Inl [NoPolicyDecision] else Inr (Some CandidateAwaitingApproval)
      else if ct_State c = CandidateAwaitingApproval then Inr None
      else Inl [CandidateState (ct_State c)])"

definition advance_to :: "worker_env \<Rightarrow> candidate_row \<Rightarrow> candidate_state \<Rightarrow> candidate_row worker_act" where
  "advance_to env c to =
     move_to env c to (''advance/'' @ candidate_state_string to) ''candidate evidence phase completed''"

partial_function (option) markCandidateAwaitingApproval ::
  "worker_env \<Rightarrow> string \<Rightarrow> step_request supply_world \<Rightarrow> ((worker_error list + unit) \<times> step_request supply_world) option" where
  "markCandidateAwaitingApproval env candidateID w =
     (case get_candidate env candidateID w of
        (Inl e, w1) \<Rightarrow> Some (Inl e, w1)
      | (Inr c, w1) \<Rightarrow>
          (case next_phase c of
             Inl e \<Rightarrow> Some (Inl e, w1)
           | Inr None \<Rightarrow> Some (Inr (), w1)
           | Inr (Some to) \<Rightarrow>
               (case advance_to env c to w1 of
                  (Inl e, w2) \<Rightarrow> Some (Inl e, w2)
                | (Inr _, w2) \<Rightarrow> markCandidateAwaitingApproval env candidateID w2)))"

declare markCandidateAwaitingApproval.simps [code]

definition auto_approval :: "worker_env \<Rightarrow> string \<Rightarrow> candidate_row \<Rightarrow> decision \<Rightarrow> string \<Rightarrow> approval_row" where
  "auto_approval env i c d receiptDigest =
     new_approval i (ct_ID c) (we_WorkerID env) ''approve''
       ''automatic promotion permitted by immutable scanner release policy'' receiptDigest
       (de_PolicyDecisionDigest d)
       (''scanner-release-worker/'' @ ct_ID c @ ''/auto-approval/'' @ de_PolicyDecisionDigest d)"

definition markCandidateAutoApproved :: "worker_env \<Rightarrow> string \<Rightarrow> decision \<Rightarrow> string \<Rightarrow> unit worker_act" where
  "markCandidateAutoApproved env candidateID d receiptDigest =
     act_bind (get_candidate env candidateID) (\<lambda>c.
     if ct_State c = CandidateApproved then act_return ()
     else if ct_State c \<noteq> CandidateAwaitingApproval then act_fail [CandidateState (ct_State c)]
     else
       act_bind (act_uuids (we_Supply env)) (\<lambda>uuids.
       act_bind (call_tx (we_Supply env) wrap_call (\<lambda>fresh now. AddApproval (fresh 0) now
          (auto_approval env (uuids 0) c d receiptDigest))) (\<lambda>_.
       act_bind (move_to env c CandidateApproved ''auto-approved'' ''candidate automatically approved by policy'')
         (\<lambda>_. act_return ()))))"

text \<open>The shape the three ways of stopping a candidate share: the error is recorded, then the state moves.\<close>

definition record_and_move ::
  "worker_env \<Rightarrow> candidate_row \<Rightarrow> string \<Rightarrow> string \<Rightarrow> string \<times> string \<Rightarrow> candidate_state \<Rightarrow> string \<times> string
     \<Rightarrow> unit worker_act" where
  "record_and_move env c errorClass errorDetail recorded to moved =
     act_bind (update_proposal env (c\<lparr>ct_ErrorClass := errorClass, ct_ErrorDetail := errorDetail\<rparr>)
       (fst recorded) (snd recorded)) (\<lambda>updated.
     act_bind (move_to env updated to (fst moved) (snd moved)) (\<lambda>_. act_return ()))"

definition markCandidatePolicyBlocked :: "worker_env \<Rightarrow> string \<Rightarrow> string list \<Rightarrow> unit worker_act" where
  "markCandidatePolicyBlocked env candidateID reasons =
     act_bind (get_candidate env candidateID) (\<lambda>c.
     if ct_State c = CandidateBlocked then act_return ()
     else if IsTerminalCandidateState (ct_State c) then act_fail [CandidateState (ct_State c)]
     else record_and_move env c ''policy_blocked'' (wk_RedactText (we_Codec env) (join_with ''; '' reasons))
       (''policy-block-evidence'', ''candidate policy block recorded'') CandidateBlocked
       (''policy-blocked'', ''candidate blocked by immutable policy''))"

definition markCandidateFailed :: "worker_env \<Rightarrow> string \<Rightarrow> worker_error list \<Rightarrow> unit worker_act" where
  "markCandidateFailed env candidateID cause =
     act_bind (get_candidate env candidateID) (\<lambda>c.
     if IsTerminalCandidateState (ct_State c) then act_return ()
     else record_and_move env c
       (if ErrReconciliationRequired \<in> set cause then ''reconciliation_required'' else ''build_failed'')
       (wk_RedactText (we_Codec env) (wk_Explain (we_Codec env) cause))
       (''failure-evidence'', ''candidate failure evidence recorded'') CandidateFailed
       (''failed'', ''candidate build failed''))"

definition markCandidateBlocked :: "worker_env \<Rightarrow> string \<Rightarrow> string \<Rightarrow> unit worker_act" where
  "markCandidateBlocked env candidateID reason =
     act_bind (get_candidate env candidateID) (\<lambda>c.
     if contains_elem [CandidateBlocked, CandidateRejected, CandidateFailed, CandidatePublished] (ct_State c)
     then act_return ()
     else if \<not> contains_elem [CandidateQueued, CandidateBuilding, CandidateTesting, CandidateSecurityReview,
                CandidateAwaitingApproval] (ct_State c)
     then act_fail [CandidateState (ct_State c)]
     else record_and_move env c ''build_cancelled'' (wk_RedactText (we_Codec env) reason)
       (''cancellation-evidence'', ''candidate cancellation evidence recorded'') CandidateBlocked
       (''blocked'', ''candidate build cancelled''))"

end
