(* ===== verification/WorkerSteps.thy ===== *)
theory WorkerSteps
  imports ReleaseWorker
begin

text \<open>
  One step of a release build (\<open>executeStep\<close> and what it calls in
  \<open>internal/scannerreleaseworker/worker.go\<close>): the request to the executor, the trusted evaluation of the
  policy, the validation of the result, and the evidence that is recorded.
\<close>

section \<open>The trusted policy decision\<close>

definition firstNonempty :: "string list \<Rightarrow> string" where
  "firstNonempty values =
     (case filter (\<lambda>v. trim_space v \<noteq> []) values of [] \<Rightarrow> [] | v # _ \<Rightarrow> trim_space v)"

definition risk_of :: "string \<Rightarrow> risk" where
  "risk_of s =
     (if s = ''low'' then RiskLow else if s = ''medium'' then RiskMedium else if s = ''high'' then RiskHigh
      else if s = ''critical'' then RiskCritical else RiskOther s)"

definition persisted_risk :: "worker_codec \<Rightarrow> candidate_row \<Rightarrow> risk_summary option" where
  "persisted_risk codec c =
     (if trim_space (ct_RiskSummaryJSON c) = []
      then Some \<lparr>rk_HighestRisk = [], rk_Highest = [], rk_Risk = [], rk_Changes = []\<rparr>
      else wk_Risk codec (ct_RiskSummaryJSON c))"

definition trustedCandidateRisk ::
  "worker_codec \<Rightarrow> candidate_row \<Rightarrow> policy_input \<Rightarrow> evidence_error + risk \<times> change list" where
  "trustedCandidateRisk codec c given =
     (case persisted_risk codec c of
        None \<Rightarrow> Inl RiskMismatch
      | Some stored \<Rightarrow>
          let first = risk_of (firstNonempty [rk_HighestRisk stored, rk_Highest stored, rk_Risk stored]);
              risk = (if first = RiskOther [] then pn_Risk given else first) in
          if pn_Risk given \<noteq> RiskOther [] \<and> risk \<noteq> pn_Risk given then Inl RiskMismatch
          else if rk_Changes stored = [] then Inr (risk, pn_Changes given)
          else if pn_Changes given \<noteq> [] \<and>
                  wk_EncodeChanges codec (rk_Changes stored) \<noteq> wk_EncodeChanges codec (pn_Changes given)
          then Inl ChangesMismatch
          else Inr (risk, rk_Changes stored))"

text \<open>The schedule part, with the maintenance windows of \<open>Schedules\<close>. A search that does not end is an
  error here.\<close>

definition scheduled_window ::
  "('loc, 'sched) clock \<Rightarrow> (string \<Rightarrow> schedule_policy option) \<Rightarrow> string \<Rightarrow> go_time \<Rightarrow> bool option" where
  "scheduled_window ck decode scheduleJSON now =
     (case decode scheduleJSON of
        None \<Rightarrow> None
      | Some s \<Rightarrow>
          (case Schedules.Normalize ck s of
             Inl _ \<Rightarrow> None
           | Inr valid \<Rightarrow>
               (case MaintenanceWindowStatus ck now valid of
                  Some (Inr (isOpen, _)) \<Rightarrow> Some isOpen
                | _ \<Rightarrow> None)))"

definition policy_candidate ::
  "candidate_row \<Rightarrow> policy_row \<Rightarrow> policy_input \<Rightarrow> risk \<times> change list \<Rightarrow> bool \<Rightarrow> candidate" where
  "policy_candidate c p given trusted window =
     \<lparr>cn_ID = ct_ID c, cn_DefinitionCommit = EffectiveDefinitionCommit c, cn_LockDigest = ct_LockDigest c,
      cn_PolicyID = pl_ID p, cn_PolicyRevision = ct_PolicyRevision c, cn_CreatorID = ct_Actor c,
      cn_Risk = fst trusted, cn_Changes = snd trusted, cn_Gates = pn_Gates given,
      cn_Exceptions = pn_Exceptions given, cn_Approvals = [], cn_MaintenanceWindowOpen = window,
      cn_Evidence = pn_Evidence given\<rparr>"

definition trustedPolicyDecision ::
  "worker_codec \<Rightarrow> candidate_row \<Rightarrow> policy_row \<Rightarrow> step_result \<Rightarrow> go_time \<Rightarrow> evidence_error + decision" where
  "trustedPolicyDecision codec c p result now =
     (case sr_PolicyInput result of
        None \<Rightarrow> Inl NoPolicyInput
      | Some given \<Rightarrow>
          (case wk_Rules codec (pl_RulesJSON p) of
             None \<Rightarrow> Inl RulesUnreadable
           | Some rules \<Rightarrow>
               if po_Revision rules \<noteq> pl_Revision p then Inl RulesRevision
               else
                 and_then (trustedCandidateRisk codec c given) (\<lambda>trusted.
                 case wk_Window codec (pl_ScheduleJSON p) now of
                   None \<Rightarrow> Inl ScheduleInvalid
                 | Some window \<Rightarrow>
                     (case Evaluate (wk_Digest codec) (policy_candidate c p given trusted window) rules now of
                        Inl e \<Rightarrow> Inl (PolicyRejected e)
                      | Inr d \<Rightarrow> Inr d))))"

text \<open>The exceptions of the ledger replace those of the executor.\<close>

definition ledger_exception :: "approval_row \<Rightarrow> gate_exception option" where
  "ledger_exception a =
     (case ar_ExpiresAt a of
        None \<Rightarrow> None
      | Some expires \<Rightarrow>
          if ar_ID a = [] \<or> ar_ExceptionScope a = [] \<or> ar_ExceptionOwner a = [] \<or> ar_Reason a = [] \<or>
             ar_CompensatingControl a = []
          then None
          else Some \<lparr>ex_ID = ar_ID a, ex_Gate = ar_ExceptionScope a, ex_OwnerID = ar_ExceptionOwner a,
            ex_Reason = ar_Reason a, ex_CompensatingControl = ar_CompensatingControl a,
            ex_ApprovedBy = ar_Actor a, ex_ExpiresAt = expires\<rparr>)"

fun ledger_loop :: "string list \<Rightarrow> approval_row list \<Rightarrow> evidence_error + gate_exception list" where
  "ledger_loop seen [] = Inr []"
| "ledger_loop seen (a # as) =
     (if ar_Action a \<noteq> ''exception'' then ledger_loop seen as
      else case ledger_exception a of
        None \<Rightarrow> Inl (LedgerIncomplete (ar_ID a))
      | Some x \<Rightarrow>
          if contains_elem seen (ar_ID a) then Inl (LedgerDuplicate (ar_ID a))
          else and_then (ledger_loop (ar_ID a # seen) as) (\<lambda>rest. Inr (x # rest)))"

definition mergePersistedExceptions ::
  "worker_env \<Rightarrow> candidate_row \<Rightarrow> policy_input \<Rightarrow> (step_request, evidence_error, policy_input) act" where
  "mergePersistedExceptions env c given =
     act_bind (call_read (we_Supply env) LedgerUnreadable (\<lambda>db. Inr (ListApprovals (ct_ID c) [] db))) (\<lambda>approvals.
     case ledger_loop [] approvals of
       Inl e \<Rightarrow> act_fail e
     | Inr xs \<Rightarrow> act_return (given\<lparr>pn_Exceptions := xs\<rparr>))"

section \<open>The validation of a result\<close>

definition same_binding :: "verification \<Rightarrow> candidate_row \<Rightarrow> policy_row \<Rightarrow> bool" where
  "same_binding v c p \<longleftrightarrow>
     vr_DefinitionCommit v = EffectiveDefinitionCommit c \<and> vr_LockDigest v = ct_LockDigest c \<and>
     vr_PolicyID v = pl_ID p \<and> vr_PolicyRevision v = pl_Revision p"

text \<open>\<open>validateStepResult\<close>: the cases \<open>checkout\<close> and \<open>lock-reproducibility\<close> repeat the binding.\<close>

definition summary_receipt :: "worker_codec \<Rightarrow> step_result \<Rightarrow> receipt option" where
  "summary_receipt codec result =
     (case map_of (sr_Summary result) ''publication_receipt'' of
        None \<Rightarrow> None
      | Some encoded \<Rightarrow> wk_Receipt codec encoded)"

definition receipt_valid ::
  "worker_codec \<Rightarrow> string \<Rightarrow> candidate_row \<Rightarrow> policy_row \<Rightarrow> step_result \<Rightarrow> receipt \<Rightarrow> bool" where
  "receipt_valid codec buildRunID c p result r \<longleftrightarrow>
     PublicationReceiptDigest (wk_Publication codec) r = Some (sr_OutputDigest result) \<and>
     rc_SchemaVersion r = PublicationReceiptSchema \<and> rc_CandidateID r = ct_ID c \<and>
     rc_BuildRunID r = buildRunID \<and> rc_DefinitionCommit r = EffectiveDefinitionCommit c \<and>
     rc_LockDigest r = ct_LockDigest c \<and> rc_PolicyID r = pl_ID p \<and> rc_PolicyRevision r = pl_Revision p \<and>
     rc_PolicyDecisionDigest r = ct_PolicyDecision c \<and> digestPattern (rc_ManifestDigest r) \<and>
     contains_sub (rc_ManifestURI r) (rc_ManifestDigest r) \<and> trim_space (rc_SignerIdentity r) \<noteq> [] \<and>
     ValidatePublicationReceiptInventory (wk_Publication codec) r"

definition validateStepResult ::
  "worker_codec \<Rightarrow> step \<Rightarrow> string \<Rightarrow> candidate_row \<Rightarrow> policy_row \<Rightarrow> step_result \<Rightarrow> evidence_error option" where
  "validateStepResult codec step buildRunID c p result =
     (if st_Required step \<and> \<not> digestPattern (sr_OutputDigest result) then Some NoDigest
      else if \<not> same_binding (sr_Verification result) c p then Some StaleBinding
      else if st_Key step = ''policy-evaluation''
      then if digestPattern (vr_PolicyDecisionDigest (sr_Verification result)) then None else Some NoDecisionDigest
      else if st_Key step = ''candidate-evidence-summary''
      then (case summary_receipt codec result of
              None \<Rightarrow> Some NoReceipt
            | Some r \<Rightarrow> if receipt_valid codec buildRunID c p result r then None else Some ReceiptInvalid)
      else None)"

section \<open>A step\<close>

definition put_key :: "string \<Rightarrow> string \<Rightarrow> (string \<times> string) list \<Rightarrow> (string \<times> string) list" where
  "put_key k v m = (k, v) # filter (\<lambda>(k', _). k' \<noteq> k) m"

definition annotated :: "worker_codec \<Rightarrow> step_request \<Rightarrow> bool \<Rightarrow> step_result \<Rightarrow> step_result" where
  "annotated codec rq reconciling result =
     result\<lparr>sr_Summary :=
       (if reconciling then put_key ''reconciled_after_worker_loss'' ''true'' else (\<lambda>m. m))
         (put_key ''diagnostic_attempt'' (show_int (rq_StepAttempt rq))
           (put_key ''logical_operation_id'' (wk_Quote codec (rq_LogicalOperationID rq)) (sr_Summary result)))\<rparr>"

definition decided :: "decision \<Rightarrow> step_result \<Rightarrow> step_result" where
  "decided d result =
     result\<lparr>sr_PolicyDecision := Some d,
       sr_Verification := (sr_Verification result)\<lparr>vr_PolicyDecisionDigest := de_PolicyDecisionDigest d\<rparr>,
       sr_OutputDigest := de_PolicyDecisionDigest d\<rparr>"

text \<open>The evaluation of the policy, on the ledger's exceptions and at the time it is done.\<close>

definition evaluated ::
  "worker_env \<Rightarrow> candidate_row \<Rightarrow> policy_row \<Rightarrow> step_result \<Rightarrow> (step_request, evidence_error, step_result) act" where
  "evaluated env c p result =
     act_bind (case sr_PolicyInput result of
         None \<Rightarrow> act_return result
       | Some given \<Rightarrow> act_bind (mergePersistedExceptions env c given) (\<lambda>merged.
           act_return (result\<lparr>sr_PolicyInput := Some merged\<rparr>))) (\<lambda>merged.
     act_bind (act_now (we_Supply env)) (\<lambda>now.
     case trustedPolicyDecision (we_Codec env) c p merged now of
       Inl e \<Rightarrow> act_fail e
     | Inr d \<Rightarrow> act_return (decided d merged)))"

text \<open>The judgement of a result that the executor returned without an error.\<close>

definition judged ::
  "worker_env \<Rightarrow> build_row \<Rightarrow> candidate_row \<Rightarrow> policy_row \<Rightarrow> step \<Rightarrow> step_result
     \<Rightarrow> (step_request, worker_error list, step_result \<times> evidence_error option) act" where
  "judged env b c p step result =
     act_try (if st_Key step = ''policy-evaluation'' then evaluated env c p result else act_return result) (\<lambda>r.
     case r of
       Inl e \<Rightarrow> act_return (result, Some e)
     | Inr final \<Rightarrow>
         act_try (if st_Key step = ''candidate-evidence-summary''
             then call_read (we_Supply env) CandidateUnreadable (GetCandidate (ct_ID c)) else act_return c) (\<lambda>r.
         act_return (case r of
             Inl e \<Rightarrow> (final, Some e)
           | Inr current \<Rightarrow> (final, validateStepResult (we_Codec env) step (br_ID b) current p final))))"

definition error_columns :: "worker_codec \<Rightarrow> exec_error option \<Rightarrow> evidence_error option \<Rightarrow> string \<times> string" where
  "error_columns codec failed invalid =
     (case failed of
        Some (ExecReconcile t) \<Rightarrow> (''reconciliation_required'', wk_RedactText codec t)
      | Some (ExecTimeout t) \<Rightarrow> (''timeout'', wk_RedactText codec t)
      | Some (ExecFailed t) \<Rightarrow> (''execution_failed'', wk_RedactText codec t)
      | None \<Rightarrow> (case invalid of
            None \<Rightarrow> ([], [])
          | Some e \<Rightarrow> (''invalid_evidence'', wk_RedactText codec (wk_Describe codec e))))"

definition evidence_update ::
  "worker_codec \<Rightarrow> step_row \<Rightarrow> step_result \<Rightarrow> string \<Rightarrow> string \<times> string \<Rightarrow> step_row" where
  "evidence_update codec record_row result encoded err =
     record_row\<lparr>bt_OutputURI := wk_RedactURI codec (sr_OutputURI result), bt_OutputDigest := sr_OutputDigest result,
       bt_SummaryJSON := encoded,
       bt_RetentionClass := (if sr_RetentionClass result \<noteq> [] then sr_RetentionClass result
                             else bt_RetentionClass record_row),
       bt_RetainUntil := sr_RetainUntil result, bt_Protected := sr_Protected result,
       bt_ErrorClass := fst err, bt_ErrorDetail := wk_RedactText codec (snd err)\<rparr>"

definition persistEvidence ::
  "worker_env \<Rightarrow> build_row \<Rightarrow> step_row \<Rightarrow> step_result \<Rightarrow> string \<times> string \<Rightarrow> step_row worker_act" where
  "persistEvidence env b record_row result err =
     (case wk_EncodeEvidence (we_Codec env) (bt_SummaryJSON record_row) result of
        None \<Rightarrow> act_fail [SummaryUnreadable]
      | Some encoded \<Rightarrow>
          call_store (we_Supply env) wrap_call (\<lambda>uuids now. UpdateBuildStepEvidence (uuids 0) now
            (evidence_update (we_Codec env) record_row result encoded err) (bt_Version record_row)
            (stepCommand env b record_row ''evidence'' ''structured release step evidence recorded'')))"

definition move_step :: "worker_env \<Rightarrow> build_row \<Rightarrow> step_row \<Rightarrow> build_state \<Rightarrow> string \<Rightarrow> string \<Rightarrow> step_row worker_act" where
  "move_step env b s to phase reason =
     call_store (we_Supply env) wrap_call (\<lambda>uuids now.
       TransitionBuildStep (uuids 0) now (bt_ID s) (bt_Version s) to (stepCommand env b s phase reason))"

definition begin_step :: "worker_env \<Rightarrow> build_row \<Rightarrow> step_row \<Rightarrow> step_row worker_act" where
  "begin_step env b s =
     (if bt_State s = BuildRunning then act_return s
      else if bt_State s \<noteq> BuildQueued then act_fail [StepState (bt_StepKey s) (bt_State s)]
      else move_step env b s BuildRunning ''start'' ''release step execution started'')"

definition request_of ::
  "worker_codec \<Rightarrow> build_row \<Rightarrow> candidate_row \<Rightarrow> policy_row \<Rightarrow> step \<Rightarrow> step_row
     \<Rightarrow> (string \<times> dependency_evidence) list \<Rightarrow> step_request" where
  "request_of codec b c p step running dependencies =
     (let rq = \<lparr>rq_BuildRunID = br_ID b, rq_CandidateID = ct_ID c, rq_BuildAttempt = br_Attempt b, rq_Step = step,
        rq_StepAttempt = bt_Attempt running, rq_LogicalOperationID = [],
        rq_DefinitionCommit = EffectiveDefinitionCommit c, rq_LockDigest = ct_LockDigest c,
        rq_PolicyID = pl_ID p, rq_PolicyRevision = pl_Revision p, rq_PlatformsJSON = br_PlatformsJSON b,
        rq_Dependencies = dependencies\<rparr>
      in rq\<lparr>rq_LogicalOperationID := DeriveLogicalOperationID codec rq\<rparr>)"

text \<open>A cause of the context ends the step without a result: a cancelled step is recorded as such.\<close>

definition interrupted :: "worker_env \<Rightarrow> build_row \<Rightarrow> step_row \<Rightarrow> worker_error \<Rightarrow> unit worker_act" where
  "interrupted env b running cause =
     (if cause = ErrLeaseLost then act_fail [ErrLeaseLost]
      else if cause = ErrCancellationRequested
      then
        act_bind (checkLeaseAllowCancellation env b) (\<lambda>_.
        act_try (move_step env b running BuildCancelled ''cancel'' ''release step cancelled by operator'') (\<lambda>r.
        act_fail (ErrCancellationRequested # (case r of Inl e \<Rightarrow> e | Inr _ \<Rightarrow> []))))
      else act_fail [cause])"

text \<open>The end of a step: under the lease, its evidence and its state, then its files and the decision.\<close>

definition conclude ::
  "worker_env \<Rightarrow> build_row \<Rightarrow> candidate_row \<Rightarrow> step \<Rightarrow> step_row \<Rightarrow> step_result \<Rightarrow> string \<times> string \<Rightarrow> unit worker_act" where
  "conclude env b c step running result err =
     act_bind (checkLease env b) (\<lambda>_.
     act_bind (persistEvidence env b running result err) (\<lambda>updated.
     let target = (if fst err = [] then BuildCompleted else BuildFailed) in
     act_bind (move_step env b updated target ''finish''
        (if fst err = [] then ''release step completed'' else ''release step failed'')) (\<lambda>_.
     if target \<noteq> BuildCompleted then act_return ()
     else
       act_bind (act_ask (we_Files env)) (\<lambda>ok.
       if \<not> ok then act_fail [EvidenceFiles]
       else if st_Key step = ''policy-evaluation''
       then recordPolicyDecision env (ct_ID c) (vr_PolicyDecisionDigest (sr_Verification result))
       else act_return ()))))"

definition executeStep ::
  "worker_env \<Rightarrow> build_row \<Rightarrow> candidate_row \<Rightarrow> policy_row \<Rightarrow> (string \<times> logical_step) list \<Rightarrow> step \<Rightarrow> step_row
     \<Rightarrow> unit worker_act" where
  "executeStep env b c p logical step record_row =
     act_bind (checkLease env b) (\<lambda>_.
     case directDependencyEvidence step logical of
       Inl e \<Rightarrow> act_fail [PlanFault e]
     | Inr dependencies \<Rightarrow>
         act_bind (begin_step env b record_row) (\<lambda>running.
         let rq = request_of (we_Codec env) b c p step running dependencies in
         act_bind (act_record rq) (\<lambda>_.
         act_bind (act_ask (\<lambda>n. we_Execute env n rq)) (\<lambda>(raw, failed).
         let result = annotated (we_Codec env) rq (bt_State record_row = BuildRunning) raw in
         act_bind (act_ask (we_Cause env)) (\<lambda>cause.
         case cause of
           Some e \<Rightarrow> interrupted env b running e
         | None \<Rightarrow>
             act_bind (case failed of
                 Some _ \<Rightarrow> act_return (result, None)
               | None \<Rightarrow> judged env b c p step result) (\<lambda>(final, invalid).
             conclude env b c step running final (error_columns (we_Codec env) failed invalid)))))))"

text \<open>The steps of a batch all run; their errors are joined.\<close>

definition executeBatch ::
  "worker_env \<Rightarrow> build_row \<Rightarrow> candidate_row \<Rightarrow> policy_row \<Rightarrow> (string \<times> logical_step) list \<Rightarrow> step list \<Rightarrow> unit worker_act" where
  "executeBatch env b c p logical batch =
     join_all (map (\<lambda>s. case latestAttempt (map_of logical (st_Key s)) of
         None \<Rightarrow> act_return ()
       | Some record_row \<Rightarrow> executeStep env b c p logical s record_row) batch)"

end
