(* ===== verification/WorkerRun.thy ===== *)
theory WorkerRun
  imports WorkerSteps
begin

text \<open>
  A claimed build from its claim to its end (\<open>executePlan\<close>, \<open>processClaim\<close>, \<open>claimAndRun\<close> in
  \<open>internal/scannerreleaseworker/worker.go\<close>). The loop over the plan may run forever when other processes
  keep changing the steps: a program with such a loop is \<open>None\<close> where it does not end.
\<close>

section \<open>Recovery and evidence of earlier attempts\<close>

definition retry_row :: "worker_codec \<Rightarrow> build_row \<Rightarrow> string \<Rightarrow> logical_step \<Rightarrow> step_row \<Rightarrow> string \<Rightarrow> step_row" where
  "retry_row codec b key l s uuid =
     \<lparr>bt_ID = uuid, bt_BuildRunID = br_ID b, bt_StepKey = key, bt_State = BuildQueued,
      bt_Attempt = bt_Attempt s + 1, bt_OutputURI = [], bt_OutputDigest = [],
      bt_SummaryJSON = wk_EncodeMetadata codec (lg_Metadata l), bt_RetentionClass = bt_RetentionClass s,
      bt_RetainUntil = None, bt_Protected = bt_Protected s, bt_ErrorClass = [], bt_ErrorDetail = [],
      bt_Version = 0, bt_StartedAt = None, bt_CompletedAt = None, bt_CreatedAt = 0, bt_UpdatedAt = 0\<rparr>"

definition retry_step :: "worker_env \<Rightarrow> build_row \<Rightarrow> string \<times> logical_step \<Rightarrow> unit worker_act" where
  "retry_step env b entry =
     (case latestAttempt (Some (snd entry)) of
        None \<Rightarrow> act_return ()
      | Some s \<Rightarrow>
          if \<not> retryable (we_MaxAttempts env) (snd entry) s then act_return ()
          else
            act_bind (act_uuids (we_Supply env)) (\<lambda>uuids.
            let row = retry_row (we_Codec env) b (fst entry) (snd entry) s (uuids 0) in
            act_bind (call_tx (we_Supply env) wrap_call (\<lambda>fresh now.
              CreateBuildStep fresh now row (stepCommand env b row ''retry'' ''retryable release step requeued'')))
              (\<lambda>_. act_return ())))"

definition by_key :: "(string \<times> logical_step) list \<Rightarrow> (string \<times> logical_step) list" where
  "by_key logical = sort_key fst logical"

definition recoverOrRetrySteps :: "worker_env \<Rightarrow> build_row \<Rightarrow> (string \<times> logical_step) list \<Rightarrow> unit worker_act" where
  "recoverOrRetrySteps env b logical = act_list (retry_step env b) (by_key logical)"

definition rehydrate_step ::
  "worker_env \<Rightarrow> candidate_row \<Rightarrow> policy_row \<Rightarrow> string \<times> logical_step \<Rightarrow> unit worker_act" where
  "rehydrate_step env c p entry =
     (case latestAttempt (Some (snd entry)) of
        None \<Rightarrow> act_return ()
      | Some s \<Rightarrow>
          if bt_State s \<noteq> BuildCompleted then act_return ()
          else case wk_Evidence (we_Codec env) (bt_SummaryJSON s) of
            None \<Rightarrow> act_fail [EvidenceFiles]
          | Some v \<Rightarrow>
              if \<not> digestPattern (bt_OutputDigest s) \<or> \<not> same_binding v c p then act_fail [EvidenceFiles]
              else act_bind (act_ask (we_Files env)) (\<lambda>ok.
                   if ok then act_return () else act_fail [EvidenceFiles]))"

definition rehydrateWorkspaceEvidence ::
  "worker_env \<Rightarrow> candidate_row \<Rightarrow> policy_row \<Rightarrow> (string \<times> logical_step) list \<Rightarrow> unit worker_act" where
  "rehydrateWorkspaceEvidence env c p logical = act_list (rehydrate_step env c p) (by_key logical)"

section \<open>The plan\<close>

definition list_steps :: "worker_env \<Rightarrow> build_row \<Rightarrow> step_row list worker_act" where
  "list_steps env b = call_read (we_Supply env) wrap_call (\<lambda>db. Inr (ListBuildSteps (br_ID b) db))"

definition restored ::
  "worker_env \<Rightarrow> build_row \<Rightarrow> (plan \<times> (string \<times> logical_step) list) worker_act" where
  "restored env b =
     act_bind (list_steps env b) (\<lambda>records.
     case restorePlan (wk_Metadata (we_Codec env)) records of
       Inl e \<Rightarrow> act_fail [PlanFault e]
     | Inr found \<Rightarrow> act_return found)"

definition exhaustion :: "worker_codec \<Rightarrow> string \<times> step_row \<Rightarrow> worker_error list" where
  "exhaustion codec failed =
     (let s = snd failed;
          context = StepExhausted (fst failed) (bt_Attempt s) (wk_RedactText codec (bt_ErrorDetail s)) in
      if bt_ErrorClass s = ''reconciliation_required'' then [ErrReconciliationRequired, context] else [context])"

text \<open>The decision of one turn of the loop on the refreshed steps: an error, the end, or the next batch.
  \<open>ranged\<close> is the order in which Go ranges over the logical steps.\<close>

definition next_batch ::
  "worker_env \<Rightarrow> plan \<Rightarrow> (string \<times> logical_step) list \<Rightarrow> (string \<times> logical_step) list
     \<Rightarrow> worker_error list + step list option" where
  "next_batch env plan logical ranged =
     (case exhausted_step ranged of
        Some failed \<Rightarrow> Inl (exhaustion (we_Codec env) failed)
      | None \<Rightarrow>
          if list_all (completed_key logical) (map fst logical) then Inr None
          else case Ready plan (completed_key logical) (\<lambda>_. False) of
            Inl e \<Rightarrow> Inl [PlanFault (BadPlan e)]
          | Inr ready \<Rightarrow>
              let batch = selectBatch (we_MaxParallel env) ready in
              if batch = [] then Inl [PlanFault NothingRunnable] else Inr (Some batch))"

definition plan_round :: "worker_env \<Rightarrow> build_row \<Rightarrow> candidate_row \<Rightarrow> policy_row \<Rightarrow> bool worker_act" where
  "plan_round env b c p =
     act_bind (checkLease env b) (\<lambda>_.
     act_bind (restored env b) (\<lambda>(_, before).
     act_bind (recoverOrRetrySteps env b before) (\<lambda>_.
     act_bind (restored env b) (\<lambda>(plan, logical).
     act_bind (rehydrateWorkspaceEvidence env c p logical) (\<lambda>_.
     act_bind (act_ask (we_Range env)) (\<lambda>range.
     case next_batch env plan logical (range logical) of
       Inl e \<Rightarrow> act_fail e
     | Inr None \<Rightarrow> act_return True
     | Inr (Some batch) \<Rightarrow>
         act_bind (executeBatch env b c p logical batch) (\<lambda>_. act_return False)))))))"

text \<open>Programs that may not end.\<close>

type_synonym 'a looping =
  "step_request supply_world \<Rightarrow> ((worker_error list + 'a) \<times> step_request supply_world) option"

definition ends :: "'a worker_act \<Rightarrow> 'a looping" where
  "ends m w = Some (m w)"

definition loop_bind :: "'a looping \<Rightarrow> ('a \<Rightarrow> 'b looping) \<Rightarrow> 'b looping" where
  "loop_bind m f w =
     (case m w of None \<Rightarrow> None | Some (Inl e, w') \<Rightarrow> Some (Inl e, w') | Some (Inr a, w') \<Rightarrow> f a w')"

definition loop_try :: "'a looping \<Rightarrow> (worker_error list + 'a \<Rightarrow> 'b looping) \<Rightarrow> 'b looping" where
  "loop_try m f w = (case m w of None \<Rightarrow> None | Some (r, w') \<Rightarrow> f r w')"

partial_function (option) executePlan ::
  "worker_env \<Rightarrow> build_row \<Rightarrow> candidate_row \<Rightarrow> policy_row \<Rightarrow> step_request supply_world
     \<Rightarrow> ((worker_error list + unit) \<times> step_request supply_world) option" where
  "executePlan env b c p w =
     (case plan_round env b c p w of
        (Inl e, w') \<Rightarrow> Some (Inl e, w')
      | (Inr finished, w') \<Rightarrow> if finished then Some (Inr (), w') else executePlan env b c p w')"

declare executePlan.simps [code]

section \<open>The claim\<close>

text \<open>The candidate, when it could be read, and the policy or what is wrong with them.\<close>

definition validateCandidateSnapshot ::
  "worker_env \<Rightarrow> build_row \<Rightarrow> (candidate_row option \<times> (worker_error list + policy_row)) worker_act" where
  "validateCandidateSnapshot env b =
     act_try (get_candidate env (br_CandidateID b)) (\<lambda>r. case r of
       Inl e \<Rightarrow> act_return (None, Inl e)
     | Inr c \<Rightarrow>
         if ct_DefinitionCommit c = [] \<or> \<not> digestPattern (ct_LockDigest c) \<or> ct_PolicyID c = [] \<or>
            ct_PolicyRevision c \<le> 0
         then act_return (Some c, Inl [SnapshotInvalid])
         else
           act_try (call_read (we_Supply env) wrap_call (GetPolicy (ct_PolicyID c))) (\<lambda>r.
           act_return (Some c, case r of
             Inl e \<Rightarrow> Inl e
           | Inr p \<Rightarrow> if pl_Revision p \<noteq> ct_PolicyRevision c \<or> \<not> pl_Enabled p then Inl [SnapshotInvalid]
                     else Inr p)))"

definition latest_completed :: "string \<Rightarrow> step_row list \<Rightarrow> step_row option" where
  "latest_completed key steps =
     foldl (\<lambda>selected s.
         if bt_StepKey s \<noteq> key \<or> bt_State s \<noteq> BuildCompleted then selected
         else case selected of
           None \<Rightarrow> Some s
         | Some t \<Rightarrow> if bt_Attempt t < bt_Attempt s then Some s else selected) None steps"

definition recorded_decision :: "worker_codec \<Rightarrow> step_row list \<Rightarrow> decision option" where
  "recorded_decision codec steps =
     (case latest_completed ''policy-evaluation'' steps of
        None \<Rightarrow> None
      | Some s \<Rightarrow>
          (case wk_Decision codec (bt_SummaryJSON s) of
             Some (Some d) \<Rightarrow>
               if digestPattern (de_PolicyDecisionDigest d) \<and> de_Outcome d \<noteq> OutcomeNone then Some d else None
           | _ \<Rightarrow> None))"

definition loadPolicyDecision :: "worker_env \<Rightarrow> build_row \<Rightarrow> decision worker_act" where
  "loadPolicyDecision env b =
     act_bind (list_steps env b) (\<lambda>steps.
     case recorded_decision (we_Codec env) steps of
       None \<Rightarrow> act_fail [NoDecision] | Some d \<Rightarrow> act_return d)"

definition loadPublicationReceiptDigest :: "worker_env \<Rightarrow> build_row \<Rightarrow> string worker_act" where
  "loadPublicationReceiptDigest env b =
     act_bind (list_steps env b) (\<lambda>steps.
     case latest_completed ''candidate-evidence-summary'' steps of
       None \<Rightarrow> act_fail [NoReceiptDigest]
     | Some s \<Rightarrow>
         if digestPattern (bt_OutputDigest s) then act_return (bt_OutputDigest s) else act_fail [NoReceiptDigest])"

definition error_list :: "'e list + 'a \<Rightarrow> 'e list" where
  "error_list r = (case r of Inl es \<Rightarrow> es | Inr _ \<Rightarrow> [])"

definition joined :: "'e list \<Rightarrow> ('r, 'e list, unit) act" where
  "joined es = (if es = [] then act_return () else act_fail es)"

definition cleanup :: "worker_env \<Rightarrow> unit worker_act" where
  "cleanup env = act_bind (act_ask (we_Cleanup env)) (\<lambda>ok. if ok then act_return () else act_fail [CleanupFailed])"

text \<open>A build that ends: it is finalized, its candidate is marked whether or not that worked, and the files
  of a finalized build are removed. The errors are joined.\<close>

definition close_build ::
  "worker_env \<Rightarrow> build_row \<Rightarrow> build_state \<Rightarrow> worker_error list \<Rightarrow> unit worker_act \<Rightarrow> unit worker_act" where
  "close_build env b target cause mark =
     act_try (finalizeBuild env b target) (\<lambda>f.
     act_try mark (\<lambda>m.
     act_try (if isl f then act_return () else cleanup env) (\<lambda>r.
     joined (cause @ error_list f @ error_list m @ error_list r))))"

text \<open>The start of a claim: the build and its candidate are valid, the lease is held and the build runs.
  \<open>Inl\<close> is the end of the claim, with its error.\<close>

definition claim_prologue ::
  "worker_env \<Rightarrow> build_row \<Rightarrow> (unit + build_row \<times> candidate_row \<times> policy_row) worker_act" where
  "claim_prologue env b =
     (let ended = (\<lambda>m. act_bind m (\<lambda>_. act_return (Inl ()))) in
      act_bind (validateCandidateSnapshot env b) (\<lambda>(found, snapshot).
      case (found, snapshot) of
        (None, _) \<Rightarrow> ended (close_build env b BuildFailed (error_list snapshot) (act_return ()))
      | (Some c, Inl e) \<Rightarrow> ended (close_build env b BuildFailed e (markCandidateFailed env (ct_ID c) e))
      | (Some c, Inr p) \<Rightarrow>
          act_try (checkLease env b) (\<lambda>r. case r of
            Inl e \<Rightarrow>
              if ErrCancellationRequested \<in> set e
              then ended (close_build env b BuildCancelled []
                     (markCandidateBlocked env (ct_ID c) ''build cancelled before execution''))
              else act_fail e
          | Inr status \<Rightarrow>
              act_bind (call_store (we_Supply env) wrap_call (\<lambda>uuids now.
                TransitionBuildRun (uuids 0) now (br_ID b) (lt_Version status) BuildRunning
                  (buildCommand env b ''start'' ''release build execution started''))) (\<lambda>running.
              act_try (markCandidateStarted env c) (\<lambda>r. case r of
                Inl e \<Rightarrow> ended (close_build env running BuildFailed e (act_return ()))
              | Inr started \<Rightarrow>
                  act_bind (act_ask (we_Workspace env)) (\<lambda>ok.
                  if ok then act_return (Inr (running, started, p))
                  else ended (close_build env running BuildFailed [WorkspaceFailed]
                         (markCandidateFailed env (ct_ID c) [WorkspaceFailed]))))))))"

text \<open>The candidate after a completed build, by the decision of the policy.\<close>

definition failing_on :: "worker_env \<Rightarrow> string \<Rightarrow> 'a worker_act \<Rightarrow> ('a \<Rightarrow> unit looping) \<Rightarrow> unit looping" where
  "failing_on env candidateID m f =
     loop_try (ends m) (\<lambda>r. case r of
       Inl e \<Rightarrow> ends (act_try (markCandidateFailed env candidateID e) (\<lambda>m. joined (e @ error_list m)))
     | Inr a \<Rightarrow> f a)"

definition mark_by_decision :: "worker_env \<Rightarrow> build_row \<Rightarrow> string \<Rightarrow> unit looping" where
  "mark_by_decision env b candidateID =
     failing_on env candidateID (loadPolicyDecision env b) (\<lambda>d.
     if de_Outcome d = OutcomeBlocked
     then ends (markCandidatePolicyBlocked env candidateID (de_BlockingReasons d))
     else
       loop_bind (markCandidateAwaitingApproval env candidateID) (\<lambda>_.
       if de_Outcome d = OutcomeAutoApproved
       then failing_on env candidateID (loadPublicationReceiptDigest env b) (\<lambda>receiptDigest.
            ends (markCandidateAutoApproved env candidateID d receiptDigest))
       else ends (act_return ())))"

definition claim_epilogue ::
  "worker_env \<Rightarrow> build_row \<Rightarrow> candidate_row \<Rightarrow> worker_error list + unit \<Rightarrow> unit looping" where
  "claim_epilogue env b c outcome =
     (case outcome of
        Inr _ \<Rightarrow>
          loop_bind (ends (finalizeBuild env b BuildCompleted)) (\<lambda>updated.
          loop_try (mark_by_decision env updated (ct_ID c)) (\<lambda>r.
          ends (act_try (cleanup env) (\<lambda>k. joined (error_list r @ error_list k)))))
      | Inl e \<Rightarrow>
          if ErrCancellationRequested \<in> set e
          then ends (close_build env b BuildCancelled []
                 (markCandidateBlocked env (ct_ID c) ''build cancelled by operator''))
          else if ErrLeaseLost \<in> set e then ends (act_fail [ErrLeaseLost])
          else if ContextCanceled \<in> set e \<or> ErrDrainDeadline \<in> set e then ends (act_fail e)
          else ends (close_build env b BuildFailed e (markCandidateFailed env (ct_ID c) e)))"

text \<open>A cause that ended the context counts only when the plan itself returned no error.\<close>

definition processClaim :: "worker_env \<Rightarrow> build_row \<Rightarrow> unit looping" where
  "processClaim env b =
     loop_bind (ends (claim_prologue env b)) (\<lambda>start. case start of
       Inl _ \<Rightarrow> ends (act_return ())
     | Inr (running, c, p) \<Rightarrow>
         loop_try (executePlan env running c p) (\<lambda>r.
         loop_bind (ends (act_ask (we_Cause env))) (\<lambda>cause.
         claim_epilogue env running c (case (r, cause) of (Inr _, Some e) \<Rightarrow> Inl [e] | _ \<Rightarrow> r))))"

text \<open>One pass: what lapsed is reclaimed, the next build is claimed and run. The answer says whether a build
  was claimed.\<close>

definition claimAndRun :: "worker_env \<Rightarrow> bool looping" where
  "claimAndRun env =
     loop_bind (ends (act_now (we_Supply env))) (\<lambda>now.
     loop_bind (ends (call_tx (we_Supply env) wrap_call (\<lambda>uuids clock. ReclaimStaleBuildRuns uuids clock now)))
       (\<lambda>_.
     loop_bind (ends (call_tx (we_Supply env) wrap_call (\<lambda>uuids clock.
         ClaimNextBuildRun (wk_Platforms (we_Codec env)) (uuids 0) (uuids 1) clock (we_WorkerID env)
           (we_Supported env) (now + we_Lease env)))) (\<lambda>claimed.
     case claimed of
       None \<Rightarrow> ends (act_return False)
     | Some b \<Rightarrow>
         loop_bind (ends (act_ask (we_Trace env))) (\<lambda>traced.
         if \<not> traced then ends (act_fail [TraceFailed])
         else loop_bind (processClaim env b) (\<lambda>_. ends (act_return True))))))"

section \<open>The configuration\<close>

record worker_config =
  wc_Store :: bool
  wc_Executor :: bool
  wc_WorkerID :: string
  wc_MaxParallelSteps :: int
  wc_MaxStepAttempts :: int
  wc_PollInterval :: duration
  wc_HeartbeatInterval :: duration
  wc_LeaseDuration :: duration
  wc_DrainTimeout :: duration
  wc_WorkspaceRoot :: string
  wc_SupportedPlatforms :: "string list"

definition with_fallback :: "int \<Rightarrow> int \<Rightarrow> int" where
  "with_fallback fallback n = (if n = 0 then fallback else n)"

text \<open>The zero of a field asks for its default; the temporary directory is the process's.\<close>

definition with_defaults :: "string \<Rightarrow> worker_config \<Rightarrow> worker_config" where
  "with_defaults tmp c =
     c\<lparr>wc_MaxParallelSteps := with_fallback 2 (wc_MaxParallelSteps c),
       wc_MaxStepAttempts := with_fallback 2 (wc_MaxStepAttempts c),
       wc_PollInterval := with_fallback (2 * second) (wc_PollInterval c),
       wc_HeartbeatInterval := with_fallback (10 * second) (wc_HeartbeatInterval c),
       wc_LeaseDuration := with_fallback (45 * second) (wc_LeaseDuration c),
       wc_DrainTimeout := with_fallback (120 * second) (wc_DrainTimeout c),
       wc_WorkspaceRoot := (if wc_WorkspaceRoot c = [] then tmp @ ''/wolf-scanner-release-workspaces''
                            else wc_WorkspaceRoot c)\<rparr>"

datatype config_error =
    NoStore | NoExecutor | NoWorkerID | BadParallel | BadAttempts | BadPoll | BadHeartbeat | BadLease
  | BadDrain | RelativeRoot | EmptyPlatform | DuplicatePlatform string

fun platform_fault :: "string list \<Rightarrow> string list \<Rightarrow> config_error option" where
  "platform_fault seen [] = None"
| "platform_fault seen (p # ps) =
     (if p = [] then Some EmptyPlatform
      else if contains_elem seen p then Some (DuplicatePlatform p) else platform_fault (p # seen) ps)"

definition NewWorker :: "string \<Rightarrow> worker_config \<Rightarrow> config_error + worker_config" where
  "NewWorker tmp given =
     (if \<not> wc_Store given then Inl NoStore
      else if \<not> wc_Executor given then Inl NoExecutor
      else if wc_WorkerID given = [] then Inl NoWorkerID
      else
        let c = with_defaults tmp given in
        if wc_MaxParallelSteps c < 1 \<or> 64 < wc_MaxParallelSteps c then Inl BadParallel
        else if wc_MaxStepAttempts c < 1 \<or> 10 < wc_MaxStepAttempts c then Inl BadAttempts
        else if wc_PollInterval c \<le> 0 then Inl BadPoll
        else if wc_HeartbeatInterval c \<le> 0 then Inl BadHeartbeat
        else if wc_LeaseDuration c \<le> wrap64 (wc_HeartbeatInterval c * 2) then Inl BadLease
        else if wc_DrainTimeout c \<le> 0 then Inl BadDrain
        else if \<not> has_prefix (wc_WorkspaceRoot c) ''/'' then Inl RelativeRoot
        else case platform_fault [] (wc_SupportedPlatforms c) of Some e \<Rightarrow> Inl e | None \<Rightarrow> Inr c)"

end
