(* ===== verification/SupplyLog.thy ===== *)
theory SupplyLog
  imports SupplyCalls
begin

text \<open>
  The event log of the candidate store as a record of its commands: every transaction only appends to it,
  so what a command logged stays logged. A transition whose command is logged changes nothing; an update of
  a proposal, which does not look for its command, cannot commit a second time.
\<close>

section \<open>Logs of commands\<close>

locale command_log =
  fixes step :: "'s \<Rightarrow> 's \<Rightarrow> bool"
    and logged :: "'s \<Rightarrow> 'k \<Rightarrow> 'e option"
    and effect :: "'k \<Rightarrow> 's \<Rightarrow> 's \<Rightarrow> bool"
  assumes logged_kept: "step s s' \<Longrightarrow> logged s k = Some e \<Longrightarrow> logged s' k = Some e"
    and effect_needs_new: "effect k s s' \<Longrightarrow> logged s k = None"
    and effect_logs: "effect k s s' \<Longrightarrow> \<exists>e. logged s' k = Some e"
begin

lemma run_keeps_logged: "step\<^sup>*\<^sup>* s s' \<Longrightarrow> logged s k = Some e \<Longrightarrow> logged s' k = Some e"
  by (induction rule: rtranclp_induct) (auto dest: logged_kept)

lemma logged_has_no_effect: "logged s k = Some e \<Longrightarrow> step\<^sup>*\<^sup>* s s1 \<Longrightarrow> \<not> effect k s1 s2"
  using run_keeps_logged effect_needs_new by fastforce

lemma effect_once: "effect k s s1 \<Longrightarrow> step\<^sup>*\<^sup>* s1 s2 \<Longrightarrow> \<not> effect k s2 s3"
  using effect_logs logged_has_no_effect by blast

end

section \<open>Every transaction appends to the log\<close>

definition log_grows :: "supply_db \<Rightarrow> supply_db \<Rightarrow> bool" where
  "log_grows db db' \<longleftrightarrow> (\<exists>es. sd_Events db' = sd_Events db @ es)"

lemma log_grows_refl [simp]: "sd_Events db' = sd_Events db \<Longrightarrow> log_grows db db'"
  by (simp add: log_grows_def)

lemma log_grows_trans: "log_grows db db1 \<Longrightarrow> log_grows db1 db2 \<Longrightarrow> log_grows db db2"
  by (auto simp: log_grows_def)

lemma append_event_grows: "append_event uuid ty i ev s t cmd now db = Inr db' \<Longrightarrow> log_grows db db'"
  by (auto simp: log_grows_def dest: append_event_Inr)

lemma then_event_grows:
  assumes "append_event uuid ty i ev s t cmd now db1 = Inr db2" "sd_Events db1 = sd_Events db"
  shows "log_grows db db2"
  using append_event_grows [OF assms(1)] assms(2) by (simp add: log_grows_def)

lemma exec_builds_events: "exec_builds cond f db = Inr (one, db') \<Longrightarrow> sd_Events db' = sd_Events db"
  by (simp add: exec_builds_Inr)

lemma transition_grows:
  assumes "transition_row t uuid now i v to cmd db = Inr (b, db')"
    and "\<And>rows db. sd_Events (vt_Put t rows db) = sd_Events db"
  shows "log_grows db db'"
  using assms
  by (auto simp: transition_row_def and_then_Inr sd_checked_Inr split: option_sum_splits dest: then_event_grows)

lemma claim_grows: "claim_queued codec uuid token w ps now until bs db = Inr (x, db') \<Longrightarrow> log_grows db db'"
proof (induction bs arbitrary: db)
  case (Cons b bs)
  show ?case using Cons.prems unfolding claim_queued.simps
    apply (elim and_then_InrE)
    subgoal for compatible
      apply (cases compatible; simp)
       apply (elim and_then_InrE)
      subgoal for p
        apply (cases p; cases "fst p"; simp)
         apply (elim and_then_InrE; simp)
         apply (erule then_event_grows, erule exec_builds_events)
        apply (rule log_grows_trans, rule log_grows_refl, erule exec_builds_events, erule Cons.IH)
        done
      apply (erule Cons.IH)
      done
    done
qed simp

lemma reclaim_grows: "reclaim_builds uuids now n bs db = Inr (x, db') \<Longrightarrow> log_grows db db'"
proof (induction bs arbitrary: n db)
  case (Cons b bs)
  show ?case using Cons.prems unfolding reclaim_builds.simps
    apply (elim and_then_InrE)
    subgoal for p
      apply (cases p; cases "fst p"; simp)
       apply (elim and_then_InrE)
       apply (rule log_grows_trans, erule then_event_grows, erule exec_builds_events, erule Cons.IH)
      apply (rule log_grows_trans, rule log_grows_refl, erule exec_builds_events, erule Cons.IH)
      done
    done
qed simp

lemma new_build_grows: "insert_build uuid b cmd db = Inr (x, db') \<Longrightarrow> log_grows db db'"
  by (auto simp: insert_build_def and_then_Inr sd_checked_Inr split: option_sum_splits dest: then_event_grows)

lemma new_step_grows: "insert_new_step uuid s cmd db = Inr db' \<Longrightarrow> log_grows db db'"
  by (auto simp: insert_new_step_def and_then_Inr sd_checked_Inr dest: then_event_grows)

lemma plan_grows: "plan_steps uuids now run cmd n seen steps db = Inr db' \<Longrightarrow> log_grows db db'"
proof (induction steps arbitrary: n seen db)
  case (Cons step steps)
  then show ?case
    by (auto simp: Let_def and_then_Inr split: option_sum_splits
        intro: log_grows_trans [OF new_step_grows])
qed simp

lemma creations_grow:
  "CreatePolicy uuid now p db = Inr (xp, db') \<Longrightarrow> log_grows db db'"
  "CreateCandidate uuids now c cmd db = Inr (xc, db') \<Longrightarrow> log_grows db db'"
  "AddApproval uuid now a db = Inr (xa, db') \<Longrightarrow> log_grows db db'"
  "CreateBuildRun codec uuids now r cmd db = Inr (xb, db') \<Longrightarrow> log_grows db db'"
  "CreateBuildPlan codec uuids now r ss cmd db = Inr (xb, db') \<Longrightarrow> log_grows db db'"
  "CreateBuildStep uuids now s cmd db = Inr (xs, db') \<Longrightarrow> log_grows db db'"
proof -
  show "CreatePolicy uuid now p db = Inr (xp, db') \<Longrightarrow> log_grows db db'"
    by (auto simp: CreatePolicy_def Let_def and_then_Inr sd_checked_Inr)
  show "CreateCandidate uuids now c cmd db = Inr (xc, db') \<Longrightarrow> log_grows db db'"
    by (auto simp: CreateCandidate_def Let_def and_then_Inr sd_checked_Inr split: option_sum_splits
        dest: then_event_grows)
  show "AddApproval uuid now a db = Inr (xa, db') \<Longrightarrow> log_grows db db'"
    by (auto simp: AddApproval_def Let_def and_then_Inr sd_checked_Inr split: option_sum_splits)
  show "CreateBuildRun codec uuids now r cmd db = Inr (xb, db') \<Longrightarrow> log_grows db db'"
    by (auto simp: CreateBuildRun_def Let_def and_then_Inr split: option_sum_splits dest: new_build_grows)
  show "CreateBuildPlan codec uuids now r ss cmd db = Inr (xb, db') \<Longrightarrow> log_grows db db'"
    by (auto simp: CreateBuildPlan_def Let_def and_then_Inr split: option_sum_splits
        intro: log_grows_trans [OF new_build_grows plan_grows])
  show "CreateBuildStep uuids now s cmd db = Inr (xs, db') \<Longrightarrow> log_grows db db'"
    by (auto simp: CreateBuildStep_def Let_def and_then_Inr split: option_sum_splits dest: new_step_grows)
qed

lemma updates_grow:
  "HeartbeatBuildRun i w token now until db = Inr (xl, db') \<Longrightarrow> log_grows db db'"
  "RequestBuildCancellation uuid now i cmd t db = Inr (xr, db') \<Longrightarrow> log_grows db db'"
  "update_candidate uuid now c v cmd db = Inr (b, db') \<Longrightarrow> log_grows db db'"
  "update_evidence uuid now s v cmd db = Inr (b, db') \<Longrightarrow> log_grows db db'"
proof -
  show "HeartbeatBuildRun i w token now until db = Inr (xl, db') \<Longrightarrow> log_grows db db'"
    by (cases "filter (holds_build i w token now) (sd_Builds db)")
       (auto simp: HeartbeatBuildRun_def and_then_Inr split: if_splits dest: exec_builds_events)
  show "RequestBuildCancellation uuid now i cmd t db = Inr (xr, db') \<Longrightarrow> log_grows db db'"
    by (auto simp: RequestBuildCancellation_def Let_def and_then_Inr split: option_sum_splits
        dest: then_event_grows dest!: exec_builds_events)
  show "update_candidate uuid now c v cmd db = Inr (b, db') \<Longrightarrow> log_grows db db'"
    by (auto simp: update_candidate_def Let_def and_then_Inr sd_checked_Inr split: option_sum_splits
        dest: then_event_grows)
  show "update_evidence uuid now s v cmd db = Inr (b, db') \<Longrightarrow> log_grows db db'"
    by (auto simp: update_evidence_def Let_def and_then_Inr sd_checked_Inr split: option_sum_splits
        dest: then_event_grows)
qed

lemma supply_step_log: "supply_step db db' \<Longrightarrow> log_grows db db'"
proof (induction rule: supply_step.induct)
  case (step_claim_build codec uuid token now w ps until db x db')
  then show ?case by (auto simp: ClaimNextBuildRun_def split: if_splits dest: claim_grows)
next
  case (step_reclaim_build uuids clock now db x db')
  then show ?case unfolding ReclaimStaleBuildRuns_def Let_def by (rule reclaim_grows)
qed (auto dest: creations_grow updates_grow transition_grows)

section \<open>Updates of proposals\<close>

text \<open>The log of the candidates by identifier and key.\<close>

definition candidate_log :: "supply_db \<Rightarrow> string \<times> string \<Rightarrow> event_row option" where
  "candidate_log db k = logged_command ''candidate'' (fst k) (snd k) db"

definition proposal_effect :: "string \<times> string \<Rightarrow> supply_db \<Rightarrow> supply_db \<Rightarrow> bool" where
  "proposal_effect k db db' \<longleftrightarrow>
     (\<exists>uuid now c v cmd b. update_candidate uuid now c v cmd db = Inr (b, db') \<and>
        ct_ID c = fst k \<and> cmd_IdempotencyKey cmd = snd k \<and> snd k \<noteq> [])"

lemma log_grows_logged: "log_grows db db' \<Longrightarrow> logged_command ty i key db = Some e \<Longrightarrow>
    logged_command ty i key db' = Some e"
  by (auto simp: log_grows_def logged_command_def stream_of_def first_by_append split: if_splits)

lemma logged_command_mem: "logged_command ty i key db = Some e \<Longrightarrow>
    e \<in> set (sd_Events db) \<and> er_AggregateType e = ty \<and> er_AggregateID e = i \<and> er_IdempotencyKey e = key"
  using first_by_Some by (fastforce simp: logged_command_def stream_of_def split: if_splits)

text \<open>An event that is appended is logged under its key, which was not in use.\<close>

lemma append_event_logs:
  assumes "append_event uuid ty i ev s t cmd now db = Inr db'" "cmd_IdempotencyKey cmd \<noteq> []"
  shows "logged_command ty i (cmd_IdempotencyKey cmd) db = None"
    and "\<exists>e. logged_command ty i (cmd_IdempotencyKey cmd) db' = Some e"
proof -
  let ?key = "cmd_IdempotencyKey cmd"
  let ?e = "new_event uuid ty i ev s t cmd now (sd_Events db)"
  have db': "sd_Events db' = sd_Events db @ [?e]" and ok: "supply_constraints db'"
    using assms(1) by (auto simp: append_event_def sd_checked_Inr)
  have e: "er_AggregateType ?e = ty" "er_AggregateID ?e = i" "er_IdempotencyKey ?e = ?key"
    using assms(2) by (simp_all add: new_event_def normalizeCommand_def Let_def)
  have unique: "distinct (map (\<lambda>e. (er_AggregateType e, er_AggregateID e, er_IdempotencyKey e)) (sd_Events db @ [?e]))"
    using ok unfolding supply_constraints_def log_constraints_def db' by blast
  show new: "logged_command ty i ?key db = None"
  proof (cases "logged_command ty i ?key db")
    case (Some x)
    then show ?thesis using unique e logged_command_mem [OF Some] by (auto simp: image_iff)
  qed
  show "\<exists>e. logged_command ty i ?key db' = Some e"
    using new assms(2) e by (simp add: logged_command_def db' stream_of_def first_by_append)
qed

lemma update_candidate_event:
  assumes "update_candidate uuid now c v cmd db = Inr (b, db')"
  obtains db1 s where "append_event uuid ''candidate'' (ct_ID c) ''candidate.proposal_updated'' s s cmd now db1 = Inr db'"
    "sd_Events db1 = sd_Events db"
  using assms
  by (auto simp: update_candidate_def Let_def and_then_Inr sd_checked_Inr split: option_sum_splits)

lemma logged_command_events: "sd_Events db1 = sd_Events db \<Longrightarrow> logged_command ty i key db1 = logged_command ty i key db"
  by (simp add: logged_command_def)

interpretation proposals: command_log supply_step candidate_log proposal_effect
proof
  show "candidate_log db' k = Some e" if "supply_step db db'" "candidate_log db k = Some e" for db db' k e
    using that log_grows_logged [OF supply_step_log] unfolding candidate_log_def by blast
  fix k db db' assume "proposal_effect k db db'"
  then obtain uuid now c v cmd b where u: "update_candidate uuid now c v cmd db = Inr (b, db')"
    and k: "ct_ID c = fst k" "cmd_IdempotencyKey cmd = snd k" "snd k \<noteq> []" unfolding proposal_effect_def by blast
  obtain db1 s where e: "append_event uuid ''candidate'' (ct_ID c) ''candidate.proposal_updated'' s s cmd now db1 = Inr db'"
    "sd_Events db1 = sd_Events db" using update_candidate_event [OF u] .
  show "candidate_log db k = None" "\<exists>e. candidate_log db' k = Some e"
    using append_event_logs [OF e(1)] k logged_command_events [OF e(2)] by (auto simp: candidate_log_def)
qed

lemma logged_proposal_refused:
  assumes "logged_command ''candidate'' (ct_ID c) (cmd_IdempotencyKey cmd) db = Some e"
  shows "\<exists>err. UpdateCandidateProposal uuid now c v cmd db = (Inl err, db)"
proof -
  have "snd (ct_ID c, cmd_IdempotencyKey cmd) \<noteq> []" using assms by (auto simp: logged_command_def)
  moreover have "\<not> proposal_effect (ct_ID c, cmd_IdempotencyKey cmd) db db'" for db'
    by (rule proposals.logged_has_no_effect) (use assms in \<open>auto simp: candidate_log_def\<close>)
  ultimately have "update_candidate uuid now c v cmd db \<noteq> Inr (b, db')" for b db'
    unfolding proposal_effect_def fst_conv snd_conv by blast
  then obtain err where "update_candidate uuid now c v cmd db = Inl err"
    by (cases "update_candidate uuid now c v cmd db") auto
  then show ?thesis by (simp add: UpdateCandidateProposal_def read_back_def commit_or_roll_back_def)
qed

text \<open>A transition whose command is logged with the same state answers with the row as it is.\<close>

lemma logged_transition_ignored:
  assumes "logged_command ''candidate'' i (cmd_IdempotencyKey cmd) db = Some e" "er_NewState e = candidate_state_string to"
  shows "TransitionCandidate uuid now i v to cmd db = (GetCandidate i db, db)"
  using assms
  by (simp add: TransitionCandidate_def transition_row_def existing_command_def read_back_def
      commit_or_roll_back_def and_then_def)

end
