(* ===== verification/WorkerLaws.thy ===== *)
theory WorkerLaws
  imports WorkerRun SupplyLog ControlLaws
begin

text \<open>
  What the release worker guarantees. Its programs are runs of store transactions; a build is finalized
  only under its lease; the decision of the policy is the worker's own; a plan that ends has evidence for
  every step. And three places where a second build of a candidate cannot go on as the first.
\<close>

section \<open>The worker's programs are runs of transactions\<close>

lemma runs_prod [runs]: "(\<And>x y. run_of_steps (f x y)) \<Longrightarrow> run_of_steps (case p of (x, y) \<Rightarrow> f x y)"
  by (cases p) simp

lemma runs_beat [runs]: "honest (we_Supply env) \<Longrightarrow> run_of_steps (beat env b)"
  unfolding beat_def by (intro runs runs_tx) (auto intro: steps_once step_heartbeat_build)

lemma runs_lease [runs]:
  "honest (we_Supply env) \<Longrightarrow> run_of_steps (checkLeaseAllowCancellation env b)"
  "honest (we_Supply env) \<Longrightarrow> run_of_steps (checkLease env b)"
  unfolding checkLeaseAllowCancellation_def checkLease_def by (intro runs; assumption)+

lemma runs_worker_calls [runs]:
  assumes "honest (we_Supply env)"
  shows "run_of_steps (finalizeBuild env b target)" "run_of_steps (get_candidate env i)"
    "run_of_steps (move_to env c to phase reason)" "run_of_steps (update_proposal env c phase reason)"
    "run_of_steps (move_step env b s target phase reason)" "run_of_steps (advance_to env c to)"
  unfolding advance_to_def finalizeBuild_def get_candidate_def move_to_def update_proposal_def move_step_def
  using assms by (intro runs runs_store transitions_run; assumption)+

lemma runs_marks [runs]:
  assumes "honest (we_Supply env)"
  shows "run_of_steps (markCandidateStarted env c)" "run_of_steps (recordPolicyDecision env i digest)"
    "run_of_steps (record_and_move env c cls detail recorded to moved)"
    "run_of_steps (markCandidatePolicyBlocked env i reasons)" "run_of_steps (markCandidateFailed env i cause)"
    "run_of_steps (markCandidateBlocked env i reason)" "run_of_steps (markCandidateAutoApproved env i d rd)"
proof -
  show moved: "run_of_steps (record_and_move env c cls detail recorded to moved)" for c cls detail recorded to moved
    unfolding record_and_move_def by (intro runs assms)
  show "run_of_steps (markCandidateStarted env c)" unfolding markCandidateStarted_def by (intro runs assms)
  show "run_of_steps (recordPolicyDecision env i digest)" unfolding recordPolicyDecision_def by (intro runs assms)
  show "run_of_steps (markCandidatePolicyBlocked env i reasons)"
    unfolding markCandidatePolicyBlocked_def by (intro runs moved assms)
  show "run_of_steps (markCandidateFailed env i cause)"
    unfolding markCandidateFailed_def by (intro runs moved assms)
  show "run_of_steps (markCandidateBlocked env i reason)"
    unfolding markCandidateBlocked_def by (intro runs moved assms)
  show "run_of_steps (markCandidateAutoApproved env i d rd)"
    unfolding markCandidateAutoApproved_def by (intro runs runs_approval assms)
qed

lemma runs_join [runs]: "(\<And>m. m \<in> set ms \<Longrightarrow> run_of_steps m) \<Longrightarrow> run_of_steps (join_all ms)"
  by (induction ms) (auto intro!: runs)

lemma runs_step [runs]:
  assumes "honest (we_Supply env)"
  shows "run_of_steps (executeStep env b c p logical step s)"
proof -
  have begun: "run_of_steps (begin_step env b s)" unfolding begin_step_def by (intro runs assms)
  have stopped: "run_of_steps (interrupted env b running e)" for running e
    unfolding interrupted_def by (intro runs assms)
  have given: "run_of_steps (mergePersistedExceptions env c given)" for given
    unfolding mergePersistedExceptions_def by (intro runs assms)
  have valued: "run_of_steps (evaluated env c p result)" for result
    unfolding evaluated_def by (intro runs given)
  have judging: "run_of_steps (judged env b c p step result)" for result
    unfolding judged_def by (intro runs valued assms)
  have kept: "run_of_steps (persistEvidence env b running result err)" for running result err
    unfolding persistEvidence_def by (intro runs runs_store transitions_run assms)
  have concluded: "run_of_steps (conclude env b c step running result err)" for running result err
    unfolding conclude_def by (intro runs kept assms)
  show ?thesis
    unfolding executeStep_def
    by (intro runs begun stopped judging concluded assms)
qed

lemma runs_batch [runs]:
  "honest (we_Supply env) \<Longrightarrow> run_of_steps (executeBatch env b c p logical batch)"
  unfolding executeBatch_def by (rule runs_join) (auto intro!: runs)

lemma runs_round:
  assumes "honest (we_Supply env)"
  shows "run_of_steps (plan_round env b c p)"
proof -
  have listing: "run_of_steps (restored env b)" unfolding restored_def list_steps_def by (intro runs assms)
  have retried: "run_of_steps (retry_step env b e)" for e
    unfolding retry_step_def by (intro runs runs_tx assms) (auto intro: steps_once step_create_step)
  have files: "run_of_steps (rehydrate_step env c p e)" for e
    unfolding rehydrate_step_def by (intro runs assms)
  show ?thesis
    unfolding plan_round_def recoverOrRetrySteps_def rehydrateWorkspaceEvidence_def
    by (intro runs listing retried files assms)
qed

text \<open>A program that may not end is a run wherever it ends.\<close>

definition looping_run :: "'a looping \<Rightarrow> bool" where
  "looping_run m \<longleftrightarrow> (\<forall>w r w'. m w = Some (r, w') \<longrightarrow> supply_step\<^sup>*\<^sup>* (sw_DB w) (sw_DB w'))"

lemma looping_ends [runs]: "run_of_steps m \<Longrightarrow> looping_run (ends m)"
  by (auto simp: looping_run_def ends_def run_of_steps_def) (metis snd_conv)

lemma looping_bind [runs]:
  assumes "looping_run m" "\<And>a. looping_run (f a)"
  shows "looping_run (loop_bind m f)"
  unfolding looping_run_def
proof (intro allI impI)
  fix w r w' assume *: "loop_bind m f w = Some (r, w')"
  show "supply_step\<^sup>*\<^sup>* (sw_DB w) (sw_DB w')"
  proof (cases "\<exists>e w1. m w = Some (Inl e, w1)")
    case True
    then show ?thesis using * assms(1) by (auto simp: loop_bind_def looping_run_def)
  next
    case False
    then obtain a w1 where "m w = Some (Inr a, w1)" "f a w1 = Some (r, w')"
      using * by (auto simp: loop_bind_def split: option.splits sum.splits)
    then show ?thesis using assms unfolding looping_run_def by (meson rtranclp_trans)
  qed
qed

lemma looping_try [runs]:
  assumes "looping_run m" "\<And>a. looping_run (f a)"
  shows "looping_run (loop_try m f)"
  unfolding looping_run_def
proof (intro allI impI)
  fix w r w' assume "loop_try m f w = Some (r, w')"
  then obtain a w1 where "m w = Some (a, w1)" "f a w1 = Some (r, w')"
    by (auto simp: loop_try_def split: option.splits)
  then show "supply_step\<^sup>*\<^sup>* (sw_DB w) (sw_DB w')" using assms unfolding looping_run_def by (meson rtranclp_trans)
qed

lemma looping_cases [runs]:
  fixes m m' :: "'a looping"
  shows
    "looping_run m \<Longrightarrow> looping_run m' \<Longrightarrow> looping_run (if q then m else m')"
    "looping_run m \<Longrightarrow> (\<And>x. looping_run (f x)) \<Longrightarrow> looping_run (case opt of None \<Rightarrow> m | Some x \<Rightarrow> f x)"
    "(\<And>x. looping_run (g x)) \<Longrightarrow> (\<And>y. looping_run (h y)) \<Longrightarrow>
       looping_run (case s of Inl x \<Rightarrow> g x | Inr y \<Rightarrow> h y)"
    "(\<And>x y. looping_run (k x y)) \<Longrightarrow> looping_run (case p of (x, y) \<Rightarrow> k x y)"
  by (simp_all split: option.split sum.split prod.split)

text \<open>The loop over the plan and the loop over the phases, turn by turn.\<close>

lemma executePlan_induct:
  assumes "executePlan env b c p w = Some (r, w')"
    and failed: "\<And>w e w1. plan_round env b c p w = (Inl e, w1) \<Longrightarrow> Q w (Inl e) w1"
    and finished: "\<And>w w1. plan_round env b c p w = (Inr True, w1) \<Longrightarrow> Q w (Inr ()) w1"
    and again: "\<And>w w1 r w2. plan_round env b c p w = (Inr False, w1) \<Longrightarrow> Q w1 r w2 \<Longrightarrow> Q w r w2"
  shows "Q w r w'"
proof -
  let ?P = "\<lambda>env' b' c' p' w y. env' = env \<and> b' = b \<and> c' = c \<and> p' = p \<longrightarrow> Q w (fst y) (snd y)"
  have "?P env b c p w (r, w')"
    by (rule executePlan.raw_induct [where P = ?P, OF _ assms(1)])
       (auto split: prod.splits sum.splits if_splits intro: failed finished again)
  then show ?thesis by simp
qed

lemma awaiting_induct:
  assumes "markCandidateAwaitingApproval env i w = Some (r, w')"
    and unread: "\<And>w e w1. get_candidate env i w = (Inl e, w1) \<Longrightarrow> Q w (Inl e) w1"
    and stopped: "\<And>w c w1 e. get_candidate env i w = (Inr c, w1) \<Longrightarrow> next_phase c = Inl e \<Longrightarrow> Q w (Inl e) w1"
    and arrived: "\<And>w c w1. get_candidate env i w = (Inr c, w1) \<Longrightarrow> next_phase c = Inr None \<Longrightarrow> Q w (Inr ()) w1"
    and refused: "\<And>w c w1 to e w2. get_candidate env i w = (Inr c, w1) \<Longrightarrow> next_phase c = Inr (Some to) \<Longrightarrow>
      advance_to env c to w1 = (Inl e, w2) \<Longrightarrow> Q w (Inl e) w2"
    and again: "\<And>w c w1 to c2 w2 r w3. get_candidate env i w = (Inr c, w1) \<Longrightarrow> next_phase c = Inr (Some to) \<Longrightarrow>
      advance_to env c to w1 = (Inr c2, w2) \<Longrightarrow> Q w2 r w3 \<Longrightarrow> Q w r w3"
  shows "Q w r w'"
proof -
  let ?P = "\<lambda>env' i' w y. env' = env \<and> i' = i \<longrightarrow> Q w (fst y) (snd y)"
  have "?P env i w (r, w')"
    by (rule markCandidateAwaitingApproval.raw_induct [where P = ?P, OF _ assms(1)])
       (auto split: prod.splits sum.splits option.splits intro: unread stopped arrived refused again)
  then show ?thesis by simp
qed

lemma looping_plan [runs]:
  assumes "honest (we_Supply env)"
  shows "looping_run (executePlan env b c p)"
  unfolding looping_run_def
proof (intro allI impI)
  fix w r w' assume ended: "executePlan env b c p w = Some (r, w')"
  have round: "supply_step\<^sup>*\<^sup>* (sw_DB w) (sw_DB w')" if "plan_round env b c p w = (r, w')" for w r w'
    using runs_round [OF assms, of b c p] that unfolding run_of_steps_def by (metis snd_conv)
  from ended show "supply_step\<^sup>*\<^sup>* (sw_DB w) (sw_DB w')"
    by (rule executePlan_induct) (auto dest!: round)
qed

lemma looping_awaiting [runs]:
  assumes "honest (we_Supply env)"
  shows "looping_run (markCandidateAwaitingApproval env i)"
  unfolding looping_run_def
proof (intro allI impI)
  fix w r w' assume ended: "markCandidateAwaitingApproval env i w = Some (r, w')"
  have one: "supply_step\<^sup>*\<^sup>* (sw_DB w) (sw_DB w')" if "run_of_steps m" "m w = (r, w')"
    for m :: "'x worker_act" and w r w' using that unfolding run_of_steps_def by (metis snd_conv)
  note got = one [OF runs_worker_calls(2) [OF assms]] and moved = one [OF runs_worker_calls(6) [OF assms]]
  from ended show "supply_step\<^sup>*\<^sup>* (sw_DB w) (sw_DB w')"
    by (rule awaiting_induct) (auto dest!: got moved)
qed

lemma runs_close:
  assumes "honest (we_Supply env)" "run_of_steps mark"
  shows "run_of_steps (close_build env b target cause mark)"
proof -
  have "run_of_steps (cleanup env)" unfolding cleanup_def by (intro runs)
  moreover have "run_of_steps (joined es)" for es :: "worker_error list" unfolding joined_def by (intro runs)
  ultimately show ?thesis unfolding close_build_def using assms by (intro runs)
qed

lemma runs_snapshot: "honest (we_Supply env) \<Longrightarrow> run_of_steps (validateCandidateSnapshot env b)"
  unfolding validateCandidateSnapshot_def by (intro runs; assumption)

lemma runs_prologue [runs]:
  assumes "honest (we_Supply env)"
  shows "run_of_steps (claim_prologue env b)"
  unfolding claim_prologue_def Let_def
  by (intro runs runs_close runs_snapshot runs_store transitions_run assms)

lemma runs_mark_by_decision [runs]:
  assumes "honest (we_Supply env)"
  shows "looping_run (mark_by_decision env b i)"
proof -
  have done_with: "run_of_steps (joined es)" for es :: "worker_error list" unfolding joined_def by (intro runs)
  have listing: "run_of_steps (list_steps env b)" unfolding list_steps_def by (intro runs assms)
  show ?thesis
    unfolding mark_by_decision_def failing_on_def loadPolicyDecision_def loadPublicationReceiptDigest_def
    by (intro runs done_with listing assms)
qed

lemma runs_epilogue [runs]:
  assumes "honest (we_Supply env)"
  shows "looping_run (claim_epilogue env b c outcome)"
proof -
  have done_with: "run_of_steps (joined es)" for es :: "worker_error list" unfolding joined_def by (intro runs)
  show ?thesis
    unfolding claim_epilogue_def cleanup_def by (intro runs runs_close done_with assms)
qed

text \<open>The worker changes the store by its transactions only: a whole pass (reclaim, claim, and the
  claimed build from its start to the marking of its candidate) that ends, wherever it failed and whatever
  other processes commit in between, is a run of the transactions of the candidate store. So the promises
  on its rows (versions that fence, cancellations that stick, an append-only log) hold across the worker.\<close>

lemma claimAndRun_run:
  assumes "honest (we_Supply env)" "claimAndRun env w = Some (r, w')"
  shows "supply_step\<^sup>*\<^sup>* (sw_DB w) (sw_DB w')"
proof -
  have "run_of_steps (call_tx (we_Supply env) wrap_call (\<lambda>uuids clock. ReclaimStaleBuildRuns uuids clock now)
      :: int worker_act)" for now
    by (rule runs_tx [OF assms(1)]) (auto intro: steps_once step_reclaim_build)
  moreover have "run_of_steps (call_tx (we_Supply env) wrap_call (\<lambda>uuids clock.
      ClaimNextBuildRun (wk_Platforms (we_Codec env)) (uuids 0) (uuids 1) clock (we_WorkerID env)
        (we_Supported env) (now + we_Lease env)) :: build_row option worker_act)" for now
    by (rule runs_tx [OF assms(1)]) (auto intro: steps_once step_claim_build)
  moreover have "looping_run (processClaim env b)" for b
    unfolding processClaim_def by (intro runs assms)
  ultimately have "looping_run (claimAndRun env)" unfolding claimAndRun_def by (intro runs)
  then show ?thesis using assms(2) unfolding looping_run_def by blast
qed

section \<open>A plan that ends\<close>

text \<open>The evidence of a completed step, as the worker reads it back.\<close>

definition bound_evidence :: "worker_codec \<Rightarrow> candidate_row \<Rightarrow> policy_row \<Rightarrow> step_row \<Rightarrow> bool" where
  "bound_evidence codec c p s \<longleftrightarrow>
     digestPattern (bt_OutputDigest s) \<and>
     (\<exists>v. wk_Evidence codec (bt_SummaryJSON s) = Some v \<and> same_binding v c p)"

lemma act_ask_Inr: "act_ask f w = (Inr a, w') \<longleftrightarrow> a = f (sw_Calls w) \<and> w' = w\<lparr>sw_Calls := Suc (sw_Calls w)\<rparr>"
  by (auto simp: act_ask_def)

lemma rehydrate_step_Inr:
  assumes "rehydrate_step env c p e w = (Inr u, w')"
  shows "sw_DB w' = sw_DB w"
    and "latestAttempt (Some (snd e)) = Some s \<Longrightarrow> bt_State s = BuildCompleted \<Longrightarrow> bound_evidence (we_Codec env) c p s"
  using assms
  by (auto simp: rehydrate_step_def bound_evidence_def act_results act_bind_Inr act_ask_Inr
      split: option.splits if_splits)

lemma rehydrate_Inr:
  assumes "act_list (rehydrate_step env c p) es w = (Inr u, w')"
  shows "sw_DB w' = sw_DB w \<and> (\<forall>e \<in> set es. \<forall>s. latestAttempt (Some (snd e)) = Some s \<longrightarrow>
    bt_State s = BuildCompleted \<longrightarrow> bound_evidence (we_Codec env) c p s)"
  using assms
proof (induction es arbitrary: w)
  case (Cons e es)
  obtain u1 w1 where one: "rehydrate_step env c p e w = (Inr u1, w1)"
    and rest: "act_list (rehydrate_step env c p) es w1 = (Inr u, w')"
    using Cons.prems by (auto simp: act_bind_Inr)
  show ?case using Cons.IH [OF rest] rehydrate_step_Inr [OF one] by auto
qed (simp add: act_results)

lemma restored_Inr:
  assumes "restored env b w = (Inr (plan, logical), w')"
  shows "restorePlan (wk_Metadata (we_Codec env)) (ListBuildSteps (br_ID b) (sw_DB w')) = Inr (plan, logical)"
proof -
  obtain records w1 where listed: "list_steps env b w = (Inr records, w1)"
    and ended: "(case restorePlan (wk_Metadata (we_Codec env)) records of
        Inl e \<Rightarrow> act_fail [PlanFault e] | Inr found \<Rightarrow> act_return found) w1 = (Inr (plan, logical), w')"
    using assms unfolding restored_def act_bind_Inr by blast
  have records: "list_steps env b w = (Inr records, w1)" "w' = w1"
    "restorePlan (wk_Metadata (we_Codec env)) records = Inr (plan, logical)"
    using listed ended by (cases "restorePlan (wk_Metadata (we_Codec env)) records"; simp add: act_results)+
  note read = call_read_Inr [OF records(1) [unfolded list_steps_def]]
  have "records = ListBuildSteps (br_ID b) (sw_DB w1)" using read(1) unfolding read(2) [symmetric] by simp
  then show ?thesis using records by simp
qed

lemma round_end:
  fixes turn :: "worker_error list + step list option"
  shows "(case turn of Inl e \<Rightarrow> act_fail e | Inr None \<Rightarrow> act_return True
      | Inr (Some batch) \<Rightarrow> act_bind (f batch) (\<lambda>_. act_return False)) w = (Inr True, w') \<longleftrightarrow>
    turn = Inr None \<and> w' = w"
  by (auto simp: act_results act_bind_Inr split: sum.splits option.splits)

lemma finished_round:
  assumes "plan_round env b c p w = (Inr True, w')"
  obtains plan logical where
    "restorePlan (wk_Metadata (we_Codec env)) (ListBuildSteps (br_ID b) (sw_DB w')) = Inr (plan, logical)"
    "list_all (completed_key logical) (map fst logical)"
    "\<And>k l s. (k, l) \<in> set logical \<Longrightarrow> latestAttempt (Some l) = Some s \<Longrightarrow> bt_State s = BuildCompleted \<Longrightarrow>
       bound_evidence (we_Codec env) c p s"
proof -
  obtain plan logical w3 w4 range w5 u where r: "restored env b w3 = (Inr (plan, logical), w4)"
    and files: "rehydrateWorkspaceEvidence env c p logical w4 = (Inr u, w5)"
    and asked: "sw_DB w' = sw_DB w5" and last: "next_batch env plan logical (range logical) = Inr None"
    using assms by (auto simp: plan_round_def act_bind_Inr act_ask_Inr round_end)
  note evidence = rehydrate_Inr [OF files [unfolded rehydrateWorkspaceEvidence_def]]
  show thesis
  proof (rule that [of plan logical])
    show "restorePlan (wk_Metadata (we_Codec env)) (ListBuildSteps (br_ID b) (sw_DB w')) = Inr (plan, logical)"
      using restored_Inr [OF r] evidence asked by simp
    show "list_all (completed_key logical) (map fst logical)"
      using last by (auto simp: next_batch_def Let_def split: option.splits if_splits sum.splits)
    show "bound_evidence (we_Codec env) c p s"
      if "(k, l) \<in> set logical" "latestAttempt (Some l) = Some s" "bt_State s = BuildCompleted" for k l s
      using evidence that by (auto simp: by_key_def)
  qed
qed

text \<open>The steps of a build all ended with evidence for this candidate and policy.\<close>

definition fully_evidenced ::
  "worker_codec \<Rightarrow> candidate_row \<Rightarrow> policy_row \<Rightarrow> string \<Rightarrow> supply_db \<Rightarrow> plan \<Rightarrow> bool" where
  "fully_evidenced codec c p run db plan \<longleftrightarrow>
     (\<forall>st \<in> set plan. \<exists>s \<in> set (ListBuildSteps run db). bt_StepKey s = st_Key st \<and> bt_State s = BuildCompleted \<and>
        bound_evidence codec c p s \<and>
        (\<forall>s' \<in> set (ListBuildSteps run db). bt_StepKey s' = st_Key st \<longrightarrow> bt_Attempt s' \<le> bt_Attempt s))"

lemma restored_evidenced:
  assumes "restorePlan decode (ListBuildSteps run db) = Inr (plan, logical)"
    and "list_all (completed_key logical) (map fst logical)"
    and "\<And>k l s. (k, l) \<in> set logical \<Longrightarrow> latestAttempt (Some l) = Some s \<Longrightarrow> bt_State s = BuildCompleted \<Longrightarrow>
       bound_evidence codec c p s"
  shows "fully_evidenced codec c p run db plan"
  unfolding fully_evidenced_def
proof
  fix st assume "st \<in> set plan"
  then obtain k l where kl: "(k, l) \<in> set logical" "lg_Plan l = st" unfolding restorePlan_Inr(3) [OF assms(1)] by auto
  have key: "st_Key st = k" using restorePlan_Inr(4) [OF assms(1) kl(1)] kl(2) by blast
  obtain s where s: "latestAttempt (Some l) = Some s" "s \<in> set (ListBuildSteps run db)" "bt_StepKey s = k"
    "\<And>s'. s' \<in> set (ListBuildSteps run db) \<Longrightarrow> bt_StepKey s' = k \<Longrightarrow> bt_Attempt s' \<le> bt_Attempt s"
    by (rule latest_of_restored [OF assms(1) kl(1)]) (rule that)
  have "map_of logical k = Some l" using restorePlan_Inr(2) [OF assms(1)] kl(1) by simp
  then have "bt_State s = BuildCompleted"
    using assms(2) kl(1) s(1) by (force simp: list_all_iff completed_key_def)
  then show "\<exists>s \<in> set (ListBuildSteps run db). bt_StepKey s = st_Key st \<and> bt_State s = BuildCompleted \<and>
      bound_evidence codec c p s \<and>
      (\<forall>s' \<in> set (ListBuildSteps run db). bt_StepKey s' = st_Key st \<longrightarrow> bt_Attempt s' \<le> bt_Attempt s)"
    using s assms(3) [OF kl(1) s(1)] key by (intro bexI [of _ s]) auto
qed

text \<open>C6: A plan ends without an error only when it is complete: when \<open>executePlan\<close> returns success, the
  steps of the build as the store then holds them form a valid plan, and for each step of it the latest
  attempt completed with a digest and with evidence bound to the commit, lock, policy and revision of this
  candidate, whatever the executor reported and however often steps were retried or recovered.\<close>

theorem finished_plan_is_evidenced:
  assumes "executePlan env b c p w = Some (Inr (), w')"
  shows "\<exists>plan logical. restorePlan (wk_Metadata (we_Codec env)) (ListBuildSteps (br_ID b) (sw_DB w'))
      = Inr (plan, logical) \<and> Pipeline.Validate plan = None \<and>
    fully_evidenced (we_Codec env) c p (br_ID b) (sw_DB w') plan"
proof -
  have "\<exists>u. plan_round env b c p u = (Inr True, w')"
    if "executePlan env b c p w = Some (Inr (), w')" for w
    using executePlan_induct [of env b c p w "Inr ()" w' "\<lambda>w r w'. r = Inr () \<longrightarrow> (\<exists>u. plan_round env b c p u = (Inr True, w'))"] that
    by auto
  then obtain u where "plan_round env b c p u = (Inr True, w')" using assms by blast
  from finished_round [OF this] obtain plan logical where
    r: "restorePlan (wk_Metadata (we_Codec env)) (ListBuildSteps (br_ID b) (sw_DB w')) = Inr (plan, logical)"
    and e: "list_all (completed_key logical) (map fst logical)"
    "\<And>k l s. (k, l) \<in> set logical \<Longrightarrow> latestAttempt (Some l) = Some s \<Longrightarrow> bt_State s = BuildCompleted \<Longrightarrow>
       bound_evidence (we_Codec env) c p s" by blast
  have "fully_evidenced (we_Codec env) c p (br_ID b) (sw_DB w') plan"
    by (rule restored_evidenced [OF r e(1)]) (rule e(2))
  then show ?thesis using r restorePlan_Inr(1) [OF r] by blast
qed

text \<open>C12: The worker never stalls: on a restored plan with a step that is not completed and none that failed
  for good, in whatever order Go ranges over the steps, the next turn runs a batch that is not empty, and
  each step in it is an open step of the plan whose dependencies are all completed. The error "no runnable
  step" is unreachable.\<close>

theorem worker_never_stalls:
  assumes "restorePlan decode records = Inr (plan, logical)"
    and "exhausted_step ranged = None" "0 < we_MaxParallel env"
    and "(k, l) \<in> set logical" "\<not> completed_key logical k"
  shows "\<exists>batch. next_batch env plan logical ranged = Inr (Some batch) \<and> batch \<noteq> [] \<and>
    set batch \<subseteq> {s \<in> set plan. \<not> completed_key logical (st_Key s) \<and>
      list_all (completed_key logical) (st_DependsOn s)}"
proof -
  note plan = restorePlan_Inr [OF assms(1)]
  let ?ready = "sort_key st_Key (filter (is_ready (completed_key logical) (\<lambda>_. False)) plan)"
  have "lg_Plan l \<in> set plan" "st_Key (lg_Plan l) = k" using plan(3,4) assms(4) by force+
  then obtain s where "s \<in> set plan" "\<not> completed_key logical (st_Key s)"
    "list_all (completed_key logical) (st_DependsOn s)"
    using some_step_unblocked [OF plan(1), of "lg_Plan l" "completed_key logical"] assms(5) by auto
  then have "s \<in> set ?ready" by (simp add: is_ready_def)
  then obtain x xs n where x: "?ready = x # xs" "we_MaxParallel env = Suc n"
    using assms(3) by (cases ?ready; cases "we_MaxParallel env") auto
  let ?batch = "selectBatch (we_MaxParallel env) ?ready"
  have "?batch \<noteq> []" by (simp add: selectBatch_def x)
  moreover have "\<not> list_all (completed_key logical) (map fst logical)" using assms(4,5) by (force simp: list_all_iff)
  ultimately have "next_batch env plan logical ranged = Inr (Some ?batch)"
    using assms(2) by (simp add: next_batch_def Ready_valid [OF plan(1)])
  moreover have "set ?batch \<subseteq> set ?ready" unfolding selectBatch_def by (rule select_from_subset)
  ultimately show ?thesis using \<open>?batch \<noteq> []\<close> by (auto simp: is_ready_def)
qed

section \<open>The lease\<close>

lemma beat_Inr:
  assumes "beat env b w = (Inr s, w')" "honest (we_Supply env)"
  obtains now until db where "supply_step\<^sup>*\<^sup>* (sw_DB w) db"
    "HeartbeatBuildRun (br_ID b) (we_WorkerID env) (br_LeaseToken b) now until db = Inr (s, sw_DB w')"
proof -
  let ?w1 = "w\<lparr>sw_Calls := Suc (sw_Calls w)\<rparr>"
  have call: "call_tx (we_Supply env) wrap_call (\<lambda>uuids now. HeartbeatBuildRun (br_ID b) (we_WorkerID env)
      (br_LeaseToken b) now (se_Now (we_Supply env) (sw_Calls w) + we_Lease env)) ?w1 = (Inr s, w')"
    using assms(1) by (simp add: beat_def act_bind_def act_now_def)
  have "supply_step\<^sup>*\<^sup>* (sw_DB w) (called_db (we_Supply env) ?w1)"
    using assms(2) by (simp add: honest_def called_db_def)
  then show thesis using call_tx_Inr [OF call] by (rule that)
qed

lemma transition_build_Inr:
  assumes "TransitionBuildRun uuid now i v to cmd db = (Inr b, db')"
  obtains moved where "transition_row builds_table uuid now i v to cmd db = Inr (moved, db')" "GetBuildRun i db' = Inr b"
  using assms
  by (auto simp: TransitionBuildRun_def read_back_def commit_or_roll_back_def split: sum.splits prod.splits)

lemma unmoved_is_logged:
  assumes "transition_row t uuid now i v to cmd db = Inr (False, db')"
  shows "logged_command (vt_Aggregate t) i (cmd_IdempotencyKey cmd) db \<noteq> None \<and> db' = db"
  using assms
  by (auto simp: transition_row_def existing_command_def and_then_Inr split: option_sum_splits)

definition finalize_command :: "worker_env \<Rightarrow> build_row \<Rightarrow> build_state \<Rightarrow> command" where
  "finalize_command env b target =
     buildCommand env b (''finalize/'' @ build_state_string target)
       (''release build '' @ build_state_string target)"

text \<open>The database on which the transition of \<open>finalizeBuild\<close> runs: after the lease was checked.\<close>

definition finalized_on :: "worker_env \<Rightarrow> build_row \<Rightarrow> step_request supply_world \<Rightarrow> supply_db" where
  "finalized_on env b w = called_db (we_Supply env) (snd (checkLeaseAllowCancellation env b w))"

lemma finalize_Inr:
  assumes "finalizeBuild env b target w = (Inr final, w')" "honest (we_Supply env)"
  obtains now until db0 answer uuid t moved and w1 :: "step_request supply_world" where
    "HeartbeatBuildRun (br_ID b) (we_WorkerID env) (br_LeaseToken b) now until db0 = Inr (answer, sw_DB w1)"
    "lt_Current answer" "supply_step\<^sup>*\<^sup>* (sw_DB w) (sw_DB w1)"
    "supply_step\<^sup>*\<^sup>* (sw_DB w1) (finalized_on env b w)"
    "transition_row builds_table uuid t (br_ID b) (lt_Version answer) target (finalize_command env b target)
       (finalized_on env b w) = Inr (moved, sw_DB w')"
    "GetBuildRun (br_ID b) (sw_DB w') = Inr final"
proof -
  obtain s w1 where lease: "checkLeaseAllowCancellation env b w = (Inr s, w1)"
    and call: "call_store (we_Supply env) wrap_call (\<lambda>uuids now. TransitionBuildRun (uuids 0) now (br_ID b)
      (lt_Version s) target (finalize_command env b target)) w1 = (Inr final, w')"
    using assms(1) by (auto simp: finalizeBuild_def act_bind_Inr finalize_command_def)
  have on: "called_db (we_Supply env) w1 = finalized_on env b w" by (simp add: finalized_on_def lease)
  have beaten: "beat env b w = (Inr s, w1)" "lt_Current s"
    using lease by (cases "beat env b w"; auto simp: checkLeaseAllowCancellation_def act_try_def act_results
        split: sum.splits if_splits)+
  obtain now until db where hb: "supply_step\<^sup>*\<^sup>* (sw_DB w) db"
    "HeartbeatBuildRun (br_ID b) (we_WorkerID env) (br_LeaseToken b) now until db = Inr (s, sw_DB w1)"
    using beat_Inr [OF beaten(1) assms(2)] .
  have upto: "supply_step\<^sup>*\<^sup>* (sw_DB w) (sw_DB w1)"
    using hb(1) step_heartbeat_build [OF hb(2)] by (rule rtranclp.rtrancl_into_rtrancl)
  have others: "supply_step\<^sup>*\<^sup>* (sw_DB w1) (finalized_on env b w)"
    using assms(2) unfolding on [symmetric] by (simp add: honest_def called_db_def)
  obtain moved where "transition_row builds_table (se_Uuid (we_Supply env) (sw_Calls w1) 0)
      (se_Now (we_Supply env) (sw_Calls w1)) (br_ID b) (lt_Version s) target (finalize_command env b target)
      (finalized_on env b w) = Inr (moved, sw_DB w')" "GetBuildRun (br_ID b) (sw_DB w') = Inr final"
    using transition_build_Inr [OF call_store_Inr(1) [OF call]] unfolding on .
  with hb(2) beaten(2) upto others show thesis by (rule that)
qed

lemma logged_is_unmoved:
  assumes "transition_row t uuid now i v to cmd db = Inr (moved, db')"
    and "logged_command (vt_Aggregate t) i (cmd_IdempotencyKey cmd) db = Some e"
  shows "db' = db"
  using assms by (auto simp: transition_row_def existing_command_def and_then_Inr split: option_sum_splits)

text \<open>C5: A build is finalized only under its lease. When \<open>finalizeBuild\<close> succeeds, then on the database its
  transition ran on, the build still named this worker and this lease token, it was claimed or running, and
  if its cancellation was requested the target is cancelled; the build then has the target state. The one
  exception is a finalization of this claim that was logged before, which changes nothing. A worker whose
  lease lapsed or passed to another writes no result.\<close>

theorem finalize_needs_lease:
  assumes "honest (we_Supply env)" "finalizeBuild env b target w = (Inr final, w')"
  shows "supply_step\<^sup>*\<^sup>* (sw_DB w) (finalized_on env b w) \<and>
    (case logged_command ''build'' (br_ID b) (cmd_IdempotencyKey (finalize_command env b target)) (finalized_on env b w) of
       Some e \<Rightarrow> sw_DB w' = finalized_on env b w
     | None \<Rightarrow> (\<exists>row. first_by br_ID (sd_Builds (finalized_on env b w)) (br_ID b) = Some row \<and>
         br_WorkerID row = we_WorkerID env \<and> br_LeaseToken row = br_LeaseToken b \<and>
         (br_State row = BuildClaimed \<or> br_State row = BuildRunning) \<and>
         (br_CancelRequestedAt row = None \<or> target = BuildCancelled) \<and>
         supply_step (finalized_on env b w) (sw_DB w') \<and> br_State final = target))"
proof -
  let ?db = "finalized_on env b w"
  obtain now until db0 answer uuid t moved and w1 :: "step_request supply_world" where
    hb: "HeartbeatBuildRun (br_ID b) (we_WorkerID env) (br_LeaseToken b) now until db0 = Inr (answer, sw_DB w1)"
    "lt_Current answer" and upto: "supply_step\<^sup>*\<^sup>* (sw_DB w) (sw_DB w1)"
    and others: "supply_step\<^sup>*\<^sup>* (sw_DB w1) ?db"
    and tr: "transition_row builds_table uuid t (br_ID b) (lt_Version answer) target (finalize_command env b target)
       ?db = Inr (moved, sw_DB w')"
    and read: "GetBuildRun (br_ID b) (sw_DB w') = Inr final"
    using finalize_Inr [OF assms(2,1)] .
  have run: "supply_step\<^sup>*\<^sup>* (sw_DB w) ?db" using upto others by (rule rtranclp_trans)
  show ?thesis
  proof (cases "logged_command ''build'' (br_ID b) (cmd_IdempotencyKey (finalize_command env b target)) ?db")
    case (Some e)
    then show ?thesis using run logged_is_unmoved [OF tr] by simp
  next
    case None
    have moved: moved
    proof (rule ccontr)
      assume "\<not> moved"
      then have "transition_row builds_table uuid t (br_ID b) (lt_Version answer) target
          (finalize_command env b target) ?db = Inr (False, sw_DB w')" using tr by simp
      from unmoved_is_logged [OF this] show False using None by simp
    qed
    obtain b1 where b1: "first_by br_ID (sd_Builds (sw_DB w1)) (br_ID b) = Some b1" "br_Version b1 = lt_Version answer"
      "br_WorkerID b1 = we_WorkerID env" "br_LeaseToken b1 = br_LeaseToken b" "leased_state (br_State b1)"
      "(br_CancelRequestedAt b1 \<noteq> None) = lt_CancelRequested answer"
      using heartbeat_current [OF hb] .
    obtain row where row: "first_by br_ID (sd_Builds ?db) (br_ID b) = Some row" "br_Version row = lt_Version answer"
      "br_CancelRequestedAt row \<noteq> None \<longrightarrow> target = BuildCancelled"
      and put: "sd_Builds (sw_DB w') = update_where (\<lambda>r. br_ID r = br_ID b \<and> br_Version r = lt_Version answer)
        (build_columns target t) (sd_Builds ?db)"
      using transition_row_Inr [OF tr] moved by auto
    have fence: "build_fence row = build_fence b1"
      using build_rows.same_version_same_content [OF others b1(1) row(1)] b1(2) row(2) by simp
    have "first_by br_ID (sd_Builds (sw_DB w')) (br_ID b) = Some (build_columns target t row)"
      unfolding put using first_by_Some [OF row(1)] row(2)
      by (subst first_by_update_row [OF _ row(1)]) (simp_all add: build_columns_def)
    then have final: "final = build_columns target t row" using read by (simp add: GetBuildRun_def)
    show ?thesis
      using run row fence b1 final step_transition_build [OF tr] None
      by (auto simp: build_fence_def leased_state_def build_columns_def)
  qed
qed

section \<open>The decision of the policy\<close>

definition verdict_fields :: "step_result \<Rightarrow> decision option \<times> string \<times> string" where
  "verdict_fields r = (sr_PolicyDecision r, sr_OutputDigest r, vr_PolicyDecisionDigest (sr_Verification r))"

lemma merge_ignores_exceptions:
  "mergePersistedExceptions env c (given\<lparr>pn_Exceptions := xs\<rparr>) = mergePersistedExceptions env c given"
  unfolding mergePersistedExceptions_def
  by (rule arg_cong [where f = "act_bind _"]) (auto split: sum.split)

lemma decision_of_input:
  "sr_PolicyInput r = sr_PolicyInput r' \<Longrightarrow>
     trustedPolicyDecision codec c p r now = trustedPolicyDecision codec c p r' now"
  by (simp add: trustedPolicyDecision_def)

text \<open>C8: The decision of the policy is the worker's own: two results of an executor with the same risk,
  changes, gates and evidence get the same decision, the same digest and the same binding for approvals, or
  the same error, and leave the store the same, whatever exceptions, decision, output digest or verification
  either of them claims. Exceptions come from the ledger only.\<close>

theorem executor_cannot_decide:
  "(case evaluated env c p (r\<lparr>sr_PolicyInput := Some given\<rparr>) w of (x, w') \<Rightarrow> (map_sum id verdict_fields x, w')) =
   (case evaluated env c p (r'\<lparr>sr_PolicyInput := Some (given\<lparr>pn_Exceptions := xs\<rparr>)\<rparr>) w of
      (x, w') \<Rightarrow> (map_sum id verdict_fields x, w'))"
proof -
  obtain m w1 where m: "mergePersistedExceptions env c given w = (m, w1)" by fastforce
  have same: "trustedPolicyDecision codec c p (r\<lparr>sr_PolicyInput := Some x\<rparr>) now =
      trustedPolicyDecision codec c p (r'\<lparr>sr_PolicyInput := Some x\<rparr>) now" for codec x now
    by (rule decision_of_input) simp
  show ?thesis
    using m
    by (cases m)
       (auto simp: evaluated_def act_bind_def act_return_def act_now_def act_fail_def merge_ignores_exceptions
          same decided_def verdict_fields_def split: sum.split)
qed

section \<open>A second build of a candidate\<close>

text \<open>The keys of the worker's commands name the candidate and the phase, but neither build nor claim.\<close>

definition candidate_key :: "string \<Rightarrow> string \<Rightarrow> string \<times> string" where
  "candidate_key i phase = (i, ''scanner-release-worker/'' @ i @ ''/candidate/'' @ phase)"

lemma candidateCommand_key:
  "cmd_IdempotencyKey (candidateCommand env c phase reason) = snd (candidate_key (ct_ID c) phase)"
  by (simp add: candidateCommand_def worker_command_def candidate_key_def)

lemma get_candidate_Inr:
  assumes "get_candidate env i w = (Inr c, w')"
  shows "GetCandidate i (sw_DB w') = Inr c" "sw_DB w' = called_db (we_Supply env) w" "ct_ID c = i"
proof -
  note read = call_read_Inr [OF assms [unfolded get_candidate_def]]
  show db: "sw_DB w' = called_db (we_Supply env) w" by (rule read(2))
  show got: "GetCandidate i (sw_DB w') = Inr c" using read(1) unfolding read(2) .
  show "ct_ID c = i" using got first_by_Some by (fastforce simp: GetCandidate_Inr)
qed

lemma honest_log:
  assumes "honest env" "candidate_log (sw_DB w) k = Some e"
  shows "candidate_log (called_db env w) k = Some e"
  using proposals.run_keeps_logged [OF _ assms(2)] assms(1) by (simp add: honest_def called_db_def)

lemma logged_update_fails:
  assumes "honest (we_Supply env)" "candidate_log (sw_DB w) (candidate_key (ct_ID c) phase) = Some e"
  shows "\<exists>err w'. update_proposal env c phase reason w = (Inl err, w')"
proof -
  let ?cmd = "candidateCommand env c phase reason"
  have "logged_command ''candidate'' (ct_ID c) (cmd_IdempotencyKey ?cmd) (called_db (we_Supply env) w) = Some e"
    using honest_log [OF assms] by (simp add: candidate_log_def candidateCommand_key candidate_key_def)
  then obtain err where err: "UpdateCandidateProposal (se_Uuid (we_Supply env) (sw_Calls w) 0)
      (se_Now (we_Supply env) (sw_Calls w)) c (ct_Version c) ?cmd (called_db (we_Supply env) w)
      = (Inl err, called_db (we_Supply env) w)" using logged_proposal_refused by blast
  show ?thesis
  proof (cases "update_proposal env c phase reason w")
    case (Pair r w')
    show ?thesis
    proof (cases r)
      case (Inr a)
      then have "UpdateCandidateProposal (se_Uuid (we_Supply env) (sw_Calls w) 0)
          (se_Now (we_Supply env) (sw_Calls w)) c (ct_Version c) ?cmd (called_db (we_Supply env) w) = (Inr a, sw_DB w')"
        using call_store_Inr(1) [OF Pair [unfolded update_proposal_def Inr]] by simp
      then show ?thesis using err by simp
    qed (use Pair in blast)
  qed
qed

lemma logged_after_read:
  assumes "honest (we_Supply env)" "get_candidate env i w = (Inr c, w1)" "candidate_log (sw_DB w) (candidate_key i phase) = Some e"
  shows "candidate_log (sw_DB w1) (candidate_key (ct_ID c) phase) = Some e"
  using honest_log [OF assms(1,3)] unfolding get_candidate_Inr(2,3) [OF assms(2)] .

lemma logged_decision:
  assumes "honest (we_Supply env)" "candidate_log (sw_DB w) (candidate_key i ''policy-decision'') = Some e"
    and "recordPolicyDecision env i digest w = (Inr (), w')"
  obtains c where "get_candidate env i w = (Inr c, w')" "ct_PolicyDecision c = digest"
proof -
  obtain c w1 where c: "get_candidate env i w = (Inr c, w1)" and rest:
    "(if ct_PolicyDecision c = digest then act_return () else act_bind (update_proposal env
       (c\<lparr>ct_PolicyDecision := digest\<rparr>) ''policy-decision'' ''candidate policy decision evidence recorded'')
       (\<lambda>_. act_return ())) w1 = (Inr (), w')"
    using assms(3) by (auto simp: recordPolicyDecision_def act_bind_Inr)
  have "\<exists>err w2. update_proposal env (c\<lparr>ct_PolicyDecision := digest\<rparr>) ''policy-decision''
      ''candidate policy decision evidence recorded'' w1 = (Inl err, w2)"
    by (rule logged_update_fails [OF assms(1)]) (use logged_after_read [OF assms(1) c assms(2)] in simp)
  then have "ct_PolicyDecision c = digest \<and> w' = w1"
    using rest by (cases "ct_PolicyDecision c = digest") (auto simp: act_results act_bind_Inr)
  then show thesis using c by (intro that [of c]) simp_all
qed

lemma logged_block:
  assumes "honest (we_Supply env)" "candidate_log (sw_DB w) (candidate_key i ''policy-block-evidence'') = Some e"
    and "markCandidatePolicyBlocked env i reasons w = (Inr (), w')"
  obtains c where "get_candidate env i w = (Inr c, w')" "ct_State c = CandidateBlocked"
proof -
  let ?detail = "wk_RedactText (we_Codec env) (join_with ''; '' reasons)"
  obtain c w1 where c: "get_candidate env i w = (Inr c, w1)" and rest:
    "ct_State c = CandidateBlocked \<and> w' = w1 \<or> (\<exists>u w2. update_proposal env
       (c\<lparr>ct_ErrorClass := ''policy_blocked'', ct_ErrorDetail := ?detail\<rparr>)
       ''policy-block-evidence'' ''candidate policy block recorded'' w1 = (Inr u, w2))"
    using assms(3)
    by (fastforce simp: markCandidatePolicyBlocked_def record_and_move_def act_bind_Inr act_results split: if_splits)
  have "\<exists>err w2. update_proposal env (c\<lparr>ct_ErrorClass := ''policy_blocked'', ct_ErrorDetail := ?detail\<rparr>)
      ''policy-block-evidence'' ''candidate policy block recorded'' w1 = (Inl err, w2)"
    by (rule logged_update_fails [OF assms(1)]) (use logged_after_read [OF assms(1) c assms(2)] in simp)
  then show thesis using c rest by (intro that [of c]) auto
qed

text \<open>C26: What the first build of a candidate recorded, a second build cannot record again: once the log
  holds a policy decision of the worker for a candidate, recording a decision succeeds only if the candidate
  already carries that very digest, and changes nothing; and once it holds a policy block, marking the
  candidate blocked succeeds only if it is blocked already. The update of a proposal does not look for its
  command, and the commands of the worker name the candidate but not the build; so when a blocked candidate
  is retried under a new exception, the new decision cannot be stored.\<close>

theorem second_decision_impossible:
  assumes "honest (we_Supply env)"
    and "candidate_log (sw_DB w) (candidate_key i ''policy-decision'') = Some e1"
    and "candidate_log (sw_DB w) (candidate_key i ''policy-block-evidence'') = Some e2"
  shows "(\<forall>w'. recordPolicyDecision env i digest w = (Inr (), w') \<longrightarrow>
      (\<exists>c. GetCandidate i (sw_DB w') = Inr c \<and> ct_PolicyDecision c = digest \<and>
        sw_DB w' = called_db (we_Supply env) w)) \<and>
    (\<forall>w'. markCandidatePolicyBlocked env i reasons w = (Inr (), w') \<longrightarrow>
      (\<exists>c. GetCandidate i (sw_DB w') = Inr c \<and> ct_State c = CandidateBlocked \<and>
        sw_DB w' = called_db (we_Supply env) w))"
proof (intro conjI allI impI)
  fix w' assume "recordPolicyDecision env i digest w = (Inr (), w')"
  then obtain c where c: "get_candidate env i w = (Inr c, w')" "ct_PolicyDecision c = digest"
    using logged_decision [OF assms(1,2)] by blast
  show "\<exists>c. GetCandidate i (sw_DB w') = Inr c \<and> ct_PolicyDecision c = digest \<and>
      sw_DB w' = called_db (we_Supply env) w"
    using get_candidate_Inr [OF c(1)] c(2) by (intro exI [of _ c]) simp
next
  fix w' assume "markCandidatePolicyBlocked env i reasons w = (Inr (), w')"
  then obtain c where c: "get_candidate env i w = (Inr c, w')" "ct_State c = CandidateBlocked"
    using logged_block [OF assms(1,3)] by blast
  show "\<exists>c. GetCandidate i (sw_DB w') = Inr c \<and> ct_State c = CandidateBlocked \<and>
      sw_DB w' = called_db (we_Supply env) w"
    using get_candidate_Inr [OF c(1)] c(2) by (intro exI [of _ c]) simp
qed

text \<open>The start of a retried candidate is ignored: its command is logged, so the row is answered as it is.\<close>

lemma restart_ignored:
  assumes "candidate_log (called_db (we_Supply env) w) (candidate_key (ct_ID c) ''build-started'') = Some e"
    and "er_NewState e = candidate_state_string CandidateBuilding" "ct_State c = CandidateQueued"
    and "markCandidateStarted env c w = (Inr started, w')"
  shows "GetCandidate (ct_ID c) (called_db (we_Supply env) w) = Inr started \<and> sw_DB w' = called_db (we_Supply env) w"
proof -
  let ?cmd = "candidateCommand env c ''build-started'' ''candidate build started''"
  have moved: "move_to env c CandidateBuilding ''build-started'' ''candidate build started'' w = (Inr started, w')"
    using assms(3,4) by (simp add: markCandidateStarted_def)
  have logged: "logged_command ''candidate'' (ct_ID c) (cmd_IdempotencyKey ?cmd) (called_db (we_Supply env) w) = Some e"
    using assms(1) by (simp add: candidate_log_def candidateCommand_key candidate_key_def)
  show ?thesis
    using call_store_Inr(1) [OF moved [unfolded move_to_def]]
    unfolding logged_transition_ignored [OF logged assms(2)] prod.inject by (auto dest: sym)
qed

section \<open>Witnesses\<close>

text \<open>A worker in the quiet environment of the commands, whose store decodes every summary alike.\<close>

definition sample_metadata :: step_metadata where
  "sample_metadata = \<lparr>sm_Kind = ''policy'', sm_DependsOn = [], sm_Timeout = ''1m'', sm_Retryable = True,
     sm_ConcurrencyKey = [], sm_Ordinal = 0\<rparr>"

definition sample_verification :: verification where
  "sample_verification = \<lparr>vr_DefinitionCommit = ''d1'', vr_LockDigest = digest_of CHR ''a'', vr_PolicyID = ''p'',
     vr_PolicyRevision = 1, vr_PolicyDecisionDigest = digest_of CHR ''b''\<rparr>"

definition sample_decision :: decision where
  "sample_decision = \<lparr>de_CandidateID = ''c'', de_LockDigest = digest_of CHR ''a'', de_PolicyRevision = 1,
     de_PolicyDecisionDigest = digest_of CHR ''b'', de_Outcome = OutcomeAwaitingApproval,
     de_AutoPromotion = False, de_RequiredApprovals = 1, de_ValidApprovals = 0, de_BlockingReasons = [],
     de_Advisories = []\<rparr>"

definition sample_worker_codec :: worker_codec where
  "sample_worker_codec = \<lparr>wk_Metadata = (\<lambda>_. Some sample_metadata), wk_EncodeMetadata = (\<lambda>_. ''{}''),
     wk_Decision = (\<lambda>_. Some (Some sample_decision)), wk_Evidence = (\<lambda>_. Some sample_verification),
     wk_EncodeEvidence = (\<lambda>s _. Some s), wk_RedactText = (\<lambda>t. t), wk_RedactURI = (\<lambda>t. t),
     wk_Describe = (\<lambda>_. ''evidence''), wk_Explain = (\<lambda>_. ''error''), wk_Quote = (\<lambda>t. t),
     wk_Risk = (\<lambda>_. None), wk_EncodeChanges = (\<lambda>_. ''''), wk_Rules = (\<lambda>_. None),
     wk_Window = (\<lambda>_ _. Some True), wk_Digest = (\<lambda>_. Some (digest_of CHR ''b'')),
     wk_Hash = (\<lambda>_. ''operation''), wk_Receipt = (\<lambda>_. None), wk_Publication = sample_publication_codec,
     wk_Platforms = \<lparr>pc_Platforms = (\<lambda>_. Some [''linux/amd64'']), pc_Images = (\<lambda>_. None)\<rparr>\<rparr>"

definition sample_worker :: worker_env where
  "sample_worker = \<lparr>we_Supply = quiet_env, we_WorkerID = ''w1'', we_Supported = [], we_MaxParallel = 2,
     we_MaxAttempts = 2, we_Lease = 45, we_Execute = (\<lambda>_ rq. (\<lparr>sr_OutputURI = [],
       sr_OutputDigest = digest_of CHR ''b'', sr_Summary = [], sr_RetentionClass = [], sr_RetainUntil = None,
       sr_Protected = False, sr_Verification = sample_verification, sr_PolicyInput = None,
       sr_PolicyDecision = None\<rparr>, None)), we_Cause = (\<lambda>_. None), we_Workspace = (\<lambda>_. True),
     we_Files = (\<lambda>_. True), we_Cleanup = (\<lambda>_. True), we_Trace = (\<lambda>_. True), we_Range = (\<lambda>_ l. l),
     we_Codec = sample_worker_codec\<rparr>"


text \<open>A queued candidate with a queued build, whose only step another worker has completed.\<close>

definition worker_supply :: supply_db where
  "worker_supply = sample_supply\<lparr>sd_Candidates := [sample_candidate_row\<lparr>ct_State := CandidateQueued,
       ct_LockDigest := digest_of CHR ''a'', ct_PolicyDecision := digest_of CHR ''b''\<rparr>],
     sd_Builds := [sample_build\<lparr>br_State := BuildQueued, br_LeaseToken := [], br_WorkerID := [], br_LeaseExpiresAt := None\<rparr>],
     sd_Steps := [sample_step ''policy-evaluation'' 1 BuildCompleted CHR ''b'']\<rparr>"

definition worker_world :: "step_request supply_world" where
  "worker_world = \<lparr>sw_DB = worker_supply, sw_Calls = 0, sw_Trace = []\<rparr>"

definition held_world :: "step_request supply_world" where
  "held_world = worker_world\<lparr>sw_DB := worker_supply\<lparr>sd_Builds := [sample_build\<lparr>br_LeaseExpiresAt := Some 2000\<rparr>]\<rparr>\<rparr>"

lemma sample_worker_honest: "honest (we_Supply sample_worker)"
  by (simp add: honest_def sample_worker_def quiet_env_def)

text \<open>The whole pass: the build is claimed and completed, and its candidate awaits approval.\<close>

lemma sample_pass:
  "\<exists>w'. claimAndRun sample_worker worker_world = Some (Inr True, w') \<and>
     map ct_State (sd_Candidates (sw_DB w')) = [CandidateAwaitingApproval] \<and>
     supply_step\<^sup>*\<^sup>* worker_supply (sw_DB w')"
proof -
  let ?run = "claimAndRun sample_worker worker_world"
  have "map_option (\<lambda>(r, w'). (r, map ct_State (sd_Candidates (sw_DB w')))) ?run
      = Some (Inr True, [CandidateAwaitingApproval])" by code_simp
  then obtain w' where w': "?run = Some (Inr True, w')" "map ct_State (sd_Candidates (sw_DB w')) = [CandidateAwaitingApproval]"
    by auto
  have "sw_DB worker_world = worker_supply" by (simp add: worker_world_def)
  then show ?thesis using w' claimAndRun_run [OF sample_worker_honest w'(1)] by auto
qed

lemma sample_finished_plan:
  "\<exists>w' plan. executePlan sample_worker sample_build (hd (sd_Candidates worker_supply)) SupplyLaws.sample_policy held_world
      = Some (Inr (), w') \<and>
    fully_evidenced sample_worker_codec (hd (sd_Candidates worker_supply)) SupplyLaws.sample_policy ''b'' (sw_DB w') plan"
proof -
  let ?run = "executePlan sample_worker sample_build (hd (sd_Candidates worker_supply)) SupplyLaws.sample_policy held_world"
  have "map_option fst ?run = Some (Inr ())" by code_simp
  then obtain w' where w': "?run = Some (Inr (), w')" by auto
  have "br_ID sample_build = ''b''" "we_Codec sample_worker = sample_worker_codec"
    by (simp_all add: sample_build_def sample_worker_def)
  then show ?thesis using w' finished_plan_is_evidenced [OF w'] by auto
qed

lemma sample_never_stalls:
  "\<exists>plan logical batch. restorePlan (\<lambda>_. Some sample_metadata) [sample_step ''check'' 1 BuildQueued CHR ''c'']
      = Inr (plan, logical) \<and>
    next_batch sample_worker plan logical logical = Inr (Some batch) \<and> batch \<noteq> []"
proof -
  let ?restored = "restorePlan (\<lambda>_. Some sample_metadata) [sample_step ''check'' 1 BuildQueued CHR ''c'']"
  have "case ?restored of Inl _ \<Rightarrow> False | Inr (plan, logical) \<Rightarrow> exhausted_step logical = None \<and>
      logical \<noteq> [] \<and> \<not> completed_key logical (fst (hd logical))" by code_simp
  then obtain plan logical where r: "?restored = Inr (plan, logical)" "exhausted_step logical = None"
    "logical \<noteq> []" "\<not> completed_key logical (fst (hd logical))" by (auto split: sum.splits)
  have "0 < we_MaxParallel sample_worker" by (simp add: sample_worker_def)
  moreover have "(fst (hd logical), snd (hd logical)) \<in> set logical" using r(3) by simp
  ultimately show ?thesis using worker_never_stalls [OF r(1,2) _ _ r(4)] r(1) by blast
qed

lemma sample_finalize:
  "\<exists>final w' row. finalizeBuild sample_worker sample_build BuildFailed held_world = (Inr final, w') \<and>
     br_State final = BuildFailed \<and>
     first_by br_ID (sd_Builds (finalized_on sample_worker sample_build held_world)) ''b'' = Some row \<and>
     br_WorkerID row = ''w1'' \<and> br_LeaseToken row = ''t1''"
proof -
  let ?run = "finalizeBuild sample_worker sample_build BuildFailed held_world"
  have "case ?run of (Inl _, _) \<Rightarrow> False | (Inr final, _) \<Rightarrow> True" by code_simp
  then obtain final w' where run: "?run = (Inr final, w')" by (auto split: prod.splits sum.splits)
  have "logged_command ''build'' (br_ID sample_build) (cmd_IdempotencyKey (finalize_command sample_worker sample_build
      BuildFailed)) (finalized_on sample_worker sample_build held_world) = None" by code_simp
  moreover have "br_ID sample_build = ''b''" "br_LeaseToken sample_build = ''t1''" "we_WorkerID sample_worker = ''w1''"
    by (simp_all add: sample_build_def sample_worker_def)
  ultimately show ?thesis using finalize_needs_lease [OF sample_worker_honest run] run by auto
qed

text \<open>The candidate of the first build was blocked and retried: its log holds the decision and the block.\<close>

definition retried_world :: "step_request supply_world" where
  "retried_world = worker_world\<lparr>sw_DB := after (\<lambda>db. and_then (append_event ''e1'' ''candidate'' ''c''
       ''candidate.proposal_updated'' ''building'' ''building''
       (sample_supply_command (snd (candidate_key ''c'' ''policy-decision''))) 5 db) (\<lambda>db1.
     and_then (append_event ''e2'' ''candidate'' ''c'' ''candidate.proposal_updated'' ''building'' ''building''
       (sample_supply_command (snd (candidate_key ''c'' ''policy-block-evidence''))) 6 db1) (\<lambda>db2.
     Inr ((), db2)))) worker_supply\<rparr>"

lemma sample_second_decision:
  "\<exists>e w'. recordPolicyDecision sample_worker ''c'' (digest_of CHR ''f'') retried_world = (Inl e, w')"
proof (cases "recordPolicyDecision sample_worker ''c'' (digest_of CHR ''f'') retried_world")
  case (Pair r w')
  let ?c = "hd (sd_Candidates worker_supply)"
  have "candidate_log (sw_DB retried_world) (candidate_key ''c'' ''policy-decision'') \<noteq> None" by code_simp
  moreover have "candidate_log (sw_DB retried_world) (candidate_key ''c'' ''policy-block-evidence'') \<noteq> None" by code_simp
  ultimately obtain e1 e2 where logged: "candidate_log (sw_DB retried_world) (candidate_key ''c'' ''policy-decision'') = Some e1"
    "candidate_log (sw_DB retried_world) (candidate_key ''c'' ''policy-block-evidence'') = Some e2" by blast
  have "called_db (we_Supply sample_worker) retried_world = sw_DB retried_world"
    by (simp add: called_db_def sample_worker_def quiet_env_def)
  moreover have "GetCandidate ''c'' (sw_DB retried_world) = Inr ?c" by code_simp
  moreover have "ct_PolicyDecision ?c \<noteq> digest_of CHR ''f''" by code_simp
  ultimately have "r \<noteq> Inr ()"
    using conjunct1 [OF second_decision_impossible [OF sample_worker_honest logged]] Pair by fastforce
  then show ?thesis using Pair by (cases r) auto
qed

end
