(* ===== verification/Scopes.thy ===== *)
theory Scopes
  imports GoPrelude
begin

text \<open>
  The scopes of a credential (\<open>internal/auth/apikey/scopes.go\<close>): the vocabulary, what a scope implies,
  delegation, the scanner personas of a human user, and the parser of a requested scope list. A
  \<open>map[string]bool\<close> that the code fills beside a slice holds the members of that slice, so membership
  in the slice stands for it. The JSON codec of a list of strings is a parameter.
\<close>

section \<open>The vocabulary\<close>

definition ScopeReadScannerSupplyChain :: string where
  "ScopeReadScannerSupplyChain = ''read:scanner-supply-chain''"

definition ScopeOperateScannerSupplyChain :: string where
  "ScopeOperateScannerSupplyChain = ''operate:scanner-supply-chain''"

definition ScopeApproveScannerReleases :: string where
  "ScopeApproveScannerReleases = ''approve:scanner-releases''"

definition ScopeManageScannerRegistries :: string where
  "ScopeManageScannerRegistries = ''manage:scanner-registries''"

definition ScopeAdminScannerSupplyChain :: string where
  "ScopeAdminScannerSupplyChain = ''admin:scanner-supply-chain''"

definition ScopeAdmin :: string where
  "ScopeAdmin = ''admin''"

definition product_scopes :: "string list" where
  "product_scopes =
     [''read:repos'', ''write:repos'', ''read:scans'', ''write:scans'', ''read:findings'',
      ''write:findings'', ''read:fixes'', ''write:fixes'', ''read:agents'', ''write:agents'',
      ''read:config'', ''write:config'', ''read:credentials'', ''write:credentials'']"

definition AllScopes :: "string list" where
  "AllScopes =
     product_scopes @
     [ScopeReadScannerSupplyChain, ScopeOperateScannerSupplyChain, ScopeApproveScannerReleases,
      ScopeManageScannerRegistries, ScopeAdminScannerSupplyChain, ScopeAdmin]"

lemmas scope_names =
  ScopeReadScannerSupplyChain_def ScopeOperateScannerSupplyChain_def ScopeApproveScannerReleases_def
  ScopeManageScannerRegistries_def ScopeAdminScannerSupplyChain_def ScopeAdmin_def

definition ScannerPersonaViewer :: string where
  "ScannerPersonaViewer = ''viewer''"

definition ScannerPersonaAuditor :: string where
  "ScannerPersonaAuditor = ''auditor''"

definition ScannerPersonaSupplyChainAdministrator :: string where
  "ScannerPersonaSupplyChainAdministrator = ''supply_chain_administrator''"

definition ScannerPersonaPresets :: "(string \<times> string list) list" where
  "ScannerPersonaPresets =
     [(ScannerPersonaViewer, [ScopeReadScannerSupplyChain]),
      (''scanner_operator'', [ScopeReadScannerSupplyChain, ScopeOperateScannerSupplyChain]),
      (''release_approver'', [ScopeReadScannerSupplyChain, ScopeApproveScannerReleases]),
      (''registry_administrator'', [ScopeReadScannerSupplyChain, ScopeManageScannerRegistries]),
      (ScannerPersonaSupplyChainAdministrator, [ScopeAdminScannerSupplyChain]),
      (ScannerPersonaAuditor, [ScopeReadScannerSupplyChain])]"

lemmas persona_names =
  ScannerPersonaViewer_def ScannerPersonaAuditor_def ScannerPersonaSupplyChainAdministrator_def

section \<open>What a scope implies\<close>

definition isScannerSupplyChainScope :: "string \<Rightarrow> bool" where
  "isScannerSupplyChainScope scope \<longleftrightarrow>
     contains_elem [ScopeReadScannerSupplyChain, ScopeOperateScannerSupplyChain,
       ScopeApproveScannerReleases, ScopeManageScannerRegistries, ScopeAdminScannerSupplyChain] scope"

text \<open>One iteration of the loop of \<open>Has\<close>.\<close>

definition grants :: "string \<Rightarrow> string \<Rightarrow> bool" where
  "grants held needed \<longleftrightarrow>
     held = ScopeAdmin \<or> held = needed \<or>
     held = ScopeAdminScannerSupplyChain \<and> isScannerSupplyChainScope needed \<or>
     needed = ScopeReadScannerSupplyChain \<and>
       contains_elem [ScopeOperateScannerSupplyChain, ScopeApproveScannerReleases,
                      ScopeManageScannerRegistries] held \<or>
     has_prefix needed ''read:'' \<and> held = ''write:'' @ trim_prefix needed ''read:''"

fun Has :: "string list \<Rightarrow> string \<Rightarrow> bool" where
  "Has [] needed = False"
| "Has (held # s) needed = (if grants held needed then True else Has s needed)"

fun HasAll :: "string list \<Rightarrow> string list \<Rightarrow> bool" where
  "HasAll s [] = True"
| "HasAll s (r # rs) = (if \<not> Has s r then False else HasAll s rs)"

fun AllowsDelegation :: "string list \<Rightarrow> string list \<Rightarrow> bool" where
  "AllowsDelegation s [] = True"
| "AllowsDelegation s (scope # requested) =
     (if \<not> Has s scope then False else AllowsDelegation s requested)"

definition AdminAll :: "string list" where
  "AdminAll = [ScopeAdmin]"

section \<open>Personas\<close>

datatype scope_error =
  UnknownPersona string | StandalonePersona | ScopeRequired | UnknownScope string | Undecodable

text \<open>Adding to a slice what its map of seen values does not hold.\<close>

definition add_new :: "'a list \<Rightarrow> 'a \<Rightarrow> 'a list" where
  "add_new xs x = (if contains_elem xs x then xs else xs @ [x])"

fun persona_loop :: "string list \<Rightarrow> string list \<Rightarrow> string list \<Rightarrow> scope_error + string list \<times> string list" where
  "persona_loop personas scopes [] = Inr (personas, scopes)"
| "persona_loop personas scopes (value # raw) =
     (let name = to_lower (trim_space value) in
      case map_of ScannerPersonaPresets name of
        None \<Rightarrow> Inl (UnknownPersona value)
      | Some preset \<Rightarrow>
          if contains_elem personas name then persona_loop personas scopes raw
          else persona_loop (personas @ [name]) (foldl add_new scopes preset) raw)"

definition ScannerScopesForPersonas :: "string list \<Rightarrow> scope_error + string list \<times> string list" where
  "ScannerScopesForPersonas raw =
     and_then (persona_loop [] [] (if raw = [] then [ScannerPersonaViewer] else raw)) (\<lambda>(personas, scopes).
       if contains_elem personas ScannerPersonaSupplyChainAdministrator
       then Inr ([ScopeAdminScannerSupplyChain], [ScannerPersonaSupplyChainAdministrator])
       else if 1 < length personas \<and>
               (contains_elem personas ScannerPersonaViewer \<or> contains_elem personas ScannerPersonaAuditor)
       then Inl StandalonePersona
       else Inr (if scopes = [] then [ScopeReadScannerSupplyChain] else scopes, sort personas))"

definition UserSessionForScannerPersonas :: "string list \<Rightarrow> string list" where
  "UserSessionForScannerPersonas personas =
     product_scopes @
     (case ScannerScopesForPersonas personas of
        Inl e \<Rightarrow> [ScopeReadScannerSupplyChain] | Inr (scopes, _) \<Rightarrow> scopes)"

definition UserSession :: "string list" where
  "UserSession = UserSessionForScannerPersonas []"

section \<open>The stored form\<close>

text \<open>\<open>json.Marshal\<close> of a list of strings; \<open>json.Unmarshal\<close> leaves a slice and says whether it erred.\<close>

record list_codec =
  lc_Marshal :: "string list \<Rightarrow> string"
  lc_Unmarshal :: "string \<Rightarrow> string list \<times> bool"

definition EncodeScannerPersonas :: "list_codec \<Rightarrow> string list \<Rightarrow> scope_error + string \<times> string list" where
  "EncodeScannerPersonas codec raw =
     and_then (ScannerScopesForPersonas raw) (\<lambda>(_, personas). Inr (lc_Marshal codec personas, personas))"

definition DecodeScannerPersonas :: "list_codec \<Rightarrow> string \<Rightarrow> string list \<times> scope_error option" where
  "DecodeScannerPersonas codec encoded =
     (if trim_space encoded = [] then ([ScannerPersonaViewer], None)
      else case lc_Unmarshal codec encoded of
        (raw, erred) \<Rightarrow>
          if erred then ([ScannerPersonaViewer], Some Undecodable)
          else case ScannerScopesForPersonas raw of
            Inl e \<Rightarrow> ([ScannerPersonaViewer], Some e)
          | Inr (_, personas) \<Rightarrow> (personas, None))"

definition Encode :: "list_codec \<Rightarrow> string list \<Rightarrow> string" where
  "Encode codec s = lc_Marshal codec s"

definition DecodeScopes :: "list_codec \<Rightarrow> string \<Rightarrow> string list" where
  "DecodeScopes codec stored =
     (if trim_space stored = [] then []
      else case lc_Unmarshal codec stored of (out, erred) \<Rightarrow> if erred then [] else out)"

section \<open>Requested scopes\<close>

fun parse_loop :: "string list \<Rightarrow> string list \<Rightarrow> scope_error + string list" where
  "parse_loop out [] = Inr out"
| "parse_loop out (s # raw) =
     (let norm = to_lower (trim_space s) in
      if norm = [] then parse_loop out raw
      else if contains_elem [''read-only'', ''readonly''] norm
      then parse_loop (foldl add_new out (filter (\<lambda>sc. has_prefix sc ''read:'') AllScopes)) raw
      else if contains_elem [''read-write'', ''readwrite''] norm
      then parse_loop (foldl add_new out
             (filter (\<lambda>sc. has_prefix sc ''read:'' \<or> has_prefix sc ''write:'') AllScopes)) raw
      else if contains_elem [''full'', ''all''] norm then parse_loop (foldl add_new out AllScopes) raw
      else if \<not> contains_elem AllScopes norm then Inl (UnknownScope s)
      else parse_loop (add_new out norm) raw)"

definition ParseScopes :: "string list \<Rightarrow> scope_error + string list" where
  "ParseScopes raw =
     (if raw = [] then Inl ScopeRequired
      else and_then (parse_loop [] raw) (\<lambda>out. if out = [] then Inl ScopeRequired else Inr (sort out)))"

section \<open>Implication between scopes\<close>

lemma Has_iff: "Has s r \<longleftrightarrow> (\<exists>held \<in> set s. grants held r)"
  by (induction s) auto

lemma AllowsDelegation_iff: "AllowsDelegation s rs \<longleftrightarrow> (\<forall>r \<in> set rs. Has s r)"
  by (induction rs) auto

lemma HasAll_iff: "HasAll s rs \<longleftrightarrow> (\<forall>r \<in> set rs. Has s r)"
  by (induction rs) auto

lemma grants_refl [simp]: "grants s s"
  by (simp add: grants_def)

lemma grants_admin [simp]: "grants ScopeAdmin r"
  by (simp add: grants_def)

lemma has_prefix_read: "has_prefix r ''read:'' \<longleftrightarrow> (\<exists>x. r = ''read:'' @ x)"
  by (metis has_prefixE has_prefix_append)

lemma grants_cases:
  assumes "grants a b"
  obtains "a = ScopeAdmin" | "a = b"
    | "a = ScopeAdminScannerSupplyChain" "isScannerSupplyChainScope b"
    | "b = ScopeReadScannerSupplyChain" "isScannerSupplyChainScope a"
    | x where "b = ''read:'' @ x" "a = ''write:'' @ x"
  using assms by (auto simp: grants_def has_prefix_read trim_prefix_def isScannerSupplyChainScope_def)

lemma scanner_scope_shape:
  assumes "isScannerSupplyChainScope b"
  shows "b \<noteq> ScopeAdmin" "b \<noteq> ''write:'' @ x"
  using assms by (auto simp: isScannerSupplyChainScope_def scope_names)

lemma grants_trans:
  assumes ab: "grants a b" and bc: "grants b c"
  shows "grants a c"
  using ab
proof (cases rule: grants_cases)
  case 3
  have "b = c \<or> isScannerSupplyChainScope c"
    using bc 3(2) scanner_scope_shape [OF 3(2)]
    by (cases rule: grants_cases) (auto simp: isScannerSupplyChainScope_def)
  then show ?thesis using 3 by (auto simp: grants_def)
next
  case 4
  have "c = b" using bc by (cases rule: grants_cases) (use 4 in \<open>auto simp: scope_names\<close>)
  then show ?thesis using ab by simp
next
  case (5 x)
  have "c = b"
    using bc by (cases rule: grants_cases) (use 5 in \<open>auto simp: scope_names isScannerSupplyChainScope_def\<close>)
  then show ?thesis using ab by simp
qed (use bc in auto)

lemma Has_mono:
  assumes "\<forall>r \<in> set t. Has s r" "Has t r"
  shows "Has s r"
  using assms grants_trans unfolding Has_iff by blast

text \<open>A chain of credentials, each minted by the one before it.\<close>

fun minted_in_turn :: "string list \<Rightarrow> string list list \<Rightarrow> bool" where
  "minted_in_turn s [] = True"
| "minted_in_turn s (t # ts) \<longleftrightarrow> AllowsDelegation s t \<and> minted_in_turn t ts"

text \<open>
  Delegation never escalates. When every credential of a chain was minted under the scopes of the
  one before it, the last satisfies no scope requirement that the first does not: the implications
  between scopes are closed under delegation.
\<close>

theorem delegation_never_escalates:
  assumes "minted_in_turn s (ts @ [t])" "Has t r"
  shows "Has s r"
  using assms(1)
proof (induction ts arbitrary: s)
  case Nil
  then show ?case using assms(2) Has_mono by (auto simp: AllowsDelegation_iff)
next
  case (Cons u us)
  then have "Has u r" "\<forall>x \<in> set u. Has s x" by (auto simp: AllowsDelegation_iff)
  then show ?case using Has_mono by blast
qed

lemma delegation_never_escalates_witness:
  "Has [ScopeAdminScannerSupplyChain, ''write:repos''] ''read:repos''"
  by (rule delegation_never_escalates [where ts = "[[ScopeOperateScannerSupplyChain, ''write:repos'']]"
        and t = "[ScopeReadScannerSupplyChain, ''read:repos'']"]) code_simp+

text \<open>Delegation asks exactly what \<open>HasAll\<close> asks: the administrator's scope does imply every other.\<close>

lemma delegation_is_HasAll: "AllowsDelegation s rs = HasAll s rs"
  by (simp add: AllowsDelegation_iff HasAll_iff)

lemma admin_delegates_everything: "AllowsDelegation AdminAll rs"
  by (simp add: AllowsDelegation_iff AdminAll_def)

section \<open>Requested scope lists\<close>

lemma set_add_new [simp]: "set (add_new xs x) = insert x (set xs)"
  by (auto simp: add_new_def)

lemma distinct_add_new [simp]: "distinct (add_new xs x) \<longleftrightarrow> distinct xs"
  by (auto simp: add_new_def)

lemma set_add_all [simp]: "set (foldl add_new xs ys) = set xs \<union> set ys"
  by (induction ys arbitrary: xs) auto

lemma distinct_add_all [simp]: "distinct (foldl add_new xs ys) \<longleftrightarrow> distinct xs"
  by (induction ys arbitrary: xs) auto

lemma add_new_id: "x \<notin> set xs \<Longrightarrow> add_new xs x = xs @ [x]"
  by (simp add: add_new_def)

lemma parse_loop_sound:
  "parse_loop out raw = Inr res \<Longrightarrow> distinct out \<Longrightarrow> set out \<subseteq> set AllScopes \<Longrightarrow>
     distinct res \<and> set res \<subseteq> set AllScopes"
proof (induction out raw rule: parse_loop.induct)
  case (2 out s raw)
  then show ?case by (auto simp: Let_def split: if_splits)
qed auto

lemma vocabulary_normal: "sc \<in> set AllScopes \<Longrightarrow>
    to_lower (trim_space sc) = sc \<and> sc \<noteq> [] \<and> sc \<notin> {''read-only'', ''readonly'', ''read-write'', ''readwrite'', ''full'', ''all''}"
proof -
  have "list_all (\<lambda>sc. to_lower (trim_space sc) = sc \<and> sc \<noteq> [] \<and>
      \<not> contains_elem [''read-only'', ''readonly'', ''read-write'', ''readwrite'', ''full'', ''all''] sc) AllScopes"
    by code_simp
  then show "sc \<in> set AllScopes \<Longrightarrow> ?thesis" by (auto simp: list_all_iff)
qed

lemma parse_loop_vocabulary:
  "set raw \<subseteq> set AllScopes \<Longrightarrow> distinct (out @ raw) \<Longrightarrow> parse_loop out raw = Inr (out @ raw)"
proof (induction raw arbitrary: out)
  case (Cons s raw)
  then show ?case using vocabulary_normal [of s] by (simp add: add_new_id)
qed simp

text \<open>
  A parsed scope list is a normal form: never empty, sorted, without duplicates and within the
  vocabulary, whatever aliases, letter case and blanks the request used. Parsing it again changes nothing.
\<close>

theorem parsed_scopes_normal:
  assumes "ParseScopes raw = Inr out"
  shows "out \<noteq> [] \<and> sorted out \<and> distinct out \<and> set out \<subseteq> set AllScopes \<and> ParseScopes out = Inr out"
proof -
  obtain res where loop: "parse_loop [] raw = Inr res" and out: "out = sort res" and ne: "res \<noteq> []"
    using assms by (auto simp: ParseScopes_def and_then_Inr split: if_splits)
  have "distinct res" "set res \<subseteq> set AllScopes" using parse_loop_sound [OF loop] by auto
  then have shape: "distinct out" "set out \<subseteq> set AllScopes" "sorted out" "out \<noteq> []" using out ne by auto
  then have "parse_loop [] out = Inr out" using parse_loop_vocabulary [of out "[]"] by simp
  then have "ParseScopes out = Inr out"
    using shape by (simp add: ParseScopes_def sorted_sort_id)
  then show ?thesis using shape by simp
qed

lemma parsed_scopes_normal_witness:
  "\<exists>out. ParseScopes ['' Read-Only'', ''write:repos'', ''read:repos ''] = Inr out \<and> ParseScopes out = Inr out"
proof -
  obtain out where "ParseScopes ['' Read-Only'', ''write:repos'', ''read:repos ''] = Inr out"
    by (rule that [of "the_elem {projr (ParseScopes ['' Read-Only'', ''write:repos'', ''read:repos ''])}"]) code_simp
  then show ?thesis using parsed_scopes_normal by blast
qed

section \<open>Persona assignments\<close>

definition persona_name :: "string \<Rightarrow> string" where
  "persona_name value = to_lower (trim_space value)"

definition persona_scopes :: "string \<Rightarrow> string list" where
  "persona_scopes name = (case map_of ScannerPersonaPresets name of None \<Rightarrow> [] | Some scopes \<Rightarrow> scopes)"

abbreviation known_persona :: "string \<Rightarrow> bool" where
  "known_persona name \<equiv> map_of ScannerPersonaPresets name \<noteq> None"

lemma presets_facts:
  assumes "known_persona p"
  shows "persona_name p = p" "persona_scopes p \<noteq> []" "\<not> Has (persona_scopes p) ScopeAdmin"
proof -
  have "list_all (\<lambda>(p, scopes). persona_name p = p \<and> persona_scopes p \<noteq> [] \<and>
          \<not> Has (persona_scopes p) ScopeAdmin) ScannerPersonaPresets"
    by code_simp
  moreover obtain scopes where "(p, scopes) \<in> set ScannerPersonaPresets"
    using assms by (auto dest: map_of_SomeD)
  ultimately show "persona_name p = p" "persona_scopes p \<noteq> []" "\<not> Has (persona_scopes p) ScopeAdmin"
    by (auto simp: list_all_iff)
qed

lemma persona_loop_result:
  "persona_loop ps sc raw = Inr (ps', sc') \<Longrightarrow> set sc = \<Union> (set ` persona_scopes ` set ps) \<Longrightarrow>
     distinct ps \<Longrightarrow> Ball (set ps) known_persona \<Longrightarrow>
     set ps' = set ps \<union> persona_name ` set raw \<and> distinct ps' \<and> Ball (set ps') known_persona \<and>
     set sc' = \<Union> (set ` persona_scopes ` set ps')"
proof (induction ps sc raw rule: persona_loop.induct)
  case (2 ps sc v raw)
  obtain preset where preset: "map_of ScannerPersonaPresets (persona_name v) = Some preset"
    using "2.prems"(1) by (auto simp: persona_name_def Let_def split: option.splits)
  show ?case
  proof (cases "persona_name v \<in> set ps")
    case True
    then show ?thesis using "2.IH"(1) "2.prems" preset by (auto simp: persona_name_def Let_def)
  next
    case False
    have scopes: "persona_scopes (persona_name v) = preset"
      using preset by (simp add: persona_scopes_def)
    have rest: "persona_loop (ps @ [persona_name v]) (foldl add_new sc preset) raw = Inr (ps', sc')"
      using "2.prems"(1) preset False by (simp add: persona_name_def Let_def)
    have grown: "set (foldl add_new sc preset) = \<Union> (set ` persona_scopes ` set (ps @ [persona_name v]))"
      using "2.prems"(2) scopes by auto
    have "distinct (ps @ [persona_name v])" "Ball (set (ps @ [persona_name v])) known_persona"
      using "2.prems"(3,4) False preset by auto
    from "2.IH"(2) [OF persona_name_def preset _ rest grown this] False
    show ?thesis by (auto simp: persona_name_def)
  qed
qed auto

lemma persona_loop_known:
  "Ball (set raw) known_persona \<Longrightarrow> distinct (ps @ raw) \<Longrightarrow>
     \<exists>sc'. persona_loop ps sc raw = Inr (ps @ raw, sc')"
proof (induction raw arbitrary: ps sc)
  case (Cons v raw)
  obtain preset where "map_of ScannerPersonaPresets v = Some preset" using Cons.prems(1) by auto
  moreover have "to_lower (trim_space v) = v"
    using presets_facts(1) [of v] Cons.prems(1) by (auto simp: persona_name_def)
  ultimately show ?case
    using Cons.IH [of "ps @ [v]" "foldl add_new sc preset"] Cons.prems by auto
qed simp

text \<open>What a valid assignment comes to: its names, and the scopes of exactly those.\<close>

lemma assignment_result:
  assumes "ScannerScopesForPersonas raw = Inr (scopes, names)"
  shows "names \<noteq> []" "sorted names" "distinct names" "Ball (set names) known_persona"
    "set scopes = \<Union> (set ` persona_scopes ` set names)"
    "ScannerPersonaSupplyChainAdministrator \<in> set names \<Longrightarrow> names = [ScannerPersonaSupplyChainAdministrator]"
    "1 < length names \<Longrightarrow> ScannerPersonaViewer \<notin> set names \<and> ScannerPersonaAuditor \<notin> set names"
proof -
  define asked where "asked = (if raw = [] then [ScannerPersonaViewer] else raw)"
  obtain ps sc where loop: "persona_loop [] [] asked = Inr (ps, sc)"
    and result: "(if contains_elem ps ScannerPersonaSupplyChainAdministrator
        then Inr ([ScopeAdminScannerSupplyChain], [ScannerPersonaSupplyChainAdministrator])
        else if 1 < length ps \<and>
                (contains_elem ps ScannerPersonaViewer \<or> contains_elem ps ScannerPersonaAuditor)
        then Inl StandalonePersona
        else Inr (if sc = [] then [ScopeReadScannerSupplyChain] else sc, sort ps)) = Inr (scopes, names)"
    using assms by (auto simp: ScannerScopesForPersonas_def and_then_Inr asked_def)
  have ps: "set ps = persona_name ` set asked" "distinct ps" "Ball (set ps) known_persona"
    "set sc = \<Union> (set ` persona_scopes ` set ps)"
    using persona_loop_result [OF loop] by auto
  have asked: "asked \<noteq> []" by (simp add: asked_def)
  then have ne: "ps \<noteq> []" using ps(1) by auto
  then obtain p where p: "p \<in> set ps" by (cases ps) auto
  then have "sc \<noteq> []" using ps(3,4) presets_facts(2) [of p] by (metis UN_iff all_not_in_conv image_eqI set_empty)
  have admin: "known_persona ScannerPersonaSupplyChainAdministrator"
    "persona_scopes ScannerPersonaSupplyChainAdministrator = [ScopeAdminScannerSupplyChain]"
    by code_simp+
  show "names \<noteq> []" "sorted names" "distinct names" "Ball (set names) known_persona"
    "set scopes = \<Union> (set ` persona_scopes ` set names)"
    "ScannerPersonaSupplyChainAdministrator \<in> set names \<Longrightarrow> names = [ScannerPersonaSupplyChainAdministrator]"
    "1 < length names \<Longrightarrow> ScannerPersonaViewer \<notin> set names \<and> ScannerPersonaAuditor \<notin> set names"
    using result ps ne admin \<open>sc \<noteq> []\<close> by (auto split: if_splits)
qed

lemma product_scopes_plain: "\<not> Has product_scopes ScopeAdmin"
  by code_simp

text \<open>
  What a human session that is not an administrator's may do: exactly the product scopes, and of
  the scanner supply chain what the presets of the user's valid persona assignment grant; an invalid
  assignment leaves the read scope alone. No assignment reaches the administrator's scope.
\<close>

theorem session_scopes_exact:
  "(Has (UserSessionForScannerPersonas personas) r \<longleftrightarrow>
      Has product_scopes r \<or>
      (case ScannerScopesForPersonas personas of
         Inl _ \<Rightarrow> r = ScopeReadScannerSupplyChain
       | Inr (_, names) \<Rightarrow> \<exists>p \<in> set names. Has (persona_scopes p) r)) \<and>
   \<not> Has (UserSessionForScannerPersonas personas) ScopeAdmin"
proof -
  have base: "Has (UserSessionForScannerPersonas personas) q \<longleftrightarrow>
      Has product_scopes q \<or>
      (case ScannerScopesForPersonas personas of
         Inl _ \<Rightarrow> q = ScopeReadScannerSupplyChain
       | Inr (_, names) \<Rightarrow> \<exists>p \<in> set names. Has (persona_scopes p) q)" for q
  proof (cases "ScannerScopesForPersonas personas")
    case (Inl e)
    have "grants ScopeReadScannerSupplyChain q \<longleftrightarrow> q = ScopeReadScannerSupplyChain"
      by (auto simp: grants_def scope_names)
    then show ?thesis using Inl by (auto simp: UserSessionForScannerPersonas_def Has_iff)
  next
    case (Inr a)
    obtain scopes names where a: "a = (scopes, names)" by (cases a)
    show ?thesis
      using assignment_result(5) [OF Inr [unfolded a]] Inr a
      by (auto simp: UserSessionForScannerPersonas_def Has_iff)
  qed
  have "\<not> Has (UserSessionForScannerPersonas personas) ScopeAdmin"
  proof (cases "ScannerScopesForPersonas personas")
    case (Inl e)
    then show ?thesis using base [of ScopeAdmin] product_scopes_plain by (simp add: scope_names)
  next
    case (Inr a)
    obtain scopes names where a: "a = (scopes, names)" by (cases a)
    show ?thesis
      using base [of ScopeAdmin] product_scopes_plain Inr a presets_facts(3)
        assignment_result(4) [OF Inr [unfolded a]] by auto
  qed
  then show ?thesis using base by blast
qed

text \<open>The names a valid assignment comes to are themselves a valid assignment, of the same names.\<close>

lemma assignment_idempotent:
  assumes "ScannerScopesForPersonas raw = Inr (scopes, names)"
  shows "\<exists>scopes'. ScannerScopesForPersonas names = Inr (scopes', names)"
proof -
  note result = assignment_result [OF assms]
  obtain sc where loop: "persona_loop [] [] names = Inr (names, sc)"
    using persona_loop_known [of names "[]" "[]"] result(3,4) by auto
  show ?thesis
    using result loop by (auto simp: ScannerScopesForPersonas_def sorted_sort_id)
qed

text \<open>
  Storing a persona assignment and reading it back returns the normalized names without an error,
  for every assignment that the encoder accepts. The JSON codec is assumed to return that list as it
  was written, in a text that is not blank.
\<close>

theorem personas_roundtrip:
  assumes "EncodeScannerPersonas codec raw = Inr (encoded, names)"
    and "lc_Unmarshal codec (lc_Marshal codec names) = (names, False)"
    and "trim_space (lc_Marshal codec names) \<noteq> []"
  shows "DecodeScannerPersonas codec encoded = (names, None)"
proof -
  obtain scopes where raw: "ScannerScopesForPersonas raw = Inr (scopes, names)"
    and enc: "encoded = lc_Marshal codec names"
    using assms(1) by (auto simp: EncodeScannerPersonas_def and_then_Inr)
  obtain scopes' where "ScannerScopesForPersonas names = Inr (scopes', names)"
    using assignment_idempotent [OF raw] by blast
  then show ?thesis using assms(2,3) enc by (simp add: DecodeScannerPersonas_def)
qed

text \<open>A codec for lists of plain names, for the examples.\<close>

definition sample_lists :: list_codec where
  "sample_lists =
     \<lparr>lc_Marshal = (\<lambda>xs. ''['' @ join_with '','' xs @ '']''),
      lc_Unmarshal = (\<lambda>s. if s = ''[]'' then ([], False)
                          else (split_char CHR 0x2C (butlast (drop 1 s)), False))\<rparr>"

lemma personas_roundtrip_witness:
  "DecodeScannerPersonas sample_lists ''[release_approver,scanner_operator]'' =
     ([''release_approver'', ''scanner_operator''], None)"
  by (rule personas_roundtrip [where raw = "[''Scanner_Operator '', ''release_approver'']"]) code_simp+

end
