(* ===== verification/AuthStore.thy ===== *)
theory AuthStore
  imports Scopes
begin

text \<open>
  Accounts, sessions and API tokens in the database (\<open>internal/db/postgres.go\<close>, \<open>users.go\<close>,
  \<open>mfa.go\<close>, \<open>postgres_sessions.go\<close>, \<open>postgres_apitokens.go\<close>). A table is the list of its rows. An
  operation returns an error and changes nothing, or its result and the new database: each is one
  statement or one transaction that rolls back. The constraints are those of the schema: unique
  identifiers, emails and hashes, a session belongs to an account and goes with it, and the other
  tables may hold rows that refer to an account.
\<close>

section \<open>Rows\<close>

record auth_user =
  au_ID :: string
  au_Email :: string
  au_PasswordHash :: string
  au_Role :: string
  au_DisplayName :: string
  au_Personas :: string
  au_TOTPSecret :: string
  au_TOTPEnabled :: bool
  au_TOTPRecoveryCodes :: string
  au_CredentialVersion :: int
  au_MFARevision :: int
  au_TOTPLastStep :: int
  au_CreatedAt :: go_time
  au_UpdatedAt :: go_time

record auth_session =
  as_ID :: string
  as_UserID :: string
  as_SessionHash :: string
  as_SessionPrefix :: string
  as_CreatedAt :: go_time
  as_LastUsedAt :: "go_time option"
  as_ExpiresAt :: go_time
  as_RevokedAt :: "go_time option"

record api_token =
  at_ID :: string
  at_UserID :: string
  at_Name :: string
  at_TokenHash :: string
  at_TokenPrefix :: string
  at_Scopes :: string
  at_ScopeList :: "string list"
  at_CreatedAt :: go_time
  at_LastUsedAt :: "go_time option"
  at_ExpiresAt :: "go_time option"
  at_RevokedAt :: "go_time option"

text \<open>The settings, and the accounts that rows of other tables refer to.\<close>

record auth_db =
  ad_Users :: "auth_user list"
  ad_Sessions :: "auth_session list"
  ad_Tokens :: "api_token list"
  ad_Settings :: "string \<Rightarrow> string option"
  ad_Referenced :: "string \<Rightarrow> bool"

datatype auth_error =
  NoRows | UserChanged | MFAChanged | MFAChallenge | UniqueViolation | ForeignKeyViolation

definition RoleAdmin :: string where
  "RoleAdmin = ''admin''"

definition RoleUser :: string where
  "RoleUser = ''user''"

definition IsAdmin :: "auth_user \<Rightarrow> bool" where
  "IsAdmin u \<longleftrightarrow> au_Role u = RoleAdmin"

definition MFAEnabled :: "auth_user \<Rightarrow> bool" where
  "MFAEnabled u \<longleftrightarrow> au_TOTPEnabled u"

definition query_row :: "'r option \<Rightarrow> auth_error + 'r" where
  "query_row r = (case r of None \<Rightarrow> Inl NoRows | Some x \<Rightarrow> Inr x)"

section \<open>Accounts\<close>

definition GetUserByID :: "string \<Rightarrow> auth_db \<Rightarrow> auth_error + auth_user" where
  "GetUserByID i db = query_row (first_by au_ID (ad_Users db) i)"

definition GetUserByEmail :: "string \<Rightarrow> auth_db \<Rightarrow> auth_error + auth_user" where
  "GetUserByEmail email db = query_row (first_by au_Email (ad_Users db) email)"

text \<open>The columns that the query of \<open>ListUsers\<close> leaves out stay zero.\<close>

definition ListUsers :: "auth_db \<Rightarrow> auth_user list" where
  "ListUsers db =
     map (\<lambda>u. u\<lparr>au_TOTPSecret := [], au_TOTPRecoveryCodes := [], au_CredentialVersion := 0,
                au_MFARevision := 0, au_TOTPLastStep := 0\<rparr>)
       (sort_key au_CreatedAt (ad_Users db))"

definition role_or_user :: "string \<Rightarrow> string" where
  "role_or_user role = (if role = [] then RoleUser else role)"

text \<open>The value that the insert takes, and the row with the defaults of the columns it leaves out.\<close>

definition created_user :: "go_time \<Rightarrow> auth_user \<Rightarrow> auth_user" where
  "created_user now user =
     user\<lparr>au_CreatedAt := now, au_UpdatedAt := now, au_Role := role_or_user (au_Role user)\<rparr>"

definition inserted_user :: "auth_user \<Rightarrow> auth_user" where
  "inserted_user user =
     user\<lparr>au_DisplayName := [], au_TOTPSecret := [], au_TOTPEnabled := False, au_TOTPRecoveryCodes := [],
          au_CredentialVersion := 0, au_MFARevision := 0, au_TOTPLastStep := -1\<rparr>"

definition CreateUser :: "go_time \<Rightarrow> auth_user \<Rightarrow> auth_db \<Rightarrow> auth_error + auth_user \<times> auth_db" where
  "CreateUser now user db =
     (if contains_elem (map au_ID (ad_Users db)) (au_ID user) \<or>
         contains_elem (map au_Email (ad_Users db)) (au_Email user)
      then Inl UniqueViolation
      else Inr (created_user now user,
                db\<lparr>ad_Users := ad_Users db @ [inserted_user (created_user now user)]\<rparr>))"

text \<open>Another account has the address.\<close>

definition email_taken :: "string \<Rightarrow> string \<Rightarrow> auth_db \<Rightarrow> bool" where
  "email_taken i email db \<longleftrightarrow> list_ex (\<lambda>u. au_ID u \<noteq> i \<and> au_Email u = email) (ad_Users db)"

text \<open>The row that the \<open>UPDATE\<close> of \<open>updateUser\<close> leaves.\<close>

definition updated_user :: "go_time \<Rightarrow> auth_user \<Rightarrow> auth_user \<Rightarrow> auth_user" where
  "updated_user now user row =
     row\<lparr>au_Email := au_Email user,
         au_CredentialVersion :=
           au_CredentialVersion row + (if au_PasswordHash row \<noteq> au_PasswordHash user then 1 else 0),
         au_PasswordHash := au_PasswordHash user, au_Role := role_or_user (au_Role user),
         au_Personas := au_Personas user, au_UpdatedAt := now\<rparr>"

definition updateUser :: "go_time \<Rightarrow> auth_user \<Rightarrow> auth_db \<Rightarrow> auth_error + auth_user \<times> auth_db" where
  "updateUser now user db =
     (let hit = (\<lambda>r. au_ID r = au_ID user \<and> au_CredentialVersion r = au_CredentialVersion user) in
      case find hit (ad_Users db) of
        None \<Rightarrow> Inl UserChanged
      | Some row \<Rightarrow>
          if email_taken (au_ID user) (au_Email user) db then Inl UniqueViolation
          else Inr (user\<lparr>au_UpdatedAt := now, au_Role := role_or_user (au_Role user),
                         au_CredentialVersion := au_CredentialVersion (updated_user now user row)\<rparr>,
                    db\<lparr>ad_Users := update_where hit (updated_user now user) (ad_Users db)\<rparr>))"

definition UpdateUserScannerSupplyChainPersonas ::
  "go_time \<Rightarrow> string \<Rightarrow> string \<Rightarrow> auth_db \<Rightarrow> auth_error + unit \<times> auth_db" where
  "UpdateUserScannerSupplyChainPersonas now userID encodedPersonas db =
     (if \<not> contains_elem (map au_ID (ad_Users db)) userID then Inl NoRows
      else Inr ((), db\<lparr>ad_Users := update_where (\<lambda>u. au_ID u = userID)
             (\<lambda>u. u\<lparr>au_Personas := encodedPersonas, au_UpdatedAt := now\<rparr>) (ad_Users db)\<rparr>))"

definition UpdateUserProfile :: "go_time \<Rightarrow> auth_user \<Rightarrow> auth_db \<Rightarrow> auth_error + unit \<times> auth_db" where
  "UpdateUserProfile now user db =
     (if contains_elem (map au_ID (ad_Users db)) (au_ID user) \<and> email_taken (au_ID user) (au_Email user) db
      then Inl UniqueViolation
      else Inr ((), db\<lparr>ad_Users := update_where (\<lambda>u. au_ID u = au_ID user)
             (\<lambda>u. u\<lparr>au_Email := au_Email user, au_DisplayName := au_DisplayName user,
                    au_UpdatedAt := now\<rparr>) (ad_Users db)\<rparr>))"

text \<open>Sessions go with their account; API tokens name it without a constraint.\<close>

definition DeleteUser :: "string \<Rightarrow> auth_db \<Rightarrow> auth_error + unit \<times> auth_db" where
  "DeleteUser i db =
     (if contains_elem (map au_ID (ad_Users db)) i \<and> ad_Referenced db i then Inl ForeignKeyViolation
      else Inr ((), db\<lparr>ad_Users := filter (\<lambda>u. au_ID u \<noteq> i) (ad_Users db),
                       ad_Sessions := filter (\<lambda>s. as_UserID s \<noteq> i) (ad_Sessions db)\<rparr>))"

section \<open>The second factor\<close>

definition credential_change :: "auth_user \<Rightarrow> auth_user \<Rightarrow> int" where
  "credential_change user previous =
     (if au_TOTPSecret user \<noteq> au_TOTPSecret previous \<or> au_TOTPEnabled user \<noteq> au_TOTPEnabled previous
      then 1 else 0)"

text \<open>The condition of the \<open>UPDATE\<close>: the row still is what the caller verified against.\<close>

definition unchanged_factor :: "auth_user \<Rightarrow> auth_user \<Rightarrow> bool" where
  "unchanged_factor previous r \<longleftrightarrow>
     au_ID r = au_ID previous \<and> au_TOTPSecret r = au_TOTPSecret previous \<and>
     au_TOTPEnabled r = au_TOTPEnabled previous \<and>
     au_TOTPRecoveryCodes r = au_TOTPRecoveryCodes previous \<and>
     au_TOTPLastStep r = au_TOTPLastStep previous \<and>
     au_CredentialVersion r = au_CredentialVersion previous \<and> au_MFARevision r = au_MFARevision previous"

definition factor_row :: "go_time \<Rightarrow> auth_user \<Rightarrow> auth_user \<Rightarrow> auth_user \<Rightarrow> auth_user" where
  "factor_row now user previous r =
     r\<lparr>au_TOTPSecret := au_TOTPSecret user, au_TOTPEnabled := au_TOTPEnabled user,
       au_TOTPRecoveryCodes := au_TOTPRecoveryCodes user, au_TOTPLastStep := au_TOTPLastStep user,
       au_CredentialVersion := au_CredentialVersion r + credential_change user previous,
       au_MFARevision := au_MFARevision r + 1, au_UpdatedAt := now\<rparr>"

definition updateUserMFA ::
  "go_time \<Rightarrow> auth_user \<Rightarrow> auth_user \<Rightarrow> auth_db \<Rightarrow> auth_error + auth_user \<times> auth_db" where
  "updateUserMFA now user previous db =
     (if au_ID user \<noteq> au_ID previous then Inl MFAChanged
      else if credential_change user previous = 0 \<and> au_TOTPLastStep user < au_TOTPLastStep previous
      then Inl MFAChanged
      else if length (filter (unchanged_factor previous) (ad_Users db)) \<noteq> 1 then Inl MFAChanged
      else Inr (user\<lparr>au_UpdatedAt := now,
                     au_CredentialVersion := au_CredentialVersion previous + credential_change user previous,
                     au_MFARevision := au_MFARevision previous + 1\<rparr>,
                db\<lparr>ad_Users := update_where (unchanged_factor previous) (factor_row now user previous)
                                 (ad_Users db)\<rparr>))"

section \<open>Sessions\<close>

definition insert_session :: "auth_session \<Rightarrow> auth_db \<Rightarrow> auth_error + unit \<times> auth_db" where
  "insert_session s db =
     (if contains_elem (map as_ID (ad_Sessions db)) (as_ID s) \<or>
         contains_elem (map as_SessionHash (ad_Sessions db)) (as_SessionHash s)
      then Inl UniqueViolation
      else if \<not> contains_elem (map au_ID (ad_Users db)) (as_UserID s) then Inl ForeignKeyViolation
      else Inr ((), db\<lparr>ad_Sessions := ad_Sessions db @ [s]\<rparr>))"

definition CreateAuthSession :: "go_time \<Rightarrow> auth_session \<Rightarrow> auth_db \<Rightarrow> auth_error + unit \<times> auth_db" where
  "CreateAuthSession now session db =
     insert_session (if is_zero_time (as_CreatedAt session) then session\<lparr>as_CreatedAt := now\<rparr> else session) db"

definition GetAuthSessionByHash :: "string \<Rightarrow> auth_db \<Rightarrow> auth_error + auth_session" where
  "GetAuthSessionByHash hash db = query_row (first_by as_SessionHash (ad_Sessions db) hash)"

text \<open>\<open>UPDATE auth_sessions SET revoked_at\<close> on the rows that satisfy a condition.\<close>

definition revoke_sessions :: "go_time \<Rightarrow> (auth_session \<Rightarrow> bool) \<Rightarrow> auth_db \<Rightarrow> auth_db" where
  "revoke_sessions now hit db =
     db\<lparr>ad_Sessions := update_where hit (\<lambda>s. s\<lparr>as_RevokedAt := Some now\<rparr>) (ad_Sessions db)\<rparr>"

definition RevokeAuthSessionByHash :: "go_time \<Rightarrow> string \<Rightarrow> auth_db \<Rightarrow> auth_error + unit \<times> auth_db" where
  "RevokeAuthSessionByHash now hash db = Inr ((), revoke_sessions now (\<lambda>s. as_SessionHash s = hash) db)"

definition RevokeAuthSessionsByUser ::
  "go_time \<Rightarrow> string \<Rightarrow> string \<Rightarrow> auth_db \<Rightarrow> auth_error + unit \<times> auth_db" where
  "RevokeAuthSessionsByUser now userID exceptSessionID db =
     Inr ((), if exceptSessionID \<noteq> []
              then revoke_sessions now
                     (\<lambda>s. as_UserID s = userID \<and> as_ID s \<noteq> exceptSessionID \<and> as_RevokedAt s = None) db
              else revoke_sessions now (\<lambda>s. as_UserID s = userID \<and> as_RevokedAt s = None) db)"

definition TouchAuthSession :: "go_time \<Rightarrow> string \<Rightarrow> auth_db \<Rightarrow> auth_error + unit \<times> auth_db" where
  "TouchAuthSession now i db =
     Inr ((), db\<lparr>ad_Sessions := update_where (\<lambda>s. as_ID s = i) (\<lambda>s. s\<lparr>as_LastUsedAt := Some now\<rparr>)
                                  (ad_Sessions db)\<rparr>)"

text \<open>The columns that the two exchanges insert: a new session is neither used nor revoked.\<close>

definition fresh_session :: "auth_session \<Rightarrow> auth_session" where
  "fresh_session s = s\<lparr>as_LastUsedAt := None, as_RevokedAt := None\<rparr>"

definition live_session :: "go_time \<Rightarrow> string \<Rightarrow> auth_session \<Rightarrow> bool" where
  "live_session now hash s \<longleftrightarrow> as_SessionHash s = hash \<and> as_RevokedAt s = None \<and> now < as_ExpiresAt s"

definition RotateAuthSession ::
  "go_time \<Rightarrow> string \<Rightarrow> auth_session \<Rightarrow> auth_db \<Rightarrow> auth_error + bool \<times> auth_db" where
  "RotateAuthSession now hash successor db =
     (if length (filter (live_session now hash) (ad_Sessions db)) \<noteq> 1 then Inr (False, db)
      else and_then (insert_session (fresh_session successor) (revoke_sessions now (live_session now hash) db))
             (\<lambda>(_, db'). Inr (True, db')))"

definition mfa_challenge :: "go_time \<Rightarrow> string \<Rightarrow> string \<Rightarrow> auth_session \<Rightarrow> bool" where
  "mfa_challenge now hash userID s \<longleftrightarrow>
     as_SessionHash s = hash \<and> as_UserID s = userID \<and> as_SessionPrefix s = ''mfa'' \<and>
     as_RevokedAt s = None \<and> now < as_ExpiresAt s"

definition completeMFALogin ::
  "go_time \<Rightarrow> string \<Rightarrow> auth_user \<Rightarrow> auth_user \<Rightarrow> auth_session \<Rightarrow> auth_session \<Rightarrow> auth_db
     \<Rightarrow> auth_error + auth_user \<times> auth_db" where
  "completeMFALogin now hash user previous refresh browser db =
     (if \<not> MFAEnabled previous \<or> as_UserID refresh \<noteq> au_ID user \<or> as_UserID browser \<noteq> au_ID user
      then Inl MFAChanged
      else and_then (updateUserMFA now user previous db) (\<lambda>(user', db1).
        if length (filter (mfa_challenge now hash (au_ID user)) (ad_Sessions db1)) \<noteq> 1 then Inl MFAChallenge
        else and_then (insert_session (fresh_session refresh)
                         (revoke_sessions now (mfa_challenge now hash (au_ID user)) db1)) (\<lambda>(_, db2).
             and_then (insert_session (fresh_session browser) db2) (\<lambda>(_, db3). Inr (user', db3)))))"

section \<open>API tokens\<close>

definition inserted_token :: "list_codec \<Rightarrow> go_time \<Rightarrow> api_token \<Rightarrow> api_token" where
  "inserted_token codec now t =
     t\<lparr>at_CreatedAt := (if is_zero_time (at_CreatedAt t) then now else at_CreatedAt t),
       at_Scopes := Encode codec (at_ScopeList t), at_ScopeList := []\<rparr>"

definition CreateAPIToken ::
  "list_codec \<Rightarrow> go_time \<Rightarrow> api_token \<Rightarrow> auth_db \<Rightarrow> auth_error + unit \<times> auth_db" where
  "CreateAPIToken codec now t db =
     (if contains_elem (map at_ID (ad_Tokens db)) (at_ID t) \<or>
         contains_elem (map at_TokenHash (ad_Tokens db)) (at_TokenHash t)
      then Inl UniqueViolation
      else Inr ((), db\<lparr>ad_Tokens := ad_Tokens db @ [inserted_token codec now t]\<rparr>))"

definition decoded_token :: "list_codec \<Rightarrow> api_token \<Rightarrow> api_token" where
  "decoded_token codec t = t\<lparr>at_ScopeList := DecodeScopes codec (at_Scopes t)\<rparr>"

definition GetAPITokenByHash :: "list_codec \<Rightarrow> string \<Rightarrow> auth_db \<Rightarrow> auth_error + api_token" where
  "GetAPITokenByHash codec hash db =
     and_then (query_row (first_by at_TokenHash (ad_Tokens db) hash)) (\<lambda>t. Inr (decoded_token codec t))"

definition GetAPITokenByID :: "list_codec \<Rightarrow> string \<Rightarrow> auth_db \<Rightarrow> auth_error + api_token" where
  "GetAPITokenByID codec i db =
     and_then (query_row (first_by at_ID (ad_Tokens db) i)) (\<lambda>t. Inr (decoded_token codec t))"

definition ListAPITokensByUser :: "list_codec \<Rightarrow> string \<Rightarrow> auth_db \<Rightarrow> api_token list" where
  "ListAPITokensByUser codec userID db =
     map (decoded_token codec)
       (sort_key (\<lambda>t. - at_CreatedAt t) (filter (\<lambda>t. at_UserID t = userID) (ad_Tokens db)))"

definition ListAllAPITokens :: "list_codec \<Rightarrow> auth_db \<Rightarrow> api_token list" where
  "ListAllAPITokens codec db =
     map (decoded_token codec) (sort_key (\<lambda>t. - at_CreatedAt t) (ad_Tokens db))"

definition revoke_tokens :: "go_time \<Rightarrow> (api_token \<Rightarrow> bool) \<Rightarrow> auth_db \<Rightarrow> auth_db" where
  "revoke_tokens now hit db =
     db\<lparr>ad_Tokens := update_where hit (\<lambda>t. t\<lparr>at_RevokedAt := Some now\<rparr>) (ad_Tokens db)\<rparr>"

definition RevokeAPIToken :: "go_time \<Rightarrow> string \<Rightarrow> auth_db \<Rightarrow> auth_error + unit \<times> auth_db" where
  "RevokeAPIToken now i db = Inr ((), revoke_tokens now (\<lambda>t. at_ID t = i) db)"

definition RevokeAPITokensByUser ::
  "go_time \<Rightarrow> string \<Rightarrow> string \<Rightarrow> auth_db \<Rightarrow> auth_error + unit \<times> auth_db" where
  "RevokeAPITokensByUser now userID exceptTokenID db =
     Inr ((), if exceptTokenID \<noteq> []
              then revoke_tokens now
                     (\<lambda>t. at_UserID t = userID \<and> at_ID t \<noteq> exceptTokenID \<and> at_RevokedAt t = None) db
              else revoke_tokens now (\<lambda>t. at_UserID t = userID \<and> at_RevokedAt t = None) db)"

definition TouchAPIToken :: "go_time \<Rightarrow> string \<Rightarrow> auth_db \<Rightarrow> auth_error + unit \<times> auth_db" where
  "TouchAPIToken now i db =
     Inr ((), db\<lparr>ad_Tokens := update_where (\<lambda>t. at_ID t = i) (\<lambda>t. t\<lparr>at_LastUsedAt := Some now\<rparr>)
                                (ad_Tokens db)\<rparr>)"

section \<open>Who a credential is\<close>

text \<open>The resolvers of \<open>internal/api/server.go\<close>; the hash of a credential is a parameter. The resolver of
  tokens touches the token in another goroutine, the one of sessions before it answers.\<close>

record resolved_token =
  rt_TokenID :: string
  rt_UserID :: string
  rt_Email :: string
  rt_Scopes :: "string list"

record resolved_session =
  rs_SessionID :: string
  rs_UserID :: string
  rs_Email :: string

definition token_expired :: "go_time \<Rightarrow> api_token \<Rightarrow> bool" where
  "token_expired now t \<longleftrightarrow> (case at_ExpiresAt t of None \<Rightarrow> False | Some expires \<Rightarrow> expires < now)"

definition makeAPITokenResolver ::
  "(string \<Rightarrow> string) \<Rightarrow> list_codec \<Rightarrow> go_time \<Rightarrow> string \<Rightarrow> auth_db \<Rightarrow> resolved_token option" where
  "makeAPITokenResolver hash codec now plaintext db =
     (case GetAPITokenByHash codec (hash plaintext) db of
        Inl e \<Rightarrow> None
      | Inr tok \<Rightarrow>
          if at_RevokedAt tok \<noteq> None then None
          else if token_expired now tok then None
          else Some \<lparr>rt_TokenID = at_ID tok, rt_UserID = at_UserID tok,
                     rt_Email = (case GetUserByID (at_UserID tok) db of Inl e \<Rightarrow> [] | Inr u \<Rightarrow> au_Email u),
                     rt_Scopes = at_ScopeList tok\<rparr>)"

definition makeSessionResolver ::
  "(string \<Rightarrow> string) \<Rightarrow> go_time \<Rightarrow> string \<Rightarrow> auth_db \<Rightarrow> resolved_session option \<times> auth_db" where
  "makeSessionResolver hash now plaintext db =
     (case GetAuthSessionByHash (hash plaintext) db of
        Inl e \<Rightarrow> (None, db)
      | Inr session \<Rightarrow>
          if as_RevokedAt session \<noteq> None \<or> \<not> now < as_ExpiresAt session then (None, db)
          else case GetUserByID (as_UserID session) db of
              Inl e \<Rightarrow> (None, db)
            | Inr user \<Rightarrow>
                (Some \<lparr>rs_SessionID = as_ID session, rs_UserID = au_ID user, rs_Email = au_Email user\<rparr>,
                 case TouchAuthSession now (as_ID session) db of Inl e \<Rightarrow> db | Inr (_, db') \<Rightarrow> db'))"

section \<open>Settings\<close>

definition GetSetting :: "string \<Rightarrow> auth_db \<Rightarrow> auth_error + string" where
  "GetSetting k db = query_row (ad_Settings db k)"

definition SetSetting :: "string \<Rightarrow> string \<Rightarrow> auth_db \<Rightarrow> auth_error + unit \<times> auth_db" where
  "SetSetting k v db = Inr ((), db\<lparr>ad_Settings := (ad_Settings db)(k \<mapsto> v)\<rparr>)"

end
