(* ===== verification/Factors.thy ===== *)
theory Factors
  imports AuthStore
begin

text \<open>
  Second factors and the login guard: \<open>internal/auth/totp.go\<close>, \<open>internal/auth/loginGuard.go\<close> and the
  functions of \<open>internal/api/routes/mfa.go\<close> that change the factor state of an account. HOTP, SHA-256
  and the encryption of secrets are parameters; random text is an argument.
\<close>

section \<open>One-time codes\<close>

text \<open>\<open>hotp.ValidateCustom\<close> (\<open>None\<close> for an error), SHA-256 in hexadecimal, and \<open>internal/secrets\<close>.\<close>

record factor_lib =
  fl_Hotp :: "string \<Rightarrow> int \<Rightarrow> string \<Rightarrow> bool option"
  fl_SHA256 :: "string \<Rightarrow> string"
  fl_Decrypt :: "string \<Rightarrow> string option"
  fl_Codec :: list_codec

text \<open>\<open>Unix()\<close>: seconds since 1970.\<close>

definition unix_seconds :: "go_time \<Rightarrow> int" where
  "unix_seconds t = t div second - 62135596800"

fun totp_loop :: "factor_lib \<Rightarrow> string \<Rightarrow> string \<Rightarrow> int list \<Rightarrow> int \<times> bool" where
  "totp_loop lib code secret [] = (-1, False)"
| "totp_loop lib code secret (step # steps) =
     (case fl_Hotp lib (trim_space code) step secret of
        None \<Rightarrow> (-1, False)
      | Some ok \<Rightarrow> if ok then (step, True) else totp_loop lib code secret steps)"

definition ValidateTOTP :: "factor_lib \<Rightarrow> string \<Rightarrow> string \<Rightarrow> go_time \<Rightarrow> int \<times> bool" where
  "ValidateTOTP lib code secret now =
     (if unix_seconds now < 0 then (-1, False)
      else let current = unix_seconds now div 30 in
        totp_loop lib code secret (takeWhile (\<lambda>step. 0 \<le> step) [current + 1, current, current - 1]))"

definition HashRecoveryCode :: "factor_lib \<Rightarrow> string \<Rightarrow> string" where
  "HashRecoveryCode lib code = fl_SHA256 lib (to_lower (trim_space code))"

text \<open>The base32 text of the random bytes is an argument.\<close>

definition GenerateRecoveryCodes :: "factor_lib \<Rightarrow> string list \<Rightarrow> string list \<times> string list" where
  "GenerateRecoveryCodes lib texts =
     (let plain = map (\<lambda>s. take 4 (to_lower s) @ ''-'' @ drop 4 (to_lower s)) texts in
      (plain, map (HashRecoveryCode lib) plain))"

fun match_loop :: "string \<Rightarrow> nat \<Rightarrow> string list \<Rightarrow> nat option" where
  "match_loop want i [] = None"
| "match_loop want i (h # hashes) = (if h = want then Some i else match_loop want (Suc i) hashes)"

definition MatchRecoveryCode :: "factor_lib \<Rightarrow> string \<Rightarrow> string list \<Rightarrow> nat option" where
  "MatchRecoveryCode lib code hashes = match_loop (HashRecoveryCode lib code) 0 hashes"

section \<open>The factor state of an account\<close>

definition recovery_hashes :: "factor_lib \<Rightarrow> auth_user \<Rightarrow> string list" where
  "recovery_hashes lib user =
     (if au_TOTPRecoveryCodes user \<noteq> [] then fst (lc_Unmarshal (fl_Codec lib) (au_TOTPRecoveryCodes user))
      else [])"

definition use_totp :: "factor_lib \<Rightarrow> go_time \<Rightarrow> auth_user \<Rightarrow> string \<Rightarrow> auth_user option" where
  "use_totp lib now user code =
     (case fl_Decrypt lib (au_TOTPSecret user) of
        None \<Rightarrow> None
      | Some secret \<Rightarrow>
          (case ValidateTOTP lib code secret now of
             (step, ok) \<Rightarrow> if ok \<and> au_TOTPLastStep user < step then Some (user\<lparr>au_TOTPLastStep := step\<rparr>)
                           else None))"

definition use_recovery :: "factor_lib \<Rightarrow> auth_user \<Rightarrow> string \<Rightarrow> auth_user option" where
  "use_recovery lib user code =
     (case MatchRecoveryCode lib code (recovery_hashes lib user) of
        None \<Rightarrow> None
      | Some idx \<Rightarrow>
          Some (user\<lparr>au_TOTPRecoveryCodes :=
            lc_Marshal (fl_Codec lib)
              (take idx (recovery_hashes lib user) @ drop (Suc idx) (recovery_hashes lib user))\<rparr>))"

definition verifyMFACode :: "factor_lib \<Rightarrow> go_time \<Rightarrow> auth_user \<Rightarrow> string \<Rightarrow> auth_user option" where
  "verifyMFACode lib now user code =
     (case use_totp lib now user code of Some u \<Rightarrow> Some u | None \<Rightarrow> use_recovery lib user code)"

definition clearUserMFA :: "auth_user \<Rightarrow> auth_user" where
  "clearUserMFA user =
     user\<lparr>au_TOTPSecret := [], au_TOTPEnabled := False, au_TOTPRecoveryCodes := [], au_TOTPLastStep := -1\<rparr>"

text \<open>At start-up, an account that has a factor but no last step (its column is newer) is denied the whole
  current window. \<open>time.Now().Unix()/30\<close> rounds towards zero.\<close>

definition migrateMFAReplay :: "go_time \<Rightarrow> auth_db \<Rightarrow> auth_db" where
  "migrateMFAReplay now db =
     db\<lparr>ad_Users := update_where (\<lambda>u. au_TOTPEnabled u \<and> au_TOTPLastStep u = -1)
        (\<lambda>u. u\<lparr>au_TOTPLastStep := (if 0 \<le> unix_seconds now then unix_seconds now div 30
                                   else - (- unix_seconds now div 30)) + 1\<rparr>) (ad_Users db)\<rparr>"

text \<open>What \<open>MFASetup\<close> and \<open>MFAActivate\<close> write.\<close>

definition pending_factor :: "string \<Rightarrow> auth_user \<Rightarrow> auth_user" where
  "pending_factor enc user =
     user\<lparr>au_TOTPSecret := enc, au_TOTPEnabled := False, au_TOTPRecoveryCodes := [], au_TOTPLastStep := -1\<rparr>"

definition active_factor :: "string \<Rightarrow> int \<Rightarrow> auth_user \<Rightarrow> auth_user" where
  "active_factor codesJSON step user =
     user\<lparr>au_TOTPEnabled := True, au_TOTPLastStep := step, au_TOTPRecoveryCodes := codesJSON\<rparr>"

section \<open>The login guard\<close>

record login_state =
  ls_Fails :: int
  ls_Until :: go_time

type_synonym login_tries = "string \<Rightarrow> login_state option"

definition loginFailLimit :: int where
  "loginFailLimit = 10"

definition loginLockFor :: duration where
  "loginLockFor = 15 * minute"

definition loginEmail :: "string \<Rightarrow> string" where
  "loginEmail email = to_lower (trim_space email)"

definition LoginLocked :: "go_time \<Rightarrow> string \<Rightarrow> login_tries \<Rightarrow> bool \<times> login_tries" where
  "LoginLocked now email tries =
     (case tries (loginEmail email) of
        None \<Rightarrow> (False, tries)
      | Some st \<Rightarrow>
          if is_zero_time (ls_Until st) then (False, tries)
          else if now < ls_Until st then (True, tries)
          else (False, tries(loginEmail email := None)))"

definition RecordLoginFailure :: "go_time \<Rightarrow> string \<Rightarrow> login_tries \<Rightarrow> login_tries" where
  "RecordLoginFailure now email tries =
     (let st = (case tries (loginEmail email) of None \<Rightarrow> \<lparr>ls_Fails = 0, ls_Until = 0\<rparr> | Some st \<Rightarrow> st) in
      if \<not> is_zero_time (ls_Until st) \<and> now < ls_Until st then tries
      else let st = st\<lparr>ls_Fails := ls_Fails st + 1\<rparr>;
               st = (if loginFailLimit \<le> ls_Fails st then st\<lparr>ls_Until := now + loginLockFor\<rparr> else st) in
           tries(loginEmail email \<mapsto> st))"

definition ClearLoginFailures :: "string \<Rightarrow> login_tries \<Rightarrow> login_tries" where
  "ClearLoginFailures email tries = tries(loginEmail email := None)"

section \<open>Properties of the codes\<close>

lemma totp_loop_Some:
  "totp_loop lib code secret steps = (step, True) \<Longrightarrow> step \<in> set steps \<and> fl_Hotp lib (trim_space code) step secret = Some True"
  by (induction steps) (auto split: option.splits if_splits)

text \<open>An accepted code belongs to the current half-minute or to one next to it.\<close>

lemma totp_window:
  assumes "ValidateTOTP lib code secret now = (step, True)"
  shows "0 \<le> step" "\<bar>step - unix_seconds now div 30\<bar> \<le> 1" "fl_Hotp lib (trim_space code) step secret = Some True"
proof -
  define current where "current = unix_seconds now div 30"
  have "totp_loop lib code secret (takeWhile (\<lambda>step. 0 \<le> step) [current + 1, current, current - 1]) = (step, True)"
    using assms by (simp add: ValidateTOTP_def Let_def current_def split: if_splits)
  note found = totp_loop_Some [OF this]
  then have "step \<in> {current + 1, current, current - 1}" "0 \<le> step" by (auto dest: set_takeWhileD)
  then show "0 \<le> step" "\<bar>step - unix_seconds now div 30\<bar> \<le> 1" "fl_Hotp lib (trim_space code) step secret = Some True"
    using found by (auto simp: current_def)
qed

lemma match_loop_Some:
  "match_loop want i hashes = Some j \<Longrightarrow> \<exists>k. j = i + k \<and> k < length hashes \<and> hashes ! k = want"
proof (induction hashes arbitrary: i)
  case (Cons h hs)
  show ?case
  proof (cases "h = want")
    case False
    then obtain k where "j = Suc i + k" "k < length hs" "hs ! k = want"
      using Cons.IH [of "Suc i"] Cons.prems by auto
    then show ?thesis by (intro exI [of _ "Suc k"]) simp
  qed (use Cons.prems in auto)
qed simp

lemma match_loop_None: "match_loop want i hashes = None \<longleftrightarrow> want \<notin> set hashes"
  by (induction hashes arbitrary: i) auto

lemma use_totp_Some:
  assumes "use_totp lib now user code = Some u"
  obtains step where "u = user\<lparr>au_TOTPLastStep := step\<rparr>" "au_TOTPLastStep user < step"
    "\<bar>step - unix_seconds now div 30\<bar> \<le> 1"
proof -
  obtain secret step where "ValidateTOTP lib code secret now = (step, True)"
    "u = user\<lparr>au_TOTPLastStep := step\<rparr>" "au_TOTPLastStep user < step"
    using assms by (auto simp: use_totp_def split: option.splits prod.splits if_splits)
  then show thesis using totp_window(2) that by blast
qed

lemma use_recovery_Some:
  assumes "use_recovery lib user code = Some u"
  obtains idx where "idx < length (recovery_hashes lib user)"
    "recovery_hashes lib user ! idx = HashRecoveryCode lib code"
    "u = user\<lparr>au_TOTPRecoveryCodes :=
           lc_Marshal (fl_Codec lib)
             (take idx (recovery_hashes lib user) @ drop (Suc idx) (recovery_hashes lib user))\<rparr>"
proof -
  obtain idx where m: "match_loop (HashRecoveryCode lib code) 0 (recovery_hashes lib user) = Some idx"
    and u: "u = user\<lparr>au_TOTPRecoveryCodes :=
           lc_Marshal (fl_Codec lib)
             (take idx (recovery_hashes lib user) @ drop (Suc idx) (recovery_hashes lib user))\<rparr>"
    using assms by (auto simp: use_recovery_def MatchRecoveryCode_def split: option.splits)
  then show thesis using match_loop_Some [OF m] that [of idx] by auto
qed

end
