(* ===== verification/AuthSteps.thy ===== *)
theory AuthSteps
  imports Factors
begin

text \<open>
  What can happen to the accounts, sessions and tokens: \<open>auth_step\<close> is one operation of the store with
  whatever arguments a handler, a concurrent request or another process gives it. The step relation
  keeps the constraints of the schema, and each credential that may be used once is an interpretation
  of one interface: what is spent stays spent.
\<close>

section \<open>Steps of the store\<close>

text \<open>The changes of factor state that the handlers write with \<open>UpdateUserMFA\<close>.\<close>

inductive factor_write :: "auth_user \<Rightarrow> auth_user \<Rightarrow> bool" where
  pending: "\<not> MFAEnabled u \<Longrightarrow> factor_write u (pending_factor enc u)"
| active: "\<not> MFAEnabled u \<Longrightarrow> au_TOTPLastStep u < step \<Longrightarrow> factor_write u (active_factor codes step u)"
| cleared: "factor_write u (clearUserMFA u)"

text \<open>
  Identifiers of accounts come from \<open>uuid.New\<close> and the secrets of sessions from a random source: no
  account is created with one of the identifiers \<open>ids\<close>, and no session with one of the \<open>hashes\<close>, that
  were in use before. The clock of a server that starts shows a time after 1970.
\<close>

inductive auth_step :: "factor_lib \<Rightarrow> (string \<Rightarrow> bool) \<Rightarrow> (string \<Rightarrow> bool) \<Rightarrow> auth_db \<Rightarrow> auth_db \<Rightarrow> bool"
  for lib ids hashes where
  create_user: "CreateUser now u db = Inr (r, db') \<Longrightarrow> \<not> ids (au_ID u) \<Longrightarrow> auth_step lib ids hashes db db'"
| update_user: "updateUser now u db = Inr (r, db') \<Longrightarrow> auth_step lib ids hashes db db'"
| update_personas: "UpdateUserScannerSupplyChainPersonas now i e db = Inr ((), db') \<Longrightarrow> auth_step lib ids hashes db db'"
| update_profile: "UpdateUserProfile now u db = Inr ((), db') \<Longrightarrow> auth_step lib ids hashes db db'"
| delete_user: "DeleteUser i db = Inr ((), db') \<Longrightarrow> auth_step lib ids hashes db db'"
| update_factor: "updateUserMFA now u p db = Inr (r, db') \<Longrightarrow> factor_write p u \<Longrightarrow> auth_step lib ids hashes db db'"
| replay_migration: "0 \<le> unix_seconds now \<Longrightarrow> auth_step lib ids hashes db (migrateMFAReplay now db)"
| create_session: "CreateAuthSession now s db = Inr ((), db') \<Longrightarrow> \<not> hashes (as_SessionHash s) \<Longrightarrow>
    auth_step lib ids hashes db db'"
| revoke_session: "RevokeAuthSessionByHash now h db = Inr ((), db') \<Longrightarrow> auth_step lib ids hashes db db'"
| revoke_sessions_of: "RevokeAuthSessionsByUser now i x db = Inr ((), db') \<Longrightarrow> auth_step lib ids hashes db db'"
| touch_session: "TouchAuthSession now i db = Inr ((), db') \<Longrightarrow> auth_step lib ids hashes db db'"
| rotate_session: "RotateAuthSession now h s db = Inr (b, db') \<Longrightarrow> \<not> hashes (as_SessionHash s) \<Longrightarrow>
    auth_step lib ids hashes db db'"
| complete_login:
    "completeMFALogin now h u p s s' db = Inr (r, db') \<Longrightarrow> verifyMFACode lib now' p code = Some u \<Longrightarrow>
       \<not> hashes (as_SessionHash s) \<Longrightarrow> \<not> hashes (as_SessionHash s') \<Longrightarrow>
       auth_step lib ids hashes db db'"
| create_token: "CreateAPIToken (fl_Codec lib) now t db = Inr ((), db') \<Longrightarrow> auth_step lib ids hashes db db'"
| revoke_token: "RevokeAPIToken now i db = Inr ((), db') \<Longrightarrow> auth_step lib ids hashes db db'"
| revoke_tokens_of: "RevokeAPITokensByUser now i x db = Inr ((), db') \<Longrightarrow> auth_step lib ids hashes db db'"
| touch_token: "TouchAPIToken now i db = Inr ((), db') \<Longrightarrow> auth_step lib ids hashes db db'"
| set_setting: "SetSetting k v db = Inr ((), db') \<Longrightarrow> auth_step lib ids hashes db db'"
| other_tables: "auth_step lib ids hashes db (db\<lparr>ad_Referenced := refs\<rparr>)"

abbreviation auth_run :: "factor_lib \<Rightarrow> (string \<Rightarrow> bool) \<Rightarrow> (string \<Rightarrow> bool) \<Rightarrow> auth_db \<Rightarrow> auth_db \<Rightarrow> bool" where
  "auth_run lib ids hashes \<equiv> (auth_step lib ids hashes)\<^sup>*\<^sup>*"

section \<open>The constraints of the schema\<close>

definition auth_ok :: "auth_db \<Rightarrow> bool" where
  "auth_ok db \<longleftrightarrow>
     distinct (map au_ID (ad_Users db)) \<and> distinct (map au_Email (ad_Users db)) \<and>
     distinct (map as_ID (ad_Sessions db)) \<and> distinct (map as_SessionHash (ad_Sessions db)) \<and>
     distinct (map at_ID (ad_Tokens db)) \<and> distinct (map at_TokenHash (ad_Tokens db)) \<and>
     (\<forall>s \<in> set (ad_Sessions db). as_UserID s \<in> au_ID ` set (ad_Users db))"

lemma image_update_where:
  "(\<And>r. key (f r) = key r) \<Longrightarrow> key ` set (update_where cond f rows) = key ` set rows"
  by (metis list.set_map map_update_where)

lemma distinct_email_update:
  assumes "distinct (map au_ID rows)" "distinct (map au_Email rows)"
    and hit: "\<And>r. cond r \<Longrightarrow> au_ID r = i" and new: "\<And>r. au_Email (f r) = email"
    and free: "\<not> list_ex (\<lambda>u. au_ID u \<noteq> i \<and> au_Email u = email) rows"
  shows "distinct (map au_Email (update_where cond f rows))"
  using assms(1,2) free
proof (induction rows)
  case (Cons r rows)
  have other: "au_Email r \<notin> au_Email ` set (update_where cond f rows)" if "\<not> cond r"
  proof
    assume "au_Email r \<in> au_Email ` set (update_where cond f rows)"
    then obtain q where q: "q \<in> set rows" "au_Email r = au_Email (if cond q then f q else q)"
      by (auto simp: set_update_where)
    then have "cond q" "au_Email r = email" using Cons.prems(2) new by (auto split: if_splits)
    then have "au_ID q = i" "au_ID r = i" using hit Cons.prems(3) by auto
    then show False using q(1) Cons.prems(1) by auto
  qed
  have hitr: "email \<notin> au_Email ` set (update_where cond f rows)" if "cond r"
  proof
    assume "email \<in> au_Email ` set (update_where cond f rows)"
    then obtain q where q: "q \<in> set rows" "email = au_Email (if cond q then f q else q)"
      by (auto simp: set_update_where)
    have "au_ID q \<noteq> i" using q(1) hit [OF that] Cons.prems(1) by (auto simp: image_iff)
    then have "au_Email q = email" using q(2) hit by (auto split: if_splits)
    then show False using \<open>au_ID q \<noteq> i\<close> q(1) Cons.prems(3) by (auto simp: list_ex_iff)
  qed
  have rest: "distinct (map au_Email (update_where cond f rows))"
    by (rule Cons.IH) (use Cons.prems in simp_all)
  have step: "update_where cond f (r # rows) = (if cond r then f r else r) # update_where cond f rows"
    by (simp add: update_where_def)
  show ?case
  proof (cases "cond r")
    case True
    then show ?thesis using rest hitr new by (simp add: step)
  next
    case False
    then show ?thesis using rest other by (simp add: step)
  qed
qed (simp add: update_where_def)

section \<open>What an operation does when it succeeds\<close>

lemma CreateUser_Inr:
  assumes "CreateUser now u db = Inr (r, db')"
  obtains "db' = db\<lparr>ad_Users := ad_Users db @ [inserted_user (created_user now u)]\<rparr>"
    "au_ID u \<notin> au_ID ` set (ad_Users db)" "au_Email u \<notin> au_Email ` set (ad_Users db)"
  using assms by (auto simp: CreateUser_def split: if_splits)

lemma inserted_user_simps [simp]:
  "au_ID (inserted_user u) = au_ID u" "au_Email (inserted_user u) = au_Email u"
  "au_ID (created_user now u) = au_ID u" "au_Email (created_user now u) = au_Email u"
  by (simp_all add: inserted_user_def created_user_def)

lemma find_SomeD: "find P xs = Some x \<Longrightarrow> x \<in> set xs \<and> P x"
  by (induction xs) (auto split: if_splits)

lemma updateUser_Inr:
  assumes "updateUser now u db = Inr (r, db')"
  obtains "db' = db\<lparr>ad_Users := update_where
             (\<lambda>r. au_ID r = au_ID u \<and> au_CredentialVersion r = au_CredentialVersion u)
             (updated_user now u) (ad_Users db)\<rparr>"
    "\<not> email_taken (au_ID u) (au_Email u) db"
  using assms by (auto simp: updateUser_def Let_def split: option.splits if_splits)

lemma updateUserMFA_Inr:
  assumes "updateUserMFA now u p db = Inr (r, db')"
  obtains "db' = db\<lparr>ad_Users := update_where (unchanged_factor p) (factor_row now u p) (ad_Users db)\<rparr>"
    "au_ID u = au_ID p" "credential_change u p = 0 \<Longrightarrow> au_TOTPLastStep p \<le> au_TOTPLastStep u"
    "length (filter (unchanged_factor p) (ad_Users db)) = 1"
  using assms by (auto simp: updateUserMFA_def split: if_splits)

lemma insert_session_Inr:
  assumes "insert_session s db = Inr (r, db')"
  obtains "db' = db\<lparr>ad_Sessions := ad_Sessions db @ [s]\<rparr>" "as_ID s \<notin> as_ID ` set (ad_Sessions db)"
    "as_SessionHash s \<notin> as_SessionHash ` set (ad_Sessions db)" "as_UserID s \<in> au_ID ` set (ad_Users db)"
  using assms by (auto simp: insert_session_def split: if_splits)

lemma RotateAuthSession_True:
  assumes "RotateAuthSession now h s db = Inr (True, db')"
  obtains "insert_session (fresh_session s) (revoke_sessions now (live_session now h) db) = Inr ((), db')"
    "length (filter (live_session now h) (ad_Sessions db)) = 1"
  using assms by (auto simp: RotateAuthSession_def and_then_Inr split: if_splits)

lemma RotateAuthSession_False: "RotateAuthSession now h s db = Inr (False, db') \<Longrightarrow> db' = db"
  by (auto simp: RotateAuthSession_def and_then_Inr split: if_splits)

lemma completeMFALogin_Inr:
  assumes "completeMFALogin now h u p s s' db = Inr (r, db')"
  obtains db1 db2 where "updateUserMFA now u p db = Inr (r, db1)" "MFAEnabled p"
    "as_UserID s = au_ID u" "as_UserID s' = au_ID u"
    "length (filter (mfa_challenge now h (au_ID u)) (ad_Sessions db1)) = 1"
    "insert_session (fresh_session s) (revoke_sessions now (mfa_challenge now h (au_ID u)) db1) = Inr ((), db2)"
    "insert_session (fresh_session s') db2 = Inr ((), db')"
  using assms by (auto simp: completeMFALogin_def and_then_Inr split: if_splits)

lemma CreateAPIToken_Inr:
  assumes "CreateAPIToken codec now t db = Inr (r, db')"
  obtains "db' = db\<lparr>ad_Tokens := ad_Tokens db @ [inserted_token codec now t]\<rparr>"
    "at_ID t \<notin> at_ID ` set (ad_Tokens db)" "at_TokenHash t \<notin> at_TokenHash ` set (ad_Tokens db)"
  using assms by (auto simp: CreateAPIToken_def split: if_splits)

lemma inserted_token_simps [simp]:
  "at_ID (inserted_token codec now t) = at_ID t" "at_TokenHash (inserted_token codec now t) = at_TokenHash t"
  "at_UserID (inserted_token codec now t) = at_UserID t"
  "at_RevokedAt (inserted_token codec now t) = at_RevokedAt t"
  by (simp_all add: inserted_token_def)

section \<open>The constraints are kept\<close>

lemma auth_ok_users:
  assumes "auth_ok db" "map au_ID us = map au_ID (ad_Users db)" "distinct (map au_Email us)"
  shows "auth_ok (db\<lparr>ad_Users := us\<rparr>)"
proof -
  have "au_ID ` set us = au_ID ` set (ad_Users db)" using assms(2) by (metis list.set_map)
  then show ?thesis using assms by (simp add: auth_ok_def)
qed

lemma auth_ok_updateUserMFA:
  assumes "updateUserMFA now u p db = Inr (r, db')" "auth_ok db"
  shows "auth_ok db'"
proof (rule updateUserMFA_Inr [OF assms(1)])
  assume "db' = db\<lparr>ad_Users := update_where (unchanged_factor p) (factor_row now u p) (ad_Users db)\<rparr>"
  moreover have "auth_ok (db\<lparr>ad_Users := update_where (unchanged_factor p) (factor_row now u p) (ad_Users db)\<rparr>)"
    by (rule auth_ok_users [OF assms(2)])
      (use assms(2) in \<open>simp_all add: map_update_where factor_row_def auth_ok_def\<close>)
  ultimately show ?thesis by simp
qed

lemma auth_ok_insert_session: "insert_session s db = Inr (r, db') \<Longrightarrow> auth_ok db \<Longrightarrow> auth_ok db'"
  by (erule insert_session_Inr) (auto simp: auth_ok_def)

lemma auth_ok_sessions:
  assumes "auth_ok db" "\<And>s. as_ID (f s) = as_ID s" "\<And>s. as_SessionHash (f s) = as_SessionHash s"
    "\<And>s. as_UserID (f s) = as_UserID s"
  shows "auth_ok (db\<lparr>ad_Sessions := update_where hit f (ad_Sessions db)\<rparr>)"
  using assms by (auto simp: auth_ok_def map_update_where set_update_where)

lemma auth_ok_revoke_sessions: "auth_ok db \<Longrightarrow> auth_ok (revoke_sessions now hit db)"
  unfolding revoke_sessions_def by (rule auth_ok_sessions) simp_all

lemma auth_ok_tokens:
  assumes "auth_ok db" "\<And>s. at_ID (f s) = at_ID s" "\<And>s. at_TokenHash (f s) = at_TokenHash s"
  shows "auth_ok (db\<lparr>ad_Tokens := update_where hit f (ad_Tokens db)\<rparr>)"
  using assms by (auto simp: auth_ok_def map_update_where)

lemma auth_ok_email:
  assumes "auth_ok db" "\<And>r. cond r \<Longrightarrow> au_ID r = i" "\<And>r. au_Email (f r) = email" "\<And>r. au_ID (f r) = au_ID r"
    "\<not> email_taken i email db"
  shows "auth_ok (db\<lparr>ad_Users := update_where cond f (ad_Users db)\<rparr>)"
proof (rule auth_ok_users [OF assms(1)])
  show "map au_ID (update_where cond f (ad_Users db)) = map au_ID (ad_Users db)"
    by (rule map_update_where) (rule assms(4))
  show "distinct (map au_Email (update_where cond f (ad_Users db)))"
    by (rule distinct_email_update [of _ cond i f email]) (use assms in \<open>auto simp: auth_ok_def email_taken_def\<close>)
qed

lemma auth_ok_rotate:
  assumes "RotateAuthSession now h s db = Inr (b, db')" "auth_ok db"
  shows "auth_ok db'"
proof (cases b)
  case True
  then have "RotateAuthSession now h s db = Inr (True, db')" using assms(1) by simp
  then show ?thesis
    by (rule RotateAuthSession_True) (rule auth_ok_insert_session, assumption, rule auth_ok_revoke_sessions, rule assms(2))
qed (use assms RotateAuthSession_False [of now h s db db'] in simp)

lemma auth_ok_completeMFALogin:
  assumes "completeMFALogin now h u p s s' db = Inr (r, db')" "auth_ok db"
  shows "auth_ok db'"
proof (rule completeMFALogin_Inr [OF assms(1)])
  fix db1 db2
  assume "updateUserMFA now u p db = Inr (r, db1)"
    and first: "insert_session (fresh_session s) (revoke_sessions now (mfa_challenge now h (au_ID u)) db1) = Inr ((), db2)"
    and second: "insert_session (fresh_session s') db2 = Inr ((), db')"
  then have "auth_ok db1" using auth_ok_updateUserMFA assms(2) by blast
  then show ?thesis using auth_ok_insert_session [OF second] auth_ok_insert_session [OF first] auth_ok_revoke_sessions by blast
qed

lemma auth_ok_step: "auth_step lib ids hashes db db' \<Longrightarrow> auth_ok db \<Longrightarrow> auth_ok db'"
proof (induction rule: auth_step.induct)
  case (create_user now u db r db')
  then show ?case by (elim CreateUser_Inr) (auto simp: auth_ok_def)
next
  case (update_user now u db r db')
  show ?case
  proof (rule updateUser_Inr [OF update_user(1)], hypsubst)
    assume free: "\<not> email_taken (au_ID u) (au_Email u) db"
    show "auth_ok (db\<lparr>ad_Users := update_where (\<lambda>r. au_ID r = au_ID u \<and> au_CredentialVersion r = au_CredentialVersion u)
        (updated_user now u) (ad_Users db)\<rparr>)"
      by (rule auth_ok_email [OF update_user(2) _ _ _ free]) (simp_all add: updated_user_def)
  qed
next
  case (update_personas now i e db db')
  then have "db' = db\<lparr>ad_Users := update_where (\<lambda>u. au_ID u = i)
      (\<lambda>u. u\<lparr>au_Personas := e, au_UpdatedAt := now\<rparr>) (ad_Users db)\<rparr>"
    by (auto simp: UpdateUserScannerSupplyChainPersonas_def split: if_splits)
  then show ?case
    using auth_ok_users [OF update_personas(2)] update_personas(2)
    by (simp add: map_update_where auth_ok_def)
next
  case (update_profile now u db db')
  then have db': "db' = db\<lparr>ad_Users := update_where (\<lambda>r. au_ID r = au_ID u)
      (\<lambda>r. r\<lparr>au_Email := au_Email u, au_DisplayName := au_DisplayName u, au_UpdatedAt := now\<rparr>) (ad_Users db)\<rparr>"
    and free: "au_ID u \<in> au_ID ` set (ad_Users db) \<longrightarrow> \<not> email_taken (au_ID u) (au_Email u) db"
    by (auto simp: UpdateUserProfile_def split: if_splits)
  show ?case
  proof (cases "au_ID u \<in> au_ID ` set (ad_Users db)")
    case True
    with free have "\<not> email_taken (au_ID u) (au_Email u) db" by blast
    then show ?thesis unfolding db' by (rule auth_ok_email [OF update_profile(2), rotated -1]) simp_all
  next
    case False
    then have "update_where (\<lambda>r. au_ID r = au_ID u) f (ad_Users db) = ad_Users db" for f
      unfolding update_where_def by (intro map_idI) (metis image_eqI)
    then show ?thesis using update_profile(2) db' by simp
  qed
next
  case (replay_migration now db)
  show ?case
    unfolding migrateMFAReplay_def
    by (rule auth_ok_users [OF replay_migration(2)])
      (use replay_migration(2) in \<open>simp_all add: map_update_where auth_ok_def\<close>)
next
  case (delete_user i db db')
  then have "db' = db\<lparr>ad_Users := filter (\<lambda>u. au_ID u \<noteq> i) (ad_Users db),
      ad_Sessions := filter (\<lambda>s. as_UserID s \<noteq> i) (ad_Sessions db)\<rparr>"
    by (auto simp: DeleteUser_def split: if_splits)
  then show ?case using delete_user(2) by (auto simp: auth_ok_def distinct_map_filter)
next
  case (create_session now s db db')
  then show ?case by (auto simp: CreateAuthSession_def elim!: auth_ok_insert_session split: if_splits)
next
  case (create_token now t db db')
  then show ?case by (elim CreateAPIToken_Inr) (auto simp: auth_ok_def)
next
  case (touch_token now i db db')
  then show ?case using auth_ok_tokens by (auto simp: TouchAPIToken_def)
next
  case (touch_session now i db db')
  then show ?case using auth_ok_sessions by (auto simp: TouchAuthSession_def)
next
  case (set_setting k v db db')
  then show ?case by (auto simp: SetSetting_def auth_ok_def)
next
  case (other_tables db refs)
  then show ?case by (simp add: auth_ok_def)
next
  case (revoke_token now i db db')
  then show ?case using auth_ok_tokens by (auto simp: RevokeAPIToken_def revoke_tokens_def)
next
  case (revoke_tokens_of now i x db db')
  then show ?case using auth_ok_tokens by (auto simp: RevokeAPITokensByUser_def revoke_tokens_def split: if_splits)
qed (auto simp: RevokeAuthSessionByHash_def RevokeAuthSessionsByUser_def
    intro: auth_ok_updateUserMFA auth_ok_rotate auth_ok_completeMFALogin auth_ok_revoke_sessions split: if_splits)

lemma auth_ok_run: "auth_run lib ids hashes db db' \<Longrightarrow> auth_ok db \<Longrightarrow> auth_ok db'"
  by (induction rule: rtranclp_induct) (auto dest: auth_ok_step)

section \<open>Credentials that are used once\<close>

text \<open>A credential that a step accepts is spent by it, a spent one is not accepted, and no step of the
  store restores it.\<close>

locale one_time =
  fixes step :: "'s \<Rightarrow> 's \<Rightarrow> bool"
    and accepts :: "'s \<Rightarrow> 's \<Rightarrow> bool"
    and spent :: "'s \<Rightarrow> bool"
  assumes spent_stays: "step s s' \<Longrightarrow> spent s \<Longrightarrow> spent s'"
    and accept_spends: "accepts s s' \<Longrightarrow> spent s'"
    and spent_refused: "accepts s s' \<Longrightarrow> \<not> spent s"
begin

lemma spent_forever: "step\<^sup>*\<^sup>* s s' \<Longrightarrow> spent s \<Longrightarrow> spent s'"
  by (induction rule: rtranclp_induct) (auto intro: spent_stays)

lemma at_most_once: "accepts s0 s1 \<Longrightarrow> step\<^sup>*\<^sup>* s1 s2 \<Longrightarrow> \<not> accepts s2 s3"
  using accept_spends spent_forever spent_refused by blast

end

section \<open>What a step leaves of a session\<close>

definition session_kept :: "auth_session \<Rightarrow> auth_session \<Rightarrow> bool" where
  "session_kept s s' \<longleftrightarrow>
     as_SessionHash s' = as_SessionHash s \<and> (as_RevokedAt s \<noteq> None \<longrightarrow> as_RevokedAt s' \<noteq> None)"

text \<open>Every session row comes from one before, or has a hash that was not used before.\<close>

definition sessions_kept :: "(string \<Rightarrow> bool) \<Rightarrow> auth_db \<Rightarrow> auth_db \<Rightarrow> bool" where
  "sessions_kept hashes db db' \<longleftrightarrow>
     (\<forall>s' \<in> set (ad_Sessions db').
        (\<exists>s \<in> set (ad_Sessions db). session_kept s s') \<or> \<not> hashes (as_SessionHash s'))"

lemma sessions_same: "ad_Sessions db' = ad_Sessions db \<Longrightarrow> sessions_kept hashes db db'"
  by (auto simp: sessions_kept_def session_kept_def)

lemma sessions_trans:
  assumes "sessions_kept hashes a b" "sessions_kept hashes b c"
  shows "sessions_kept hashes a c"
  using assms unfolding sessions_kept_def session_kept_def by metis

lemma sessions_update:
  assumes "\<And>s. session_kept s (f s)"
  shows "sessions_kept hashes db (db\<lparr>ad_Sessions := update_where hit f (ad_Sessions db)\<rparr>)"
  using assms by (auto simp: sessions_kept_def set_update_where session_kept_def)

lemma sessions_revoked: "sessions_kept hashes db (revoke_sessions now hit db)"
  unfolding revoke_sessions_def by (rule sessions_update) (simp add: session_kept_def)

lemma sessions_inserted:
  assumes "insert_session s db = Inr (r, db')" "\<not> hashes (as_SessionHash s)"
  shows "sessions_kept hashes db db'"
  by (rule insert_session_Inr [OF assms(1)]) (use assms(2) in \<open>auto simp: sessions_kept_def session_kept_def\<close>)

lemma fresh_session_hash [simp]: "as_SessionHash (fresh_session s) = as_SessionHash s"
  by (simp add: fresh_session_def)

lemma updateUserMFA_sessions: "updateUserMFA now u p db = Inr (r, db') \<Longrightarrow> ad_Sessions db' = ad_Sessions db"
  by (erule updateUserMFA_Inr) simp

lemma sessions_rotated:
  assumes "RotateAuthSession now h s db = Inr (b, db')" "\<not> hashes (as_SessionHash s)"
  shows "sessions_kept hashes db db'"
proof (cases b)
  case True
  then have "RotateAuthSession now h s db = Inr (True, db')" using assms(1) by simp
  then show ?thesis
    by (rule RotateAuthSession_True)
      (erule sessions_trans [OF sessions_revoked sessions_inserted], use assms(2) in simp)
next
  case False
  then show ?thesis using assms(1) RotateAuthSession_False [of now h s db db'] sessions_same by simp
qed

lemma sessions_completed:
  assumes "completeMFALogin now h u p s s' db = Inr (r, db')"
    "\<not> hashes (as_SessionHash s)" "\<not> hashes (as_SessionHash s')"
  shows "sessions_kept hashes db db'"
proof (rule completeMFALogin_Inr [OF assms(1)])
  fix db1 db2
  assume "updateUserMFA now u p db = Inr (r, db1)"
    and first: "insert_session (fresh_session s) (revoke_sessions now (mfa_challenge now h (au_ID u)) db1) = Inr ((), db2)"
    and second: "insert_session (fresh_session s') db2 = Inr ((), db')"
  then have "sessions_kept hashes db db1" using updateUserMFA_sessions sessions_same by blast
  then have "sessions_kept hashes db (revoke_sessions now (mfa_challenge now h (au_ID u)) db1)"
    by (rule sessions_trans) (rule sessions_revoked)
  then have "sessions_kept hashes db db2"
    by (rule sessions_trans) (rule sessions_inserted [OF first], use assms(2) in simp)
  then show ?thesis
    by (rule sessions_trans) (rule sessions_inserted [OF second], use assms(3) in simp)
qed

lemma step_sessions:
  assumes "auth_step lib ids hashes db db'"
  shows "sessions_kept hashes db db'"
  using assms
proof (induction rule: auth_step.induct)
  case (create_user now u db r db')
  then show ?case by (elim CreateUser_Inr) (simp add: sessions_same)
next
  case (update_user now u db r db')
  then show ?case by (elim updateUser_Inr) (simp add: sessions_same)
next
  case (update_factor now u p db r db')
  then show ?case using updateUserMFA_sessions sessions_same by blast
next
  case (delete_user i db db')
  then show ?case by (auto simp: DeleteUser_def sessions_kept_def session_kept_def split: if_splits)
next
  case (create_session now s db db')
  then show ?case
    by (auto simp: CreateAuthSession_def split: if_splits elim!: sessions_inserted)
next
  case (touch_session now i db db')
  then show ?case by (auto simp: TouchAuthSession_def session_kept_def intro!: sessions_update)
next
  case (rotate_session now h s db b db')
  then show ?case by (rule sessions_rotated)
next
  case (complete_login now h u p s s' db r db' now' code)
  then show ?case using sessions_completed by blast
next
  case (create_token now t db db')
  then show ?case by (elim CreateAPIToken_Inr) (simp add: sessions_same)
qed (auto simp: RevokeAuthSessionByHash_def RevokeAuthSessionsByUser_def sessions_revoked
    UpdateUserScannerSupplyChainPersonas_def UpdateUserProfile_def RevokeAPIToken_def RevokeAPITokensByUser_def
    TouchAPIToken_def SetSetting_def revoke_tokens_def migrateMFAReplay_def split: if_splits intro!: sessions_same)

end
