(* ===== verification/AuthLaws.thy ===== *)
theory AuthLaws
  imports AuthSteps
begin

text \<open>
  What the account store promises of credentials that may be used once: a session secret is exchanged
  at most once, whether as a refresh token or as the challenge of a login with two factors, and a time
  step or a recovery code completes at most one login. Both are interpretations of \<open>one_time\<close> on the
  steps of the store.
\<close>

section \<open>What a step leaves of a factor\<close>























section \<open>Session secrets are exchanged once\<close>

text \<open>The two exchanges of a secret for new sessions: the rotation of a refresh token, and the completion
  of a login whose challenge it is.\<close>

inductive exchanged :: "string \<Rightarrow> auth_db \<Rightarrow> auth_db \<Rightarrow> bool" for h where
  rotated: "RotateAuthSession now h s db = Inr (True, db') \<Longrightarrow> exchanged h db db'"
| completed: "completeMFALogin now h u p s s' db = Inr (r, db') \<Longrightarrow> exchanged h db db'"

definition session_spent :: "string \<Rightarrow> auth_db \<Rightarrow> bool" where
  "session_spent h db \<longleftrightarrow> (\<forall>s \<in> set (ad_Sessions db). as_SessionHash s = h \<longrightarrow> as_RevokedAt s \<noteq> None)"

lemma spent_kept:
  "sessions_kept hashes db db' \<Longrightarrow> hashes h \<Longrightarrow> session_spent h db \<Longrightarrow> session_spent h db'"
  unfolding sessions_kept_def session_spent_def session_kept_def by metis

lemma filter_one: "length (filter hit xs) = 1 \<Longrightarrow> \<exists>x \<in> set xs. hit x"
  by (metis filter_empty_conv length_0_conv zero_neq_one)

lemma spent_revoked:
  assumes "distinct (map as_SessionHash (ad_Sessions db))" "length (filter hit (ad_Sessions db)) = 1"
    "\<And>s. hit s \<Longrightarrow> as_SessionHash s = h"
  shows "session_spent h (revoke_sessions now hit db)"
  unfolding session_spent_def
proof (intro ballI impI)
  fix s' assume s': "s' \<in> set (ad_Sessions (revoke_sessions now hit db))" "as_SessionHash s' = h"
  then obtain s where s: "s \<in> set (ad_Sessions db)" "s' = (if hit s then s\<lparr>as_RevokedAt := Some now\<rparr> else s)"
    by (auto simp: revoke_sessions_def set_update_where)
  obtain q where q: "q \<in> set (ad_Sessions db)" "hit q"
    using filter_one [OF assms(2)] by blast
  have "as_SessionHash s = as_SessionHash q" using s s'(2) assms(3) [OF q(2)] by (auto split: if_splits)
  then have "s = q" using assms(1) s(1) q(1) by (auto simp: distinct_map inj_on_def)
  then show "as_RevokedAt s' \<noteq> None" using s(2) q(2) by simp
qed

text \<open>The old row stays, so the new session cannot have its hash.\<close>

definition session_known :: "string \<Rightarrow> auth_db \<Rightarrow> bool" where
  "session_known h db \<longleftrightarrow> h \<in> as_SessionHash ` set (ad_Sessions db)"

lemma spent_inserted:
  "insert_session s db = Inr (r, db') \<Longrightarrow> session_known h db \<and> session_spent h db \<Longrightarrow>
   session_known h db' \<and> session_spent h db'"
  by (erule insert_session_Inr) (auto simp: session_spent_def session_known_def)

lemma live_not_spent:
  "length (filter hit (ad_Sessions db)) = 1 \<Longrightarrow> (\<And>s. hit s \<Longrightarrow> as_SessionHash s = h \<and> as_RevokedAt s = None) \<Longrightarrow>
   \<not> session_spent h db"
  using filter_one [of hit "ad_Sessions db"] by (auto simp: session_spent_def)

lemma spent_and_known:
  assumes "auth_ok db" "length (filter hit (ad_Sessions db)) = 1" "\<And>s. hit s \<Longrightarrow> as_SessionHash s = h"
  shows "session_known h (revoke_sessions now hit db) \<and> session_spent h (revoke_sessions now hit db)"
proof
  have "h \<in> as_SessionHash ` set (ad_Sessions db)" using filter_one [OF assms(2)] assms(3) by blast
  then show "session_known h (revoke_sessions now hit db)"
    unfolding session_known_def revoke_sessions_def by (simp add: image_update_where)
  show "session_spent h (revoke_sessions now hit db)"
    by (rule spent_revoked [OF _ assms(2,3)]) (use assms(1) in \<open>simp add: auth_ok_def\<close>)
qed

lemma exchanged_spends:
  assumes "exchanged h db db'" "auth_ok db"
  shows "session_spent h db' \<and> \<not> session_spent h db"
  using assms
proof (induction rule: exchanged.induct)
  case (rotated now s db db')
  have hash: "as_SessionHash q = h \<and> as_RevokedAt q = None" if "live_session now h q" for q
    using that by (simp add: live_session_def)
  show ?case
  proof (rule RotateAuthSession_True [OF rotated(1)])
    assume new: "insert_session (fresh_session s) (revoke_sessions now (live_session now h) db) = Inr ((), db')"
      and one: "length (filter (live_session now h) (ad_Sessions db)) = 1"
    have "session_spent h db'"
      using spent_inserted [OF new spent_and_known [OF rotated(2) one]] hash by blast
    then show ?thesis using live_not_spent [OF one] hash by blast
  qed
next
  case (completed now u p s s' db r db')
  have hash: "as_SessionHash q = h \<and> as_RevokedAt q = None" if "mfa_challenge now h i q" for q i
    using that by (simp add: mfa_challenge_def)
  show ?case
  proof (rule completeMFALogin_Inr [OF completed(1)])
    fix db1 db2
    assume upd: "updateUserMFA now u p db = Inr (r, db1)"
      and one: "length (filter (mfa_challenge now h (au_ID u)) (ad_Sessions db1)) = 1"
      and first: "insert_session (fresh_session s) (revoke_sessions now (mfa_challenge now h (au_ID u)) db1) = Inr ((), db2)"
      and second: "insert_session (fresh_session s') db2 = Inr ((), db')"
    have ok1: "auth_ok db1" by (rule auth_ok_updateUserMFA [OF upd completed(2)])
    have "session_spent h db'"
      using spent_inserted [OF second spent_inserted [OF first spent_and_known [OF ok1 one]]] hash by blast
    moreover have "\<not> session_spent h db"
      using live_not_spent [OF one [unfolded updateUserMFA_sessions [OF upd]]] hash by blast
    ultimately show ?thesis by blast
  qed
qed



interpretation session_secret: one_time "auth_step lib ids (\<lambda>x. x = h)"
    "\<lambda>db db'. auth_ok db \<and> exchanged h db db'" "session_spent h" for lib ids h
  by unfold_locales (auto intro: spent_kept dest: step_sessions exchanged_spends)

lemma exchanged_auth_ok: "exchanged h db db' \<Longrightarrow> auth_ok db \<Longrightarrow> auth_ok db'"
  by (induction rule: exchanged.induct) (auto intro: auth_ok_rotate auth_ok_completeMFALogin)

section \<open>Second factors are used once\<close>
















section \<open>Credentials of a deleted account\<close>

text \<open>A session never names a deleted account, but its API tokens keep all their scopes: they name the
  account without a constraint, and the resolver does not ask whether it exists.\<close>

lemma deleted_user:
  assumes "DeleteUser i db = Inr (r, db')"
  shows "ad_Tokens db' = ad_Tokens db" "i \<notin> au_ID ` set (ad_Users db')"
  using assms by (auto simp: DeleteUser_def split: if_splits)

lemma sessions_end_with_account:
  assumes "DeleteUser i db = Inr (r, db')" "makeSessionResolver hash now plaintext db' = (Some s, db'')"
  shows "rs_UserID s \<noteq> i"
  using assms(2) deleted_user(2) [OF assms(1)]
  by (auto simp: makeSessionResolver_def GetUserByID_def query_row_def image_iff
      split: sum.splits if_splits option.splits dest: first_by_Some)

lemma tokens_outlive_account:
  assumes "DeleteUser i db = Inr (r, db')" "makeAPITokenResolver hash codec now plaintext db = Some t"
  shows "\<exists>t'. makeAPITokenResolver hash codec now plaintext db' = Some t' \<and>
    rt_TokenID t' = rt_TokenID t \<and> rt_UserID t' = rt_UserID t \<and> rt_Scopes t' = rt_Scopes t"
proof -
  have "GetAPITokenByHash codec (hash plaintext) db' = GetAPITokenByHash codec (hash plaintext) db"
    by (simp add: GetAPITokenByHash_def deleted_user(1) [OF assms(1)])
  then show ?thesis using assms(2) by (auto simp: makeAPITokenResolver_def split: sum.splits if_splits)
qed

section \<open>An example\<close>

text \<open>A codec that marks every character and the end of every string.\<close>

definition marked :: "string \<Rightarrow> string" where
  "marked s = concat (map (\<lambda>c. [CHR ''c'', c]) s) @ ''e''"

fun unmarked :: "string \<Rightarrow> string \<Rightarrow> string list" where
  "unmarked acc [] = []"
| "unmarked acc [x] = [acc]"
| "unmarked acc (x # y # t) = (if x = CHR ''c'' then unmarked (acc @ [y]) t else acc # unmarked [] (y # t))"



text \<open>Every code is right at every time step, and a secret is its own encryption.\<close>

definition sample_factors :: factor_lib where
  "sample_factors = \<lparr>fl_Hotp = (\<lambda>code step secret. Some True), fl_SHA256 = (\<lambda>s. s), fl_Decrypt = Some,
     fl_Codec = \<lparr>lc_Marshal = (\<lambda>xs. concat (map marked xs)), lc_Unmarshal = (\<lambda>s. (unmarked [] s, False))\<rparr>\<rparr>"


definition sample_time :: go_time where
  "sample_time = (62135596800 + 300) * second"

definition sample_account :: auth_user where
  "sample_account =
     \<lparr>au_ID = ''u'', au_Email = ''a@b'', au_PasswordHash = ''p'', au_Role = ''user'', au_DisplayName = [],
      au_Personas = [], au_TOTPSecret = ''k'', au_TOTPEnabled = True, au_TOTPRecoveryCodes = marked ''r'',
      au_CredentialVersion = 1, au_MFARevision = 0, au_TOTPLastStep = 5, au_CreatedAt = 1, au_UpdatedAt = 1\<rparr>"

definition sample_session :: "string \<Rightarrow> string \<Rightarrow> auth_session" where
  "sample_session h prefix =
     \<lparr>as_ID = h, as_UserID = ''u'', as_SessionHash = h, as_SessionPrefix = prefix, as_CreatedAt = sample_time,
      as_LastUsedAt = None, as_ExpiresAt = sample_time + hour, as_RevokedAt = None\<rparr>"

definition sample_accounts :: auth_db where
  "sample_accounts =
     \<lparr>ad_Users = [sample_account], ad_Sessions = [sample_session ''c1'' ''mfa'', sample_session ''r1'' ''ref''],
      ad_Tokens = [], ad_Settings = Map.empty, ad_Referenced = (\<lambda>_. False)\<rparr>"

lemma sample_accounts_ok: "auth_ok sample_accounts"
  by (simp add: auth_ok_def sample_accounts_def sample_session_def sample_account_def)


text \<open>The results of the operations below, and the next challenge.\<close>

definition state_after :: "auth_error + 'a \<times> auth_db \<Rightarrow> auth_db" where
  "state_after res = (case res of Inl e \<Rightarrow> sample_accounts | Inr (r, db) \<Rightarrow> db)"

abbreviation challenged :: "auth_db \<Rightarrow> auth_db" where
  "challenged db \<equiv> state_after (CreateAuthSession sample_time (sample_session ''c2'' ''mfa'') db)"


definition sample_rotation :: "auth_error + bool \<times> auth_db" where
  "sample_rotation = RotateAuthSession sample_time ''r1'' (sample_session ''r2'' ''ref'') sample_accounts"

lemma state_after_Inr: "\<not> isl res \<Longrightarrow> \<exists>r. res = Inr (r, state_after res)"
  by (cases res) (auto simp: state_after_def)


lemma sample_rotated: "exchanged ''r1'' sample_accounts (state_after sample_rotation)"
proof -
  have "\<not> isl sample_rotation \<and> fst (projr sample_rotation)" by code_simp
  then obtain r where r: "sample_rotation = Inr (r, state_after sample_rotation)" "fst (projr sample_rotation)"
    using state_after_Inr by blast
  have "projr sample_rotation = (r, state_after sample_rotation)" by (metis r(1) sum.sel(2))
  then have "sample_rotation = Inr (True, state_after sample_rotation)" using r by simp
  then show ?thesis unfolding sample_rotation_def by (rule exchanged.rotated)
qed

lemma sample_challenged:
  assumes "\<not> isl (CreateAuthSession sample_time (sample_session ''c2'' ''mfa'') db)" "\<not> hashes ''c2''"
  shows "auth_run lib ids hashes db (challenged db)"
proof -
  have "CreateAuthSession sample_time (sample_session ''c2'' ''mfa'') db = Inr ((), challenged db)"
    using state_after_Inr [OF assms(1)] by auto
  then have "auth_step lib ids hashes db (challenged db)"
    by (rule auth_step.create_session) (use assms(2) in \<open>simp add: sample_session_def\<close>)
  then show ?thesis by (rule r_into_rtranclp)
qed

section \<open>The properties\<close>

text \<open>C39: A session secret is exchanged at most once. Once a refresh token has been rotated or a challenge
  has completed a login, then whatever other requests, logouts, password changes and deletions do, neither
  exchange succeeds with the same secret again, as long as no session is created with the same hash: a
  stolen refresh token is worthless after its owner used it, and the other way round. Assumed are the
  constraints of the schema before the first exchange.\<close>

theorem session_exchanged_once:
  assumes "auth_ok db0" "exchanged h db0 db1" "auth_run lib ids (\<lambda>x. x = h) db1 db2"
  shows "\<not> exchanged h db2 db3"
proof
  assume again: "exchanged h db2 db3"
  have "auth_ok db2" using auth_ok_run [OF assms(3)] exchanged_auth_ok [OF assms(2,1)] by blast
  then show False
    using session_secret.at_most_once [OF conjI [OF assms(1,2)] assms(3)] again by blast
qed

lemma session_exchanged_once_witness:
  "\<nexists>db3. exchanged ''r1'' (challenged (state_after sample_rotation)) db3"
proof -
  have "auth_run sample_factors (\<lambda>i. False) (\<lambda>h. h = ''r1'') (state_after sample_rotation)
      (challenged (state_after sample_rotation))"
    by (rule sample_challenged) code_simp+
  then show ?thesis using session_exchanged_once [OF sample_accounts_ok sample_rotated] by blast
qed



end
