(* ===== verification/Spec2Isabelle.thy ===== *)
theory Spec2Isabelle
  imports RolloutAPI ControllerStore Pipeline Gates Baselines Schedules ScanQueueLaws CatalogLaws WorkerLaws AuthLaws
begin

text \<open>
  \<^bold>\<open>TheWolf in Isabelle/HOL.\<close>

  TheWolf is a security-scanning platform in Go. It has two halves that share one database. One half
  scans repositories: scanners report findings, findings get stable identities, are suppressed, are
  compared with earlier scans and are judged by quality gates. The other half builds, approves and
  rolls out the images of the scanners themselves: a candidate is planned, built, judged by a policy,
  published as a release and rolled out to the workers. This development models the decisions of both
  halves as functions on explicit states, in the order of the code, and proves what they promise.

  \<^bold>\<open>The scanner supply chain.\<close>

  \<^item> \<open>ReleaseState\<close> (\<open>internal/scannerrelease/state.go\<close>): the life cycles of discovery runs,
    candidates, builds, releases and rollouts as tables, their validation, and what every sequence of
    validated updates satisfies.
  \<^item> \<open>Dependencies\<close>, \<open>Pipeline\<close> (\<open>internal/scannerpipeline/plan.go\<close>): the dependency search, the
    plan of a release, its validation and the steps that are ready. Validation is exactly acyclicity,
    a validated plan completes, and the policy is evaluated only after all evidence.
  \<^item> \<open>ScannerPolicy\<close> (\<open>internal/scannerpolicy/policy.go\<close>): the promotion policy, its
    normalization, the binding of approvals and the evaluation of a candidate; what an unblocked, an
    approved and an automatically promoted candidate has, and that the order of the inputs is
    irrelevant.
  \<^item> \<open>Schedules\<close> (\<open>internal/scannerpolicy/schedule.go\<close>): schedules and maintenance windows. The
    cron library and the time zone database are the parameter \<open>clock\<close>, whose documented behaviour
    (the next occurrence is later, and none is skipped) is the hypothesis \<open>cron_law\<close>. The library answers
    the zero time when it finds no occurrence; the overlap check is exact for a window that fires at
    every time (\<open>fires\<close>) or at none (\<open>never_fires\<close>), and two windows that never fire are rejected.
  \<^item> \<open>Rollout\<close> with \<open>GoFloat\<close> (\<open>internal/scannerrollout/rollout.go\<close>): the rollout aggregate and the
    canary decision in IEEE double arithmetic with its rounding.
  \<^item> \<open>ReleaseStore\<close>, \<open>StoreLog\<close>, \<open>StoreLeases\<close>
    (\<open>internal/db/scannerrelease_repository.go\<close>): the rollout, cohort, claim and event tables with the
    constraints of their schema and each repository operation as one transaction. \<open>store_step\<close> is one
    committed transaction; the event log refines the state of each rollout, versions are never
    updated twice, and leases are fenced.
  \<^item> \<open>RolloutAPI\<close> (\<open>internal/api/routes/scanner_supply_chain.go\<close>): the pause, resume and rollback
    handlers.
  \<^item> \<open>RolloutController\<close>, \<open>ControllerLaws\<close>, \<open>ControllerSafety\<close>, \<open>ControllerStore\<close>
    (\<open>internal/scannerrollout/controller.go\<close>, \<open>controller_types.go\<close>, \<open>gate.go\<close>): one pass of the
    rollout controller as a program over a world of a store, a clock, other processes that commit
    before any of its calls, faults (a lost acknowledgement included) and a runtime. Its calls are
    recorded; laws about traces of calls are lifted over the program by the locale \<open>trace_law\<close> and its
    extensions, and \<open>ControllerStore\<close> shows that a pass only commits transactions of the store.

  \<^bold>\<open>Candidates, builds and releases.\<close>

  \<^item> \<open>SupplyStore\<close>, \<open>BuildStore\<close> (\<open>internal/db/scannerrelease_repository.go\<close>): the tables of policies,
    candidates, builds, steps and approvals, with the constraints of their schema and each repository
    operation. \<open>SupplyLaws\<close>: \<open>supply_step\<close> is one committed transaction; a version fences what was read
    under it (the locale \<open>fenced_rows\<close>, interpreted for builds, steps and candidates), and a cancelled
    build never completes.
  \<^item> \<open>SupplyCalls\<close>: programs that make one call of this store after the other, while other processes
    commit and calls are lost. \<open>CandidateControl\<close> (\<open>internal/scannercontrol/service.go\<close>, the retry and
    cancel handlers of \<open>internal/api/routes/scanner_supply_chain.go\<close>): the commands on candidates.
  \<^item> \<open>Publication\<close> (\<open>internal/scannercontrol/publication.go\<close>,
    \<open>internal/scannerrelease/publication_inventory.go\<close>, \<open>publication_receipt.go\<close>): receipts of release
    builds and the verifier that holds them against the durable evidence. \<open>ControlLaws\<close>: what commands
    and verified receipts guarantee.
  \<^item> \<open>ReleaseCatalog\<close>: release names, the inventory of a release and the publication transaction.
    \<open>CatalogLaws\<close>: names are allocated in finitely many steps and kept, and a publication is whole.
  \<^item> \<open>WorkerPlan\<close>, \<open>ReleaseWorker\<close>, \<open>WorkerSteps\<close>, \<open>WorkerRun\<close>
    (\<open>internal/scannerreleaseworker/plan.go\<close>, \<open>worker.go\<close>, \<open>types.go\<close>): the worker that executes release
    builds, as programs over the same store: the plan restored from the persisted steps, the lease, a
    step with its evidence and the trusted decision of the policy, the claim of a build and the marking
    of its candidate. The executor, the files of a workspace and redaction are the environment.
    \<open>SupplyLog\<close>: the event log only grows, and a command that is logged has no second effect (the locale
    \<open>command_log\<close>). \<open>WorkerLaws\<close>: a pass is a run of store transactions, a build is finalized only under
    its lease, a plan that ends is fully evidenced and one that is open never stalls, the executor
    cannot decide, and what a second build of a candidate cannot record again.

  \<^bold>\<open>Findings.\<close>

  \<^item> \<open>Findings\<close> (\<open>internal/finding/identity\<close>): fingerprints and identities; SHA-256 is a parameter,
    assumed not to collide on the inputs at hand where a theorem needs it.
  \<^item> \<open>Globs\<close>, \<open>Suppress\<close> (\<open>internal/scan/suppress\<close>, \<open>internal/gitops/ignore.go\<close>): path globs, rules,
    the default rules, the rule file, git's answers and snapshots of a policy.
  \<^item> \<open>FindingDiff\<close> (\<open>internal/finding/diff\<close>, \<open>internal/finding/suppression\<close>): the comparison of two
    scans and the durable suppressions.
  \<^item> \<open>Gates\<close> (\<open>internal/finding/gates\<close>): quality gates, completeness of a scan and measured coverage.
  \<^item> \<open>Baselines\<close> (\<open>internal/db/finding_baselines.go\<close>, \<open>scan_baselines.go\<close>): publishing the
    classification of the findings of a scan as one transaction.
  \<^item> \<open>ScanQueue\<close> (\<open>internal/db/postgres_scanqueue.go\<close> and the files it calls,
    \<open>internal/scanjob/worker.go\<close>): the queue of scans with its leases, retries, cancellations, findings,
    tool runs, captured ignore policies and events, and the decisions of its worker. \<open>ScanQueueLaws\<close> has the
    system of the database, the tokens given out and the copies of rows that executors hold, and what
    each run of it keeps. Executors also write whole rows back without a token, which no fence stops: the
    runs of \<open>queue_step True\<close> have these writes, those of \<open>queue_step False\<close> do not. Transactions on the
    evidence of scans that are not modelled one by one (\<open>CompleteScan\<close>, clusters, baselines, triage) are
    steps that leave what the queue decides on alone. Deleting a scan or a repository is not a step.

  \<^bold>\<open>Accounts.\<close>

  \<^item> \<open>Scopes\<close> (\<open>internal/auth/apikey/scopes.go\<close>): scopes, what they imply, personas and requested scope
    lists. Implication is transitive, so that delegation never escalates; parsed lists are normal forms.
  \<^item> \<open>AuthStore\<close> (\<open>internal/db/users.go\<close>, \<open>mfa.go\<close>, \<open>postgres_sessions.go\<close>,
    \<open>postgres_apitokens.go\<close>), \<open>Factors\<close> (\<open>internal/auth/totp.go\<close>, \<open>loginGuard.go\<close>, the factor changes of
    \<open>internal/api/routes/mfa.go\<close>): the tables of accounts, sessions and tokens with the constraints of
    their schema, one-time codes, recovery codes and the lock after failed logins.
  \<^item> \<open>AuthSteps\<close>, \<open>AuthLaws\<close>: \<open>auth_step\<close> is one transaction on these tables. Credentials that may be used
    once are interpretations of the locale \<open>one_time\<close>: a session secret is exchanged at most once, and a
    time step or a recovery code completes at most one login of an account at a credential version.

  The leases of rollouts and of scans share the contract \<open>fenced_leases\<close> of the theory \<open>Leases\<close>.

  \<^bold>\<open>Conventions.\<close> \<open>GoPrelude\<close> and \<open>GoText\<close> hold the operations of the Go standard library that the
  modelled code uses. A Go error is the left value of a sum, with one constructor for each error the
  code tells apart; error texts that nothing reads are dropped. An enumeration over strings is a
  datatype with one more constructor for every other string. A 64-bit integer is an \<open>int\<close>, with
  \<open>wrap64\<close> or the range written out where the code can overflow; a slice or a table is a list, and a
  Go map whose order matters is a list in an arbitrary order that the theorem quantifies over. Strings
  are ASCII where letters are folded or globs are matched. Times and durations are integers of
  nanoseconds; zero is Go's zero time.

  \<^bold>\<open>Fuel.\<close> Printing a number has as fuel the number of its binary digits, parsing the length of
  the text; both are shown to be enough by the round trips of \<open>GoText\<close>. The overlap check of
  maintenance windows has the cap of the code itself, 2048 steps, and its theorem says what the cap
  costs. No other recursion has fuel; the loops that wait for the store (the plan of a build, the phases
  of a candidate, the name of a release) are \<open>None\<close> where they do not end.

  \<^bold>\<open>Not modelled.\<close> JSON is decoded and encoded by parameters, as are digests, cron expressions,
  one-time passwords, encryption, git and the database driver. The handlers that only forward to the store, the sessions and tokens of a request (middleware, web
  tokens, single sign-on), the workers of
  discovery runs, proposals, registries, signing, bundles and notifications, the executor of build steps
  and the files of its workspace, the scanners
  and their report formats, the command line, the language-model features and the user interface are
  input and output around the modelled decisions. Log lines, metrics and traces are left out.
\<close>

end
